(* ===== verification/Prelude.thy ===== *)
theory Prelude
  imports Main "HOL-Library.Word" "HOL-Library.Char_ord"
begin

text \<open>
  Shared ground of the development: Python exceptions as values, byte strings, the values that
  \<^verbatim>\<open>json.loads\<close> can return, dictionaries in insertion order and the string methods
  the sources call.

  Text is a HOL \<open>string\<close>, a list of the code points 0 to 255 (Latin-1); code points beyond
  255 are outside the model.  Dictionaries are association lists in insertion order, whose keys
  are distinct when they are built by the operations below.
\<close>

named_theorems exn_simps "evaluation of the exception monad"
named_theorems dict_simps "lookups after updates of a dictionary"

section \<open>Exceptions\<close>

text \<open>
  The exception classes the sources raise or catch.  An \<open>OSError\<close> carries its text and the
  graph of exceptions it is linked to: \<open>oe_nodes\<close> lists the exception objects, the error itself
  first, and the \<^verbatim>\<open>__cause__\<close> and \<^verbatim>\<open>__context__\<close> links are positions of
  that list (links may form cycles; a position outside the list stands for no object).
\<close>

record exc_node =
  en_is_os :: bool
  en_errno :: "int option"
  en_winerror :: "int option"
  en_cause :: "nat option"
  en_context :: "nat option"

record os_error =
  oe_text :: string
  oe_nodes :: "exc_node list"

definition os_error_of :: "string \<Rightarrow> int option \<Rightarrow> os_error" where
  "os_error_of txt errno =
     \<lparr>oe_text = txt, oe_nodes = [\<lparr>en_is_os = True, en_errno = errno, en_winerror = None,
        en_cause = None, en_context = None\<rparr>]\<rparr>"

definition oe_errno :: "os_error \<Rightarrow> int option" where
  "oe_errno e = (case oe_nodes e of [] \<Rightarrow> None | n # _ \<Rightarrow> en_errno n)"

text \<open>\<open>raised_during e old\<close>: \<open>e\<close> raised while \<open>old\<close> is being handled gets \<open>old\<close> as its context.\<close>

definition shift_node :: "nat \<Rightarrow> exc_node \<Rightarrow> exc_node" where
  "shift_node k n = n\<lparr>en_cause := map_option ((+) k) (en_cause n),
                      en_context := map_option ((+) k) (en_context n)\<rparr>"

definition raised_during :: "os_error \<Rightarrow> os_error \<Rightarrow> os_error" where
  "raised_during e old =
     (case oe_nodes e of
        [] \<Rightarrow> e
      | n # ns \<Rightarrow> e\<lparr>oe_nodes := n\<lparr>en_context := Some (length (oe_nodes e))\<rparr> # ns
                       @ map (shift_node (length (oe_nodes e))) (oe_nodes old)\<rparr>)"

datatype pyexn =
    ValueError string
  | RuntimeError string
  | OverflowError string
  | KeyError string
  | TypeError string
  | IntegrityError string
  | ProgrammingError string
  | OSError os_error

type_synonym 'a res = "pyexn + 'a"

definition bindE :: "'e + 'a \<Rightarrow> ('a \<Rightarrow> 'e + 'b) \<Rightarrow> 'e + 'b" where
  "bindE m f = (case m of Inl e \<Rightarrow> Inl e | Inr x \<Rightarrow> f x)"

lemma bindE_Inl [simp, exn_simps]: "bindE (Inl e) f = Inl e"
  by (simp add: bindE_def)

lemma bindE_Inr [simp, exn_simps]: "bindE (Inr x) f = f x"
  by (simp add: bindE_def)

lemma bindE_eq_Inr [exn_simps]: "bindE m f = Inr y \<longleftrightarrow> (\<exists>x. m = Inr x \<and> f x = Inr y)"
  by (cases m) auto

lemma bindE_eq_Inl [exn_simps]:
  "bindE m f = Inl e \<longleftrightarrow> m = Inl e \<or> (\<exists>x. m = Inr x \<and> f x = Inl e)"
  by (cases m) auto

lemma bindE_cong [fundef_cong]:
  "m = m' \<Longrightarrow> (\<And>x. m' = Inr x \<Longrightarrow> f x = g x) \<Longrightarrow> bindE m f = bindE m' g"
  by (cases m') auto

text \<open>\<^verbatim>\<open>[f(x) for x in xs]\<close> where \<open>f\<close> may raise: the first exception wins.\<close>

fun mapE :: "('a \<Rightarrow> 'e + 'b) \<Rightarrow> 'a list \<Rightarrow> 'e + 'b list" where
  "mapE f [] = Inr []"
| "mapE f (x # xs) = bindE (f x) (\<lambda>y. bindE (mapE f xs) (\<lambda>ys. Inr (y # ys)))"

lemma mapE_Inr_length: "mapE f xs = Inr ys \<Longrightarrow> length ys = length xs"
  by (induction xs arbitrary: ys) (auto simp: exn_simps)

lemma mapE_Inr_iff: "mapE f xs = Inr ys \<longleftrightarrow> list_all2 (\<lambda>x y. f x = Inr y) xs ys"
proof (induction xs arbitrary: ys)
  case Nil
  then show ?case by auto
next
  case (Cons x xs)
  then show ?case by (cases ys) (auto simp: exn_simps)
qed

section \<open>Bytes\<close>

type_synonym byte = "8 word"

text \<open>\<^verbatim>\<open>n.to_bytes(k, "big")\<close> and \<^verbatim>\<open>int.from_bytes(bs, "big")\<close>.\<close>

fun to_bytes_be :: "nat \<Rightarrow> nat \<Rightarrow> byte list" where
  "to_bytes_be 0 n = []"
| "to_bytes_be (Suc k) n = to_bytes_be k (n div 256) @ [word_of_nat n]"

definition from_bytes_be :: "byte list \<Rightarrow> nat" where
  "from_bytes_be bs = foldl (\<lambda>a b. a * 256 + unat b) 0 bs"

lemma length_to_bytes_be [simp]: "length (to_bytes_be k n) = k"
  by (induction k n rule: to_bytes_be.induct) auto

lemma from_bytes_be_snoc [simp]: "from_bytes_be (bs @ [b]) = from_bytes_be bs * 256 + unat b"
  by (simp add: from_bytes_be_def)

lemma from_bytes_be_Nil [simp]: "from_bytes_be [] = 0"
  by (simp add: from_bytes_be_def)

lemma unat_byte_less: "unat (b :: byte) < 256"
  using unsigned_less [of b] by simp

lemma unat_word_of_nat_byte: "unat (word_of_nat n :: byte) = n mod 256"
  by (simp add: unat_of_nat)

lemma from_to_bytes_be: "n < 256 ^ k \<Longrightarrow> from_bytes_be (to_bytes_be k n) = n"
proof (induction k n rule: to_bytes_be.induct)
  case (1 n)
  then show ?case by simp
next
  case (2 k n)
  then have "n div 256 < 256 ^ k"
    by (simp add: less_mult_imp_div_less mult.commute)
  with 2 show ?case by (simp add: unat_word_of_nat_byte)
qed

lemma from_bytes_be_bound: "from_bytes_be bs < 256 ^ length bs"
proof (induction bs rule: rev_induct)
  case Nil
  then show ?case by simp
next
  case (snoc b bs)
  have "from_bytes_be bs * 256 + unat b < (from_bytes_be bs + 1) * 256"
    using unat_byte_less [of b] by simp
  also have "\<dots> \<le> 256 ^ length bs * 256"
    using snoc by (intro mult_right_mono) auto
  finally show ?case by (simp add: mult.commute)
qed

lemma to_from_bytes_be: "to_bytes_be (length bs) (from_bytes_be bs) = bs"
proof (induction bs rule: rev_induct)
  case Nil
  then show ?case by simp
next
  case (snoc b bs)
  have "(from_bytes_be bs * 256 + unat b) div 256 = from_bytes_be bs"
    using unat_byte_less [of b] by simp
  moreover have "(word_of_nat (from_bytes_be bs * 256 + unat b) :: byte) = b"
    by (rule word_unat_eq_iff [THEN iffD2])
      (use unat_byte_less [of b] in \<open>simp add: unat_word_of_nat_byte del: of_nat_add of_nat_mult\<close>)
  ultimately show ?case using snoc by simp
qed

text \<open>\<^verbatim>\<open>s.encode("ascii")\<close> and \<^verbatim>\<open>bs.decode("ascii")\<close>, \<open>None\<close> for the Unicode errors.\<close>

definition ascii_byte :: "char \<Rightarrow> byte option" where
  "ascii_byte c = (let n = of_char c :: nat in if n < 128 then Some (word_of_nat n) else None)"

definition ascii_char :: "byte \<Rightarrow> char option" where
  "ascii_char b = (if unat b < 128 then Some (char_of (unat b)) else None)"

definition encode_ascii :: "string \<Rightarrow> byte list option" where
  "encode_ascii s = those (map ascii_byte s)"

definition decode_ascii :: "byte list \<Rightarrow> string option" where
  "decode_ascii bs = those (map ascii_char bs)"

lemma ascii_char_byte: "ascii_byte c = Some b \<Longrightarrow> ascii_char b = Some c"
  by (auto simp: ascii_byte_def ascii_char_def Let_def unat_word_of_nat_byte split: if_splits)

lemma ascii_byte_char: "ascii_char b = Some c \<Longrightarrow> ascii_byte c = Some b"
  using unat_byte_less [of b]
  by (auto simp: ascii_byte_def ascii_char_def Let_def split: if_splits)

lemma those_eq_Some_iff: "those xs = Some ys \<longleftrightarrow> xs = map Some ys"
proof (induction xs arbitrary: ys)
  case Nil
  then show ?case by auto
next
  case (Cons x xs)
  then show ?case by (cases x; cases ys) (auto split: option.splits)
qed

lemma those_map_inverse:
  assumes "\<And>x y. f x = Some y \<Longrightarrow> g y = Some x" and "those (map f xs) = Some ys"
  shows "those (map g ys) = Some xs"
  using assms(2)
proof (induction xs arbitrary: ys)
  case Nil
  then show ?case by auto
next
  case (Cons x xs)
  then show ?case by (auto split: option.splits dest: assms(1))
qed

lemma decode_encode_ascii: "encode_ascii s = Some bs \<Longrightarrow> decode_ascii bs = Some s"
  unfolding encode_ascii_def decode_ascii_def
  by (rule those_map_inverse [where f = ascii_byte]) (auto dest: ascii_char_byte)

lemma encode_decode_ascii: "decode_ascii bs = Some s \<Longrightarrow> encode_ascii s = Some bs"
  unfolding encode_ascii_def decode_ascii_def
  by (rule those_map_inverse [where f = ascii_char]) (auto dest: ascii_byte_char)

lemma those_length: "those xs = Some ys \<Longrightarrow> length ys = length xs"
  by (simp add: those_eq_Some_iff)

lemma encode_ascii_length: "encode_ascii s = Some bs \<Longrightarrow> length bs = length s"
  by (auto simp: encode_ascii_def dest: those_length)

lemma decode_ascii_length: "decode_ascii bs = Some s \<Longrightarrow> length s = length bs"
  by (auto simp: decode_ascii_def dest: those_length)

section \<open>Text\<close>

text \<open>A name between the single quotes of an f-string.\<close>

definition quoted :: "string \<Rightarrow> string" where
  "quoted s = CHR 0x27 # s @ [CHR 0x27]"

text \<open>\<^verbatim>\<open>str(n)\<close> of a natural number, and \<^verbatim>\<open>f"{n:0kd}"\<close>.\<close>

fun digits_rev :: "nat \<Rightarrow> nat list" where
  "digits_rev n = (if n < 10 then [n] else n mod 10 # digits_rev (n div 10))"

declare digits_rev.simps [simp del]

definition digit_char :: "nat \<Rightarrow> char" where
  "digit_char d = char_of (48 + d)"

definition str_nat :: "nat \<Rightarrow> string" where
  "str_nat n = map digit_char (rev (digits_rev n))"

definition str_int :: "int \<Rightarrow> string" where
  "str_int i = (if i < 0 then CHR ''-'' # str_nat (nat (- i)) else str_nat (nat i))"

definition zero_pad :: "nat \<Rightarrow> string \<Rightarrow> string" where
  "zero_pad k s = replicate (k - length s) (CHR ''0'') @ s"

lemma digits_rev_less_10: "d \<in> set (digits_rev n) \<Longrightarrow> d < 10"
proof (induction n rule: digits_rev.induct)
  case (1 n)
  then show ?case by (cases "n < 10") (auto simp: digits_rev.simps [of n])
qed

lemma digits_rev_value: "foldr (\<lambda>d a. d + 10 * a) (digits_rev n) 0 = n"
proof (induction n rule: digits_rev.induct)
  case (1 n)
  then show ?case by (cases "n < 10") (auto simp: digits_rev.simps [of n])
qed

lemma digit_char_inj: "d < 10 \<Longrightarrow> e < 10 \<Longrightarrow> digit_char d = digit_char e \<Longrightarrow> d = e"
  by (auto simp: digit_char_def dest: arg_cong [where f = "of_char :: char \<Rightarrow> nat"])

lemma str_nat_inj: "str_nat m = str_nat n \<Longrightarrow> m = n"
proof -
  assume "str_nat m = str_nat n"
  then have "map digit_char (digits_rev m) = map digit_char (digits_rev n)"
    by (simp add: str_nat_def rev_map [symmetric])
  moreover have "inj_on digit_char (set (digits_rev m) \<union> set (digits_rev n))"
    by (auto intro!: inj_onI dest: digits_rev_less_10 digit_char_inj)
  ultimately have "digits_rev m = digits_rev n"
    by (rule map_inj_on)
  then show "m = n"
    by (metis digits_rev_value)
qed

lemma digits_rev_ne [simp]: "digits_rev n \<noteq> []"
  by (subst digits_rev.simps) simp

lemma str_nat_ne [simp]: "str_nat n \<noteq> []"
  by (simp add: str_nat_def)

lemma str_nat_digits: "c \<in> set (str_nat n) \<Longrightarrow> 48 \<le> (of_char c :: nat) \<and> (of_char c :: nat) \<le> 57"
  by (auto simp: str_nat_def digit_char_def dest!: digits_rev_less_10)

lemma str_nat_not_in:
  "CHR ''/'' \<notin> set (str_nat n)" "CHR ''.'' \<notin> set (str_nat n)" "CHR ''-'' \<notin> set (str_nat n)"
  using str_nat_digits [of "CHR ''/''" n] str_nat_digits [of "CHR ''.''" n] str_nat_digits [of "CHR ''-''" n]
  by auto

text \<open>\<^verbatim>\<open>int(s)\<close> of a text of decimal digits.\<close>

definition is_ascii_digit :: "char \<Rightarrow> bool" where
  "is_ascii_digit c = (let n = of_char c :: nat in 48 \<le> n \<and> n \<le> 57)"

definition dec_value :: "string \<Rightarrow> nat" where
  "dec_value s = foldl (\<lambda>a c. a * 10 + (of_char c - 48)) 0 s"

lemma dec_value_append: "dec_value (xs @ [c]) = dec_value xs * 10 + (of_char c - 48)"
  by (simp add: dec_value_def)

lemma str_nat_rec: "str_nat n = (if n < 10 then [digit_char n] else str_nat (n div 10) @ [digit_char (n mod 10)])"
  unfolding str_nat_def by (subst digits_rev.simps) simp

lemma dec_value_str_nat: "dec_value (str_nat n) = n"
proof (induction n rule: less_induct)
  case (less n)
  have digit: "(of_char (digit_char d) :: nat) = 48 + d" if "d < 10" for d
    using that by (simp add: digit_char_def)
  show ?case
  proof (cases "n < 10")
    case True
    then show ?thesis by (subst str_nat_rec) (simp add: dec_value_def digit)
  next
    case False
    with less [of "n div 10"] show ?thesis
      by (subst str_nat_rec) (simp add: dec_value_append digit)
  qed
qed


lemma digit_char_digit: "d < 10 \<Longrightarrow> is_ascii_digit (digit_char d)"
  by (simp add: is_ascii_digit_def digit_char_def)

lemma str_nat_ascii_digits: "list_all is_ascii_digit (str_nat n)"
  by (auto simp: list_all_iff is_ascii_digit_def Let_def dest: str_nat_digits)

text \<open>The digits of a positive number do not start with a zero.\<close>

lemma str_nat_hd: "0 < n \<Longrightarrow> hd (str_nat n) \<noteq> CHR ''0''"
proof (induction n rule: less_induct)
  case (less n)
  show ?case
  proof (cases "n < 10")
    case True
    then have "str_nat n = [digit_char n]" by (subst str_nat_rec) simp
    moreover have "digit_char n \<noteq> CHR ''0''"
      using True less.prems by (auto simp: digit_char_def dest: arg_cong [where f = "of_char :: char \<Rightarrow> nat"])
    ultimately show ?thesis by simp
  next
    case False
    then have "str_nat n = str_nat (n div 10) @ [digit_char (n mod 10)]" by (subst str_nat_rec) simp
    with less.IH [of "n div 10"] False show ?thesis by simp
  qed
qed

text \<open>
  \<^verbatim>\<open>str.isspace\<close>, \<^verbatim>\<open>str.strip\<close> with and without an argument,
  \<^verbatim>\<open>str.rstrip(chars)\<close> and \<^verbatim>\<open>str.lower\<close> on the code points 0 to 255.
\<close>

definition py_isspace :: "char \<Rightarrow> bool" where
  "py_isspace c = (let n = of_char c :: nat in
     9 \<le> n \<and> n \<le> 13 \<or> 28 \<le> n \<and> n \<le> 32 \<or> n = 133 \<or> n = 160)"

definition strip_by :: "(char \<Rightarrow> bool) \<Rightarrow> string \<Rightarrow> string" where
  "strip_by p s = rev (dropWhile p (rev (dropWhile p s)))"

definition rstrip_by :: "(char \<Rightarrow> bool) \<Rightarrow> string \<Rightarrow> string" where
  "rstrip_by p s = rev (dropWhile p (rev s))"

abbreviation py_strip :: "string \<Rightarrow> string" where
  "py_strip \<equiv> strip_by py_isspace"

definition lower_char :: "char \<Rightarrow> char" where
  "lower_char c = (let n = of_char c :: nat in
     if 65 \<le> n \<and> n \<le> 90 \<or> 192 \<le> n \<and> n \<le> 222 \<and> n \<noteq> 215 then char_of (n + 32) else c)"

abbreviation py_lower :: "string \<Rightarrow> string" where
  "py_lower \<equiv> map lower_char"

lemma set_strip_by: "set (strip_by p s) \<subseteq> set s"
  by (auto simp: strip_by_def dest!: set_dropWhileD)

lemma set_rstrip_by: "set (rstrip_by p s) \<subseteq> set s"
  by (auto simp: rstrip_by_def dest!: set_dropWhileD)

lemma last_strip_by: "strip_by p s \<noteq> [] \<Longrightarrow> \<not> p (last (strip_by p s))"
  by (simp add: strip_by_def last_rev hd_dropWhile)

lemma dropWhile_rev_dropWhile_head:
  assumes "rev (dropWhile p (rev xs)) \<noteq> []"
  shows "hd (rev (dropWhile p (rev xs))) = hd xs"
proof -
  have "xs = rev (dropWhile p (rev xs)) @ rev (takeWhile p (rev xs))"
    by (metis rev_append rev_rev_ident takeWhile_dropWhile_id)
  with assms show ?thesis by (metis hd_append2)
qed

lemma hd_strip_by: "strip_by p s \<noteq> [] \<Longrightarrow> \<not> p (hd (strip_by p s))"
proof -
  assume ne: "strip_by p s \<noteq> []"
  then have "hd (strip_by p s) = hd (dropWhile p s)"
    unfolding strip_by_def by (rule dropWhile_rev_dropWhile_head)
  moreover have "dropWhile p s \<noteq> []"
    using ne unfolding strip_by_def by (cases "dropWhile p s") simp_all
  ultimately show ?thesis by (metis hd_dropWhile)
qed

lemma dropWhile_hd_id: "s = [] \<or> \<not> p (hd s) \<Longrightarrow> dropWhile p s = s"
  by (cases s) auto

lemma strip_by_id: "s = [] \<or> \<not> p (hd s) \<and> \<not> p (last s) \<Longrightarrow> strip_by p s = s"
  by (auto simp: strip_by_def dropWhile_hd_id hd_rev)

lemma strip_by_idem: "strip_by p (strip_by p s) = strip_by p s"
  by (rule strip_by_id) (auto dest: hd_strip_by last_strip_by)

lemma lower_char_idem: "lower_char (lower_char c) = lower_char c"
  by (auto simp: lower_char_def Let_def)

text \<open>\<^verbatim>\<open>s.startswith(p)\<close>, \<^verbatim>\<open>s.endswith(p)\<close>, \<^verbatim>\<open>s.replace(c, d)\<close> for single characters, \<^verbatim>\<open>sep.join(xs)\<close> and \<^verbatim>\<open>s.split(c)\<close>.\<close>

definition py_startswith :: "string \<Rightarrow> string \<Rightarrow> bool" where
  "py_startswith s p = (take (length p) s = p)"

definition py_endswith :: "string \<Rightarrow> string \<Rightarrow> bool" where
  "py_endswith s p = (length p \<le> length s \<and> drop (length s - length p) s = p)"

definition replace_char :: "char \<Rightarrow> char \<Rightarrow> string \<Rightarrow> string" where
  "replace_char c d s = map (\<lambda>x. if x = c then d else x) s"

fun py_join :: "string \<Rightarrow> string list \<Rightarrow> string" where
  "py_join sep [] = []"
| "py_join sep [x] = x"
| "py_join sep (x # y # xs) = x @ sep @ py_join sep (y # xs)"

fun split_char :: "char \<Rightarrow> string \<Rightarrow> string list" where
  "split_char c [] = [[]]"
| "split_char c (x # xs) =
     (if x = c then [] # split_char c xs
      else (case split_char c xs of [] \<Rightarrow> [[x]] | y # ys \<Rightarrow> (x # y) # ys))"

text \<open>\<^verbatim>\<open>re.sub("[...]+", "-", s)\<close>: every run of matching characters becomes one.\<close>

fun sub_runs_from :: "bool \<Rightarrow> (char \<Rightarrow> bool) \<Rightarrow> char \<Rightarrow> string \<Rightarrow> string" where
  "sub_runs_from in_run p d [] = []"
| "sub_runs_from in_run p d (c # cs) =
     (if p c then (if in_run then [] else [d]) @ sub_runs_from True p d cs
      else c # sub_runs_from False p d cs)"

definition sub_runs :: "(char \<Rightarrow> bool) \<Rightarrow> char \<Rightarrow> string \<Rightarrow> string" where
  "sub_runs p d s = sub_runs_from False p d s"

lemma set_sub_runs: "set (sub_runs p d s) \<subseteq> {c \<in> set s. \<not> p c} \<union> {d}"
proof -
  have "set (sub_runs_from b p d s) \<subseteq> {c \<in> set s. \<not> p c} \<union> {d}" for b
    by (induction b p d s rule: sub_runs_from.induct) auto
  then show ?thesis by (simp add: sub_runs_def)
qed

lemma split_char_no_sep: "x \<in> set (split_char c s) \<Longrightarrow> c \<notin> set x"
  by (induction s arbitrary: x) (auto split: if_splits list.splits)

lemma split_char_simple: "c \<notin> set s \<Longrightarrow> split_char c s = [s]"
  by (induction s) auto

lemma split_char_ne [simp]: "split_char c s \<noteq> []"
  by (induction s) (auto split: list.splits)

lemma split_char_append:
  "c \<notin> set y \<Longrightarrow> split_char c (x @ y) = butlast (split_char c x) @ [last (split_char c x) @ y]"
proof (induction x)
  case (Cons a x)
  then show ?case by (cases "split_char c x") (auto split: list.splits)
qed (simp add: split_char_simple)

lemma split_char_snoc: "split_char c (x @ [c]) = split_char c x @ [[]]"
  by (induction x) (auto split: list.splits)

lemma py_join_snoc:
  "py_join sep (xs @ [x]) = (if xs = [] then x else py_join sep xs @ sep @ x)"
  by (induction sep xs rule: py_join.induct) auto

text \<open>
  The characters that both sanitizers of the sources replace:
  \<^verbatim>\<open>[<>:"/\\|?*\x00-\x1f]\<close>.
\<close>

definition unsafe_path_char :: "char \<Rightarrow> bool" where
  "unsafe_path_char c \<longleftrightarrow>
     c \<in> {CHR ''<'', CHR ''>'', CHR '':'', CHR 0x22, CHR ''/'', CHR 0x5C, CHR ''|'', CHR ''?'', CHR ''*''}
     \<or> (of_char c :: nat) < 32"

lemma filter_key_single:
  "distinct (map k rows) \<Longrightarrow> m \<in> set rows \<Longrightarrow> filter (\<lambda>r. k r = k m) rows = [m]"
  by (induction rows) (auto simp: filter_empty_conv, metis rev_image_eqI)

lemma append_sep_unique:
  "x @ [c] @ y = x' @ [c] @ y' \<Longrightarrow> c \<notin> set x \<Longrightarrow> c \<notin> set x' \<Longrightarrow> x = x' \<and> y = y'"
  by (induction x arbitrary: x') (auto simp: Cons_eq_append_conv)

text \<open>Among one more candidate than there are elements, one is not an element.\<close>

lemma free_candidate:
  assumes "inj f"
  shows "\<exists>k<Suc (length xs). f k \<notin> set xs"
proof (rule ccontr)
  assume "\<not> ?thesis"
  then have "f ` {..<Suc (length xs)} \<subseteq> set xs" by auto
  then have "card (f ` {..<Suc (length xs)}) \<le> length xs"
    by (metis List.finite_set card_length card_mono le_trans)
  moreover have "card (f ` {..<Suc (length xs)}) = Suc (length xs)"
    using assms by (simp add: card_image inj_on_subset)
  ultimately show False by simp
qed

section \<open>Dictionaries and JSON values\<close>

text \<open>
  A dictionary is an association list in insertion order.  \<^verbatim>\<open>d[k] = v\<close> keeps the place of
  a key that is present and appends a new one; \<^verbatim>\<open>d.pop(k, None)\<close> removes it.
\<close>

type_synonym ('k, 'v) dict = "('k \<times> 'v) list"

definition dict_get :: "('k, 'v) dict \<Rightarrow> 'k \<Rightarrow> 'v option" where
  "dict_get d k = map_of d k"

fun dict_set :: "('k, 'v) dict \<Rightarrow> 'k \<Rightarrow> 'v \<Rightarrow> ('k, 'v) dict" where
  "dict_set [] k v = [(k, v)]"
| "dict_set ((k', v') # d) k v = (if k' = k then (k, v) # d else (k', v') # dict_set d k v)"

definition dict_del :: "('k, 'v) dict \<Rightarrow> 'k \<Rightarrow> ('k, 'v) dict" where
  "dict_del d k = filter (\<lambda>p. fst p \<noteq> k) d"

definition dict_keys :: "('k, 'v) dict \<Rightarrow> 'k list" where
  "dict_keys d = map fst d"

definition dict_ok :: "('k, 'v) dict \<Rightarrow> bool" where
  "dict_ok d = distinct (map fst d)"

lemma dict_get_Nil [simp, dict_simps]: "dict_get [] k = None"
  by (simp add: dict_get_def)

lemma dict_get_set [simp, dict_simps]:
  "dict_get (dict_set d k v) k' = (if k' = k then Some v else dict_get d k')"
  by (induction d k v rule: dict_set.induct) (auto simp: dict_get_def)

lemma dict_get_del [simp, dict_simps]:
  "dict_get (dict_del d k) k' = (if k' = k then None else dict_get d k')"
  by (induction d) (auto simp: dict_get_def dict_del_def)

lemma dict_keys_set:
  "map fst (dict_set d k v) = (if k \<in> fst ` set d then map fst d else map fst d @ [k])"
  by (induction d k v rule: dict_set.induct) auto

lemma dict_ok_Nil [simp]: "dict_ok []"
  by (simp add: dict_ok_def)

lemma dict_ok_set [simp]: "dict_ok d \<Longrightarrow> dict_ok (dict_set d k v)"
  by (auto simp: dict_ok_def dict_keys_set)

lemma dict_ok_del [simp]: "dict_ok d \<Longrightarrow> dict_ok (dict_del d k)"
  by (auto simp: dict_ok_def dict_del_def distinct_map inj_on_def)

lemma dict_get_None_iff: "dict_get d k = None \<longleftrightarrow> k \<notin> fst ` set d"
  by (simp add: dict_get_def map_of_eq_None_iff)

lemma dict_get_Some_iff: "dict_ok d \<Longrightarrow> dict_get d k = Some v \<longleftrightarrow> (k, v) \<in> set d"
  by (simp add: dict_get_def dict_ok_def)

lemma dict_get_member: "dict_get d k = Some v \<Longrightarrow> (k, v) \<in> set d"
  by (simp add: dict_get_def map_of_SomeD)

lemma dict_values_ext:
  assumes "dict_ok d"
  shows "snd ` set d = {v. \<exists>k. dict_get d k = Some v}"
  using assms by (force simp: dict_get_Some_iff)

text \<open>
  The interface the components rely on for a keyed store: lookups after each update.  The
  pending uploads and the caches of the sources are instances of it.
\<close>

locale keyed_store =
  fixes look :: "'s \<Rightarrow> 'k \<Rightarrow> 'v option"
    and put :: "'s \<Rightarrow> 'k \<Rightarrow> 'v \<Rightarrow> 's"
    and del :: "'s \<Rightarrow> 'k \<Rightarrow> 's"
    and ok :: "'s \<Rightarrow> bool"
  assumes look_put: "look (put s k v) k' = (if k' = k then Some v else look s k')"
    and look_del: "look (del s k) k' = (if k' = k then None else look s k')"
    and ok_put: "ok s \<Longrightarrow> ok (put s k v)"
    and ok_del: "ok s \<Longrightarrow> ok (del s k)"
begin

lemma look_put_del: "look (put (del s k) k v) k' = look (put s k v) k'"
  by (simp add: look_put look_del)

lemma put_other: "k' \<noteq> k \<Longrightarrow> look (put s k v) k' = look s k'"
  by (simp add: look_put)

lemma del_after_put: "look (del (put s k v) k) = look (del s k)"
  by (rule ext) (simp add: look_put look_del)

lemma put_put_same: "look (put (put s k v) k w) = look (put s k w)"
  by (rule ext) (simp add: look_put)

lemma put_commute: "k \<noteq> j \<Longrightarrow> look (put (put s k v) j w) = look (put (put s j w) k v)"
  by (rule ext) (simp add: look_put)

lemma ok_replace: "ok s \<Longrightarrow> ok (put (del s k) k v)"
  by (intro ok_put ok_del)

end

interpretation pydict: keyed_store dict_get dict_set dict_del dict_ok
  by unfold_locales simp_all

text \<open>
  What \<^verbatim>\<open>json.loads\<close> returns.  The sources test the type of a float and never its value,
  so \<open>JFloat\<close> keeps its text.
\<close>

datatype json =
    JNull
  | JBool bool
  | JInt int
  | JFloat string
  | JStr string
  | JList "json list"
  | JObj "(string \<times> json) list"

type_synonym payload = "(string, json) dict"

end
