(* ===== verification/AoaFrameCodec.thy ===== *)
theory AoaFrameCodec
  imports Prelude
begin

text \<open>
  \<^verbatim>\<open>dt_image_search/mobile/transport/aoa_frame_codec.py\<close>: the length-prefixed frames of
  the Android Open Accessory transport and their incremental decoder.

  The decoder object is its one field, the byte buffer; \<open>feed\<close> returns the new buffer with
  either the frames or the exception, since an exception leaves the buffer as the loop had it.
\<close>

section \<open>Constants and types\<close>

definition AOA_FRAME_VERSION :: byte where "AOA_FRAME_VERSION = 1"
definition AOA_FRAME_HEADER_SIZE :: nat where "AOA_FRAME_HEADER_SIZE = 42"
definition AOA_FRAME_FLAG_TEXT :: byte where "AOA_FRAME_FLAG_TEXT = 0"
definition AOA_FRAME_FLAG_BINARY :: byte where "AOA_FRAME_FLAG_BINARY = 1"
definition AOA_REQUEST_ID_LENGTH :: nat where "AOA_REQUEST_ID_LENGTH = 36"

lemmas aoa_consts = AOA_FRAME_VERSION_def AOA_FRAME_HEADER_SIZE_def AOA_FRAME_FLAG_TEXT_def
  AOA_FRAME_FLAG_BINARY_def AOA_REQUEST_ID_LENGTH_def

datatype aoa_frame_error = AoaFrameError string

type_synonym aoa_frame = "string \<times> byte \<times> byte list"

definition aoa_flags_ok :: "byte \<Rightarrow> bool" where
  "aoa_flags_ok flags = (flags = AOA_FRAME_FLAG_TEXT \<or> flags = AOA_FRAME_FLAG_BINARY)"

section \<open>Encoding\<close>

text \<open>The \<^verbatim>\<open>flags\<close> argument is any Python integer, tested before it becomes a byte.\<close>

definition encode_aoa_frame :: "string \<Rightarrow> byte list \<Rightarrow> int \<Rightarrow> aoa_frame_error + byte list" where
  "encode_aoa_frame request_id payload flags =
     (case encode_ascii request_id of
        None \<Rightarrow> Inl (AoaFrameError ''AOA frame request_id is not valid ASCII.'')
      | Some encoded_id \<Rightarrow>
          if length encoded_id \<noteq> AOA_REQUEST_ID_LENGTH then
            Inl (AoaFrameError (''AOA frame request_id must be '' @ str_nat AOA_REQUEST_ID_LENGTH @
              '' ASCII bytes, got '' @ str_nat (length encoded_id) @ ''.''))
          else if flags \<noteq> 0 \<and> flags \<noteq> 1 then
            Inl (AoaFrameError (''Unsupported AOA frame flags value: '' @ str_int flags @ ''.''))
          else if length payload > 0xFFFFFFFF then
            Inl (AoaFrameError ''AOA frame payload exceeds 4 GB limit.'')
          else
            Inr ([AOA_FRAME_VERSION] @ encoded_id @ to_bytes_be 4 (length payload)
                 @ [word_of_int flags] @ payload))"

section \<open>Decoding a complete buffer\<close>

definition aoa_declared_length :: "byte list \<Rightarrow> nat" where
  "aoa_declared_length data = from_bytes_be (take 4 (drop (1 + AOA_REQUEST_ID_LENGTH) data))"

definition decode_aoa_frame :: "byte list \<Rightarrow> aoa_frame_error + aoa_frame" where
  "decode_aoa_frame data =
     (if length data < AOA_FRAME_HEADER_SIZE then
        Inl (AoaFrameError (''AOA frame is too short for header ('' @ str_nat (length data) @ '' < ''
          @ str_nat AOA_FRAME_HEADER_SIZE @ '').''))
      else if data ! 0 \<noteq> AOA_FRAME_VERSION then
        Inl (AoaFrameError (''Unsupported AOA frame version: '' @ str_nat (unat (data ! 0)) @ ''.''))
      else
        (case decode_ascii (take AOA_REQUEST_ID_LENGTH (drop 1 data)) of
           None \<Rightarrow> Inl (AoaFrameError ''AOA frame request_id is not valid ASCII.'')
         | Some request_id \<Rightarrow>
             if length request_id \<noteq> AOA_REQUEST_ID_LENGTH then
               Inl (AoaFrameError ''AOA frame request_id length is invalid.'')
             else
               let declared_length = aoa_declared_length data;
                   flags = data ! (1 + AOA_REQUEST_ID_LENGTH + 4)
               in if \<not> aoa_flags_ok flags then
                    Inl (AoaFrameError (''Unsupported AOA frame flags value: ''
                      @ str_nat (unat flags) @ ''.''))
                  else
                    let payload = drop AOA_FRAME_HEADER_SIZE data
                    in if length payload \<noteq> declared_length then
                         Inl (AoaFrameError (''AOA frame payload length mismatch: declared ''
                           @ str_nat declared_length @ '', actual '' @ str_nat (length payload)
                           @ ''.''))
                       else Inr (request_id, flags, payload)))"

section \<open>The incremental decoder\<close>

text \<open>
  The \<^verbatim>\<open>while True\<close> loop of \<open>AoaFrameDecoder.feed\<close>: the buffer shrinks by at least
  the header in every round.
\<close>

function aoa_feed_loop ::
    "byte list \<Rightarrow> aoa_frame list \<Rightarrow> byte list \<times> (aoa_frame_error + aoa_frame list)" where
  "aoa_feed_loop buffer frames =
     (if length buffer < AOA_FRAME_HEADER_SIZE then (buffer, Inr frames)
      else if buffer ! 0 \<noteq> AOA_FRAME_VERSION then
        (buffer, Inl (AoaFrameError (''Unsupported AOA frame version: ''
           @ str_nat (unat (buffer ! 0)) @ ''.'')))
      else
        let total_frame_size = AOA_FRAME_HEADER_SIZE + aoa_declared_length buffer
        in if length buffer < total_frame_size then (buffer, Inr frames)
           else (case decode_aoa_frame (take total_frame_size buffer) of
                   Inl e \<Rightarrow> (buffer, Inl e)
                 | Inr f \<Rightarrow> aoa_feed_loop (drop total_frame_size buffer) (frames @ [f])))"
  by pat_completeness auto
termination
  by (relation "measure (\<lambda>(buffer, frames). length buffer)") (auto simp: AOA_FRAME_HEADER_SIZE_def)

declare aoa_feed_loop.simps [simp del]

definition aoa_decoder_init :: "byte list" where
  "aoa_decoder_init = []"

definition aoa_decoder_reset :: "byte list \<Rightarrow> byte list" where
  "aoa_decoder_reset buffer = []"

definition aoa_feed ::
    "byte list \<Rightarrow> byte list \<Rightarrow> byte list \<times> (aoa_frame_error + aoa_frame list)" where
  "aoa_feed buffer data = aoa_feed_loop (buffer @ data) []"

text \<open>A run of the decoder over the chunks of a stream, stopped by the first exception.\<close>

definition prepend_frames ::
    "aoa_frame list \<Rightarrow> aoa_frame_error + aoa_frame list \<Rightarrow> aoa_frame_error + aoa_frame list" where
  "prepend_frames fs r = (case r of Inl e \<Rightarrow> Inl e | Inr gs \<Rightarrow> Inr (fs @ gs))"

fun aoa_feed_all ::
    "byte list \<Rightarrow> byte list list \<Rightarrow> byte list \<times> (aoa_frame_error + aoa_frame list)" where
  "aoa_feed_all buffer [] = (buffer, Inr [])"
| "aoa_feed_all buffer (c # cs) =
     (case aoa_feed buffer c of
        (buffer', Inl e) \<Rightarrow> (buffer', Inl e)
      | (buffer', Inr fs) \<Rightarrow>
          (let (buffer'', r) = aoa_feed_all buffer' cs in (buffer'', prepend_frames fs r)))"

lemma prepend_frames_simps [simp]:
  "prepend_frames fs (Inl e) = Inl e"
  "prepend_frames fs (Inr gs) = Inr (fs @ gs)"
  "prepend_frames [] r = r"
  "prepend_frames fs (prepend_frames gs r) = prepend_frames (fs @ gs) r"
  "isl (prepend_frames fs r) = isl r"
  by (simp_all add: prepend_frames_def split: sum.splits)

section \<open>Encoding and decoding are inverse\<close>

lemma encode_aoa_frame_Inr:
  "encode_aoa_frame rid payload flags = Inr data \<longleftrightarrow>
     (\<exists>ide. encode_ascii rid = Some ide \<and> length ide = 36 \<and> (flags = 0 \<or> flags = 1) \<and>
        length payload \<le> 0xFFFFFFFF \<and>
        data = 1 # ide @ to_bytes_be 4 (length payload) @ word_of_int flags # payload)"
  by (auto simp: encode_aoa_frame_def aoa_consts split: option.splits)

lemma encoded_shape:
  assumes "length ide = 36" and "data = 1 # ide @ len @ fl # payload" and "length len = 4"
  shows "data ! 0 = 1" and "take 36 (drop 1 data) = ide" and "take 4 (drop 37 data) = len"
    and "data ! 41 = fl" and "drop 42 data = payload" and "length data = 42 + length payload"
  using assms by (simp_all add: nth_append)

lemma header_split:
  assumes "42 \<le> length data"
  shows "data = data ! 0 # take 36 (drop 1 data) @ take 4 (drop 37 data) @ data ! 41 # drop 42 data"
proof -
  have "data = data ! 0 # drop 1 data"
    using assms Cons_nth_drop_Suc [of 0 data] by (cases data) simp_all
  moreover have "drop 1 data = take 36 (drop 1 data) @ drop 37 data"
    using append_take_drop_id [of 36 "drop 1 data"] by simp
  moreover have "drop 37 data = take 4 (drop 37 data) @ drop 41 data"
    using append_take_drop_id [of 4 "drop 37 data"] by simp
  moreover have "drop 41 data = data ! 41 # drop 42 data"
    using assms Cons_nth_drop_Suc [of 41 data] by simp
  ultimately show ?thesis by metis
qed

lemma decode_aoa_frame_Inr:
  "decode_aoa_frame data = Inr (rid, fl, payload) \<longleftrightarrow>
     42 \<le> length data \<and> data ! 0 = 1 \<and> decode_ascii (take 36 (drop 1 data)) = Some rid \<and>
     fl = data ! 41 \<and> (fl = 0 \<or> fl = 1) \<and> payload = drop 42 data \<and>
     length payload = from_bytes_be (take 4 (drop 37 data))"
  by (auto simp: decode_aoa_frame_def aoa_consts aoa_flags_ok_def aoa_declared_length_def Let_def
      dest: decode_ascii_length split: option.splits if_splits)

text \<open>
  Whatever \<open>encode_aoa_frame\<close> accepts, \<open>decode_aoa_frame\<close> reads back: the same request
  id, flags and payload.
\<close>
theorem aoa_decode_encode:
  assumes "encode_aoa_frame rid payload flags = Inr data"
  shows "decode_aoa_frame data = Inr (rid, word_of_int flags, payload)"
proof -
  from assms obtain ide where ide: "encode_ascii rid = Some ide" "length ide = 36"
    and fl: "flags = 0 \<or> flags = 1" and len: "length payload \<le> 0xFFFFFFFF"
    and data: "data = 1 # ide @ to_bytes_be 4 (length payload) @ word_of_int flags # payload"
    by (auto simp: encode_aoa_frame_Inr)
  from len have "from_bytes_be (to_bytes_be 4 (length payload)) = length payload"
    by (intro from_to_bytes_be) simp
  moreover have "(word_of_int flags :: byte) = 0 \<or> (word_of_int flags :: byte) = 1"
    using fl by auto
  ultimately show ?thesis
    using encoded_shape [OF ide(2) data] decode_encode_ascii [OF ide(1)]
    by (simp add: decode_aoa_frame_Inr)
qed

lemma encode_ascii_replicate_a: "encode_ascii (replicate n (CHR ''a'')) = Some (replicate n 97)"
  by (induction n) (auto simp: encode_ascii_def ascii_byte_def)

lemma aoa_decode_encode_witness:
  "encode_aoa_frame (replicate 36 (CHR ''a'')) [7, 8] 1
     = Inr (1 # replicate 36 97 @ [0, 0, 0, 2] @ [1, 7, 8]) \<and>
   decode_aoa_frame (1 # replicate 36 97 @ [0, 0, 0, 2] @ [1, 7, 8])
     = Inr (replicate 36 (CHR ''a''), 1, [7, 8])"
proof -
  have "to_bytes_be (Suc (Suc (Suc (Suc 0)))) (Suc (Suc 0)) = [0, 0, 0, 2]" by simp
  moreover have eval_4: "4 = Suc (Suc (Suc (Suc 0)))" by simp
  ultimately have e: "encode_aoa_frame (replicate 36 (CHR ''a'')) [7, 8] 1
     = Inr (1 # replicate 36 97 @ [0, 0, 0, 2] @ [1, 7, 8])"
    by (simp add: encode_aoa_frame_Inr encode_ascii_replicate_a eval_4)
  from aoa_decode_encode [OF e] e show ?thesis by simp
qed

text \<open>
  A buffer that \<open>decode_aoa_frame\<close> accepts is the encoding of the frame it returns, byte for
  byte: no second buffer decodes to the same frame.
\<close>
theorem aoa_encode_decode:
  assumes "decode_aoa_frame data = Inr (rid, fl, payload)"
  shows "encode_aoa_frame rid payload (uint fl) = Inr data"
proof -
  from assms have len: "42 \<le> length data" and v: "data ! 0 = 1"
    and ide: "encode_ascii rid = Some (take 36 (drop 1 data))"
    and fl: "fl = data ! 41" "fl = 0 \<or> fl = 1" and payload: "payload = drop 42 data"
    and dl: "length payload = from_bytes_be (take 4 (drop 37 data))"
    by (auto simp: decode_aoa_frame_Inr intro: encode_decode_ascii)
  have l4: "length (take 4 (drop 37 data)) = 4" using len by simp
  have "to_bytes_be 4 (length payload) = take 4 (drop 37 data)"
    using to_from_bytes_be [of "take 4 (drop 37 data)"] unfolding l4 dl .
  moreover have "length payload \<le> 0xFFFFFFFF"
    using from_bytes_be_bound [of "take 4 (drop 37 data)"] unfolding l4 dl by simp
  moreover have "uint fl = 0 \<or> uint fl = 1" using fl(2) by auto
  ultimately show ?thesis
    using header_split [OF len] len by (simp add: encode_aoa_frame_Inr ide fl(1) payload v)
qed

section \<open>The decoder does not depend on how the stream is cut\<close>

lemma aoa_declared_length_append:
  "42 \<le> length buf \<Longrightarrow> aoa_declared_length (buf @ c) = aoa_declared_length buf"
  by (simp add: aoa_declared_length_def aoa_consts)

lemma nth0_append: "42 \<le> length buf \<Longrightarrow> (buf @ c) ! 0 = buf ! 0"
  by (cases buf) simp_all

lemmas aoa_loop_unfold = aoa_feed_loop.simps [unfolded aoa_consts]

lemma aoa_feed_loop_short: "length buf < 42 \<Longrightarrow> aoa_feed_loop buf acc = (buf, Inr acc)"
  by (simp add: aoa_loop_unfold [of buf acc])

lemma aoa_feed_loop_append:
  "aoa_feed_loop (buf @ c) acc =
     (case aoa_feed_loop buf acc of
        (buf', Inr fs) \<Rightarrow> aoa_feed_loop (buf' @ c) fs
      | (buf', Inl e) \<Rightarrow> (buf' @ c, Inl e))"
proof (induction buf acc rule: aoa_feed_loop.induct)
  case (1 buf acc)
  let ?n = "42 + aoa_declared_length buf"
  consider (short) "length buf < 42"
    | (version) "42 \<le> length buf" "buf ! 0 \<noteq> 1"
    | (partial) "42 \<le> length buf" "buf ! 0 = 1" "length buf < ?n"
    | (full) "42 \<le> length buf" "buf ! 0 = 1" "?n \<le> length buf"
    by linarith
  then show ?case
  proof cases
    case short
    then show ?thesis by (simp add: aoa_feed_loop_short)
  next
    case version
    then show ?thesis
      by (simp add: aoa_loop_unfold [of buf acc] aoa_loop_unfold [of "buf @ c" acc] nth0_append)
  next
    case partial
    then show ?thesis by (simp add: aoa_loop_unfold [of buf acc])
  next
    case full
    have IH: "\<And>f. decode_aoa_frame (take ?n buf) = Inr f \<Longrightarrow>
        aoa_feed_loop (drop ?n buf @ c) (acc @ [f]) =
        (case aoa_feed_loop (drop ?n buf) (acc @ [f]) of
           (buf', Inr fs) \<Rightarrow> aoa_feed_loop (buf' @ c) fs
         | (buf', Inl e) \<Rightarrow> (buf' @ c, Inl e))"
      using "1" full by (simp add: aoa_consts)
    from full IH show ?thesis
      by (cases "decode_aoa_frame (take ?n buf)")
        (simp_all add: aoa_loop_unfold [of buf acc] aoa_loop_unfold [of "buf @ c" acc] nth0_append
          aoa_declared_length_append)
  qed
qed

lemma aoa_feed_loop_acc:
  "aoa_feed_loop buf (pre @ acc) =
     (fst (aoa_feed_loop buf acc), prepend_frames pre (snd (aoa_feed_loop buf acc)))"
proof (induction buf acc rule: aoa_feed_loop.induct)
  case (1 buf acc)
  let ?n = "42 + aoa_declared_length buf"
  have IH: "\<And>f. \<lbrakk>42 \<le> length buf; buf ! 0 = 1; ?n \<le> length buf; decode_aoa_frame (take ?n buf) = Inr f\<rbrakk> \<Longrightarrow>
      aoa_feed_loop (drop ?n buf) (pre @ acc @ [f]) =
        (fst (aoa_feed_loop (drop ?n buf) (acc @ [f])),
         prepend_frames pre (snd (aoa_feed_loop (drop ?n buf) (acc @ [f]))))"
    using "1" by (simp add: aoa_consts)
  show ?case
    by (cases "decode_aoa_frame (take ?n buf)")
      (simp_all add: aoa_loop_unfold [of buf acc] aoa_loop_unfold [of buf "pre @ acc"] Let_def IH)
qed

lemma aoa_feed_loop_Nil:
  "aoa_feed_loop buf acc =
     (fst (aoa_feed_loop buf []), prepend_frames acc (snd (aoa_feed_loop buf [])))"
  using aoa_feed_loop_acc [of buf acc "[]"] by simp

text \<open>
  Feeding two chunks one after the other returns what feeding their concatenation returns,
  with the buffer left the same: frames may be cut anywhere, and an exception in the first chunk
  is the exception of the whole.
\<close>
theorem aoa_feed_append:
  "aoa_feed buf (a @ b) =
     (case aoa_feed buf a of
        (buf', Inl e) \<Rightarrow> (buf' @ b, Inl e)
      | (buf', Inr fs) \<Rightarrow> (fst (aoa_feed buf' b), prepend_frames fs (snd (aoa_feed buf' b))))"
proof -
  have "aoa_feed buf (a @ b) =
     (case aoa_feed buf a of
        (buf', Inr fs) \<Rightarrow> aoa_feed_loop (buf' @ b) fs
      | (buf', Inl e) \<Rightarrow> (buf' @ b, Inl e))"
    using aoa_feed_loop_append [of "buf @ a" b "[]"] by (simp add: aoa_feed_def)
  moreover have "aoa_feed_loop (buf' @ b) fs =
      (fst (aoa_feed buf' b), prepend_frames fs (snd (aoa_feed buf' b)))" for buf' fs
    using aoa_feed_loop_Nil [of "buf' @ b" fs] by (simp add: aoa_feed_def)
  ultimately show ?thesis by (simp split: prod.splits sum.splits)
qed

lemma aoa_feed_loop_settled:
  "aoa_feed_loop buf acc = (buf', r) \<Longrightarrow>
     aoa_feed_loop buf' [] = (buf', case r of Inl e \<Rightarrow> Inl e | Inr fs \<Rightarrow> Inr [])"
proof (induction buf acc arbitrary: buf' r rule: aoa_feed_loop.induct)
  case (1 buf acc)
  let ?n = "42 + aoa_declared_length buf"
  have IH: "\<And>f. \<lbrakk>42 \<le> length buf; buf ! 0 = 1; ?n \<le> length buf; decode_aoa_frame (take ?n buf) = Inr f;
      aoa_feed_loop (drop ?n buf) (acc @ [f]) = (buf', r)\<rbrakk> \<Longrightarrow> ?case"
    using "1.IH" by (simp add: aoa_consts)
  from "1.prems" IH show ?case
    by (cases "decode_aoa_frame (take ?n buf)")
      (auto simp: aoa_loop_unfold [of buf acc] aoa_loop_unfold [of buf' "[]"] Let_def split: if_splits)
qed

lemma aoa_feed_settled: "aoa_feed buf c = (buf', Inr fs) \<Longrightarrow> aoa_feed buf' [] = (buf', Inr [])"
  using aoa_feed_loop_settled [of "buf @ c" "[]"] by (simp add: aoa_feed_def)

lemma aoa_feed_all_Cons:
  "aoa_feed buf c = (buf', Inl e) \<Longrightarrow> aoa_feed_all buf (c # cs) = (buf', Inl e)"
  "aoa_feed buf c = (buf', Inr fs) \<Longrightarrow> aoa_feed_all buf (c # cs) =
     (fst (aoa_feed_all buf' cs), prepend_frames fs (snd (aoa_feed_all buf' cs)))"
  by (simp_all add: Let_def case_prod_beta)

declare aoa_feed_all.simps(2) [simp del]

lemma aoa_feed_append_cases:
  "aoa_feed buf a = (buf', Inl e) \<Longrightarrow> aoa_feed buf (a @ b) = (buf' @ b, Inl e)"
  "aoa_feed buf a = (buf', Inr fs) \<Longrightarrow>
     aoa_feed buf (a @ b) = (fst (aoa_feed buf' b), prepend_frames fs (snd (aoa_feed buf' b)))"
  by (simp_all add: aoa_feed_append)

lemma aoa_feed_all_concat:
  assumes "aoa_feed buf [] = (buf, Inr [])"
  shows "snd (aoa_feed_all buf cs) = snd (aoa_feed buf (concat cs)) \<and>
    (isl (snd (aoa_feed_all buf cs)) \<or> fst (aoa_feed_all buf cs) = fst (aoa_feed buf (concat cs)))"
  using assms
proof (induction cs arbitrary: buf)
  case Nil
  then show ?case by simp
next
  case (Cons c cs)
  obtain buf' r where step: "aoa_feed buf c = (buf', r)" by (cases "aoa_feed buf c")
  show ?case
  proof (cases r)
    case (Inl e)
    with step show ?thesis by (simp add: aoa_feed_all_Cons aoa_feed_append_cases)
  next
    case (Inr fs)
    with step have ok: "aoa_feed buf c = (buf', Inr fs)" by simp
    from Cons.IH [OF aoa_feed_settled [OF ok]] show ?thesis
      by (auto simp: aoa_feed_all_Cons(2) [OF ok] aoa_feed_append_cases(2) [OF ok])
  qed
qed

lemma aoa_feed_init_settled: "aoa_feed aoa_decoder_init [] = (aoa_decoder_init, Inr [])"
  by (simp add: aoa_feed_def aoa_decoder_init_def aoa_feed_loop_short)

lemma aoa_feed_loop_encoded:
  assumes "encode_aoa_frame rid payload flags = Inr d"
  shows "aoa_feed_loop (d @ rest) acc = aoa_feed_loop rest (acc @ [(rid, word_of_int flags, payload)])"
proof -
  from assms obtain ide where ide: "length ide = 36"
    and d: "d = 1 # ide @ to_bytes_be 4 (length payload) @ word_of_int flags # payload"
    and len: "length payload \<le> 0xFFFFFFFF"
    by (auto simp: encode_aoa_frame_Inr)
  note shape = encoded_shape [OF ide d]
  have dl: "aoa_declared_length d = length payload"
    using len shape(3) by (simp add: aoa_declared_length_def aoa_consts from_to_bytes_be)
  have "42 \<le> length d" using shape(6) by simp
  then show ?thesis
    using shape(1,6) dl aoa_decode_encode [OF assms]
    by (simp add: aoa_loop_unfold [of "d @ rest" acc] nth0_append aoa_declared_length_append Let_def)
qed

definition aoa_encodes :: "aoa_frame list \<Rightarrow> byte list list \<Rightarrow> bool" where
  "aoa_encodes = list_all2 (\<lambda>(rid, fl, payload) d. encode_aoa_frame rid payload (uint fl) = Inr d)"

lemma aoa_feed_loop_encodes:
  "aoa_encodes frames ds \<Longrightarrow> aoa_feed_loop (concat ds @ rest) acc = aoa_feed_loop rest (acc @ frames)"
proof (induction frames arbitrary: ds acc)
  case Nil
  then show ?case by (simp add: aoa_encodes_def)
next
  case (Cons f fs)
  then obtain d ds' where "ds = d # ds'" and "aoa_encodes fs ds'"
    and "encode_aoa_frame (fst f) (snd (snd f)) (uint (fst (snd f))) = Inr d"
    by (cases f) (auto simp: aoa_encodes_def list_all2_Cons1)
  with Cons.IH [of ds' "acc @ [f]"] show ?case by (cases f) (simp add: aoa_feed_loop_encoded)
qed

text \<open>
  C26. The stream of a list of encoded frames, cut into chunks in any way and fed to a fresh
  decoder, returns exactly these frames in order and leaves the buffer empty.
\<close>
theorem aoa_feed_all_roundtrip:
  assumes "aoa_encodes frames ds" and "concat chunks = concat ds"
  shows "aoa_feed_all aoa_decoder_init chunks = ([], Inr frames)"
proof -
  have "aoa_feed aoa_decoder_init (concat chunks) = ([], Inr frames)"
    using aoa_feed_loop_encodes [OF assms(1), of "[]" "[]"] assms(2)
    by (simp add: aoa_feed_def aoa_decoder_init_def aoa_feed_loop_short)
  then show ?thesis
    using aoa_feed_all_concat [OF aoa_feed_init_settled, of chunks]
    by (auto simp: prod_eq_iff)
qed

lemma aoa_feed_all_roundtrip_witness:
  "aoa_feed_all aoa_decoder_init
     [[1, 97] , replicate 35 97 @ [0, 0, 0], [2, 1, 7], [8]]
   = ([], Inr [(replicate 36 (CHR ''a''), 1, [7, 8])])"
proof -
  let ?d = "1 # replicate 36 97 @ [0, 0, 0, 2] @ [1, 7, 8] :: byte list"
  have "to_bytes_be (Suc (Suc (Suc (Suc 0)))) (Suc (Suc 0)) = [0, 0, 0, 2]" by simp
  moreover have eval_4: "4 = Suc (Suc (Suc (Suc 0)))" by simp
  ultimately have "aoa_encodes [(replicate 36 (CHR ''a''), 1, [7, 8])] [?d]"
    by (simp add: aoa_encodes_def encode_aoa_frame_Inr encode_ascii_replicate_a eval_4)
  moreover have "concat [[1, 97] , replicate 35 97 @ [0, 0, 0], [2, 1, 7], [8]] = concat [?d]"
    using replicate_Suc [of 35 "97 :: byte"] by simp
  ultimately show ?thesis by (rule aoa_feed_all_roundtrip)
qed

text \<open>
  After an exception the decoder is stuck until \<open>reset\<close>: whatever is fed next only grows the
  buffer and raises the same exception again.
\<close>
theorem aoa_feed_error_sticky:
  assumes "aoa_feed buf a = (buf', Inl e)"
  shows "aoa_feed buf' b = (buf' @ b, Inl e)"
proof -
  have "aoa_feed_loop buf' [] = (buf', Inl e)"
    using aoa_feed_loop_settled [of "buf @ a" "[]" buf' "Inl e"] assms by (simp add: aoa_feed_def)
  then show ?thesis by (simp add: aoa_feed_def aoa_feed_loop_append)
qed

lemma aoa_feed_error_sticky_witness:
  "aoa_feed [] (replicate 42 0) = (replicate 42 0, Inl (AoaFrameError ''Unsupported AOA frame version: 0.'')) \<and>
   aoa_feed (replicate 42 0) [5]
     = (replicate 42 0 @ [5], Inl (AoaFrameError ''Unsupported AOA frame version: 0.''))"
proof -
  have "str_nat 0 = ''0''" by code_simp
  then have e: "aoa_feed [] (replicate 42 0)
      = (replicate 42 0, Inl (AoaFrameError ''Unsupported AOA frame version: 0.''))"
    by (simp add: aoa_feed_def aoa_loop_unfold)
  from e aoa_feed_error_sticky [OF e, of "[5]"] show ?thesis by simp
qed

text \<open>
  A chunk that holds a complete frame followed by a malformed header loses the frame: it is
  removed from the buffer, and the exception takes the place of the returned list.
\<close>
theorem aoa_feed_error_drops_frames:
  assumes "encode_aoa_frame rid payload flags = Inr d" and "42 \<le> length bad" and "bad ! 0 \<noteq> 1"
  shows "\<exists>e. aoa_feed aoa_decoder_init (d @ bad) = (bad, Inl e)"
  using assms(2,3)
  by (simp add: aoa_feed_def aoa_decoder_init_def aoa_feed_loop_encoded [OF assms(1)]
      aoa_loop_unfold [of bad])

lemma aoa_feed_error_drops_frames_witness:
  "\<exists>e. aoa_feed aoa_decoder_init
     ((1 # replicate 36 97 @ [0, 0, 0, 0] @ [0]) @ replicate 42 9) = (replicate 42 9, Inl e)"
proof (rule aoa_feed_error_drops_frames)
  have "to_bytes_be (Suc (Suc (Suc (Suc 0)))) 0 = [0, 0, 0, 0]" by simp
  moreover have eval_4: "4 = Suc (Suc (Suc (Suc 0)))" by simp
  ultimately show "encode_aoa_frame (replicate 36 (CHR ''a'')) [] 0
      = Inr (1 # replicate 36 97 @ [0, 0, 0, 0] @ [0])"
    by (simp add: encode_aoa_frame_Inr encode_ascii_replicate_a eval_4)
qed simp_all

end
