(* ===== verification/TrustProof.thy ===== *)
theory TrustProof
  imports Prelude
begin

text \<open>
  \<^verbatim>\<open>dt_image_search/mobile/mobile_trust_proof.py\<close>: the proof a paired phone attaches to
  every transfer request.  UTF-8 on the modelled code points and unpadded URL-safe base64 are
  defined here; HMAC-SHA-256 is the parameter \<open>hmac_sha256\<close> (key, message), code of OpenSSL.
\<close>

section \<open>UTF-8 and URL-safe base64\<close>

definition utf8_char :: "char \<Rightarrow> byte list" where
  "utf8_char c = (let n = of_char c :: nat in
     if n < 128 then [word_of_nat n]
     else [word_of_nat (192 + n div 64), word_of_nat (128 + n mod 64)])"

definition utf8_encode :: "string \<Rightarrow> byte list" where
  "utf8_encode s = concat (map utf8_char s)"

definition b64url_alphabet :: string where
  "b64url_alphabet = ''ABCDEFGHIJKLMNOPQRSTUVWXYZabcdefghijklmnopqrstuvwxyz0123456789-_''"

definition b64url_char :: "nat \<Rightarrow> char" where
  "b64url_char n = b64url_alphabet ! (n mod 64)"

text \<open>\<^verbatim>\<open>base64.urlsafe_b64encode(bs).decode("ascii")\<close>, padding included.\<close>

fun b64url_encode :: "byte list \<Rightarrow> string" where
  "b64url_encode [] = []"
| "b64url_encode [a] =
     (let n = unat a * 16
      in [b64url_char (n div 64), b64url_char n, CHR ''='', CHR ''=''])"
| "b64url_encode [a, b] =
     (let n = (unat a * 256 + unat b) * 4
      in [b64url_char (n div 4096), b64url_char (n div 64), b64url_char n, CHR ''=''])"
| "b64url_encode (a # b # c # rest) =
     (let n = (unat a * 256 + unat b) * 256 + unat c
      in [b64url_char (n div 262144), b64url_char (n div 4096), b64url_char (n div 64),
          b64url_char n] @ b64url_encode rest)"

definition b64url_encode_unpadded :: "byte list \<Rightarrow> string" where
  "b64url_encode_unpadded bs = rstrip_by (\<lambda>c. c = CHR ''='') (b64url_encode bs)"

section \<open>The trust proof\<close>

definition TRUST_PROOF_CONTEXT :: string where
  "TRUST_PROOF_CONTEXT = ''dtis.mobile-trust-proof.v1''"

definition newline_sep :: string where
  "newline_sep = [char_of (10 :: nat)]"

definition trust_proof_material :: "string \<Rightarrow> string \<Rightarrow> string \<Rightarrow> string \<Rightarrow> string" where
  "trust_proof_material purpose schema session_id device_uuid =
     py_join newline_sep [TRUST_PROOF_CONTEXT, purpose, schema, session_id, device_uuid]"

definition derive_trust_proof_b64 ::
    "(byte list \<Rightarrow> byte list \<Rightarrow> byte list) \<Rightarrow> string \<Rightarrow> string \<Rightarrow> string \<Rightarrow> string \<Rightarrow> string \<Rightarrow> string" where
  "derive_trust_proof_b64 hmac_sha256 trust_key_b64 purpose schema session_id device_uuid =
     b64url_encode_unpadded
       (hmac_sha256 (utf8_encode trust_key_b64)
          (utf8_encode (trust_proof_material purpose schema session_id device_uuid)))"

text \<open>
  \<^verbatim>\<open>hmac.compare_digest(a, b)\<close> on two strings: both must be ASCII, or a \<open>TypeError\<close> is
  raised; then it is their equality.
\<close>

definition py_compare_digest :: "string \<Rightarrow> string \<Rightarrow> bool res" where
  "py_compare_digest a b =
     (if encode_ascii a = None \<or> encode_ascii b = None
      then Inl (TypeError ''comparing strings with non-ASCII characters is not supported'')
      else Inr (a = b))"

definition is_valid_trust_proof ::
    "(byte list \<Rightarrow> byte list \<Rightarrow> byte list) \<Rightarrow> string \<Rightarrow> string \<Rightarrow> string \<Rightarrow> string \<Rightarrow> string \<Rightarrow> string
     \<Rightarrow> bool res" where
  "is_valid_trust_proof hmac_sha256 trust_key_b64 purpose schema session_id device_uuid trust_proof_b64 =
     py_compare_digest
       (derive_trust_proof_b64 hmac_sha256 trust_key_b64 purpose schema session_id device_uuid)
       trust_proof_b64"

section \<open>Properties\<close>

lemma those_None_iff: "those xs = None \<longleftrightarrow> None \<in> set xs"
  by (induction xs) (auto split: option.splits)

lemma encode_ascii_None_iff: "encode_ascii s = None \<longleftrightarrow> (\<exists>c\<in>set s. 128 \<le> (of_char c :: nat))"
  by (force simp: encode_ascii_def those_None_iff ascii_byte_def Let_def image_iff not_less)

lemma b64url_alphabet_ascii: "c \<in> set b64url_alphabet \<Longrightarrow> (of_char c :: nat) < 128"
  by (auto simp: b64url_alphabet_def)

lemma b64url_char_alphabet: "b64url_char n \<in> set b64url_alphabet"
proof -
  have "length b64url_alphabet = 64" by (simp add: b64url_alphabet_def)
  then show ?thesis by (simp add: b64url_char_def nth_mem)
qed

lemma b64url_encode_chars: "set (b64url_encode bs) \<subseteq> set b64url_alphabet \<union> {CHR ''=''}"
  by (induction bs rule: b64url_encode.induct) (auto simp: Let_def b64url_char_alphabet)

lemma derived_proof_ascii: "encode_ascii (b64url_encode_unpadded bs) \<noteq> None"
proof -
  have "set (b64url_encode_unpadded bs) \<subseteq> set b64url_alphabet \<union> {CHR ''=''}"
    using set_rstrip_by b64url_encode_chars unfolding b64url_encode_unpadded_def by blast
  then have "(of_char c :: nat) < 128" if "c \<in> set (b64url_encode_unpadded bs)" for c
    using that b64url_alphabet_ascii by auto
  then show ?thesis
    unfolding encode_ascii_None_iff by (meson not_le)
qed

lemma is_valid_trust_proof_cases:
  "is_valid_trust_proof h k p s i d t =
     (if encode_ascii t = None
      then Inl (TypeError ''comparing strings with non-ASCII characters is not supported'')
      else Inr (derive_trust_proof_b64 h k p s i d = t))"
  using derived_proof_ascii [of "h (utf8_encode k) (utf8_encode (trust_proof_material p s i d))"]
  by (auto simp: is_valid_trust_proof_def py_compare_digest_def derive_trust_proof_b64_def)

text \<open>
  The check is exact: it returns true precisely on the derived proof, false on any other
  ASCII text, and raises \<open>TypeError\<close> when the phone's proof has a non-ASCII character.
\<close>
theorem trust_proof_exact:
  "(is_valid_trust_proof h k p s i d t = Inr True \<longleftrightarrow> t = derive_trust_proof_b64 h k p s i d) \<and>
   (is_valid_trust_proof h k p s i d t = Inl e \<longleftrightarrow>
     (\<exists>c\<in>set t. 128 \<le> (of_char c :: nat)) \<and>
     e = TypeError ''comparing strings with non-ASCII characters is not supported'')"
  using derived_proof_ascii [of "h (utf8_encode k) (utf8_encode (trust_proof_material p s i d))"]
  by (auto simp: is_valid_trust_proof_cases derive_trust_proof_b64_def encode_ascii_None_iff [symmetric])

lemma append_sep_inj:
  "c \<notin> set a \<Longrightarrow> c \<notin> set b \<Longrightarrow> a @ c # r = b @ c # r' \<Longrightarrow> a = b \<and> r = r'"
proof (induction a arbitrary: b)
  case Nil
  then show ?case by (cases b) auto
next
  case (Cons x a)
  then show ?case by (cases b) auto
qed

lemma trust_proof_material_split:
  "trust_proof_material p s i d = TRUST_PROOF_CONTEXT @ char_of (10 :: nat) # p @ char_of (10 :: nat) # s
     @ char_of (10 :: nat) # i @ char_of (10 :: nat) # d"
  by (simp add: trust_proof_material_def newline_sep_def)

text \<open>
  The signed text determines its fields when none of purpose, schema and session id contains
  a newline: a proof for one purpose or session is never the proof text of another.
\<close>
theorem trust_proof_material_inj:
  assumes "trust_proof_material p s i d = trust_proof_material p' s' i' d'"
    and "char_of (10 :: nat) \<notin> set p \<union> set s \<union> set i \<union> set p' \<union> set s' \<union> set i'"
  shows "p = p' \<and> s = s' \<and> i = i' \<and> d = d'"
proof -
  let ?nl = "char_of (10 :: nat)"
  have free: "?nl \<notin> set p" "?nl \<notin> set p'" "?nl \<notin> set s" "?nl \<notin> set s'" "?nl \<notin> set i" "?nl \<notin> set i'"
    using assms(2) by blast+
  have 1: "p @ ?nl # s @ ?nl # i @ ?nl # d = p' @ ?nl # s' @ ?nl # i' @ ?nl # d'"
    using assms(1) unfolding trust_proof_material_split by (simp only: same_append_eq list.inject)
  note 2 = append_sep_inj [OF free(1,2) 1]
  note 3 = append_sep_inj [OF free(3,4) 2 [THEN conjunct2]]
  note 4 = append_sep_inj [OF free(5,6) 3 [THEN conjunct2]]
  from 2 3 4 show ?thesis by blast
qed

lemma trust_proof_material_inj_witness:
  "trust_proof_material ''transfer.start'' ''v1'' ''s'' ''a'' = trust_proof_material ''transfer.start'' ''v1'' ''s'' ''a''
   \<and> ''s'' = ''s''"
  using trust_proof_material_inj [of "''transfer.start''" "''v1''" "''s''" "''a''"
      "''transfer.start''" "''v1''" "''s''" "''a''"] by simp

text \<open>
  Session id and device id are not told apart when they may contain newlines: two different
  pairs give the same signed text, hence the same proof under every key.
\<close>
theorem trust_proof_newline_collision:
  "derive_trust_proof_b64 h k p s (i @ newline_sep @ j) d
     = derive_trust_proof_b64 h k p s i (j @ newline_sep @ d)"
  by (simp add: derive_trust_proof_b64_def trust_proof_material_def)

end
