(* ===== verification/BackupStateMachine.thy ===== *)
theory BackupStateMachine
  imports Prelude
begin

text \<open>
  \<^verbatim>\<open>dt_image_search/mobile/mobile_backup_state_machine.py\<close>: the states and events of a
  mobile backup, the transition table, the mapping to and from the text stored in the
  \<^verbatim>\<open>mobile_folders.transfer_state\<close> column, and the resolution of an event with a fallback
  state.
\<close>

section \<open>Constants of the store\<close>

definition MOBILE_TRANSFER_STATE_PAIRED :: string where
  "MOBILE_TRANSFER_STATE_PAIRED = ''paired''"
definition MOBILE_TRANSFER_STATE_TRANSFERRING :: string where
  "MOBILE_TRANSFER_STATE_TRANSFERRING = ''transferring''"
definition MOBILE_TRANSFER_STATE_COMPLETED :: string where
  "MOBILE_TRANSFER_STATE_COMPLETED = ''transfer_completed''"
definition MOBILE_TRANSFER_STATE_FAILED :: string where
  "MOBILE_TRANSFER_STATE_FAILED = ''failed''"
definition MOBILE_TRANSFER_STATE_DISCONNECTED :: string where
  "MOBILE_TRANSFER_STATE_DISCONNECTED = ''disconnected''"

lemmas folder_state_defs = MOBILE_TRANSFER_STATE_PAIRED_def MOBILE_TRANSFER_STATE_TRANSFERRING_def
  MOBILE_TRANSFER_STATE_COMPLETED_def MOBILE_TRANSFER_STATE_FAILED_def
  MOBILE_TRANSFER_STATE_DISCONNECTED_def

section \<open>States, events and the table\<close>

datatype backup_state =
    PENDING_PAIRING | PAIRING_MISMATCHED | PAIRING_COMPLETED | PAIRING_EXPIRED | PAIRING_STOPPED
  | TRANSFER_IN_PROGRESS | TRANSFER_STOPPED | TRANSFER_COMPLETED | TRANSFER_FAILED

datatype backup_event =
    E_PAIRING_ACCEPTED | E_PAIRING_MISMATCH_DETECTED | E_PAIRING_MISMATCH_RESOLVED
  | E_PAIRING_EXPIRED | E_PAIRING_STOPPED
  | E_TRANSFER_STARTED | E_TRANSFER_STOPPED | E_TRANSFER_COMPLETED | E_TRANSFER_FAILED

fun backup_state_value :: "backup_state \<Rightarrow> string" where
  "backup_state_value PENDING_PAIRING = ''pending_pairing''"
| "backup_state_value PAIRING_MISMATCHED = ''pairing_mismatched''"
| "backup_state_value PAIRING_COMPLETED = ''pairing_completed''"
| "backup_state_value PAIRING_EXPIRED = ''pairing_expired''"
| "backup_state_value PAIRING_STOPPED = ''pairing_stopped''"
| "backup_state_value TRANSFER_IN_PROGRESS = ''transfer_in_progress''"
| "backup_state_value TRANSFER_STOPPED = ''transfer_stopped''"
| "backup_state_value TRANSFER_COMPLETED = ''transfer_completed''"
| "backup_state_value TRANSFER_FAILED = ''transfer_failed''"

fun backup_event_value :: "backup_event \<Rightarrow> string" where
  "backup_event_value E_PAIRING_ACCEPTED = ''pairing_accepted''"
| "backup_event_value E_PAIRING_MISMATCH_DETECTED = ''pairing_mismatch_detected''"
| "backup_event_value E_PAIRING_MISMATCH_RESOLVED = ''pairing_mismatch_resolved''"
| "backup_event_value E_PAIRING_EXPIRED = ''pairing_expired''"
| "backup_event_value E_PAIRING_STOPPED = ''pairing_stopped''"
| "backup_event_value E_TRANSFER_STARTED = ''transfer_started''"
| "backup_event_value E_TRANSFER_STOPPED = ''transfer_stopped''"
| "backup_event_value E_TRANSFER_COMPLETED = ''transfer_completed''"
| "backup_event_value E_TRANSFER_FAILED = ''transfer_failed''"

definition state_transitions :: "(backup_state \<times> backup_event, backup_state) dict" where
  "state_transitions =
    [((PENDING_PAIRING, E_PAIRING_ACCEPTED), PAIRING_COMPLETED),
     ((PENDING_PAIRING, E_PAIRING_MISMATCH_DETECTED), PAIRING_MISMATCHED),
     ((PENDING_PAIRING, E_PAIRING_EXPIRED), PAIRING_EXPIRED),
     ((PENDING_PAIRING, E_PAIRING_STOPPED), PAIRING_STOPPED),
     ((PAIRING_MISMATCHED, E_PAIRING_MISMATCH_DETECTED), PAIRING_MISMATCHED),
     ((PAIRING_MISMATCHED, E_PAIRING_MISMATCH_RESOLVED), PAIRING_COMPLETED),
     ((PAIRING_MISMATCHED, E_PAIRING_EXPIRED), PAIRING_EXPIRED),
     ((PAIRING_MISMATCHED, E_PAIRING_STOPPED), PAIRING_STOPPED),
     ((PAIRING_COMPLETED, E_PAIRING_ACCEPTED), PAIRING_COMPLETED),
     ((PAIRING_COMPLETED, E_PAIRING_STOPPED), PAIRING_STOPPED),
     ((PAIRING_EXPIRED, E_PAIRING_EXPIRED), PAIRING_EXPIRED),
     ((PAIRING_EXPIRED, E_PAIRING_ACCEPTED), PAIRING_COMPLETED),
     ((PAIRING_EXPIRED, E_PAIRING_MISMATCH_DETECTED), PAIRING_MISMATCHED),
     ((PAIRING_EXPIRED, E_PAIRING_STOPPED), PAIRING_STOPPED),
     ((PAIRING_STOPPED, E_PAIRING_STOPPED), PAIRING_STOPPED),
     ((PAIRING_STOPPED, E_PAIRING_ACCEPTED), PAIRING_COMPLETED),
     ((PAIRING_STOPPED, E_PAIRING_MISMATCH_DETECTED), PAIRING_MISMATCHED),
     ((PAIRING_COMPLETED, E_TRANSFER_STARTED), TRANSFER_IN_PROGRESS),
     ((TRANSFER_IN_PROGRESS, E_TRANSFER_STARTED), TRANSFER_IN_PROGRESS),
     ((TRANSFER_IN_PROGRESS, E_TRANSFER_STOPPED), TRANSFER_STOPPED),
     ((TRANSFER_IN_PROGRESS, E_TRANSFER_COMPLETED), TRANSFER_COMPLETED),
     ((TRANSFER_IN_PROGRESS, E_TRANSFER_FAILED), TRANSFER_FAILED),
     ((TRANSFER_STOPPED, E_TRANSFER_STARTED), TRANSFER_IN_PROGRESS),
     ((TRANSFER_COMPLETED, E_TRANSFER_STARTED), TRANSFER_IN_PROGRESS),
     ((TRANSFER_FAILED, E_TRANSFER_STARTED), TRANSFER_IN_PROGRESS)]"

text \<open>\<^verbatim>\<open>MobileBackupStateMachine.transition\<close>; the transition error is a \<open>RuntimeError\<close>.\<close>

definition backup_transition :: "backup_state \<Rightarrow> backup_event \<Rightarrow> backup_state res" where
  "backup_transition s e =
     (case dict_get state_transitions (s, e) of
        None \<Rightarrow> Inl (RuntimeError (''Unsupported mobile backup transition: ''
                  @ backup_state_value s @ '' -> '' @ backup_event_value e))
      | Some s' \<Rightarrow> Inr s')"

definition backup_state_from_folder_transfer_state ::
    "string option \<Rightarrow> backup_state \<Rightarrow> backup_state" where
  "backup_state_from_folder_transfer_state folder_transfer_state default_state =
     (if folder_transfer_state = Some MOBILE_TRANSFER_STATE_TRANSFERRING then TRANSFER_IN_PROGRESS
      else if folder_transfer_state = Some MOBILE_TRANSFER_STATE_COMPLETED then TRANSFER_COMPLETED
      else if folder_transfer_state = Some MOBILE_TRANSFER_STATE_FAILED then TRANSFER_FAILED
      else if folder_transfer_state = Some MOBILE_TRANSFER_STATE_DISCONNECTED then TRANSFER_STOPPED
      else if folder_transfer_state = Some MOBILE_TRANSFER_STATE_PAIRED then PAIRING_COMPLETED
      else default_state)"

definition folder_transfer_state_from_backup_state :: "backup_state \<Rightarrow> string" where
  "folder_transfer_state_from_backup_state s =
     (if s = TRANSFER_IN_PROGRESS then MOBILE_TRANSFER_STATE_TRANSFERRING
      else if s = TRANSFER_COMPLETED then MOBILE_TRANSFER_STATE_COMPLETED
      else if s = TRANSFER_FAILED then MOBILE_TRANSFER_STATE_FAILED
      else MOBILE_TRANSFER_STATE_PAIRED)"

definition resolve_next_backup_state ::
    "string option \<Rightarrow> backup_event \<Rightarrow> backup_state \<Rightarrow> backup_state res" where
  "resolve_next_backup_state current_folder_transfer_state event fallback_state =
     (case backup_transition
             (backup_state_from_folder_transfer_state current_folder_transfer_state fallback_state)
             event of
        Inr s \<Rightarrow> Inr s
      | Inl (RuntimeError _) \<Rightarrow> backup_transition fallback_state event
      | Inl e \<Rightarrow> Inl e)"

section \<open>Runs\<close>

fun backup_run :: "backup_state \<Rightarrow> backup_event list \<Rightarrow> backup_state res" where
  "backup_run s [] = Inr s"
| "backup_run s (e # es) = bindE (backup_transition s e) (\<lambda>s'. backup_run s' es)"

definition is_transfer_state :: "backup_state \<Rightarrow> bool" where
  "is_transfer_state s \<longleftrightarrow>
     s \<in> {TRANSFER_IN_PROGRESS, TRANSFER_STOPPED, TRANSFER_COMPLETED, TRANSFER_FAILED}"

definition is_pairing_done_event :: "backup_event \<Rightarrow> bool" where
  "is_pairing_done_event e \<longleftrightarrow> e = E_PAIRING_ACCEPTED \<or> e = E_PAIRING_MISMATCH_RESOLVED"

section \<open>Properties\<close>

lemma backup_run_append:
  "backup_run s (es @ fs) = bindE (backup_run s es) (\<lambda>s'. backup_run s' fs)"
  by (induction es arbitrary: s) (auto simp: bindE_def split: sum.splits)

lemma transition_step_cases:
  assumes "backup_transition s e = Inr s'"
  shows "is_transfer_state s \<Longrightarrow> is_transfer_state s'"
    and "is_transfer_state s' \<Longrightarrow> is_transfer_state s \<or> s = PAIRING_COMPLETED"
    and "s' = PAIRING_COMPLETED \<Longrightarrow> is_pairing_done_event e"
    and "s' = TRANSFER_IN_PROGRESS \<longleftrightarrow> e = E_TRANSFER_STARTED"
proof -
  from assms have "((s, e), s') \<in> set state_transitions"
    by (auto simp: backup_transition_def split: option.splits dest: dict_get_member)
  then have "(is_transfer_state s \<longrightarrow> is_transfer_state s') \<and>
      (is_transfer_state s' \<longrightarrow> is_transfer_state s \<or> s = PAIRING_COMPLETED) \<and>
      (s' = PAIRING_COMPLETED \<longrightarrow> is_pairing_done_event e) \<and>
      (s' = TRANSFER_IN_PROGRESS \<longleftrightarrow> e = E_TRANSFER_STARTED)"
    by (auto simp: state_transitions_def is_transfer_state_def is_pairing_done_event_def)
  then show "is_transfer_state s \<Longrightarrow> is_transfer_state s'"
    and "is_transfer_state s' \<Longrightarrow> is_transfer_state s \<or> s = PAIRING_COMPLETED"
    and "s' = PAIRING_COMPLETED \<Longrightarrow> is_pairing_done_event e"
    and "s' = TRANSFER_IN_PROGRESS \<longleftrightarrow> e = E_TRANSFER_STARTED"
    by blast+
qed

lemma run_keeps_transfer:
  "backup_run s es = Inr s' \<Longrightarrow> is_transfer_state s \<Longrightarrow> is_transfer_state s'"
  by (induction es arbitrary: s) (auto simp: exn_simps dest: transition_step_cases(1))

text \<open>
  No transfer without pairing: a run of the machine from the initial state that reaches a
  transfer state has accepted a pairing event (an accepted pairing or a resolved mismatch) and,
  later in the run, a \<open>TRANSFER_STARTED\<close>.
\<close>
theorem backup_transfer_needs_pairing:
  assumes "backup_run PENDING_PAIRING es = Inr s" and "is_transfer_state s"
  shows "\<exists>us e vs. es = us @ e # vs \<and> is_pairing_done_event e \<and> E_TRANSFER_STARTED \<in> set vs"
proof -
  have paired: "\<exists>e\<in>set es. is_pairing_done_event e"
    if "backup_run PENDING_PAIRING es = Inr PAIRING_COMPLETED" for es
  proof (cases es rule: rev_cases)
    case Nil
    with that show ?thesis by simp
  next
    case (snoc us e)
    with that show ?thesis
      by (auto simp: backup_run_append exn_simps dest: transition_step_cases(3))
  qed
  from assms show ?thesis
  proof (induction es arbitrary: s rule: rev_induct)
    case Nil
    then show ?case by (simp add: is_transfer_state_def)
  next
    case (snoc e es)
    then obtain t where t: "backup_run PENDING_PAIRING es = Inr t" "backup_transition t e = Inr s"
      by (auto simp: backup_run_append exn_simps)
    show ?case
    proof (cases "is_transfer_state t")
      case True
      with snoc.IH [OF t(1)] show ?thesis by fastforce
    next
      case False
      with t(2) snoc.prems have tc: "t = PAIRING_COMPLETED"
        using transition_step_cases(2) by blast
      with t(1) paired obtain us d vs where "es = us @ d # vs" "is_pairing_done_event d"
        by (metis split_list)
      moreover have "e = E_TRANSFER_STARTED"
        using t(2) snoc.prems tc
        by (cases e) (auto simp: backup_transition_def state_transitions_def dict_get_def
            is_transfer_state_def)
      ultimately show ?thesis by force
    qed
  qed
qed

lemma backup_transfer_needs_pairing_witness:
  "\<exists>us e vs. [E_PAIRING_MISMATCH_DETECTED, E_PAIRING_MISMATCH_RESOLVED, E_TRANSFER_STARTED]
      = us @ e # vs \<and> is_pairing_done_event e \<and> E_TRANSFER_STARTED \<in> set vs"
proof (rule backup_transfer_needs_pairing)
  show "backup_run PENDING_PAIRING
      [E_PAIRING_MISMATCH_DETECTED, E_PAIRING_MISMATCH_RESOLVED, E_TRANSFER_STARTED]
      = Inr TRANSFER_IN_PROGRESS"
    by (simp add: backup_transition_def state_transitions_def dict_get_def)
qed (simp add: is_transfer_state_def)

lemma resolve_start [simp]:
  "resolve_next_backup_state f E_TRANSFER_STARTED PAIRING_COMPLETED = Inr TRANSFER_IN_PROGRESS"
  by (simp add: resolve_next_backup_state_def backup_state_from_folder_transfer_state_def
      backup_transition_def state_transitions_def dict_get_def)

lemma resolve_finish [simp]:
  "resolve_next_backup_state f E_TRANSFER_STOPPED TRANSFER_IN_PROGRESS = Inr TRANSFER_STOPPED"
  "resolve_next_backup_state f E_TRANSFER_COMPLETED TRANSFER_IN_PROGRESS = Inr TRANSFER_COMPLETED"
  "resolve_next_backup_state f E_TRANSFER_FAILED TRANSFER_IN_PROGRESS = Inr TRANSFER_FAILED"
  by (simp_all add: resolve_next_backup_state_def backup_state_from_folder_transfer_state_def
      backup_transition_def state_transitions_def dict_get_def)

text \<open>
  Resolving an event never raises when the fallback state accepts it: in particular every
  call of the transfer service (a start with fallback \<open>PAIRING_COMPLETED\<close>; a stop, completion
  or failure with fallback \<open>TRANSFER_IN_PROGRESS\<close>) returns the state the event names, whatever
  text is stored.
\<close>
theorem resolve_next_for_transfer_events:
  "resolve_next_backup_state f E_TRANSFER_STARTED PAIRING_COMPLETED = Inr TRANSFER_IN_PROGRESS \<and>
   resolve_next_backup_state f E_TRANSFER_STOPPED TRANSFER_IN_PROGRESS = Inr TRANSFER_STOPPED \<and>
   resolve_next_backup_state f E_TRANSFER_COMPLETED TRANSFER_IN_PROGRESS = Inr TRANSFER_COMPLETED \<and>
   resolve_next_backup_state f E_TRANSFER_FAILED TRANSFER_IN_PROGRESS = Inr TRANSFER_FAILED"
  by simp

text \<open>
  What the folder column keeps of a state: the three transfer states it has a text for are
  read back unchanged, every other state, a stopped transfer included, is read back as a
  completed pairing.
\<close>
theorem folder_transfer_state_roundtrip:
  "backup_state_from_folder_transfer_state (Some (folder_transfer_state_from_backup_state s)) d =
     (if s \<in> {TRANSFER_IN_PROGRESS, TRANSFER_COMPLETED, TRANSFER_FAILED} then s
      else PAIRING_COMPLETED)"
  by (cases s) (simp_all add: backup_state_from_folder_transfer_state_def folder_state_defs
      folder_transfer_state_from_backup_state_def)

end
