(* ===== verification/AppDb.thy ===== *)
theory AppDb
  imports Prelude "HOL-Library.List_Lexorder"
begin

text \<open>
  \<^verbatim>\<open>dt_image_search/model/dts_db.py\<close>: the tables of the application database and the
  queries of the folder and file index.

  A table is the list of its rows in insertion order; a query without \<^verbatim>\<open>ORDER BY\<close> returns
  its rows in that order.  Identifiers of \<^verbatim>\<open>AUTOINCREMENT\<close> tables come from a counter that
  never goes back.  The tables of the mobile backup belong to the same record and are used by the
  theory \<open>PairingStore\<close>.
\<close>

section \<open>Tables\<close>

record folder_row =
  fo_id :: int
  fo_path :: string
  fo_status :: int
  fo_added_at :: string

record file_row =
  fi_id :: int
  fi_path :: string
  fi_folder_id :: int
  fi_clip_index :: "int option"
  fi_status :: int

record device_row =
  de_device_uuid :: string
  de_platform :: string
  de_device_name :: string
  de_trust_key_b64 :: string
  de_paired_at :: string
  de_last_seen_at :: string

record mobile_folder_row =
  mf_folder_id :: int
  mf_device_uuid :: string
  mf_transfer_state :: string
  mf_transfer_state_updated_at :: string

record session_row =
  se_session_id :: string
  se_device_uuid :: string
  se_folder_id :: int
  se_status :: string
  se_total_assets :: int
  se_transferred_count :: int
  se_failed_count :: int
  se_started_at :: string
  se_paired_at :: "string option"
  se_ended_at :: "string option"

record asset_row =
  as_device_uuid :: string
  as_remote_asset_id :: string
  as_remote_asset_version :: "string option"
  as_content_sha1 :: "string option"
  as_file_size_bytes :: "int option"
  as_asset_created_at :: "string option"
  as_local_relative_path :: string
  as_last_transferred_at :: string

record app_db =
  db_config :: "(string, string) dict"
  db_folders :: "folder_row list"
  db_next_folder_id :: int
  db_files :: "file_row list"
  db_next_file_id :: int
  db_devices :: "device_row list"
  db_mobile_folders :: "mobile_folder_row list"
  db_sessions :: "session_row list"
  db_assets :: "asset_row list"

section \<open>SQL helpers\<close>

text \<open>\<^verbatim>\<open>fetchone()\<close>, \<^verbatim>\<open>UPDATE ... WHERE\<close> and \<^verbatim>\<open>ORDER BY key DESC LIMIT 1\<close>.\<close>

definition fetchone :: "'r list \<Rightarrow> 'r option" where
  "fetchone rows = (case rows of [] \<Rightarrow> None | r # _ \<Rightarrow> Some r)"

definition sql_update :: "('r \<Rightarrow> bool) \<Rightarrow> ('r \<Rightarrow> 'r) \<Rightarrow> 'r list \<Rightarrow> 'r list" where
  "sql_update p f rows = map (\<lambda>r. if p r then f r else r) rows"

fun first_max_by :: "('r \<Rightarrow> 'k :: linorder) \<Rightarrow> 'r list \<Rightarrow> 'r option" where
  "first_max_by key [] = None"
| "first_max_by key (r # rs) =
     (case first_max_by key rs of
        None \<Rightarrow> Some r
      | Some m \<Rightarrow> if key r < key m then Some m else Some r)"

text \<open>
  SQLite's \<^verbatim>\<open>text LIKE pattern\<close>: \<^verbatim>\<open>%\<close> matches any sequence, \<^verbatim>\<open>_\<close> any
  character, and ASCII letters match in either case.
\<close>

definition like_fold :: "char \<Rightarrow> char" where
  "like_fold c = (let n = of_char c :: nat in if 65 \<le> n \<and> n \<le> 90 then char_of (n + 32) else c)"

fun like_match :: "string \<Rightarrow> string \<Rightarrow> bool" where
  "like_match [] [] = True"
| "like_match [] (c # s) = False"
| "like_match (p # ps) [] = (p = CHR ''%'' \<and> like_match ps [])"
| "like_match (p # ps) (c # s) =
     (if p = CHR ''%'' then like_match ps (c # s) \<or> like_match (p # ps) s
      else (p = CHR ''_'' \<or> like_fold p = like_fold c) \<and> like_match ps s)"

definition slashes :: "string \<Rightarrow> string" where
  "slashes path = replace_char (CHR 0x5C) (CHR ''/'') path"

definition rstrip_slash :: "string \<Rightarrow> string" where
  "rstrip_slash = rstrip_by (\<lambda>c. c = CHR ''/'')"

definition with_slash :: "string \<Rightarrow> string" where
  "with_slash path = (if py_endswith path ''/'' then path else path @ ''/'')"

section \<open>Configuration and folders\<close>

definition get_config :: "app_db \<Rightarrow> string \<Rightarrow> string option" where
  "get_config db key = dict_get (db_config db) key"

definition set_config :: "app_db \<Rightarrow> string \<Rightarrow> string \<Rightarrow> app_db" where
  "set_config db key v = db\<lparr>db_config := dict_set (db_config db) key v\<rparr>"

definition dts_folder_path_variants :: "string \<Rightarrow> string list" where
  "dts_folder_path_variants folder_path =
     (let normalized_path = slashes folder_path
      in if normalized_path = ''/'' then [normalized_path]
         else let trimmed_path = rstrip_slash normalized_path in [trimmed_path, trimmed_path @ ''/''])"

definition get_folder_by_id :: "app_db \<Rightarrow> int \<Rightarrow> folder_row option" where
  "get_folder_by_id db folder_id = fetchone (filter (\<lambda>r. fo_id r = folder_id) (db_folders db))"

text \<open>\<open>stamp\<close> is SQLite's \<^verbatim>\<open>CURRENT_TIMESTAMP\<close>; the path is unique.\<close>

definition insert_folder :: "app_db \<Rightarrow> string \<Rightarrow> string \<Rightarrow> app_db \<times> folder_row option" where
  "insert_folder db stamp folder_path =
     (let folder_path = slashes folder_path
      in if list_ex (\<lambda>r. fo_path r = folder_path) (db_folders db) then (db, None)
         else let db' = db\<lparr>db_folders := db_folders db @ [\<lparr>fo_id = db_next_folder_id db,
                             fo_path = folder_path, fo_status = 0, fo_added_at = stamp\<rparr>],
                           db_next_folder_id := db_next_folder_id db + 1\<rparr>
              in (db', fetchone (filter (\<lambda>r. fo_path r = folder_path) (db_folders db'))))"

definition has_any_folder :: "app_db \<Rightarrow> bool" where
  "has_any_folder db = (fetchone (db_folders db) \<noteq> None)"

definition get_all_folders :: "app_db \<Rightarrow> folder_row list" where
  "get_all_folders db = db_folders db"

definition get_subfolders :: "app_db \<Rightarrow> string \<Rightarrow> folder_row list" where
  "get_subfolders db folder_path =
     (let folder_path = slashes folder_path
      in if folder_path = ''/''
         then filter (\<lambda>r. fo_path r = ''/'' \<or> like_match ''/%'' (fo_path r)) (db_folders db)
         else let normalized_prefix = rstrip_slash folder_path;
                  with_trailing_slash = normalized_prefix @ ''/''
              in filter (\<lambda>r. fo_path r = normalized_prefix \<or> fo_path r = with_trailing_slash
                    \<or> like_match (with_trailing_slash @ ''%'') (fo_path r)) (db_folders db))"

definition get_folder_by_path :: "app_db \<Rightarrow> string \<Rightarrow> folder_row option" where
  "get_folder_by_path db folder_path =
     first_max_by (\<lambda>r. - int (length (fo_path r)))
       (filter (\<lambda>r. fo_path r \<in> set (dts_folder_path_variants folder_path)) (db_folders db))"

definition update_folder_status :: "app_db \<Rightarrow> int \<Rightarrow> int \<Rightarrow> app_db" where
  "update_folder_status db folder_id status =
     db\<lparr>db_folders := sql_update (\<lambda>r. fo_id r = folder_id) (fo_status_update (\<lambda>_. status)) (db_folders db)\<rparr>"

definition is_folder_exists :: "app_db \<Rightarrow> string \<Rightarrow> bool" where
  "is_folder_exists db folder_path =
     list_ex (\<lambda>r. fo_path r \<in> set (dts_folder_path_variants folder_path)) (db_folders db)"

definition match_parent_folder :: "app_db \<Rightarrow> string \<Rightarrow> folder_row option" where
  "match_parent_folder db path =
     first_max_by (\<lambda>r. length (fo_path r))
       (filter (\<lambda>r. like_match (fo_path r @ ''%'') (slashes path)) (db_folders db))"

section \<open>Files\<close>

definition insert_file :: "app_db \<Rightarrow> string \<Rightarrow> int \<Rightarrow> app_db" where
  "insert_file db path folder_id =
     (let path = slashes path
      in if list_ex (\<lambda>r. fi_path r = path \<and> fi_folder_id r = folder_id) (db_files db)
         then db\<lparr>db_files := sql_update (\<lambda>r. fi_path r = path \<and> fi_folder_id r = folder_id \<and> fi_status r = 2)
                               (fi_status_update (\<lambda>_. 0)) (db_files db)\<rparr>
         else db\<lparr>db_files := db_files db @ [\<lparr>fi_id = db_next_file_id db, fi_path = path,
                    fi_folder_id = folder_id, fi_clip_index = None, fi_status = 0\<rparr>],
                 db_next_file_id := db_next_file_id db + 1\<rparr>)"

definition get_file_by_path :: "app_db \<Rightarrow> string \<Rightarrow> file_row option" where
  "get_file_by_path db path = fetchone (filter (\<lambda>r. fi_path r = slashes path) (db_files db))"

definition get_file_by_id :: "app_db \<Rightarrow> int \<Rightarrow> file_row option" where
  "get_file_by_id db file_id = fetchone (filter (\<lambda>r. fi_id r = file_id) (db_files db))"

definition get_direct_child_files :: "app_db \<Rightarrow> string \<Rightarrow> file_row list" where
  "get_direct_child_files db subtree =
     (let subtree = with_slash (slashes subtree)
      in filter (\<lambda>r. like_match (subtree @ ''%'') (fi_path r) \<and> \<not> like_match (subtree @ ''%/%'') (fi_path r))
           (db_files db))"

text \<open>
  \<open>update_file\<close>: an update of the path or the folder may clash with the unique index on
  folder and path.
\<close>

definition apply_file_update ::
    "string option \<Rightarrow> int option \<Rightarrow> int option \<Rightarrow> int option \<Rightarrow> file_row \<Rightarrow> file_row" where
  "apply_file_update path folder_id clip_index status r =
     r\<lparr>fi_path := (case path of None \<Rightarrow> fi_path r | Some p \<Rightarrow> slashes p),
       fi_folder_id := (case folder_id of None \<Rightarrow> fi_folder_id r | Some f \<Rightarrow> f),
       fi_clip_index := (case clip_index of None \<Rightarrow> fi_clip_index r | Some c \<Rightarrow> Some c),
       fi_status := (case status of None \<Rightarrow> fi_status r | Some s \<Rightarrow> s)\<rparr>"

definition files_unique :: "file_row list \<Rightarrow> bool" where
  "files_unique rows = distinct (map (\<lambda>r. (fi_folder_id r, fi_path r)) rows)"

definition update_file ::
    "app_db \<Rightarrow> int \<Rightarrow> string option \<Rightarrow> int option \<Rightarrow> int option \<Rightarrow> int option \<Rightarrow> app_db res" where
  "update_file db file_id path folder_id clip_index status =
     (if path = None \<and> folder_id = None \<and> clip_index = None \<and> status = None then Inr db
      else let rows = sql_update (\<lambda>r. fi_id r = file_id)
                        (apply_file_update path folder_id clip_index status) (db_files db)
           in if files_unique rows then Inr (db\<lparr>db_files := rows\<rparr>)
              else Inl (IntegrityError ''UNIQUE constraint failed: files.folder_id, files.path''))"

text \<open>
  \<open>update_files\<close> hands one tuple per file to a statement with two more placeholders than
  files; sqlite3 counts the bindings and raises.
\<close>

definition update_files :: "app_db \<Rightarrow> int list \<Rightarrow> int list \<Rightarrow> int list \<Rightarrow> app_db res" where
  "update_files db ids clip_indices statuses =
     (if ids = [] \<or> clip_indices = [] \<or> statuses = [] then Inr db
      else if length ids \<noteq> length clip_indices \<or> length ids \<noteq> length statuses
        then Inl (ValueError ''Length of ids, clip_indices and statuses must match'')
      else let supplied = length (zip ids (zip clip_indices statuses)); placeholders = 2 + length ids
           in if supplied \<noteq> placeholders
              then Inl (ProgrammingError (''Incorrect number of bindings supplied. The current statement uses ''
                     @ str_nat placeholders @ '', and there are '' @ str_nat supplied @ '' supplied.''))
              else Inr db)"

text \<open>\<open>rename_file\<close>: \<open>changes\<close> is the connection's \<^verbatim>\<open>total_changes\<close> before the call.\<close>

definition rename_file :: "app_db \<Rightarrow> int \<Rightarrow> string \<Rightarrow> string \<Rightarrow> int \<Rightarrow> (app_db \<times> int) res" where
  "rename_file db changes old_path new_path dest_folder_id =
     (let old_path = slashes old_path; new_path = slashes new_path;
          kept = filter (\<lambda>r. fi_path r \<noteq> new_path) (db_files db);
          deleted = length (db_files db) - length kept;
          updated = length (filter (\<lambda>r. fi_path r = old_path) kept);
          rows = sql_update (\<lambda>r. fi_path r = old_path)
                   (\<lambda>r. r\<lparr>fi_path := new_path, fi_folder_id := dest_folder_id\<rparr>) kept
      in if files_unique rows
         then Inr (db\<lparr>db_files := rows\<rparr>, changes + int deleted + int updated)
         else Inl (IntegrityError ''UNIQUE constraint failed: files.folder_id, files.path''))"

definition rename_row_in_folder ::
    "string \<Rightarrow> string \<Rightarrow> int \<Rightarrow> file_row \<Rightarrow> file_row list \<Rightarrow> file_row list" where
  "rename_row_in_folder folder_path new_folder_path dest_folder_id row rows =
     (let new_file_path = new_folder_path @ drop (length folder_path) (fi_path row)
      in sql_update (\<lambda>r. fi_id r = fi_id row)
           (\<lambda>r. r\<lparr>fi_path := new_file_path, fi_folder_id := dest_folder_id\<rparr>)
           (filter (\<lambda>r. fi_path r \<noteq> new_file_path) rows))"

definition rename_files_in_folder :: "app_db \<Rightarrow> string \<Rightarrow> string \<Rightarrow> int \<Rightarrow> app_db \<times> int" where
  "rename_files_in_folder db folder_path new_folder_path dest_folder_id =
     (let folder_path = with_slash (slashes folder_path);
          new_folder_path = with_slash (slashes new_folder_path);
          rows = filter (\<lambda>r. like_match (folder_path @ ''%'') (fi_path r)) (db_files db)
      in (db\<lparr>db_files := fold (rename_row_in_folder folder_path new_folder_path dest_folder_id) rows
                           (db_files db)\<rparr>, int (length rows)))"

definition mark_files_deleted :: "app_db \<Rightarrow> int list \<Rightarrow> app_db" where
  "mark_files_deleted db ids =
     (if ids = [] then db
      else db\<lparr>db_files := sql_update (\<lambda>r. fi_id r \<in> set ids) (fi_status_update (\<lambda>_. 2)) (db_files db)\<rparr>)"

definition mark_files_skipped :: "app_db \<Rightarrow> int list \<Rightarrow> app_db" where
  "mark_files_skipped db ids =
     (if ids = [] then db
      else db\<lparr>db_files := sql_update (\<lambda>r. fi_id r \<in> set ids) (fi_status_update (\<lambda>_. 2)) (db_files db)\<rparr>)"

definition get_files_by_clip_indices :: "app_db \<Rightarrow> int \<Rightarrow> int list \<Rightarrow> string option list" where
  "get_files_by_clip_indices db folder_id clip_indices =
     (if clip_indices = [] then []
      else let rows = filter (\<lambda>r. fi_folder_id r = folder_id \<and> fi_status r = 1 \<and>
                          (case fi_clip_index r of None \<Rightarrow> False | Some c \<Rightarrow> c \<in> set clip_indices)) (db_files db);
               path_by_clip_index = fold (\<lambda>r d. dict_set d (fi_clip_index r) (fi_path r)) rows []
           in map (\<lambda>c. dict_get path_by_clip_index (Some c)) clip_indices)"

definition get_pending_files_for_folder :: "app_db \<Rightarrow> int \<Rightarrow> nat \<Rightarrow> nat \<Rightarrow> file_row list" where
  "get_pending_files_for_folder db folder_id offset limit =
     take limit (drop offset
       (sort_key fi_id (filter (\<lambda>r. fi_folder_id r = folder_id \<and> fi_status r = 0) (db_files db))))"

definition count_files_in_folder :: "app_db \<Rightarrow> int \<Rightarrow> nat" where
  "count_files_in_folder db folder_id = length (filter (\<lambda>r. fi_folder_id r = folder_id) (db_files db))"

definition delete_files_by_folder_id :: "app_db \<Rightarrow> int \<Rightarrow> app_db" where
  "delete_files_by_folder_id db folder_id =
     db\<lparr>db_files := filter (\<lambda>r. fi_folder_id r \<noteq> folder_id) (db_files db)\<rparr>"

text \<open>The deletion loop takes the identifiers twenty at a time.\<close>

function delete_file_batches :: "int list \<Rightarrow> file_row list \<Rightarrow> file_row list" where
  "delete_file_batches ids rows =
     (if ids = [] then rows
      else delete_file_batches (drop 20 ids) (filter (\<lambda>r. fi_id r \<notin> set (take 20 ids)) rows))"
  by pat_completeness auto
termination
  by (relation "measure (\<lambda>(ids, rows). length ids)") auto

declare delete_file_batches.simps [simp del]

definition delete_files_by_ids :: "app_db \<Rightarrow> int list \<Rightarrow> app_db" where
  "delete_files_by_ids db ids =
     (if ids = [] then db else db\<lparr>db_files := delete_file_batches ids (db_files db)\<rparr>)"

definition match_child_files :: "app_db \<Rightarrow> string \<Rightarrow> file_row list" where
  "match_child_files db folder_path =
     filter (\<lambda>r. like_match (with_slash (slashes folder_path) @ ''%'') (fi_path r)) (db_files db)"

section \<open>LIKE as a prefix test\<close>

definition no_wildcards :: "string \<Rightarrow> bool" where
  "no_wildcards p \<longleftrightarrow> CHR ''%'' \<notin> set p \<and> CHR ''_'' \<notin> set p"

lemma like_match_percent: "like_match ''%'' s"
  by (induction s) auto

lemma like_match_prefix:
  "no_wildcards p \<Longrightarrow>
     like_match (p @ ''%'') s \<longleftrightarrow> map like_fold (take (length p) s) = map like_fold p"
proof (induction p arbitrary: s)
  case Nil
  then show ?case by (simp add: like_match_percent)
next
  case (Cons c p)
  then show ?case by (cases s) (auto simp: no_wildcards_def)
qed

lemma like_match_skip: "like_match ps t \<Longrightarrow> like_match (CHR ''%'' # ps) t"
  by (cases t) auto

lemma like_match_append: "like_match (p @ ''%'') (p @ s)"
  by (induction p) (auto simp: like_match_percent like_match_skip)

text \<open>
  Without wildcard characters in the folder path, \<open>match_child_files\<close> returns exactly the
  files whose path starts with the folder's path and a slash, ASCII case aside.
\<close>
theorem match_child_files_exact:
  assumes "no_wildcards (with_slash (slashes folder_path))"
  shows "match_child_files db folder_path =
    filter (\<lambda>r. map like_fold (take (length (with_slash (slashes folder_path))) (fi_path r))
                = map like_fold (with_slash (slashes folder_path))) (db_files db)"
  by (simp add: match_child_files_def like_match_prefix [OF assms])

definition example_db :: app_db where
  "example_db = \<lparr>db_config = [], db_folders = [\<lparr>fo_id = 1, fo_path = ''/photos'', fo_status = 2,
      fo_added_at = []\<rparr>], db_next_folder_id = 2,
    db_files = [\<lparr>fi_id = 1, fi_path = ''/a_b/f.jpg'', fi_folder_id = 1, fi_clip_index = None, fi_status = 0\<rparr>,
                \<lparr>fi_id = 2, fi_path = ''/axb/g.jpg'', fi_folder_id = 1, fi_clip_index = Some 5, fi_status = 1\<rparr>],
    db_next_file_id = 3, db_devices = [], db_mobile_folders = [], db_sessions = [], db_assets = []\<rparr>"

lemma match_child_files_exact_witness:
  "match_child_files example_db ''/axb'' =
     filter (\<lambda>r. map like_fold (take (length ''/axb/'') (fi_path r)) = map like_fold ''/axb/'') (db_files example_db)"
proof -
  have w: "with_slash (slashes ''/axb'') = ''/axb/''"
    by (simp add: slashes_def replace_char_def with_slash_def py_endswith_def)
  have "no_wildcards (with_slash (slashes ''/axb''))" by (simp add: w no_wildcards_def)
  from match_child_files_exact [OF this, of example_db] show ?thesis by (simp add: w)
qed

text \<open>
  An underscore in the folder name is a wildcard: renaming \<^verbatim>\<open>/a_b\<close> also rewrites the
  path of a file of the unrelated folder \<^verbatim>\<open>/axb\<close>.
\<close>
theorem rename_folder_captures_sibling:
  "map fi_path (db_files (fst (rename_files_in_folder example_db ''/a_b'' ''/c'' 1)))
     = [''/c/f.jpg'', ''/c/g.jpg'']"
  by (simp add: rename_files_in_folder_def example_db_def slashes_def replace_char_def with_slash_def
      py_endswith_def rename_row_in_folder_def sql_update_def Let_def)

lemma first_max_by_None_iff: "first_max_by key rs = None \<longleftrightarrow> rs = []"
  by (cases rs) (auto split: option.splits)

lemma first_max_by_Some:
  "first_max_by key rs = Some m \<Longrightarrow> m \<in> set rs \<and> (\<forall>r\<in>set rs. key r \<le> key m)"
proof (induction rs arbitrary: m)
  case Nil
  then show ?case by simp
next
  case (Cons r rs)
  show ?case
  proof (cases "first_max_by key rs")
    case None
    with Cons.prems show ?thesis by (simp add: first_max_by_None_iff)
  next
    case (Some n)
    with Cons.IH [OF Some] Cons.prems show ?thesis by (force split: if_splits)
  qed
qed

text \<open>
  \<open>match_parent_folder\<close> does not stop at a path separator: whatever text follows the path of
  an indexed folder, some indexed folder with a path at least as long is returned as the parent,
  so \<^verbatim>\<open>/photos2/x.jpg\<close> belongs to the folder \<^verbatim>\<open>/photos\<close>.
\<close>
theorem match_parent_ignores_separator:
  assumes "f \<in> set (db_folders db)" and "slashes (fo_path f @ rest) = fo_path f @ rest"
  shows "\<exists>g. match_parent_folder db (fo_path f @ rest) = Some g \<and> length (fo_path f) \<le> length (fo_path g)"
proof -
  let ?rows = "filter (\<lambda>r. like_match (fo_path r @ ''%'') (fo_path f @ rest)) (db_folders db)"
  have f: "f \<in> set ?rows" using assms(1) by (simp add: like_match_append)
  then obtain g where g: "first_max_by (\<lambda>r. length (fo_path r)) ?rows = Some g"
    by (cases "first_max_by (\<lambda>r. length (fo_path r)) ?rows") (auto simp: first_max_by_None_iff filter_empty_conv)
  with f first_max_by_Some [OF g] assms(2) show ?thesis by (auto simp: match_parent_folder_def)
qed

lemma match_parent_ignores_separator_witness:
  "\<exists>g. match_parent_folder example_db (''/photos'' @ ''2/x.jpg'') = Some g \<and> length ''/photos'' \<le> length (fo_path g)"
  using match_parent_ignores_separator [of "hd (db_folders example_db)" example_db "''2/x.jpg''"]
  by (simp add: example_db_def slashes_def replace_char_def)

text \<open>
  \<open>update_files\<close> never succeeds on a non-empty batch.
\<close>
theorem update_files_always_raises:
  assumes "ids \<noteq> []" and "clip_indices \<noteq> []" and "statuses \<noteq> []"
  shows "\<exists>e. update_files db ids clip_indices statuses = Inl e"
  using assms by (simp add: update_files_def Let_def)

lemma update_files_always_raises_witness: "\<exists>e. update_files example_db [1] [7] [1] = Inl e"
  using update_files_always_raises [of "[1]" "[7]" "[1]" example_db] by simp

lemma delete_file_batches_eq: "delete_file_batches ids rows = filter (\<lambda>r. fi_id r \<notin> set ids) rows"
proof (induction ids rows rule: delete_file_batches.induct)
  case (1 ids rows)
  show ?case
  proof (cases "ids = []")
    case True
    then show ?thesis by (simp add: delete_file_batches.simps)
  next
    case False
    have "set ids = set (take 20 ids) \<union> set (drop 20 ids)"
      by (metis append_take_drop_id set_append)
    with False "1" show ?thesis
      by (simp add: delete_file_batches.simps [of ids] conj_commute)
  qed
qed

lemma delete_files_by_ids_eq:
  "delete_files_by_ids db ids = db\<lparr>db_files := filter (\<lambda>r. fi_id r \<notin> set ids) (db_files db)\<rparr>"
  by (simp add: delete_files_by_ids_def delete_file_batches_eq)

text \<open>
  Deleting files twenty at a time deletes exactly the files whose identifier is in the list
  and nothing else of the database.
\<close>
theorem delete_files_by_ids_exact:
  "delete_files_by_ids db ids = db\<lparr>db_files := filter (\<lambda>r. fi_id r \<notin> set ids) (db_files db)\<rparr>"
  by (rule delete_files_by_ids_eq)

section \<open>The invariant of the index tables\<close>

definition files_ok :: "app_db \<Rightarrow> bool" where
  "files_ok db \<longleftrightarrow> distinct (map fi_id (db_files db)) \<and> files_unique (db_files db) \<and>
     (\<forall>r\<in>set (db_files db). fi_id r < db_next_file_id db)"

definition folders_ok :: "app_db \<Rightarrow> bool" where
  "folders_ok db \<longleftrightarrow> distinct (map fo_id (db_folders db)) \<and> distinct (map fo_path (db_folders db)) \<and>
     (\<forall>r\<in>set (db_folders db). fo_id r < db_next_folder_id db)"

lemma map_sql_update_same:
  "(\<And>r. g (f r) = g r) \<Longrightarrow> map g (sql_update p f rows) = map g rows"
  by (simp add: sql_update_def)

lemma set_sql_update:
  "r \<in> set (sql_update p f rows) \<Longrightarrow> \<exists>r0\<in>set rows. r = r0 \<or> p r0 \<and> r = f r0"
  by (auto simp: sql_update_def)

lemma files_ok_update:
  assumes "files_ok db" and "\<And>r. fi_id (f r) = fi_id r" and "\<And>r. fi_path (f r) = fi_path r"
    and "\<And>r. fi_folder_id (f r) = fi_folder_id r"
  shows "files_ok (db\<lparr>db_files := sql_update p f (db_files db)\<rparr>)"
  using assms by (auto simp: files_ok_def files_unique_def map_sql_update_same dest!: set_sql_update)

lemma distinct_map_filter_rows: "distinct (map f rows) \<Longrightarrow> distinct (map f (filter p rows))"
  by (rule distinct_map_filter)

lemma files_ok_filter: "files_ok db \<Longrightarrow> files_ok (db\<lparr>db_files := filter p (db_files db)\<rparr>)"
  by (auto simp: files_ok_def files_unique_def distinct_map_filter)

lemma distinct_map_update_one:
  assumes "distinct (map k rows)" and "distinct (map i rows)" and "\<And>r. i (f r) = i r"
    and "\<And>r. r \<in> set rows \<Longrightarrow> k r \<noteq> v" and "\<And>r. k (f r) = v"
  shows "distinct (map k (sql_update (\<lambda>r. i r = n) f rows))"
  using assms
proof (induction rows)
  case Nil
  then show ?case by (simp add: sql_update_def)
next
  case (Cons a rows)
  have other: "v \<notin> k ` set (sql_update (\<lambda>r. i r = n) f rows)" if "n \<notin> i ` set rows"
    using that Cons.prems(4) by (auto dest!: set_sql_update)
  have same: "sql_update (\<lambda>r. i r = n) f rows = rows" if "n \<notin> i ` set rows"
    using that by (auto simp: sql_update_def intro!: map_idI)
  show ?case
  proof (cases "i a = n")
    case True
    then have "n \<notin> i ` set rows" using Cons.prems(2) by auto
    with True Cons show ?thesis
      using other same by (auto simp: sql_update_def)
  next
    case False
    have "k a \<notin> k ` set (sql_update (\<lambda>r. i r = n) f rows)"
      using Cons.prems(1,4,5) by (auto dest!: set_sql_update)
    with False Cons show ?thesis by (auto simp: sql_update_def)
  qed
qed

definition rows_ok :: "int \<Rightarrow> file_row list \<Rightarrow> bool" where
  "rows_ok n rows \<longleftrightarrow> distinct (map fi_id rows) \<and> files_unique rows \<and> (\<forall>r\<in>set rows. fi_id r < n)"

lemma files_ok_rows: "files_ok db \<longleftrightarrow> rows_ok (db_next_file_id db) (db_files db)"
  by (simp add: files_ok_def rows_ok_def)

lemma rename_row_in_folder_ok:
  assumes "rows_ok n rows"
  shows "rows_ok n (rename_row_in_folder a b d row rows)"
proof -
  let ?p = "b @ drop (length a) (fi_path row)"
  let ?f = "\<lambda>r. r\<lparr>fi_path := ?p, fi_folder_id := d\<rparr>"
  let ?rows = "filter (\<lambda>r. fi_path r \<noteq> ?p) rows"
  have "distinct (map (\<lambda>r. (fi_folder_id r, fi_path r)) ?rows)"
    using assms by (simp add: rows_ok_def files_unique_def distinct_map_filter)
  then have "distinct (map (\<lambda>r. (fi_folder_id r, fi_path r)) (sql_update (\<lambda>r. fi_id r = fi_id row) ?f ?rows))"
    using assms
    by (intro distinct_map_update_one [where v = "(d, ?p)"])
      (auto simp: rows_ok_def distinct_map_filter)
  moreover have "\<forall>r\<in>set (sql_update (\<lambda>r. fi_id r = fi_id row) ?f ?rows). fi_id r < n"
    using assms by (auto simp: sql_update_def rows_ok_def)
  ultimately show ?thesis
    using assms
    by (simp add: rename_row_in_folder_def Let_def rows_ok_def files_unique_def map_sql_update_same
        distinct_map_filter)
qed

lemma fold_rename_rows_ok: "rows_ok n rows \<Longrightarrow> rows_ok n (fold (rename_row_in_folder a b d) rs rows)"
  by (induction rs arbitrary: rows) (auto intro: rename_row_in_folder_ok)

lemma insert_file_ok: "files_ok db \<Longrightarrow> files_ok (insert_file db path folder_id)"
  by (auto simp: insert_file_def Let_def intro!: files_ok_update)
    (auto simp: files_ok_def files_unique_def list_ex_iff)

lemma insert_folder_ok: "folders_ok db \<Longrightarrow> folders_ok (fst (insert_folder db stamp path))"
  by (auto simp: insert_folder_def folders_ok_def Let_def list_ex_iff)

lemma file_operations_ok:
  assumes "files_ok db"
  shows "files_ok (insert_file db path folder_id)"
    and "update_file db i p f c st = Inr db' \<Longrightarrow> files_ok db'"
    and "rename_file db n old new d = Inr (db', m) \<Longrightarrow> files_ok db'"
    and "files_ok (fst (rename_files_in_folder db a b d))"
    and "files_ok (mark_files_deleted db ids)" and "files_ok (mark_files_skipped db ids)"
    and "files_ok (delete_files_by_folder_id db folder_id)" and "files_ok (delete_files_by_ids db ids)"
proof -
  show "files_ok (insert_file db path folder_id)" using assms by (rule insert_file_ok)
  show "files_ok (mark_files_deleted db ids)" "files_ok (mark_files_skipped db ids)"
    using assms by (auto simp: mark_files_deleted_def mark_files_skipped_def intro!: files_ok_update)
  show "files_ok (delete_files_by_folder_id db folder_id)"
    using assms by (simp add: delete_files_by_folder_id_def files_ok_filter)
  show "files_ok (delete_files_by_ids db ids)"
    using assms by (simp add: delete_files_by_ids_eq files_ok_filter)
  show "files_ok (fst (rename_files_in_folder db a b d))"
    using assms fold_rename_rows_ok by (auto simp: rename_files_in_folder_def files_ok_rows Let_def)
  show "files_ok db'" if "update_file db i p f c st = Inr db'"
    using that assms
    by (auto simp: update_file_def Let_def files_ok_def apply_file_update_def map_sql_update_same
        split: if_splits dest!: set_sql_update)
  show "files_ok db'" if "rename_file db n old new d = Inr (db', m)"
    using that assms
    by (auto simp: rename_file_def Let_def files_ok_def map_sql_update_same distinct_map_filter
        split: if_splits dest!: set_sql_update)
qed

text \<open>One write of the index, by any of the operations.\<close>

inductive file_step :: "app_db \<Rightarrow> app_db \<Rightarrow> bool" where
  step_insert: "file_step db (insert_file db path folder_id)"
| step_update: "update_file db i p f c st = Inr db' \<Longrightarrow> file_step db db'"
| step_rename: "rename_file db n old new d = Inr (db', m) \<Longrightarrow> file_step db db'"
| step_rename_folder: "file_step db (fst (rename_files_in_folder db a b d))"
| step_mark_deleted: "file_step db (mark_files_deleted db ids)"
| step_mark_skipped: "file_step db (mark_files_skipped db ids)"
| step_delete_folder: "file_step db (delete_files_by_folder_id db folder_id)"
| step_delete_ids: "file_step db (delete_files_by_ids db ids)"

lemma file_step_ok: "file_step db db' \<Longrightarrow> files_ok db \<Longrightarrow> files_ok db'"
  by (induction rule: file_step.induct) (erule (1) file_operations_ok | erule file_operations_ok)+

text \<open>
  Whatever sequence of operations the index runs (inserts, marks, updates, renames of a file
  or of a folder, deletions), identifiers stay distinct and below the counter, and the pairs of
  folder and path stay distinct.
\<close>
theorem file_operations_keep_files_ok:
  assumes "file_step\<^sup>*\<^sup>* db db'" and "files_ok db"
  shows "files_ok db'"
  using assms by (induction rule: rtranclp_induct) (auto intro: file_step_ok)

lemma file_operations_keep_files_ok_witness:
  "files_ok (mark_files_deleted (insert_file example_db ''/a/x.jpg'' 1) [3])"
proof (rule file_operations_keep_files_ok)
  show "file_step\<^sup>*\<^sup>* example_db (mark_files_deleted (insert_file example_db ''/a/x.jpg'' 1) [3])"
    by (rule converse_rtranclp_into_rtranclp [where r = file_step, OF step_insert
          r_into_rtranclp [where r = file_step, OF step_mark_deleted]])
  show "files_ok example_db" by (simp add: files_ok_def example_db_def files_unique_def)
qed

end
