(* ===== verification/PyFiles.thy ===== *)
theory PyFiles
  imports Prelude
begin

text \<open>
  What the sources use of \<^verbatim>\<open>pathlib\<close> (POSIX flavour) and of the file system.

  A path is its root and its components.  The file system holds the files with their bytes, the
  directories and the times set by \<^verbatim>\<open>os.utime\<close>.  Every call that changes it may raise an
  \<open>OSError\<close>: \<open>fs_faults\<close> lists, call by call, the error to raise instead (\<open>None\<close> for a call that
  succeeds), so a statement for every fault list covers every way the calls can fail.
\<close>

section \<open>Paths\<close>

type_synonym ppath = "string \<times> string list"

definition path_of :: "string \<Rightarrow> ppath" where
  "path_of s =
     ((if py_startswith s ''///'' then ''/'' else if py_startswith s ''//'' then ''//''
       else if py_startswith s ''/'' then ''/'' else []),
      filter (\<lambda>x. x \<noteq> [] \<and> x \<noteq> ''.'') (split_char (CHR ''/'') s))"

definition path_join :: "ppath \<Rightarrow> string \<Rightarrow> ppath" where
  "path_join p s = (let q = path_of s in if fst q \<noteq> [] then q else (fst p, snd p @ snd q))"

definition path_name :: "ppath \<Rightarrow> string" where
  "path_name p = (if snd p = [] then [] else last (snd p))"

definition path_posix :: "ppath \<Rightarrow> string" where
  "path_posix p =
     (if snd p = [] then (if fst p = [] then ''.'' else fst p) else fst p @ py_join ''/'' (snd p))"

text \<open>\<^verbatim>\<open>p.suffix\<close> and \<^verbatim>\<open>p.stem\<close> of a file name: the part from the last dot, unless the dot is the first or the last character.\<close>

definition name_suffix :: "string \<Rightarrow> string" where
  "name_suffix n =
     (let ext = rev (takeWhile (\<lambda>c. c \<noteq> CHR ''.'') (rev n))
      in if CHR ''.'' \<in> set n \<and> ext \<noteq> [] \<and> length ext + 1 < length n then CHR ''.'' # ext else [])"

definition name_stem :: "string \<Rightarrow> string" where
  "name_stem n = take (length n - length (name_suffix n)) n"

lemma path_of_component: "c \<noteq> [] \<Longrightarrow> c \<noteq> ''.'' \<Longrightarrow> CHR ''/'' \<notin> set c \<Longrightarrow> path_of c = ([], [c])"
  by (cases c) (auto simp: path_of_def split_char_simple py_startswith_def)

lemma path_join_component:
  "c \<noteq> [] \<Longrightarrow> c \<noteq> ''.'' \<Longrightarrow> CHR ''/'' \<notin> set c \<Longrightarrow> path_join p c = (fst p, snd p @ [c])"
  by (simp add: path_join_def path_of_component)

lemma name_suffix_is_end: "\<exists>u. n = u @ name_suffix n"
proof (cases "name_suffix n = []")
  case True
  then show ?thesis by simp
next
  case False
  let ?ext = "takeWhile (\<lambda>c. c \<noteq> CHR ''.'') (rev n)"
  from False have suf: "name_suffix n = CHR ''.'' # rev ?ext" and dot: "CHR ''.'' \<in> set n"
    by (auto simp: name_suffix_def Let_def split: if_splits)
  have "rev n = ?ext @ dropWhile (\<lambda>c. c \<noteq> CHR ''.'') (rev n)"
    by (rule takeWhile_dropWhile_id [symmetric])
  moreover have ne: "dropWhile (\<lambda>c. c \<noteq> CHR ''.'') (rev n) \<noteq> []"
    using dot by (auto simp: dropWhile_eq_Nil_conv)
  then obtain r where "dropWhile (\<lambda>c. c \<noteq> CHR ''.'') (rev n) = CHR ''.'' # r"
    using hd_dropWhile [OF ne] by (cases "dropWhile (\<lambda>c. c \<noteq> CHR ''.'') (rev n)") auto
  ultimately have "rev n = ?ext @ CHR ''.'' # r" by simp
  then have "n = rev r @ CHR ''.'' # rev ?ext" by (metis append_Cons append_Nil append_assoc rev_append rev_rev_ident rev.simps(2))
  then show ?thesis using suf by metis
qed

lemma stem_suffix: "name_stem n @ name_suffix n = n"
proof -
  obtain u where u: "n = u @ name_suffix n" using name_suffix_is_end by blast
  then have "length n - length (name_suffix n) = length u" by (metis add_diff_cancel_right' length_append)
  with u show ?thesis unfolding name_stem_def by (metis append_eq_conv_conj)
qed

section \<open>The file system\<close>

record pyfs =
  fs_files :: "(ppath, byte list) dict"
  fs_dirs :: "ppath list"
  fs_mtimes :: "(ppath, string) dict"
  fs_faults :: "os_error option list"

definition fs_exists :: "pyfs \<Rightarrow> ppath \<Rightarrow> bool" where
  "fs_exists fs p \<longleftrightarrow> dict_get (fs_files fs) p \<noteq> None \<or> p \<in> set (fs_dirs fs)"

definition fs_read :: "pyfs \<Rightarrow> ppath \<Rightarrow> byte list option" where
  "fs_read fs p = dict_get (fs_files fs) p"

text \<open>One call: the next fault is taken from the list; without one the call runs.\<close>

definition fs_call :: "(pyfs \<Rightarrow> pyfs \<times> (os_error + 'a)) \<Rightarrow> pyfs \<Rightarrow> pyfs \<times> (os_error + 'a)" where
  "fs_call f fs =
     (case fs_faults fs of
        [] \<Rightarrow> f fs
      | None # r \<Rightarrow> f (fs\<lparr>fs_faults := r\<rparr>)
      | Some e # r \<Rightarrow> (fs\<lparr>fs_faults := r\<rparr>, Inl e))"

definition fs_seq ::
    "pyfs \<times> (os_error + 'a) \<Rightarrow> ('a \<Rightarrow> pyfs \<Rightarrow> pyfs \<times> (os_error + 'b)) \<Rightarrow> pyfs \<times> (os_error + 'b)" where
  "fs_seq m f = (case m of (fs, Inl e) \<Rightarrow> (fs, Inl e) | (fs, Inr x) \<Rightarrow> f x fs)"

lemma fs_seq_simps [simp]:
  "fs_seq (fs, Inl e) f = (fs, Inl e)" "fs_seq (fs, Inr x) f = f x fs"
  by (simp_all add: fs_seq_def)

definition path_prefixes :: "ppath \<Rightarrow> ppath list" where
  "path_prefixes p = map (\<lambda>i. (fst p, take i (snd p))) [0..<Suc (length (snd p))]"

definition path_parent :: "ppath \<Rightarrow> ppath" where
  "path_parent p = (fst p, butlast (snd p))"

definition ENOENT :: int where "ENOENT = 2"
definition EEXIST :: int where "EEXIST = 17"
definition EXDEV :: int where "EXDEV = 18"
definition EISDIR :: int where "EISDIR = 21"
definition ENOSPC :: int where "ENOSPC = 28"

definition fs_mkdir_parents :: "ppath \<Rightarrow> pyfs \<Rightarrow> pyfs \<times> (os_error + unit)" where
  "fs_mkdir_parents p = fs_call (\<lambda>fs.
     if list_ex (\<lambda>q. dict_get (fs_files fs) q \<noteq> None) (path_prefixes p)
     then (fs, Inl (os_error_of ''File exists'' (Some EEXIST)))
     else (fs\<lparr>fs_dirs := fs_dirs fs @ filter (\<lambda>q. q \<notin> set (fs_dirs fs)) (path_prefixes p)\<rparr>, Inr ()))"

definition fs_create :: "ppath \<Rightarrow> pyfs \<Rightarrow> pyfs \<times> (os_error + unit)" where
  "fs_create p = fs_call (\<lambda>fs.
     if p \<in> set (fs_dirs fs) then (fs, Inl (os_error_of ''Is a directory'' (Some EISDIR)))
     else if path_parent p \<notin> set (fs_dirs fs)
       then (fs, Inl (os_error_of ''No such file or directory'' (Some ENOENT)))
     else (fs\<lparr>fs_files := dict_set (fs_files fs) p []\<rparr>, Inr ()))"

definition fs_append :: "ppath \<Rightarrow> byte list \<Rightarrow> pyfs \<Rightarrow> pyfs \<times> (os_error + unit)" where
  "fs_append p bs = fs_call (\<lambda>fs.
     (fs\<lparr>fs_files := dict_set (fs_files fs) p
            ((case dict_get (fs_files fs) p of None \<Rightarrow> [] | Some c \<Rightarrow> c) @ bs)\<rparr>, Inr ()))"

definition fs_replace :: "ppath \<Rightarrow> ppath \<Rightarrow> pyfs \<Rightarrow> pyfs \<times> (os_error + unit)" where
  "fs_replace p q = fs_call (\<lambda>fs.
     case dict_get (fs_files fs) p of
       None \<Rightarrow> (fs, Inl (os_error_of ''No such file or directory'' (Some ENOENT)))
     | Some c \<Rightarrow>
         if q \<in> set (fs_dirs fs) then (fs, Inl (os_error_of ''Is a directory'' (Some EISDIR)))
         else (fs\<lparr>fs_files := dict_set (dict_del (fs_files fs) p) q c\<rparr>, Inr ()))"

definition fs_unlink :: "bool \<Rightarrow> ppath \<Rightarrow> pyfs \<Rightarrow> pyfs \<times> (os_error + unit)" where
  "fs_unlink missing_ok p = fs_call (\<lambda>fs.
     if dict_get (fs_files fs) p = None then
       (fs, if missing_ok then Inr () else Inl (os_error_of ''No such file or directory'' (Some ENOENT)))
     else (fs\<lparr>fs_files := dict_del (fs_files fs) p\<rparr>, Inr ()))"

definition fs_utime :: "ppath \<Rightarrow> string \<Rightarrow> pyfs \<Rightarrow> pyfs \<times> (os_error + unit)" where
  "fs_utime p t = fs_call (\<lambda>fs.
     if \<not> fs_exists fs p then (fs, Inl (os_error_of ''No such file or directory'' (Some ENOENT)))
     else (fs\<lparr>fs_mtimes := dict_set (fs_mtimes fs) p t\<rparr>, Inr ()))"

text \<open>What each call leaves alone.\<close>

lemma fs_call_files:
  "(\<And>g. fs_files (fst (f g)) = fs_files g) \<Longrightarrow> fs_files (fst (fs_call f fs)) = fs_files fs"
  by (auto simp: fs_call_def split: list.splits option.splits)

lemma fs_mkdir_files [simp]: "fs_files (fst (fs_mkdir_parents p fs)) = fs_files fs"
  unfolding fs_mkdir_parents_def by (rule fs_call_files) simp

lemma fs_utime_files [simp]: "fs_files (fst (fs_utime p t fs)) = fs_files fs"
  unfolding fs_utime_def by (rule fs_call_files) simp

lemma fs_call_file:
  assumes "\<And>g. dict_get (fs_files (fst (f g))) p = dict_get (fs_files g) p"
  shows "dict_get (fs_files (fst (fs_call f fs))) p = dict_get (fs_files fs) p"
  using assms [of fs] assms [of "fs\<lparr>fs_faults := tl (fs_faults fs)\<rparr>"]
  by (auto simp: fs_call_def split: list.splits option.splits)

lemma fs_create_other:
  "q \<noteq> p \<Longrightarrow> dict_get (fs_files (fst (fs_create p fs))) q = dict_get (fs_files fs) q"
  unfolding fs_create_def by (rule fs_call_file) simp

lemma fs_append_other:
  "q \<noteq> p \<Longrightarrow> dict_get (fs_files (fst (fs_append p bs fs))) q = dict_get (fs_files fs) q"
  unfolding fs_append_def by (rule fs_call_file) simp

lemma fs_replace_other:
  "q \<noteq> p \<Longrightarrow> q \<noteq> p' \<Longrightarrow>
     dict_get (fs_files (fst (fs_replace p p' fs))) q = dict_get (fs_files fs) q"
  unfolding fs_replace_def by (rule fs_call_file) (simp split: option.splits)

lemma fs_unlink_other:
  "q \<noteq> p \<Longrightarrow> dict_get (fs_files (fst (fs_unlink m p fs))) q = dict_get (fs_files fs) q"
  unfolding fs_unlink_def by (rule fs_call_file) simp

lemmas fs_other = fs_create_other fs_append_other fs_replace_other fs_unlink_other

lemma fs_call_Inr:
  assumes "fs_call f fs = (fs', Inr x)"
  shows "\<exists>g. fs_files g = fs_files fs \<and> fs_dirs g = fs_dirs fs \<and> fs_mtimes g = fs_mtimes fs \<and> f g = (fs', Inr x)"
proof (cases "fs_faults fs")
  case Nil
  with assms have "f fs = (fs', Inr x)" by (simp add: fs_call_def)
  then show ?thesis by blast
next
  case (Cons a r)
  with assms have "f (fs\<lparr>fs_faults := r\<rparr>) = (fs', Inr x)"
    by (simp add: fs_call_def split: option.splits)
  then show ?thesis by (intro exI [of _ "fs\<lparr>fs_faults := r\<rparr>"]) simp
qed

lemma fs_create_Inr: "fs_create p fs = (fs', Inr ()) \<Longrightarrow> fs_read fs' p = Some [] \<and> fs_dirs fs' = fs_dirs fs"
  unfolding fs_create_def by (drule fs_call_Inr) (auto simp: fs_read_def split: if_splits)

lemma fs_append_Inr:
  "fs_append p bs fs = (fs', Inr ()) \<Longrightarrow> fs_read fs p = Some c \<Longrightarrow> fs_read fs' p = Some (c @ bs)"
  unfolding fs_append_def by (drule fs_call_Inr) (auto simp: fs_read_def)

lemma fs_replace_Inr:
  "fs_replace p q fs = (fs', Inr ()) \<Longrightarrow> p \<noteq> q \<Longrightarrow>
     fs_read fs p \<noteq> None \<and> fs_read fs' q = fs_read fs p \<and> fs_read fs' p = None"
  unfolding fs_replace_def by (drule fs_call_Inr) (auto simp: fs_read_def split: option.splits if_splits)

lemma fs_unlink_Inr: "fs_unlink m p fs = (fs', Inr ()) \<Longrightarrow> fs_read fs' p = None"
proof -
  assume "fs_unlink m p fs = (fs', Inr ())"
  then show ?thesis
    unfolding fs_unlink_def
    by (rule fs_call_Inr [THEN exE]) (auto simp: fs_read_def split: if_split_asm)
qed

end
