(* ===== verification/PyTime.thy ===== *)
theory PyTime
  imports Prelude
begin

text \<open>
  What the sources use of Python's \<^verbatim>\<open>datetime\<close>: conversion to UTC, \<^verbatim>\<open>isoformat\<close>
  and the \<^verbatim>\<open>%Y-%m\<close> directory name.  A date and time is its day number counted from
  0001-01-01, the microsecond of its day and its UTC offset in microseconds (\<open>None\<close> for a naive
  one); the calendar is the proleptic Gregorian one, as Python's.  The clock is an argument of
  every definition that reads it.
\<close>

record pydatetime =
  dt_day :: int
  dt_us :: int
  dt_off :: "int option"

definition day_us :: int where "day_us = 86400000000"
definition max_day :: int where "max_day = 3652058"

definition dt_valid :: "pydatetime \<Rightarrow> bool" where
  "dt_valid t \<longleftrightarrow> 0 \<le> dt_day t \<and> dt_day t \<le> max_day \<and> 0 \<le> dt_us t \<and> dt_us t < day_us \<and>
     (case dt_off t of None \<Rightarrow> True | Some z \<Rightarrow> - day_us < z \<and> z < day_us)"

text \<open>
  \<^verbatim>\<open>t.astimezone(timezone.utc)\<close> of an aware time: the offset is subtracted, and a result
  outside the years 1 to 9999 is an \<open>OverflowError\<close>.
\<close>

definition dt_astimezone_utc :: "pydatetime \<Rightarrow> int \<Rightarrow> pydatetime res" where
  "dt_astimezone_utc t z =
     (let total = dt_day t * day_us + dt_us t - z;
          d = total div day_us
      in if 0 \<le> d \<and> d \<le> max_day
         then Inr \<lparr>dt_day = d, dt_us = total mod day_us, dt_off = Some 0\<rparr>
         else Inl (OverflowError ''date value out of range''))"

text \<open>\<^verbatim>\<open>_utc_now(now)\<close>, the same function in every module that has it.\<close>

definition utc_now :: "pydatetime \<Rightarrow> pydatetime option \<Rightarrow> pydatetime res" where
  "utc_now clock now =
     (case now of
        None \<Rightarrow> Inr clock
      | Some t \<Rightarrow> (case dt_off t of
                    None \<Rightarrow> Inr (t\<lparr>dt_off := Some 0\<rparr>)
                  | Some z \<Rightarrow> dt_astimezone_utc t z))"

definition dt_utc :: "pydatetime \<Rightarrow> bool" where
  "dt_utc t \<longleftrightarrow> dt_valid t \<and> dt_off t = Some 0"

lemma astimezone_valid: "dt_astimezone_utc t z = Inr u \<Longrightarrow> dt_utc u"
  by (auto simp: dt_astimezone_utc_def dt_utc_def dt_valid_def day_us_def Let_def split: if_splits)

lemma utc_now_utc:
  "dt_utc clock \<Longrightarrow> (\<And>t. now = Some t \<Longrightarrow> dt_valid t) \<Longrightarrow> utc_now clock now = Inr u \<Longrightarrow> dt_utc u"
  by (auto simp: utc_now_def dt_utc_def dt_valid_def day_us_def dest: astimezone_valid split: option.splits)

lemma utc_now_idem: "dt_utc u \<Longrightarrow> utc_now clock (Some u) = Inr u"
  by (cases u) (auto simp: utc_now_def dt_utc_def dt_valid_def dt_astimezone_utc_def day_us_def Let_def)

text \<open>The calendar: year, month and day of a day number.\<close>

definition civil_of_day :: "int \<Rightarrow> int \<times> int \<times> int" where
  "civil_of_day day =
     (let z = day + 306;
          era = z div 146097;
          doe = z mod 146097;
          yoe = (doe - doe div 1460 + doe div 36524 - doe div 146096) div 365;
          doy = doe - (365 * yoe + yoe div 4 - yoe div 100);
          mp = (5 * doy + 2) div 153;
          d = doy - (153 * mp + 2) div 5 + 1;
          m = (if mp < 10 then mp + 3 else mp - 9)
      in (yoe + era * 400 + (if m \<le> 2 then 1 else 0), m, d))"

lemma civil_examples:
  "civil_of_day 0 = (1, 1, 1)"
  "civil_of_day max_day = (9999, 12, 31)"
  "civil_of_day 738944 = (2024, 2, 29)"
  "civil_of_day 719162 = (1970, 1, 1)"
  by code_simp+

definition fmt_nat :: "nat \<Rightarrow> int \<Rightarrow> string" where
  "fmt_nat k i = zero_pad k (str_int i)"

definition fmt_offset :: "int \<Rightarrow> string" where
  "fmt_offset z =
     (let a = \<bar>z\<bar>; s = a div 1000000; u = a mod 1000000
      in (if z < 0 then ''-'' else ''+'') @ fmt_nat 2 (s div 3600) @ '':'' @ fmt_nat 2 (s div 60 mod 60)
         @ (if s mod 60 = 0 \<and> u = 0 then [] else '':'' @ fmt_nat 2 (s mod 60))
         @ (if u = 0 then [] else ''.'' @ fmt_nat 6 u))"

text \<open>\<^verbatim>\<open>t.isoformat()\<close>\<close>

definition dt_isoformat :: "pydatetime \<Rightarrow> string" where
  "dt_isoformat t =
     (let (y, m, d) = civil_of_day (dt_day t);
          s = dt_us t div 1000000; u = dt_us t mod 1000000
      in fmt_nat 4 y @ ''-'' @ fmt_nat 2 m @ ''-'' @ fmt_nat 2 d @ ''T''
         @ fmt_nat 2 (s div 3600) @ '':'' @ fmt_nat 2 (s div 60 mod 60) @ '':'' @ fmt_nat 2 (s mod 60)
         @ (if u = 0 then [] else ''.'' @ fmt_nat 6 u)
         @ (case dt_off t of None \<Rightarrow> [] | Some z \<Rightarrow> fmt_offset z))"

text \<open>\<^verbatim>\<open>t.strftime("%Y-%m")\<close>\<close>

definition dt_year_month :: "pydatetime \<Rightarrow> string" where
  "dt_year_month t =
     (let (y, m, d) = civil_of_day (dt_day t) in fmt_nat 4 y @ ''-'' @ fmt_nat 2 m)"

definition date_chars :: string where
  "date_chars = ''0123456789-''"

lemma digit_chars:
  "map digit_char [0, 1, 2, 3, 4, 5, 6, 7, 8, 9] = ''0123456789''"
  by code_simp

lemma digit_char_date: "d < 10 \<Longrightarrow> digit_char d \<in> set date_chars"
proof -
  assume "d < 10"
  then have "d \<in> {0, 1, 2, 3, 4, 5, 6, 7, 8, 9}" by auto
  then have "digit_char d \<in> set (map digit_char [0, 1, 2, 3, 4, 5, 6, 7, 8, 9])"
    by (simp only: set_map list.set image_eqI)
  then show ?thesis unfolding digit_chars by (auto simp: date_chars_def)
qed

lemma str_int_chars: "set (str_int i) \<subseteq> set date_chars"
proof -
  have "set (str_nat n) \<subseteq> set date_chars" for n
    by (auto simp: str_nat_def dest!: digits_rev_less_10 intro: digit_char_date)
  then show ?thesis by (auto simp: str_int_def date_chars_def)
qed

lemma fmt_nat_chars: "set (fmt_nat k i) \<subseteq> set date_chars"
  using str_int_chars [of i] by (auto simp: fmt_nat_def zero_pad_def date_chars_def)

lemma year_month_chars: "set (dt_year_month t) \<subseteq> set date_chars"
proof -
  have "CHR ''-'' \<in> set date_chars" by (simp add: date_chars_def)
  then show ?thesis
    unfolding dt_year_month_def Let_def using fmt_nat_chars by (fastforce split: prod.splits)
qed

lemma year_month_nonempty: "dt_year_month t \<noteq> []"
  by (simp add: dt_year_month_def Let_def split: prod.splits)

end
