(* ===== verification/PairingStore.thy ===== *)
theory PairingStore
  imports AppDb PyFiles PyTime TrustProof BackupStateMachine
begin

text \<open>
  \<^verbatim>\<open>dt_image_search/mobile/mobile_pairing_store.py\<close>: the tables of paired phones, their
  folders, backup sessions and transferred assets, and every query and update over them;
  with \<^verbatim>\<open>delete_folders\<close> of \<^verbatim>\<open>dts_db.py\<close>, which calls into it.

  A statement that breaks a primary key or a unique column raises \<open>IntegrityError\<close>.  Foreign keys
  are declared in the schema and not enforced: the code never switches
  \<^verbatim>\<open>PRAGMA foreign_keys\<close> on.
\<close>

section \<open>Constants and records\<close>

definition MOBILE_PAIRING_DESKTOP_DEVICE_ID_KEY :: string where
  "MOBILE_PAIRING_DESKTOP_DEVICE_ID_KEY = ''mobile_pairing_desktop_device_id''"
definition MOBILE_BACKUP_SESSION_STATUS_PAIRED :: string where
  "MOBILE_BACKUP_SESSION_STATUS_PAIRED = ''paired''"
definition MOBILE_BACKUP_SESSION_STATUS_TRANSFERRING :: string where
  "MOBILE_BACKUP_SESSION_STATUS_TRANSFERRING = ''transferring''"
definition MOBILE_BACKUP_SESSION_STATUS_COMPLETED :: string where
  "MOBILE_BACKUP_SESSION_STATUS_COMPLETED = ''completed''"
definition MOBILE_BACKUP_SESSION_STATUS_FAILED :: string where
  "MOBILE_BACKUP_SESSION_STATUS_FAILED = ''failed''"
definition MOBILE_BACKUP_SESSION_STATUS_STOPPED :: string where
  "MOBILE_BACKUP_SESSION_STATUS_STOPPED = ''stopped_by_mobile''"

lemmas session_status_defs = MOBILE_BACKUP_SESSION_STATUS_PAIRED_def
  MOBILE_BACKUP_SESSION_STATUS_TRANSFERRING_def MOBILE_BACKUP_SESSION_STATUS_COMPLETED_def
  MOBILE_BACKUP_SESSION_STATUS_FAILED_def MOBILE_BACKUP_SESSION_STATUS_STOPPED_def

record mobile_folder_record =
  mfr_folder_id :: int
  mfr_folder_path :: string
  mfr_reused_existing :: bool

record mobile_folder_binding =
  mfb_folder_id :: int
  mfb_folder_path :: string
  mfb_device_uuid :: string

record transfer_context =
  tc_session_id :: string
  tc_device_uuid :: string
  tc_session_status :: string
  tc_folder_id :: int
  tc_folder_path :: string
  tc_folder_transfer_state :: "string option"
  tc_trust_key_b64 :: string

record active_backup_session =
  ab_session_id :: string
  ab_device_uuid :: string
  ab_folder_path :: string
  ab_device_name :: string

record mobile_summary =
  ms_total_assets :: int
  ms_transferred_count :: int
  ms_failed_count :: int
  ms_last_backup_at :: "string option"
  ms_platform :: string
  ms_last_transfer_status :: "string option"
  ms_last_transfer_at :: "string option"

type_synonym signature_key = "string \<times> int \<times> string"

section \<open>Schema upgrades\<close>

text \<open>The columns of a table, in order; a missing one is added at the end.\<close>

definition add_column :: "string \<Rightarrow> string list \<Rightarrow> string list" where
  "add_column c cols = (if c \<in> set cols then cols else cols @ [c])"

definition ensure_mobile_asset_signature_columns :: "string list \<Rightarrow> string list" where
  "ensure_mobile_asset_signature_columns cols =
     add_column ''asset_created_at'' (add_column ''file_size_bytes'' (add_column ''content_sha1'' cols))"

definition ensure_mobile_backup_session_columns :: "string list \<Rightarrow> string list" where
  "ensure_mobile_backup_session_columns cols =
     add_column ''failed_count'' (add_column ''transferred_count'' (add_column ''total_assets'' cols))"

section \<open>Devices\<close>

text \<open>
  \<open>device_hex\<close> is \<^verbatim>\<open>uuid.UUID(get_device_id()).hex\<close>, read from the operating system.
\<close>

definition get_or_create_desktop_device_id :: "app_db \<Rightarrow> string \<Rightarrow> app_db \<times> string" where
  "get_or_create_desktop_device_id db device_hex =
     (case get_config db MOBILE_PAIRING_DESKTOP_DEVICE_ID_KEY of
        Some v \<Rightarrow> if v \<noteq> [] then (db, v)
                  else (set_config db MOBILE_PAIRING_DESKTOP_DEVICE_ID_KEY device_hex, device_hex)
      | None \<Rightarrow> (set_config db MOBILE_PAIRING_DESKTOP_DEVICE_ID_KEY device_hex, device_hex))"

definition derive_pairing_key_b64 ::
    "(byte list \<Rightarrow> byte list) \<Rightarrow> string \<Rightarrow> string \<Rightarrow> string \<Rightarrow> string" where
  "derive_pairing_key_b64 sha256 session_id one_time_passcode platform =
     b64url_encode_unpadded (sha256 (utf8_encode (py_join newline_sep
       [''dtis.mobile-pairing.v1'', session_id, one_time_passcode, platform])))"

text \<open>\<^verbatim>\<open>INSERT ... ON CONFLICT(key) DO UPDATE\<close>\<close>

definition sql_upsert :: "('r \<Rightarrow> 'k) \<Rightarrow> ('r \<Rightarrow> 'r \<Rightarrow> 'r) \<Rightarrow> 'r \<Rightarrow> 'r list \<Rightarrow> 'r list" where
  "sql_upsert key merge new rows =
     (if list_ex (\<lambda>r. key r = key new) rows
      then sql_update (\<lambda>r. key r = key new) (\<lambda>r. merge r new) rows
      else rows @ [new])"

definition upsert_mobile_device ::
    "app_db \<Rightarrow> string \<Rightarrow> string \<Rightarrow> string \<Rightarrow> string \<Rightarrow> pydatetime \<Rightarrow> app_db" where
  "upsert_mobile_device db device_uuid platform device_name trust_key_b64 paired_at =
     (let timestamp = dt_isoformat paired_at
      in db\<lparr>db_devices := sql_upsert de_device_uuid
              (\<lambda>old new. old\<lparr>de_platform := de_platform new, de_device_name := de_device_name new,
                 de_trust_key_b64 := de_trust_key_b64 new, de_last_seen_at := de_last_seen_at new\<rparr>)
              \<lparr>de_device_uuid = device_uuid, de_platform = platform, de_device_name = device_name,
               de_trust_key_b64 = trust_key_b64, de_paired_at = timestamp, de_last_seen_at = timestamp\<rparr>
              (db_devices db)\<rparr>)"

section \<open>Folders of phones\<close>

definition normalized_folder_key :: "string \<Rightarrow> string" where
  "normalized_folder_key folder_path = with_slash (slashes folder_path)"

definition mobile_folder_path_variants :: "string \<Rightarrow> string \<times> string" where
  "mobile_folder_path_variants folder_path =
     (let trimmed_path = rstrip_slash (slashes folder_path)
      in if trimmed_path = [] then (''/'', ''/'') else (trimmed_path, trimmed_path @ ''/''))"

definition get_exact_folder :: "app_db \<Rightarrow> string \<Rightarrow> folder_row option" where
  "get_exact_folder db folder_path = fetchone (filter (\<lambda>r. fo_path r = folder_path) (db_folders db))"

definition sanitize_folder_name :: "string \<Rightarrow> string" where
  "sanitize_folder_name device_name =
     (let v = strip_by (\<lambda>c. c = CHR ''.'') (py_strip (sub_runs unsafe_path_char (CHR ''-'') device_name));
          v = sub_runs py_isspace (CHR '' '') v
      in if v \<noteq> [] then v else ''Mobile Device'')"

definition folder_candidate :: "string \<Rightarrow> string \<Rightarrow> nat \<Rightarrow> string" where
  "folder_candidate base_name device_uuid suffix =
     base_name @ ''-'' @ take 8 device_uuid @ ''-'' @ str_nat suffix"

fun free_folder_name :: "nat \<Rightarrow> app_db \<Rightarrow> ppath \<Rightarrow> string \<Rightarrow> string \<Rightarrow> nat \<Rightarrow> string option" where
  "free_folder_name 0 db destination_root base_name device_uuid suffix = None"
| "free_folder_name (Suc fuel) db destination_root base_name device_uuid suffix =
     (let candidate_name = folder_candidate base_name device_uuid suffix
      in if get_exact_folder db (path_posix (path_join destination_root candidate_name)) = None
         then Some candidate_name
         else free_folder_name fuel db destination_root base_name device_uuid (suffix + 1))"

definition unique_mobile_folder_name :: "nat \<Rightarrow> app_db \<Rightarrow> ppath \<Rightarrow> string \<Rightarrow> string \<Rightarrow> string option" where
  "unique_mobile_folder_name fuel db destination_root device_name device_uuid =
     (let base_name = sanitize_folder_name device_name;
          second = base_name @ ''-'' @ take 8 device_uuid;
          free = (\<lambda>n. get_exact_folder db (path_posix (path_join destination_root n)) = None)
      in if free base_name then Some base_name
         else if free second then Some second
         else free_folder_name fuel db destination_root base_name device_uuid 2)"

text \<open>\<open>delete_mobile_device_data_for_folder_ids\<close>; \<open>None\<close> entries are dropped.\<close>

definition bound_device_uuids :: "app_db \<Rightarrow> int option list \<Rightarrow> string list" where
  "bound_device_uuids db folder_ids =
     filter (\<lambda>u. u \<noteq> []) (remdups (map mf_device_uuid
       (filter (\<lambda>r. Some (mf_folder_id r) \<in> set folder_ids) (db_mobile_folders db))))"

definition delete_mobile_device_data_for_folder_ids :: "app_db \<Rightarrow> int option list \<Rightarrow> app_db" where
  "delete_mobile_device_data_for_folder_ids db folder_ids =
     (if list_all (\<lambda>x. x = None) folder_ids then db
      else let device_uuids = bound_device_uuids db folder_ids;
               sessions = filter (\<lambda>r. Some (se_folder_id r) \<notin> set folder_ids) (db_sessions db);
               mfolders = filter (\<lambda>r. Some (mf_folder_id r) \<notin> set folder_ids) (db_mobile_folders db)
           in if device_uuids = []
              then db\<lparr>db_sessions := sessions, db_mobile_folders := mfolders\<rparr>
              else db\<lparr>db_assets := filter (\<lambda>r. as_device_uuid r \<notin> set device_uuids) (db_assets db),
                      db_sessions := filter (\<lambda>r. se_device_uuid r \<notin> set device_uuids) sessions,
                      db_mobile_folders := filter (\<lambda>r. mf_device_uuid r \<notin> set device_uuids) mfolders,
                      db_devices := filter (\<lambda>r. de_device_uuid r \<notin> set device_uuids) (db_devices db)\<rparr>)"

definition set_folder_state_of_device :: "string \<Rightarrow> string \<Rightarrow> string \<Rightarrow> app_db \<Rightarrow> app_db" where
  "set_folder_state_of_device device_uuid state updated_at db =
     db\<lparr>db_mobile_folders := sql_update (\<lambda>r. mf_device_uuid r = device_uuid)
          (\<lambda>r. r\<lparr>mf_transfer_state := state, mf_transfer_state_updated_at := updated_at\<rparr>)
          (db_mobile_folders db)\<rparr>"

text \<open>\<open>mobile_folders JOIN folders\<close> on the folder's identifier, for one phone.\<close>

definition folder_of_device :: "app_db \<Rightarrow> string \<Rightarrow> folder_row option" where
  "folder_of_device db device_uuid =
     fetchone (concat (map (\<lambda>m. filter (\<lambda>f. fo_id f = mf_folder_id m) (db_folders db))
                 (filter (\<lambda>m. mf_device_uuid m = device_uuid) (db_mobile_folders db))))"

definition insert_mobile_folder ::
    "app_db \<Rightarrow> int \<Rightarrow> string \<Rightarrow> string \<Rightarrow> string \<Rightarrow> app_db res" where
  "insert_mobile_folder db folder_id device_uuid state updated_at =
     (if list_ex (\<lambda>r. mf_folder_id r = folder_id) (db_mobile_folders db)
      then Inl (IntegrityError ''UNIQUE constraint failed: mobile_folders.folder_id'')
      else if list_ex (\<lambda>r. mf_device_uuid r = device_uuid) (db_mobile_folders db)
      then Inl (IntegrityError ''UNIQUE constraint failed: mobile_folders.device_uuid'')
      else Inr (db\<lparr>db_mobile_folders := db_mobile_folders db @
             [\<lparr>mf_folder_id = folder_id, mf_device_uuid = device_uuid, mf_transfer_state = state,
               mf_transfer_state_updated_at = updated_at\<rparr>]\<rparr>))"

text \<open>
  \<open>get_or_create_mobile_folder\<close>.  \<open>expand\<close> is \<^verbatim>\<open>Path(s).expanduser().resolve()\<close> and
  \<open>resolve\<close> is \<^verbatim>\<open>p.resolve()\<close>, which depend on the home directory and on symbolic links;
  \<open>stamp\<close> is the database clock.  The search for a free name gets one more attempt than there
  are folders (\<open>unique_name_found\<close> shows that this is enough, so
  the branch of a search that gives up is never taken).
\<close>

definition get_or_create_mobile_folder ::
    "(string \<Rightarrow> ppath) \<Rightarrow> (ppath \<Rightarrow> ppath) \<Rightarrow> string \<Rightarrow> app_db \<Rightarrow> pyfs \<Rightarrow> string \<Rightarrow> string \<Rightarrow> string
     \<Rightarrow> pydatetime \<Rightarrow> app_db \<times> pyfs \<times> mobile_folder_record res" where
  "get_or_create_mobile_folder expand resolve stamp db fs destination_parent device_uuid device_name
       updated_at =
     (let stale = filter (\<lambda>r. mf_device_uuid r = device_uuid
                     \<and> \<not> list_ex (\<lambda>f. fo_id f = mf_folder_id r) (db_folders db)) (db_mobile_folders db);
          db1 = (if stale = [] then db
                 else delete_mobile_device_data_for_folder_ids db (map (\<lambda>r. Some (mf_folder_id r)) stale))
      in case folder_of_device db1 device_uuid of
           Some f \<Rightarrow>
             (set_folder_state_of_device device_uuid MOBILE_TRANSFER_STATE_PAIRED
                (dt_isoformat updated_at) db1, fs,
              Inr \<lparr>mfr_folder_id = fo_id f, mfr_folder_path = fo_path f, mfr_reused_existing = True\<rparr>)
         | None \<Rightarrow>
             let destination_root = expand destination_parent
             in case unique_mobile_folder_name (Suc (length (db_folders db1))) db1 destination_root
                       device_name device_uuid of
                  None \<Rightarrow> (db1, fs, Inl (RuntimeError ''loop''))
                | Some folder_name \<Rightarrow>
                    let folder_path = resolve (path_join destination_root folder_name)
                    in case fs_mkdir_parents folder_path fs of
                         (fs1, Inl e) \<Rightarrow> (db1, fs1, Inl (OSError e))
                       | (fs1, Inr _) \<Rightarrow>
                           let normalized_folder_path = path_posix folder_path;
                               (db2, inserted) = insert_folder db1 stamp normalized_folder_path;
                               folder = (case inserted of
                                           Some f \<Rightarrow> Some f
                                         | None \<Rightarrow> get_exact_folder db2 normalized_folder_path)
                           in case folder of
                                None \<Rightarrow> (db2, fs1, Inl (RuntimeError
                                  (''Failed to create or load mobile folder row for path ''
                                   @ normalized_folder_path)))
                              | Some f \<Rightarrow>
                                  (case insert_mobile_folder db2 (fo_id f) device_uuid
                                          MOBILE_TRANSFER_STATE_PAIRED (dt_isoformat updated_at) of
                                     Inl e \<Rightarrow> (db2, fs1, Inl e)
                                   | Inr db3 \<Rightarrow>
                                       (db3, fs1, Inr \<lparr>mfr_folder_id = fo_id f,
                                          mfr_folder_path = normalized_folder_path,
                                          mfr_reused_existing = False\<rparr>)))"

definition get_mobile_folder_binding_by_path ::
    "(string \<Rightarrow> ppath) \<Rightarrow> app_db \<Rightarrow> string \<Rightarrow> mobile_folder_binding option" where
  "get_mobile_folder_binding_by_path expand db folder_path =
     (let (a, b) = mobile_folder_path_variants (path_posix (expand folder_path))
      in fetchone (concat (map (\<lambda>m. map (\<lambda>f. \<lparr>mfb_folder_id = mf_folder_id m, mfb_folder_path = fo_path f,
                                                mfb_device_uuid = mf_device_uuid m\<rparr>)
             (filter (\<lambda>f. fo_id f = mf_folder_id m \<and> (fo_path f = a \<or> fo_path f = b)) (db_folders db)))
             (db_mobile_folders db))))"

definition overwrite_asset :: "asset_row \<Rightarrow> asset_row \<Rightarrow> asset_row" where
  "overwrite_asset old new =
     old\<lparr>as_remote_asset_version := as_remote_asset_version new, as_content_sha1 := as_content_sha1 new,
       as_file_size_bytes := as_file_size_bytes new, as_asset_created_at := as_asset_created_at new,
       as_local_relative_path := as_local_relative_path new,
       as_last_transferred_at := as_last_transferred_at new\<rparr>"

definition asset_key :: "asset_row \<Rightarrow> string \<times> string" where
  "asset_key r = (as_device_uuid r, as_remote_asset_id r)"

definition repair_mobile_folder_device_binding ::
    "app_db \<Rightarrow> int \<Rightarrow> string \<Rightarrow> string \<Rightarrow> string \<Rightarrow> pydatetime \<Rightarrow> app_db \<times> mobile_folder_record res" where
  "repair_mobile_folder_device_binding db folder_id folder_path previous_device_uuid
       replacement_device_uuid updated_at =
     (let repaired = \<lparr>mfr_folder_id = folder_id, mfr_folder_path = folder_path, mfr_reused_existing = True\<rparr>
      in if previous_device_uuid = replacement_device_uuid then
           (db\<lparr>db_mobile_folders := sql_update (\<lambda>r. mf_folder_id r = folder_id)
                 (\<lambda>r. r\<lparr>mf_transfer_state := MOBILE_TRANSFER_STATE_PAIRED,
                        mf_transfer_state_updated_at := dt_isoformat updated_at\<rparr>) (db_mobile_folders db)\<rparr>,
            Inr repaired)
         else if (case fetchone (filter (\<lambda>r. mf_device_uuid r = replacement_device_uuid) (db_mobile_folders db)) of
                    None \<Rightarrow> False | Some r \<Rightarrow> mf_folder_id r \<noteq> folder_id) then
           (db, Inl (RuntimeError
              ''Replacement mobile device is already associated with a different mobile folder.''))
         else
           let old_asset_rows = filter (\<lambda>r. as_device_uuid r = previous_device_uuid) (db_assets db);
               assets = fold (\<lambda>old. sql_upsert asset_key overwrite_asset
                                (old\<lparr>as_device_uuid := replacement_device_uuid\<rparr>)) old_asset_rows (db_assets db)
           in (db\<lparr>db_assets := filter (\<lambda>r. as_device_uuid r \<noteq> previous_device_uuid) assets,
                  db_sessions := sql_update (\<lambda>r. se_device_uuid r = previous_device_uuid)
                    (\<lambda>r. r\<lparr>se_device_uuid := replacement_device_uuid, se_folder_id := folder_id\<rparr>)
                    (db_sessions db),
                  db_mobile_folders := sql_update (\<lambda>r. mf_folder_id r = folder_id)
                    (\<lambda>r. r\<lparr>mf_device_uuid := replacement_device_uuid,
                           mf_transfer_state := MOBILE_TRANSFER_STATE_PAIRED,
                           mf_transfer_state_updated_at := dt_isoformat updated_at\<rparr>) (db_mobile_folders db),
                  db_devices := filter (\<lambda>r. de_device_uuid r \<noteq> previous_device_uuid) (db_devices db)\<rparr>,
               Inr repaired))"

section \<open>Backup sessions\<close>

definition insert_mobile_backup_session ::
    "app_db \<Rightarrow> string \<Rightarrow> string \<Rightarrow> int \<Rightarrow> string \<Rightarrow> pydatetime \<Rightarrow> pydatetime \<Rightarrow> int \<Rightarrow> app_db res" where
  "insert_mobile_backup_session db session_id device_uuid folder_id status started_at paired_at total_assets =
     (if list_ex (\<lambda>r. se_session_id r = session_id) (db_sessions db)
      then Inl (IntegrityError ''UNIQUE constraint failed: mobile_backup_sessions.session_id'')
      else Inr (db\<lparr>db_sessions := db_sessions db @
             [\<lparr>se_session_id = session_id, se_device_uuid = device_uuid, se_folder_id = folder_id,
               se_status = status, se_total_assets = max 0 total_assets, se_transferred_count = 0,
               se_failed_count = 0, se_started_at = dt_isoformat started_at,
               se_paired_at = Some (dt_isoformat paired_at), se_ended_at = None\<rparr>]\<rparr>))"

text \<open>
  The join of a session with its phone, its folder and, when there is one, its row of
  \<^verbatim>\<open>mobile_folders\<close>.
\<close>

definition transfer_context_rows :: "app_db \<Rightarrow> session_row \<Rightarrow> transfer_context list" where
  "transfer_context_rows db se =
     concat (map (\<lambda>d. concat (map (\<lambda>f.
       (let ctx = (\<lambda>state. \<lparr>tc_session_id = se_session_id se, tc_device_uuid = se_device_uuid se,
                     tc_session_status = se_status se, tc_folder_id = se_folder_id se,
                     tc_folder_path = fo_path f, tc_folder_transfer_state = state,
                     tc_trust_key_b64 = de_trust_key_b64 d\<rparr>);
            ms = filter (\<lambda>m. mf_folder_id m = se_folder_id se) (db_mobile_folders db)
        in if ms = [] then [ctx None] else map (\<lambda>m. ctx (Some (mf_transfer_state m))) ms))
       (filter (\<lambda>f. fo_id f = se_folder_id se) (db_folders db))))
       (filter (\<lambda>d. de_device_uuid d = se_device_uuid se) (db_devices db)))"

definition get_mobile_transfer_context :: "app_db \<Rightarrow> string \<Rightarrow> string \<Rightarrow> transfer_context option" where
  "get_mobile_transfer_context db session_id device_uuid =
     fetchone (concat (map (transfer_context_rows db)
       (filter (\<lambda>r. se_session_id r = session_id \<and> se_device_uuid r = device_uuid) (db_sessions db))))"

definition get_mobile_transfer_context_by_session_id :: "app_db \<Rightarrow> string \<Rightarrow> transfer_context option" where
  "get_mobile_transfer_context_by_session_id db session_id =
     fetchone (concat (map (transfer_context_rows db)
       (filter (\<lambda>r. se_session_id r = session_id) (db_sessions db))))"

definition coalesce :: "'a option \<Rightarrow> 'a \<Rightarrow> 'a" where
  "coalesce x d = (case x of None \<Rightarrow> d | Some v \<Rightarrow> v)"

text \<open>The optional arguments of \<open>update_mobile_transfer_state\<close> keep the column when absent.\<close>

definition update_mobile_transfer_state ::
    "app_db \<Rightarrow> string \<Rightarrow> string \<Rightarrow> string \<Rightarrow> string \<Rightarrow> pydatetime \<Rightarrow> pydatetime option
     \<Rightarrow> int option \<Rightarrow> int option \<Rightarrow> int option \<Rightarrow> app_db" where
  "update_mobile_transfer_state db session_id device_uuid session_status folder_transfer_state updated_at
       ended_at total_assets transferred_count failed_count =
     set_folder_state_of_device device_uuid folder_transfer_state (dt_isoformat updated_at)
       (db\<lparr>db_sessions := sql_update (\<lambda>r. se_session_id r = session_id \<and> se_device_uuid r = device_uuid)
            (\<lambda>r. r\<lparr>se_status := session_status,
               se_ended_at := (case ended_at of None \<Rightarrow> se_ended_at r | Some t \<Rightarrow> Some (dt_isoformat t)),
               se_total_assets := coalesce total_assets (se_total_assets r),
               se_transferred_count := coalesce transferred_count (se_transferred_count r),
               se_failed_count := coalesce failed_count (se_failed_count r)\<rparr>) (db_sessions db)\<rparr>)"

definition increment_mobile_backup_session_transferred_count ::
    "app_db \<Rightarrow> string \<Rightarrow> string \<Rightarrow> int \<Rightarrow> app_db" where
  "increment_mobile_backup_session_transferred_count db session_id device_uuid delta =
     (if delta \<le> 0 then db
      else db\<lparr>db_sessions := sql_update (\<lambda>r. se_session_id r = session_id \<and> se_device_uuid r = device_uuid)
            (\<lambda>r. r\<lparr>se_transferred_count := se_transferred_count r + delta\<rparr>) (db_sessions db)\<rparr>)"

definition get_active_mobile_backup_session :: "app_db \<Rightarrow> active_backup_session option" where
  "get_active_mobile_backup_session db =
     map_option snd (first_max_by fst (concat (map (\<lambda>se. concat (map (\<lambda>f. map (\<lambda>d.
         (se_started_at se, \<lparr>ab_session_id = se_session_id se, ab_device_uuid = se_device_uuid se,
            ab_folder_path = fo_path f, ab_device_name = de_device_name d\<rparr>))
         (filter (\<lambda>d. de_device_uuid d = se_device_uuid se) (db_devices db)))
         (filter (\<lambda>f. fo_id f = se_folder_id se) (db_folders db))))
       (filter (\<lambda>se. se_status se = MOBILE_BACKUP_SESSION_STATUS_TRANSFERRING) (db_sessions db)))))"

section \<open>Assets\<close>

definition mobile_asset_signature_key :: "string \<Rightarrow> int \<Rightarrow> pydatetime \<Rightarrow> signature_key" where
  "mobile_asset_signature_key content_sha1 file_size_bytes asset_created_at =
     (py_lower (py_strip content_sha1), file_size_bytes, dt_isoformat asset_created_at)"

definition get_mobile_asset_record :: "app_db \<Rightarrow> string \<Rightarrow> string \<Rightarrow> asset_row option" where
  "get_mobile_asset_record db device_uuid remote_asset_id =
     fetchone (filter (\<lambda>r. as_device_uuid r = device_uuid \<and> as_remote_asset_id r = remote_asset_id)
       (db_assets db))"

text \<open>
  The rows of the signature query: each asset of the phone that carries one of the signatures,
  once per folder of the phone, with the folder's path.  A row with a missing signature column
  never matches, as SQL compares it with \<^verbatim>\<open>NULL\<close>.
\<close>

definition asset_signature :: "asset_row \<Rightarrow> signature_key option" where
  "asset_signature r =
     (case (as_content_sha1 r, as_file_size_bytes r, as_asset_created_at r) of
        (Some h, Some n, Some t) \<Rightarrow> Some (h, n, t)
      | _ \<Rightarrow> None)"

definition signature_rows ::
    "app_db \<Rightarrow> string \<Rightarrow> signature_key list \<Rightarrow> (signature_key \<times> asset_row \<times> string) list" where
  "signature_rows db device_uuid keys =
     concat (map (\<lambda>a. concat (map (\<lambda>m. map (\<lambda>f. (the (asset_signature a), a, fo_path f))
         (filter (\<lambda>f. fo_id f = mf_folder_id m) (db_folders db)))
         (filter (\<lambda>m. mf_device_uuid m = as_device_uuid a) (db_mobile_folders db))))
       (filter (\<lambda>a. as_device_uuid a = device_uuid \<and>
                (case asset_signature a of None \<Rightarrow> False | Some k \<Rightarrow> k \<in> set keys)) (db_assets db)))"

fun collect_signature_matches ::
    "pyfs \<Rightarrow> (signature_key \<times> asset_row \<times> string) list \<Rightarrow> (signature_key, asset_row) dict
     \<Rightarrow> (signature_key, asset_row) dict" where
  "collect_signature_matches fs [] matches = matches"
| "collect_signature_matches fs ((k, a, folder_path) # rows) matches =
     collect_signature_matches fs rows
       (if \<not> fs_exists fs (path_join (path_of folder_path) (as_local_relative_path a)) then matches
        else if dict_get matches k = None then dict_set matches k a else matches)"

definition get_mobile_asset_records_by_signatures ::
    "app_db \<Rightarrow> pyfs \<Rightarrow> string \<Rightarrow> signature_key list \<Rightarrow> (signature_key, asset_row) dict" where
  "get_mobile_asset_records_by_signatures db fs device_uuid signature_keys =
     (if signature_keys = [] then []
      else collect_signature_matches fs (signature_rows db device_uuid (remdups signature_keys)) [])"

definition get_mobile_asset_record_by_signature ::
    "app_db \<Rightarrow> pyfs \<Rightarrow> string \<Rightarrow> string \<Rightarrow> int \<Rightarrow> pydatetime \<Rightarrow> asset_row option" where
  "get_mobile_asset_record_by_signature db fs device_uuid content_sha1 file_size_bytes asset_created_at =
     (let k = mobile_asset_signature_key content_sha1 file_size_bytes asset_created_at
      in dict_get (get_mobile_asset_records_by_signatures db fs device_uuid [k]) k)"

definition upsert_mobile_asset_record ::
    "app_db \<Rightarrow> string \<Rightarrow> string \<Rightarrow> string option \<Rightarrow> string option \<Rightarrow> int option \<Rightarrow> pydatetime option
     \<Rightarrow> string \<Rightarrow> pydatetime \<Rightarrow> app_db" where
  "upsert_mobile_asset_record db device_uuid remote_asset_id remote_asset_version content_sha1
       file_size_bytes asset_created_at local_relative_path last_transferred_at =
     db\<lparr>db_assets := sql_upsert asset_key overwrite_asset
          \<lparr>as_device_uuid = device_uuid, as_remote_asset_id = remote_asset_id,
           as_remote_asset_version = remote_asset_version,
           as_content_sha1 = map_option py_lower content_sha1,
           as_file_size_bytes = file_size_bytes,
           as_asset_created_at = map_option dt_isoformat asset_created_at,
           as_local_relative_path = local_relative_path,
           as_last_transferred_at = dt_isoformat last_transferred_at\<rparr> (db_assets db)\<rparr>"

section \<open>What the folder tree shows\<close>

definition get_mobile_folder_transfer_states :: "app_db \<Rightarrow> (string, string) dict" where
  "get_mobile_folder_transfer_states db =
     fold (\<lambda>(p, st) d. dict_set d (normalized_folder_key p) st)
       (concat (map (\<lambda>m. map (\<lambda>f. (fo_path f, mf_transfer_state m))
          (filter (\<lambda>f. fo_id f = mf_folder_id m) (db_folders db))) (db_mobile_folders db))) []"

definition session_last_at :: "session_row \<Rightarrow> string" where
  "session_last_at r =
     (case se_ended_at r of Some t \<Rightarrow> t
      | None \<Rightarrow> (case se_paired_at r of Some t \<Rightarrow> t | None \<Rightarrow> se_started_at r))"

definition mobile_folder_summary :: "app_db \<Rightarrow> string \<Rightarrow> string \<Rightarrow> mobile_summary" where
  "mobile_folder_summary db device_uuid platform =
     (let latest = first_max_by se_started_at
            (filter (\<lambda>r. se_device_uuid r = device_uuid) (db_sessions db));
          latest_ok = first_max_by session_last_at
            (filter (\<lambda>r. se_device_uuid r = device_uuid
                \<and> se_status r = MOBILE_BACKUP_SESSION_STATUS_COMPLETED) (db_sessions db))
      in \<lparr>ms_total_assets = (case latest of Some r \<Rightarrow> se_total_assets r | None \<Rightarrow> 0),
          ms_transferred_count = (case latest of Some r \<Rightarrow> se_transferred_count r | None \<Rightarrow> 0),
          ms_failed_count = (case latest of Some r \<Rightarrow> se_failed_count r | None \<Rightarrow> 0),
          ms_last_backup_at = map_option session_last_at latest_ok,
          ms_platform = platform,
          ms_last_transfer_status = map_option se_status latest,
          ms_last_transfer_at = map_option session_last_at latest\<rparr>)"

definition get_mobile_folder_summaries_by_path :: "app_db \<Rightarrow> (string, mobile_summary) dict" where
  "get_mobile_folder_summaries_by_path db =
     fold (\<lambda>(p, u, platform) d. dict_set d (normalized_folder_key p) (mobile_folder_summary db u platform))
       (concat (map (\<lambda>m. concat (map (\<lambda>f. map (\<lambda>d. (fo_path f, mf_device_uuid m, de_platform d))
            (filter (\<lambda>d. de_device_uuid d = mf_device_uuid m) (db_devices db)))
          (filter (\<lambda>f. fo_id f = mf_folder_id m) (db_folders db)))) (db_mobile_folders db))) []"

section \<open>Removing folders\<close>

fun add_new_variants :: "string list \<Rightarrow> string list \<Rightarrow> string list" where
  "add_new_variants [] acc = acc"
| "add_new_variants (v # vs) acc = add_new_variants vs (if v \<in> set acc then acc else acc @ [v])"

definition delete_folders :: "app_db \<Rightarrow> string list \<Rightarrow> app_db" where
  "delete_folders db folder_paths =
     (let paths = fold (\<lambda>p acc. add_new_variants (dts_folder_path_variants (slashes p)) acc) folder_paths []
      in if paths = [] then db
         else let ids = map fo_id (filter (\<lambda>r. fo_path r \<in> set paths) (db_folders db));
                  db1 = (if ids = [] then db
                         else delete_mobile_device_data_for_folder_ids db (map Some ids))
              in db1\<lparr>db_folders := filter (\<lambda>r. fo_path r \<notin> set paths) (db_folders db1)\<rparr>)"

section \<open>Lookups after updates\<close>

lemma fetchone_filter: "fetchone (filter p rows) = find p rows"
  by (induction rows) (auto simp: fetchone_def)

lemma fetchone_eq_None [simp]: "fetchone rows = None \<longleftrightarrow> rows = []"
  by (cases rows) (auto simp: fetchone_def)

lemma fetchone_member: "fetchone rows = Some r \<Longrightarrow> r \<in> set rows"
  by (cases rows) (auto simp: fetchone_def)

lemma find_member: "find p rows = Some r \<Longrightarrow> r \<in> set rows \<and> p r"
  by (auto simp: find_Some_iff)

lemma find_sql_update:
  assumes "\<And>r. p (f r) = p r"
  shows "find p (sql_update q f rows) = map_option (\<lambda>r. if q r then f r else r) (find p rows)"
  using assms by (induction rows) (auto simp: sql_update_def)

lemma find_append: "find p (xs @ ys) = (case find p xs of None \<Rightarrow> find p ys | Some x \<Rightarrow> Some x)"
  by (induction xs) auto

lemma map_key_upsert:
  assumes "\<And>x y. key (merge x y) = key x"
  shows "map key (sql_upsert key merge new rows) =
    (if key new \<in> key ` set rows then map key rows else map key rows @ [key new])"
proof (cases "key new \<in> key ` set rows")
  case True
  then have "list_ex (\<lambda>r. key r = key new) rows" by (auto simp: list_ex_iff intro: sym)
  with True show ?thesis using assms by (simp add: sql_upsert_def sql_update_def)
next
  case False
  then have "\<not> list_ex (\<lambda>r. key r = key new) rows"
    unfolding list_ex_iff by (metis imageI)
  with False show ?thesis by (simp add: sql_upsert_def)
qed

lemma distinct_upsert:
  "(\<And>x y. key (merge x y) = key x) \<Longrightarrow> distinct (map key rows) \<Longrightarrow>
     distinct (map key (sql_upsert key merge new rows))"
  by (simp add: map_key_upsert)

lemma find_upsert:
  assumes "\<And>x y. key (merge x y) = key x"
  shows "find (\<lambda>r. key r = k) (sql_upsert key merge new rows) =
    (if k = key new then Some (case find (\<lambda>r. key r = k) rows of Some old \<Rightarrow> merge old new | None \<Rightarrow> new)
     else find (\<lambda>r. key r = k) rows)"
proof (cases "list_ex (\<lambda>r. key r = key new) rows")
  case True
  then have "find (\<lambda>r. key r = key new) rows \<noteq> None"
    by (auto simp: find_None_iff list_ex_iff)
  with True show ?thesis
    by (auto simp: sql_upsert_def find_sql_update assms find_Some_iff option.map_id
        split: option.splits)
      (auto simp: find_sql_update assms find_Some_iff find_None_iff
        intro!: option.map_ident_strong)
next
  case False
  then have "find (\<lambda>r. key r = key new) rows = None"
    by (auto simp: find_None_iff list_ex_iff)
  with False show ?thesis
    by (auto simp: sql_upsert_def find_append split: option.splits)
qed

lemma asset_key_overwrite [simp]: "asset_key (overwrite_asset x y) = asset_key x"
  by (simp add: asset_key_def overwrite_asset_def)

lemma get_asset_find:
  "get_mobile_asset_record db d i = find (\<lambda>r. asset_key r = (d, i)) (db_assets db)"
  by (simp add: get_mobile_asset_record_def fetchone_filter asset_key_def)

section \<open>The invariant of the mobile tables\<close>

text \<open>
  Primary keys and unique columns are distinct, and every session belongs to a phone that the
  session's folder is bound to.
\<close>

definition mobile_keys_ok :: "app_db \<Rightarrow> bool" where
  "mobile_keys_ok db \<longleftrightarrow>
     distinct (map de_device_uuid (db_devices db)) \<and>
     distinct (map mf_folder_id (db_mobile_folders db)) \<and>
     distinct (map mf_device_uuid (db_mobile_folders db)) \<and>
     distinct (map se_session_id (db_sessions db)) \<and>
     distinct (map asset_key (db_assets db))"

definition mf_pair :: "mobile_folder_row \<Rightarrow> int \<times> string" where
  "mf_pair m = (mf_folder_id m, mf_device_uuid m)"

definition sessions_bound :: "app_db \<Rightarrow> bool" where
  "sessions_bound db \<longleftrightarrow>
     (\<forall>se\<in>set (db_sessions db). (se_folder_id se, se_device_uuid se) \<in> set (map mf_pair (db_mobile_folders db)))"

definition mobile_ok :: "app_db \<Rightarrow> bool" where
  "mobile_ok db \<longleftrightarrow> mobile_keys_ok db \<and> sessions_bound db"

lemma upsert_device_ok: "mobile_ok db \<Longrightarrow> mobile_ok (upsert_mobile_device db u p n k t)"
  by (auto simp: mobile_ok_def mobile_keys_ok_def sessions_bound_def upsert_mobile_device_def
      Let_def intro!: distinct_upsert)

lemma set_folder_state_ok: "mobile_ok db \<Longrightarrow> mobile_ok (set_folder_state_of_device u st t db)"
  by (simp add: mobile_ok_def mobile_keys_ok_def sessions_bound_def set_folder_state_of_device_def
      map_sql_update_same mf_pair_def del: set_map)

lemma sessions_update_ok:
  assumes "mobile_ok db" and "\<And>r. se_session_id (f r) = se_session_id r"
    and "\<And>r. se_folder_id (f r) = se_folder_id r" and "\<And>r. se_device_uuid (f r) = se_device_uuid r"
  shows "mobile_ok (db\<lparr>db_sessions := sql_update p f (db_sessions db)\<rparr>)"
  using assms by (auto simp: mobile_ok_def mobile_keys_ok_def sessions_bound_def map_sql_update_same
      dest!: set_sql_update)

lemma update_transfer_state_ok:
  "mobile_ok db \<Longrightarrow> mobile_ok (update_mobile_transfer_state db s u st f t e a b c)"
  unfolding update_mobile_transfer_state_def
  by (intro set_folder_state_ok sessions_update_ok) simp_all

lemma increment_ok: "mobile_ok db \<Longrightarrow> mobile_ok (increment_mobile_backup_session_transferred_count db s u d)"
  unfolding increment_mobile_backup_session_transferred_count_def
  by (auto intro!: sessions_update_ok)

lemma upsert_asset_ok: "mobile_ok db \<Longrightarrow> mobile_ok (upsert_mobile_asset_record db u i v h n c p t)"
  by (auto simp: mobile_ok_def mobile_keys_ok_def sessions_bound_def upsert_mobile_asset_record_def
      intro!: distinct_upsert)

lemma insert_session_ok:
  assumes "mobile_ok db" and "(f, u) \<in> set (map mf_pair (db_mobile_folders db))"
    and "insert_mobile_backup_session db s u f st a b n = Inr db'"
  shows "mobile_ok db'"
  using assms by (auto simp: mobile_ok_def mobile_keys_ok_def sessions_bound_def
      insert_mobile_backup_session_def list_ex_iff split: if_splits)

lemma insert_mobile_folder_ok:
  assumes "mobile_ok db" and "insert_mobile_folder db f u st t = Inr db'"
  shows "mobile_ok db'"
  using assms by (auto simp: mobile_ok_def mobile_keys_ok_def sessions_bound_def
      insert_mobile_folder_def list_ex_iff split: if_splits)

lemma delete_device_data_tables:
  assumes "\<not> list_all (\<lambda>x. x = None) ids"
  shows "db_sessions (delete_mobile_device_data_for_folder_ids db ids) =
      filter (\<lambda>r. Some (se_folder_id r) \<notin> set ids \<and> se_device_uuid r \<notin> set (bound_device_uuids db ids)) (db_sessions db)"
    and "db_mobile_folders (delete_mobile_device_data_for_folder_ids db ids) =
      filter (\<lambda>r. Some (mf_folder_id r) \<notin> set ids \<and> mf_device_uuid r \<notin> set (bound_device_uuids db ids)) (db_mobile_folders db)"
    and "db_assets (delete_mobile_device_data_for_folder_ids db ids) =
      filter (\<lambda>r. as_device_uuid r \<notin> set (bound_device_uuids db ids)) (db_assets db)"
    and "db_devices (delete_mobile_device_data_for_folder_ids db ids) =
      filter (\<lambda>r. de_device_uuid r \<notin> set (bound_device_uuids db ids)) (db_devices db)"
  using assms by (simp_all add: delete_mobile_device_data_for_folder_ids_def Let_def conj_commute)

lemma delete_device_data_ok:
  assumes "mobile_ok db"
  shows "mobile_ok (delete_mobile_device_data_for_folder_ids db ids)"
proof (cases "list_all (\<lambda>x. x = None) ids")
  case True
  with assms show ?thesis by (simp add: delete_mobile_device_data_for_folder_ids_def)
next
  case False
  note tables = delete_device_data_tables [OF False, of db]
  have "mobile_keys_ok (delete_mobile_device_data_for_folder_ids db ids)"
    using assms by (simp add: mobile_ok_def mobile_keys_ok_def distinct_map_filter tables)
  moreover have "sessions_bound (delete_mobile_device_data_for_folder_ids db ids)"
    using assms unfolding mobile_ok_def sessions_bound_def tables
    by (fastforce simp: mf_pair_def)
  ultimately show ?thesis by (simp add: mobile_ok_def)
qed

lemma mobile_ok_folders: "mobile_ok (db\<lparr>db_folders := fs, db_next_folder_id := n\<rparr>) = mobile_ok db"
  "mobile_ok (db\<lparr>db_folders := fs\<rparr>) = mobile_ok db"
  by (simp_all add: mobile_ok_def mobile_keys_ok_def sessions_bound_def)

lemma insert_folder_mobile_ok: "mobile_ok (fst (insert_folder db stamp p)) = mobile_ok db"
  by (simp add: insert_folder_def Let_def mobile_ok_folders)

lemma delete_folders_ok: "mobile_ok db \<Longrightarrow> mobile_ok (delete_folders db ps)"
  by (simp add: delete_folders_def Let_def mobile_ok_folders delete_device_data_ok)

subsection \<open>Moving a folder to another phone\<close>

lemma overwrite_same_key: "asset_key x = asset_key y \<Longrightarrow> overwrite_asset x y = y"
  by (cases x; cases y) (simp add: overwrite_asset_def asset_key_def)

lemma distinct_fold_upsert:
  "distinct (map asset_key rows) \<Longrightarrow>
     distinct (map asset_key (fold (\<lambda>old. sql_upsert asset_key overwrite_asset (g old)) olds rows))"
  by (induction olds arbitrary: rows) (simp_all add: distinct_upsert)

lemma find_fold_upsert:
  assumes "distinct (map as_remote_asset_id olds)"
  shows "find (\<lambda>r. asset_key r = (d, i))
      (fold (\<lambda>old. sql_upsert asset_key overwrite_asset (old\<lparr>as_device_uuid := d\<rparr>)) olds rows) =
    (case find (\<lambda>r. as_remote_asset_id r = i) olds of
       Some old \<Rightarrow> Some (old\<lparr>as_device_uuid := d\<rparr>)
     | None \<Rightarrow> find (\<lambda>r. asset_key r = (d, i)) rows)"
  using assms
proof (induction olds arbitrary: rows)
  case Nil
  then show ?case by simp
next
  case (Cons a olds)
  have later: "find (\<lambda>r. as_remote_asset_id r = i) olds = None" if "as_remote_asset_id a = i"
  proof -
    have "i \<notin> as_remote_asset_id ` set olds" using Cons.prems that by simp
    then show ?thesis by (metis (mono_tags, lifting) find_None_iff image_eqI)
  qed
  let ?new = "a\<lparr>as_device_uuid := d\<rparr>"
  have key: "asset_key ?new = (d, i) \<longleftrightarrow> as_remote_asset_id a = i"
    by (auto simp: asset_key_def)
  have "find (\<lambda>r. asset_key r = (d, i)) (sql_upsert asset_key overwrite_asset ?new rows) =
    (if as_remote_asset_id a = i then Some ?new else find (\<lambda>r. asset_key r = (d, i)) rows)"
  proof (cases "as_remote_asset_id a = i")
    case True
    have "overwrite_asset x ?new = ?new" if "find (\<lambda>r. asset_key r = (d, i)) rows = Some x" for x
      using that True by (intro overwrite_same_key) (auto simp: find_Some_iff asset_key_def)
    with True key show ?thesis
      by (auto simp: find_upsert [of asset_key overwrite_asset, OF asset_key_overwrite] split: option.split)
  next
    case False
    with key show ?thesis
      by (auto simp: find_upsert [of asset_key overwrite_asset, OF asset_key_overwrite])
  qed
  with Cons later show ?case by (simp split: option.split)
qed

lemma repair_conflict_free:
  assumes ok: "mobile_ok db" and row: "(folder_id, prev) \<in> set (map mf_pair (db_mobile_folders db))"
    and diff: "prev \<noteq> repl"
    and res: "repair_mobile_folder_device_binding db folder_id path prev repl t = (db', Inr rec)"
  shows "\<forall>r\<in>set (db_mobile_folders db). mf_device_uuid r \<noteq> repl"
proof (rule ccontr)
  assume "\<not> ?thesis"
  then obtain r0 where "find (\<lambda>r. mf_device_uuid r = repl) (db_mobile_folders db) = Some r0"
    by (cases "find (\<lambda>r. mf_device_uuid r = repl) (db_mobile_folders db)") (auto simp: find_None_iff)
  note found = this
  have "r0 \<in> set (db_mobile_folders db)" "mf_device_uuid r0 = repl"
    using found by (auto simp: find_Some_iff)
  moreover have "mf_folder_id r0 = folder_id"
    using res diff by (simp add: repair_mobile_folder_device_binding_def fetchone_filter found Let_def
        split: if_splits)
  ultimately have r0: "r0 \<in> set (db_mobile_folders db)" "mf_device_uuid r0 = repl" "mf_folder_id r0 = folder_id"
    by simp_all
  from row obtain m where m: "m \<in> set (db_mobile_folders db)" "mf_folder_id m = folder_id" "mf_device_uuid m = prev"
    by (auto simp: mf_pair_def)
  have "m = r0"
    using ok m r0 by (auto simp: mobile_ok_def mobile_keys_ok_def distinct_map inj_on_def)
  with m r0 diff show False by simp
qed

lemma repair_ok:
  assumes ok: "mobile_ok db" and row: "(folder_id, prev) \<in> set (map mf_pair (db_mobile_folders db))"
    and res: "repair_mobile_folder_device_binding db folder_id path prev repl t = (db', Inr rec)"
  shows "mobile_ok db'"
proof (cases "prev = repl")
  case True
  with ok res show ?thesis
    by (auto simp: repair_mobile_folder_device_binding_def Let_def mobile_ok_def mobile_keys_ok_def
        sessions_bound_def map_sql_update_same mf_pair_def simp del: set_map)
next
  case False
  note fresh = repair_conflict_free [OF ok row False res]
  let ?f = "\<lambda>r. r\<lparr>mf_device_uuid := repl, mf_transfer_state := MOBILE_TRANSFER_STATE_PAIRED,
      mf_transfer_state_updated_at := dt_isoformat t\<rparr>"
  have db': "db_mobile_folders db' = sql_update (\<lambda>r. mf_folder_id r = folder_id) ?f (db_mobile_folders db)"
    "db_sessions db' = sql_update (\<lambda>r. se_device_uuid r = prev)
       (\<lambda>r. r\<lparr>se_device_uuid := repl, se_folder_id := folder_id\<rparr>) (db_sessions db)"
    "db_devices db' = filter (\<lambda>r. de_device_uuid r \<noteq> prev) (db_devices db)"
    "db_assets db' = filter (\<lambda>r. as_device_uuid r \<noteq> prev)
       (fold (\<lambda>old. sql_upsert asset_key overwrite_asset (old\<lparr>as_device_uuid := repl\<rparr>))
         (filter (\<lambda>r. as_device_uuid r = prev) (db_assets db)) (db_assets db))"
    using res False by (auto simp: repair_mobile_folder_device_binding_def Let_def split: if_splits)
  have "distinct (map mf_device_uuid (db_mobile_folders db'))"
    unfolding db' using ok fresh
    by (intro distinct_map_update_one [where v = repl]) (auto simp: mobile_ok_def mobile_keys_ok_def)
  moreover have "distinct (map mf_folder_id (db_mobile_folders db'))"
    "distinct (map se_session_id (db_sessions db'))"
    "distinct (map de_device_uuid (db_devices db'))"
    "distinct (map asset_key (db_assets db'))"
    unfolding db' using ok
    by (simp_all add: mobile_ok_def mobile_keys_ok_def map_sql_update_same distinct_map_filter
        distinct_fold_upsert)
  ultimately have keys: "mobile_keys_ok db'" by (simp add: mobile_keys_ok_def)
  have "sessions_bound db'"
    unfolding sessions_bound_def
  proof
    fix se
    assume "se \<in> set (db_sessions db')"
    then obtain se0 where se0: "se0 \<in> set (db_sessions db)"
      and se: "se = (if se_device_uuid se0 = prev then se0\<lparr>se_device_uuid := repl, se_folder_id := folder_id\<rparr> else se0)"
      by (auto simp: db' sql_update_def)
    from ok se0 obtain m0 where m0: "m0 \<in> set (db_mobile_folders db)"
        "mf_folder_id m0 = se_folder_id se0" "mf_device_uuid m0 = se_device_uuid se0"
      by (force simp: mobile_ok_def sessions_bound_def mf_pair_def)
    from row obtain m where m: "m \<in> set (db_mobile_folders db)" "mf_folder_id m = folder_id" "mf_device_uuid m = prev"
      by (auto simp: mf_pair_def)
    have moved: "?f m \<in> set (db_mobile_folders db')" using m by (force simp: db' sql_update_def)
    have kept: "m0 \<in> set (db_mobile_folders db')" if "se_device_uuid se0 \<noteq> prev"
    proof -
      have "mf_folder_id m0 \<noteq> folder_id"
        using ok m m0 that by (auto simp: mobile_ok_def mobile_keys_ok_def distinct_map inj_on_def)
      with m0(1) show ?thesis by (force simp: db' sql_update_def)
    qed
    show "(se_folder_id se, se_device_uuid se) \<in> set (map mf_pair (db_mobile_folders db'))"
    proof (cases "se_device_uuid se0 = prev")
      case True
      with se have "(se_folder_id se, se_device_uuid se) = mf_pair (?f m)"
        using m by (simp add: mf_pair_def)
      with moved show ?thesis by (metis image_eqI set_map)
    next
      case neq: False
      with se m0 kept show ?thesis by (force simp: mf_pair_def)
    qed
  qed
  with keys show ?thesis by (simp add: mobile_ok_def)
qed

lemma distinct_asset_ids:
  "distinct (map asset_key rows) \<Longrightarrow>
     distinct (map as_remote_asset_id (filter (\<lambda>r. as_device_uuid r = d) rows))"
proof (induction rows)
  case (Cons a rows)
  then show ?case
    by (cases "as_device_uuid a = d") (auto simp: asset_key_def image_iff)
qed simp

lemma find_filter: "find p (filter q rows) = find (\<lambda>r. q r \<and> p r) rows"
  by (induction rows) auto

end
