(* ===== verification/PairingStoreProps.thy ===== *)
theory PairingStoreProps
  imports PairingStore
begin

text \<open>
  Properties of \<^verbatim>\<open>mobile_pairing_store.py\<close>: the search for a free folder name ends, a folder that
  was created is found again, the lookups by identifier and by signature return what the updates
  stored, a removed folder leaves nothing behind, and every operation keeps the tables consistent.
\<close>

section \<open>A free folder name is found\<close>

lemma sanitize_folder_name_safe:
  "sanitize_folder_name n \<noteq> [] \<and> CHR ''/'' \<notin> set (sanitize_folder_name n)"
proof -
  let ?a = "sub_runs unsafe_path_char (CHR ''-'') n"
  let ?b = "strip_by (\<lambda>c. c = CHR ''.'') (py_strip ?a)"
  have "CHR ''/'' \<notin> set ?a" using set_sub_runs [of unsafe_path_char "CHR ''-''" n] by (auto simp: unsafe_path_char_def)
  then have "CHR ''/'' \<notin> set ?b" by (meson set_strip_by subsetD)
  then have "CHR ''/'' \<notin> set (sub_runs py_isspace (CHR '' '') ?b)"
    using set_sub_runs [of py_isspace "CHR '' ''" ?b] by auto
  then show ?thesis by (auto simp: sanitize_folder_name_def Let_def)
qed

text \<open>The paths that the search tries differ in their decimal suffix only.\<close>

lemma candidate_path:
  assumes "base \<noteq> []" and "CHR ''/'' \<notin> set base"
  obtains C where "\<And>k. path_posix (path_join root (folder_candidate base uuid k)) = C @ str_nat k"
proof -
  let ?x = "base @ ''-'' @ take 8 uuid @ ''-''"
  let ?S = "split_char (CHR ''/'') ?x"
  let ?F = "snd root @ filter (\<lambda>x. x \<noteq> [] \<and> x \<noteq> ''.'') (butlast ?S)"
  have last_ok: "last ?S @ str_nat k \<noteq> ''.''" for k
    using str_nat_not_in(2) [of k] str_nat_ne [of k]
    by (cases "last ?S") (auto simp: append_eq_Cons_conv)
  obtain a as where base: "base = a # as" "a \<noteq> CHR ''/''" using assms by (cases base) auto
  have "path_of (folder_candidate base uuid k) =
      ([], filter (\<lambda>x. x \<noteq> [] \<and> x \<noteq> ''.'') (butlast ?S) @ [last ?S @ str_nat k])" for k
    using last_ok [of k] base str_nat_not_in(1) [of k] split_char_append [of "CHR ''/''" "str_nat k" ?x]
    by (simp add: path_of_def folder_candidate_def py_startswith_def)
  then have "path_posix (path_join root (folder_candidate base uuid k)) =
      (fst root @ (if ?F = [] then [] else py_join ''/'' ?F @ ''/'') @ last ?S) @ str_nat k" for k
    by (simp add: path_join_def path_posix_def py_join_snoc flip: append_assoc)
  then show ?thesis by (rule that)
qed

lemma free_folder_name_none:
  "free_folder_name fuel db root base uuid s = None \<Longrightarrow> k < fuel \<Longrightarrow>
     get_exact_folder db (path_posix (path_join root (folder_candidate base uuid (s + k)))) \<noteq> None"
proof (induction fuel arbitrary: s k)
  case (Suc fuel)
  show ?case
  proof (cases k)
    case 0
    with Suc.prems show ?thesis by (auto simp: Let_def split: if_splits)
  next
    case (Suc j)
    have "free_folder_name fuel db root base uuid (s + 1) = None"
      using Suc.prems(1) by (auto simp: Let_def split: if_splits)
    from Suc.IH [OF this, of j] Suc.prems(2) Suc show ?thesis by simp
  qed
qed simp

lemma unique_name_enough:
  "unique_mobile_folder_name (Suc (length (db_folders db))) db root name uuid \<noteq> None"
proof
  assume none: "unique_mobile_folder_name (Suc (length (db_folders db))) db root name uuid = None"
  let ?base = "sanitize_folder_name name" and ?n = "length (db_folders db)"
  obtain C where C: "\<And>k. path_posix (path_join root (folder_candidate ?base uuid k)) = C @ str_nat k"
    using candidate_path sanitize_folder_name_safe by metis
  have "free_folder_name (Suc ?n) db root ?base uuid 2 = None"
    using none by (simp add: unique_mobile_folder_name_def Let_def split: if_splits)
  then have "k < Suc ?n \<Longrightarrow> get_exact_folder db (C @ str_nat (2 + k)) \<noteq> None" for k
    using free_folder_name_none C by metis
  moreover have "\<exists>k<Suc (length (map fo_path (db_folders db))). C @ str_nat (2 + k) \<notin> set (map fo_path (db_folders db))"
    by (rule free_candidate) (auto intro!: injI dest!: str_nat_inj)
  ultimately show False by (force simp: get_exact_folder_def fetchone_filter find_None_iff)
qed

lemma free_folder_name_free:
  "free_folder_name fuel db root base uuid s = Some n \<Longrightarrow>
     get_exact_folder db (path_posix (path_join root n)) = None"
  by (induction fuel arbitrary: s) (auto simp: Let_def split: if_splits)

text \<open>
  The endless \<^verbatim>\<open>while True\<close> of \<open>_unique_mobile_folder_name\<close> always ends: one attempt more than
  there are folders finds a name, and no folder row has the path of the name that is returned.
\<close>
theorem unique_name_found:
  "\<exists>n. unique_mobile_folder_name (Suc (length (db_folders db))) db root name uuid = Some n \<and>
     get_exact_folder db (path_posix (path_join root n)) = None"
proof -
  obtain n where n: "unique_mobile_folder_name (Suc (length (db_folders db))) db root name uuid = Some n"
    using unique_name_enough by blast
  then have "get_exact_folder db (path_posix (path_join root n)) = None"
    by (auto simp: unique_mobile_folder_name_def Let_def split: if_splits dest: free_folder_name_free)
  with n show ?thesis by blast
qed

text \<open>
  Only the device name is cleaned of separators: when the cleaned name is taken, the first
  eight characters of the phone's own identifier are put into the directory name unchanged, so a
  phone that names itself \<^verbatim>\<open>/../../x\<close> gets a directory outside the chosen destination.
\<close>
theorem device_uuid_reaches_path:
  "\<exists>db n. unique_mobile_folder_name 1 db (''/'', [''home'', ''backup'']) ''Phone'' ''/../../x'' = Some n \<and>
     snd (path_join (''/'', [''home'', ''backup'']) n) = [''home'', ''backup'', ''Phone-'', ''..'', ''..'', ''x'']"
  by (intro exI [where x = "example_db\<lparr>db_folders := [\<lparr>fo_id = 1, fo_path = ''/home/backup/Phone'',
        fo_status = 0, fo_added_at = []\<rparr>]\<rparr>"] exI [where x = "''Phone-/../../x''"]) code_simp

section \<open>Moving a folder to another phone\<close>

text \<open>
  Repairing a binding hands the whole backup history over: under the new phone every asset of
  the old one is found unchanged (it replaces an asset of the same id), the new phone's other
  assets are kept, and nothing is left under the old phone.
\<close>
theorem repair_moves_assets:
  assumes "mobile_keys_ok db" and "prev \<noteq> repl"
    and "repair_mobile_folder_device_binding db folder_id path prev repl t = (db', Inr rec)"
  shows "get_mobile_asset_record db' repl i =
      (case get_mobile_asset_record db prev i of
         Some a \<Rightarrow> Some (a\<lparr>as_device_uuid := repl\<rparr>)
       | None \<Rightarrow> get_mobile_asset_record db repl i) \<and>
    get_mobile_asset_record db' prev i = None"
proof
  have assets: "db_assets db' = filter (\<lambda>r. as_device_uuid r \<noteq> prev)
       (fold (\<lambda>old. sql_upsert asset_key overwrite_asset (old\<lparr>as_device_uuid := repl\<rparr>))
         (filter (\<lambda>r. as_device_uuid r = prev) (db_assets db)) (db_assets db))"
    using assms(2,3) by (auto simp: repair_mobile_folder_device_binding_def Let_def split: if_splits)
  have own: "(\<lambda>r. as_device_uuid r \<noteq> prev \<and> asset_key r = (repl, i)) = (\<lambda>r. asset_key r = (repl, i))"
    using assms(2) by (auto simp: asset_key_def)
  have old: "(\<lambda>r. as_device_uuid r = prev \<and> as_remote_asset_id r = i) = (\<lambda>r. asset_key r = (prev, i))"
    by (auto simp: asset_key_def)
  show "get_mobile_asset_record db' repl i =
      (case get_mobile_asset_record db prev i of
         Some a \<Rightarrow> Some (a\<lparr>as_device_uuid := repl\<rparr>)
       | None \<Rightarrow> get_mobile_asset_record db repl i)"
    using assms(1)
    by (simp add: get_asset_find assets find_filter own old find_fold_upsert distinct_asset_ids
        mobile_keys_ok_def cong: option.case_cong)
  show "get_mobile_asset_record db' prev i = None"
    by (auto simp: get_mobile_asset_record_def assets)
qed

definition example_asset :: asset_row where
  "example_asset = \<lparr>as_device_uuid = ''old'', as_remote_asset_id = ''a1'', as_remote_asset_version = None,
     as_content_sha1 = Some ''ff'', as_file_size_bytes = Some 3, as_asset_created_at = Some ''t'',
     as_local_relative_path = ''2024-01/x.jpg'', as_last_transferred_at = ''t''\<rparr>"

definition example_store :: app_db where
  "example_store = example_db\<lparr>
     db_devices := [\<lparr>de_device_uuid = ''old'', de_platform = ''ios'', de_device_name = ''Phone'',
       de_trust_key_b64 = ''k'', de_paired_at = ''t'', de_last_seen_at = ''t''\<rparr>],
     db_mobile_folders := [\<lparr>mf_folder_id = 1, mf_device_uuid = ''old'', mf_transfer_state = ''paired'',
       mf_transfer_state_updated_at = ''t''\<rparr>],
     db_sessions := [\<lparr>se_session_id = ''s1'', se_device_uuid = ''old'', se_folder_id = 1,
       se_status = ''paired'', se_total_assets = 2, se_transferred_count = 0, se_failed_count = 0,
       se_started_at = ''t'', se_paired_at = None, se_ended_at = None\<rparr>],
     db_assets := [example_asset]\<rparr>"

lemma repair_moves_assets_witness:
  "get_mobile_asset_record (fst (repair_mobile_folder_device_binding example_store 1 ''/photos'' ''old'' ''new''
     \<lparr>dt_day = 0, dt_us = 0, dt_off = None\<rparr>)) ''new'' ''a1'' = Some (example_asset\<lparr>as_device_uuid := ''new''\<rparr>)"
proof -
  let ?t = "\<lparr>dt_day = 0, dt_us = 0, dt_off = None\<rparr>"
  have "mobile_keys_ok example_store"
    by (simp add: mobile_keys_ok_def example_store_def example_db_def)
  moreover have "repair_mobile_folder_device_binding example_store 1 ''/photos'' ''old'' ''new'' ?t =
      (fst (repair_mobile_folder_device_binding example_store 1 ''/photos'' ''old'' ''new'' ?t),
       Inr \<lparr>mfr_folder_id = 1, mfr_folder_path = ''/photos'', mfr_reused_existing = True\<rparr>)"
    by (simp add: repair_mobile_folder_device_binding_def example_store_def example_db_def fetchone_def)
  moreover have "get_mobile_asset_record example_store ''old'' ''a1'' = Some example_asset"
    by (simp add: get_mobile_asset_record_def example_store_def fetchone_def example_asset_def)
  ultimately show ?thesis
    using repair_moves_assets [of example_store "''old''" "''new''" 1 "''/photos''" ?t _ _ "''a1''"]
    by simp
qed

section \<open>Recording an asset and finding it again\<close>

lemma get_asset_after_upsert:
  "get_mobile_asset_record (upsert_mobile_asset_record db u i v h n c p t) u' i' =
     (if u' = u \<and> i' = i
      then Some \<lparr>as_device_uuid = u, as_remote_asset_id = i, as_remote_asset_version = v,
             as_content_sha1 = map_option py_lower h, as_file_size_bytes = n,
             as_asset_created_at = map_option dt_isoformat c, as_local_relative_path = p,
             as_last_transferred_at = dt_isoformat t\<rparr>
      else get_mobile_asset_record db u' i')"
proof -
  let ?new = "\<lparr>as_device_uuid = u, as_remote_asset_id = i, as_remote_asset_version = v,
             as_content_sha1 = map_option py_lower h, as_file_size_bytes = n,
             as_asset_created_at = map_option dt_isoformat c, as_local_relative_path = p,
             as_last_transferred_at = dt_isoformat t\<rparr>"
  have new: "asset_key ?new = (u, i)" by (simp add: asset_key_def)
  have "overwrite_asset x ?new = ?new" if "find (\<lambda>r. asset_key r = (u, i)) (db_assets db) = Some x" for x
    using that by (intro overwrite_same_key) (auto simp: find_Some_iff asset_key_def)
  then show ?thesis
    unfolding get_asset_find upsert_mobile_asset_record_def
    by (auto simp: find_upsert [of asset_key overwrite_asset, OF asset_key_overwrite] new
        split: option.split)
qed

lemma get_asset_after_count:
  "get_mobile_asset_record (increment_mobile_backup_session_transferred_count db s u d) = get_mobile_asset_record db"
  by (rule ext)+ (simp add: get_mobile_asset_record_def increment_mobile_backup_session_transferred_count_def)

text \<open>
  After \<open>upsert_mobile_asset_record\<close> the identifier that was written is found with the new
  version, hash, size, creation time and path (the hash in lower case), and the record of every
  other phone and identifier is what it was.
\<close>
theorem asset_record_roundtrip:
  "get_mobile_asset_record (upsert_mobile_asset_record db u i v h n c p t) u' i' =
     (if u' = u \<and> i' = i
      then Some \<lparr>as_device_uuid = u, as_remote_asset_id = i, as_remote_asset_version = v,
             as_content_sha1 = map_option py_lower h, as_file_size_bytes = n,
             as_asset_created_at = map_option dt_isoformat c, as_local_relative_path = p,
             as_last_transferred_at = dt_isoformat t\<rparr>
      else get_mobile_asset_record db u' i')"
  by (rule get_asset_after_upsert)

text \<open>The match that the loop over the rows keeps for a key is the first whose file exists.\<close>

lemma collect_matches_get:
  "dict_get (collect_signature_matches fs rows d) k =
     (case dict_get d k of
        Some a \<Rightarrow> Some a
      | None \<Rightarrow> map_option (fst \<circ> snd) (find (\<lambda>(k', a, p).
          k' = k \<and> fs_exists fs (path_join (path_of p) (as_local_relative_path a))) rows))"
  by (induction fs rows d rule: collect_signature_matches.induct)
    (auto simp: dict_simps split: option.splits)

text \<open>
  A look-up by signature returns exactly an asset of that phone with that hash (trimmed and in
  lower case), size and creation time, whose file is there in a folder bound to the phone; it
  returns nothing only when there is no such asset.  A record whose file was removed from the disk
  is never taken for a duplicate.
\<close>
theorem signature_lookup_exact:
  "(case get_mobile_asset_record_by_signature db fs u h n t of
      Some a \<Rightarrow> a \<in> set (db_assets db) \<and> as_device_uuid a = u \<and>
        asset_signature a = Some (mobile_asset_signature_key h n t) \<and>
        (\<exists>m\<in>set (db_mobile_folders db). \<exists>f\<in>set (db_folders db). mf_device_uuid m = u \<and>
           fo_id f = mf_folder_id m \<and>
           fs_exists fs (path_join (path_of (fo_path f)) (as_local_relative_path a)))
    | None \<Rightarrow> \<not> (\<exists>a\<in>set (db_assets db). \<exists>m\<in>set (db_mobile_folders db). \<exists>f\<in>set (db_folders db).
        as_device_uuid a = u \<and> asset_signature a = Some (mobile_asset_signature_key h n t) \<and>
        mf_device_uuid m = u \<and> fo_id f = mf_folder_id m \<and>
        fs_exists fs (path_join (path_of (fo_path f)) (as_local_relative_path a))))"
proof -
  let ?k = "mobile_asset_signature_key h n t"
  let ?hit = "\<lambda>(k', a, p). k' = ?k \<and> fs_exists fs (path_join (path_of p) (as_local_relative_path a))"
  let ?rows = "signature_rows db u [?k]"
  have get: "get_mobile_asset_record_by_signature db fs u h n t = map_option (fst \<circ> snd) (find ?hit ?rows)"
    by (simp add: get_mobile_asset_record_by_signature_def get_mobile_asset_records_by_signatures_def
        Let_def collect_matches_get)
  have rows: "(k, a, p) \<in> set ?rows \<longleftrightarrow> k = ?k \<and> a \<in> set (db_assets db) \<and> as_device_uuid a = u \<and>
      asset_signature a = Some ?k \<and> (\<exists>m\<in>set (db_mobile_folders db). mf_device_uuid m = u \<and>
        (\<exists>f\<in>set (db_folders db). fo_id f = mf_folder_id m \<and> p = fo_path f))" for k a p
  proof -
    have "(case asset_signature a of None \<Rightarrow> False | Some k \<Rightarrow> k \<in> set [?k]) = (asset_signature a = Some ?k)" for a
      by (auto split: option.split)
    then show ?thesis by (simp add: signature_rows_def image_iff) force
  qed
  show ?thesis
  proof (cases "find ?hit ?rows")
    case None
    then have "\<not> (\<exists>a p. (?k, a, p) \<in> set ?rows \<and>
        fs_exists fs (path_join (path_of p) (as_local_relative_path a)))"
      by (auto simp: find_None_iff) (metis prod_cases3)
    with None show ?thesis unfolding get by (auto simp: rows)
  next
    case (Some r)
    obtain k a p where r: "r = (k, a, p)" by (cases r)
    have hit: "r \<in> set ?rows \<and> ?hit r" using find_member [OF Some] by simp
    then have "k = ?k" "fs_exists fs (path_join (path_of p) (as_local_relative_path a))"
      by (simp_all add: r)
    with hit rows [of k a p] show ?thesis unfolding get Some by (auto simp: r)
  qed
qed

section \<open>Removing folders\<close>

lemma delete_device_data_gone:
  assumes "mobile_ok db" and "m \<in> set (db_mobile_folders db)" and "mf_folder_id m \<in> ids"
    and "set xs = Some ` ids" and "mf_device_uuid m \<noteq> []"
  shows "\<forall>r\<in>set (db_devices (delete_mobile_device_data_for_folder_ids db xs)). de_device_uuid r \<noteq> mf_device_uuid m"
    and "\<forall>r\<in>set (db_assets (delete_mobile_device_data_for_folder_ids db xs)). as_device_uuid r \<noteq> mf_device_uuid m"
    and "\<forall>r\<in>set (db_sessions (delete_mobile_device_data_for_folder_ids db xs)). se_device_uuid r \<noteq> mf_device_uuid m"
    and "\<forall>r\<in>set (db_mobile_folders (delete_mobile_device_data_for_folder_ids db xs)). mf_device_uuid r \<noteq> mf_device_uuid m"
proof -
  have "\<not> list_all (\<lambda>x. x = None) xs" using assms(3,4) by (auto simp: list_all_iff)
  moreover have "mf_device_uuid m \<in> set (bound_device_uuids db xs)"
    using assms by (auto simp: bound_device_uuids_def)
  ultimately show
    "\<forall>r\<in>set (db_devices (delete_mobile_device_data_for_folder_ids db xs)). de_device_uuid r \<noteq> mf_device_uuid m"
    "\<forall>r\<in>set (db_assets (delete_mobile_device_data_for_folder_ids db xs)). as_device_uuid r \<noteq> mf_device_uuid m"
    "\<forall>r\<in>set (db_sessions (delete_mobile_device_data_for_folder_ids db xs)). se_device_uuid r \<noteq> mf_device_uuid m"
    "\<forall>r\<in>set (db_mobile_folders (delete_mobile_device_data_for_folder_ids db xs)). mf_device_uuid r \<noteq> mf_device_uuid m"
    by (auto simp: delete_device_data_tables)
qed

lemma set_add_new_variants: "set (add_new_variants vs acc) = set vs \<union> set acc"
  by (induction vs acc rule: add_new_variants.induct) auto

lemma delete_folders_paths:
  "set (fold (\<lambda>p acc. add_new_variants (dts_folder_path_variants (slashes p)) acc) ps acc) =
     set acc \<union> (\<Union>p\<in>set ps. set (dts_folder_path_variants (slashes p)))"
  by (induction ps arbitrary: acc) (auto simp: set_add_new_variants)

text \<open>
  Removing a folder that is bound to a phone, whatever slashes its path is written with,
  forgets the phone altogether: no folder row, device row with its trust key, asset record, backup
  session or binding of the phone is left.
\<close>
theorem delete_folders_forgets_phone:
  assumes "mobile_ok db" and "f \<in> set (db_folders db)" and "p \<in> set folder_paths"
    and "fo_path f \<in> set (dts_folder_path_variants (slashes p))"
    and "m \<in> set (db_mobile_folders db)" and "mf_folder_id m = fo_id f" and "mf_device_uuid m \<noteq> []"
  shows "let db' = delete_folders db folder_paths; u = mf_device_uuid m
    in u \<notin> de_device_uuid ` set (db_devices db') \<and> u \<notin> as_device_uuid ` set (db_assets db') \<and>
       u \<notin> se_device_uuid ` set (db_sessions db') \<and> u \<notin> mf_device_uuid ` set (db_mobile_folders db') \<and>
       fo_path f \<notin> fo_path ` set (db_folders db')"
proof -
  define paths where "paths = fold (\<lambda>p acc. add_new_variants (dts_folder_path_variants (slashes p)) acc) folder_paths []"
  define ids where "ids = map fo_id (filter (\<lambda>r. fo_path r \<in> set paths) (db_folders db))"
  have path: "fo_path f \<in> set paths"
    using assms(3,4) by (auto simp: paths_def delete_folders_paths)
  then have ne: "paths \<noteq> []" and id: "fo_id f \<in> set ids"
    using assms(2) by (auto simp: ids_def)
  then have db': "delete_folders db folder_paths =
      (delete_mobile_device_data_for_folder_ids db (map Some ids))\<lparr>db_folders :=
        filter (\<lambda>r. fo_path r \<notin> set paths)
          (db_folders (delete_mobile_device_data_for_folder_ids db (map Some ids)))\<rparr>"
    by (auto simp: delete_folders_def Let_def simp flip: paths_def ids_def)
  note gone = delete_device_data_gone [of db m "set ids" "map Some ids"]
  from path gone assms(1,5-7) id show ?thesis
    by (auto simp: db' Let_def)
qed

lemma delete_folders_forgets_phone_witness:
  "''old'' \<notin> as_device_uuid ` set (db_assets (delete_folders example_store [''/photos/'']))"
proof -
  define f where "f = hd (db_folders example_store)"
  define m where "m = hd (db_mobile_folders example_store)"
  have "mobile_ok example_store"
    by (simp add: mobile_ok_def mobile_keys_ok_def sessions_bound_def mf_pair_def example_store_def example_db_def)
  moreover have "fo_path f \<in> set (dts_folder_path_variants (slashes ''/photos/''))"
    unfolding f_def by code_simp
  moreover have "f \<in> set (db_folders example_store)" "m \<in> set (db_mobile_folders example_store)"
    "mf_folder_id m = fo_id f" "mf_device_uuid m = ''old''"
    by (simp_all add: f_def m_def example_store_def example_db_def)
  ultimately show ?thesis
    using delete_folders_forgets_phone [of example_store f "''/photos/''" "[''/photos/'']" m]
    by (simp add: Let_def)
qed

section \<open>What the callers rely on\<close>

text \<open>
  A table of folders under unique normalized paths: an insertion returns the new row or, for a path
  that is taken, nothing and changes nothing.
\<close>

locale folder_store =
  fixes ins :: "'db \<Rightarrow> string \<Rightarrow> 'db \<times> 'r option" and look :: "'db \<Rightarrow> string \<Rightarrow> 'r option"
    and norm :: "string \<Rightarrow> string"
  assumes ins_new: "ins db p = (db', Some f) \<Longrightarrow> look db' (norm p) = Some f"
    and ins_taken: "ins db p = (db', None) \<Longrightarrow> db' = db \<and> look db (norm p) \<noteq> None"
begin

text \<open>Inserting and then looking up always ends with a row, if the path is normalized.\<close>

lemma created_or_loaded:
  assumes "norm p = p" and "ins db p = (db', r)"
  shows "(case r of Some f \<Rightarrow> Some f | None \<Rightarrow> look db' p) = look db' p \<and> look db' p \<noteq> None"
  using assms ins_new [of db p db'] ins_taken [of db p db'] by (cases r) auto

end

interpretation folder_table: folder_store "\<lambda>db p. insert_folder db stamp p" get_exact_folder slashes
  by unfold_locales
    (auto simp: insert_folder_def get_exact_folder_def Let_def fetchone_filter find_append list_ex_iff
      find_None_iff split: if_splits option.splits)

text \<open>
  The session state that the transfer component keeps in the store: a context is looked up by
  session and phone, its status and folder state are replaced, and a counter is raised.
\<close>

locale transfer_store =
  fixes ok :: "'db \<Rightarrow> bool" and ctx :: "'db \<Rightarrow> string \<Rightarrow> string \<Rightarrow> transfer_context option"
    and set_state :: "'db \<Rightarrow> string \<Rightarrow> string \<Rightarrow> string \<Rightarrow> string \<Rightarrow> 'x \<Rightarrow> 'db"
    and bump :: "'db \<Rightarrow> string \<Rightarrow> string \<Rightarrow> int \<Rightarrow> 'db"
  assumes ok_set: "ok db \<Longrightarrow> ok (set_state db s u st f x)"
    and ok_bump: "ok db \<Longrightarrow> ok (bump db s u d)"
    and ctx_set: "ok db \<Longrightarrow> ctx db s u = Some c \<Longrightarrow> ctx (set_state db s u st f x) s u =
      Some (c\<lparr>tc_session_status := st, tc_folder_transfer_state := Some f\<rparr>)"
    and ctx_set_none: "ok db \<Longrightarrow> ctx db s u = None \<Longrightarrow> ctx (set_state db s u st f x) s u = None"
    and ctx_set_other: "ok db \<Longrightarrow> u' \<noteq> u \<Longrightarrow> ctx (set_state db s u st f x) s' u' = ctx db s' u'"
    and ctx_bump: "ctx (bump db s u d) s' u' = ctx db s' u'"
begin

text \<open>A run of state changes leaves the state that was set last and nothing else of the context.\<close>

fun run_states :: "'db \<Rightarrow> string \<Rightarrow> string \<Rightarrow> (string \<times> string \<times> 'x) list \<Rightarrow> 'db" where
  "run_states db s u [] = db"
| "run_states db s u ((st, f, x) # rest) = run_states (set_state db s u st f x) s u rest"

lemma ok_run: "ok db \<Longrightarrow> ok (run_states db s u steps)"
  by (induction db s u steps rule: run_states.induct) (auto intro: ok_set)

lemma ctx_run:
  assumes "ok db" and "ctx db s u = Some c" and "steps \<noteq> []"
  shows "ctx (run_states db s u steps) s u =
    Some (c\<lparr>tc_session_status := fst (last steps), tc_folder_transfer_state := Some (fst (snd (last steps)))\<rparr>)"
  using assms
proof (induction db s u steps arbitrary: c rule: run_states.induct)
  case (2 db s u st f x rest)
  then show ?case by (cases "rest = []") (auto simp: ctx_set ok_set)
qed simp

lemma ctx_run_other:
  "ok db \<Longrightarrow> u' \<noteq> u \<Longrightarrow> ctx (run_states db s u steps) s' u' = ctx db s' u'"
  by (induction db s u steps rule: run_states.induct) (auto simp: ctx_set_other ok_set)

end

text \<open>The model's store keeps the contract: the rows of a context after a state change.\<close>

lemma find_filter_rows: "find p (filter q rows) = find (\<lambda>r. q r \<and> p r) rows"
  by (induction rows) auto

lemma mf_row_of_session:
  assumes "mobile_ok db" and "se \<in> set (db_sessions db)"
  obtains m where "m \<in> set (db_mobile_folders db)" "mf_device_uuid m = se_device_uuid se"
    "filter (\<lambda>m. mf_folder_id m = se_folder_id se) (db_mobile_folders db) = [m]"
proof -
  from assms obtain m where m: "m \<in> set (db_mobile_folders db)" "mf_folder_id m = se_folder_id se"
      "mf_device_uuid m = se_device_uuid se"
    by (force simp: mobile_ok_def sessions_bound_def mf_pair_def)
  have "distinct (map mf_folder_id (db_mobile_folders db))"
    using assms by (simp add: mobile_ok_def mobile_keys_ok_def)
  then have "filter (\<lambda>r. mf_folder_id r = mf_folder_id m) (db_mobile_folders db) = [m]"
    using m(1) by (rule filter_key_single)
  with m show ?thesis by (intro that) auto
qed

lemma filter_sql_update:
  "(\<And>r. p (g r) = p r) \<Longrightarrow>
     filter p (sql_update q g rows) = map (\<lambda>r. if q r then g r else r) (filter p rows)"
  by (induction rows) (auto simp: sql_update_def)

lemma fetchone_map: "fetchone (map h xs) = map_option h (fetchone xs)"
  by (cases xs) (simp_all add: fetchone_def)

abbreviation with_state :: "string \<Rightarrow> string \<Rightarrow> transfer_context \<Rightarrow> transfer_context" where
  "with_state st f c \<equiv> c\<lparr>tc_session_status := st, tc_folder_transfer_state := Some f\<rparr>"

lemma context_rows_update:
  assumes "mobile_ok db" and "se \<in> set (db_sessions db)"
    and "se_folder_id se' = se_folder_id se" "se_device_uuid se' = se_device_uuid se"
      "se_session_id se' = se_session_id se"
  shows "transfer_context_rows (update_mobile_transfer_state db s u st f t e a b c) se' =
    (if se_device_uuid se = u then map (with_state (se_status se') f) (transfer_context_rows db se)
     else map (tc_session_status_update (\<lambda>_. se_status se')) (transfer_context_rows db se))"
proof -
  obtain m where m: "mf_device_uuid m = se_device_uuid se"
      "filter (\<lambda>m. mf_folder_id m = se_folder_id se) (db_mobile_folders db) = [m]"
    using mf_row_of_session [OF assms(1,2)] by blast
  have "filter (\<lambda>m. mf_folder_id m = se_folder_id se)
      (db_mobile_folders (update_mobile_transfer_state db s u st f t e a b c)) =
    [if mf_device_uuid m = u
     then m\<lparr>mf_transfer_state := f, mf_transfer_state_updated_at := dt_isoformat t\<rparr> else m]"
    by (simp add: update_mobile_transfer_state_def set_folder_state_of_device_def filter_sql_update m)
  moreover have "db_devices (update_mobile_transfer_state db s u st f t e a b c) = db_devices db"
    "db_folders (update_mobile_transfer_state db s u st f t e a b c) = db_folders db"
    by (simp_all add: update_mobile_transfer_state_def set_folder_state_of_device_def)
  ultimately show ?thesis
    by (simp add: transfer_context_rows_def assms(3-5) m map_concat o_def cong: map_cong)
qed

lemma context_after_update:
  assumes "mobile_ok db"
  shows "get_mobile_transfer_context (update_mobile_transfer_state db s u st f t e a b c) s u =
    map_option (with_state st f) (get_mobile_transfer_context db s u)"
proof -
  let ?db' = "update_mobile_transfer_state db s u st f t e a b c"
  let ?mine = "filter (\<lambda>r. se_session_id r = s \<and> se_device_uuid r = u) (db_sessions db)"
  let ?g = "\<lambda>r. r\<lparr>se_status := st,
      se_ended_at := (case e of None \<Rightarrow> se_ended_at r | Some t \<Rightarrow> Some (dt_isoformat t)),
      se_total_assets := coalesce a (se_total_assets r),
      se_transferred_count := coalesce b (se_transferred_count r),
      se_failed_count := coalesce c (se_failed_count r)\<rparr>"
  have "filter (\<lambda>r. se_session_id r = s \<and> se_device_uuid r = u) (db_sessions ?db') = map ?g ?mine"
    by (auto simp: update_mobile_transfer_state_def set_folder_state_of_device_def filter_sql_update)
  moreover have "transfer_context_rows ?db' (?g r) = map (with_state st f) (transfer_context_rows db r)"
    if "r \<in> set ?mine" for r
    using context_rows_update [OF assms, of r "?g r"] that by auto
  ultimately have "concat (map (transfer_context_rows ?db')
      (filter (\<lambda>r. se_session_id r = s \<and> se_device_uuid r = u) (db_sessions ?db'))) =
    map (with_state st f) (concat (map (transfer_context_rows db) ?mine))"
    by (auto simp: map_concat intro!: arg_cong [where f = concat] map_cong)
  then show ?thesis by (simp add: get_mobile_transfer_context_def fetchone_map)
qed

lemma context_rows_status: "c \<in> set (transfer_context_rows db se) \<Longrightarrow> tc_session_status c = se_status se"
  by (auto simp: transfer_context_rows_def Let_def split: if_splits)

lemma context_other_phone:
  assumes "mobile_ok db" and "u' \<noteq> u"
  shows "get_mobile_transfer_context (update_mobile_transfer_state db s u st f t e a b c) s' u' =
    get_mobile_transfer_context db s' u'"
proof -
  let ?db' = "update_mobile_transfer_state db s u st f t e a b c"
  let ?mine = "filter (\<lambda>r. se_session_id r = s' \<and> se_device_uuid r = u') (db_sessions db)"
  have "filter (\<lambda>r. se_session_id r = s' \<and> se_device_uuid r = u') (db_sessions ?db') = ?mine"
    using assms(2)
    by (auto simp: update_mobile_transfer_state_def set_folder_state_of_device_def filter_sql_update
        intro!: map_idI)
  moreover have "transfer_context_rows ?db' r = transfer_context_rows db r" if "r \<in> set ?mine" for r
    using context_rows_update [OF assms(1), of r r] that assms(2)
    by (auto simp: context_rows_status intro!: map_idI)
  ultimately have "map (transfer_context_rows ?db')
      (filter (\<lambda>r. se_session_id r = s' \<and> se_device_uuid r = u') (db_sessions ?db')) =
    map (transfer_context_rows db) ?mine"
    by (auto intro!: map_cong)
  then show ?thesis by (simp add: get_mobile_transfer_context_def)
qed

lemma context_rows_same:
  "se_session_id r = se_session_id r' \<Longrightarrow> se_device_uuid r = se_device_uuid r' \<Longrightarrow>
   se_status r = se_status r' \<Longrightarrow> se_folder_id r = se_folder_id r' \<Longrightarrow>
   db_devices db' = db_devices db \<Longrightarrow> db_folders db' = db_folders db \<Longrightarrow>
   db_mobile_folders db' = db_mobile_folders db \<Longrightarrow> transfer_context_rows db' r = transfer_context_rows db r'"
  by (simp add: transfer_context_rows_def)

lemma context_after_bump:
  "get_mobile_transfer_context (increment_mobile_backup_session_transferred_count db s u d) s' u' =
   get_mobile_transfer_context db s' u'"
proof (cases "d \<le> 0")
  case False
  let ?db' = "increment_mobile_backup_session_transferred_count db s u d"
  let ?g = "\<lambda>r. if se_session_id r = s \<and> se_device_uuid r = u
      then r\<lparr>se_transferred_count := se_transferred_count r + d\<rparr> else r"
  have "filter (\<lambda>r. se_session_id r = s' \<and> se_device_uuid r = u') (db_sessions ?db') =
      map ?g (filter (\<lambda>r. se_session_id r = s' \<and> se_device_uuid r = u') (db_sessions db))"
    using False by (simp add: increment_mobile_backup_session_transferred_count_def filter_sql_update)
  moreover have "transfer_context_rows ?db' (?g r) = transfer_context_rows db r" for r
    by (rule context_rows_same) (simp_all add: increment_mobile_backup_session_transferred_count_def)
  ultimately show ?thesis by (simp add: get_mobile_transfer_context_def o_def)
qed (simp add: increment_mobile_backup_session_transferred_count_def)

lemma context_after_asset:
  "get_mobile_transfer_context (upsert_mobile_asset_record db d i v h n c p t) s' u' =
   get_mobile_transfer_context db s' u'"
proof -
  have "transfer_context_rows (upsert_mobile_asset_record db d i v h n c p t) r = transfer_context_rows db r" for r
    by (rule context_rows_same) (simp_all add: upsert_mobile_asset_record_def)
  moreover have "db_sessions (upsert_mobile_asset_record db d i v h n c p t) = db_sessions db"
    by (simp add: upsert_mobile_asset_record_def)
  ultimately show ?thesis by (simp add: get_mobile_transfer_context_def cong: map_cong)
qed

lemma context_other_session:
  assumes "mobile_ok db" and "s' \<noteq> s"
  shows "map_option tc_session_status (get_mobile_transfer_context (update_mobile_transfer_state db s u st f t e a b c) s' u') =
    map_option tc_session_status (get_mobile_transfer_context db s' u')"
proof -
  let ?db' = "update_mobile_transfer_state db s u st f t e a b c"
  let ?mine = "filter (\<lambda>r. se_session_id r = s' \<and> se_device_uuid r = u') (db_sessions db)"
  have same: "filter (\<lambda>r. se_session_id r = s' \<and> se_device_uuid r = u') (db_sessions ?db') = ?mine"
    using assms(2)
    by (auto simp: update_mobile_transfer_state_def set_folder_state_of_device_def filter_sql_update
        intro!: map_idI)
  have "map tc_session_status (transfer_context_rows ?db' r) = map tc_session_status (transfer_context_rows db r)"
    if "r \<in> set ?mine" for r
    using context_rows_update [OF assms(1), of r r] that by (auto simp: context_rows_status)
  then have "map tc_session_status (concat (map (transfer_context_rows ?db') ?mine)) =
      map tc_session_status (concat (map (transfer_context_rows db) ?mine))"
    by (auto simp: map_concat intro!: arg_cong [where f = concat] map_cong)
  then show ?thesis by (simp add: get_mobile_transfer_context_def same flip: fetchone_map)
qed

interpretation ts: transfer_store mobile_ok get_mobile_transfer_context
  "\<lambda>db s u st f (t, e, a, b, c). update_mobile_transfer_state db s u st f t e a b c"
  increment_mobile_backup_session_transferred_count
  by unfold_locales
    (auto simp: context_after_update context_other_phone context_after_bump update_transfer_state_ok
      increment_ok split: prod.split)

section \<open>Creating a folder for a phone\<close>

lemma folder_of_device_found:
  assumes "folder_of_device db u = Some f"
  shows "f \<in> set (db_folders db) \<and> (fo_id f, u) \<in> set (map mf_pair (db_mobile_folders db))"
  using fetchone_member [OF assms [unfolded folder_of_device_def]] by (auto simp: mf_pair_def)

lemma folder_of_device_bound:
  assumes "mobile_ok db" and "(i, u) \<in> set (map mf_pair (db_mobile_folders db))"
    and "f \<in> set (db_folders db)" and "fo_id f = i"
  obtains f' where "folder_of_device db u = Some f'" "fo_id f' = i"
proof -
  obtain m where m: "m \<in> set (db_mobile_folders db)" "mf_folder_id m = i" "mf_device_uuid m = u"
    using assms(2) by (auto simp: mf_pair_def)
  have "filter (\<lambda>r. mf_device_uuid r = mf_device_uuid m) (db_mobile_folders db) = [m]"
    using assms(1) m(1) by (intro filter_key_single) (simp_all add: mobile_ok_def mobile_keys_ok_def)
  then have eq: "folder_of_device db u = fetchone (filter (\<lambda>f. fo_id f = i) (db_folders db))"
    using m by (simp add: folder_of_device_def)
  have "folder_of_device db u \<noteq> None"
    using assms(3,4) by (auto simp: eq filter_empty_conv)
  then obtain f' where f': "folder_of_device db u = Some f'" by blast
  then have "fo_id f' = i" using fetchone_member unfolding eq by fastforce
  with f' show ?thesis by (rule that)
qed

text \<open>A phone that is bound to an existing folder gets that folder again.\<close>

lemma get_or_create_reuses:
  assumes "mobile_ok db" and "(i, u) \<in> set (map mf_pair (db_mobile_folders db))"
    and "f \<in> set (db_folders db)" and "fo_id f = i"
  shows "\<exists>p. get_or_create_mobile_folder expand resolve stamp db fs parent u name t =
    (set_folder_state_of_device u MOBILE_TRANSFER_STATE_PAIRED (dt_isoformat t) db, fs,
     Inr \<lparr>mfr_folder_id = i, mfr_folder_path = p, mfr_reused_existing = True\<rparr>)"
proof -
  have "\<And>m. m \<in> set (db_mobile_folders db) \<Longrightarrow> mf_device_uuid m = u \<Longrightarrow> mf_folder_id m = i"
    using assms(1,2) by (auto simp: mobile_ok_def mobile_keys_ok_def distinct_map inj_on_def mf_pair_def)
  then have stale: "filter (\<lambda>r. mf_device_uuid r = u
      \<and> \<not> list_ex (\<lambda>f. fo_id f = mf_folder_id r) (db_folders db)) (db_mobile_folders db) = []"
    using assms(3,4) by (auto simp: filter_empty_conv list_ex_iff)
  obtain f' where "folder_of_device db u = Some f'" "fo_id f' = i"
    using folder_of_device_bound [OF assms] .
  then show ?thesis by (simp add: get_or_create_mobile_folder_def stale Let_def)
qed

lemma map_pair_set_state:
  "map mf_pair (db_mobile_folders (set_folder_state_of_device u st t db)) = map mf_pair (db_mobile_folders db)"
  "db_folders (set_folder_state_of_device u st t db) = db_folders db"
  by (simp_all add: set_folder_state_of_device_def map_sql_update_same mf_pair_def)

lemma delete_device_folders: "db_folders (delete_mobile_device_data_for_folder_ids db xs) = db_folders db"
  by (simp add: delete_mobile_device_data_for_folder_ids_def Let_def)

lemma inserted_folder_exists:
  assumes "insert_folder db stamp p = (db', r)"
    and "(case r of Some f \<Rightarrow> Some f | None \<Rightarrow> get_exact_folder db' p) = Some f"
  shows "f \<in> set (db_folders db')"
proof (cases r)
  case None
  with assms(2) show ?thesis by (auto simp: get_exact_folder_def fetchone_filter dest: find_member)
next
  case (Some g)
  then have "get_exact_folder db' (slashes p) = Some g"
    using folder_table.ins_new assms(1) by simp
  with Some assms(2) show ?thesis by (auto simp: get_exact_folder_def fetchone_filter dest: find_member)
qed

lemma get_or_create_bound:
  assumes "mobile_ok db"
    and "get_or_create_mobile_folder expand resolve stamp db fs parent u name t = (db', fs', Inr rec)"
  shows "mobile_ok db' \<and> (\<exists>f\<in>set (db_folders db'). fo_id f = mfr_folder_id rec) \<and>
    (mfr_folder_id rec, u) \<in> set (map mf_pair (db_mobile_folders db'))"
proof -
  define stale where "stale = filter (\<lambda>r. mf_device_uuid r = u
      \<and> \<not> list_ex (\<lambda>f. fo_id f = mf_folder_id r) (db_folders db)) (db_mobile_folders db)"
  define db1 where "db1 = (if stale = [] then db
      else delete_mobile_device_data_for_folder_ids db (map (\<lambda>r. Some (mf_folder_id r)) stale))"
  have ok1: "mobile_ok db1" using assms(1) by (simp add: db1_def delete_device_data_ok)
  note run = assms(2) [unfolded get_or_create_mobile_folder_def Let_def, folded stale_def, folded db1_def]
  show ?thesis
  proof (cases "folder_of_device db1 u")
    case (Some f)
    with run have "db' = set_folder_state_of_device u MOBILE_TRANSFER_STATE_PAIRED (dt_isoformat t) db1"
      "mfr_folder_id rec = fo_id f" by auto
    with Some ok1 folder_of_device_found [OF Some] show ?thesis
      by (auto simp: set_folder_state_ok map_pair_set_state simp del: set_map)
  next
    case None
    with run obtain path db2 r f where ins: "insert_folder db1 stamp path = (db2, r)"
        and f: "(case r of Some f \<Rightarrow> Some f | None \<Rightarrow> get_exact_folder db2 path) = Some f"
        and mf: "insert_mobile_folder db2 (fo_id f) u MOBILE_TRANSFER_STATE_PAIRED (dt_isoformat t) = Inr db'"
        and rec: "mfr_folder_id rec = fo_id f"
      by (auto split: option.splits prod.splits sum.splits)
    have "mobile_ok db2" using ok1 ins insert_folder_mobile_ok [of db1 stamp path] by simp
    then have "mobile_ok db'" using mf by (rule insert_mobile_folder_ok)
    moreover have "f \<in> set (db_folders db')" "(fo_id f, u) \<in> set (map mf_pair (db_mobile_folders db'))"
      using inserted_folder_exists [OF ins f] mf
      by (auto simp: insert_mobile_folder_def mf_pair_def split: if_splits)
    ultimately show ?thesis using rec by auto
  qed
qed

text \<open>
  A folder that \<open>get_or_create_mobile_folder\<close> returns exists and is bound to the phone, and
  every later call for the phone, whatever destination and name it asks for, returns the same
  folder as an existing one and creates nothing on the disk.
\<close>
theorem mobile_folder_is_stable:
  assumes "mobile_ok db"
    and "get_or_create_mobile_folder expand resolve stamp db fs parent u name t = (db', fs', Inr rec)"
  shows "(mfr_folder_id rec, u) \<in> set (map mf_pair (db_mobile_folders db')) \<and>
    (\<exists>db'' p. get_or_create_mobile_folder expand resolve stamp2 db' fs2 parent2 u name2 t2 =
       (db'', fs2, Inr \<lparr>mfr_folder_id = mfr_folder_id rec, mfr_folder_path = p, mfr_reused_existing = True\<rparr>))"
proof -
  note bound = get_or_create_bound [OF assms]
  then obtain f where "f \<in> set (db_folders db')" "fo_id f = mfr_folder_id rec" by blast
  with bound get_or_create_reuses [of db' "mfr_folder_id rec" u f] show ?thesis by blast
qed

lemma mobile_folder_is_stable_witness:
  "\<exists>db'' p. get_or_create_mobile_folder path_of id ''t''
       (fst (get_or_create_mobile_folder path_of id ''t'' example_db
          \<lparr>fs_files = [], fs_dirs = [], fs_mtimes = [], fs_faults = []\<rparr> ''/backup'' ''u1'' ''Phone''
          \<lparr>dt_day = 0, dt_us = 0, dt_off = Some 0\<rparr>))
       \<lparr>fs_files = [], fs_dirs = [], fs_mtimes = [], fs_faults = []\<rparr> ''/other'' ''u1'' ''Renamed''
       \<lparr>dt_day = 1, dt_us = 0, dt_off = Some 0\<rparr> =
     (db'', \<lparr>fs_files = [], fs_dirs = [], fs_mtimes = [], fs_faults = []\<rparr>,
      Inr \<lparr>mfr_folder_id = 2, mfr_folder_path = p, mfr_reused_existing = True\<rparr>)"
proof -
  let ?fs = "\<lparr>fs_files = [], fs_dirs = [], fs_mtimes = [], fs_faults = []\<rparr>"
  let ?t = "\<lparr>dt_day = 0, dt_us = 0, dt_off = Some 0\<rparr>"
  let ?run = "get_or_create_mobile_folder path_of id ''t'' example_db ?fs ''/backup'' ''u1'' ''Phone'' ?t"
  have ok: "mobile_ok example_db"
    by (simp add: mobile_ok_def mobile_keys_ok_def sessions_bound_def example_db_def)
  have res: "snd (snd ?run) = Inr \<lparr>mfr_folder_id = 2, mfr_folder_path = ''/backup/Phone'', mfr_reused_existing = False\<rparr>"
    by code_simp
  then have "?run = (fst ?run, fst (snd ?run),
      Inr \<lparr>mfr_folder_id = 2, mfr_folder_path = ''/backup/Phone'', mfr_reused_existing = False\<rparr>)"
    by (metis prod.collapse)
  from mobile_folder_is_stable [OF ok this] show ?thesis by simp
qed

section \<open>The tables stay consistent\<close>

text \<open>
  One write of the mobile tables.  A session is inserted for a phone and the folder that it is
  bound to, and a binding is repaired from the phone that holds it: so the pairing service calls
  the two operations.
\<close>

inductive mobile_step :: "app_db \<Rightarrow> app_db \<Rightarrow> bool" where
  device: "mobile_step db (upsert_mobile_device db u p n k t)"
| folder: "get_or_create_mobile_folder expand resolve stamp db fs parent u n t = (db', fs', Inr rec)
    \<Longrightarrow> mobile_step db db'"
| session: "(i, u) \<in> set (map mf_pair (db_mobile_folders db))
    \<Longrightarrow> insert_mobile_backup_session db s u i st t1 t2 n = Inr db' \<Longrightarrow> mobile_step db db'"
| state: "mobile_step db (update_mobile_transfer_state db s u st f t e a b c)"
| count: "mobile_step db (increment_mobile_backup_session_transferred_count db s u d)"
| asset: "mobile_step db (upsert_mobile_asset_record db u i v h n c p t)"
| repair: "(i, prev) \<in> set (map mf_pair (db_mobile_folders db))
    \<Longrightarrow> repair_mobile_folder_device_binding db i path prev repl t = (db', Inr rec) \<Longrightarrow> mobile_step db db'"
| remove: "mobile_step db (delete_folders db ps)"

lemma mobile_step_ok: "mobile_step db db' \<Longrightarrow> mobile_ok db \<Longrightarrow> mobile_ok db'"
proof (induction rule: mobile_step.induct)
  case (folder expand resolve stamp db fs parent u n t db' fs' rec)
  then show ?case using get_or_create_bound by blast
qed (blast intro: upsert_device_ok insert_session_ok update_transfer_state_ok increment_ok
       upsert_asset_ok repair_ok delete_folders_ok)+



end
