(* ===== verification/AssetUploadStream.thy ===== *)
theory AssetUploadStream
  imports PyFiles
begin

text \<open>
  \<^verbatim>\<open>dt_image_search/mobile/transport/asset_upload_stream.py\<close> with the payload record of
  \<^verbatim>\<open>contracts.py\<close>: assets arrive as a start message, binary chunks and a completion, several
  uploads at a time, each staged in a temporary file.

  The name that \<^verbatim>\<open>NamedTemporaryFile\<close> picks is an argument of \<open>upload_start\<close>; that it is
  new is a hypothesis of the step relation.  A write reaches the file or raises; the running digest
  is kept as the bytes fed to it, \<open>sha1\<close> is the digest function.  Flushing and closing a file
  handle change nothing and may raise.
\<close>

section \<open>Payloads and state\<close>

record asset_upload_payload =
  ap_metadata :: payload
  ap_body :: "byte list option"
  ap_content_length :: int
  ap_temp_file_path :: "ppath option"
  ap_content_sha1 :: "string option"
  ap_trust_key_b64 :: "string option"

record pending_upload =
  pu_request_id :: string
  pu_metadata :: payload
  pu_path :: ppath
  pu_hashed :: "byte list"
  pu_trust_key_b64 :: "string option"
  pu_content_length :: nat

record upload_stream =
  us_pending :: "(string, pending_upload) dict"
  us_active :: "string option"

definition TRANSFER_ASSET_STREAM_CHUNK_SIZE_BYTES :: nat where
  "TRANSFER_ASSET_STREAM_CHUNK_SIZE_BYTES = 100 * 1024 * 1024"

definition upload_stream_init :: upload_stream where
  "upload_stream_init = \<lparr>us_pending = [], us_active = None\<rparr>"

section \<open>One pending upload\<close>

definition fs_sync :: "pyfs \<Rightarrow> pyfs \<times> (os_error + unit)" where
  "fs_sync = fs_call (\<lambda>fs. (fs, Inr ()))"

definition pending_append_chunk ::
    "pending_upload \<Rightarrow> byte list \<Rightarrow> pyfs \<Rightarrow> pyfs \<times> (os_error + pending_upload)" where
  "pending_append_chunk p chunk fs =
     fs_seq (fs_append (pu_path p) chunk fs) (\<lambda>_ fs.
       (fs, Inr (p\<lparr>pu_hashed := pu_hashed p @ chunk,
                   pu_content_length := pu_content_length p + length chunk\<rparr>)))"

definition pending_to_payload ::
    "(byte list \<Rightarrow> string) \<Rightarrow> pending_upload \<Rightarrow> pyfs \<Rightarrow> pyfs \<times> (os_error + asset_upload_payload)" where
  "pending_to_payload sha1 p fs =
     fs_seq (fs_sync fs) (\<lambda>_ fs. fs_seq (fs_sync fs) (\<lambda>_ fs.
       (fs, Inr \<lparr>ap_metadata = pu_metadata p, ap_body = None,
                 ap_content_length = int (pu_content_length p),
                 ap_temp_file_path = Some (pu_path p),
                 ap_content_sha1 = Some (sha1 (pu_hashed p)),
                 ap_trust_key_b64 = pu_trust_key_b64 p\<rparr>)))"

text \<open>
  The \<^verbatim>\<open>return\<close> in the \<^verbatim>\<open>finally\<close> block drops the error of closing the handle when
  removing the file fails as well.
\<close>

definition pending_close :: "pending_upload \<Rightarrow> pyfs \<Rightarrow> pyfs \<times> (os_error + unit)" where
  "pending_close p fs =
     (case fs_sync fs of (fs1, closed) \<Rightarrow>
        (case fs_unlink True (pu_path p) fs1 of
           (fs2, Inl e) \<Rightarrow> (fs2, Inr ())
         | (fs2, Inr _) \<Rightarrow> (fs2, closed)))"

fun close_all :: "pending_upload list \<Rightarrow> pyfs \<Rightarrow> pyfs \<times> (os_error + unit)" where
  "close_all [] fs = (fs, Inr ())"
| "close_all (p # ps) fs = fs_seq (pending_close p fs) (\<lambda>_ fs. close_all ps fs)"

section \<open>The stream\<close>

definition has_pending :: "upload_stream \<Rightarrow> bool" where
  "has_pending st \<longleftrightarrow> us_pending st \<noteq> []"

definition active_request_id :: "upload_stream \<Rightarrow> string option" where
  "active_request_id st =
     (if (case us_active st of None \<Rightarrow> False | Some a \<Rightarrow> dict_get (us_pending st) a \<noteq> None)
      then us_active st
      else case us_pending st of [(k, p)] \<Rightarrow> Some k | _ \<Rightarrow> None)"

definition upload_clear :: "upload_stream \<Rightarrow> pyfs \<Rightarrow> upload_stream \<times> pyfs \<times> (os_error + unit)" where
  "upload_clear st fs =
     (\<lparr>us_pending = [], us_active = None\<rparr>, close_all (map snd (us_pending st)) fs)"

definition upload_start ::
    "ppath \<Rightarrow> string \<Rightarrow> payload \<Rightarrow> string option \<Rightarrow> bool \<Rightarrow> upload_stream \<Rightarrow> pyfs
     \<Rightarrow> upload_stream \<times> pyfs \<times> (os_error + unit)" where
  "upload_start temp_path request_id metadata_payload encryption_trust_key_b64 exclusive st fs =
     (case fs_create temp_path fs of
        (fs1, Inl e) \<Rightarrow> (st, fs1, Inl e)
      | (fs1, Inr _) \<Rightarrow>
          let pending = \<lparr>pu_request_id = request_id, pu_metadata = metadata_payload, pu_path = temp_path,
                pu_hashed = [], pu_trust_key_b64 = encryption_trust_key_b64, pu_content_length = 0\<rparr>
          in case (if exclusive then upload_clear st fs1 else (st, fs1, Inr ())) of
               (st1, fs2, Inl e) \<Rightarrow> (st1, fs2, Inl e)
             | (st1, fs2, Inr _) \<Rightarrow>
                 let st2 = st1\<lparr>us_pending := dict_del (us_pending st1) request_id\<rparr>
                 in case (case dict_get (us_pending st1) request_id of
                            None \<Rightarrow> (fs2, Inr ()) | Some old \<Rightarrow> pending_close old fs2) of
                      (fs3, Inl e) \<Rightarrow> (st2, fs3, Inl e)
                    | (fs3, Inr _) \<Rightarrow>
                        (\<lparr>us_pending = dict_set (us_pending st2) request_id pending,
                          us_active = Some request_id\<rparr>, fs3, Inr ()))"

definition CHUNK_TOO_LARGE :: string where
  "CHUNK_TOO_LARGE = ''Desktop rejected transfer asset stream chunk because the binary payload exceeded ''
     @ ''104857600 bytes.''"
definition CHUNK_WRONG_REQUEST :: string where
  "CHUNK_WRONG_REQUEST = ''Desktop rejected transfer asset stream chunk because request ids do not match the ''
     @ ''active binary stream.''"
definition CHUNK_NO_METADATA :: string where
  "CHUNK_NO_METADATA = ''Desktop ignored transfer asset stream chunk because metadata was not received first.''"
definition COMPLETE_WRONG_REQUEST :: string where
  "COMPLETE_WRONG_REQUEST = ''Desktop rejected transfer asset completion because request ids do not match the ''
     @ ''active binary stream.''"
definition COMPLETE_NO_METADATA :: string where
  "COMPLETE_NO_METADATA = ''Desktop did not receive transfer asset stream metadata before completion.''"

text \<open>The result is the error text that the code returns, \<open>None\<close> when it accepts the chunk.\<close>

definition upload_append_chunk ::
    "byte list \<Rightarrow> string option \<Rightarrow> upload_stream \<Rightarrow> pyfs
     \<Rightarrow> upload_stream \<times> pyfs \<times> (os_error + string option)" where
  "upload_append_chunk chunk request_id st fs =
     (if chunk = [] then (st, fs, Inr None)
      else if TRANSFER_ASSET_STREAM_CHUNK_SIZE_BYTES < length chunk then (st, fs, Inr (Some CHUNK_TOO_LARGE))
      else
        let missing = (if us_pending st \<noteq> [] then CHUNK_WRONG_REQUEST else CHUNK_NO_METADATA)
        in case (case request_id of None \<Rightarrow> active_request_id st | Some r \<Rightarrow> Some r) of
             None \<Rightarrow> (st, fs, Inr (Some missing))
           | Some r \<Rightarrow>
               (case dict_get (us_pending st) r of
                  None \<Rightarrow> (st, fs, Inr (Some missing))
                | Some p \<Rightarrow>
                    (case pending_append_chunk p chunk fs of
                       (fs1, Inl e) \<Rightarrow> (st, fs1, Inl e)
                     | (fs1, Inr p') \<Rightarrow>
                         (\<lparr>us_pending = dict_set (us_pending st) r p',
                           us_active = Some (pu_request_id p)\<rparr>, fs1, Inr None))))"

definition upload_complete ::
    "(byte list \<Rightarrow> string) \<Rightarrow> string \<Rightarrow> upload_stream \<Rightarrow> pyfs
     \<Rightarrow> upload_stream \<times> pyfs \<times> (os_error + (string + asset_upload_payload))" where
  "upload_complete sha1 request_id st fs =
     (case dict_get (us_pending st) request_id of
        None \<Rightarrow> (st, fs, Inr (Inl (if us_pending st \<noteq> [] then COMPLETE_WRONG_REQUEST
                                     else COMPLETE_NO_METADATA)))
      | Some p \<Rightarrow>
          let st' = \<lparr>us_pending = dict_del (us_pending st) request_id,
                     us_active = (if us_active st = Some request_id then None else us_active st)\<rparr>
          in case pending_to_payload sha1 p fs of
               (fs1, Inl e) \<Rightarrow> (st', fs1, Inl e)
             | (fs1, Inr payload) \<Rightarrow> (st', fs1, Inr (Inr payload)))"

definition resolved_upload :: "upload_stream \<Rightarrow> string option \<Rightarrow> pending_upload option" where
  "resolved_upload st request_id =
     Option.bind (case request_id of None \<Rightarrow> active_request_id st | Some r \<Rightarrow> Some r) (dict_get (us_pending st))"

definition upload_encryption_trust_key :: "upload_stream \<Rightarrow> string option \<Rightarrow> string option" where
  "upload_encryption_trust_key st request_id = Option.bind (resolved_upload st request_id) pu_trust_key_b64"

definition upload_metadata_payload :: "upload_stream \<Rightarrow> string option \<Rightarrow> payload option" where
  "upload_metadata_payload st request_id = map_option pu_metadata (resolved_upload st request_id)"

definition upload_discard ::
    "string \<Rightarrow> upload_stream \<Rightarrow> pyfs \<Rightarrow> upload_stream \<times> pyfs \<times> (os_error + payload option)" where
  "upload_discard request_id st fs =
     (case dict_get (us_pending st) request_id of
        None \<Rightarrow> (st, fs, Inr None)
      | Some p \<Rightarrow>
          (\<lparr>us_pending = dict_del (us_pending st) request_id,
            us_active = (if us_active st = Some request_id then None else us_active st)\<rparr>,
           fs_seq (pending_close p fs) (\<lambda>_ fs. (fs, Inr (Some (pu_metadata p))))))"

section \<open>Staged files and digests agree\<close>

text \<open>
  Every pending upload has its own temporary file, which holds exactly the bytes that were fed to
  its digest and counted.
\<close>

definition stream_ok :: "upload_stream \<Rightarrow> pyfs \<Rightarrow> bool" where
  "stream_ok st fs \<longleftrightarrow>
     (\<forall>k p. dict_get (us_pending st) k = Some p \<longrightarrow>
        pu_request_id p = k \<and> fs_read fs (pu_path p) = Some (pu_hashed p) \<and>
        pu_content_length p = length (pu_hashed p)) \<and>
     (\<forall>k p j q. dict_get (us_pending st) k = Some p \<longrightarrow> dict_get (us_pending st) j = Some q \<longrightarrow>
        pu_path p = pu_path q \<longrightarrow> k = j) \<and> dict_ok (us_pending st)"

lemma fs_sync_files [simp]: "fs_read (fst (fs_sync fs)) q = fs_read fs q"
  by (simp add: fs_sync_def fs_read_def fs_call_files)

lemma pending_close_other: "q \<noteq> pu_path p \<Longrightarrow> fs_read (fst (pending_close p fs)) q = fs_read fs q"
proof -
  assume ne: "q \<noteq> pu_path p"
  obtain fs1 r where sync: "fs_sync fs = (fs1, r)" by (cases "fs_sync fs")
  obtain fs2 r2 where rem: "fs_unlink True (pu_path p) fs1 = (fs2, r2)"
    by (cases "fs_unlink True (pu_path p) fs1")
  have "fs_read fs2 q = fs_read fs1 q"
    using fs_unlink_other [OF ne, of True fs1] rem by (simp add: fs_read_def)
  moreover have "fs_read fs1 q = fs_read fs q" using fs_sync_files [of fs q] sync by simp
  ultimately show ?thesis by (cases r2) (simp_all add: pending_close_def sync rem)
qed

lemma close_all_other:
  "q \<notin> pu_path ` set ps \<Longrightarrow> fs_read (fst (close_all ps fs)) q = fs_read fs q"
proof (induction ps arbitrary: fs)
  case (Cons p ps)
  obtain fs1 r where close: "pending_close p fs = (fs1, r)" by (cases "pending_close p fs")
  with Cons pending_close_other [of q p fs] show ?case by (cases r) auto
qed simp

lemma stream_ok_frame:
  assumes "stream_ok st fs"
    and "\<And>k p. dict_get (us_pending st) k = Some p \<Longrightarrow> fs_read fs' (pu_path p) = fs_read fs (pu_path p)"
  shows "stream_ok st fs'"
proof -
  have "fs_read fs' (pu_path p) = Some (pu_hashed p)" if "dict_get (us_pending st) k = Some p" for k p
    using assms(1) assms(2) [OF that] that by (simp add: stream_ok_def)
  moreover note assms(1)
  ultimately show ?thesis by (simp add: stream_ok_def)
qed

lemma stream_ok_del:
  "stream_ok st fs \<Longrightarrow> stream_ok \<lparr>us_pending = dict_del (us_pending st) r, us_active = a\<rparr> fs"
  by (auto simp: stream_ok_def dict_simps split: if_splits)

lemma stream_ok_del_close:
  assumes "stream_ok st fs" and "dict_get (us_pending st) r = Some p"
  shows "stream_ok \<lparr>us_pending = dict_del (us_pending st) r, us_active = a\<rparr> (fst (pending_close p fs))"
proof (rule stream_ok_frame [OF stream_ok_del [OF assms(1)]])
  fix k q
  assume "dict_get (us_pending \<lparr>us_pending = dict_del (us_pending st) r, us_active = a\<rparr>) k = Some q"
  then have "k \<noteq> r" "dict_get (us_pending st) k = Some q" by (simp_all add: dict_simps split: if_splits)
  with assms have "pu_path q \<noteq> pu_path p" unfolding stream_ok_def by metis
  then show "fs_read (fst (pending_close p fs)) (pu_path q) = fs_read fs (pu_path q)"
    by (rule pending_close_other)
qed

lemma stream_ok_put:
  assumes "stream_ok st fs" and "fs_read fs (pu_path p) = Some (pu_hashed p)" and "pu_request_id p = r"
    and "pu_content_length p = length (pu_hashed p)"
    and "\<And>k q. dict_get (us_pending st) k = Some q \<Longrightarrow> k \<noteq> r \<Longrightarrow> pu_path q \<noteq> pu_path p"
  shows "stream_ok \<lparr>us_pending = dict_set (us_pending st) r p, us_active = a\<rparr> fs"
  using assms unfolding stream_ok_def by (simp add: dict_simps) metis

lemma upload_clear_ok: "stream_ok (fst (upload_clear st fs)) fs'"
  by (simp add: upload_clear_def stream_ok_def dict_get_def dict_ok_def)

lemma append_chunk_ok:
  assumes "stream_ok st fs"
  shows "case upload_append_chunk chunk r st fs of (st', fs', _) \<Rightarrow> stream_ok st' fs'"
proof (cases "case r of None \<Rightarrow> active_request_id st | Some r \<Rightarrow> Some r")
  case None
  with assms show ?thesis by (simp add: upload_append_chunk_def Let_def)
next
  case (Some k)
  show ?thesis
  proof (cases "dict_get (us_pending st) k")
    case None
    with Some assms show ?thesis by (simp add: upload_append_chunk_def Let_def)
  next
    case (Some p)
    note found = Some \<open>(case r of None \<Rightarrow> active_request_id st | Some r \<Rightarrow> Some r) = Some k\<close>
    have p: "fs_read fs (pu_path p) = Some (pu_hashed p)" "pu_request_id p = k"
      "pu_content_length p = length (pu_hashed p)"
      using assms Some by (auto simp: stream_ok_def)
    obtain fs1 w where wr: "fs_append (pu_path p) chunk fs = (fs1, w)" by (cases "fs_append (pu_path p) chunk fs")
    have other: "pu_path q \<noteq> pu_path p \<Longrightarrow> fs_read fs1 (pu_path q) = fs_read fs (pu_path q)" for q :: pending_upload
      using fs_append_other [of "pu_path q" "pu_path p" chunk fs] wr by (simp add: fs_read_def)
    have apart: "dict_get (us_pending st) j = Some q \<Longrightarrow> j \<noteq> k \<Longrightarrow> pu_path q \<noteq> pu_path p" for j q
      using assms Some unfolding stream_ok_def by metis
    show ?thesis
    proof (cases w)
      case (Inl e)
      then have "fs_read fs1 (pu_path p) = fs_read fs (pu_path p)"
        using wr by (auto simp: fs_append_def fs_call_def fs_read_def split: list.splits option.splits)
      then have "stream_ok st fs1"
        using assms other by (intro stream_ok_frame [OF assms]) metis
      with Inl found wr assms show ?thesis
        by (simp add: upload_append_chunk_def pending_append_chunk_def Let_def)
    next
      case (Inr x)
      then have new: "fs_read fs1 (pu_path p) = Some (pu_hashed p @ chunk)"
        using wr p fs_append_Inr [of "pu_path p" chunk fs fs1] by simp
      let ?p = "p\<lparr>pu_hashed := pu_hashed p @ chunk, pu_content_length := pu_content_length p + length chunk\<rparr>"
      have "stream_ok \<lparr>us_pending = dict_set (us_pending st) k ?p, us_active = Some (pu_request_id p)\<rparr> fs1"
        using assms new p apart other unfolding stream_ok_def by (simp add: dict_simps) metis
      with Inr found wr assms p show ?thesis
        by (simp add: upload_append_chunk_def pending_append_chunk_def Let_def)
    qed
  qed
qed

lemma upload_start_ok:
  assumes "stream_ok st fs" and "fs_read fs tmp = None"
  shows "case upload_start tmp r m key ex st fs of (st', fs', _) \<Rightarrow> stream_ok st' fs'"
proof -
  obtain fs1 c where create: "fs_create tmp fs = (fs1, c)" by (cases "fs_create tmp fs")
  have fresh: "pu_path q \<noteq> tmp" if "dict_get (us_pending st) k = Some q" for k q
    using assms that by (auto simp: stream_ok_def)
  have keep: "fs_read fs1 (pu_path q) = fs_read fs (pu_path q)" if "dict_get (us_pending st) k = Some q" for k q
    using fs_create_other [of "pu_path q" tmp fs] fresh [OF that] create by (simp add: fs_read_def)
  have ok1: "stream_ok st fs1" using keep by (intro stream_ok_frame [OF assms(1)])
  show ?thesis
  proof (cases c)
    case (Inl e)
    with create ok1 show ?thesis by (simp add: upload_start_def)
  next
    case (Inr u)
    then have empty: "fs_read fs1 tmp = Some []" using create fs_create_Inr [of tmp fs fs1] by simp
    let ?new = "\<lparr>pu_request_id = r, pu_metadata = m, pu_path = tmp, pu_hashed = [],
      pu_trust_key_b64 = key, pu_content_length = 0\<rparr>"
    obtain st1 fs2 w where cl: "(if ex then upload_clear st fs1 else (st, fs1, Inr ())) = (st1, fs2, w)"
      by (metis prod_cases3)
    have ok2: "stream_ok st1 fs2"
      using cl ok1 by (auto simp: upload_clear_def stream_ok_def dict_get_def dict_ok_def split: if_splits)
    have fresh1: "pu_path q \<noteq> tmp" if "dict_get (us_pending st1) k = Some q" for k q
      using that cl fresh by (auto simp: upload_clear_def dict_get_def split: if_splits)
    have "tmp \<notin> pu_path ` set (map snd (us_pending st))"
    proof -
      have "dict_ok (us_pending st)" using assms(1) by (simp add: stream_ok_def)
      then show ?thesis using fresh by (force simp: dict_get_Some_iff)
    qed
    then have empty2: "fs_read fs2 tmp = Some []"
      using cl empty close_all_other [of tmp "map snd (us_pending st)" fs1]
      by (auto simp: upload_clear_def split: if_splits)
    have finish: "stream_ok \<lparr>us_pending = dict_set (dict_del (us_pending st1) r) r ?new, us_active = Some r\<rparr> fs3"
      if "stream_ok \<lparr>us_pending = dict_del (us_pending st1) r, us_active = us_active st1\<rparr> fs3"
        and "fs_read fs3 tmp = Some []" for fs3
      using stream_ok_put [OF that(1), of ?new r "Some r"] that(2) fresh1
      by (force simp: dict_simps)
    show ?thesis
    proof (cases "dict_get (us_pending st1) r")
      case None
      then have "stream_ok \<lparr>us_pending = dict_del (us_pending st1) r, us_active = us_active st1\<rparr> fs2"
        using ok2 by (intro stream_ok_del)
      with finish [of fs2] None create Inr cl ok2 empty2 show ?thesis
        by (cases w) (simp_all add: upload_start_def Let_def)
    next
      case (Some old)
      obtain fs3 x where close: "pending_close old fs2 = (fs3, x)" by (cases "pending_close old fs2")
      have "fs_read fs3 tmp = Some []"
        using pending_close_other [of tmp old fs2] fresh1 [OF Some] close empty2 by auto
      moreover have gone: "stream_ok \<lparr>us_pending = dict_del (us_pending st1) r, us_active = us_active st1\<rparr> fs3"
        using stream_ok_del_close [OF ok2 Some] close by (metis fst_conv)
      then have "stream_ok (st1\<lparr>us_pending := dict_del (us_pending st1) r\<rparr>) fs3"
        by (cases st1) simp
      moreover note gone
      ultimately show ?thesis
        using finish [of fs3] Some create Inr cl ok2 close
        by (cases w; cases x) (simp_all add: upload_start_def Let_def)
    qed
  qed
qed

lemma to_payload_files: "fs_read (fst (pending_to_payload sha1 p fs)) q = fs_read fs q"
proof -
  obtain fs1 a where s1: "fs_sync fs = (fs1, a)" by (cases "fs_sync fs")
  obtain fs2 b where s2: "fs_sync fs1 = (fs2, b)" by (cases "fs_sync fs1")
  show ?thesis
    using fs_sync_files [of fs q] fs_sync_files [of fs1 q] s1 s2
    by (cases a; cases b) (simp_all add: pending_to_payload_def)
qed

lemma upload_complete_ok:
  assumes "stream_ok st fs"
  shows "case upload_complete sha1 r st fs of (st', fs', _) \<Rightarrow> stream_ok st' fs'"
proof (cases "dict_get (us_pending st) r")
  case (Some p)
  obtain fs1 x where pay: "pending_to_payload sha1 p fs = (fs1, x)" by (cases "pending_to_payload sha1 p fs")
  have "stream_ok st fs1"
    using to_payload_files [of sha1 p fs] pay by (intro stream_ok_frame [OF assms]) simp
  with Some pay show ?thesis by (cases x) (simp_all add: upload_complete_def Let_def stream_ok_del)
qed (use assms in \<open>simp add: upload_complete_def\<close>)

lemma upload_discard_ok:
  assumes "stream_ok st fs"
  shows "case upload_discard r st fs of (st', fs', _) \<Rightarrow> stream_ok st' fs'"
proof (cases "dict_get (us_pending st) r")
  case (Some p)
  obtain fs1 x where "pending_close p fs = (fs1, x)" by (cases "pending_close p fs")
  with Some stream_ok_del_close [OF assms Some] show ?thesis
    by (cases x) (simp_all add: upload_discard_def)
qed (use assms in \<open>simp add: upload_discard_def\<close>)

text \<open>
  One step of the stream on its state and the file system, with whatever error the file system
  raises.  Between steps the rest of the program may change every file but the staged ones.
\<close>

inductive stream_step :: "upload_stream \<times> pyfs \<Rightarrow> upload_stream \<times> pyfs \<Rightarrow> bool" where
  start: "fs_read fs tmp = None \<Longrightarrow> upload_start tmp r m key ex st fs = (st', fs', res)
    \<Longrightarrow> stream_step (st, fs) (st', fs')"
| append: "upload_append_chunk chunk i st fs = (st', fs', res) \<Longrightarrow> stream_step (st, fs) (st', fs')"
| complete: "upload_complete sha1 r st fs = (st', fs', res) \<Longrightarrow> stream_step (st, fs) (st', fs')"
| discard: "upload_discard r st fs = (st', fs', res) \<Longrightarrow> stream_step (st, fs) (st', fs')"
| clear: "upload_clear st fs = (st', fs', res) \<Longrightarrow> stream_step (st, fs) (st', fs')"
| other: "(\<And>k p. dict_get (us_pending st) k = Some p \<Longrightarrow> fs_read fs' (pu_path p) = fs_read fs (pu_path p))
    \<Longrightarrow> stream_step (st, fs) (st, fs')"

inductive_cases stream_stepE: "stream_step (st, fs) (st', fs')"

lemma stream_step_ok: "stream_step (st, fs) (st', fs') \<Longrightarrow> stream_ok st fs \<Longrightarrow> stream_ok st' fs'"
proof (erule stream_stepE)
  fix tmp r m key ex res
  assume "stream_ok st fs" "fs_read fs tmp = None" "upload_start tmp r m key ex st fs = (st', fs', res)"
  with upload_start_ok [of st fs tmp r m key ex] show "stream_ok st' fs'" by simp
next
  fix chunk i res
  assume "stream_ok st fs" "upload_append_chunk chunk i st fs = (st', fs', res)"
  with append_chunk_ok [of st fs chunk i] show "stream_ok st' fs'" by simp
next
  fix sha1 r res
  assume "stream_ok st fs" "upload_complete sha1 r st fs = (st', fs', res)"
  with upload_complete_ok [of st fs sha1 r] show "stream_ok st' fs'" by simp
next
  fix r res
  assume "stream_ok st fs" "upload_discard r st fs = (st', fs', res)"
  with upload_discard_ok [of st fs r] show "stream_ok st' fs'" by simp
next
  fix res
  assume "upload_clear st fs = (st', fs', res)"
  with upload_clear_ok [of st fs fs'] show "stream_ok st' fs'" by simp
next
  assume ok: "stream_ok st fs" and "st' = st"
    and "\<And>k p. dict_get (us_pending st) k = Some p \<Longrightarrow> fs_read fs' (pu_path p) = fs_read fs (pu_path p)"
  then show "stream_ok st' fs'" using stream_ok_frame [OF ok] by blast
qed

lemma stream_reachable_ok:
  assumes "stream_step\<^sup>*\<^sup>* (upload_stream_init, fs0) s"
  shows "stream_ok (fst s) (snd s)"
  using assms
proof (induction rule: rtranclp_induct)
  case base
  then show ?case by (simp add: stream_ok_def upload_stream_init_def dict_get_def)
next
  case (step s1 s2)
  then show ?case by (cases s1; cases s2) (auto dest: stream_step_ok)
qed

text \<open>
  Whatever uploads were interleaved before, with whatever write errors, a completed upload
  hands over a staged file whose bytes are exactly those that the declared length counts and the
  declared SHA-1 digests.
\<close>
theorem completed_upload_describes_file:
  assumes "stream_step\<^sup>*\<^sup>* (upload_stream_init, fs0) (st, fs)"
    and "upload_complete sha1 r st fs = (st', fs', Inr (Inr payload))"
  shows "\<exists>path bytes. ap_temp_file_path payload = Some path \<and> fs_read fs' path = Some bytes \<and>
    ap_content_length payload = int (length bytes) \<and> ap_content_sha1 payload = Some (sha1 bytes)"
proof -
  have ok: "stream_ok st fs" using stream_reachable_ok [OF assms(1)] by simp
  from assms(2) obtain p where p: "dict_get (us_pending st) r = Some p"
      and pay: "pending_to_payload sha1 p fs = (fs', Inr payload)"
    by (auto simp: upload_complete_def Let_def split: option.splits prod.splits sum.splits)
  have "fs_read fs (pu_path p) = Some (pu_hashed p)" "pu_content_length p = length (pu_hashed p)"
    using ok p by (auto simp: stream_ok_def)
  moreover have "fs_read fs' (pu_path p) = fs_read fs (pu_path p)"
    using to_payload_files [of sha1 p fs] pay by simp
  moreover have "payload = \<lparr>ap_metadata = pu_metadata p, ap_body = None,
      ap_content_length = int (pu_content_length p), ap_temp_file_path = Some (pu_path p),
      ap_content_sha1 = Some (sha1 (pu_hashed p)), ap_trust_key_b64 = pu_trust_key_b64 p\<rparr>"
    using pay by (auto simp: pending_to_payload_def fs_seq_def split: prod.splits sum.splits)
  ultimately show ?thesis by auto
qed

lemma append_chunk_accepts:
  assumes "fs_faults fs = []" and "dict_get (us_pending st) r = Some p"
    and "length c \<le> TRANSFER_ASSET_STREAM_CHUNK_SIZE_BYTES"
  shows "\<exists>st' fs'. upload_append_chunk c (Some r) st fs = (st', fs', Inr None) \<and> fs_faults fs' = [] \<and>
    (\<forall>k. dict_get (us_pending st') k =
       (if k = r then Some (p\<lparr>pu_hashed := pu_hashed p @ c,
                             pu_content_length := pu_content_length p + length c\<rparr>)
        else dict_get (us_pending st) k))"
  using assms
  by (cases "c = []")
    (auto simp: upload_append_chunk_def pending_append_chunk_def fs_append_def fs_call_def dict_simps Let_def)

fun append_chunks :: "(string \<times> byte list) list \<Rightarrow> upload_stream \<Rightarrow> pyfs \<Rightarrow> upload_stream \<times> pyfs" where
  "append_chunks [] st fs = (st, fs)"
| "append_chunks ((r, c) # rest) st fs =
     (case upload_append_chunk c (Some r) st fs of (st', fs', _) \<Rightarrow> append_chunks rest st' fs')"

lemma append_chunks_content:
  assumes "fs_faults fs = []" and "dict_get (us_pending st) i = Some p"
    and "\<forall>(r, c)\<in>set cs. dict_get (us_pending st) r \<noteq> None \<and> length c \<le> TRANSFER_ASSET_STREAM_CHUNK_SIZE_BYTES"
  shows "\<exists>st' fs' p'. append_chunks cs st fs = (st', fs') \<and> fs_faults fs' = [] \<and>
    dict_get (us_pending st') i = Some p' \<and> pu_metadata p' = pu_metadata p \<and>
    pu_hashed p' = pu_hashed p @ concat (map snd (filter (\<lambda>x. fst x = i) cs))"
  using assms
proof (induction cs arbitrary: st fs p)
  case (Cons rc cs)
  obtain r c where rc: "rc = (r, c)" by (cases rc)
  obtain q where q: "dict_get (us_pending st) r = Some q" using Cons.prems(3) rc by auto
  have len: "length c \<le> TRANSFER_ASSET_STREAM_CHUNK_SIZE_BYTES" using Cons.prems(3) rc by auto
  obtain st1 fs1 where one: "upload_append_chunk c (Some r) st fs = (st1, fs1, Inr None)" "fs_faults fs1 = []"
    "\<And>k. dict_get (us_pending st1) k = (if k = r then Some (q\<lparr>pu_hashed := pu_hashed q @ c,
       pu_content_length := pu_content_length q + length c\<rparr>) else dict_get (us_pending st) k)"
    using append_chunk_accepts [OF Cons.prems(1) q len] by blast
  obtain p1 where p1: "dict_get (us_pending st1) i = Some p1" "pu_metadata p1 = pu_metadata p"
      "pu_hashed p1 = pu_hashed p @ (if r = i then c else [])"
    using one(3) [of i] Cons.prems(2) q by (cases "i = r") auto
  have "\<forall>(r, c)\<in>set cs. dict_get (us_pending st1) r \<noteq> None \<and> length c \<le> TRANSFER_ASSET_STREAM_CHUNK_SIZE_BYTES"
    using Cons.prems(3) one(3) by auto
  from Cons.IH [OF one(2) p1(1) this] p1 one(1) show ?case
    by (cases "r = i") (auto simp: rc)
qed simp

text \<open>
  Chunks of several uploads may be interleaved in any order: on a file system that takes the
  writes each upload completes, and the digest and the length it reports are those of its own
  chunks, concatenated in order.
\<close>
theorem interleaved_chunks_complete:
  assumes "stream_ok st fs" and "fs_faults fs = []" and "dict_get (us_pending st) i = Some p"
    and "pu_hashed p = []"
    and "\<forall>(r, c)\<in>set cs. dict_get (us_pending st) r \<noteq> None \<and> length c \<le> TRANSFER_ASSET_STREAM_CHUNK_SIZE_BYTES"
    and "append_chunks cs st fs = (st1, fs1)"
  shows "\<exists>st' fs' payload. upload_complete sha1 i st1 fs1 = (st', fs', Inr (Inr payload)) \<and>
    ap_metadata payload = pu_metadata p \<and>
    ap_content_sha1 payload = Some (sha1 (concat (map snd (filter (\<lambda>x. fst x = i) cs)))) \<and>
    dict_get (us_pending st') i = None"
proof -
  obtain p' where p': "fs_faults fs1 = []" "dict_get (us_pending st1) i = Some p'"
      "pu_metadata p' = pu_metadata p" "pu_hashed p' = concat (map snd (filter (\<lambda>x. fst x = i) cs))"
    using append_chunks_content [OF assms(2,3,5)] assms(4,6) by auto
  then show ?thesis
    by (simp add: upload_complete_def pending_to_payload_def fs_sync_def fs_call_def Let_def dict_simps)
qed

definition two_uploads :: "upload_stream \<times> pyfs" where
  "two_uploads =
     (let fs0 = \<lparr>fs_files = [], fs_dirs = [(''/'', [''tmp''])], fs_mtimes = [], fs_faults = []\<rparr>;
          (st1, fs1, _) = upload_start (''/'', [''tmp'', ''a'']) ''r1'' [] None False upload_stream_init fs0;
          (st2, fs2, _) = upload_start (''/'', [''tmp'', ''b'']) ''r2'' [] None False st1 fs1
      in (st2, fs2))"

lemma two_uploads_eq:
  "two_uploads = (\<lparr>us_pending =
      [(''r1'', \<lparr>pu_request_id = ''r1'', pu_metadata = [], pu_path = (''/'', [''tmp'', ''a'']), pu_hashed = [],
                pu_trust_key_b64 = None, pu_content_length = 0\<rparr>),
       (''r2'', \<lparr>pu_request_id = ''r2'', pu_metadata = [], pu_path = (''/'', [''tmp'', ''b'']), pu_hashed = [],
                pu_trust_key_b64 = None, pu_content_length = 0\<rparr>)], us_active = Some ''r2''\<rparr>,
    \<lparr>fs_files = [((''/'', [''tmp'', ''a'']), []), ((''/'', [''tmp'', ''b'']), [])],
     fs_dirs = [(''/'', [''tmp''])], fs_mtimes = [], fs_faults = []\<rparr>)"
  by (simp add: two_uploads_def upload_start_def upload_stream_init_def fs_create_def fs_call_def
      path_parent_def dict_get_def dict_del_def)

lemma interleaved_chunks_complete_witness:
  "\<exists>st' fs' payload.
     upload_complete (map (char_of \<circ> unat)) ''r1'' (fst (append_chunks [(''r1'', [1]), (''r2'', [7]), (''r1'', [2])]
        (fst two_uploads) (snd two_uploads)))
       (snd (append_chunks [(''r1'', [1]), (''r2'', [7]), (''r1'', [2])] (fst two_uploads) (snd two_uploads)))
       = (st', fs', Inr (Inr payload)) \<and> ap_content_sha1 payload = Some (map (char_of \<circ> unat) [1, 2 :: byte])"
proof -
  let ?cs = "[(''r1'', [1 :: byte]), (''r2'', [7]), (''r1'', [2])]"
  have "stream_ok (fst two_uploads) (snd two_uploads)"
    by (auto simp: stream_ok_def two_uploads_eq dict_get_def dict_ok_def fs_read_def)
  moreover have "fs_faults (snd two_uploads) = []"
    "dict_get (us_pending (fst two_uploads)) ''r1'' = Some (snd (hd (us_pending (fst two_uploads))))"
    "pu_hashed (snd (hd (us_pending (fst two_uploads)))) = []"
    "\<forall>(r, c)\<in>set ?cs. dict_get (us_pending (fst two_uploads)) r \<noteq> None \<and>
       length c \<le> TRANSFER_ASSET_STREAM_CHUNK_SIZE_BYTES"
    by (simp_all add: two_uploads_eq dict_get_def TRANSFER_ASSET_STREAM_CHUNK_SIZE_BYTES_def)
  moreover have "append_chunks ?cs (fst two_uploads) (snd two_uploads) =
     (fst (append_chunks ?cs (fst two_uploads) (snd two_uploads)),
      snd (append_chunks ?cs (fst two_uploads) (snd two_uploads)))" by simp
  ultimately have "\<exists>st' fs' payload. upload_complete (map (char_of \<circ> unat)) ''r1''
       (fst (append_chunks ?cs (fst two_uploads) (snd two_uploads)))
       (snd (append_chunks ?cs (fst two_uploads) (snd two_uploads))) = (st', fs', Inr (Inr payload)) \<and>
    ap_metadata payload = pu_metadata (snd (hd (us_pending (fst two_uploads)))) \<and>
    ap_content_sha1 payload = Some (map (char_of \<circ> unat) (concat (map snd (filter (\<lambda>x. fst x = ''r1'') ?cs)))) \<and>
    dict_get (us_pending st') ''r1'' = None"
    by (rule interleaved_chunks_complete)
  then show ?thesis by auto
qed

lemma completed_upload_describes_file_witness:
  "\<exists>path bytes. ap_temp_file_path \<lparr>ap_metadata = [], ap_body = None, ap_content_length = 0,
      ap_temp_file_path = Some (''/'', [''tmp'', ''a'']), ap_content_sha1 = Some [], ap_trust_key_b64 = None\<rparr>
      = Some path \<and> fs_read (snd two_uploads) path = Some bytes \<and> int (length bytes) = 0"
proof -
  let ?fs0 = "\<lparr>fs_files = [], fs_dirs = [(''/'', [''tmp''])], fs_mtimes = [], fs_faults = []\<rparr>"
  let ?s1 = "upload_start (''/'', [''tmp'', ''a'']) ''r1'' [] None False upload_stream_init ?fs0"
  let ?s2 = "upload_start (''/'', [''tmp'', ''b'']) ''r2'' [] None False (fst ?s1) (fst (snd ?s1))"
  have one: "stream_step (upload_stream_init, ?fs0) (fst ?s1, fst (snd ?s1))"
    by (rule stream_step.start [where res = "snd (snd ?s1)" and tmp = "(''/'', [''tmp'', ''a''])" and
          r = "''r1''" and m = "[]" and key = None and ex = False]) (simp_all add: fs_read_def dict_get_def)
  have two: "stream_step (fst ?s1, fst (snd ?s1)) (fst ?s2, fst (snd ?s2))"
    by (rule stream_step.start [where res = "snd (snd ?s2)" and tmp = "(''/'', [''tmp'', ''b''])" and
          r = "''r2''" and m = "[]" and key = None and ex = False])
      (simp_all add: fs_read_def dict_get_def upload_start_def upload_stream_init_def fs_create_def
        fs_call_def path_parent_def dict_del_def)
  from converse_rtranclp_into_rtranclp [of stream_step, OF one r_into_rtranclp [of stream_step, OF two]]
  have reach: "stream_step\<^sup>*\<^sup>* (upload_stream_init, ?fs0) (fst two_uploads, snd two_uploads)"
    by (simp add: two_uploads_def split_def Let_def)
  have run: "upload_complete (map (char_of \<circ> unat)) ''r1'' (fst two_uploads) (snd two_uploads) =
     (\<lparr>us_pending = dict_del (us_pending (fst two_uploads)) ''r1'', us_active = Some ''r2''\<rparr>, snd two_uploads,
      Inr (Inr \<lparr>ap_metadata = [], ap_body = None, ap_content_length = 0,
        ap_temp_file_path = Some (''/'', [''tmp'', ''a'']), ap_content_sha1 = Some [], ap_trust_key_b64 = None\<rparr>))"
    by (simp add: two_uploads_eq upload_complete_def pending_to_payload_def fs_sync_def fs_call_def dict_get_def)
  from completed_upload_describes_file [OF reach run] show ?thesis by auto
qed

text \<open>
  An error while the staged file is flushed loses the upload and its file: the request is no
  longer pending, no payload is returned, and the temporary file stays on the disk with nothing
  that refers to it (a full disk is the usual cause).
\<close>
theorem failed_completion_leaks_file:
  assumes "stream_ok st fs" and "dict_get (us_pending st) r = Some p" and "fs_faults fs = Some e # rest"
  shows "\<exists>st' fs'. upload_complete sha1 r st fs = (st', fs', Inl e) \<and> dict_get (us_pending st') r = None \<and>
    fs_read fs' (pu_path p) = Some (pu_hashed p) \<and>
    (\<forall>k q. dict_get (us_pending st') k = Some q \<longrightarrow> pu_path q \<noteq> pu_path p)"
proof -
  have "fs_read fs (pu_path p) = Some (pu_hashed p)"
    using assms(1,2) by (auto simp: stream_ok_def)
  moreover have "k \<noteq> r \<Longrightarrow> dict_get (us_pending st) k = Some q \<Longrightarrow> pu_path q \<noteq> pu_path p" for k q
    using assms(1,2) unfolding stream_ok_def by metis
  ultimately show ?thesis
    using assms(2,3)
    by (auto simp: upload_complete_def pending_to_payload_def fs_sync_def fs_call_def dict_simps fs_read_def)
qed

lemma failed_completion_leaks_file_witness:
  "\<exists>st' fs'. upload_complete (map (char_of \<circ> unat)) ''r1'' (fst two_uploads)
      ((snd two_uploads)\<lparr>fs_faults := [Some (os_error_of ''No space left on device'' (Some ENOSPC))]\<rparr>) =
    (st', fs', Inl (os_error_of ''No space left on device'' (Some ENOSPC))) \<and>
    fs_read fs' (''/'', [''tmp'', ''a'']) = Some []"
proof -
  let ?e = "os_error_of ''No space left on device'' (Some ENOSPC)"
  let ?fs = "(snd two_uploads)\<lparr>fs_faults := [Some ?e]\<rparr>"
  have "stream_ok (fst two_uploads) ?fs"
    by (auto simp: stream_ok_def two_uploads_eq dict_get_def dict_ok_def fs_read_def)
  moreover have "dict_get (us_pending (fst two_uploads)) ''r1'' = Some (snd (hd (us_pending (fst two_uploads))))"
    "fs_faults ?fs = [Some ?e]" "pu_path (snd (hd (us_pending (fst two_uploads)))) = (''/'', [''tmp'', ''a''])"
    "pu_hashed (snd (hd (us_pending (fst two_uploads)))) = []"
    by (simp_all add: two_uploads_eq dict_get_def)
  ultimately show ?thesis
    using failed_completion_leaks_file [of "fst two_uploads" ?fs "''r1''" _ ?e "[]" "map (char_of \<circ> unat)"] by force
qed

end
