(* ===== verification/TransferRequests.thy ===== *)
theory TransferRequests
  imports PyTime
begin

text \<open>
  The requests of \<^verbatim>\<open>dt_image_search/mobile/mobile_transfer_service.py\<close>: their records, the
  checks of every field, the cleaning of file names and the shape of a response.
  \<open>fromiso\<close> is \<^verbatim>\<open>datetime.fromisoformat\<close> (\<open>None\<close> when it raises \<open>ValueError\<close>).
\<close>

section \<open>Constants and records\<close>

definition MOBILE_TRANSFER_SCHEMA :: string where
  "MOBILE_TRANSFER_SCHEMA = ''dtis.mobile-transfer.v1''"
definition MOBILE_TRANSFER_STARTED_EVENT :: string where
  "MOBILE_TRANSFER_STARTED_EVENT = ''mobile_transfer_started''"
definition MOBILE_TRANSFER_DISK_FULL_EVENT :: string where
  "MOBILE_TRANSFER_DISK_FULL_EVENT = ''mobile_transfer_disk_full''"
definition MOBILE_TRANSFER_DISK_FULL_MESSAGE :: string where
  "MOBILE_TRANSFER_DISK_FULL_MESSAGE =
     ''Desktop storage is full. Free up disk space on this PC and retry the mobile backup.''"
definition MOBILE_TRANSFER_INTERRUPTION_REASON_STOPPED_BY_USER :: string where
  "MOBILE_TRANSFER_INTERRUPTION_REASON_STOPPED_BY_USER = ''stopped_by_user''"
definition MOBILE_TRANSFER_START_PROOF_PURPOSE :: string where
  "MOBILE_TRANSFER_START_PROOF_PURPOSE = ''transfer.start''"
definition MOBILE_TRANSFER_EXISTENCE_PROOF_PURPOSE :: string where
  "MOBILE_TRANSFER_EXISTENCE_PROOF_PURPOSE = ''transfer.existence''"
definition MOBILE_TRANSFER_ASSET_PROOF_PURPOSE :: string where
  "MOBILE_TRANSFER_ASSET_PROOF_PURPOSE = ''transfer.asset''"
definition MOBILE_TRANSFER_COMPLETE_PROOF_PURPOSE :: string where
  "MOBILE_TRANSFER_COMPLETE_PROOF_PURPOSE = ''transfer.complete''"
definition MOBILE_TRANSFER_FAILURE_CODE_DISK_FULL :: string where
  "MOBILE_TRANSFER_FAILURE_CODE_DISK_FULL = ''disk_full''"

record session_request =
  sr_schema :: string
  sr_session_id :: string
  sr_device_uuid :: string
  sr_trust_proof :: string
  sr_total_assets :: "int option"
  sr_transferred_count :: "int option"
  sr_failed_count :: "int option"

record asset_metadata =
  am_schema :: string
  am_session_id :: string
  am_device_uuid :: string
  am_trust_proof :: string
  am_asset_id :: string
  am_asset_version :: "string option"
  am_content_sha1 :: "string option"
  am_file_size_bytes :: "int option"
  am_filename :: string
  am_media_type :: "string option"
  am_created_at :: "pydatetime option"
  am_updated_at :: "pydatetime option"

record asset_signature_request =
  sg_asset_id :: string
  sg_content_sha1 :: string
  sg_file_size_bytes :: int
  sg_created_at :: pydatetime

record existence_request =
  er_schema :: string
  er_session_id :: string
  er_device_uuid :: string
  er_trust_proof :: string
  er_assets :: "asset_signature_request list"

section \<open>Fields\<close>

definition field_missing :: "string \<Rightarrow> pyexn" where
  "field_missing f = ValueError (''The transfer request is missing the required field '' @ quoted f @ ''.'')"

definition field_wrong :: "string \<Rightarrow> string \<Rightarrow> pyexn" where
  "field_wrong f what = ValueError (''The transfer request field '' @ quoted f @ '' '' @ what)"

definition require_non_empty_string :: "payload \<Rightarrow> string \<Rightarrow> string res" where
  "require_non_empty_string payload field_name =
     (case dict_get payload field_name of
        Some (JStr s) \<Rightarrow> if py_strip s = [] then Inl (field_missing field_name) else Inr (py_strip s)
      | _ \<Rightarrow> Inl (field_missing field_name))"

definition optional_non_empty_string :: "payload \<Rightarrow> string \<Rightarrow> string option res" where
  "optional_non_empty_string payload field_name =
     (case dict_get payload field_name of
        None \<Rightarrow> Inr None
      | Some JNull \<Rightarrow> Inr None
      | Some (JStr s) \<Rightarrow> Inr (if py_strip s = [] then None else Some (py_strip s))
      | _ \<Rightarrow> Inl (field_wrong field_name ''must be a string.''))"

definition is_hex_char :: "char \<Rightarrow> bool" where
  "is_hex_char c = (let n = of_char c :: nat in 48 \<le> n \<and> n \<le> 57 \<or> 97 \<le> n \<and> n \<le> 102 \<or> 65 \<le> n \<and> n \<le> 70)"

definition is_sha1_hex :: "string \<Rightarrow> bool" where
  "is_sha1_hex s \<longleftrightarrow> length s = 40 \<and> list_all is_hex_char s"

definition require_sha1_hex :: "payload \<Rightarrow> string \<Rightarrow> string res" where
  "require_sha1_hex payload field_name =
     bindE (require_non_empty_string payload field_name) (\<lambda>v.
       if is_sha1_hex v then Inr (py_lower v)
       else Inl (field_wrong field_name ''must be a SHA-1 hex digest.''))"

definition optional_sha1_hex :: "payload \<Rightarrow> string \<Rightarrow> string option res" where
  "optional_sha1_hex payload field_name =
     bindE (optional_non_empty_string payload field_name) (\<lambda>v.
       case v of
         None \<Rightarrow> Inr None
       | Some s \<Rightarrow> if is_sha1_hex s then Inr (Some (py_lower s))
                   else Inl (field_wrong field_name ''must be a SHA-1 hex digest.''))"

text \<open>A JSON boolean is a Python \<^verbatim>\<open>bool\<close>, which the code does not take for an integer.\<close>

definition require_non_negative_int :: "payload \<Rightarrow> string \<Rightarrow> int res" where
  "require_non_negative_int payload field_name =
     (case dict_get payload field_name of
        Some (JInt i) \<Rightarrow> if i < 0 then Inl (field_wrong field_name ''must be a non-negative integer.'') else Inr i
      | _ \<Rightarrow> Inl (field_wrong field_name ''must be a non-negative integer.''))"

definition optional_non_negative_int :: "payload \<Rightarrow> string \<Rightarrow> int option res" where
  "optional_non_negative_int payload field_name =
     (case dict_get payload field_name of
        None \<Rightarrow> Inr None
      | Some JNull \<Rightarrow> Inr None
      | Some (JInt i) \<Rightarrow> if i < 0 then Inl (field_wrong field_name ''must be a non-negative integer.'') else Inr (Some i)
      | _ \<Rightarrow> Inl (field_wrong field_name ''must be a non-negative integer.''))"

text \<open>Only a \<open>ValueError\<close> becomes the error of the field; an \<open>OverflowError\<close> passes through.\<close>

definition parse_optional_timestamp ::
    "(string \<Rightarrow> pydatetime option) \<Rightarrow> string option \<Rightarrow> pydatetime option res" where
  "parse_optional_timestamp fromiso value =
     (case value of
        None \<Rightarrow> Inr None
      | Some v \<Rightarrow>
          let normalized_value = (if py_endswith v ''Z'' then butlast v @ ''+00:00'' else v);
              invalid = ValueError (''The transfer request field contains an invalid timestamp '' @ quoted v @ ''.'')
          in case fromiso normalized_value of
               None \<Rightarrow> Inl invalid
             | Some t \<Rightarrow>
                 (case utc_now t (Some t) of
                    Inr u \<Rightarrow> Inr (Some u)
                  | Inl (ValueError m) \<Rightarrow> Inl invalid
                  | Inl e \<Rightarrow> Inl e))"

definition require_timestamp ::
    "(string \<Rightarrow> pydatetime option) \<Rightarrow> payload \<Rightarrow> string \<Rightarrow> pydatetime res" where
  "require_timestamp fromiso payload field_name =
     bindE (require_non_empty_string payload field_name) (\<lambda>v.
       bindE (parse_optional_timestamp fromiso (Some v)) (\<lambda>t.
         case t of None \<Rightarrow> Inl (field_missing field_name) | Some u \<Rightarrow> Inr u))"

section \<open>Requests\<close>

definition parse_transfer_session_request :: "bool \<Rightarrow> bool \<Rightarrow> payload \<Rightarrow> session_request res" where
  "parse_transfer_session_request require_total_assets require_completion_counts request_payload =
     bindE (require_non_empty_string request_payload ''schema'') (\<lambda>schema.
     bindE (require_non_empty_string request_payload ''session_id'') (\<lambda>session_id.
     bindE (require_non_empty_string request_payload ''device_uuid'') (\<lambda>device_uuid.
     bindE (require_non_empty_string request_payload ''trust_proof'') (\<lambda>trust_proof.
     bindE (if require_total_assets
            then bindE (require_non_negative_int request_payload ''total_assets'') (\<lambda>n. Inr (Some n))
            else Inr None) (\<lambda>total_assets.
     bindE (if require_completion_counts
            then bindE (require_non_negative_int request_payload ''transferred_count'') (\<lambda>n.
                 bindE (require_non_negative_int request_payload ''failed_count'') (\<lambda>k. Inr (Some n, Some k)))
            else Inr (None, None)) (\<lambda>(transferred_count, failed_count).
     Inr \<lparr>sr_schema = schema, sr_session_id = session_id, sr_device_uuid = device_uuid,
          sr_trust_proof = trust_proof, sr_total_assets = total_assets,
          sr_transferred_count = transferred_count, sr_failed_count = failed_count\<rparr>))))))"

definition parse_transfer_asset_metadata ::
    "(string \<Rightarrow> pydatetime option) \<Rightarrow> payload \<Rightarrow> asset_metadata res" where
  "parse_transfer_asset_metadata fromiso m =
     bindE (require_non_empty_string m ''schema'') (\<lambda>schema.
     bindE (require_non_empty_string m ''session_id'') (\<lambda>session_id.
     bindE (require_non_empty_string m ''device_uuid'') (\<lambda>device_uuid.
     bindE (require_non_empty_string m ''trust_proof'') (\<lambda>trust_proof.
     bindE (require_non_empty_string m ''asset_id'') (\<lambda>asset_id.
     bindE (optional_non_empty_string m ''asset_version'') (\<lambda>asset_version.
     bindE (optional_sha1_hex m ''sha1'') (\<lambda>content_sha1.
     bindE (optional_non_negative_int m ''file_size'') (\<lambda>file_size_bytes.
     bindE (require_non_empty_string m ''filename'') (\<lambda>filename.
     bindE (optional_non_empty_string m ''media_type'') (\<lambda>media_type.
     bindE (bindE (optional_non_empty_string m ''created_at'') (parse_optional_timestamp fromiso)) (\<lambda>created_at.
     bindE (bindE (optional_non_empty_string m ''updated_at'') (parse_optional_timestamp fromiso)) (\<lambda>updated_at.
     Inr \<lparr>am_schema = schema, am_session_id = session_id, am_device_uuid = device_uuid,
          am_trust_proof = trust_proof, am_asset_id = asset_id, am_asset_version = asset_version,
          am_content_sha1 = content_sha1, am_file_size_bytes = file_size_bytes, am_filename = filename,
          am_media_type = media_type, am_created_at = created_at, am_updated_at = updated_at\<rparr>))))))))))))"

definition parse_asset_signature ::
    "(string \<Rightarrow> pydatetime option) \<Rightarrow> json \<Rightarrow> asset_signature_request res" where
  "parse_asset_signature fromiso asset_payload =
     (case asset_payload of
        JObj p \<Rightarrow>
          bindE (require_non_empty_string p ''asset_id'') (\<lambda>asset_id.
          bindE (require_sha1_hex p ''sha1'') (\<lambda>content_sha1.
          bindE (require_non_negative_int p ''file_size'') (\<lambda>file_size_bytes.
          bindE (require_timestamp fromiso p ''created_at'') (\<lambda>created_at.
          Inr \<lparr>sg_asset_id = asset_id, sg_content_sha1 = content_sha1,
               sg_file_size_bytes = file_size_bytes, sg_created_at = created_at\<rparr>))))
      | _ \<Rightarrow> Inl (field_wrong ''assets'' ''must contain only JSON object items.''))"

definition parse_transfer_asset_existence_request ::
    "(string \<Rightarrow> pydatetime option) \<Rightarrow> payload \<Rightarrow> existence_request res" where
  "parse_transfer_asset_existence_request fromiso request_payload =
     bindE (parse_transfer_session_request False False request_payload) (\<lambda>s.
     case dict_get request_payload ''assets'' of
       Some (JList items) \<Rightarrow>
         bindE (mapE (parse_asset_signature fromiso) items) (\<lambda>assets.
           Inr \<lparr>er_schema = sr_schema s, er_session_id = sr_session_id s, er_device_uuid = sr_device_uuid s,
                er_trust_proof = sr_trust_proof s, er_assets = assets\<rparr>)
     | _ \<Rightarrow> Inl (field_wrong ''assets'' ''must be a JSON array.''))"

section \<open>Responses\<close>

type_synonym http_response = "int \<times> payload"

definition transfer_response :: "int \<Rightarrow> string \<Rightarrow> string \<Rightarrow> string option \<Rightarrow> http_response" where
  "transfer_response status_code status message failure_code =
     (status_code,
      [(''schema'', JStr MOBILE_TRANSFER_SCHEMA), (''status'', JStr status), (''message'', JStr message)]
      @ (case failure_code of None \<Rightarrow> [] | Some c \<Rightarrow> if c = [] then [] else [(''failure_code'', JStr c)]))"

definition response_status :: "http_response \<Rightarrow> string option" where
  "response_status r = (case dict_get (snd r) ''status'' of Some (JStr s) \<Rightarrow> Some s | _ \<Rightarrow> None)"

end
