(* ===== verification/TransferFiles.thy ===== *)
theory TransferFiles
  imports TransferRequests PyFiles
begin

text \<open>
  How \<^verbatim>\<open>mobile_transfer_service.py\<close> puts an asset into the folder of its phone: the clean
  file name, the month directory, a path that is free, the copy of a request body through a
  temporary file, the move of a staged file, and the search of an error for a full disk.

  \<open>sha1\<close> is \<^verbatim>\<open>hashlib.sha1(bs).hexdigest()\<close>.  A request body is the list of what its
  reads find; a read returns at most one of these blocks, so short reads are covered.
\<close>

section \<open>Names and paths\<close>

definition sanitize_filename :: "string \<Rightarrow> string" where
  "sanitize_filename filename =
     (let candidate = path_name (path_of filename);
          candidate = strip_by (\<lambda>c. c = CHR ''.'') (py_strip (sub_runs unsafe_path_char (CHR ''-'') candidate))
      in if candidate \<noteq> [] then candidate else ''asset.bin'')"

definition conflict_name :: "string \<Rightarrow> nat \<Rightarrow> string" where
  "conflict_name filename attempt_number =
     name_stem filename @ ''-'' @ str_nat attempt_number @ name_suffix filename"

fun free_conflict_path :: "nat \<Rightarrow> pyfs \<Rightarrow> ppath \<Rightarrow> string \<Rightarrow> nat \<Rightarrow> ppath option" where
  "free_conflict_path 0 fs parent_directory filename attempt_number = None"
| "free_conflict_path (Suc fuel) fs parent_directory filename attempt_number =
     (let candidate_path = path_join parent_directory (conflict_name filename attempt_number)
      in if \<not> fs_exists fs candidate_path then Some candidate_path
         else free_conflict_path fuel fs parent_directory filename (attempt_number + 1))"

definition resolve_conflict_safe_path :: "nat \<Rightarrow> pyfs \<Rightarrow> ppath \<Rightarrow> string \<Rightarrow> ppath option" where
  "resolve_conflict_safe_path fuel fs parent_directory filename =
     (let candidate_path = path_join parent_directory filename
      in if \<not> fs_exists fs candidate_path then Some candidate_path
         else free_conflict_path fuel fs parent_directory filename 2)"

text \<open>One attempt more than there are files and directories is always enough (\<open>conflict_free_path_found\<close>).\<close>

definition conflict_fuel :: "pyfs \<Rightarrow> nat" where
  "conflict_fuel fs = Suc (length (fs_files fs) + length (fs_dirs fs))"

definition target_month_directory ::
    "pydatetime \<Rightarrow> pydatetime option \<Rightarrow> pydatetime option \<Rightarrow> string res" where
  "target_month_directory clock created_at updated_at =
     (let timestamp = (case created_at of Some t \<Rightarrow> t
                       | None \<Rightarrow> (case updated_at of Some t \<Rightarrow> t | None \<Rightarrow> clock))
      in bindE (utc_now clock (Some timestamp)) (\<lambda>t. Inr (dt_year_month t)))"

definition path_relative_to :: "ppath \<Rightarrow> ppath \<Rightarrow> ppath res" where
  "path_relative_to p root =
     (if fst p = fst root \<and> take (length (snd root)) (snd p) = snd root
      then Inr ([], drop (length (snd root)) (snd p))
      else Inl (ValueError ''is not in the subpath of''))"

section \<open>Reading and writing\<close>

definition TRANSFER_CHUNK_SIZE :: nat where
  "TRANSFER_CHUNK_SIZE = 100 * 1024 * 1024"

type_synonym body_blocks = "(os_error + byte list) list"

fun stream_read :: "nat \<Rightarrow> body_blocks \<Rightarrow> os_error + (byte list \<times> body_blocks)" where
  "stream_read n [] = Inr ([], [])"
| "stream_read n (Inl e # bs) = Inl e"
| "stream_read n (Inr b # bs) =
     Inr (take n b, if length b \<le> n then bs else Inr (drop n b) # bs)"

definition incomplete_body :: os_error where
  "incomplete_body = os_error_of ''Desktop received an incomplete asset body.'' None"

function write_loop ::
    "nat \<Rightarrow> ppath \<Rightarrow> body_blocks \<Rightarrow> byte list \<Rightarrow> pyfs \<Rightarrow> pyfs \<times> (os_error + byte list)" where
  "write_loop remaining_bytes temp_path body written fs =
     (if remaining_bytes = 0 then (fs, Inr written)
      else case stream_read (min TRANSFER_CHUNK_SIZE remaining_bytes) body of
             Inl e \<Rightarrow> (fs, Inl e)
           | Inr (chunk, body') \<Rightarrow>
               if chunk = [] then (fs, Inl incomplete_body)
               else (case fs_append temp_path chunk fs of
                       (fs1, Inl e) \<Rightarrow> (fs1, Inl e)
                     | (fs1, Inr _) \<Rightarrow>
                         write_loop (remaining_bytes - length chunk) temp_path body' (written @ chunk) fs1))"
  by pat_completeness auto
termination
  by (relation "measure (\<lambda>(n, _). n)") auto

declare write_loop.simps [simp del]

text \<open>Flushing and closing a handle change nothing and may raise.\<close>

definition fs_close :: "pyfs \<Rightarrow> pyfs \<times> (os_error + unit)" where
  "fs_close = fs_call (\<lambda>fs. (fs, Inr ()))"

text \<open>An error that is raised while another one is being handled keeps that one as its context.\<close>

definition during :: "(os_error + 'a) \<Rightarrow> os_error \<Rightarrow> os_error" where
  "during r e = (case r of Inl old \<Rightarrow> raised_during e old | Inr _ \<Rightarrow> e)"

definition write_temp_file ::
    "ppath \<Rightarrow> nat \<Rightarrow> body_blocks \<Rightarrow> pyfs \<Rightarrow> pyfs \<times> (os_error + byte list)" where
  "write_temp_file temp_path content_length body fs =
     (case fs_create temp_path fs of
        (fs1, Inl e) \<Rightarrow> (fs1, Inl e)
      | (fs1, Inr _) \<Rightarrow>
          (case write_loop content_length temp_path body [] fs1 of
             (fs2, r) \<Rightarrow> (case fs_close fs2 of
                            (fs3, Inl e) \<Rightarrow> (fs3, Inl (during r e))
                          | (fs3, Inr _) \<Rightarrow> (fs3, r))))"

record stored_asset =
  sa_local_relative_path :: string
  sa_content_sha1 :: string
  sa_file_size_bytes :: int

text \<open>\<^verbatim>\<open>os.utime(final_path, ...)\<close> with \<^verbatim>\<open>updated_at or created_at\<close>.\<close>

definition touch_final ::
    "ppath \<Rightarrow> pydatetime option \<Rightarrow> pydatetime option \<Rightarrow> pyfs \<Rightarrow> pyfs \<times> (os_error + unit)" where
  "touch_final final_path created_at updated_at fs =
     (case (case updated_at of Some t \<Rightarrow> Some t | None \<Rightarrow> created_at) of
        None \<Rightarrow> (fs, Inr ())
      | Some t \<Rightarrow> fs_utime final_path (dt_isoformat t) fs)"

text \<open>The \<^verbatim>\<open>finally\<close> block of \<open>_write_asset_to_folder\<close>.\<close>

definition remove_temp :: "ppath \<Rightarrow> pyfs \<times> (os_error + 'a) \<Rightarrow> pyfs \<times> (os_error + 'a)" where
  "remove_temp temp_path m =
     (case m of (fs, r) \<Rightarrow>
        if fs_exists fs temp_path
        then (case fs_unlink False temp_path fs of
                (fs1, Inl e) \<Rightarrow> (fs1, Inl (during r e))
              | (fs1, Inr _) \<Rightarrow> (fs1, r))
        else (fs, r))"

text \<open>\<open>part_id\<close> is \<^verbatim>\<open>uuid.uuid4().hex\<close>.\<close>

definition part_name :: "string \<Rightarrow> string \<Rightarrow> string" where
  "part_name name part_id = ''.'' @ name @ ''.'' @ part_id @ ''.part''"

definition stored_at :: "ppath \<Rightarrow> ppath \<Rightarrow> string \<Rightarrow> int \<Rightarrow> stored_asset res" where
  "stored_at root_path final_path content_sha1 size_bytes =
     bindE (path_relative_to final_path root_path) (\<lambda>rel.
       Inr \<lparr>sa_local_relative_path = path_posix rel, sa_content_sha1 = content_sha1,
            sa_file_size_bytes = size_bytes\<rparr>)"

text \<open>The \<^verbatim>\<open>try\<close> block of \<open>_write_asset_to_folder\<close>: write, rename, set the times.\<close>

definition store_body ::
    "ppath \<Rightarrow> ppath \<Rightarrow> pydatetime option \<Rightarrow> pydatetime option \<Rightarrow> nat \<Rightarrow> body_blocks \<Rightarrow> pyfs
     \<Rightarrow> pyfs \<times> (os_error + byte list)" where
  "store_body temp_path final_path created_at updated_at content_length body fs =
     remove_temp temp_path
       (fs_seq (write_temp_file temp_path content_length body fs) (\<lambda>written fs.
        fs_seq (fs_replace temp_path final_path fs) (\<lambda>_ fs.
        fs_seq (touch_final final_path created_at updated_at fs) (\<lambda>_ fs. (fs, Inr written)))))"

definition write_asset_to_folder ::
    "(byte list \<Rightarrow> string) \<Rightarrow> pydatetime \<Rightarrow> string \<Rightarrow> string \<Rightarrow> string \<Rightarrow> pydatetime option
     \<Rightarrow> pydatetime option \<Rightarrow> body_blocks \<Rightarrow> int \<Rightarrow> pyfs \<Rightarrow> pyfs \<times> stored_asset res" where
  "write_asset_to_folder sha1 clock part_id folder_path filename created_at updated_at body content_length fs =
     (let root_path = path_of folder_path
      in case target_month_directory clock created_at updated_at of
           Inl e \<Rightarrow> (fs, Inl e)
         | Inr month \<Rightarrow>
             let month_directory = path_join root_path month
             in case fs_mkdir_parents month_directory fs of
                  (fs1, Inl e) \<Rightarrow> (fs1, Inl (OSError e))
                | (fs1, Inr _) \<Rightarrow>
                    (case resolve_conflict_safe_path (conflict_fuel fs1) fs1 month_directory
                            (sanitize_filename filename) of
                       None \<Rightarrow> (fs1, Inl (RuntimeError ''loop''))
                     | Some final_path \<Rightarrow>
                         let temp_path = path_join month_directory (part_name (path_name final_path) part_id)
                         in case store_body temp_path final_path created_at updated_at (nat content_length)
                                   body fs1 of
                              (fs2, Inl e) \<Rightarrow> (fs2, Inl (OSError e))
                            | (fs2, Inr written) \<Rightarrow>
                                (fs2, stored_at root_path final_path (sha1 written) (int (length written)))))"

section \<open>Moving a staged file\<close>

definition compute_file_sha1 :: "(byte list \<Rightarrow> string) \<Rightarrow> ppath \<Rightarrow> pyfs \<Rightarrow> string" where
  "compute_file_sha1 sha1 file_path fs =
     sha1 (case fs_read fs file_path of None \<Rightarrow> [] | Some bs \<Rightarrow> bs)"

text \<open>
  \<^verbatim>\<open>shutil.move(src, dst)\<close> of a file: a rename, or else a copy with its metadata followed by
  the removal of the source.
\<close>

definition shutil_move :: "ppath \<Rightarrow> ppath \<Rightarrow> pyfs \<Rightarrow> pyfs \<times> (os_error + unit)" where
  "shutil_move src dst fs =
     (case fs_replace src dst fs of
        (fs1, Inr _) \<Rightarrow> (fs1, Inr ())
      | (fs1, Inl e) \<Rightarrow>
          (case fs_seq (fs_create dst fs1) (\<lambda>_ fs.
                fs_seq (fs_append dst (case fs_read fs src of None \<Rightarrow> [] | Some bs \<Rightarrow> bs) fs) (\<lambda>_ fs.
                fs_seq (fs_close fs) (\<lambda>_ fs. fs_unlink False src fs))) of
             (fs2, Inl e2) \<Rightarrow> (fs2, Inl (raised_during e2 e))
           | (fs2, Inr _) \<Rightarrow> (fs2, Inr ())))"

definition move_or_copy :: "ppath \<Rightarrow> ppath \<Rightarrow> pyfs \<Rightarrow> pyfs \<times> (os_error + unit)" where
  "move_or_copy staged_path final_path fs =
     (case fs_replace staged_path final_path fs of
        (fs1, Inr _) \<Rightarrow> (fs1, Inr ())
      | (fs1, Inl e) \<Rightarrow>
          if oe_errno e \<noteq> Some EXDEV then (fs1, Inl e)
          else (case shutil_move staged_path final_path fs1 of
                  (fs2, Inl e2) \<Rightarrow> (fs2, Inl (raised_during e2 e))
                | (fs2, Inr _) \<Rightarrow> (fs2, Inr ())))"

definition staged_error :: "string \<Rightarrow> pyexn" where
  "staged_error what = OSError (os_error_of what None)"

definition move_staged_asset_to_folder ::
    "(byte list \<Rightarrow> string) \<Rightarrow> pydatetime \<Rightarrow> string \<Rightarrow> string \<Rightarrow> pydatetime option \<Rightarrow> pydatetime option
     \<Rightarrow> ppath \<Rightarrow> int \<Rightarrow> string option \<Rightarrow> string option \<Rightarrow> pyfs \<Rightarrow> pyfs \<times> stored_asset res" where
  "move_staged_asset_to_folder sha1 clock folder_path filename created_at updated_at staged_path
       content_length provided_content_sha1 expected_content_sha1 fs =
     (let root_path = path_of folder_path
      in case target_month_directory clock created_at updated_at of
           Inl e \<Rightarrow> (fs, Inl e)
         | Inr month \<Rightarrow>
             let month_directory = path_join root_path month
             in case fs_mkdir_parents month_directory fs of
                  (fs1, Inl e) \<Rightarrow> (fs1, Inl (OSError e))
                | (fs1, Inr _) \<Rightarrow>
                    (case resolve_conflict_safe_path (conflict_fuel fs1) fs1 month_directory
                            (sanitize_filename filename) of
                       None \<Rightarrow> (fs1, Inl (RuntimeError ''loop''))
                     | Some final_path \<Rightarrow>
                         (case fs_read fs1 staged_path of
                            None \<Rightarrow> (fs1, Inl (staged_error ''Desktop transfer staged file is missing.''))
                          | Some bytes \<Rightarrow>
                              let content_sha1 = py_lower (py_strip
                                    (case provided_content_sha1 of None \<Rightarrow> [] | Some s \<Rightarrow> s));
                                  content_sha1 = (if content_sha1 = [] then compute_file_sha1 sha1 staged_path fs1
                                                  else content_sha1)
                              in if int (length bytes) \<noteq> content_length then
                                   (fs1, Inl (staged_error
                                     ''Desktop received a staged asset file with a mismatched byte length.''))
                                 else if (case expected_content_sha1 of None \<Rightarrow> False
                                          | Some s \<Rightarrow> content_sha1 \<noteq> py_lower s) then
                                   (fs1, Inl (staged_error
                                     ''Desktop received a staged asset file with a mismatched SHA-1 digest.''))
                                 else (case fs_seq (move_or_copy staged_path final_path fs1) (\<lambda>_ fs.
                                              touch_final final_path created_at updated_at fs) of
                                         (fs2, Inl e) \<Rightarrow> (fs2, Inl (OSError e))
                                       | (fs2, Inr _) \<Rightarrow>
                                           (fs2, stored_at root_path final_path content_sha1
                                              (int (length bytes)))))))"

definition cleanup_temp_upload_file :: "ppath option \<Rightarrow> pyfs \<Rightarrow> pyfs" where
  "cleanup_temp_upload_file temp_file_path fs =
     (case temp_file_path of None \<Rightarrow> fs | Some p \<Rightarrow> fst (fs_unlink True p fs))"

section \<open>Full disks\<close>

definition node_disk_full :: "exc_node \<Rightarrow> bool" where
  "node_disk_full n \<longleftrightarrow> en_is_os n \<and> (en_errno n = Some ENOSPC \<or> en_winerror n = Some 112)"

definition exc_links :: "exc_node list \<Rightarrow> nat \<Rightarrow> nat list" where
  "exc_links ns i =
     filter (\<lambda>j. j < length ns)
       ((case en_context (ns ! i) of None \<Rightarrow> [] | Some j \<Rightarrow> [j]) @
        (case en_cause (ns ! i) of None \<Rightarrow> [] | Some j \<Rightarrow> [j]))"

text \<open>The stack has its top first: the context is pushed last and popped first.\<close>

function disk_full_search :: "exc_node list \<Rightarrow> nat list \<Rightarrow> nat list \<Rightarrow> bool" where
  "disk_full_search ns [] inspected = False"
| "disk_full_search ns (i # pending) inspected =
     (if i \<in> set inspected \<or> \<not> i < length ns then disk_full_search ns pending inspected
      else if node_disk_full (ns ! i) then True
      else disk_full_search ns (exc_links ns i @ pending) (i # inspected))"
  by pat_completeness auto
termination
proof (relation "measures [\<lambda>(ns, _, seen). card ({..<length ns} - set seen), \<lambda>(_, st, _). length st]")
  show "wf (measures [\<lambda>(ns, _, seen). card ({..<length ns} - set seen), \<lambda>(_, st, _). length st])" by simp
next
  fix ns :: "exc_node list" and i pending seen
  assume "\<not> (i \<in> set seen \<or> \<not> i < length ns)" "\<not> node_disk_full (ns ! i)"
  then have "{..<length ns} - set (i # seen) \<subset> {..<length ns} - set seen" by auto
  then have "card ({..<length ns} - set (i # seen)) < card ({..<length ns} - set seen)"
    by (intro psubset_card_mono) auto
  then show "((ns, exc_links ns i @ pending, i # seen), ns, i # pending, seen)
      \<in> measures [\<lambda>(ns, _, seen). card ({..<length ns} - set seen), \<lambda>(_, st, _). length st]" by simp
qed simp

definition is_disk_full_os_error :: "os_error \<Rightarrow> bool" where
  "is_disk_full_os_error error \<longleftrightarrow> disk_full_search (oe_nodes error) [0] []"

end
