(* ===== verification/TransferService.thy ===== *)
theory TransferService
  imports TransferFiles PairingStore
begin

text \<open>
  The handlers of \<^verbatim>\<open>MobileTransferService\<close>
  (\<^verbatim>\<open>dt_image_search/mobile/mobile_transfer_service.py\<close>): a transfer is started, asset
  signatures are compared, assets are stored, the transfer is completed, and an error while an
  asset streams in is reported.  A handler returns the status code and the payload of its response,
  or the exception that leaves it.

  The world is the database, the file system and the events published on the bus.  Log messages
  and tracing spans are left out: they change nothing of it.
\<close>

section \<open>World and environment\<close>

type_synonym bus_event = "string \<times> (string \<times> string) list"

record transfer_world =
  tw_db :: app_db
  tw_fs :: pyfs
  tw_events :: "bus_event list"

text \<open>
  What the handlers use of other code: the ISO parser, HMAC-SHA256, SHA-1, the clock and
  \<^verbatim>\<open>uuid.uuid4().hex\<close>.
\<close>

record transfer_env =
  te_fromiso :: "string \<Rightarrow> pydatetime option"
  te_hmac :: "byte list \<Rightarrow> byte list \<Rightarrow> byte list"
  te_sha1 :: "byte list \<Rightarrow> string"
  te_clock :: pydatetime
  te_part_id :: string

definition SESSION_REJECTED :: string where
  "SESSION_REJECTED = ''Desktop rejected the transfer session.''"
definition SCHEMA_UNSUPPORTED :: string where
  "SCHEMA_UNSUPPORTED = ''The transfer request schema version is unsupported.''"

definition rejected :: "int \<Rightarrow> string \<Rightarrow> http_response res" where
  "rejected code message = Inr (transfer_response code ''rejected'' message None)"

text \<open>The checks that every handler makes on the session: it exists, its status and its proof.\<close>

definition authorized_context ::
    "transfer_env \<Rightarrow> app_db \<Rightarrow> string \<Rightarrow> string list \<Rightarrow> string \<Rightarrow> string \<Rightarrow> string \<Rightarrow> string
     \<Rightarrow> transfer_context option res" where
  "authorized_context env db purpose statuses schema session_id device_uuid trust_proof =
     (case get_mobile_transfer_context db session_id device_uuid of
        None \<Rightarrow> Inr None
      | Some c \<Rightarrow>
          if tc_session_status c \<notin> set statuses then Inr None
          else bindE (is_valid_trust_proof (te_hmac env) (tc_trust_key_b64 c) purpose schema session_id
                        device_uuid trust_proof) (\<lambda>valid. Inr (if valid then Some c else None)))"

definition or_zero :: "int option \<Rightarrow> int" where
  "or_zero n = (case n of None \<Rightarrow> 0 | Some i \<Rightarrow> i)"

section \<open>Starting a transfer\<close>

definition handle_start_request ::
    "transfer_env \<Rightarrow> payload \<Rightarrow> pydatetime option \<Rightarrow> transfer_world \<Rightarrow> transfer_world \<times> http_response res" where
  "handle_start_request env request_payload now w =
     (case utc_now (te_clock env) now of
        Inl e \<Rightarrow> (w, Inl e)
      | Inr current_time \<Rightarrow>
     (case parse_transfer_session_request True False request_payload of
        Inl (ValueError m) \<Rightarrow> (w, rejected 400 m)
      | Inl e \<Rightarrow> (w, Inl e)
      | Inr r \<Rightarrow>
          if sr_schema r \<noteq> MOBILE_TRANSFER_SCHEMA then (w, rejected 400 SCHEMA_UNSUPPORTED)
          else (case authorized_context env (tw_db w) MOBILE_TRANSFER_START_PROOF_PURPOSE
                  [MOBILE_BACKUP_SESSION_STATUS_PAIRED, MOBILE_BACKUP_SESSION_STATUS_TRANSFERRING]
                  (sr_schema r) (sr_session_id r) (sr_device_uuid r) (sr_trust_proof r) of
                  Inl e \<Rightarrow> (w, Inl e)
                | Inr None \<Rightarrow> (w, rejected 403 SESSION_REJECTED)
                | Inr (Some c) \<Rightarrow>
                    (case resolve_next_backup_state (tc_folder_transfer_state c) E_TRANSFER_STARTED
                            PAIRING_COMPLETED of
                       Inl e \<Rightarrow> (w, Inl e)
                     | Inr s \<Rightarrow>
                         (w\<lparr>tw_db := update_mobile_transfer_state (tw_db w) (sr_session_id r) (sr_device_uuid r)
                               MOBILE_BACKUP_SESSION_STATUS_TRANSFERRING
                               (folder_transfer_state_from_backup_state s) current_time None
                               (sr_total_assets r) (Some 0) (Some 0),
                            tw_events := tw_events w @ [(MOBILE_TRANSFER_STARTED_EVENT,
                               [(''session_id'', sr_session_id r), (''device_uuid'', sr_device_uuid r),
                                (''folder_path'', tc_folder_path c)])]\<rparr>,
                          Inr (200,
                            [(''schema'', JStr MOBILE_TRANSFER_SCHEMA), (''status'', JStr ''accepted''),
                             (''message'', JStr (''Desktop is ready to receive ''
                                @ str_int (or_zero (sr_total_assets r)) @ '' assets.'')),
                             (''session_id'', JStr (sr_session_id r)),
                             (''device_uuid'', JStr (sr_device_uuid r)),
                             (''total_assets'', JInt (or_zero (sr_total_assets r)))]))))))"

section \<open>Comparing signatures\<close>

definition signature_key_of :: "asset_signature_request \<Rightarrow> signature_key" where
  "signature_key_of a = mobile_asset_signature_key (sg_content_sha1 a) (sg_file_size_bytes a) (sg_created_at a)"

definition matched_assets_payload ::
    "(signature_key, asset_row) dict \<Rightarrow> asset_signature_request list \<Rightarrow> json list" where
  "matched_assets_payload matching assets =
     concat (map (\<lambda>a. case dict_get matching (signature_key_of a) of
          None \<Rightarrow> []
        | Some m \<Rightarrow> [JObj [(''asset_id'', JStr (sg_asset_id a)),
                           (''local_relative_path'', JStr (as_local_relative_path m))]]) assets)"

definition handle_asset_existence_request ::
    "transfer_env \<Rightarrow> payload \<Rightarrow> transfer_world \<Rightarrow> transfer_world \<times> http_response res" where
  "handle_asset_existence_request env request_payload w =
     (case parse_transfer_asset_existence_request (te_fromiso env) request_payload of
        Inl (ValueError m) \<Rightarrow> (w, rejected 400 m)
      | Inl e \<Rightarrow> (w, Inl e)
      | Inr r \<Rightarrow>
          if er_schema r \<noteq> MOBILE_TRANSFER_SCHEMA then (w, rejected 400 SCHEMA_UNSUPPORTED)
          else (case authorized_context env (tw_db w) MOBILE_TRANSFER_EXISTENCE_PROOF_PURPOSE
                  [MOBILE_BACKUP_SESSION_STATUS_TRANSFERRING]
                  (er_schema r) (er_session_id r) (er_device_uuid r) (er_trust_proof r) of
                  Inl e \<Rightarrow> (w, Inl e)
                | Inr None \<Rightarrow> (w, rejected 403 SESSION_REJECTED)
                | Inr (Some c) \<Rightarrow>
                    let matching = get_mobile_asset_records_by_signatures (tw_db w) (tw_fs w)
                          (er_device_uuid r) (map signature_key_of (er_assets r));
                        matches = matched_assets_payload matching (er_assets r)
                    in (w, Inr (200,
                         [(''schema'', JStr MOBILE_TRANSFER_SCHEMA), (''status'', JStr ''checked''),
                          (''message'', JStr (''Desktop matched '' @ str_nat (length matches) @ '' of ''
                             @ str_nat (length (er_assets r)) @ '' candidate transfer assets.'')),
                          (''session_id'', JStr (er_session_id r)),
                          (''device_uuid'', JStr (er_device_uuid r)), (''matches'', JList matches)]))))"

section \<open>Failing a transfer\<close>

definition mark_transfer_failed ::
    "transfer_context \<Rightarrow> string \<Rightarrow> string \<Rightarrow> pydatetime \<Rightarrow> bool \<Rightarrow> transfer_world \<Rightarrow> transfer_world res" where
  "mark_transfer_failed c session_id device_uuid current_time publish_disk_full_event w =
     bindE (resolve_next_backup_state (tc_folder_transfer_state c) E_TRANSFER_FAILED TRANSFER_IN_PROGRESS) (\<lambda>s.
       let folder_transfer_state = folder_transfer_state_from_backup_state s;
           was_already_failed = (tc_folder_transfer_state c = Some folder_transfer_state)
       in Inr (w\<lparr>tw_db := update_mobile_transfer_state (tw_db w) session_id device_uuid
                   MOBILE_BACKUP_SESSION_STATUS_FAILED folder_transfer_state current_time
                   (Some current_time) None None None,
                 tw_events := tw_events w @
                   (if \<not> was_already_failed \<and> publish_disk_full_event
                    then [(MOBILE_TRANSFER_DISK_FULL_EVENT,
                           [(''session_id'', session_id), (''device_uuid'', device_uuid),
                            (''folder_path'', tc_folder_path c), (''message'', MOBILE_TRANSFER_DISK_FULL_MESSAGE)])]
                    else [])\<rparr>))"

section \<open>Receiving an asset\<close>

definition with_cleanup :: "ppath option \<Rightarrow> transfer_world \<Rightarrow> transfer_world" where
  "with_cleanup staged w = w\<lparr>tw_fs := cleanup_temp_upload_file staged (tw_fs w)\<rparr>"

definition skipped_response :: "string \<Rightarrow> string \<Rightarrow> http_response" where
  "skipped_response message local_relative_path =
     (200, [(''schema'', JStr MOBILE_TRANSFER_SCHEMA), (''status'', JStr ''skipped''),
            (''message'', JStr message), (''local_relative_path'', JStr local_relative_path)])"

definition count_transferred :: "asset_metadata \<Rightarrow> transfer_world \<Rightarrow> transfer_world" where
  "count_transferred m w =
     w\<lparr>tw_db := increment_mobile_backup_session_transferred_count (tw_db w) (am_session_id m) (am_device_uuid m) 1\<rparr>"

text \<open>The answer to an asset that the desktop has already, if it has it.\<close>

definition existing_asset_answer ::
    "asset_metadata \<Rightarrow> transfer_context \<Rightarrow> transfer_world \<Rightarrow> http_response option" where
  "existing_asset_answer m c w =
     (case (case (am_content_sha1 m, am_file_size_bytes m, am_created_at m) of
              (Some h, Some n, Some t) \<Rightarrow>
                get_mobile_asset_record_by_signature (tw_db w) (tw_fs w) (am_device_uuid m) h n t
            | _ \<Rightarrow> None) of
        Some a \<Rightarrow> Some (skipped_response ''Desktop already has the transferred asset content.''
                    (as_local_relative_path a))
      | None \<Rightarrow>
          (case get_mobile_asset_record (tw_db w) (am_device_uuid m) (am_asset_id m) of
             None \<Rightarrow> None
           | Some a \<Rightarrow>
               if as_remote_asset_version a = am_asset_version m
                 \<and> fs_exists (tw_fs w) (path_join (path_of (tc_folder_path c)) (as_local_relative_path a))
               then Some (skipped_response ''Desktop already has the current asset version.''
                      (as_local_relative_path a))
               else None))"

definition store_upload ::
    "transfer_env \<Rightarrow> asset_metadata \<Rightarrow> transfer_context \<Rightarrow> body_blocks option \<Rightarrow> int \<Rightarrow> ppath option
     \<Rightarrow> string option \<Rightarrow> pyfs \<Rightarrow> pyfs \<times> stored_asset res" where
  "store_upload env m c body_stream content_length staged content_sha1 fs =
     (case staged of
        Some p \<Rightarrow>
          move_staged_asset_to_folder (te_sha1 env) (te_clock env) (tc_folder_path c) (am_filename m)
            (am_created_at m) (am_updated_at m) p content_length content_sha1 (am_content_sha1 m) fs
      | None \<Rightarrow>
          (case body_stream of
             None \<Rightarrow> (fs, Inl (OSError (os_error_of ''Desktop did not receive transfer asset stream content.'' None)))
           | Some body \<Rightarrow>
               write_asset_to_folder (te_sha1 env) (te_clock env) (te_part_id env) (tc_folder_path c)
                 (am_filename m) (am_created_at m) (am_updated_at m) body content_length fs))"

definition record_stored_asset ::
    "asset_metadata \<Rightarrow> stored_asset \<Rightarrow> pydatetime \<Rightarrow> transfer_world \<Rightarrow> transfer_world" where
  "record_stored_asset m stored current_time w =
     count_transferred m (w\<lparr>tw_db := upsert_mobile_asset_record (tw_db w) (am_device_uuid m) (am_asset_id m)
       (am_asset_version m) (Some (sa_content_sha1 stored)) (Some (sa_file_size_bytes stored))
       (am_created_at m) (sa_local_relative_path stored) current_time\<rparr>)"

definition failed_upload_answer :: "os_error \<Rightarrow> http_response" where
  "failed_upload_answer e =
     (if is_disk_full_os_error e
      then transfer_response 507 ''rejected'' MOBILE_TRANSFER_DISK_FULL_MESSAGE
             (Some MOBILE_TRANSFER_FAILURE_CODE_DISK_FULL)
      else transfer_response 500 ''rejected''
             (''Desktop failed while writing the incoming asset: '' @ oe_text e) None)"

definition accept_upload ::
    "transfer_env \<Rightarrow> asset_metadata \<Rightarrow> transfer_context \<Rightarrow> body_blocks option \<Rightarrow> int \<Rightarrow> ppath option
     \<Rightarrow> string option \<Rightarrow> pydatetime \<Rightarrow> transfer_world \<Rightarrow> transfer_world \<times> http_response res" where
  "accept_upload env m c body_stream content_length staged content_sha1 current_time w =
     (case existing_asset_answer m c w of
        Some answer \<Rightarrow> (count_transferred m (with_cleanup staged w), Inr answer)
      | None \<Rightarrow>
          (case store_upload env m c body_stream content_length staged content_sha1 (tw_fs w) of
             (fs1, Inl (OSError e)) \<Rightarrow>
               let w1 = with_cleanup staged (w\<lparr>tw_fs := fs1\<rparr>)
               in (case mark_transfer_failed c (am_session_id m) (am_device_uuid m) current_time
                          (is_disk_full_os_error e) w1 of
                     Inl x \<Rightarrow> (w1, Inl x)
                   | Inr w2 \<Rightarrow> (w2, Inr (failed_upload_answer e)))
           | (fs1, Inl x) \<Rightarrow> (w\<lparr>tw_fs := fs1\<rparr>, Inl x)
           | (fs1, Inr stored) \<Rightarrow>
               (record_stored_asset m stored current_time (w\<lparr>tw_fs := fs1\<rparr>),
                Inr (200, [(''schema'', JStr MOBILE_TRANSFER_SCHEMA), (''status'', JStr ''stored''),
                           (''message'', JStr ''Desktop stored the asset successfully.''),
                           (''local_relative_path'', JStr (sa_local_relative_path stored))]))))"

text \<open>The checks of an upload that need no session: the text of the rejection, if there is one.\<close>

definition upload_precheck :: "asset_metadata \<Rightarrow> int \<Rightarrow> string option" where
  "upload_precheck m content_length =
     (if am_schema m \<noteq> MOBILE_TRANSFER_SCHEMA then Some SCHEMA_UNSUPPORTED
      else if content_length < 0 then Some ''Desktop received an invalid transfer content length.''
      else if am_file_size_bytes m \<noteq> None \<and> am_file_size_bytes m \<noteq> Some content_length
      then Some ''Desktop received an asset body whose content length did not match the declared file size.''
      else None)"

definition handle_asset_upload ::
    "transfer_env \<Rightarrow> payload \<Rightarrow> body_blocks option \<Rightarrow> int \<Rightarrow> ppath option \<Rightarrow> string option
     \<Rightarrow> pydatetime option \<Rightarrow> transfer_world \<Rightarrow> transfer_world \<times> http_response res" where
  "handle_asset_upload env metadata_payload body_stream content_length temp_file_path content_sha1 now w =
     (case utc_now (te_clock env) now of
        Inl e \<Rightarrow> (w, Inl e)
      | Inr current_time \<Rightarrow>
          if body_stream = None \<and> temp_file_path = None
          then (w, rejected 400 ''Desktop did not receive transfer asset content.'')
          else (case parse_transfer_asset_metadata (te_fromiso env) metadata_payload of
             Inl (ValueError e) \<Rightarrow> (with_cleanup temp_file_path w, rejected 400 e)
           | Inl e \<Rightarrow> (w, Inl e)
           | Inr m \<Rightarrow>
               (case upload_precheck m content_length of
                  Some message \<Rightarrow> (with_cleanup temp_file_path w, rejected 400 message)
                | None \<Rightarrow>
                    (case authorized_context env (tw_db w) MOBILE_TRANSFER_ASSET_PROOF_PURPOSE
                            [MOBILE_BACKUP_SESSION_STATUS_TRANSFERRING] (am_schema m) (am_session_id m)
                            (am_device_uuid m) (am_trust_proof m) of
                       Inl e \<Rightarrow> (w, Inl e)
                     | Inr None \<Rightarrow> (with_cleanup temp_file_path w, rejected 403 SESSION_REJECTED)
                     | Inr (Some c) \<Rightarrow>
                         accept_upload env m c body_stream content_length temp_file_path content_sha1
                           current_time w))))"

section \<open>Completing a transfer\<close>

definition completion_outcome :: "session_request \<Rightarrow> string option \<Rightarrow> string \<times> backup_event \<times> string" where
  "completion_outcome r interruption_reason =
     (let counts = str_int (or_zero (sr_transferred_count r)) @ '' assets with ''
            @ str_int (or_zero (sr_failed_count r)) @ '' failures.''
      in if interruption_reason = Some MOBILE_TRANSFER_INTERRUPTION_REASON_STOPPED_BY_USER
         then (MOBILE_BACKUP_SESSION_STATUS_STOPPED, E_TRANSFER_STOPPED,
               ''Desktop marked the transfer session as stopped after receiving '' @ counts)
         else ((if or_zero (sr_failed_count r) = 0 then MOBILE_BACKUP_SESSION_STATUS_COMPLETED
                else MOBILE_BACKUP_SESSION_STATUS_FAILED),
               (if or_zero (sr_failed_count r) = 0 then E_TRANSFER_COMPLETED else E_TRANSFER_FAILED),
               ''Desktop finished the transfer session after receiving '' @ counts))"

text \<open>A wrong \<^verbatim>\<open>interruption_reason\<close> raises its \<open>ValueError\<close> outside the \<^verbatim>\<open>try\<close> block of the handler.\<close>

definition handle_complete_request ::
    "transfer_env \<Rightarrow> payload \<Rightarrow> pydatetime option \<Rightarrow> transfer_world \<Rightarrow> transfer_world \<times> http_response res" where
  "handle_complete_request env request_payload now w =
     (case utc_now (te_clock env) now of
        Inl e \<Rightarrow> (w, Inl e)
      | Inr current_time \<Rightarrow>
     (case parse_transfer_session_request False True request_payload of
        Inl (ValueError m) \<Rightarrow> (w, rejected 400 m)
      | Inl e \<Rightarrow> (w, Inl e)
      | Inr r \<Rightarrow>
          if sr_schema r \<noteq> MOBILE_TRANSFER_SCHEMA then (w, rejected 400 SCHEMA_UNSUPPORTED)
          else (case authorized_context env (tw_db w) MOBILE_TRANSFER_COMPLETE_PROOF_PURPOSE
                  [MOBILE_BACKUP_SESSION_STATUS_TRANSFERRING]
                  (sr_schema r) (sr_session_id r) (sr_device_uuid r) (sr_trust_proof r) of
                  Inl e \<Rightarrow> (w, Inl e)
                | Inr None \<Rightarrow> (w, rejected 403 SESSION_REJECTED)
                | Inr (Some c) \<Rightarrow>
                    (case optional_non_empty_string request_payload ''interruption_reason'' of
                       Inl e \<Rightarrow> (w, Inl e)
                     | Inr reason \<Rightarrow>
                    (case completion_outcome r reason of (session_status, event, message) \<Rightarrow>
                    (case resolve_next_backup_state (tc_folder_transfer_state c) event TRANSFER_IN_PROGRESS of
                       Inl e \<Rightarrow> (w, Inl e)
                     | Inr s \<Rightarrow>
                         (w\<lparr>tw_db := update_mobile_transfer_state (tw_db w) (sr_session_id r) (sr_device_uuid r)
                               session_status (folder_transfer_state_from_backup_state s) current_time
                               (Some current_time) None (Some (or_zero (sr_transferred_count r)))
                               (Some (or_zero (sr_failed_count r)))\<rparr>,
                          Inr (200, [(''schema'', JStr MOBILE_TRANSFER_SCHEMA), (''status'', JStr ''completed''),
                                     (''message'', JStr message), (''session_id'', JStr (sr_session_id r)),
                                     (''device_uuid'', JStr (sr_device_uuid r))]))))))))"

section \<open>Errors while an asset streams in\<close>

definition disk_full_response :: http_response where
  "disk_full_response = transfer_response 507 ''rejected'' MOBILE_TRANSFER_DISK_FULL_MESSAGE
     (Some MOBILE_TRANSFER_FAILURE_CODE_DISK_FULL)"

definition handle_asset_upload_stream_error ::
    "transfer_env \<Rightarrow> payload option \<Rightarrow> os_error \<Rightarrow> pydatetime option \<Rightarrow> transfer_world
     \<Rightarrow> transfer_world \<times> http_response res" where
  "handle_asset_upload_stream_error env metadata_payload error now w =
     (if is_disk_full_os_error error then
        (case (case metadata_payload of
                 None \<Rightarrow> Inr None
               | Some p \<Rightarrow> (case parse_transfer_asset_metadata (te_fromiso env) p of
                              Inl (ValueError _) \<Rightarrow> Inr None
                            | Inl e \<Rightarrow> Inl e
                            | Inr m \<Rightarrow> Inr (if am_schema m = MOBILE_TRANSFER_SCHEMA then Some m else None))) of
           Inl e \<Rightarrow> (w, Inl e)
         | Inr None \<Rightarrow> (w, Inr disk_full_response)
         | Inr (Some m) \<Rightarrow>
             (case utc_now (te_clock env) now of
                Inl e \<Rightarrow> (w, Inl e)
              | Inr current_time \<Rightarrow>
                  (case authorized_context env (tw_db w) MOBILE_TRANSFER_ASSET_PROOF_PURPOSE
                          [MOBILE_BACKUP_SESSION_STATUS_TRANSFERRING] (am_schema m) (am_session_id m)
                          (am_device_uuid m) (am_trust_proof m) of
                     Inl e \<Rightarrow> (w, Inl e)
                   | Inr None \<Rightarrow> (w, Inr disk_full_response)
                   | Inr (Some c) \<Rightarrow>
                       (case mark_transfer_failed c (am_session_id m) (am_device_uuid m) current_time True w of
                          Inl e \<Rightarrow> (w, Inl e)
                        | Inr w' \<Rightarrow> (w', Inr disk_full_response)))))
      else (w, Inr (transfer_response 500 ''rejected''
              (''Desktop failed while receiving transfer asset stream content: '' @ oe_text error) None)))"

end
