(* ===== verification/TransferFilesProps.thy ===== *)
theory TransferFilesProps
  imports TransferFiles
begin

text \<open>
  Properties of the file side of a transfer: names stay inside the month directory, a free path is
  always found, a body is stored byte by byte, no file of the user is touched, and the errors that
  mean a full disk are exactly the ones reported as such.
\<close>

section \<open>Names and paths\<close>

lemma unsafe_chars: "\<not> unsafe_path_char (CHR ''-'')" "unsafe_path_char (CHR ''/'')"
  by code_simp+

lemma default_name_safe: "\<forall>c\<in>set ''asset.bin''. \<not> unsafe_path_char c"
  by code_simp

lemma sanitize_filename_chars:
  "sanitize_filename f \<noteq> [] \<and> hd (sanitize_filename f) \<noteq> CHR ''.'' \<and>
   (\<forall>c\<in>set (sanitize_filename f). \<not> unsafe_path_char c)"
proof -
  let ?a = "sub_runs unsafe_path_char (CHR ''-'') (path_name (path_of f))"
  let ?b = "strip_by (\<lambda>c. c = CHR ''.'') (py_strip ?a)"
  have "\<forall>c\<in>set ?a. \<not> unsafe_path_char c"
    using set_sub_runs [of unsafe_path_char "CHR ''-''" "path_name (path_of f)"]
    using unsafe_chars(1) by blast
  then have "\<forall>c\<in>set ?b. \<not> unsafe_path_char c"
    by (meson set_strip_by subsetD)
  moreover have "?b \<noteq> [] \<Longrightarrow> hd ?b \<noteq> CHR ''.''" by (drule hd_strip_by) simp
  moreover have "sanitize_filename f = (if ?b \<noteq> [] then ?b else ''asset.bin'')"
    by (simp add: sanitize_filename_def Let_def)
  ultimately show ?thesis using default_name_safe by (cases "?b = []") simp_all
qed

lemma sanitize_filename_component:
  "sanitize_filename f \<noteq> [] \<and> CHR ''/'' \<notin> set (sanitize_filename f) \<and> sanitize_filename f \<noteq> ''.'' \<and>
   sanitize_filename f \<noteq> ''..''"
  using sanitize_filename_chars [of f] unsafe_chars(2) by auto

lemma join_sanitized: "path_join d (sanitize_filename f) = (fst d, snd d @ [sanitize_filename f])"
  using sanitize_filename_component by (intro path_join_component) auto

lemma conflict_name_chars: "set (conflict_name n k) \<subseteq> set n \<union> {CHR ''-''} \<union> set (str_nat k)"
proof -
  have "set (name_stem n) \<union> set (name_suffix n) = set n" by (metis set_append stem_suffix)
  then show ?thesis by (auto simp: conflict_name_def)
qed

lemma conflict_name_component:
  assumes "CHR ''/'' \<notin> set n"
  shows "conflict_name n k \<noteq> [] \<and> CHR ''/'' \<notin> set (conflict_name n k) \<and> conflict_name n k \<noteq> ''.'' \<and>
    conflict_name n k \<noteq> ''..''"
proof -
  have "CHR ''-'' \<in> set (conflict_name n k)" by (simp add: conflict_name_def)
  moreover have "CHR ''/'' \<notin> set (conflict_name n k)"
    using conflict_name_chars [of n k] assms str_nat_not_in by auto
  ultimately show ?thesis by force
qed

lemma join_conflict:
  "CHR ''/'' \<notin> set n \<Longrightarrow> path_join d (conflict_name n k) = (fst d, snd d @ [conflict_name n k])"
  using conflict_name_component by (intro path_join_component) auto

lemma fs_exists_list: "fs_exists fs p \<longleftrightarrow> p \<in> set (map fst (fs_files fs) @ fs_dirs fs)"
  by (simp add: fs_exists_def dict_get_def map_of_eq_None_iff)

lemma free_conflict_none:
  "free_conflict_path fuel fs d n a = None \<Longrightarrow> k < fuel \<Longrightarrow> fs_exists fs (path_join d (conflict_name n (a + k)))"
proof (induction fuel arbitrary: a k)
  case (Suc fuel)
  show ?case
  proof (cases k)
    case 0
    with Suc.prems show ?thesis by (auto simp: Let_def split: if_splits)
  next
    case (Suc j)
    have "free_conflict_path fuel fs d n (a + 1) = None"
      using Suc.prems(1) by (auto simp: Let_def split: if_splits)
    from Suc.IH [OF this, of j] Suc.prems(2) Suc show ?thesis by simp
  qed
qed simp

lemma free_conflict_some:
  "free_conflict_path fuel fs d n a = Some p \<Longrightarrow> \<not> fs_exists fs p \<and> (\<exists>k. p = path_join d (conflict_name n k))"
  by (induction fuel arbitrary: a) (auto simp: Let_def split: if_splits)

lemma conflict_path_enough:
  assumes "CHR ''/'' \<notin> set n"
  shows "resolve_conflict_safe_path (conflict_fuel fs) fs d n \<noteq> None"
proof
  let ?f = "\<lambda>k. path_join d (conflict_name n (2 + k))"
  assume "resolve_conflict_safe_path (conflict_fuel fs) fs d n = None"
  then have none: "free_conflict_path (conflict_fuel fs) fs d n 2 = None"
    by (auto simp: resolve_conflict_safe_path_def Let_def split: if_splits)
  have "inj ?f"
    by (rule injI, simp only: join_conflict [OF assms])
      (auto simp: conflict_name_def dest!: str_nat_inj)
  then obtain k where k: "k < Suc (length (map fst (fs_files fs) @ fs_dirs fs))"
      "?f k \<notin> set (map fst (fs_files fs) @ fs_dirs fs)"
    using free_candidate by metis
  then have "k < conflict_fuel fs" by (simp add: conflict_fuel_def)
  from free_conflict_none [OF none this] k(2) show False unfolding fs_exists_list by simp
qed

lemma conflict_path_inside:
  assumes "resolve_conflict_safe_path fuel fs d (sanitize_filename f) = Some p"
  shows "\<not> fs_exists fs p \<and> (\<exists>n. p = (fst d, snd d @ [n]) \<and> n \<noteq> [] \<and> n \<noteq> ''.'' \<and> n \<noteq> ''..'' \<and> CHR ''/'' \<notin> set n)"
  using assms sanitize_filename_component [of f] conflict_name_component [of "sanitize_filename f"]
  by (auto simp: resolve_conflict_safe_path_def Let_def join_sanitized join_conflict
      split: if_splits dest!: free_conflict_some)

text \<open>
  Whatever name a phone sends, the loop over the attempts ends with a path that does not exist
  yet, directly inside the directory: one more component, neither empty nor \<open>.\<close> nor \<open>..\<close>, and
  free of separators.
\<close>
theorem conflict_free_path_found:
  "\<exists>p. resolve_conflict_safe_path (conflict_fuel fs) fs d (sanitize_filename f) = Some p \<and>
     \<not> fs_exists fs p \<and>
     (\<exists>n. p = (fst d, snd d @ [n]) \<and> n \<noteq> [] \<and> n \<noteq> ''.'' \<and> n \<noteq> ''..'' \<and> CHR ''/'' \<notin> set n)"
proof -
  have "resolve_conflict_safe_path (conflict_fuel fs) fs d (sanitize_filename f) \<noteq> None"
    using sanitize_filename_component by (intro conflict_path_enough) simp
  then obtain p where "resolve_conflict_safe_path (conflict_fuel fs) fs d (sanitize_filename f) = Some p"
    by blast
  with conflict_path_inside [OF this] show ?thesis by blast
qed

section \<open>Full disks\<close>

abbreviation exc_edges :: "exc_node list \<Rightarrow> (nat \<times> nat) set" where
  "exc_edges ns \<equiv> {(i, j). i < length ns \<and> j \<in> set (exc_links ns i)}"

abbreviation full_below :: "exc_node list \<Rightarrow> nat set \<Rightarrow> bool" where
  "full_below ns S \<equiv> \<exists>i\<in>S. \<exists>j. (i, j) \<in> (exc_edges ns)\<^sup>* \<and> j < length ns \<and> node_disk_full (ns ! j)"

lemma leaves_closed:
  assumes "(i, j) \<in> E\<^sup>*" and "i \<in> S" and "j \<notin> S" and "E `` S \<subseteq> S \<union> R"
  shows "\<exists>r\<in>R. (r, j) \<in> E\<^sup>*"
  using assms by (induction rule: converse_rtrancl_induct) blast+

lemma disk_full_search_correct:
  assumes "\<forall>i\<in>set seen. i < length ns \<and> \<not> node_disk_full (ns ! i)"
    and "exc_edges ns `` set seen \<subseteq> set seen \<union> set st" and "\<forall>i\<in>set st. i < length ns"
  shows "disk_full_search ns st seen \<longleftrightarrow> full_below ns (set st)"
  using assms
proof (induction ns st seen rule: disk_full_search.induct)
  case (1 ns seen)
  then show ?case by simp
next
  case (2 ns i pending seen)
  show ?case
  proof (cases "i \<in> set seen")
    case True
    have closed: "exc_edges ns `` set seen \<subseteq> set seen \<union> set pending" using 2(4) True by auto
    have "full_below ns (set pending)" if "full_below ns {i}"
    proof -
      from that obtain j where j: "(i, j) \<in> (exc_edges ns)\<^sup>*" "j < length ns" "node_disk_full (ns ! j)"
        by blast
      with 2(3) have "j \<notin> set seen" by blast
      from leaves_closed [OF j(1) True this closed] j show ?thesis by blast
    qed
    then have "full_below ns (set (i # pending)) \<longleftrightarrow> full_below ns (set pending)" by auto
    moreover have "disk_full_search ns pending seen \<longleftrightarrow> full_below ns (set pending)"
      using 2(3,5) closed True by (intro 2(1)) auto
    ultimately show ?thesis using True by simp
  next
    case new: False
    have i: "i < length ns" using 2(5) by simp
    show ?thesis
    proof (cases "node_disk_full (ns ! i)")
      case True
      with new i show ?thesis by auto
    next
      case False
      have "disk_full_search ns (exc_links ns i @ pending) (i # seen) \<longleftrightarrow>
          full_below ns (set (exc_links ns i @ pending))"
        using 2(3-5) i False new
        by (intro 2(2)) (auto simp: exc_links_def)
      moreover have "full_below ns (set (exc_links ns i)) \<longleftrightarrow> full_below ns {i}"
        using i False by (auto elim: converse_rtranclE intro: converse_rtrancl_into_rtrancl)
      ultimately show ?thesis using new i False by auto
    qed
  qed
qed

text \<open>
  \<open>_is_disk_full_os_error\<close> says yes exactly when an \<open>OSError\<close> with \<open>ENOSPC\<close> or Windows error
  112 can be reached from the error over \<^verbatim>\<open>__cause__\<close> and \<^verbatim>\<open>__context__\<close> links, however the
  links branch, share or form cycles; the search always ends.
\<close>
theorem disk_full_exact:
  "is_disk_full_os_error e \<longleftrightarrow>
     (\<exists>j. (0, j) \<in> (exc_edges (oe_nodes e))\<^sup>* \<and> j < length (oe_nodes e) \<and> node_disk_full (oe_nodes e ! j))"
proof (cases "oe_nodes e = []")
  case True
  then show ?thesis by (simp add: is_disk_full_os_error_def)
next
  case False
  then show ?thesis
    unfolding is_disk_full_os_error_def by (subst disk_full_search_correct) auto
qed

section \<open>Storing a body\<close>

fun body_bytes :: "body_blocks \<Rightarrow> byte list" where
  "body_bytes [] = []"
| "body_bytes (Inl e # bs) = []"
| "body_bytes (Inr b # bs) = b @ body_bytes bs"

lemma stream_read_bytes:
  "stream_read n body = Inr (c, body') \<Longrightarrow> body_bytes body = c @ body_bytes body' \<and> length c \<le> n"
  by (induction n body rule: stream_read.induct) (auto split: if_splits)

text \<open>What a call leaves alone, whatever it returns, as one rule per operation.\<close>

lemma fs_read_frames:
  "fs_read (fst (fs_mkdir_parents p fs)) q = fs_read fs q"
  "fs_read (fst (fs_utime p t fs)) q = fs_read fs q"
  "fs_read (fst (fs_close fs)) q = fs_read fs q"
  "q \<noteq> p \<Longrightarrow> fs_read (fst (fs_create p fs)) q = fs_read fs q"
  "q \<noteq> p \<Longrightarrow> fs_read (fst (fs_append p bs fs)) q = fs_read fs q"
  "q \<noteq> p \<Longrightarrow> q \<noteq> p' \<Longrightarrow> fs_read (fst (fs_replace p p' fs)) q = fs_read fs q"
  "q \<noteq> p \<Longrightarrow> fs_read (fst (fs_unlink m p fs)) q = fs_read fs q"
  "fs_read (fst (touch_final p a b fs)) q = fs_read fs q"
  by (auto simp: fs_read_def fs_other fs_close_def fs_call_files touch_final_def split: option.split)

lemma fs_frame:
  assumes "\<And>q. P q \<Longrightarrow> fs_read (fst (m :: pyfs \<times> 'a)) q = fs_read fs q" and "m = (fs', r)" and "P q"
  shows "fs_read fs' q = fs_read fs q"
  using assms(1) [OF assms(3)] assms(2) by simp

lemma fs_seq_frame:
  assumes "fs_read (fst m) q = fs_read fs q" and "\<And>x g. fs_read (fst (f x g)) q = fs_read g q"
  shows "fs_read (fst (fs_seq m f)) q = fs_read fs q"
  using assms by (cases m; cases "snd m") auto

lemma fs_replace_fail:
  "fs_replace p q fs = (fs', Inl e) \<Longrightarrow> fs_read fs' x = fs_read fs x"
  by (auto simp: fs_replace_def fs_call_def fs_read_def split: list.splits option.splits if_splits)

lemma write_loop_frame: "q \<noteq> temp \<Longrightarrow> fs_read (fst (write_loop n temp body acc fs)) q = fs_read fs q"
proof (induction n temp body acc fs rule: write_loop.induct)
  case (1 n temp body acc fs)
  show ?case
  proof (cases "n = 0 \<or> (\<exists>e. stream_read (min TRANSFER_CHUNK_SIZE n) body = Inl e)")
    case True
    then show ?thesis by (subst write_loop.simps) auto
  next
    case False
    then obtain c body' where c: "n \<noteq> 0" "stream_read (min TRANSFER_CHUNK_SIZE n) body = Inr (c, body')"
      by (metis old.sum.exhaust surj_pair)
    obtain fs1 r where app: "fs_append temp c fs = (fs1, r)" by (cases "fs_append temp c fs")
    with fs_read_frames(5) [OF 1(2), of c fs] have same: "fs_read fs1 q = fs_read fs q" by simp
    show ?thesis
    proof (cases "c = [] \<or> (\<exists>e. r = Inl e)")
      case True
      with c app same show ?thesis by (subst write_loop.simps) auto
    next
      case False
      then obtain u where "c \<noteq> []" "r = Inr u" by (cases r) auto
      with c app same 1(1) [OF c(1,2) refl] 1(2) show ?thesis
        by (subst write_loop.simps) auto
    qed
  qed
qed

lemma write_loop_content:
  assumes "write_loop n temp body acc fs = (fs', Inr out)" and "fs_read fs temp = Some acc"
  shows "fs_read fs' temp = Some out \<and> out = acc @ take n (body_bytes body) \<and> n \<le> length (body_bytes body)"
  using assms
proof (induction n temp body acc fs rule: write_loop.induct)
  case (1 n temp body acc fs)
  show ?case
  proof (cases "n = 0")
    case True
    with 1(2,3) show ?thesis by (subst (asm) write_loop.simps) auto
  next
    case False
    with 1(2) obtain c body' where c: "stream_read (min TRANSFER_CHUNK_SIZE n) body = Inr (c, body')" "c \<noteq> []"
      by (subst (asm) write_loop.simps) (auto split: sum.splits prod.splits if_splits)
    with False 1(2) obtain fs1 where app: "fs_append temp c fs = (fs1, Inr ())"
        and rest: "write_loop (n - length c) temp body' (acc @ c) fs1 = (fs', Inr out)"
      by (subst (asm) write_loop.simps) (auto split: sum.splits prod.splits if_splits)
    have read: "fs_read fs1 temp = Some (acc @ c)" using fs_append_Inr [OF app 1(3)] .
    have ih: "fs_read fs' temp = Some out \<and> out = (acc @ c) @ take (n - length c) (body_bytes body') \<and>
        n - length c \<le> length (body_bytes body')"
      using 1(1) [OF False c(1) refl c(2) app [symmetric]] rest read by simp
    have split: "body_bytes body = c @ body_bytes body'" and le: "length c \<le> n"
      using stream_read_bytes [OF c(1)] by auto
    have "n \<le> length (body_bytes body)" using ih le by (auto simp: split)
    moreover have "out = acc @ take n (body_bytes body)" using ih le by (simp add: split)
    ultimately show ?thesis using ih by blast
  qed
qed

lemma write_temp_frame:
  "q \<noteq> temp \<Longrightarrow> fs_read (fst (write_temp_file temp n body fs)) q = fs_read fs q"
proof -
  assume ne: "q \<noteq> temp"
  obtain fs1 r1 where c: "fs_create temp fs = (fs1, r1)" by (cases "fs_create temp fs")
  obtain fs2 r2 where w: "write_loop n temp body [] fs1 = (fs2, r2)" by (cases "write_loop n temp body [] fs1")
  obtain fs3 r3 where cl: "fs_close fs2 = (fs3, r3)" by (cases "fs_close fs2")
  have "fs_read fs1 q = fs_read fs q" "fs_read fs2 q = fs_read fs1 q" "fs_read fs3 q = fs_read fs2 q"
    using fs_read_frames(4) [OF ne, of fs] write_loop_frame [OF ne, of n body "[]" fs1]
      fs_read_frames(3) [of fs2 q] c w cl by simp_all
  then show ?thesis by (cases r1; cases r3) (simp_all add: write_temp_file_def c w cl)
qed

lemma write_temp_content:
  assumes "write_temp_file temp n body fs = (fs', Inr out)"
  shows "fs_read fs' temp = Some out \<and> out = take n (body_bytes body) \<and> n \<le> length (body_bytes body)"
proof -
  from assms obtain fs1 fs2 where c: "fs_create temp fs = (fs1, Inr ())"
      and w: "write_loop n temp body [] fs1 = (fs2, Inr out)" and cl: "fs_close fs2 = (fs', Inr ())"
    by (auto simp: write_temp_file_def split: prod.splits sum.splits)
  have "fs_read fs1 temp = Some []" using fs_create_Inr [OF c] by simp
  from write_loop_content [OF w this] fs_read_frames(3) [of fs2 temp] cl show ?thesis by simp
qed

lemma remove_temp_frame:
  "q \<noteq> temp \<Longrightarrow> fs_read (fst (remove_temp temp m)) q = fs_read (fst m) q"
  using fs_read_frames(7) [of q temp False "fst m"]
  by (cases m) (auto simp: remove_temp_def split: prod.splits sum.splits)

lemma remove_temp_Inr:
  "remove_temp temp m = (fs', Inr x) \<Longrightarrow> snd m = Inr x \<and> (fs' = fst m \<or> fs_read fs' temp = None)"
  by (cases m) (auto simp: remove_temp_def split: if_splits prod.splits sum.splits dest: fs_unlink_Inr)

lemma store_body_frame:
  assumes "q \<noteq> temp" and "q \<noteq> final"
  shows "fs_read (fst (store_body temp final ca ua n body fs)) q = fs_read fs q"
proof -
  obtain fs1 r1 where w: "write_temp_file temp n body fs = (fs1, r1)" by (cases "write_temp_file temp n body fs")
  have 1: "fs_read fs1 q = fs_read fs q" using write_temp_frame [OF assms(1), of n body fs] w by simp
  obtain fs2 r2 where mv: "fs_replace temp final fs1 = (fs2, r2)" by (cases "fs_replace temp final fs1")
  have 2: "fs_read fs2 q = fs_read fs1 q" using fs_read_frames(6) [OF assms, of fs1] mv by simp
  obtain fs3 r3 where t: "touch_final final ca ua fs2 = (fs3, r3)" by (cases "touch_final final ca ua fs2")
  have 3: "fs_read fs3 q = fs_read fs2 q" using fs_read_frames(8) [of final ca ua fs2 q] t by simp
  show ?thesis
    unfolding store_body_def remove_temp_frame [OF assms(1)] using 1 2 3 w mv t
    by (cases r1; cases r2; cases r3) simp_all
qed

lemma store_body_content:
  assumes "store_body temp final ca ua n body fs = (fs', Inr out)" and "temp \<noteq> final"
  shows "fs_read fs' final = Some out \<and> out = take n (body_bytes body) \<and> n \<le> length (body_bytes body) \<and> fs_read fs' temp = None"
proof -
  let ?m = "fs_seq (write_temp_file temp n body fs) (\<lambda>written fs.
        fs_seq (fs_replace temp final fs) (\<lambda>_ fs.
        fs_seq (touch_final final ca ua fs) (\<lambda>_ fs. (fs, Inr written))))"
  have res: "snd ?m = Inr out" "fs' = fst ?m \<or> fs_read fs' temp = None"
    using remove_temp_Inr [of temp ?m fs' out] assms(1) unfolding store_body_def by simp_all
  obtain fs1 written where w: "write_temp_file temp n body fs = (fs1, Inr written)"
    using res(1) by (auto simp: fs_seq_def split: prod.splits sum.splits)
  obtain fs2 where mv: "fs_replace temp final fs1 = (fs2, Inr ())"
    using res(1) w by (auto simp: fs_seq_def split: prod.splits sum.splits)
  obtain fs3 where t: "touch_final final ca ua fs2 = (fs3, Inr ())"
    using res(1) w mv by (auto simp: fs_seq_def split: prod.splits sum.splits)
  have m: "?m = (fs3, Inr written)" by (simp add: w mv t)
  have wr: "fs_read fs1 temp = Some out \<and> out = take n (body_bytes body) \<and> n \<le> length (body_bytes body)"
    using write_temp_content [OF w] res(1) m by simp
  have moved: "fs_read fs2 final = Some out" "fs_read fs2 temp = None"
    using fs_replace_Inr [OF mv assms(2)] wr by auto
  have touched: "fs_read fs3 q = fs_read fs2 q" for q
    using fs_read_frames(8) [of final ca ua fs2 q] t by simp
  have "fs_read fs' final = fs_read (fst ?m) final"
    using remove_temp_frame [of final temp ?m] assms unfolding store_body_def by simp
  with m moved touched [of final] touched [of temp] wr res(2) show ?thesis by auto
qed

text \<open>The steps of \<open>_write_asset_to_folder\<close> up to the body: a month directory and a free path in it.\<close>

lemma relative_two: "path_relative_to (fst root, snd root @ [a, b]) root = Inr ([], [a, b])"
  by (simp add: path_relative_to_def)

lemma month_component:
  "dt_year_month t \<noteq> [] \<and> CHR ''/'' \<notin> set (dt_year_month t) \<and> dt_year_month t \<noteq> ''.'' \<and> dt_year_month t \<noteq> ''..''"
  using year_month_chars [of t] year_month_nonempty [of t] by (force simp: date_chars_def)

lemma month_join:
  assumes "target_month_directory clock ca ua = Inr month"
  shows "path_join root month = (fst root, snd root @ [month]) \<and> month \<noteq> [] \<and> CHR ''/'' \<notin> set month \<and>
    month \<noteq> ''.'' \<and> month \<noteq> ''..''"
proof -
  obtain t where "month = dt_year_month t"
    using assms by (auto simp: target_month_directory_def Let_def exn_simps)
  with month_component [of t] show ?thesis by (simp add: path_join_component)
qed

text \<open>No file of the disk carries the identifier that was drawn for the temporary file.\<close>

definition fresh_part :: "pyfs \<Rightarrow> string \<Rightarrow> bool" where
  "fresh_part fs part_id \<longleftrightarrow> CHR ''/'' \<notin> set part_id \<and>
     list_all (\<lambda>p. \<not> py_endswith (path_name p) (part_id @ ''.part'')) (map fst (fs_files fs))"

lemma part_name_component:
  "CHR ''/'' \<notin> set n \<Longrightarrow> CHR ''/'' \<notin> set pid \<Longrightarrow>
     path_join d (part_name n pid) = (fst d, snd d @ [part_name n pid])"
  by (rule path_join_component) (auto simp: part_name_def)

lemma fresh_part_unused:
  assumes "fresh_part fs pid" and "path_name p = part_name n pid"
  shows "fs_read fs p = None"
proof (rule ccontr)
  assume "fs_read fs p \<noteq> None"
  then have "p \<in> set (map fst (fs_files fs))"
    by (auto simp: fs_read_def dict_get_def map_of_eq_None_iff)
  with assms(1) have "\<not> py_endswith (part_name n pid) (pid @ ''.part'')"
    by (auto simp: fresh_part_def list_all_iff assms(2)[symmetric])
  then show False by (simp add: py_endswith_def part_name_def)
qed

definition asset_path :: "string \<Rightarrow> string \<Rightarrow> string \<Rightarrow> ppath" where
  "asset_path folder_path month name =
     (fst (path_of folder_path), snd (path_of folder_path) @ [month, name])"

definition plain_component :: "string \<Rightarrow> bool" where
  "plain_component n \<longleftrightarrow> n \<noteq> [] \<and> n \<noteq> ''.'' \<and> n \<noteq> ''..'' \<and> CHR ''/'' \<notin> set n"

lemma write_asset_run:
  assumes fresh: "fresh_part fs pid"
    and run: "write_asset_to_folder sha1 clock pid folder f ca ua body len fs = (fs', r)"
  obtains (early) e where "r = Inl e" "\<And>q. fs_read fs' q = fs_read fs q"
  | (body) fs1 month name temp res where "\<And>q. fs_read fs1 q = fs_read fs q"
      "\<not> fs_exists fs1 (asset_path folder month name)" "plain_component month" "plain_component name"
      "path_name temp = part_name name pid" "fs_read fs temp = None" "temp \<noteq> asset_path folder month name"
      "store_body temp (asset_path folder month name) ca ua (nat len) body fs1 = (fs', res)"
      "r = (case res of Inl e \<Rightarrow> Inl (OSError e) | Inr w \<Rightarrow>
         Inr \<lparr>sa_local_relative_path = month @ ''/'' @ name, sa_content_sha1 = sha1 w,
              sa_file_size_bytes = int (length w)\<rparr>)"
proof (cases "target_month_directory clock ca ua")
  case (Inl e)
  with run show ?thesis by (intro early) (auto simp: write_asset_to_folder_def Let_def)
next
  case (Inr month)
  let ?root = "path_of folder"
  let ?d = "(fst ?root, snd ?root @ [month])"
  note month = month_join [OF Inr, of ?root]
  obtain fs1 m where mk: "fs_mkdir_parents ?d fs = (fs1, m)" by (cases "fs_mkdir_parents ?d fs")
  have same: "fs_read fs1 q = fs_read fs q" for q
    using fs_read_frames(1) [of ?d fs q] mk by simp
  show ?thesis
  proof (cases m)
    case (Inl e)
    with run Inr month mk same show ?thesis
      by (intro early) (auto simp: write_asset_to_folder_def Let_def)
  next
    case ok: (Inr u)
    have "resolve_conflict_safe_path (conflict_fuel fs1) fs1 ?d (sanitize_filename f) \<noteq> None"
      using sanitize_filename_component by (intro conflict_path_enough) simp
    then obtain final where final: "resolve_conflict_safe_path (conflict_fuel fs1) fs1 ?d (sanitize_filename f) = Some final"
      by blast
    from conflict_path_inside [OF this] obtain name where name: "\<not> fs_exists fs1 final"
        "final = asset_path folder month name" "plain_component name"
      by (auto simp: asset_path_def plain_component_def)
    then have pn: "path_name final = name" by (simp add: path_name_def asset_path_def)
    let ?temp = "path_join ?d (part_name name pid)"
    have temp: "?temp = (fst ?root, snd ?root @ [month, part_name name pid])"
      using name(3) fresh by (subst part_name_component) (simp_all add: plain_component_def fresh_part_def)
    then have tn: "path_name ?temp = part_name name pid" by (simp add: path_name_def)
    have len_eq: "length (part_name name pid) \<noteq> length name" by (simp add: part_name_def)
    then have "part_name name pid \<noteq> name" by metis
    then have ne: "?temp \<noteq> asset_path folder month name" using temp by (simp add: asset_path_def)
    obtain res where st: "store_body ?temp (asset_path folder month name) ca ua (nat len) body fs1 = (fs', res)"
        and r: "r = (case res of Inl e \<Rightarrow> Inl (OSError e) | Inr w \<Rightarrow>
           stored_at ?root final (sha1 w) (int (length w)))"
      using run Inr ok month mk final name(2) pn
      by (auto simp: write_asset_to_folder_def Let_def split: prod.splits sum.splits)
    have "stored_at ?root final h n = Inr \<lparr>sa_local_relative_path = month @ ''/'' @ name,
        sa_content_sha1 = h, sa_file_size_bytes = n\<rparr>" for h n
      by (simp add: stored_at_def name(2) asset_path_def relative_two path_posix_def)
    with r st ne name month same tn fresh_part_unused [OF fresh tn] show ?thesis
      by (intro body [of fs1 month name ?temp res]) (auto simp: plain_component_def cong: sum.case_cong)
  qed
qed

lemma write_asset_other_files:
  assumes "fresh_part fs pid"
    and "write_asset_to_folder sha1 clock pid folder f ca ua body len fs = (fs', r)"
    and "fs_read fs q = Some c"
  shows "fs_read fs' q = Some c"
proof (rule write_asset_run [OF assms(1,2)])
  fix e
  assume "\<And>q. fs_read fs' q = fs_read fs q"
  with assms(3) show ?thesis by simp
next
  fix fs1 month name temp res
  assume *: "\<And>q. fs_read fs1 q = fs_read fs q" "\<not> fs_exists fs1 (asset_path folder month name)"
    "fs_read fs temp = None" "store_body temp (asset_path folder month name) ca ua (nat len) body fs1 = (fs', res)"
  then have "q \<noteq> temp" "q \<noteq> asset_path folder month name"
    using assms(3) *(1) [of q] by (auto simp: fs_exists_def fs_read_def)
  from store_body_frame [OF this, of ca ua "nat len" body fs1] * assms(3) show ?thesis by simp
qed

text \<open>
  C24. Storing an uploaded body never changes or removes a file that was there, whichever calls of
  the file system fail and wherever the body stops.
\<close>
theorem write_asset_keeps_files:
  assumes "fresh_part fs pid"
    and "write_asset_to_folder sha1 clock pid folder f ca ua body len fs = (fs', r)"
    and "fs_read fs q = Some c"
  shows "fs_read fs' q = Some c"
  using assms by (rule write_asset_other_files)

lemma body_stored:
  assumes "fresh_part fs pid"
    and "write_asset_to_folder sha1 clock pid folder f ca ua body len fs = (fs', Inr st)"
  shows "\<exists>month name. plain_component month \<and> plain_component name \<and>
    sa_local_relative_path st = month @ ''/'' @ name \<and>
    fs_read fs (asset_path folder month name) = None \<and>
    fs_read fs' (asset_path folder month name) = Some (take (nat len) (body_bytes body)) \<and>
    sa_content_sha1 st = sha1 (take (nat len) (body_bytes body)) \<and>
    sa_file_size_bytes st = int (nat len) \<and> nat len \<le> length (body_bytes body) \<and>
    (\<forall>q. q \<noteq> asset_path folder month name \<longrightarrow> fs_read fs' q = fs_read fs q)"
proof (rule write_asset_run [OF assms])
  fix e
  assume "Inr st = Inl e"
  then show ?thesis by simp
next
  fix fs1 month name temp res
  assume same: "\<And>q. fs_read fs1 q = fs_read fs q" and free: "\<not> fs_exists fs1 (asset_path folder month name)"
    and comp: "plain_component month" "plain_component name"
    and temp: "fs_read fs temp = None" "temp \<noteq> asset_path folder month name"
    and run: "store_body temp (asset_path folder month name) ca ua (nat len) body fs1 = (fs', res)"
    and r: "Inr st = (case res of Inl e \<Rightarrow> Inl (OSError e) | Inr w \<Rightarrow>
         Inr \<lparr>sa_local_relative_path = month @ ''/'' @ name, sa_content_sha1 = sha1 w,
              sa_file_size_bytes = int (length w)\<rparr>)"
  from r obtain w where w: "res = Inr w" "st = \<lparr>sa_local_relative_path = month @ ''/'' @ name,
      sa_content_sha1 = sha1 w, sa_file_size_bytes = int (length w)\<rparr>"
    by (cases res) auto
  note content = store_body_content [OF run [unfolded w(1)] temp(2)]
  have "fs_read fs' q = fs_read fs q" if "q \<noteq> asset_path folder month name" for q
  proof (cases "q = temp")
    case True
    with content temp(1) show ?thesis by simp
  next
    case False
    from store_body_frame [OF False that, of ca ua "nat len" body fs1] run same show ?thesis by simp
  qed
  moreover have "fs_read fs (asset_path folder month name) = None"
    using free same [of "asset_path folder month name"] by (auto simp: fs_exists_def fs_read_def)
  ultimately show ?thesis using content w comp by auto
qed

text \<open>
  C23. A stored body is stored byte by byte: the new file, in a month directory of the phone's
  folder, holds exactly the first \<open>content_length\<close> bytes of the body, the reported size and SHA-1
  are those of these bytes, and no other file has changed, so no temporary file is left.
\<close>
theorem write_asset_stores_body:
  assumes "fresh_part fs pid"
    and "write_asset_to_folder sha1 clock pid folder f ca ua body len fs = (fs', Inr st)"
  shows "\<exists>month name. plain_component month \<and> plain_component name \<and>
    sa_local_relative_path st = month @ ''/'' @ name \<and>
    fs_read fs (asset_path folder month name) = None \<and>
    fs_read fs' (asset_path folder month name) = Some (take (nat len) (body_bytes body)) \<and>
    sa_content_sha1 st = sha1 (take (nat len) (body_bytes body)) \<and>
    sa_file_size_bytes st = int (nat len) \<and> nat len \<le> length (body_bytes body) \<and>
    (\<forall>q. q \<noteq> asset_path folder month name \<longrightarrow> fs_read fs' q = fs_read fs q)"
  using assms by (rule body_stored)

section \<open>Moving a staged file\<close>

lemma copy_frame:
  assumes "q \<noteq> src" and "q \<noteq> dst"
  shows "fs_read (fst (fs_seq (fs_create dst fs) (\<lambda>_ fs. fs_seq (fs_append dst (g fs) fs) (\<lambda>_ fs.
      fs_seq (fs_close fs) (\<lambda>_ fs. fs_unlink False src fs))))) q = fs_read fs q"
  using assms by (intro fs_seq_frame fs_read_frames) auto

lemma shutil_move_frame:
  assumes "q \<noteq> src" and "q \<noteq> dst"
  shows "fs_read (fst (shutil_move src dst fs)) q = fs_read fs q"
proof -
  obtain fs1 r where mv: "fs_replace src dst fs = (fs1, r)" by (cases "fs_replace src dst fs")
  have "fs_read fs1 q = fs_read fs q" using fs_read_frames(6) [OF assms, of fs] mv by simp
  with copy_frame [OF assms, where g = "\<lambda>fs. case fs_read fs src of None \<Rightarrow> [] | Some bs \<Rightarrow> bs" and fs = fs1] mv
  show ?thesis by (cases r) (auto simp: shutil_move_def split: prod.splits sum.splits)
qed

lemma move_frame:
  assumes "q \<noteq> src" and "q \<noteq> dst"
  shows "fs_read (fst (move_or_copy src dst fs)) q = fs_read fs q"
proof -
  obtain fs1 r where mv: "fs_replace src dst fs = (fs1, r)" by (cases "fs_replace src dst fs")
  have "fs_read fs1 q = fs_read fs q" using fs_read_frames(6) [OF assms, of fs] mv by simp
  with shutil_move_frame [OF assms, of fs1] mv show ?thesis
    by (cases r) (auto simp: move_or_copy_def split: prod.splits sum.splits)
qed

lemma copy_content:
  assumes "fs_seq (fs_create dst fs) (\<lambda>_ fs.
      fs_seq (fs_append dst (case fs_read fs src of None \<Rightarrow> [] | Some bs \<Rightarrow> bs) fs) (\<lambda>_ fs.
      fs_seq (fs_close fs) (\<lambda>_ fs. fs_unlink False src fs))) = (fs', Inr u)"
    and "src \<noteq> dst" and "fs_read fs src = Some bytes"
  shows "fs_read fs' dst = Some bytes \<and> fs_read fs' src = None"
proof -
  from assms(1) obtain fs1 where c: "fs_create dst fs = (fs1, Inr ())"
    by (auto simp: fs_seq_def split: prod.splits sum.splits)
  have src: "fs_read fs1 src = Some bytes"
    using fs_read_frames(4) [OF assms(2), of fs] c assms(3) by simp
  with assms(1) c obtain fs2 fs3 where a: "fs_append dst bytes fs1 = (fs2, Inr ())"
      and cl: "fs_close fs2 = (fs3, Inr ())" and un: "fs_unlink False src fs3 = (fs', Inr u)"
    by (auto simp: fs_seq_def split: prod.splits sum.splits)
  have "fs_read fs2 dst = Some bytes"
    using fs_append_Inr [OF a, of "[]"] fs_create_Inr [OF c] by simp
  then have "fs_read fs3 dst = Some bytes" using fs_read_frames(3) [of fs2 dst] cl by simp
  moreover have "fs_read fs' dst = fs_read fs3 dst"
    using fs_read_frames(7) [of dst src False fs3] un assms(2) by auto
  ultimately show ?thesis using fs_unlink_Inr un by (cases u) auto
qed

lemma move_content:
  assumes "move_or_copy src dst fs = (fs', Inr u)" and "src \<noteq> dst" and "fs_read fs src = Some bytes"
  shows "fs_read fs' dst = Some bytes \<and> fs_read fs' src = None"
proof -
  obtain fs1 r where mv: "fs_replace src dst fs = (fs1, r)" by (cases "fs_replace src dst fs")
  show ?thesis
  proof (cases r)
    case (Inr x)
    with mv assms show ?thesis using fs_replace_Inr [of src dst fs fs'] by (auto simp: move_or_copy_def)
  next
    case (Inl e)
    have src1: "fs_read fs1 src = Some bytes" using fs_replace_fail mv Inl assms(3) by metis
    obtain fs2 r2 where mv2: "fs_replace src dst fs1 = (fs2, r2)" by (cases "fs_replace src dst fs1")
    have "shutil_move src dst fs1 = (fs', Inr u)"
      using assms(1) mv Inl by (auto simp: move_or_copy_def split: if_splits prod.splits sum.splits)
    note sh = this [unfolded shutil_move_def mv2]
    show ?thesis
    proof (cases r2)
      case (Inr x)
      with sh mv2 src1 assms(2) show ?thesis using fs_replace_Inr [of src dst fs1 fs'] by auto
    next
      case (Inl e2)
      have "fs_read fs2 src = Some bytes" using fs_replace_fail mv2 Inl src1 by metis
      with copy_content [of dst fs2 src fs' _ bytes] sh Inl assms(2) show ?thesis
        by (auto split: prod.splits sum.splits)
    qed
  qed
qed

lemma move_staged_run:
  assumes run: "move_staged_asset_to_folder sha1 clock folder f ca ua staged len given expected fs = (fs', r)"
  obtains (early) e where "r = Inl e" "\<And>q. fs_read fs' q = fs_read fs q"
  | (move) fs1 month name bytes h res where "\<And>q. fs_read fs1 q = fs_read fs q"
      "target_month_directory clock ca ua = Inr month"
      "\<not> fs_exists fs1 (asset_path folder month name)" "plain_component month" "plain_component name"
      "fs_read fs staged = Some bytes" "int (length bytes) = len"
      "h = (let p = py_lower (py_strip (case given of None \<Rightarrow> [] | Some s \<Rightarrow> s)) in if p = [] then sha1 bytes else p)"
      "\<And>s. expected = Some s \<Longrightarrow> h = py_lower s"
      "fs_seq (move_or_copy staged (asset_path folder month name) fs1)
         (\<lambda>_ fs. touch_final (asset_path folder month name) ca ua fs) = (fs', res)"
      "r = (case res of Inl e \<Rightarrow> Inl (OSError e) | Inr w \<Rightarrow>
         Inr \<lparr>sa_local_relative_path = month @ ''/'' @ name, sa_content_sha1 = h, sa_file_size_bytes = len\<rparr>)"
proof (cases "target_month_directory clock ca ua")
  case (Inl e)
  with run show ?thesis by (intro early) (auto simp: move_staged_asset_to_folder_def Let_def)
next
  case (Inr month)
  let ?root = "path_of folder"
  let ?d = "(fst ?root, snd ?root @ [month])"
  note month = month_join [OF Inr, of ?root]
  obtain fs1 m where mk: "fs_mkdir_parents ?d fs = (fs1, m)" by (cases "fs_mkdir_parents ?d fs")
  have same: "fs_read fs1 q = fs_read fs q" for q
    using fs_read_frames(1) [of ?d fs q] mk by simp
  have "resolve_conflict_safe_path (conflict_fuel fs1) fs1 ?d (sanitize_filename f) \<noteq> None"
    using sanitize_filename_component by (intro conflict_path_enough) simp
  then obtain final where final: "resolve_conflict_safe_path (conflict_fuel fs1) fs1 ?d (sanitize_filename f) = Some final"
    by blast
  from conflict_path_inside [OF this] obtain name where name: "\<not> fs_exists fs1 final"
      "final = asset_path folder month name" "plain_component name"
    by (auto simp: asset_path_def plain_component_def)
  have st: "stored_at ?root final h n = Inr \<lparr>sa_local_relative_path = month @ ''/'' @ name,
      sa_content_sha1 = h, sa_file_size_bytes = n\<rparr>" for h n
    by (simp add: stored_at_def name(2) asset_path_def relative_two path_posix_def)
  note run' = run [unfolded move_staged_asset_to_folder_def Let_def Inr, simplified, unfolded month [THEN conjunct1] mk]
  show ?thesis
  proof (cases "m = Inr () \<and> fs_read fs1 staged \<noteq> None")
    case False
    show ?thesis
    proof (cases m)
      case (Inl e)
      with run' same show ?thesis by (intro early [of "OSError e"]) auto
    next
      case (Inr x)
      with False run' same final show ?thesis by (intro early) auto
    qed
  next
    case True
    then obtain bytes where m: "m = Inr ()" and bytes: "fs_read fs1 staged = Some bytes" by blast
    let ?p = "py_lower (py_strip (case given of None \<Rightarrow> [] | Some s \<Rightarrow> s))"
    define h where "h = (if ?p = [] then sha1 bytes else ?p)"
    obtain res fs2 where mv: "fs_seq (move_or_copy staged final fs1) (\<lambda>_ fs. touch_final final ca ua fs) = (fs2, res)"
      by (metis surj_pair)
    have hh: "(if ?p = [] then compute_file_sha1 sha1 staged fs1 else ?p) = h"
      by (simp add: h_def compute_file_sha1_def bytes)
    show ?thesis
    proof (cases "int (length bytes) \<noteq> len \<or> (\<exists>s. expected = Some s \<and> h \<noteq> py_lower s)")
      case True
      with run' m final bytes hh have "(\<exists>e. r = Inl e) \<and> fs' = fs1"
        by (auto split: if_splits option.splits)
      with same early show ?thesis by blast
    next
      case False
      then have ok: "int (length bytes) = len" "\<not> (case expected of None \<Rightarrow> False | Some s \<Rightarrow> h \<noteq> py_lower s)"
        by (auto split: option.splits)
      have "(fs', r) = (case (fs2, res) of (fs2, Inl e) \<Rightarrow> (fs2, Inl (OSError e))
          | (fs2, Inr _) \<Rightarrow> (fs2, stored_at ?root final h len))"
        using run' m final bytes ok mv unfolding hh [symmetric] by simp
      then have "fs' = fs2" "r = (case res of Inl e \<Rightarrow> Inl (OSError e) | Inr w \<Rightarrow>
         Inr \<lparr>sa_local_relative_path = month @ ''/'' @ name, sa_content_sha1 = h, sa_file_size_bytes = len\<rparr>)"
        by (auto simp: st split: sum.splits)
      with month name bytes same ok mv Inr False show ?thesis
        by (intro move [of fs1 month name bytes h res])
          (auto simp: plain_component_def h_def Let_def)
    qed
  qed
qed

lemma move_staged_other_files:
  assumes "move_staged_asset_to_folder sha1 clock folder f ca ua staged len given expected fs = (fs', r)"
    and "fs_read fs q = Some c" and "q \<noteq> staged"
  shows "fs_read fs' q = Some c"
proof (rule move_staged_run [OF assms(1)])
  fix e
  assume "\<And>q. fs_read fs' q = fs_read fs q"
  with assms(2) show ?thesis by simp
next
  fix fs1 month name bytes h res
  let ?final = "asset_path folder month name"
  assume same: "\<And>q. fs_read fs1 q = fs_read fs q" and free: "\<not> fs_exists fs1 ?final"
    and run: "fs_seq (move_or_copy staged ?final fs1) (\<lambda>_ fs. touch_final ?final ca ua fs) = (fs', res)"
  have "q \<noteq> ?final" using free assms(2) same [of q] by (auto simp: fs_exists_def fs_read_def)
  then have "fs_read (fst (fs_seq (move_or_copy staged ?final fs1) (\<lambda>_ fs. touch_final ?final ca ua fs))) q
      = fs_read fs1 q"
    using move_frame [OF assms(3), of ?final fs1] fs_read_frames(8) by (intro fs_seq_frame) auto
  with run same assms(2) show ?thesis by simp
qed

text \<open>
  Storing a staged file never changes or removes a file other than the staged one, whichever
  calls fail, also on the path that copies to another device.
\<close>
theorem move_staged_keeps_files:
  assumes "move_staged_asset_to_folder sha1 clock folder f ca ua staged len given expected fs = (fs', r)"
    and "fs_read fs q = Some c" and "q \<noteq> staged"
  shows "fs_read fs' q = Some c"
  using assms by (rule move_staged_other_files)

lemma staged_file_stored:
  assumes "move_staged_asset_to_folder sha1 clock folder f ca ua staged len given expected fs = (fs', Inr st)"
    and "fs_read fs staged = Some bytes"
  shows "\<exists>month name. plain_component month \<and> plain_component name \<and>
    sa_local_relative_path st = month @ ''/'' @ name \<and>
    fs_read fs (asset_path folder month name) = None \<and>
    fs_read fs' (asset_path folder month name) = Some bytes \<and> fs_read fs' staged = None \<and>
    sa_file_size_bytes st = int (length bytes) \<and>
    sa_content_sha1 st = (let p = py_lower (py_strip (case given of None \<Rightarrow> [] | Some s \<Rightarrow> s)) in if p = [] then sha1 bytes else p) \<and>
    (case expected of None \<Rightarrow> True | Some s \<Rightarrow> sa_content_sha1 st = py_lower s)"
proof (rule move_staged_run [OF assms(1)])
  fix e
  assume "Inr st = Inl e"
  then show ?thesis by simp
next
  fix fs1 month name bs h res
  let ?final = "asset_path folder month name"
  assume same: "\<And>q. fs_read fs1 q = fs_read fs q" and free: "\<not> fs_exists fs1 ?final"
    and comp: "plain_component month" "plain_component name"
    and bs: "fs_read fs staged = Some bs" "int (length bs) = len"
    and h: "h = (let p = py_lower (py_strip (case given of None \<Rightarrow> [] | Some s \<Rightarrow> s)) in if p = [] then sha1 bs else p)"
      "\<And>s. expected = Some s \<Longrightarrow> h = py_lower s"
    and run: "fs_seq (move_or_copy staged ?final fs1) (\<lambda>_ fs. touch_final ?final ca ua fs) = (fs', res)"
    and r: "Inr st = (case res of Inl e \<Rightarrow> Inl (OSError e) | Inr w \<Rightarrow>
         Inr \<lparr>sa_local_relative_path = month @ ''/'' @ name, sa_content_sha1 = h, sa_file_size_bytes = len\<rparr>)"
  from r obtain w where w: "res = Inr w" by (cases res) auto
  from run w obtain fs2 where mv: "move_or_copy staged ?final fs1 = (fs2, Inr ())"
      and t: "touch_final ?final ca ua fs2 = (fs', Inr w)"
    by (auto simp: fs_seq_def split: prod.splits sum.splits)
  have none: "fs_read fs1 ?final = None" using free by (auto simp: fs_exists_def fs_read_def)
  then have ne: "staged \<noteq> ?final" using bs same by auto
  have "fs_read fs2 ?final = Some bs \<and> fs_read fs2 staged = None"
    using move_content [OF mv ne] bs same by simp
  moreover have "fs_read fs' q = fs_read fs2 q" for q
    using fs_read_frames(8) [of ?final ca ua fs2 q] t by simp
  ultimately have "fs_read fs' ?final = Some bs \<and> fs_read fs' staged = None" by simp
  with r w comp h bs assms(2) same none show ?thesis
    by (auto split: option.split)
qed

text \<open>
  When a staged upload is stored, its file has been moved: the bytes are unchanged, the staged
  file is gone, the declared length is the real one, and the digest that is recorded is the one
  that came with the upload (or the computed one) and equals the one that the metadata announced.
\<close>
theorem move_staged_stores_file:
  assumes "move_staged_asset_to_folder sha1 clock folder f ca ua staged len given expected fs = (fs', Inr st)"
    and "fs_read fs staged = Some bytes"
  shows "\<exists>month name. plain_component month \<and> plain_component name \<and>
    sa_local_relative_path st = month @ ''/'' @ name \<and>
    fs_read fs (asset_path folder month name) = None \<and>
    fs_read fs' (asset_path folder month name) = Some bytes \<and> fs_read fs' staged = None \<and>
    sa_file_size_bytes st = int (length bytes) \<and>
    sa_content_sha1 st = (let p = py_lower (py_strip (case given of None \<Rightarrow> [] | Some s \<Rightarrow> s)) in if p = [] then sha1 bytes else p) \<and>
    (case expected of None \<Rightarrow> True | Some s \<Rightarrow> sa_content_sha1 st = py_lower s)"
  using assms by (rule staged_file_stored)

lemma path_self_prefix: "(a, b) \<in> set (path_prefixes (a, b))"
  by (auto simp: path_prefixes_def image_iff)

text \<open>A staged upload whose directory can be made reaches the move.\<close>

lemma staged_upload_reaches_move:
  assumes month: "target_month_directory clock ca ua = Inr month"
    and bytes: "fs_read fs staged = Some bytes" and faults: "fs_faults fs = None # rest"
    and prefixes: "\<forall>p\<in>set (path_prefixes (path_join (path_of folder) month)). dict_get (fs_files fs) p = None"
  obtains fs1 name where "fs_files fs1 = fs_files fs" "fs_faults fs1 = rest"
    "\<not> fs_exists fs1 (asset_path folder month name)"
    "path_parent (asset_path folder month name) \<in> set (fs_dirs fs1)"
    "fs_read fs1 staged = Some bytes" "staged \<noteq> asset_path folder month name"
    "\<And>fs2 e. fs_seq (move_or_copy staged (asset_path folder month name) fs1)
       (\<lambda>_ fs. touch_final (asset_path folder month name) ca ua fs) = (fs2, Inl e) \<Longrightarrow>
     move_staged_asset_to_folder sha1 clock folder f ca ua staged (int (length bytes)) given None fs =
       (fs2, Inl (OSError e))"
proof -
  let ?root = "path_of folder"
  let ?d = "(fst ?root, snd ?root @ [month])"
  note m = month_join [OF month, of ?root]
  obtain fs1 where mk: "fs_mkdir_parents ?d fs = (fs1, Inr ())" and fl: "fs_faults fs1 = rest"
      and same: "fs_files fs1 = fs_files fs" and dir: "?d \<in> set (fs_dirs fs1)"
    using faults prefixes m path_self_prefix [of "fst ?root" "snd ?root @ [month]"]
    by (auto simp: fs_mkdir_parents_def fs_call_def list_ex_iff)
  have "resolve_conflict_safe_path (conflict_fuel fs1) fs1 ?d (sanitize_filename f) \<noteq> None"
    using sanitize_filename_component by (intro conflict_path_enough) simp
  then obtain final where final: "resolve_conflict_safe_path (conflict_fuel fs1) fs1 ?d (sanitize_filename f) = Some final"
    by blast
  from conflict_path_inside [OF this] obtain name where name: "\<not> fs_exists fs1 final"
      "final = asset_path folder month name"
    by (auto simp: asset_path_def)
  have read: "fs_read fs1 staged = Some bytes" using bytes same by (simp add: fs_read_def)
  have "staged \<noteq> final" using name(1) read by (auto simp: fs_exists_def fs_read_def)
  moreover have "path_parent (asset_path folder month name) = ?d"
    by (simp add: path_parent_def asset_path_def butlast_append)
  moreover have "move_staged_asset_to_folder sha1 clock folder f ca ua staged (int (length bytes)) given None fs =
       (fs2, Inl (OSError e))"
    if "fs_seq (move_or_copy staged final fs1) (\<lambda>_ fs. touch_final final ca ua fs) = (fs2, Inl e)" for fs2 e
    by (simp add: move_staged_asset_to_folder_def Let_def month m mk final read that)
  ultimately show ?thesis using that same fl name read dir by metis
qed

text \<open>
  When setting the times fails after the move, the request fails although the file has been
  stored: the staged file is gone, the asset lies in the month directory, and no record of it is
  returned, so nothing will refer to it and the phone sends it again.
\<close>
theorem utime_failure_orphans_file:
  assumes "target_month_directory clock ca (Some t) = Inr month"
    and "fs_read fs staged = Some bytes" and "fs_faults fs = [None, None, Some e]"
    and "\<forall>p\<in>set (path_prefixes (path_join (path_of folder) month)). dict_get (fs_files fs) p = None"
  shows "\<exists>fs' name. move_staged_asset_to_folder sha1 clock folder f ca (Some t) staged (int (length bytes))
      given None fs = (fs', Inl (OSError e)) \<and> fs_read fs' staged = None \<and>
    fs_read fs' (asset_path folder month name) = Some bytes"
proof (rule staged_upload_reaches_move [OF assms, where f = f and ?sha1.0 = sha1 and given = given])
  fix fs1 name
  let ?final = "asset_path folder month name"
  assume a: "fs_faults fs1 = [None, Some e]" "\<not> fs_exists fs1 ?final" "fs_read fs1 staged = Some bytes"
    "staged \<noteq> ?final"
    and run: "\<And>fs2 e. fs_seq (move_or_copy staged ?final fs1) (\<lambda>_ fs. touch_final ?final ca (Some t) fs)
       = (fs2, Inl e) \<Longrightarrow> move_staged_asset_to_folder sha1 clock folder f ca (Some t) staged
         (int (length bytes)) given None fs = (fs2, Inl (OSError e))"
  define fs2 where "fs2 = fs1\<lparr>fs_faults := [Some e],
      fs_files := dict_set (dict_del (fs_files fs1) staged) ?final bytes\<rparr>"
  have "move_or_copy staged ?final fs1 = (fs2, Inr ())"
    using a by (simp add: move_or_copy_def fs_replace_def fs_call_def fs_read_def fs_exists_def fs2_def)
  moreover have "touch_final ?final ca (Some t) fs2 = (fs2\<lparr>fs_faults := []\<rparr>, Inl e)"
    by (simp add: touch_final_def fs_utime_def fs_call_def fs2_def)
  ultimately have "move_staged_asset_to_folder sha1 clock folder f ca (Some t) staged
      (int (length bytes)) given None fs = (fs2\<lparr>fs_faults := []\<rparr>, Inl (OSError e))"
    by (intro run) simp
  moreover have "fs_read (fs2\<lparr>fs_faults := []\<rparr>) staged = None"
    "fs_read (fs2\<lparr>fs_faults := []\<rparr>) ?final = Some bytes"
    using a(4) by (simp_all add: fs_read_def fs2_def dict_simps)
  ultimately show ?thesis by blast
qed

text \<open>
  When the staged file lies on another device and the copy runs into a full disk, the request
  fails but a truncated file stays under the asset's final name: nothing removes it, and the next
  attempt of the phone is stored beside it under another name.
\<close>
theorem cross_device_failure_leaves_partial:
  assumes "target_month_directory clock ca ua = Inr month"
    and "fs_read fs staged = Some bytes" and "oe_errno x = Some EXDEV"
    and "fs_faults fs = [None, Some x, Some x, None, Some e]"
    and "\<forall>p\<in>set (path_prefixes (path_join (path_of folder) month)). dict_get (fs_files fs) p = None"
  shows "\<exists>fs' err name. move_staged_asset_to_folder sha1 clock folder f ca ua staged (int (length bytes))
      given None fs = (fs', Inl (OSError err)) \<and> fs_read fs' staged = Some bytes \<and>
    fs_read fs (asset_path folder month name) = None \<and> fs_read fs' (asset_path folder month name) = Some []"
proof (rule staged_upload_reaches_move [OF assms(1,2,4,5), where f = f and ?sha1.0 = sha1 and given = given])
  fix fs1 name
  let ?final = "asset_path folder month name"
  assume a: "fs_files fs1 = fs_files fs" "fs_faults fs1 = [Some x, Some x, None, Some e]"
    "\<not> fs_exists fs1 ?final" "path_parent ?final \<in> set (fs_dirs fs1)" "fs_read fs1 staged = Some bytes"
    "staged \<noteq> ?final"
    and run: "\<And>fs2 e. fs_seq (move_or_copy staged ?final fs1) (\<lambda>_ fs. touch_final ?final ca ua fs)
       = (fs2, Inl e) \<Longrightarrow> move_staged_asset_to_folder sha1 clock folder f ca ua staged
         (int (length bytes)) given None fs = (fs2, Inl (OSError e))"
  define fs2 where "fs2 = fs1\<lparr>fs_faults := [], fs_files := dict_set (fs_files fs1) ?final []\<rparr>"
  have "move_or_copy staged ?final fs1 = (fs2, Inl (raised_during (raised_during e x) x))"
    using a assms(3)
    by (simp add: move_or_copy_def shutil_move_def fs_replace_def fs_create_def fs_append_def fs_call_def
        fs_exists_def fs2_def)
  then have "move_staged_asset_to_folder sha1 clock folder f ca ua staged (int (length bytes)) given None fs =
      (fs2, Inl (OSError (raised_during (raised_during e x) x)))"
    by (intro run) simp
  moreover have "fs_read fs2 staged = Some bytes" "fs_read fs2 ?final = Some []"
    "fs_read fs ?final = None"
    using a by (auto simp: fs_read_def fs2_def dict_simps fs_exists_def)
  ultimately show ?thesis by blast
qed

section \<open>The properties at a concrete file system\<close>

definition example_fs :: pyfs where
  "example_fs = \<lparr>fs_files = [((''/'', [''tmp'', ''s'']), [1, 2, 3]), ((''/'', [''photos'', ''old'']), [9])],
     fs_dirs = [(''/'', []), (''/'', [''tmp'']), (''/'', [''photos''])], fs_mtimes = [], fs_faults = []\<rparr>"

definition example_time :: pydatetime where
  "example_time = \<lparr>dt_day = 738944, dt_us = 0, dt_off = Some 0\<rparr>"

abbreviation no_digest :: "byte list \<Rightarrow> string" where
  "no_digest bs \<equiv> ''d''"

lemma example_month: "target_month_directory example_time None (Some example_time) = Inr ''2024-02''"
  by code_simp

lemma write_asset_keeps_files_witness:
  "fs_read (fst (write_asset_to_folder no_digest example_time ''u1'' ''/photos'' ''../a.jpg'' None
      (Some example_time) [Inr [7], Inl incomplete_body] 2 example_fs)) (''/'', [''photos'', ''old'']) = Some [9]"
proof -
  let ?r = "write_asset_to_folder no_digest example_time ''u1'' ''/photos'' ''../a.jpg'' None
      (Some example_time) [Inr [7], Inl incomplete_body] 2 example_fs"
  have "fresh_part example_fs ''u1''" by code_simp
  moreover have "?r = (fst ?r, snd ?r)" by simp
  moreover have "fs_read example_fs (''/'', [''photos'', ''old'']) = Some [9]"
    by (simp add: example_fs_def fs_read_def dict_get_def)
  ultimately show ?thesis by (rule write_asset_keeps_files)
qed

lemma example_store_body:
  "fs_create t g = (g1, Inr ()) \<Longrightarrow> fs_faults g1 = [] \<Longrightarrow> dict_get (fs_files g1) t = Some [] \<Longrightarrow>
   \<exists>g2. write_temp_file t 2 [Inr [7], Inr [8, 9]] g = (g2, Inr [7, 8]) \<and> fs_faults g2 = [] \<and>
     dict_get (fs_files g2) t = Some [7, 8] \<and> fs_dirs g2 = fs_dirs g1"
  by (simp add: write_temp_file_def write_loop.simps [of 2] write_loop.simps [of "Suc 0"] write_loop.simps [of 0]
      TRANSFER_CHUNK_SIZE_def fs_append_def fs_call_def fs_close_def dict_simps)

lemma write_asset_stores_body_witness:
  "\<exists>name fs'. fs_read fs' (asset_path ''/photos'' ''2024-02'' name) = Some [7, 8]"
proof -
  let ?r = "write_asset_to_folder no_digest example_time ''u1'' ''/photos'' ''../a.jpg'' None
      (Some example_time) [Inr [7], Inr [8, 9]] 2 example_fs"
  let ?st = "\<lparr>sa_local_relative_path = ''2024-02/a.jpg'', sa_content_sha1 = ''d'', sa_file_size_bytes = 2\<rparr>"
  have fresh: "fresh_part example_fs ''u1''" by code_simp
  let ?d = "(''/'', [''photos'', ''2024-02''])"
  let ?fs1 = "example_fs\<lparr>fs_dirs := fs_dirs example_fs @ [?d]\<rparr>"
  let ?t = "(''/'', [''photos'', ''2024-02'', ''.a.jpg.u1.part''])" and ?f = "(''/'', [''photos'', ''2024-02'', ''a.jpg''])"
  let ?g = "?fs1\<lparr>fs_files := dict_set (fs_files ?fs1) ?t []\<rparr>"
  have mk: "fs_mkdir_parents ?d example_fs = (?fs1, Inr ())" by code_simp
  have join: "path_join (path_of ''/photos'') ''2024-02'' = ?d" by code_simp
  have free: "resolve_conflict_safe_path (conflict_fuel ?fs1) ?fs1 ?d (sanitize_filename ''../a.jpg'') = Some ?f"
    by code_simp
  have temp: "path_join ?d (part_name (path_name ?f) ''u1'') = ?t" by code_simp
  have cr: "fs_create ?t ?fs1 = (?g, Inr ())" by code_simp
  have "fs_faults ?g = []" "dict_get (fs_files ?g) ?t = Some []"
    by (simp_all add: dict_simps) (simp add: example_fs_def)
  from example_store_body [OF cr this] obtain g2 where g2: "write_temp_file ?t 2 [Inr [7], Inr [8, 9]] ?fs1 = (g2, Inr [7, 8])"
      "fs_faults g2 = []" "dict_get (fs_files g2) ?t = Some [7, 8]" "fs_dirs g2 = fs_dirs ?g"
    by blast
  have ndir: "?f \<notin> set (fs_dirs ?g)" by (simp add: example_fs_def)
  have "\<exists>g3. store_body ?t ?f None (Some example_time) 2 [Inr [7], Inr [8, 9]] ?fs1 = (g3, Inr [7, 8])"
    using g2 ndir
    by (simp add: store_body_def fs_replace_def fs_call_def touch_final_def fs_utime_def fs_exists_def
        remove_temp_def dict_simps split: if_splits) (simp add: example_fs_def)
  then obtain g3 where g3: "store_body ?t ?f None (Some example_time) 2 [Inr [7], Inr [8, 9]] ?fs1 = (g3, Inr [7, 8])"
    by blast
  have st: "stored_at (path_of ''/photos'') ?f ''d'' 2 = Inr ?st" by code_simp
  have "snd ?r = Inr ?st"
    by (simp only: write_asset_to_folder_def Let_def example_month join mk free temp prod.case sum.case
        option.case g3 st snd_conv nat_numeral list.size) (use g3 st in simp)
  then have "?r = (fst ?r, Inr ?st)" by (metis prod.collapse)
  from write_asset_stores_body [OF fresh this] obtain month name where
    *: "sa_local_relative_path ?st = month @ ''/'' @ name" "plain_component month" "plain_component name"
      "fs_read (fst ?r) (asset_path ''/photos'' month name) = Some (take (nat 2) (body_bytes [Inr [7], Inr [8, 9]]))"
    by blast
  have "month = ''2024-02'' \<and> name = ''a.jpg''"
    using *(1-3) by (intro append_sep_unique) (auto simp: plain_component_def)
  with *(4) show ?thesis by auto
qed

lemma move_staged_keeps_files_witness:
  "fs_read (fst (move_staged_asset_to_folder no_digest example_time ''/photos'' ''old'' None
      (Some example_time) (''/'', [''tmp'', ''s'']) 3 None None example_fs)) (''/'', [''photos'', ''old'']) = Some [9]"
proof -
  let ?r = "move_staged_asset_to_folder no_digest example_time ''/photos'' ''old'' None
      (Some example_time) (''/'', [''tmp'', ''s'']) 3 None None example_fs"
  have "?r = (fst ?r, snd ?r)" by simp
  moreover have "fs_read example_fs (''/'', [''photos'', ''old'']) = Some [9]"
    by (simp add: example_fs_def fs_read_def dict_get_def)
  ultimately show ?thesis by (rule move_staged_keeps_files) simp
qed

lemma move_staged_stores_file_witness:
  "fs_read (fst (move_staged_asset_to_folder no_digest example_time ''/photos'' ''old'' None
      (Some example_time) (''/'', [''tmp'', ''s'']) 3 None None example_fs)) (''/'', [''tmp'', ''s'']) = None"
proof -
  let ?r = "move_staged_asset_to_folder no_digest example_time ''/photos'' ''old'' None
      (Some example_time) (''/'', [''tmp'', ''s'']) 3 None None example_fs"
  let ?st = "\<lparr>sa_local_relative_path = ''2024-02/old'', sa_content_sha1 = ''d'', sa_file_size_bytes = 3\<rparr>"
  have "snd ?r = Inr ?st" by code_simp
  then have run: "?r = (fst ?r, Inr ?st)" by (metis prod.collapse)
  have "fs_read example_fs (''/'', [''tmp'', ''s'']) = Some [1, 2, 3]"
    by (simp add: example_fs_def fs_read_def dict_get_def)
  from move_staged_stores_file [OF run this] show ?thesis by blast
qed

lemma example_prefixes:
  "\<forall>p\<in>set (path_prefixes (path_join (path_of ''/photos'') ''2024-02'')). dict_get (fs_files example_fs) p = None"
  by code_simp

lemma utime_failure_orphans_file_witness:
  "\<exists>fs' name. move_staged_asset_to_folder no_digest example_time ''/photos'' ''a'' None (Some example_time)
      (''/'', [''tmp'', ''s'']) 3 None None (example_fs\<lparr>fs_faults := [None, None, Some incomplete_body]\<rparr>) =
      (fs', Inl (OSError incomplete_body)) \<and>
    fs_read fs' (asset_path ''/photos'' ''2024-02'' name) = Some [1, 2, 3]"
  using utime_failure_orphans_file [OF example_month, of "example_fs\<lparr>fs_faults := [None, None, Some incomplete_body]\<rparr>"
      "(''/'', [''tmp'', ''s''])" "[1, 2, 3]" incomplete_body "''/photos''" no_digest "''a''" None] example_prefixes
  by (simp add: example_fs_def fs_read_def dict_get_def) blast

lemma cross_device_failure_leaves_partial_witness:
  "\<exists>fs' err name. move_staged_asset_to_folder no_digest example_time ''/photos'' ''a'' None (Some example_time)
      (''/'', [''tmp'', ''s'']) 3 None None (example_fs\<lparr>fs_faults := [None, Some (os_error_of ''x'' (Some EXDEV)),
        Some (os_error_of ''x'' (Some EXDEV)), None, Some (os_error_of ''full'' (Some ENOSPC))]\<rparr>) =
      (fs', Inl (OSError err)) \<and> fs_read fs' (asset_path ''/photos'' ''2024-02'' name) = Some []"
proof -
  let ?x = "os_error_of ''x'' (Some EXDEV)"
  let ?fs = "example_fs\<lparr>fs_faults := [None, Some ?x, Some ?x, None, Some (os_error_of ''full'' (Some ENOSPC))]\<rparr>"
  have read: "fs_read ?fs (''/'', [''tmp'', ''s'']) = Some [1, 2, 3]"
    by (simp add: example_fs_def fs_read_def dict_get_def)
  have x: "oe_errno ?x = Some EXDEV" by (simp add: os_error_of_def oe_errno_def)
  have faults: "fs_faults ?fs = [None, Some ?x, Some ?x, None, Some (os_error_of ''full'' (Some ENOSPC))]" by simp
  have "\<forall>p\<in>set (path_prefixes (path_join (path_of ''/photos'') ''2024-02'')). dict_get (fs_files ?fs) p = None"
    using example_prefixes by simp
  from cross_device_failure_leaves_partial [OF example_month read x faults this, of no_digest "''a''" None]
  show ?thesis by auto
qed

end
