(* ===== verification/TransferServiceProps.thy ===== *)
theory TransferServiceProps
  imports TransferService TransferFilesProps PairingStoreProps
begin

text \<open>
  Properties of the transfer handlers: nothing changes without a session that is transferring and a
  valid proof, what is answered as stored is on the disk and in the tables, a failure ends the
  session, and a session that has ended accepts nothing more.
\<close>

section \<open>Shared facts\<close>

lemma authorized_Some:
  "authorized_context env db purpose sts schema s u proof = Inr (Some c) \<longleftrightarrow>
     get_mobile_transfer_context db s u = Some c \<and> tc_session_status c \<in> set sts \<and>
     is_valid_trust_proof (te_hmac env) (tc_trust_key_b64 c) purpose schema s u proof = Inr True"
  by (auto simp: authorized_context_def exn_simps split: option.splits if_splits)

lemma authorized_wrong_status:
  "get_mobile_transfer_context db s u = Some c \<Longrightarrow> tc_session_status c \<notin> set sts \<Longrightarrow>
     authorized_context env db purpose sts schema s u proof = Inr None"
  by (simp add: authorized_context_def)

lemma cleanup_frame:
  assumes "staged \<noteq> Some q"
  shows "fs_read (cleanup_temp_upload_file staged fs) q = fs_read fs q"
proof (cases staged)
  case (Some p)
  with assms have "q \<noteq> p" by auto
  with Some fs_read_frames(7) [OF this, of True fs] show ?thesis by (simp add: cleanup_temp_upload_file_def)
qed (simp add: cleanup_temp_upload_file_def)

lemma with_cleanup_frame:
  "tw_db (with_cleanup staged w) = tw_db w" "tw_events (with_cleanup staged w) = tw_events w"
  "staged \<noteq> Some q \<Longrightarrow> fs_read (tw_fs (with_cleanup staged w)) q = fs_read (tw_fs w) q"
  by (simp_all add: with_cleanup_def cleanup_frame)

lemma session_status_distinct:
  "MOBILE_BACKUP_SESSION_STATUS_TRANSFERRING \<noteq> MOBILE_BACKUP_SESSION_STATUS_COMPLETED"
  "MOBILE_BACKUP_SESSION_STATUS_TRANSFERRING \<noteq> MOBILE_BACKUP_SESSION_STATUS_FAILED"
  "MOBILE_BACKUP_SESSION_STATUS_TRANSFERRING \<noteq> MOBILE_BACKUP_SESSION_STATUS_STOPPED"
  "MOBILE_BACKUP_SESSION_STATUS_PAIRED \<noteq> MOBILE_BACKUP_SESSION_STATUS_COMPLETED"
  "MOBILE_BACKUP_SESSION_STATUS_PAIRED \<noteq> MOBILE_BACKUP_SESSION_STATUS_FAILED"
  "MOBILE_BACKUP_SESSION_STATUS_PAIRED \<noteq> MOBILE_BACKUP_SESSION_STATUS_STOPPED"
  by (simp_all add: session_status_defs)

lemma context_after_state:
  assumes "mobile_ok db" and "get_mobile_transfer_context db s u = Some c"
  shows "get_mobile_transfer_context (update_mobile_transfer_state db s u st f t e a b d) s u =
    Some (with_state st f c)"
  using ts.ctx_set [OF assms, of st f "(t, e, a, b, d)"] by simp

section \<open>Nothing happens without authorization\<close>

abbreviation upload_authorized :: "transfer_env \<Rightarrow> app_db \<Rightarrow> asset_metadata \<Rightarrow> transfer_context \<Rightarrow> bool" where
  "upload_authorized env db m c \<equiv>
     get_mobile_transfer_context db (am_session_id m) (am_device_uuid m) = Some c \<and>
     tc_session_status c = MOBILE_BACKUP_SESSION_STATUS_TRANSFERRING \<and>
     is_valid_trust_proof (te_hmac env) (tc_trust_key_b64 c) MOBILE_TRANSFER_ASSET_PROOF_PURPOSE
       (am_schema m) (am_session_id m) (am_device_uuid m) (am_trust_proof m) = Inr True"

text \<open>The handler either stops at a check, or runs \<open>accept_upload\<close> for an authorized session.\<close>

lemma handle_asset_upload_run:
  assumes "handle_asset_upload env mp body n staged sha now w = (w', r)"
  obtains (stop) "w' = w \<or> w' = with_cleanup staged w" "\<And>k p. r = Inr (k, p) \<Longrightarrow> k \<in> {400, 403}"
  | (go) t m c where "utc_now (te_clock env) now = Inr t"
      "parse_transfer_asset_metadata (te_fromiso env) mp = Inr m" "upload_precheck m n = None"
      "upload_authorized env (tw_db w) m c" "body \<noteq> None \<or> staged \<noteq> None"
      "accept_upload env m c body n staged sha t w = (w', r)"
proof -
  have rej: "rejected k x = Inr (k', p) \<Longrightarrow> k' = k" for k k' x p
    by (simp add: rejected_def transfer_response_def)
  show ?thesis
  proof (cases "utc_now (te_clock env) now")
    case (Inl e)
    with assms show ?thesis by (intro stop) (auto simp: handle_asset_upload_def)
  next
    case t: (Inr t)
    show ?thesis
    proof (cases "body = None \<and> staged = None")
      case True
      with t assms show ?thesis by (intro stop) (auto dest: rej simp: handle_asset_upload_def)
    next
      case some: False
      note step = assms [unfolded handle_asset_upload_def t, simplified, unfolded if_not_P [OF some]]
      show ?thesis
      proof (cases "parse_transfer_asset_metadata (te_fromiso env) mp")
        case (Inl e)
        with step some show ?thesis
          by (intro stop) (auto dest: rej split: pyexn.splits if_splits)
      next
        case m: (Inr m)
        show ?thesis
        proof (cases "upload_precheck m n")
          case (Some x)
          with m step some show ?thesis by (intro stop) (auto dest: rej split: if_splits)
        next
          case None
          show ?thesis
          proof (cases "authorized_context env (tw_db w) MOBILE_TRANSFER_ASSET_PROOF_PURPOSE
              [MOBILE_BACKUP_SESSION_STATUS_TRANSFERRING] (am_schema m) (am_session_id m)
              (am_device_uuid m) (am_trust_proof m)")
            case (Inl e)
            with None m step some show ?thesis by (intro stop) (auto split: if_splits)
          next
            case (Inr x)
            show ?thesis
            proof (cases x)
              case n: None
              with Inr None m step some show ?thesis by (intro stop) (auto dest: rej split: if_splits)
            next
              case (Some c)
              with Inr have "upload_authorized env (tw_db w) m c" by (simp add: authorized_Some)
              with Inr Some None m step some t show ?thesis
                by (intro go) (auto split: if_splits)
            qed
          qed
        qed
      qed
    qed
  qed
qed

text \<open>
  C8. An upload changes the database, publishes an event or touches a file other than its own
  staged one only for a session that exists, is transferring, and whose trust key yields the proof
  that was sent; every other request leaves them alone.
\<close>
theorem upload_needs_authorization:
  assumes "handle_asset_upload env mp body n staged sha now w = (w', r)"
    and "tw_db w' \<noteq> tw_db w \<or> tw_events w' \<noteq> tw_events w \<or>
      (\<exists>q. staged \<noteq> Some q \<and> fs_read (tw_fs w') q \<noteq> fs_read (tw_fs w) q)"
  shows "\<exists>m c. parse_transfer_asset_metadata (te_fromiso env) mp = Inr m \<and>
    am_schema m = MOBILE_TRANSFER_SCHEMA \<and>
    get_mobile_transfer_context (tw_db w) (am_session_id m) (am_device_uuid m) = Some c \<and>
    tc_session_status c = MOBILE_BACKUP_SESSION_STATUS_TRANSFERRING \<and>
    is_valid_trust_proof (te_hmac env) (tc_trust_key_b64 c) MOBILE_TRANSFER_ASSET_PROOF_PURPOSE
      (am_schema m) (am_session_id m) (am_device_uuid m) (am_trust_proof m) = Inr True"
proof (rule handle_asset_upload_run [OF assms(1)])
  assume "w' = w \<or> w' = with_cleanup staged w"
  with assms(2) with_cleanup_frame show ?thesis by auto
next
  fix t m c
  assume "parse_transfer_asset_metadata (te_fromiso env) mp = Inr m" "upload_precheck m n = None"
    "upload_authorized env (tw_db w) m c"
  then show ?thesis by (auto simp: upload_precheck_def split: if_splits)
qed

section \<open>What is stored is recorded\<close>

lemma join_month_name:
  assumes "plain_component month" and "plain_component name"
  shows "path_join (path_of folder) (month @ ''/'' @ name) = asset_path folder month name"
proof -
  obtain a as where m: "month = a # as" "a \<noteq> CHR ''/''"
    using assms(1) by (cases month) (auto simp: plain_component_def)
  have "split_char (CHR ''/'') (month @ ''/'' @ name) = [month, name]"
    using assms split_char_append [of "CHR ''/''" name "month @ ''/''"]
      split_char_append [of "CHR ''/''" "[]" month]
    by (simp add: plain_component_def split_char_snoc split_char_simple)
  then have "path_of (month @ ''/'' @ name) = ([], [month, name])"
    using assms m by (auto simp: path_of_def plain_component_def py_startswith_def)
  then show ?thesis by (simp add: path_join_def asset_path_def)
qed

lemma store_upload_content:
  assumes "fresh_part fs (te_part_id env)"
    and "store_upload env m c body n staged sha fs = (fs', Inr st)"
  shows "\<exists>month name bytes. plain_component month \<and> plain_component name \<and>
    sa_local_relative_path st = month @ ''/'' @ name \<and>
    fs_read fs (asset_path (tc_folder_path c) month name) = None \<and>
    fs_read fs' (asset_path (tc_folder_path c) month name) = Some bytes \<and>
    sa_file_size_bytes st = int (length bytes) \<and>
    (case staged of Some p \<Rightarrow> fs_read fs p = Some bytes
     | None \<Rightarrow> bytes = take (nat n) (body_bytes (the body)) \<and> sa_content_sha1 st = te_sha1 env bytes)"
proof (cases staged)
  case (Some p)
  with assms(2) have run: "move_staged_asset_to_folder (te_sha1 env) (te_clock env) (tc_folder_path c)
      (am_filename m) (am_created_at m) (am_updated_at m) p n sha (am_content_sha1 m) fs = (fs', Inr st)"
    by (simp add: store_upload_def)
  from move_staged_run [OF run] obtain bytes where "fs_read fs p = Some bytes" by auto
  from staged_file_stored [OF run this] Some this show ?thesis by auto
next
  case None
  with assms(2) obtain b where b: "body = Some b" and
    run: "write_asset_to_folder (te_sha1 env) (te_clock env) (te_part_id env) (tc_folder_path c)
      (am_filename m) (am_created_at m) (am_updated_at m) b n fs = (fs', Inr st)"
    by (auto simp: store_upload_def split: option.splits)
  from body_stored [OF assms(1) run] obtain month name where s: "plain_component month" "plain_component name"
      "sa_local_relative_path st = month @ ''/'' @ name"
      "fs_read fs (asset_path (tc_folder_path c) month name) = None"
      "fs_read fs' (asset_path (tc_folder_path c) month name) = Some (take (nat n) (body_bytes b))"
      "sa_file_size_bytes st = int (nat n)" "nat n \<le> length (body_bytes b)"
      "sa_content_sha1 st = te_sha1 env (take (nat n) (body_bytes b))"
    by blast
  show ?thesis
    by (intro exI [of _ month] exI [of _ name] exI [of _ "take (nat n) (body_bytes b)"]) (simp add: s None b)
qed

text \<open>
  C9. An upload answered as stored is on the disk and in the tables: the record of the phone's
  asset names, relative to the phone's folder, a file that did not exist before and now holds the
  uploaded bytes; size and version are recorded; the response names the same path.
\<close>
theorem stored_answer_is_true:
  assumes "fresh_part (tw_fs w) (te_part_id env)"
    and "handle_asset_upload env mp body n staged sha now w = (w', Inr (200, p))"
    and "dict_get p ''status'' = Some (JStr ''stored'')"
  shows "\<exists>m c a bytes. parse_transfer_asset_metadata (te_fromiso env) mp = Inr m \<and>
    get_mobile_transfer_context (tw_db w) (am_session_id m) (am_device_uuid m) = Some c \<and>
    get_mobile_asset_record (tw_db w') (am_device_uuid m) (am_asset_id m) = Some a \<and>
    dict_get p ''local_relative_path'' = Some (JStr (as_local_relative_path a)) \<and>
    fs_read (tw_fs w) (path_join (path_of (tc_folder_path c)) (as_local_relative_path a)) = None \<and>
    fs_read (tw_fs w') (path_join (path_of (tc_folder_path c)) (as_local_relative_path a)) = Some bytes \<and>
    as_file_size_bytes a = Some (int (length bytes)) \<and> as_remote_asset_version a = am_asset_version m \<and>
    (case staged of Some q \<Rightarrow> fs_read (tw_fs w) q = Some bytes
     | None \<Rightarrow> bytes = take (nat n) (body_bytes (the body)))"
proof (rule handle_asset_upload_run [OF assms(2)])
  assume "\<And>k p'. (Inr (200, p) :: http_response res) = Inr (k, p') \<Longrightarrow> k \<in> {400, 403}"
  from this [OF refl] show ?thesis by simp
next
  fix t m c
  assume m: "parse_transfer_asset_metadata (te_fromiso env) mp = Inr m"
    and auth: "upload_authorized env (tw_db w) m c"
    and acc: "accept_upload env m c body n staged sha t w = (w', Inr (200, p))"
  have skip: "existing_asset_answer m c w \<noteq> Some (200, p)"
    using assms(3) by (auto simp: existing_asset_answer_def skipped_response_def dict_get_def split: option.splits if_splits)
  from acc skip obtain fs1 st where st: "store_upload env m c body n staged sha (tw_fs w) = (fs1, Inr st)"
      and w': "w' = record_stored_asset m st t (w\<lparr>tw_fs := fs1\<rparr>)"
      and p: "p = [(''schema'', JStr MOBILE_TRANSFER_SCHEMA), (''status'', JStr ''stored''),
           (''message'', JStr ''Desktop stored the asset successfully.''),
           (''local_relative_path'', JStr (sa_local_relative_path st))]"
    by (auto simp: accept_upload_def failed_upload_answer_def transfer_response_def Let_def
        split: option.splits prod.splits sum.splits pyexn.splits if_splits)
  obtain month name bytes where s: "plain_component month" "plain_component name"
      "sa_local_relative_path st = month @ ''/'' @ name"
      "fs_read (tw_fs w) (asset_path (tc_folder_path c) month name) = None"
      "fs_read fs1 (asset_path (tc_folder_path c) month name) = Some bytes"
      "sa_file_size_bytes st = int (length bytes)"
      "case staged of Some q \<Rightarrow> fs_read (tw_fs w) q = Some bytes
       | None \<Rightarrow> bytes = take (nat n) (body_bytes (the body)) \<and> sa_content_sha1 st = te_sha1 env bytes"
    using store_upload_content [OF assms(1) st] by blast
  have rec: "get_mobile_asset_record (tw_db w') (am_device_uuid m) (am_asset_id m) =
      Some \<lparr>as_device_uuid = am_device_uuid m, as_remote_asset_id = am_asset_id m,
         as_remote_asset_version = am_asset_version m, as_content_sha1 = Some (py_lower (sa_content_sha1 st)),
         as_file_size_bytes = Some (int (length bytes)),
         as_asset_created_at = map_option dt_isoformat (am_created_at m),
         as_local_relative_path = month @ ''/'' @ name, as_last_transferred_at = dt_isoformat t\<rparr>"
    by (simp add: w' record_stored_asset_def count_transferred_def get_asset_after_count get_asset_after_upsert s)
  have fs: "tw_fs w' = fs1" by (simp add: w' record_stored_asset_def count_transferred_def)
  have path: "dict_get p ''local_relative_path'' = Some (JStr (month @ ''/'' @ name))"
    by (simp add: p dict_get_def s(3))
  note join = join_month_name [OF s(1,2), of "tc_folder_path c"]
  show ?thesis
    by (intro exI [of _ m] exI [of _ c] exI [of _ bytes] exI conjI, rule m, use auth in simp, rule rec)
      (use s path join fs in \<open>auto split: option.splits\<close>)
qed

section \<open>Sessions that have ended\<close>

definition ended_statuses :: "string list" where
  "ended_statuses = [MOBILE_BACKUP_SESSION_STATUS_COMPLETED, MOBILE_BACKUP_SESSION_STATUS_FAILED,
     MOBILE_BACKUP_SESSION_STATUS_STOPPED]"

lemma ended_not_open:
  "st \<in> set ended_statuses \<Longrightarrow>
     st \<noteq> MOBILE_BACKUP_SESSION_STATUS_TRANSFERRING \<and> st \<noteq> MOBILE_BACKUP_SESSION_STATUS_PAIRED"
  using session_status_distinct by (auto simp: ended_statuses_def)

text \<open>A failed store ends the session, whatever the error was.\<close>

abbreviation failed_context :: "transfer_context \<Rightarrow> transfer_context" where
  "failed_context \<equiv> with_state MOBILE_BACKUP_SESSION_STATUS_FAILED MOBILE_TRANSFER_STATE_FAILED"

lemma mark_failed_run:
  "\<exists>w'. mark_transfer_failed c s u t pub w = Inr w' \<and> tw_fs w' = tw_fs w \<and>
     tw_db w' = update_mobile_transfer_state (tw_db w) s u MOBILE_BACKUP_SESSION_STATUS_FAILED
       MOBILE_TRANSFER_STATE_FAILED t (Some t) None None None"
  by (simp add: mark_transfer_failed_def Let_def folder_transfer_state_from_backup_state_def)

lemma update_state_assets [simp]:
  "db_assets (update_mobile_transfer_state db s u st f t e a b d) = db_assets db"
  by (simp add: update_mobile_transfer_state_def set_folder_state_of_device_def)


section \<open>The life of a session\<close>

text \<open>
  The abstract view of the tables: the status of each session of each phone.  The abstract
  specification lets one session at a time move along an edge.
\<close>

definition session_view :: "transfer_world \<Rightarrow> string \<times> string \<Rightarrow> string option" where
  "session_view w = (\<lambda>(s, u). map_option tc_session_status (get_mobile_transfer_context (tw_db w) s u))"

definition session_edge :: "string \<Rightarrow> string \<Rightarrow> bool" where
  "session_edge a b \<longleftrightarrow>
     (a \<in> {MOBILE_BACKUP_SESSION_STATUS_PAIRED, MOBILE_BACKUP_SESSION_STATUS_TRANSFERRING} \<and>
      b = MOBILE_BACKUP_SESSION_STATUS_TRANSFERRING) \<or>
     (a = MOBILE_BACKUP_SESSION_STATUS_TRANSFERRING \<and> b \<in> set ended_statuses)"

definition session_spec_step :: "(string \<times> string \<Rightarrow> string option) \<Rightarrow> (string \<times> string \<Rightarrow> string option) \<Rightarrow> bool" where
  "session_spec_step v v' \<longleftrightarrow> v' = v \<or> (\<exists>k a b. v k = Some a \<and> session_edge a b \<and> v' = v(k \<mapsto> b))"

text \<open>One request, by any handler, in any environment; \<open>S\<close> holds the paths of staged files.\<close>

inductive transfer_step :: "ppath set \<Rightarrow> transfer_world \<Rightarrow> transfer_world \<Rightarrow> bool" for S where
  start: "handle_start_request env p now w = (w', r) \<Longrightarrow> transfer_step S w w'"
| existence: "handle_asset_existence_request env p w = (w', r) \<Longrightarrow> transfer_step S w w'"
| upload: "handle_asset_upload env p body n staged sha now w = (w', r) \<Longrightarrow>
    fresh_part (tw_fs w) (te_part_id env) \<Longrightarrow> set_option staged \<subseteq> S \<Longrightarrow> transfer_step S w w'"
| complete: "handle_complete_request env p now w = (w', r) \<Longrightarrow> transfer_step S w w'"
| stream_error: "handle_asset_upload_stream_error env mp e now w = (w', r) \<Longrightarrow> transfer_step S w w'"

lemma view_update:
  assumes "mobile_ok (tw_db w)" and "get_mobile_transfer_context (tw_db w) s u = Some c"
    and "tw_db w' = update_mobile_transfer_state (tw_db w) s u st f t e a b d"
  shows "session_view w' = (session_view w)((s, u) \<mapsto> st)"
proof
  fix k :: "string \<times> string"
  obtain s' u' where k: "k = (s', u')" by (cases k)
  show "session_view w' k = ((session_view w)((s, u) \<mapsto> st)) k"
  proof (cases "u' = u \<and> s' = s")
    case True
    with assms show ?thesis by (simp add: session_view_def k context_after_state)
  next
    case False
    with assms context_other_session [of "tw_db w" s' s] context_other_phone [of "tw_db w" u' u]
    show ?thesis by (cases "s' = s") (auto simp: session_view_def k)
  qed
qed

lemma view_same_db:
  "session_view (with_cleanup staged w) = session_view w" "session_view (w\<lparr>tw_fs := f\<rparr>) = session_view w"
  by (simp_all add: session_view_def with_cleanup_frame)

lemma spec_step_edge:
  assumes "mobile_ok (tw_db w)" and "get_mobile_transfer_context (tw_db w) s u = Some c"
    and "tw_db w' = update_mobile_transfer_state (tw_db w) s u st f t e a b d"
    and "session_edge (tc_session_status c) st"
  shows "session_spec_step (session_view w) (session_view w')"
  using assms(2,4) view_update [OF assms(1-3)]
  unfolding session_spec_step_def by (intro disjI2 exI [of _ "(s, u)"]) (auto simp: session_view_def)

lemma start_run:
  assumes "handle_start_request env p now w = (w', r)"
  obtains "w' = w" | sr t c where "parse_transfer_session_request True False p = Inr sr"
    "get_mobile_transfer_context (tw_db w) (sr_session_id sr) (sr_device_uuid sr) = Some c"
    "tc_session_status c \<in> {MOBILE_BACKUP_SESSION_STATUS_PAIRED, MOBILE_BACKUP_SESSION_STATUS_TRANSFERRING}"
    "tw_db w' = update_mobile_transfer_state (tw_db w) (sr_session_id sr) (sr_device_uuid sr)
       MOBILE_BACKUP_SESSION_STATUS_TRANSFERRING MOBILE_TRANSFER_STATE_TRANSFERRING t None
       (sr_total_assets sr) (Some 0) (Some 0)" "tw_fs w' = tw_fs w"
proof (cases "\<exists>t sr c. utc_now (te_clock env) now = Inr t \<and> parse_transfer_session_request True False p = Inr sr \<and>
    sr_schema sr = MOBILE_TRANSFER_SCHEMA \<and>
    authorized_context env (tw_db w) MOBILE_TRANSFER_START_PROOF_PURPOSE
      [MOBILE_BACKUP_SESSION_STATUS_PAIRED, MOBILE_BACKUP_SESSION_STATUS_TRANSFERRING]
      (sr_schema sr) (sr_session_id sr) (sr_device_uuid sr) (sr_trust_proof sr) = Inr (Some c)")
  case True
  then obtain t sr c where h: "utc_now (te_clock env) now = Inr t" "parse_transfer_session_request True False p = Inr sr"
    "sr_schema sr = MOBILE_TRANSFER_SCHEMA"
    and auth: "authorized_context env (tw_db w) MOBILE_TRANSFER_START_PROOF_PURPOSE
      [MOBILE_BACKUP_SESSION_STATUS_PAIRED, MOBILE_BACKUP_SESSION_STATUS_TRANSFERRING]
      (sr_schema sr) (sr_session_id sr) (sr_device_uuid sr) (sr_trust_proof sr) = Inr (Some c)"
    by blast
  note c = auth [unfolded authorized_Some]
  have "tw_db w' = update_mobile_transfer_state (tw_db w) (sr_session_id sr) (sr_device_uuid sr)
       MOBILE_BACKUP_SESSION_STATUS_TRANSFERRING MOBILE_TRANSFER_STATE_TRANSFERRING t None
       (sr_total_assets sr) (Some 0) (Some 0) \<and> tw_fs w' = tw_fs w"
    using assms auth h(3) by (auto simp: handle_start_request_def h(1,2) folder_transfer_state_from_backup_state_def)
  with h(2) c show ?thesis by (intro that(2) [of sr c t]) auto
next
  case False
  then have "w' = w"
    using assms unfolding handle_start_request_def
    by (auto split: sum.splits pyexn.splits if_splits option.splits)
  then show ?thesis by (rule that(1))
qed

lemma existence_run:
  assumes "handle_asset_existence_request env p w = (w', r)"
  shows "w' = w"
  using assms unfolding handle_asset_existence_request_def
  by (auto simp: Let_def split: sum.splits pyexn.splits if_splits option.splits)

lemma completion_ended: "fst (completion_outcome sr reason) \<in> set ended_statuses"
  by (simp add: completion_outcome_def Let_def ended_statuses_def)

lemma completion_event:
  "\<exists>s. resolve_next_backup_state cur (fst (snd (completion_outcome sr reason))) TRANSFER_IN_PROGRESS = Inr s"
  by (simp add: completion_outcome_def Let_def)

lemma complete_run:
  assumes "handle_complete_request env p now w = (w', r)"
  obtains "w' = w" "\<And>q. r \<noteq> Inr (200, q)" | sr t c st f q where "parse_transfer_session_request False True p = Inr sr"
    "get_mobile_transfer_context (tw_db w) (sr_session_id sr) (sr_device_uuid sr) = Some c"
    "tc_session_status c = MOBILE_BACKUP_SESSION_STATUS_TRANSFERRING" "st \<in> set ended_statuses"
    "tw_db w' = update_mobile_transfer_state (tw_db w) (sr_session_id sr) (sr_device_uuid sr) st f t
       (Some t) None (Some (or_zero (sr_transferred_count sr))) (Some (or_zero (sr_failed_count sr)))"
    "tw_fs w' = tw_fs w" "r = Inr (200, q)"
proof (cases "\<exists>t sr c reason. utc_now (te_clock env) now = Inr t \<and> parse_transfer_session_request False True p = Inr sr \<and>
    sr_schema sr = MOBILE_TRANSFER_SCHEMA \<and>
    authorized_context env (tw_db w) MOBILE_TRANSFER_COMPLETE_PROOF_PURPOSE
      [MOBILE_BACKUP_SESSION_STATUS_TRANSFERRING]
      (sr_schema sr) (sr_session_id sr) (sr_device_uuid sr) (sr_trust_proof sr) = Inr (Some c) \<and>
    optional_non_empty_string p ''interruption_reason'' = Inr reason")
  case True
  then obtain t sr c reason where h: "utc_now (te_clock env) now = Inr t"
    "parse_transfer_session_request False True p = Inr sr" "optional_non_empty_string p ''interruption_reason'' = Inr reason"
    "sr_schema sr = MOBILE_TRANSFER_SCHEMA"
    and auth: "authorized_context env (tw_db w) MOBILE_TRANSFER_COMPLETE_PROOF_PURPOSE
      [MOBILE_BACKUP_SESSION_STATUS_TRANSFERRING]
      (sr_schema sr) (sr_session_id sr) (sr_device_uuid sr) (sr_trust_proof sr) = Inr (Some c)"
    by blast
  note c = auth [unfolded authorized_Some]
  obtain st event message where out: "completion_outcome sr reason = (st, event, message)"
    by (metis prod_cases3)
  then have st: "st \<in> set ended_statuses" using completion_ended [of sr reason] by simp
  obtain s where s: "resolve_next_backup_state (tc_folder_transfer_state c) event TRANSFER_IN_PROGRESS = Inr s"
    using completion_event [of "tc_folder_transfer_state c" sr reason] out by auto
  let ?db = "update_mobile_transfer_state (tw_db w) (sr_session_id sr) (sr_device_uuid sr) st
      (folder_transfer_state_from_backup_state s) t (Some t) None
      (Some (or_zero (sr_transferred_count sr))) (Some (or_zero (sr_failed_count sr)))"
  have "tw_db w' = ?db \<and> tw_fs w' = tw_fs w \<and> (\<exists>q. r = Inr (200, q))"
    using assms auth h(4) by (auto simp: handle_complete_request_def h(1,2,3) out s)
  with h(2) c st show ?thesis by (auto intro: that(2))
next
  case False
  have rej: "rejected k m \<noteq> Inr (200, q)" if "k \<noteq> 200" for k m q
    using that by (simp add: rejected_def transfer_response_def)
  have "w' = w \<and> (\<forall>q. r \<noteq> Inr (200, q))"
    using assms False unfolding handle_complete_request_def
    by (auto simp: rej split: sum.splits pyexn.splits if_splits option.splits)
  then show ?thesis by (intro that(1)) auto
qed

lemma stream_error_run:
  assumes "handle_asset_upload_stream_error env mp e now w = (w', r)"
  obtains "w' = w" | m :: asset_metadata and t c where
    "get_mobile_transfer_context (tw_db w) (am_session_id m) (am_device_uuid m) = Some c"
    "tc_session_status c = MOBILE_BACKUP_SESSION_STATUS_TRANSFERRING"
    "tw_db w' = update_mobile_transfer_state (tw_db w) (am_session_id m) (am_device_uuid m)
       MOBILE_BACKUP_SESSION_STATUS_FAILED MOBILE_TRANSFER_STATE_FAILED t (Some t) None None None"
    "tw_fs w' = tw_fs w"
proof (cases "\<exists>mp' t m c. is_disk_full_os_error e \<and> mp = Some mp' \<and> utc_now (te_clock env) now = Inr t \<and>
    parse_transfer_asset_metadata (te_fromiso env) mp' = Inr m \<and> am_schema m = MOBILE_TRANSFER_SCHEMA \<and>
    authorized_context env (tw_db w) MOBILE_TRANSFER_ASSET_PROOF_PURPOSE
      [MOBILE_BACKUP_SESSION_STATUS_TRANSFERRING] (am_schema m) (am_session_id m)
      (am_device_uuid m) (am_trust_proof m) = Inr (Some c)")
  case True
  then obtain mp' t m c where h: "is_disk_full_os_error e" "mp = Some mp'" "utc_now (te_clock env) now = Inr t"
    "parse_transfer_asset_metadata (te_fromiso env) mp' = Inr m"
    "authorized_context env (tw_db w) MOBILE_TRANSFER_ASSET_PROOF_PURPOSE
      [MOBILE_BACKUP_SESSION_STATUS_TRANSFERRING] (am_schema m) (am_session_id m)
      (am_device_uuid m) (am_trust_proof m) = Inr (Some c)" and schema: "am_schema m = MOBILE_TRANSFER_SCHEMA"
    by blast
  note c = h(5) [unfolded authorized_Some]
  obtain w2 where mk: "mark_transfer_failed c (am_session_id m) (am_device_uuid m) t True w = Inr w2" "tw_fs w2 = tw_fs w"
    "tw_db w2 = update_mobile_transfer_state (tw_db w) (am_session_id m) (am_device_uuid m)
       MOBILE_BACKUP_SESSION_STATUS_FAILED MOBILE_TRANSFER_STATE_FAILED t (Some t) None None None"
    using mark_failed_run [of c "am_session_id m" "am_device_uuid m" t True w] by auto
  have "w' = w2"
    using assms h(5) schema by (auto simp: handle_asset_upload_stream_error_def h(1-4) mk(1))
  with mk c show ?thesis by (intro that(2) [of m c t]) auto
next
  case False
  then have "w' = w"
    using assms unfolding handle_asset_upload_stream_error_def
    by (auto split: sum.splits pyexn.splits if_splits option.splits)
  then show ?thesis by (rule that(1))
qed

lemma store_upload_keeps:
  assumes "fresh_part fs (te_part_id env)" and "store_upload env m c body n staged sha fs = (fs', r)"
    and "fs_read fs q = Some x" and "staged \<noteq> Some q"
  shows "fs_read fs' q = Some x"
proof (cases staged)
  case (Some p)
  with assms move_staged_other_files show ?thesis unfolding store_upload_def by fastforce
next
  case None
  show ?thesis
  proof (cases body)
    case (Some b)
    with None assms write_asset_other_files show ?thesis unfolding store_upload_def by fastforce
  qed (use None assms in \<open>simp add: store_upload_def\<close>)
qed

lemma count_transferred_frame:
  "tw_fs (count_transferred m w) = tw_fs w" "session_view (count_transferred m w) = session_view w"
  "mobile_ok (tw_db w) \<Longrightarrow> mobile_ok (tw_db (count_transferred m w))"
  by (simp_all add: count_transferred_def session_view_def context_after_bump increment_ok)

lemma record_stored_frame:
  "tw_fs (record_stored_asset m st t w) = tw_fs w"
  "session_view (record_stored_asset m st t w) = session_view w"
  "mobile_ok (tw_db w) \<Longrightarrow> mobile_ok (tw_db (record_stored_asset m st t w))"
  by (simp_all add: record_stored_asset_def count_transferred_frame session_view_def context_after_asset
      upsert_asset_ok count_transferred_def context_after_bump increment_ok)

text \<open>
  An upload that was accepted leaves every session as it was, or it has failed its own; the tables
  stay consistent and no file but the staged one is lost.
\<close>

lemma accept_upload_effect:
  assumes ok: "mobile_ok (tw_db w)" and fresh: "fresh_part (tw_fs w) (te_part_id env)"
    and run: "accept_upload env m c body n staged sha t w = (w', r)"
  shows "(session_view w' = session_view w \<or>
      tw_db w' = update_mobile_transfer_state (tw_db w) (am_session_id m) (am_device_uuid m)
        MOBILE_BACKUP_SESSION_STATUS_FAILED MOBILE_TRANSFER_STATE_FAILED t (Some t) None None None) \<and>
    mobile_ok (tw_db w') \<and>
    (\<forall>q x. staged \<noteq> Some q \<longrightarrow> fs_read (tw_fs w) q = Some x \<longrightarrow> fs_read (tw_fs w') q = Some x)"
proof (cases "existing_asset_answer m c w")
  case (Some a)
  with run have "w' = count_transferred m (with_cleanup staged w)" by (simp add: accept_upload_def)
  with ok show ?thesis
    by (simp add: count_transferred_frame with_cleanup_frame view_same_db)
next
  case None
  obtain fs1 res where st: "store_upload env m c body n staged sha (tw_fs w) = (fs1, res)"
    by (metis surj_pair)
  note keep = store_upload_keeps [OF fresh st]
  consider (os) e where "res = Inl (OSError e)" | (other) x where "res = Inl x" "\<And>e. x \<noteq> OSError e"
    | (fine) s where "res = Inr s"
    by (metis old.sum.exhaust)
  then show ?thesis
  proof cases
    case os
    let ?w1 = "with_cleanup staged (w\<lparr>tw_fs := fs1\<rparr>)"
    obtain w2 where mk: "mark_transfer_failed c (am_session_id m) (am_device_uuid m) t (is_disk_full_os_error e) ?w1 = Inr w2"
      "tw_fs w2 = tw_fs ?w1" "tw_db w2 = update_mobile_transfer_state (tw_db w) (am_session_id m) (am_device_uuid m)
         MOBILE_BACKUP_SESSION_STATUS_FAILED MOBILE_TRANSFER_STATE_FAILED t (Some t) None None None"
      using mark_failed_run [of c "am_session_id m" "am_device_uuid m" t "is_disk_full_os_error e" ?w1]
      by (auto simp: with_cleanup_frame)
    have "w' = w2" using run None st os mk(1) by (simp add: accept_upload_def)
    with mk ok keep show ?thesis by (auto simp: with_cleanup_frame update_transfer_state_ok)
  next
    case other
    with run None st have "w' = w\<lparr>tw_fs := fs1\<rparr>"
      by (auto simp: accept_upload_def split: pyexn.splits)
    with ok keep show ?thesis by (simp add: view_same_db)
  next
    case fine
    with run None st have "w' = record_stored_asset m s t (w\<lparr>tw_fs := fs1\<rparr>)"
      by (simp add: accept_upload_def)
    with ok keep show ?thesis by (simp add: record_stored_frame view_same_db)
  qed
qed

text \<open>One request: a step of the specification, consistent tables, and every file kept.\<close>

lemma transfer_step_effect:
  assumes "transfer_step S w w'" and ok: "mobile_ok (tw_db w)"
  shows "session_spec_step (session_view w) (session_view w') \<and> mobile_ok (tw_db w') \<and>
    (\<forall>q x. q \<notin> S \<longrightarrow> fs_read (tw_fs w) q = Some x \<longrightarrow> fs_read (tw_fs w') q = Some x)"
  using assms(1)
proof cases
  case (start env p now r)
  then show ?thesis
    by (rule start_run)
      (auto simp: ok update_transfer_state_ok session_spec_step_def [of v v for v] session_edge_def
        intro!: spec_step_edge [OF ok])
next
  case (existence env p r)
  then have "w' = w" by (rule existence_run)
  with ok show ?thesis by (simp add: session_spec_step_def)
next
  case (complete env p now r)
  then show ?thesis
    by (rule complete_run)
      (auto simp: ok update_transfer_state_ok session_spec_step_def [of v v for v] session_edge_def
        intro!: spec_step_edge [OF ok])
next
  case (stream_error env mp e now r)
  then show ?thesis
    by (rule stream_error_run)
      (auto simp: ok update_transfer_state_ok session_spec_step_def [of v v for v] session_edge_def ended_statuses_def
        intro!: spec_step_edge [OF ok])
next
  case (upload env p body n staged sha now r)
  have S: "staged \<noteq> Some q" if "q \<notin> S" for q using upload(3) that by auto
  from upload(1) show ?thesis
  proof (rule handle_asset_upload_run)
    assume "w' = w \<or> w' = with_cleanup staged w"
    with ok S show ?thesis
      by (auto simp: session_spec_step_def with_cleanup_frame view_same_db)
  next
    fix t m c
    assume auth: "upload_authorized env (tw_db w) m c" and acc: "accept_upload env m c body n staged sha t w = (w', r)"
    note eff = accept_upload_effect [OF ok upload(2) acc]
    from eff have "session_spec_step (session_view w) (session_view w')"
    proof (elim conjE disjE)
      assume "session_view w' = session_view w"
      then show ?thesis by (simp add: session_spec_step_def)
    next
      assume "tw_db w' = update_mobile_transfer_state (tw_db w) (am_session_id m) (am_device_uuid m)
        MOBILE_BACKUP_SESSION_STATUS_FAILED MOBILE_TRANSFER_STATE_FAILED t (Some t) None None None"
      with auth show ?thesis
        by (intro spec_step_edge [OF ok]) (auto simp: session_edge_def ended_statuses_def)
    qed
    with eff S show ?thesis by blast
  qed
qed

text \<open>
  C6. Every request refines the life cycle of a session: at most one session changes, from paired
  to transferring, or from transferring to completed, failed or stopped; a session is never
  created, removed or revived by a transfer request.
\<close>
theorem transfer_refines_life_cycle:
  assumes "transfer_step S w w'" and "mobile_ok (tw_db w)"
  shows "session_spec_step (session_view w) (session_view w')"
  using transfer_step_effect [OF assms] by blast

lemma edge_not_ended: "session_edge a b \<Longrightarrow> a \<notin> set ended_statuses"
  using ended_not_open by (auto simp: session_edge_def)

lemma transfer_run_effect:
  assumes "(transfer_step S)\<^sup>*\<^sup>* w w'" and "mobile_ok (tw_db w)"
  shows "mobile_ok (tw_db w') \<and>
    (\<forall>q x. q \<notin> S \<longrightarrow> fs_read (tw_fs w) q = Some x \<longrightarrow> fs_read (tw_fs w') q = Some x) \<and>
    (\<forall>k a. session_view w k = Some a \<longrightarrow> a \<in> set ended_statuses \<longrightarrow> session_view w' k = Some a)"
  using assms
proof (induction rule: rtranclp_induct)
  case (step w1 w2)
  note eff = transfer_step_effect [OF step(2)]
  have "session_view w2 k = Some a" if "session_view w1 k = Some a" "a \<in> set ended_statuses" for k a
  proof -
    have "session_spec_step (session_view w1) (session_view w2)" using eff step(3,4) by blast
    then show ?thesis
      unfolding session_spec_step_def using that edge_not_ended by (auto split: if_splits)
  qed
  with eff step(3,4) show ?case by blast
qed simp

text \<open>
  C21. Any sequence of transfer requests, from any phones and with any failures of the file system,
  keeps the tables consistent, loses no file of the disk except the staged uploads, and never
  revives a session that has completed, failed or been stopped.
\<close>
theorem transfer_run_safe:
  assumes "(transfer_step S)\<^sup>*\<^sup>* w w'" and "mobile_ok (tw_db w)"
  shows "mobile_ok (tw_db w') \<and>
    (\<forall>q x. q \<notin> S \<longrightarrow> fs_read (tw_fs w) q = Some x \<longrightarrow> fs_read (tw_fs w') q = Some x) \<and>
    (\<forall>k a. session_view w k = Some a \<longrightarrow> a \<in> set ended_statuses \<longrightarrow> session_view w' k = Some a)"
  using assms by (rule transfer_run_effect)

section \<open>Exceptions that leave the handlers\<close>

text \<open>
  A timestamp that parses but lies outside the years 1 to 9999 in UTC is not answered with a
  400: the \<open>OverflowError\<close> leaves \<open>handle_asset_upload\<close>, and the staged file is not cleaned up.
\<close>
theorem far_timestamp_escapes:
  assumes "utc_now (te_clock env) now = Inr t"
    and "parse_transfer_asset_metadata (te_fromiso env) mp = Inl (OverflowError msg)"
  shows "handle_asset_upload env mp body n (Some staged) sha now w = (w, Inl (OverflowError msg))"
  using assms by (simp add: handle_asset_upload_def)

text \<open>
  The reason of an interruption is parsed outside the \<^verbatim>\<open>try\<close> block: a completion whose
  \<open>interruption_reason\<close> is not a string raises a \<open>ValueError\<close> instead of being rejected, and the
  session stays open.
\<close>
theorem interruption_reason_escapes:
  assumes "utc_now (te_clock env) now = Inr t"
    and "parse_transfer_session_request False True p = Inr r" and "sr_schema r = MOBILE_TRANSFER_SCHEMA"
    and "authorized_context env (tw_db w) MOBILE_TRANSFER_COMPLETE_PROOF_PURPOSE
      [MOBILE_BACKUP_SESSION_STATUS_TRANSFERRING] (sr_schema r) (sr_session_id r) (sr_device_uuid r)
      (sr_trust_proof r) = Inr (Some c)"
    and "dict_get p ''interruption_reason'' = Some (JInt i)"
  shows "\<exists>m. handle_complete_request env p now w = (w, Inl (ValueError m))"
  using assms
  by (simp add: handle_complete_request_def optional_non_empty_string_def field_wrong_def)

section \<open>The properties at a concrete world\<close>

definition example_env :: transfer_env where
  "example_env = \<lparr>te_fromiso = (\<lambda>s. Some \<lparr>dt_day = 0, dt_us = 0, dt_off = Some (if s = ''early'' then 3600000000 else 0)\<rparr>),
     te_hmac = (\<lambda>k m. [0]), te_sha1 = (\<lambda>bs. ''d''), te_clock = example_time, te_part_id = ''u1''\<rparr>"

definition example_world :: transfer_world where
  "example_world = \<lparr>tw_db = update_mobile_transfer_state example_store ''s1'' ''old'' ''transferring'' ''transferring''
      example_time None (Some 2) (Some 0) (Some 0), tw_fs = example_fs, tw_events = []\<rparr>"

definition example_metadata :: payload where
  "example_metadata = [(''schema'', JStr MOBILE_TRANSFER_SCHEMA), (''session_id'', JStr ''s1''),
     (''device_uuid'', JStr ''old''), (''trust_proof'', JStr ''AA''), (''asset_id'', JStr ''a2''),
     (''filename'', JStr ''b.jpg'')]"

lemma example_world_ok: "mobile_ok (tw_db example_world)"
  unfolding example_world_def transfer_world.simps
  by (rule update_transfer_state_ok)
    (simp add: mobile_ok_def mobile_keys_ok_def sessions_bound_def mf_pair_def example_store_def example_db_def)

definition example_meta :: asset_metadata where
  "example_meta = \<lparr>am_schema = ''dtis.mobile-transfer.v1'', am_session_id = ''s1'', am_device_uuid = ''old'',
     am_trust_proof = ''AA'', am_asset_id = ''a2'', am_asset_version = None, am_content_sha1 = None,
     am_file_size_bytes = None, am_filename = ''b.jpg'', am_media_type = None, am_created_at = None,
     am_updated_at = None\<rparr>"

definition example_context :: transfer_context where
  "example_context = \<lparr>tc_session_id = ''s1'', tc_device_uuid = ''old'', tc_session_status = ''transferring'',
     tc_folder_id = 1, tc_folder_path = ''/photos'', tc_folder_transfer_state = Some ''transferring'',
     tc_trust_key_b64 = ''k''\<rparr>"

lemma example_steps:
  "utc_now (te_clock example_env) None = Inr example_time"
  "parse_transfer_asset_metadata (te_fromiso example_env) example_metadata = Inr example_meta"
  "upload_precheck example_meta 3 = None"
  "authorized_context example_env (tw_db example_world) MOBILE_TRANSFER_ASSET_PROOF_PURPOSE
     [MOBILE_BACKUP_SESSION_STATUS_TRANSFERRING] (am_schema example_meta) (am_session_id example_meta)
     (am_device_uuid example_meta) (am_trust_proof example_meta) = Inr (Some example_context)"
  "existing_asset_answer example_meta example_context example_world = None"
  by code_simp+

lemma example_store_upload:
  "snd (store_upload example_env example_meta example_context None 3 (Some (''/'', [''tmp'', ''s''])) None
     (tw_fs example_world)) =
   Inr \<lparr>sa_local_relative_path = ''2024-02/b.jpg'', sa_content_sha1 = ''d'', sa_file_size_bytes = 3\<rparr>"
  by code_simp

lemma example_store_fails:
  "snd (store_upload example_env example_meta example_context None 3 (Some (''/'', [''tmp'', ''t''])) None
     (tw_fs example_world)) = Inl (OSError (os_error_of ''Desktop transfer staged file is missing.'' None))"
  by code_simp

lemma example_fresh: "fresh_part (tw_fs example_world) (te_part_id example_env)"
  by code_simp

abbreviation stored_payload :: payload where
  "stored_payload \<equiv> [(''schema'', JStr MOBILE_TRANSFER_SCHEMA), (''status'', JStr ''stored''),
     (''message'', JStr ''Desktop stored the asset successfully.''),
     (''local_relative_path'', JStr ''2024-02/b.jpg'')]"

lemma example_upload_run:
  "\<exists>w'. handle_asset_upload example_env example_metadata None 3 (Some (''/'', [''tmp'', ''s''])) None None
      example_world = (w', Inr (200, stored_payload)) \<and>
    get_mobile_asset_record (tw_db w') ''old'' ''a2'' \<noteq> None"
proof -
  obtain fs1 where st: "store_upload example_env example_meta example_context None 3
      (Some (''/'', [''tmp'', ''s''])) None (tw_fs example_world) = (fs1, Inr \<lparr>sa_local_relative_path = ''2024-02/b.jpg'',
        sa_content_sha1 = ''d'', sa_file_size_bytes = 3\<rparr>)"
    using example_store_upload by (metis prod.collapse)
  have ids: "am_device_uuid example_meta = ''old''" "am_asset_id example_meta = ''a2''"
    by (simp_all add: example_meta_def)
  have "get_mobile_asset_record (tw_db (record_stored_asset example_meta st t (w\<lparr>tw_fs := fs1\<rparr>))) ''old'' ''a2'' \<noteq> None"
    for st t w
    by (simp add: record_stored_asset_def count_transferred_def get_asset_after_count get_asset_after_upsert ids)
  then show ?thesis
    by (simp add: handle_asset_upload_def example_steps accept_upload_def st)
qed

lemma example_no_record: "get_mobile_asset_record (tw_db example_world) ''old'' ''a2'' = None"
  by code_simp

lemma upload_needs_authorization_witness:
  "\<exists>m c. parse_transfer_asset_metadata (te_fromiso example_env) example_metadata = Inr m \<and>
    get_mobile_transfer_context (tw_db example_world) (am_session_id m) (am_device_uuid m) = Some c \<and>
    tc_session_status c = MOBILE_BACKUP_SESSION_STATUS_TRANSFERRING"
proof -
  obtain w' where run: "handle_asset_upload example_env example_metadata None 3 (Some (''/'', [''tmp'', ''s''])) None None
      example_world = (w', Inr (200, stored_payload))"
    and "get_mobile_asset_record (tw_db w') ''old'' ''a2'' \<noteq> None"
    using example_upload_run by blast
  then have "tw_db w' \<noteq> tw_db example_world" using example_no_record by metis
  then have "tw_db w' \<noteq> tw_db example_world \<or> tw_events w' \<noteq> tw_events example_world \<or>
      (\<exists>q. Some (''/'', [''tmp'', ''s'']) \<noteq> Some q \<and> fs_read (tw_fs w') q \<noteq> fs_read (tw_fs example_world) q)" ..
  from upload_needs_authorization [OF run this] show ?thesis by blast
qed

lemma stored_answer_is_true_witness:
  "\<exists>w' a. handle_asset_upload example_env example_metadata None 3 (Some (''/'', [''tmp'', ''s''])) None None
      example_world = (w', Inr (200, stored_payload)) \<and>
    get_mobile_asset_record (tw_db w') ''old'' ''a2'' = Some a \<and>
    as_local_relative_path a = ''2024-02/b.jpg'' \<and> as_file_size_bytes a = Some 3"
proof -
  obtain w' where run: "handle_asset_upload example_env example_metadata None 3 (Some (''/'', [''tmp'', ''s''])) None None
      example_world = (w', Inr (200, stored_payload))"
    using example_upload_run by blast
  have "dict_get stored_payload ''status'' = Some (JStr ''stored'')" by (simp add: dict_get_def)
  from stored_answer_is_true [OF example_fresh run this] obtain m a bytes where
    *: "parse_transfer_asset_metadata (te_fromiso example_env) example_metadata = Inr m"
      "get_mobile_asset_record (tw_db w') (am_device_uuid m) (am_asset_id m) = Some a"
      "dict_get stored_payload ''local_relative_path'' = Some (JStr (as_local_relative_path a))"
      "as_file_size_bytes a = Some (int (length bytes))" "fs_read (tw_fs example_world) (''/'', [''tmp'', ''s'']) = Some bytes"
    by force
  have m: "m = example_meta" using *(1) by (simp add: example_steps)
  have "bytes = [1, 2, 3]" using *(5) by (simp add: example_world_def example_fs_def fs_read_def dict_get_def)
  with * have "get_mobile_asset_record (tw_db w') ''old'' ''a2'' = Some a \<and>
    as_local_relative_path a = ''2024-02/b.jpg'' \<and> as_file_size_bytes a = Some 3"
    by (simp add: m example_meta_def dict_get_def)
  with run show ?thesis by blast
qed


lemma example_step: "transfer_step {(''/'', [''tmp'', ''s''])} example_world
    (fst (handle_asset_upload example_env example_metadata None 3 (Some (''/'', [''tmp'', ''s''])) None None example_world))"
  by (rule transfer_step.upload [OF _ example_fresh,
        where r = "snd (handle_asset_upload example_env example_metadata None 3 (Some (''/'', [''tmp'', ''s''])) None None
          example_world)" and p = example_metadata and body = None and n = 3 and staged = "Some (''/'', [''tmp'', ''s''])"
        and sha = None and now = None]) simp_all

lemma transfer_refines_life_cycle_witness:
  "session_spec_step (session_view example_world) (session_view
    (fst (handle_asset_upload example_env example_metadata None 3 (Some (''/'', [''tmp'', ''s''])) None None example_world)))"
  by (rule transfer_refines_life_cycle [OF example_step example_world_ok])

lemma transfer_run_safe_witness:
  "fs_read (tw_fs (fst (handle_asset_upload example_env example_metadata None 3 (Some (''/'', [''tmp'', ''s''])) None None
     example_world))) (''/'', [''photos'', ''old'']) = Some [9]"
proof -
  have "fs_read (tw_fs example_world) (''/'', [''photos'', ''old'']) = Some [9]"
    by (simp add: example_world_def example_fs_def fs_read_def dict_get_def)
  with transfer_run_safe [OF r_into_rtranclp [of "transfer_step {(''/'', [''tmp'', ''s''])}", OF example_step]
      example_world_ok] show ?thesis by simp
qed

lemma far_timestamp_escapes_witness:
  "\<exists>msg. handle_asset_upload example_env (example_metadata @ [(''created_at'', JStr ''early'')]) None 3
     (Some (''/'', [''tmp'', ''s''])) None None example_world = (example_world, Inl (OverflowError msg))"
proof -
  have "parse_transfer_asset_metadata (te_fromiso example_env) (example_metadata @ [(''created_at'', JStr ''early'')]) =
      Inl (OverflowError ''date value out of range'')"
    by code_simp
  from far_timestamp_escapes [OF example_steps(1) this] show ?thesis by blast
qed

definition example_completion :: payload where
  "example_completion = [(''schema'', JStr MOBILE_TRANSFER_SCHEMA), (''session_id'', JStr ''s1''),
     (''device_uuid'', JStr ''old''), (''trust_proof'', JStr ''AA''), (''transferred_count'', JInt 1),
     (''failed_count'', JInt 0), (''interruption_reason'', JInt 7)]"

lemma interruption_reason_escapes_witness:
  "\<exists>m. handle_complete_request example_env example_completion None example_world = (example_world, Inl (ValueError m))"
proof -
  let ?r = "\<lparr>sr_schema = ''dtis.mobile-transfer.v1'', sr_session_id = ''s1'', sr_device_uuid = ''old'',
    sr_trust_proof = ''AA'', sr_total_assets = None, sr_transferred_count = Some 1, sr_failed_count = Some 0\<rparr>"
  have p: "parse_transfer_session_request False True example_completion = Inr ?r" by code_simp
  have s: "sr_schema ?r = MOBILE_TRANSFER_SCHEMA" by (simp add: MOBILE_TRANSFER_SCHEMA_def)
  have a: "authorized_context example_env (tw_db example_world) MOBILE_TRANSFER_COMPLETE_PROOF_PURPOSE
      [MOBILE_BACKUP_SESSION_STATUS_TRANSFERRING] (sr_schema ?r) (sr_session_id ?r) (sr_device_uuid ?r)
      (sr_trust_proof ?r) = Inr (Some example_context)" by code_simp
  have i: "dict_get example_completion ''interruption_reason'' = Some (JInt 7)"
    by (simp add: example_completion_def dict_get_def)
  from interruption_reason_escapes [OF example_steps(1) p s a i] show ?thesis .
qed

end
