(* ===== verification/PairingSession.thy ===== *)
theory PairingSession
  imports PyTime TrustProof
begin

text \<open>
  \<^verbatim>\<open>dt_image_search/mobile/mobile_pairing_session.py\<close>: the pairing session that the desktop
  shows as a QR code, its token and its endpoints, and of Python's \<^verbatim>\<open>urllib.parse\<close> what the
  module calls: \<^verbatim>\<open>urlencode\<close> of a dictionary of texts, and the host and port of
  \<^verbatim>\<open>urlsplit\<close>.

  \<^verbatim>\<open>secrets.randbelow\<close>, \<^verbatim>\<open>uuid.uuid4\<close>, the clock and
  \<^verbatim>\<open>Path(s).expanduser().resolve()\<close> are arguments.  Sessions are values here: the code
  changes the token of the session in place, and the only reader of a session outside the service
  is the dialog that shows it.
\<close>

section \<open>Python's URLs\<close>

text \<open>\<^verbatim>\<open>urllib.parse.quote_plus\<close> and \<^verbatim>\<open>urlencode\<close>\<close>

definition hex_upper :: "nat \<Rightarrow> char" where
  "hex_upper n = ''0123456789ABCDEF'' ! (n mod 16)"

definition url_unreserved :: "char \<Rightarrow> bool" where
  "url_unreserved c \<longleftrightarrow>
     (let n = of_char c :: nat in 48 \<le> n \<and> n \<le> 57 \<or> 65 \<le> n \<and> n \<le> 90 \<or> 97 \<le> n \<and> n \<le> 122
        \<or> c \<in> {CHR ''_'', CHR ''.'', CHR ''-'', CHR ''~''})"

definition quote_plus_char :: "char \<Rightarrow> string" where
  "quote_plus_char c =
     (if url_unreserved c then [c]
      else if c = CHR '' '' then ''+''
      else concat (map (\<lambda>b. [CHR ''%'', hex_upper (unat b div 16), hex_upper (unat b)]) (utf8_char c)))"

definition quote_plus :: "string \<Rightarrow> string" where
  "quote_plus s = concat (map quote_plus_char s)"

definition urlencode :: "(string \<times> string) list \<Rightarrow> string" where
  "urlencode pairs = py_join ''&'' (map (\<lambda>(k, v). quote_plus k @ ''='' @ quote_plus v) pairs)"

text \<open>
  \<^verbatim>\<open>urlsplit(url)\<close>: the network location, and from it \<open>hostname\<close> and \<open>port\<close>.
  Leading control characters and spaces are dropped, tabs and line breaks removed.  A host in
  brackets is checked by the \<^verbatim>\<open>ipaddress\<close> module, which is the argument \<open>bracket_ok\<close>.
\<close>

definition url_clean :: "string \<Rightarrow> string" where
  "url_clean url = filter (\<lambda>c. c \<notin> {CHR 0x09, CHR 0x0A, CHR 0x0D})
     (dropWhile (\<lambda>c. (of_char c :: nat) \<le> 32) url)"

definition is_ascii_alpha :: "char \<Rightarrow> bool" where
  "is_ascii_alpha c = (let n = of_char c :: nat in 65 \<le> n \<and> n \<le> 90 \<or> 97 \<le> n \<and> n \<le> 122)"

definition is_scheme_char :: "char \<Rightarrow> bool" where
  "is_scheme_char c \<longleftrightarrow> is_ascii_alpha c \<or> is_ascii_digit c \<or> c \<in> {CHR ''+'', CHR ''-'', CHR ''.''}"

text \<open>\<^verbatim>\<open>s.partition(c)\<close>: the text before the first \<open>c\<close>, whether there is one, and the rest.\<close>

definition py_partition :: "char \<Rightarrow> string \<Rightarrow> string \<times> bool \<times> string" where
  "py_partition c s = (takeWhile (\<lambda>x. x \<noteq> c) s, c \<in> set s, tl (dropWhile (\<lambda>x. x \<noteq> c) s))"

definition drop_scheme :: "string \<Rightarrow> string" where
  "drop_scheme url =
     (case py_partition (CHR '':'') url of
        (s, found, rest) \<Rightarrow>
          if found \<and> s \<noteq> [] \<and> is_ascii_alpha (hd s) \<and> list_all is_scheme_char s then rest else url)"

definition url_netloc :: "(string \<Rightarrow> bool) \<Rightarrow> string \<Rightarrow> string res" where
  "url_netloc bracket_ok url =
     (let rest = drop_scheme (url_clean url);
          netloc = (if take 2 rest = ''//''
                    then takeWhile (\<lambda>c. c \<notin> {CHR ''/'', CHR ''?'', CHR ''#''}) (drop 2 rest) else []);
          opens = CHR ''['' \<in> set netloc; closes = CHR '']'' \<in> set netloc
      in if opens \<noteq> closes then Inl (ValueError ''Invalid IPv6 URL'')
         else if opens \<and> closes \<and> \<not> bracket_ok netloc
         then Inl (ValueError ''Invalid IPv6 address'')
         else Inr netloc)"

text \<open>\<^verbatim>\<open>_hostinfo\<close>: the host, with no case change, and the text of the port.\<close>

definition url_hostinfo :: "string \<Rightarrow> string \<times> string" where
  "url_hostinfo netloc =
     (let hostinfo = rev (takeWhile (\<lambda>c. c \<noteq> CHR ''@'') (rev netloc))
      in case py_partition (CHR ''['') hostinfo of
           (before, opened, bracketed) \<Rightarrow>
             if opened
             then (case py_partition (CHR '']'') bracketed of
                     (h, _, after) \<Rightarrow> (h, snd (snd (py_partition (CHR '':'') after))))
             else (case py_partition (CHR '':'') hostinfo of (h, _, p) \<Rightarrow> (h, p)))"

definition url_hostname :: "string \<Rightarrow> string option" where
  "url_hostname netloc =
     (let h = fst (url_hostinfo netloc)
      in if h = [] then None
         else (case py_partition (CHR ''%'') h of
                 (name, zoned, zone) \<Rightarrow> Some (py_lower name @ (if zoned then ''%'' @ zone else []))))"

definition url_port :: "string \<Rightarrow> nat option res" where
  "url_port netloc =
     (let p = snd (url_hostinfo netloc)
      in if p = [] then Inr None
         else if \<not> list_all is_ascii_digit p
         then Inl (ValueError ''Port could not be cast to integer value'')
         else if 65535 < dec_value p then Inl (ValueError ''Port out of range 0-65535'')
         else Inr (Some (dec_value p)))"

section \<open>Constants and records\<close>

definition PAIRING_ADVERTISED_HOST_LIMIT :: nat where "PAIRING_ADVERTISED_HOST_LIMIT = 5"
definition PAIRING_TOKEN_TTL :: int where "PAIRING_TOKEN_TTL = 900000000"
definition PAIRING_QR_SCHEMA_VERSION :: nat where "PAIRING_QR_SCHEMA_VERSION = 2"
definition PAIRING_QR_HOST :: string where "PAIRING_QR_HOST = ''dl.boldman.net''"
definition USB_SUGGESTED_PORT_MIN :: nat where "USB_SUGGESTED_PORT_MIN = 47000"
definition USB_SUGGESTED_PORT_MAX :: nat where "USB_SUGGESTED_PORT_MAX = 57000"

datatype mobile_platform = ANDROID | IOS

fun platform_value :: "mobile_platform \<Rightarrow> string" where
  "platform_value ANDROID = ''android''"
| "platform_value IOS = ''ios''"

definition mobile_platforms :: "mobile_platform list" where
  "mobile_platforms = [ANDROID, IOS]"

text \<open>\<^verbatim>\<open>MobilePlatform(text)\<close>, \<open>None\<close> for its \<open>ValueError\<close>.\<close>

definition platform_of :: "string \<Rightarrow> mobile_platform option" where
  "platform_of s = find (\<lambda>p. platform_value p = s) mobile_platforms"

fun platform_display_name :: "mobile_platform \<Rightarrow> string" where
  "platform_display_name ANDROID = ''Android''"
| "platform_display_name IOS = ''iPhone / iPad''"

record pairing_token =
  pt_one_time_passcode :: string
  pt_suggested_usb_port :: nat
  pt_payload :: string
  pt_endpoint_targets :: "string list"
  pt_strict_security_enabled :: bool
  pt_expires_at :: pydatetime
  pt_refresh_generation :: nat

record pairing_session =
  ps_destination_parent :: string
  ps_desktop_endpoint_urls :: "string list"
  ps_session_id :: string
  ps_created_at :: pydatetime
  ps_tokens :: "(mobile_platform, pairing_token) dict"

text \<open>What a new token is drawn from: two results of \<^verbatim>\<open>secrets.randbelow\<close>.\<close>

record token_draw =
  td_passcode :: nat
  td_port :: nat

definition draw_ok :: "token_draw \<Rightarrow> bool" where
  "draw_ok d \<longleftrightarrow> td_passcode d < 1000000 \<and> td_port d < USB_SUGGESTED_PORT_MAX - USB_SUGGESTED_PORT_MIN + 1"

section \<open>Operations\<close>

text \<open>
  \<^verbatim>\<open>seconds_remaining\<close>: \<^verbatim>\<open>int(total_seconds())\<close> rounds towards zero and negative
  values are cut at zero.  \<open>current\<close> is the time after \<^verbatim>\<open>_utc_now(now)\<close>.
\<close>

definition dt_minus_us :: "pydatetime \<Rightarrow> pydatetime \<Rightarrow> int" where
  "dt_minus_us a b = (dt_day a - dt_day b) * day_us + (dt_us a - dt_us b)"

definition seconds_remaining :: "pairing_token \<Rightarrow> pydatetime \<Rightarrow> int" where
  "seconds_remaining token current =
     (let us = dt_minus_us (pt_expires_at token) current
      in max 0 (if us < 0 then - (- us div 1000000) else us div 1000000))"

definition is_expired :: "pairing_token \<Rightarrow> pydatetime \<Rightarrow> bool" where
  "is_expired token current = (seconds_remaining token current = 0)"

definition dt_add_us :: "pydatetime \<Rightarrow> int \<Rightarrow> pydatetime res" where
  "dt_add_us t us =
     (let total = dt_day t * day_us + dt_us t + us; d = total div day_us
      in if 0 \<le> d \<and> d \<le> max_day then Inr (t\<lparr>dt_day := d, dt_us := total mod day_us\<rparr>)
         else Inl (OverflowError ''date value out of range''))"

fun dedupe_endpoint_urls :: "string list \<Rightarrow> string list \<Rightarrow> string list res" where
  "dedupe_endpoint_urls [] seen = Inr seen"
| "dedupe_endpoint_urls (u # us) seen =
     (if u = [] then Inl (ValueError ''Desktop pairing endpoint URLs must be non-empty strings.'')
      else if u \<in> set seen then dedupe_endpoint_urls us seen
      else dedupe_endpoint_urls us (seen @ [u]))"

definition normalize_endpoint_urls :: "string option \<Rightarrow> string list option \<Rightarrow> string list res" where
  "normalize_endpoint_urls desktop_endpoint_url desktop_endpoint_urls =
     (let raw = (case desktop_endpoint_urls of
                   Some us \<Rightarrow> us
                 | None \<Rightarrow> (case desktop_endpoint_url of None \<Rightarrow> [] | Some u \<Rightarrow> [u]))
      in bindE (dedupe_endpoint_urls raw []) (\<lambda>urls.
           if urls = [] then Inl (ValueError ''Desktop pairing requires at least one endpoint URL.'')
           else Inr (take PAIRING_ADVERTISED_HOST_LIMIT urls)))"

definition endpoint_target_from_url :: "(string \<Rightarrow> bool) \<Rightarrow> string \<Rightarrow> string res" where
  "endpoint_target_from_url bracket_ok url =
     (let missing = ValueError (''Desktop endpoint URL must include host and port: '' @ url)
      in bindE (url_netloc bracket_ok url) (\<lambda>netloc.
           case url_hostname netloc of
             None \<Rightarrow> Inl missing
           | Some [] \<Rightarrow> Inl missing
           | Some h \<Rightarrow> bindE (url_port netloc) (\<lambda>p.
               case p of
                 None \<Rightarrow> Inl missing
               | Some n \<Rightarrow>
                   Inr ((if CHR '':'' \<in> set h \<and> \<not> py_startswith h ''['' then ''['' @ h @ '']'' else h)
                        @ '':'' @ str_nat n))))"

definition pairing_payload :: "string list \<Rightarrow> string \<Rightarrow> string \<Rightarrow> nat \<Rightarrow> bool \<Rightarrow> string" where
  "pairing_payload targets session_id passcode port strict =
     ''https://'' @ PAIRING_QR_HOST @ ''?'' @ urlencode
       ([(''v'', str_nat PAIRING_QR_SCHEMA_VERSION), (''ept'', py_join '','' targets), (''sid'', session_id),
         (''opt'', passcode), (''usp'', str_nat port)] @ (if strict then [(''sec'', ''1'')] else []))"

definition new_pairing_token ::
    "(string \<Rightarrow> bool) \<Rightarrow> token_draw \<Rightarrow> string \<Rightarrow> string list \<Rightarrow> bool \<Rightarrow> nat \<Rightarrow> pydatetime
     \<Rightarrow> pairing_token res" where
  "new_pairing_token bracket_ok draw session_id urls strict generation current_time =
     bindE (mapE (endpoint_target_from_url bracket_ok) urls) (\<lambda>targets.
       let passcode = zero_pad 6 (str_nat (td_passcode draw));
           port = USB_SUGGESTED_PORT_MIN + td_port draw
       in bindE (dt_add_us current_time PAIRING_TOKEN_TTL) (\<lambda>expires.
            Inr \<lparr>pt_one_time_passcode = passcode, pt_suggested_usb_port = port,
                 pt_payload = pairing_payload targets session_id passcode port strict,
                 pt_endpoint_targets = targets, pt_strict_security_enabled = strict,
                 pt_expires_at = expires, pt_refresh_generation = generation\<rparr>))"

text \<open>\<^verbatim>\<open>for platform in MobilePlatform: tokens[platform] = token\<close>\<close>

definition share_token :: "pairing_token \<Rightarrow> pairing_session \<Rightarrow> pairing_session" where
  "share_token token session =
     session\<lparr>ps_tokens := fold (\<lambda>p d. dict_set d p token) mobile_platforms (ps_tokens session)\<rparr>"

definition create_session ::
    "(string \<Rightarrow> bool) \<Rightarrow> (string \<Rightarrow> string) \<Rightarrow> token_draw \<Rightarrow> string \<Rightarrow> pydatetime \<Rightarrow> string \<Rightarrow> string option
     \<Rightarrow> string list option \<Rightarrow> bool \<Rightarrow> pairing_session res" where
  "create_session bracket_ok normalize_directory_path draw uuid_hex current_time destination_parent
       desktop_endpoint_url desktop_endpoint_urls strict =
     bindE (normalize_endpoint_urls desktop_endpoint_url desktop_endpoint_urls) (\<lambda>urls.
       let session = \<lparr>ps_destination_parent = normalize_directory_path destination_parent,
             ps_desktop_endpoint_urls = urls, ps_session_id = uuid_hex, ps_created_at = current_time,
             ps_tokens = []\<rparr>
       in bindE (new_pairing_token bracket_ok draw uuid_hex urls strict 0 current_time) (\<lambda>token.
            Inr (share_token token session)))"

definition token_for :: "pairing_session \<Rightarrow> mobile_platform \<Rightarrow> pairing_token res" where
  "token_for session platform =
     (case dict_get (ps_tokens session) platform of
        None \<Rightarrow> Inl (KeyError (platform_value platform))
      | Some t \<Rightarrow> Inr t)"

definition refresh_session_token ::
    "(string \<Rightarrow> bool) \<Rightarrow> token_draw \<Rightarrow> pydatetime \<Rightarrow> mobile_platform \<Rightarrow> pairing_session
     \<Rightarrow> (pairing_session \<times> pairing_token) res" where
  "refresh_session_token bracket_ok draw current_time platform session =
     bindE (token_for session platform) (\<lambda>old.
       bindE (new_pairing_token bracket_ok draw (ps_session_id session) (ps_desktop_endpoint_urls session)
                (pt_strict_security_enabled old) (pt_refresh_generation old + 1) current_time) (\<lambda>token.
         Inr (share_token token session, token)))"

definition set_destination_parent ::
    "(string \<Rightarrow> string) \<Rightarrow> string \<Rightarrow> pairing_session \<Rightarrow> pairing_session" where
  "set_destination_parent normalize_directory_path destination_parent session =
     session\<lparr>ps_destination_parent := normalize_directory_path destination_parent\<rparr>"

text \<open>
  \<^verbatim>\<open>_format_pairing_endpoint_url\<close> of the service, which produces the URLs that become the
  targets of the token.
\<close>

definition PAIRING_CLAIM_PATH :: string where "PAIRING_CLAIM_PATH = ''/api/mobile/pairing/claim''"

definition format_pairing_endpoint_url :: "string \<Rightarrow> nat \<Rightarrow> string" where
  "format_pairing_endpoint_url host port =
     ''http://'' @ (if CHR '':'' \<in> set host \<and> \<not> py_startswith host ''['' then ''['' @ host @ '']'' else host)
     @ '':'' @ str_nat port @ PAIRING_CLAIM_PATH"

section \<open>Tokens and sessions\<close>

lemma length_digits_rev: "n < 10 ^ Suc k \<Longrightarrow> length (digits_rev n) \<le> Suc k"
proof (induction k arbitrary: n)
  case 0
  then show ?case by (subst digits_rev.simps) simp
next
  case (Suc k)
  have "length (digits_rev (n div 10)) \<le> Suc k"
    using Suc.prems by (intro Suc.IH) (simp add: less_mult_imp_div_less)
  then show ?case by (subst digits_rev.simps) simp
qed

definition is_passcode :: "string \<Rightarrow> bool" where
  "is_passcode s \<longleftrightarrow> length s = 6 \<and> list_all is_ascii_digit s"

lemma padded_passcode: "n < 1000000 \<Longrightarrow> is_passcode (zero_pad 6 (str_nat n))"
proof -
  assume "n < 1000000"
  then have "length (str_nat n) \<le> 6"
    using length_digits_rev [of n 5] by (simp add: str_nat_def)
  moreover have "list_all is_ascii_digit (str_nat n)"
    by (auto simp: list_all_iff is_ascii_digit_def Let_def dest: str_nat_digits)
  ultimately show ?thesis
    by (auto simp: is_passcode_def zero_pad_def list_all_iff is_ascii_digit_def)
qed

text \<open>
  A token fits its session: a passcode of six digits, a port of the suggested range, one target
  for each endpoint, and the payload that carries them.
\<close>

definition token_ok :: "pairing_session \<Rightarrow> pairing_token \<Rightarrow> bool" where
  "token_ok s t \<longleftrightarrow> is_passcode (pt_one_time_passcode t) \<and>
     USB_SUGGESTED_PORT_MIN \<le> pt_suggested_usb_port t \<and> pt_suggested_usb_port t \<le> USB_SUGGESTED_PORT_MAX \<and>
     length (pt_endpoint_targets t) = length (ps_desktop_endpoint_urls s) \<and>
     pt_payload t = pairing_payload (pt_endpoint_targets t) (ps_session_id s) (pt_one_time_passcode t)
       (pt_suggested_usb_port t) (pt_strict_security_enabled t)"

definition session_ok :: "pairing_session \<Rightarrow> bool" where
  "session_ok s \<longleftrightarrow>
     (\<exists>t. token_for s ANDROID = Inr t \<and> token_for s IOS = Inr t \<and> token_ok s t) \<and>
     distinct (ps_desktop_endpoint_urls s) \<and> [] \<notin> set (ps_desktop_endpoint_urls s) \<and>
     ps_desktop_endpoint_urls s \<noteq> [] \<and> length (ps_desktop_endpoint_urls s) \<le> PAIRING_ADVERTISED_HOST_LIMIT"

lemma token_for_shared [simp]: "token_for (share_token t s) p = Inr t"
  by (cases p) (simp_all add: token_for_def share_token_def mobile_platforms_def)

lemma share_token_simps [simp]:
  "ps_session_id (share_token t s) = ps_session_id s"
  "ps_desktop_endpoint_urls (share_token t s) = ps_desktop_endpoint_urls s"
  "ps_destination_parent (share_token t s) = ps_destination_parent s"
  "ps_created_at (share_token t s) = ps_created_at s"
  by (simp_all add: share_token_def)

lemma new_token_ok:
  assumes "new_pairing_token b draw sid urls strict g now = Inr t" and "draw_ok draw"
    and "ps_session_id s = sid" and "ps_desktop_endpoint_urls s = urls"
  shows "token_ok s t" and "pt_refresh_generation t = g" and "pt_strict_security_enabled t = strict"
    and "dt_add_us now PAIRING_TOKEN_TTL = Inr (pt_expires_at t)"
proof -
  from assms(1) obtain targets where "mapE (endpoint_target_from_url b) urls = Inr targets"
    and t: "pt_one_time_passcode t = zero_pad 6 (str_nat (td_passcode draw))"
      "pt_suggested_usb_port t = USB_SUGGESTED_PORT_MIN + td_port draw" "pt_endpoint_targets t = targets"
      "pt_payload t = pairing_payload targets sid (zero_pad 6 (str_nat (td_passcode draw)))
         (USB_SUGGESTED_PORT_MIN + td_port draw) strict"
      "pt_strict_security_enabled t = strict" "pt_refresh_generation t = g"
      "dt_add_us now PAIRING_TOKEN_TTL = Inr (pt_expires_at t)"
    by (auto simp: new_pairing_token_def Let_def exn_simps)
  moreover have "length targets = length urls" using calculation(1) by (rule mapE_Inr_length)
  ultimately show "token_ok s t"
    using assms(2-4) padded_passcode [of "td_passcode draw"]
    by (simp add: token_ok_def draw_ok_def USB_SUGGESTED_PORT_MIN_def USB_SUGGESTED_PORT_MAX_def)
  show "pt_refresh_generation t = g" "pt_strict_security_enabled t = strict"
    "dt_add_us now PAIRING_TOKEN_TTL = Inr (pt_expires_at t)" using t by simp_all
qed

lemma dedupe_ok:
  "dedupe_endpoint_urls us seen = Inr r \<Longrightarrow> distinct seen \<Longrightarrow> [] \<notin> set seen \<Longrightarrow>
     distinct r \<and> [] \<notin> set r \<and> set r = set seen \<union> set us"
  by (induction us seen rule: dedupe_endpoint_urls.induct) (auto split: if_splits)

lemma normalize_urls_ok:
  assumes "normalize_endpoint_urls u us = Inr r"
  shows "distinct r \<and> [] \<notin> set r \<and> r \<noteq> [] \<and> length r \<le> PAIRING_ADVERTISED_HOST_LIMIT"
proof -
  from assms obtain raw d where d: "dedupe_endpoint_urls raw [] = Inr d" "d \<noteq> []"
    "r = take PAIRING_ADVERTISED_HOST_LIMIT d"
    by (auto simp: normalize_endpoint_urls_def Let_def exn_simps split: if_splits)
  then show ?thesis
    using dedupe_ok [OF d(1)] by (auto simp: PAIRING_ADVERTISED_HOST_LIMIT_def dest: in_set_takeD)
qed

lemma created_session:
  assumes "create_session b norm draw sid now parent u us strict = Inr s" and "draw_ok draw"
  shows "session_ok s" and "ps_session_id s = sid" and "ps_created_at s = now"
    and "token_for s p = Inr t \<Longrightarrow> dt_add_us now PAIRING_TOKEN_TTL = Inr (pt_expires_at t)"
proof -
  from assms(1) obtain urls t0 s0 where urls: "normalize_endpoint_urls u us = Inr urls"
    and t0: "new_pairing_token b draw sid urls strict 0 now = Inr t0"
    and s: "s = share_token t0 s0" and s0: "ps_session_id s0 = sid" "ps_desktop_endpoint_urls s0 = urls"
      "ps_created_at s0 = now"
    by (auto simp: create_session_def Let_def exn_simps)
  have "token_ok (share_token t0 s0) t0" by (rule new_token_ok [OF t0 assms(2)]) (simp_all add: s0)
  with normalize_urls_ok [OF urls] show "session_ok s" by (auto simp: session_ok_def s s0)
  show "ps_session_id s = sid" "ps_created_at s = now" by (simp_all add: s s0)
  show "token_for s p = Inr t \<Longrightarrow> dt_add_us now PAIRING_TOKEN_TTL = Inr (pt_expires_at t)"
    using new_token_ok(4) [OF t0 assms(2) s0(1,2)] by (simp add: s)
qed

text \<open>
  C27. A session that is created is well formed (both platforms share one token with a passcode of six
  digits, a port of the suggested range, a target for every endpoint and the payload that carries
  them; the endpoints are distinct, non-empty and between one and five), and so is the session
  after its token is refreshed, which keeps the session's identity and endpoints, counts the refresh
  and gives both platforms the new token, valid for another fifteen minutes.
\<close>
theorem sessions_well_formed:
  assumes "create_session b norm draw sid now parent u us strict = Inr s" and "draw_ok draw"
    and "refresh_session_token b draw' now' p s = Inr (s', t)" and "draw_ok draw'"
  shows "session_ok s \<and> session_ok s' \<and> ps_session_id s' = sid \<and>
    ps_desktop_endpoint_urls s' = ps_desktop_endpoint_urls s \<and>
    (\<forall>q. token_for s' q = Inr t) \<and> pt_refresh_generation t = 1 \<and>
    pt_strict_security_enabled t = strict \<and>
    dt_add_us now' PAIRING_TOKEN_TTL = Inr (pt_expires_at t)"
proof -
  from assms(1) obtain urls t0 s0 where urls: "normalize_endpoint_urls u us = Inr urls"
    and t0: "new_pairing_token b draw sid urls strict 0 now = Inr t0" and s: "s = share_token t0 s0"
    by (auto simp: create_session_def Let_def exn_simps)
  have old: "token_for s p = Inr t0" by (simp add: s)
  note gen = new_token_ok(2,3) [OF t0 assms(2), of "s0\<lparr>ps_session_id := sid, ps_desktop_endpoint_urls := urls\<rparr>", simplified]
  from assms(3) old have
    t: "new_pairing_token b draw' (ps_session_id s) (ps_desktop_endpoint_urls s) strict 1 now' = Inr t"
    and s': "s' = share_token t s"
    using gen by (auto simp: refresh_session_token_def exn_simps)
  have "token_ok s' t" by (rule new_token_ok [OF t assms(4)]) (simp_all add: s')
  then have "session_ok s'"
    using created_session(1) [OF assms(1,2)] by (auto simp: session_ok_def s')
  with created_session(1,2) [OF assms(1,2)] new_token_ok(2,3,4) [OF t assms(4) refl refl] show ?thesis
    by (simp add: s')
qed

section \<open>Endpoints\<close>

text \<open>Hosts as the desktop advertises them: a name or an IPv4 address, or an IPv6 address.\<close>

definition plain_host_char :: "char \<Rightarrow> bool" where
  "plain_host_char c \<longleftrightarrow> (let n = of_char c :: nat in 48 \<le> n \<and> n \<le> 57 \<or> 97 \<le> n \<and> n \<le> 122
     \<or> c = CHR ''.'' \<or> c = CHR ''-'')"

definition plain_host :: "string \<Rightarrow> bool" where
  "plain_host h \<longleftrightarrow> h \<noteq> [] \<and> list_all (\<lambda>c. plain_host_char c \<or> c = CHR '':'') h"

definition bracketed_host :: "string \<Rightarrow> string" where
  "bracketed_host h = (if CHR '':'' \<in> set h then ''['' @ h @ '']'' else h)"

lemma plain_host_not_in:
  assumes "plain_host h" and "c \<in> {CHR ''/'', CHR ''?'', CHR ''#'', CHR ''@'', CHR ''['', CHR '']'', CHR ''%'',
      CHR 0x09, CHR 0x0A, CHR 0x0D}"
  shows "c \<notin> set h"
proof
  assume "c \<in> set h"
  with assms(1) have "plain_host_char c \<or> c = CHR '':''" by (auto simp: plain_host_def list_all_iff)
  with assms(2) show False by (auto simp: plain_host_char_def)
qed

lemma plain_host_lower: "plain_host h \<Longrightarrow> py_lower h = h"
  by (rule map_idI) (auto simp: plain_host_def list_all_iff plain_host_char_def lower_char_def Let_def)

lemma takeWhile_stop: "(\<And>x. x \<in> set xs \<Longrightarrow> P x) \<Longrightarrow> \<not> P y \<Longrightarrow> takeWhile P (xs @ y # ys) = xs"
  by (induction xs) auto

lemma takeWhile_rev_all: "c \<notin> set xs \<Longrightarrow> rev (takeWhile (\<lambda>x. x \<noteq> c) (rev xs)) = xs"
  by (subst takeWhile_eq_all_conv [THEN iffD2]) auto

lemma partition_at: "c \<notin> set xs \<Longrightarrow> py_partition c (xs @ c # ys) = (xs, True, ys)"
  by (induction xs) (auto simp: py_partition_def)

lemma partition_none: "c \<notin> set xs \<Longrightarrow> py_partition c xs = (xs, False, [])"
  by (induction xs) (auto simp: py_partition_def)

definition netloc_char :: "char \<Rightarrow> bool" where
  "netloc_char c \<longleftrightarrow> plain_host_char c \<or> c = CHR '':'' \<or> c = CHR ''['' \<or> c = CHR '']''"

lemma netloc_char_not [simp]:
  "\<not> netloc_char (CHR ''/'')" "\<not> netloc_char (CHR ''?'')" "\<not> netloc_char (CHR ''#'')"
  "\<not> netloc_char (CHR ''@'')" "\<not> netloc_char (CHR 0x09)" "\<not> netloc_char (CHR 0x0A)" "\<not> netloc_char (CHR 0x0D)"
  by (simp_all add: netloc_char_def plain_host_char_def)

lemma netloc_chars: "plain_host h \<Longrightarrow> list_all netloc_char (bracketed_host h @ '':'' @ str_nat p)"
proof -
  assume h: "plain_host h"
  then have "list_all netloc_char h"
    by (auto simp: plain_host_def list_all_iff netloc_char_def)
  then have "list_all netloc_char (bracketed_host h)"
    by (simp add: bracketed_host_def netloc_char_def)
  moreover have "list_all netloc_char (str_nat p)"
    by (auto simp: list_all_iff netloc_char_def plain_host_char_def Let_def dest: str_nat_digits)
  ultimately show ?thesis by (simp add: netloc_char_def)
qed

lemma netloc_char_not_in: "list_all netloc_char s \<Longrightarrow> \<not> netloc_char c \<Longrightarrow> c \<notin> set s"
  by (auto simp: list_all_iff)

lemma str_nat_no_bracket: "CHR ''['' \<notin> set (str_nat n)" "CHR '']'' \<notin> set (str_nat n)"
  using str_nat_digits [of "CHR ''[''" n] str_nat_digits [of "CHR '']''" n] by auto

lemma format_url_parts:
  "plain_host h \<Longrightarrow> format_pairing_endpoint_url h p =
     ''http'' @ CHR '':'' # ''//'' @ (bracketed_host h @ '':'' @ str_nat p) @ CHR ''/'' # ''api/mobile/pairing/claim''"
proof -
  assume h: "plain_host h"
  have "\<not> py_startswith h ''[''" if "CHR '':'' \<in> set h"
  proof
    assume "py_startswith h ''[''"
    with that have "CHR ''['' \<in> set h" by (cases h) (auto simp: py_startswith_def)
    with plain_host_not_in [OF h] show False by simp
  qed
  then show ?thesis
    by (auto simp: format_pairing_endpoint_url_def PAIRING_CLAIM_PATH_def bracketed_host_def)
qed

lemma format_url_netloc:
  assumes h: "plain_host h" and ok: "CHR '':'' \<in> set h \<Longrightarrow> b (bracketed_host h @ '':'' @ str_nat p)"
  shows "url_netloc b (format_pairing_endpoint_url h p) = Inr (bracketed_host h @ '':'' @ str_nat p)"
proof -
  let ?net = "bracketed_host h @ '':'' @ str_nat p"
  let ?rest = "''//'' @ ?net @ CHR ''/'' # ''api/mobile/pairing/claim''"
  note net = netloc_char_not_in [OF netloc_chars [OF h, of p]]
  have kept: "\<forall>c\<in>set (''http'' @ CHR '':'' # ?rest). c \<notin> {CHR 0x09, CHR 0x0A, CHR 0x0D}"
    using net [OF netloc_char_not(5)] net [OF netloc_char_not(6)] net [OF netloc_char_not(7)] by fastforce
  have head: "dropWhile (\<lambda>c. (of_char c :: nat) \<le> 32) (''http'' @ CHR '':'' # ?rest) = ''http'' @ CHR '':'' # ?rest"
    by simp
  have clean: "url_clean (''http'' @ CHR '':'' # ?rest) = ''http'' @ CHR '':'' # ?rest"
    unfolding url_clean_def head using kept by (simp only: filter_id_conv)
  have "py_partition (CHR '':'') (''http'' @ CHR '':'' # ?rest) = (''http'', True, ?rest)"
    by (rule partition_at) simp
  then have scheme: "drop_scheme (''http'' @ CHR '':'' # ?rest) = ?rest"
    unfolding drop_scheme_def by (simp add: is_ascii_alpha_def is_scheme_char_def)
  have take: "takeWhile (\<lambda>c. c \<notin> {CHR ''/'', CHR ''?'', CHR ''#''}) (?net @ CHR ''/'' # ''api/mobile/pairing/claim'') = ?net"
    by (rule takeWhile_stop) (use net [OF netloc_char_not(1)] net [OF netloc_char_not(2)] net [OF netloc_char_not(3)] in fastforce)+
  have brackets: "CHR ''['' \<in> set ?net \<longleftrightarrow> CHR '':'' \<in> set h" "CHR '']'' \<in> set ?net \<longleftrightarrow> CHR '':'' \<in> set h"
    using str_nat_no_bracket [of p] plain_host_not_in [OF h, of "CHR ''[''"] plain_host_not_in [OF h, of "CHR '']''"]
    by (auto simp: bracketed_host_def)
  have two: "take 2 ?rest = ''//''" "drop 2 ?rest = ?net @ CHR ''/'' # ''api/mobile/pairing/claim''" by simp_all
  show ?thesis
    unfolding url_netloc_def format_url_parts [OF h] clean scheme Let_def two take if_P [OF refl] brackets
    using ok by simp
qed

lemma format_url_hostinfo:
  assumes h: "plain_host h"
  shows "url_hostinfo (bracketed_host h @ '':'' @ str_nat p) = (h, str_nat p)"
proof -
  let ?net = "bracketed_host h @ '':'' @ str_nat p"
  have "CHR ''@'' \<notin> set ?net"
    by (rule netloc_char_not_in [OF netloc_chars [OF h] netloc_char_not(4)])
  then have host: "rev (takeWhile (\<lambda>c. c \<noteq> CHR ''@'') (rev ?net)) = ?net"
    by (rule takeWhile_rev_all)
  show ?thesis
  proof (cases "CHR '':'' \<in> set h")
    case True
    then have net: "?net = [] @ CHR ''['' # (h @ CHR '']'' # ([] @ CHR '':'' # str_nat p))"
      by (simp add: bracketed_host_def)
    have "py_partition (CHR ''['') ([] @ CHR ''['' # (h @ CHR '']'' # ([] @ CHR '':'' # str_nat p)))
      = ([], True, h @ CHR '']'' # ([] @ CHR '':'' # str_nat p))"
      by (rule partition_at) simp
    moreover have "py_partition (CHR '']'') (h @ CHR '']'' # ([] @ CHR '':'' # str_nat p))
      = (h, True, [] @ CHR '':'' # str_nat p)"
      by (rule partition_at) (use plain_host_not_in [OF h] in simp)
    moreover have "py_partition (CHR '':'') ([] @ CHR '':'' # str_nat p) = ([], True, str_nat p)"
      by (rule partition_at) simp
    ultimately show ?thesis unfolding url_hostinfo_def Let_def host unfolding net by simp
  next
    case False
    then have net: "?net = h @ CHR '':'' # str_nat p" by (simp add: bracketed_host_def)
    have "CHR ''['' \<notin> set (h @ CHR '':'' # str_nat p)"
      using plain_host_not_in [OF h, of "CHR ''[''"] str_nat_no_bracket [of p] by simp
    note partition_none [OF this]
    moreover have "py_partition (CHR '':'') (h @ CHR '':'' # str_nat p) = (h, True, str_nat p)"
      by (rule partition_at) (use False in simp)
    ultimately show ?thesis unfolding url_hostinfo_def Let_def host unfolding net by simp
  qed
qed

lemma endpoint_target_formatted:
  assumes "plain_host h" and "p \<le> 65535"
    and "CHR '':'' \<in> set h \<Longrightarrow> b (bracketed_host h @ '':'' @ str_nat p)"
  shows "endpoint_target_from_url b (format_pairing_endpoint_url h p) =
    Inr (bracketed_host h @ '':'' @ str_nat p)"
proof -
  have "py_partition (CHR ''%'') h = (h, False, [])"
    by (rule partition_none) (use plain_host_not_in [OF assms(1)] in simp)
  moreover have "h \<noteq> []" using assms(1) by (simp add: plain_host_def)
  ultimately have host: "url_hostname (bracketed_host h @ '':'' @ str_nat p) = Some h"
    using plain_host_lower [OF assms(1)]
    unfolding url_hostname_def Let_def format_url_hostinfo [OF assms(1)] by simp
  have "list_all is_ascii_digit (str_nat p)"
    by (auto simp: list_all_iff is_ascii_digit_def Let_def dest: str_nat_digits)
  then have port: "url_port (bracketed_host h @ '':'' @ str_nat p) = Inr (Some p)"
    using assms(2) unfolding url_port_def Let_def format_url_hostinfo [OF assms(1)]
    by (simp add: dec_value_str_nat)
  have net: "url_netloc b (format_pairing_endpoint_url h p) = Inr (bracketed_host h @ '':'' @ str_nat p)"
    by (rule format_url_netloc) (use assms in auto)
  have "\<not> py_startswith h ''[''"
    using plain_host_not_in [OF assms(1), of "CHR ''[''"] by (cases h) (auto simp: py_startswith_def)
  then have shape: "(if CHR '':'' \<in> set h \<and> \<not> py_startswith h ''['' then ''['' @ h @ '']'' else h) = bracketed_host h"
    by (simp add: bracketed_host_def)
  obtain c cs where h: "h = c # cs" using \<open>h \<noteq> []\<close> by (cases h) auto
  show ?thesis
    unfolding endpoint_target_from_url_def Let_def net bindE_Inr host option.case
    unfolding h list.case unfolding h [symmetric] port bindE_Inr option.case shape by simp
qed

text \<open>
  The endpoint that the desktop advertises is the target the phone gets: for a host name, an IPv4
  or an IPv6 address and a port up to 65535 the URL that \<open>_format_pairing_endpoint_url\<close> builds is
  read back as the same host and port, with an IPv6 address in brackets.
\<close>
theorem endpoint_url_roundtrip:
  assumes "plain_host h" and "p \<le> 65535"
    and "CHR '':'' \<in> set h \<Longrightarrow> b (bracketed_host h @ '':'' @ str_nat p)"
  shows "endpoint_target_from_url b (format_pairing_endpoint_url h p) =
    Inr (bracketed_host h @ '':'' @ str_nat p)"
  using assms by (rule endpoint_target_formatted)

lemma endpoint_url_roundtrip_witness:
  "endpoint_target_from_url (\<lambda>_. True) (format_pairing_endpoint_url ''fe80::1'' 8080) =
    Inr (''[fe80::1]'' @ '':'' @ str_nat 8080)"
  using endpoint_url_roundtrip [of "''fe80::1''" 8080 "\<lambda>_. True"]
  by (simp add: plain_host_def plain_host_char_def bracketed_host_def)

section \<open>An example\<close>

definition example_draw :: token_draw where
  "example_draw = \<lparr>td_passcode = 42, td_port = 7\<rparr>"

definition example_now :: pydatetime where
  "example_now = \<lparr>dt_day = 738944, dt_us = 0, dt_off = Some 0\<rparr>"

definition example_session :: "pairing_session res" where
  "example_session = create_session (\<lambda>_. True) (\<lambda>p. p) example_draw ''s1'' example_now ''/photos'' None
     (Some [format_pairing_endpoint_url ''pc'' 80, format_pairing_endpoint_url ''pc'' 80]) True"

lemma example_target:
  "endpoint_target_from_url b (format_pairing_endpoint_url ''pc'' 80) = Inr (bracketed_host ''pc'' @ '':'' @ str_nat 80)"
  by (rule endpoint_target_formatted) (simp_all add: plain_host_def plain_host_char_def)

lemma example_urls:
  "normalize_endpoint_urls None (Some [format_pairing_endpoint_url ''pc'' 80, format_pairing_endpoint_url ''pc'' 80])
     = Inr [format_pairing_endpoint_url ''pc'' 80]"
proof -
  have "format_pairing_endpoint_url ''pc'' 80 \<noteq> []" by (simp add: format_pairing_endpoint_url_def)
  then show ?thesis by (simp add: normalize_endpoint_urls_def PAIRING_ADVERTISED_HOST_LIMIT_def)
qed

lemma example_expiry: "dt_add_us example_now PAIRING_TOKEN_TTL = Inr (example_now\<lparr>dt_us := 900000000\<rparr>)"
  by (simp add: dt_add_us_def example_now_def PAIRING_TOKEN_TTL_def day_us_def max_day_def)

lemma sessions_well_formed_witness:
  "\<exists>s s' t. example_session = Inr s \<and>
     refresh_session_token (\<lambda>_. True) example_draw example_now IOS s = Inr (s', t) \<and> session_ok s'"
proof -
  obtain s where s: "example_session = Inr s" and urls: "ps_desktop_endpoint_urls s = [format_pairing_endpoint_url ''pc'' 80]"
    by (simp add: example_session_def create_session_def example_urls new_pairing_token_def example_target
        example_expiry Let_def)
  obtain old where "token_for s IOS = Inr old"
    using s by (auto simp: example_session_def create_session_def Let_def exn_simps)
  then obtain s' t where t: "refresh_session_token (\<lambda>_. True) example_draw example_now IOS s = Inr (s', t)"
    by (simp add: refresh_session_token_def urls new_pairing_token_def example_target example_expiry Let_def)
  have "draw_ok example_draw" by (simp add: draw_ok_def example_draw_def USB_SUGGESTED_PORT_MIN_def USB_SUGGESTED_PORT_MAX_def)
  with sessions_well_formed [OF s [unfolded example_session_def] _ t] s t show ?thesis by blast
qed

end
