(* ===== verification/PairingService.thy ===== *)
theory PairingService
  imports PairingStore PairingSession
begin

text \<open>
  \<^verbatim>\<open>MobilePairingService\<close> (\<^verbatim>\<open>dt_image_search/mobile/mobile_pairing_service.py\<close>): the
  pairing of a phone.  The desktop opens a session and shows its code, a phone claims it with the
  passcode, and the desktop writes the phone, its folder and a backup session to the tables.  The
  requests that go on to the transfer service are in \<open>PairingGateway\<close>.

  Every block that the code runs under its lock is one definition; the composition of the blocks is
  the method, and \<open>pairing_step\<close> of \<open>PairingServiceProps\<close> interleaves them.  Log messages and
  tracing spans are left out.
\<close>

section \<open>Constants and records\<close>

definition PAIRING_PROTOCOL_SCHEMA :: string where
  "PAIRING_PROTOCOL_SCHEMA = ''dtis.mobile-pairing.v1''"
definition PAIRING_TRANSPORT_LAN :: string where "PAIRING_TRANSPORT_LAN = ''lan''"
definition PAIRING_TRANSPORT_USB :: string where "PAIRING_TRANSPORT_USB = ''usb''"

datatype result_state = RS_WAITING | RS_ACCEPTED | RS_MISMATCHED | RS_STOPPED | RS_REJECTED | RS_EXPIRED

record pairing_result =
  pr_state :: result_state
  pr_message :: string
  pr_device_name :: "string option"
  pr_device_uuid :: "string option"
  pr_folder_path :: "string option"
  pr_session_id :: "string option"
  pr_transport :: "string option"

datatype again_decision = CONTINUE_IN_SELECTED_FOLDER | BACKUP_IN_NEW_FOLDER | CANCEL_BACKUP

text \<open>The resolver of the context is a callback of the dialog: an argument where it is called.\<close>

record mismatch_context =
  mm_selected_folder_path :: string
  mm_previous_device_uuid :: string
  mm_replacement_device_uuid :: string
  mm_replacement_device_name :: string

record again_context =
  ag_selected_folder_id :: int
  ag_selected_folder_path :: string
  ag_expected_device_uuid :: string

record state_record =
  rc_state :: backup_state
  rc_message :: string
  rc_device_uuid :: "string option"
  rc_payload :: payload

record pending_resolution =
  pd_session_id :: string
  pd_platform :: mobile_platform
  pd_token :: pairing_token
  pd_device_uuid :: string
  pd_device_name :: string
  pd_client_nonce :: string
  pd_current_time :: pydatetime
  pd_context :: again_context

datatype transport_kind = LAN_HTTP | USB_WEBSOCKET | AOA_USB

record usb_bootstrap =
  ub_session_id :: string
  ub_one_time_passcode :: string
  ub_suggested_port :: nat
  ub_fallback_port_window :: nat

text \<open>The calls to the transport manager, in order.\<close>

datatype transport_call =
    ConfigureUsb usb_bootstrap | StartUsb | ConfigureAoa usb_bootstrap | StartAoa | StopUsb | StopAll

text \<open>
  The state of the service, with the database and the file system it works on.  \<open>pv_threads\<close> are
  the resolver threads that have been started and have not asked the desktop yet.
\<close>

record pairing_world =
  pv_endpoint_url :: "string option"
  pv_endpoint_urls :: "string list"
  pv_session :: "pairing_session option"
  pv_again :: "again_context option"
  pv_records :: "(string, state_record) dict"
  pv_pending :: "pending_resolution option"
  pv_in_progress :: bool
  pv_result :: pairing_result
  pv_transports :: "(string, transport_kind) dict"
  pv_foreground :: bool
  pv_subscribed :: bool
  pv_calls :: "transport_call list"
  pv_threads :: "pending_resolution list"
  pv_db :: app_db
  pv_fs :: pyfs

text \<open>
  What the service uses of other code: the clock, SHA-256, path resolution, the database clock, the
  device identifier, the name of the desktop, the feature flag of strict security, the random draws,
  and whether the transport manager reports a connected USB phone.
\<close>

record pairing_env =
  pe_clock :: pydatetime
  pe_sha256 :: "byte list \<Rightarrow> byte list"
  pe_expand :: "string \<Rightarrow> ppath"
  pe_resolve :: "ppath \<Rightarrow> ppath"
  pe_bracket_ok :: "string \<Rightarrow> bool"
  pe_stamp :: string
  pe_device_hex :: string
  pe_desktop_name :: string
  pe_strict :: bool
  pe_session_hex :: string
  pe_draw :: token_draw
  pe_usb_connected :: bool

section \<open>Names and responses\<close>

text \<open>
  \<^verbatim>\<open>re.sub(r".local$", "", name, flags=re.IGNORECASE)\<close>: the dot matches any character but a
  line break, and \<^verbatim>\<open>$\<close> also before a final one.
\<close>

definition drop_local_suffix :: "string \<Rightarrow> string" where
  "drop_local_suffix name =
     (let nl = (name \<noteq> [] \<and> last name = CHR 0x0A);
          body = (if nl then butlast name else name);
          k = length body - 6
      in if 6 \<le> length body \<and> py_lower (drop (k + 1) body) = ''local'' \<and> body ! k \<noteq> CHR 0x0A
         then take k body @ (if nl then [CHR 0x0A] else [])
         else name)"

definition desktop_name_for_build :: "string \<Rightarrow> string \<Rightarrow> string" where
  "desktop_name_for_build desktop_name build_type =
     (let normalized = (if build_type \<noteq> [] then py_lower (py_strip build_type) else ''prod'');
          suffix = ''-'' @ normalized
      in if normalized = ''prod'' then desktop_name
         else if py_endswith desktop_name suffix then desktop_name
         else desktop_name @ suffix)"

fun transport_kind_label :: "transport_kind \<Rightarrow> string" where
  "transport_kind_label AOA_USB = PAIRING_TRANSPORT_USB"
| "transport_kind_label USB_WEBSOCKET = PAIRING_TRANSPORT_USB"
| "transport_kind_label LAN_HTTP = PAIRING_TRANSPORT_LAN"

definition pairing_response :: "int \<Rightarrow> string \<Rightarrow> backup_state \<Rightarrow> int \<times> payload" where
  "pairing_response status_code message pairing_state =
     (status_code, [(''schema'', JStr PAIRING_PROTOCOL_SCHEMA),
        (''backup_state'', JStr (backup_state_value pairing_state)), (''message'', JStr message)])"

text \<open>\<^verbatim>\<open>_build_pairing_response_payload\<close>: an argument that is \<^verbatim>\<open>None\<close> leaves no field.\<close>

definition opt_field :: "string \<Rightarrow> json option \<Rightarrow> payload" where
  "opt_field key v = (case v of None \<Rightarrow> [] | Some j \<Rightarrow> [(key, j)])"

definition build_pairing_response_payload ::
    "backup_state \<Rightarrow> string \<Rightarrow> string option \<Rightarrow> string option \<Rightarrow> string option \<Rightarrow> string option
     \<Rightarrow> int option \<Rightarrow> string option \<Rightarrow> string option \<Rightarrow> string option \<Rightarrow> payload" where
  "build_pairing_response_payload state message session_id device_uuid desktop_device_id desktop_name
       folder_id folder_path transport paired_at =
     [(''schema'', JStr PAIRING_PROTOCOL_SCHEMA), (''backup_state'', JStr (backup_state_value state)),
      (''message'', JStr message)]
     @ opt_field ''session_id'' (map_option JStr session_id)
     @ opt_field ''device_uuid'' (map_option JStr device_uuid)
     @ opt_field ''desktop_device_id'' (map_option JStr desktop_device_id)
     @ opt_field ''desktop_name'' (map_option JStr desktop_name)
     @ opt_field ''folder_id'' (map_option JInt folder_id)
     @ opt_field ''folder_path'' (map_option JStr folder_path)
     @ opt_field ''transport'' (map_option JStr transport)
     @ opt_field ''paired_at'' (map_option JStr paired_at)"

abbreviation state_payload :: "backup_state \<Rightarrow> string \<Rightarrow> string \<Rightarrow> string option \<Rightarrow> payload" where
  "state_payload state message session_id device_uuid \<equiv>
     build_pairing_response_payload state message (Some session_id) device_uuid None None None None None None"

definition plain_result :: "result_state \<Rightarrow> string \<Rightarrow> string option \<Rightarrow> pairing_result" where
  "plain_result state message session_id =
     \<lparr>pr_state = state, pr_message = message, pr_device_name = None, pr_device_uuid = None,
      pr_folder_path = None, pr_session_id = session_id, pr_transport = None\<rparr>"

definition SCAN_MESSAGE :: string where
  "SCAN_MESSAGE = ''Scan the QR code from the mobile app to begin pairing.''"
definition WAITING_MESSAGE :: string where
  "WAITING_MESSAGE = ''Waiting for the mobile app to claim this pairing session.''"
definition STOPPED_MESSAGE :: string where
  "STOPPED_MESSAGE = ''Desktop stopped this pairing session.''"
definition EXPIRED_MESSAGE :: string where
  "EXPIRED_MESSAGE = ''This pairing code expired. Refresh it on desktop and scan again.''"
definition MISMATCH_MESSAGE :: string where
  "MISMATCH_MESSAGE = ''Pairing mismatch detected. Waiting for desktop confirmation before continuing.''"

definition no_session_response :: "int \<times> payload" where
  "no_session_response = pairing_response 404 ''There is no active desktop pairing session.'' PAIRING_STOPPED"

section \<open>Opening, refreshing and closing a session\<close>

definition pairing_init :: "app_db \<Rightarrow> pyfs \<Rightarrow> pairing_world" where
  "pairing_init db fs =
     \<lparr>pv_endpoint_url = None, pv_endpoint_urls = [], pv_session = None, pv_again = None, pv_records = [],
      pv_pending = None, pv_in_progress = False, pv_result = plain_result RS_WAITING SCAN_MESSAGE None,
      pv_transports = [], pv_foreground = True, pv_subscribed = True, pv_calls = [], pv_threads = [],
      pv_db = db, pv_fs = fs\<rparr>"

text \<open>
  \<open>lan\<close> is what \<^verbatim>\<open>transport_manager.start_lan()\<close> answers: the endpoint and all endpoints.
\<close>

type_synonym lan_answer = "(string \<times> string list) res"

definition ensure_server_started :: "lan_answer \<Rightarrow> pairing_world \<Rightarrow> pairing_world res" where
  "ensure_server_started lan w =
     bindE lan (\<lambda>(url, urls). Inr (w\<lparr>pv_endpoint_url := Some url, pv_endpoint_urls := urls\<rparr>))"

definition configure_usb_bootstrap_for_token ::
    "string \<Rightarrow> pairing_token \<Rightarrow> pairing_world \<Rightarrow> pairing_world" where
  "configure_usb_bootstrap_for_token session_id token w =
     (let b = \<lparr>ub_session_id = session_id, ub_one_time_passcode = pt_one_time_passcode token,
               ub_suggested_port = pt_suggested_usb_port token, ub_fallback_port_window = 20\<rparr>
      in w\<lparr>pv_calls := pv_calls w @ [ConfigureUsb b, StartUsb, ConfigureAoa b, StartAoa]\<rparr>)"

definition set_record :: "string \<Rightarrow> state_record \<Rightarrow> pairing_world \<Rightarrow> pairing_world" where
  "set_record session_id r w = w\<lparr>pv_records := dict_set (pv_records w) session_id r\<rparr>"

definition open_session ::
    "pairing_session \<Rightarrow> again_context option \<Rightarrow> pairing_world \<Rightarrow> pairing_world" where
  "open_session s again w =
     set_record (ps_session_id s)
       \<lparr>rc_state = PENDING_PAIRING, rc_message = WAITING_MESSAGE, rc_device_uuid = None,
        rc_payload = state_payload PENDING_PAIRING WAITING_MESSAGE (ps_session_id s) None\<rparr>
       (w\<lparr>pv_session := Some s, pv_again := again, pv_pending := None, pv_in_progress := False,
          pv_result := plain_result RS_WAITING WAITING_MESSAGE (Some (ps_session_id s))\<rparr>)"

definition start_pairing_session ::
    "pairing_env \<Rightarrow> lan_answer \<Rightarrow> string \<Rightarrow> again_context option \<Rightarrow> pydatetime option \<Rightarrow> pairing_world
     \<Rightarrow> pairing_world \<times> pairing_session res" where
  "start_pairing_session env lan destination_parent again now w =
     (case ensure_server_started lan w of
        Inl e \<Rightarrow> (w, Inl e)
      | Inr w1 \<Rightarrow>
          if pv_endpoint_urls w1 = []
          then (w1, Inl (RuntimeError ''Pairing endpoint URLs are not available.''))
          else (case bindE (utc_now (pe_clock env) now) (\<lambda>t.
                       create_session (pe_bracket_ok env) (\<lambda>p. path_posix (pe_expand env p)) (pe_draw env)
                         (pe_session_hex env) t destination_parent None (Some (pv_endpoint_urls w1))
                         (pe_strict env)) of
                  Inl e \<Rightarrow> (w1, Inl e)
                | Inr s \<Rightarrow>
                    let w2 = open_session s again w1
                    in (case token_for s IOS of
                          Inl e \<Rightarrow> (w2, Inl e)
                        | Inr t \<Rightarrow> (configure_usb_bootstrap_for_token (ps_session_id s) t w2, Inr s))))"

definition refresh_token ::
    "pairing_env \<Rightarrow> mobile_platform \<Rightarrow> pydatetime option \<Rightarrow> pairing_world
     \<Rightarrow> pairing_world \<times> pairing_token res" where
  "refresh_token env platform now w =
     (case pv_session w of
        None \<Rightarrow> (w, Inl (RuntimeError ''No active pairing session is available.''))
      | Some s \<Rightarrow>
          if pr_state (pv_result w) = RS_ACCEPTED
          then (w, Inl (RuntimeError ''Cannot refresh QR tokens after pairing is already accepted.''))
          else (case bindE (token_for s platform) (\<lambda>_. bindE (utc_now (pe_clock env) now) (\<lambda>t.
                       refresh_session_token (pe_bracket_ok env) (pe_draw env) t platform s)) of
                  Inl e \<Rightarrow> (w, Inl e)
                | Inr (s', token) \<Rightarrow>
                    (configure_usb_bootstrap_for_token (ps_session_id s) token (w\<lparr>pv_session := Some s'\<rparr>),
                     Inr token)))"

definition clear_transfer_transport_tracking :: "string option \<Rightarrow> pairing_world \<Rightarrow> pairing_world" where
  "clear_transfer_transport_tracking session_id w =
     (case session_id of
        None \<Rightarrow> w
      | Some s \<Rightarrow> if s = [] then w else w\<lparr>pv_transports := dict_del (pv_transports w) s\<rparr>)"

text \<open>
  The record of a session that is stopped reads \<^verbatim>\<open>self._pairing_result.device_uuid\<close> after the
  result has been replaced: it is always \<open>None\<close>.
\<close>

definition stop_waiting_session :: "pairing_session \<Rightarrow> pairing_world \<Rightarrow> pairing_world" where
  "stop_waiting_session s w =
     (let result = plain_result RS_STOPPED STOPPED_MESSAGE (Some (ps_session_id s))
      in set_record (ps_session_id s)
           \<lparr>rc_state = PAIRING_STOPPED, rc_message = STOPPED_MESSAGE, rc_device_uuid = pr_device_uuid result,
            rc_payload = state_payload PAIRING_STOPPED STOPPED_MESSAGE (ps_session_id s) (pr_device_uuid result)\<rparr>
           (w\<lparr>pv_result := result\<rparr>))"

definition close_active_session :: "pairing_world \<Rightarrow> pairing_world" where
  "close_active_session w =
     (let should_stop_usb = (pr_state (pv_result w) \<noteq> RS_ACCEPTED);
          w1 = (case pv_session w of
                  None \<Rightarrow> w
                | Some s \<Rightarrow> if pr_state (pv_result w) \<noteq> RS_ACCEPTED then stop_waiting_session s w else w);
          w2 = w1\<lparr>pv_session := None, pv_again := None, pv_pending := None, pv_in_progress := False\<rparr>;
          w3 = (if pr_state (pv_result w2) = RS_ACCEPTED
                then w2\<lparr>pv_result := plain_result RS_WAITING SCAN_MESSAGE None\<rparr> else w2);
          w4 = clear_transfer_transport_tracking (map_option ps_session_id (pv_session w)) w3
      in if should_stop_usb then w4\<lparr>pv_calls := pv_calls w4 @ [StopUsb]\<rparr> else w4)"

definition shutdown :: "pairing_world \<Rightarrow> pairing_world" where
  "shutdown w =
     w\<lparr>pv_endpoint_url := None, pv_endpoint_urls := [], pv_session := None, pv_again := None,
       pv_pending := None, pv_in_progress := False, pv_records := [], pv_transports := [],
       pv_subscribed := False, pv_calls := pv_calls w @ [StopAll]\<rparr>"

definition on_app_foreground_state_changed :: "bool \<Rightarrow> pairing_world \<Rightarrow> pairing_world" where
  "on_app_foreground_state_changed is_foreground w = w\<lparr>pv_foreground := is_foreground\<rparr>"

section \<open>Claiming a session\<close>

record claim =
  cl_session_id :: string
  cl_platform :: mobile_platform
  cl_token :: pairing_token
  cl_device_uuid :: string
  cl_device_name :: string
  cl_client_nonce :: string
  cl_current_time :: pydatetime
  cl_again :: "again_context option"

definition present_text :: "payload \<Rightarrow> string \<Rightarrow> bool" where
  "present_text p f = (case dict_get p f of Some (JStr s) \<Rightarrow> py_strip s \<noteq> [] | _ \<Rightarrow> False)"

text \<open>\<^verbatim>\<open>payload[f]\<close> of a field that is known to be text.\<close>

definition text_field :: "payload \<Rightarrow> string \<Rightarrow> string" where
  "text_field p f = (case dict_get p f of Some (JStr s) \<Rightarrow> s | _ \<Rightarrow> [])"

definition CLAIM_FIELDS :: "string list" where
  "CLAIM_FIELDS = [''schema'', ''sid'', ''opt'', ''platform'', ''device_uuid'', ''device_name'', ''client_nonce'']"

text \<open>The answer of a session whose pairing is settled or waits for the desktop.\<close>

definition settled_answer :: "string \<Rightarrow> pairing_world \<Rightarrow> (int \<times> payload) option" where
  "settled_answer session_id w =
     (if pr_state (pv_result w) \<in> {RS_ACCEPTED, RS_MISMATCHED, RS_STOPPED}
      then map_option (\<lambda>r. (200, rc_payload r)) (dict_get (pv_records w) session_id)
      else None)"

definition expire_session :: "string \<Rightarrow> pairing_world \<Rightarrow> pairing_world" where
  "expire_session session_id w =
     (let result = plain_result RS_EXPIRED
            ''The desktop pairing code expired before the mobile app completed pairing.'' (Some session_id)
      in set_record session_id
           \<lparr>rc_state = PAIRING_EXPIRED, rc_message = EXPIRED_MESSAGE, rc_device_uuid = pr_device_uuid result,
            rc_payload = state_payload PAIRING_EXPIRED EXPIRED_MESSAGE session_id (pr_device_uuid result)\<rparr>
           (w\<lparr>pv_result := result\<rparr>))"

text \<open>
  The first locked block of \<open>handle_pairing_request\<close>: an answer (\<open>Inl\<close>), or the claim that
  goes on (\<open>Inr\<close>) with the service marked busy.
\<close>

definition claim_check ::
    "pydatetime \<Rightarrow> payload \<Rightarrow> pairing_world \<Rightarrow> pairing_world \<times> ((int \<times> payload) + claim) res" where
  "claim_check current_time req w =
     (case pv_session w of
        None \<Rightarrow> (w, Inr (Inl no_session_response))
      | Some s \<Rightarrow>
     (case find (\<lambda>f. \<not> present_text req f) CLAIM_FIELDS of
        Some f \<Rightarrow> (w, Inr (Inl (pairing_response 400
            (''The pairing request is missing the required field '' @ quoted f @ ''.'') PENDING_PAIRING)))
      | None \<Rightarrow>
          if text_field req ''schema'' \<noteq> PAIRING_PROTOCOL_SCHEMA
          then (w, Inr (Inl (pairing_response 400 ''The pairing request schema version is unsupported.'' PENDING_PAIRING)))
          else if text_field req ''sid'' \<noteq> ps_session_id s
          then (w, Inr (Inl (pairing_response 404
                  ''The pairing request does not match the active desktop session.'' PAIRING_STOPPED)))
          else
     (case settled_answer (ps_session_id s) w of
        Some a \<Rightarrow> (w, Inr (Inl a))
      | None \<Rightarrow>
          if pv_in_progress w
          then (w, Inr (Inl (pairing_response 409
                  ''Desktop is already resolving another pairing request.'' PENDING_PAIRING)))
          else
     (case platform_of (text_field req ''platform'') of
        None \<Rightarrow> (w, Inr (Inl (pairing_response 400 ''The pairing request platform is unsupported.'' PENDING_PAIRING)))
      | Some platform \<Rightarrow>
     (case token_for s platform of
        Inl e \<Rightarrow> (w, Inl e)
      | Inr token \<Rightarrow>
          if is_expired token current_time
          then (expire_session (ps_session_id s) w,
                Inr (Inl (pairing_response 410 EXPIRED_MESSAGE PAIRING_EXPIRED)))
          else if text_field req ''opt'' \<noteq> pt_one_time_passcode token
          then (w, Inr (Inl (pairing_response 403 ''The pairing code was rejected by desktop.'' PENDING_PAIRING)))
          else (w\<lparr>pv_in_progress := True\<rparr>,
                Inr (Inr \<lparr>cl_session_id = ps_session_id s, cl_platform = platform, cl_token = token,
                  cl_device_uuid = py_strip (text_field req ''device_uuid''),
                  cl_device_name = py_strip (text_field req ''device_name''),
                  cl_client_nonce = py_strip (text_field req ''client_nonce''),
                  cl_current_time = current_time, cl_again = pv_again w\<rparr>)))))))"

text \<open>The session of a block, if it is still the active one.\<close>

definition active_with_id :: "string \<Rightarrow> pairing_world \<Rightarrow> pairing_session option" where
  "active_with_id session_id w =
     (case pv_session w of
        None \<Rightarrow> None
      | Some s \<Rightarrow> if ps_session_id s \<noteq> session_id then None else Some s)"

definition is_mismatch :: "claim \<Rightarrow> again_context option" where
  "is_mismatch c =
     (case cl_again c of
        None \<Rightarrow> None
      | Some a \<Rightarrow> if cl_device_uuid c \<noteq> ag_expected_device_uuid a then Some a else None)"

text \<open>The locked block of a mismatch, and the start of the thread that asks the desktop.\<close>

definition claim_mismatch :: "claim \<Rightarrow> again_context \<Rightarrow> pairing_world \<Rightarrow> pairing_world \<times> (int \<times> payload)" where
  "claim_mismatch c a w =
     (case active_with_id (cl_session_id c) w of
        None \<Rightarrow> (w, no_session_response)
      | Some _ \<Rightarrow>
          let payload = state_payload PAIRING_MISMATCHED MISMATCH_MESSAGE (cl_session_id c) (Some (cl_device_uuid c));
              pending = \<lparr>pd_session_id = cl_session_id c, pd_platform = cl_platform c, pd_token = cl_token c,
                pd_device_uuid = cl_device_uuid c, pd_device_name = cl_device_name c,
                pd_client_nonce = cl_client_nonce c, pd_current_time = cl_current_time c, pd_context = a\<rparr>
          in (set_record (cl_session_id c)
                \<lparr>rc_state = PAIRING_MISMATCHED, rc_message = MISMATCH_MESSAGE,
                 rc_device_uuid = Some (cl_device_uuid c), rc_payload = payload\<rparr>
                (w\<lparr>pv_result := (plain_result RS_MISMATCHED MISMATCH_MESSAGE (Some (cl_session_id c)))
                      \<lparr>pr_device_name := Some (cl_device_name c), pr_device_uuid := Some (cl_device_uuid c)\<rparr>,
                   pv_pending := Some pending, pv_threads := pv_threads w @ [pending]\<rparr>),
              (200, payload)))"

section \<open>Accepting a claim\<close>

text \<open>What the acceptance is called with, by a claim or by the thread that asked the desktop.\<close>

record acceptance =
  ac_session_id :: string
  ac_platform :: mobile_platform
  ac_token :: pairing_token
  ac_device_uuid :: string
  ac_device_name :: string
  ac_current_time :: pydatetime
  ac_again :: "again_context option"
  ac_decision :: again_decision
  ac_transport :: "string option"

definition repairs_folder :: "acceptance \<Rightarrow> again_context option" where
  "repairs_folder a =
     (case ac_again a of
        None \<Rightarrow> None
      | Some g \<Rightarrow> if ac_device_uuid a \<noteq> ag_expected_device_uuid g
                    \<and> ac_decision a = CONTINUE_IN_SELECTED_FOLDER then Some g else None)"

definition pairing_trust_key :: "pairing_env \<Rightarrow> acceptance \<Rightarrow> string" where
  "pairing_trust_key env a =
     derive_pairing_key_b64 (pe_sha256 env) (ac_session_id a) (pt_one_time_passcode (ac_token a))
       (platform_value (ac_platform a))"

definition accept_folder ::
    "pairing_env \<Rightarrow> acceptance \<Rightarrow> pairing_session \<Rightarrow> app_db \<Rightarrow> pyfs
     \<Rightarrow> app_db \<times> pyfs \<times> mobile_folder_record res" where
  "accept_folder env a s db fs =
     (case repairs_folder a of
        Some g \<Rightarrow>
          (case repair_mobile_folder_device_binding db (ag_selected_folder_id g) (ag_selected_folder_path g)
                  (ag_expected_device_uuid g) (ac_device_uuid a) (ac_current_time a) of
             (db', r) \<Rightarrow> (db', fs, r))
      | None \<Rightarrow>
          get_or_create_mobile_folder (pe_expand env) (pe_resolve env) (pe_stamp env) db fs
            (ps_destination_parent s) (ac_device_uuid a) (ac_device_name a) (ac_current_time a))"

text \<open>The writes to the database, outside the lock; \<open>s\<close> is the session that was found active.\<close>

definition accept_tables ::
    "pairing_env \<Rightarrow> acceptance \<Rightarrow> pairing_session \<Rightarrow> app_db \<Rightarrow> pyfs
     \<Rightarrow> app_db \<times> pyfs \<times> (string \<times> mobile_folder_record) res" where
  "accept_tables env a s db fs =
     (case get_or_create_desktop_device_id db (pe_device_hex env) of
        (db1, desktop_device_id) \<Rightarrow>
     (let db2 = upsert_mobile_device db1 (ac_device_uuid a) (platform_value (ac_platform a)) (ac_device_name a)
                  (pairing_trust_key env a) (ac_current_time a)
      in case accept_folder env a s db2 fs of
           (db3, fs3, Inl e) \<Rightarrow> (db3, fs3, Inl e)
         | (db3, fs3, Inr folder) \<Rightarrow>
             (case insert_mobile_backup_session db3 (ac_session_id a) (ac_device_uuid a) (mfr_folder_id folder)
                     MOBILE_BACKUP_SESSION_STATUS_PAIRED (ps_created_at s) (ac_current_time a) 0 of
                Inl e \<Rightarrow> (db3, fs3, Inl e)
              | Inr db4 \<Rightarrow> (db4, fs3, Inr (desktop_device_id, folder)))))"

definition selected_transport :: "pairing_env \<Rightarrow> acceptance \<Rightarrow> string" where
  "selected_transport env a =
     (case ac_transport a of
        Some t \<Rightarrow> if t \<noteq> [] then t
                   else if ac_platform a = IOS \<and> pe_usb_connected env then PAIRING_TRANSPORT_USB
                   else PAIRING_TRANSPORT_LAN
      | None \<Rightarrow> if ac_platform a = IOS \<and> pe_usb_connected env then PAIRING_TRANSPORT_USB
                 else PAIRING_TRANSPORT_LAN)"

definition acceptance_message :: "string \<Rightarrow> string \<Rightarrow> string" where
  "acceptance_message device_name transport =
     ''Pairing accepted for '' @ device_name @
       (if transport = PAIRING_TRANSPORT_USB then ''. Desktop is ready for USB transfer.''
        else ''. Desktop is ready for LAN transfer.'')"

definition advance_backup_state_machine :: "backup_state \<Rightarrow> backup_event \<Rightarrow> backup_state" where
  "advance_backup_state_machine s e = (case backup_transition s e of Inl _ \<Rightarrow> s | Inr s' \<Rightarrow> s')"

definition recorded_state :: "pairing_world \<Rightarrow> string \<Rightarrow> backup_state" where
  "recorded_state w session_id =
     (case dict_get (pv_records w) session_id of None \<Rightarrow> PENDING_PAIRING | Some r \<Rightarrow> rc_state r)"

definition accepted_state :: "backup_state \<Rightarrow> backup_state" where
  "accepted_state s =
     advance_backup_state_machine
       (if s = PAIRING_MISMATCHED then advance_backup_state_machine s E_PAIRING_MISMATCH_RESOLVED else s)
       E_PAIRING_ACCEPTED"

definition drop_pending :: "string \<Rightarrow> pairing_world \<Rightarrow> pairing_world" where
  "drop_pending session_id w =
     (case pv_pending w of
        None \<Rightarrow> w
      | Some p \<Rightarrow> if pd_session_id p = session_id then w\<lparr>pv_pending := None\<rparr> else w)"

definition dt_isoformat_seconds :: "pydatetime \<Rightarrow> string" where
  "dt_isoformat_seconds t = dt_isoformat (t\<lparr>dt_us := dt_us t div 1000000 * 1000000\<rparr>)"

text \<open>The second locked block: the result and the record of the session.\<close>

definition accept_commit ::
    "pairing_env \<Rightarrow> acceptance \<Rightarrow> string \<Rightarrow> mobile_folder_record \<Rightarrow> pairing_world
     \<Rightarrow> pairing_world \<times> (int \<times> payload)" where
  "accept_commit env a desktop_device_id folder w =
     (case active_with_id (ac_session_id a) w of
        None \<Rightarrow> (w, no_session_response)
      | Some _ \<Rightarrow>
          let transport = selected_transport env a;
              message = acceptance_message (ac_device_name a) transport;
              state = accepted_state (recorded_state w (ac_session_id a));
              payload = build_pairing_response_payload state message (Some (ac_session_id a))
                (Some (ac_device_uuid a)) (Some desktop_device_id) (Some (pe_desktop_name env))
                (Some (mfr_folder_id folder)) (Some (mfr_folder_path folder)) (Some transport)
                (Some (dt_isoformat_seconds (ac_current_time a)))
          in (drop_pending (ac_session_id a) (set_record (ac_session_id a)
                \<lparr>rc_state = state, rc_message = message, rc_device_uuid = Some (ac_device_uuid a),
                 rc_payload = payload\<rparr>
                (w\<lparr>pv_result := \<lparr>pr_state = RS_ACCEPTED, pr_message = message,
                     pr_device_name = Some (ac_device_name a), pr_device_uuid = Some (ac_device_uuid a),
                     pr_folder_path = Some (mfr_folder_path folder), pr_session_id = Some (ac_session_id a),
                     pr_transport = Some transport\<rparr>\<rparr>)),
              (200, payload)))"

definition complete_pairing_acceptance ::
    "pairing_env \<Rightarrow> acceptance \<Rightarrow> pairing_world \<Rightarrow> pairing_world \<times> (int \<times> payload) res" where
  "complete_pairing_acceptance env a w =
     (case active_with_id (ac_session_id a) w of
        None \<Rightarrow> (w, Inr no_session_response)
      | Some s \<Rightarrow>
          (case accept_tables env a s (pv_db w) (pv_fs w) of
             (db, fs, Inl e) \<Rightarrow> (w\<lparr>pv_db := db, pv_fs := fs\<rparr>, Inl e)
           | (db, fs, Inr (desktop_device_id, folder)) \<Rightarrow>
               (case accept_commit env a desktop_device_id folder (w\<lparr>pv_db := db, pv_fs := fs\<rparr>) of
                  (w', answer) \<Rightarrow> (w', Inr answer))))"

definition acceptance_of_claim :: "claim \<Rightarrow> string option \<Rightarrow> acceptance" where
  "acceptance_of_claim c claimed_transport =
     \<lparr>ac_session_id = cl_session_id c, ac_platform = cl_platform c, ac_token = cl_token c,
      ac_device_uuid = cl_device_uuid c, ac_device_name = cl_device_name c,
      ac_current_time = cl_current_time c, ac_again = cl_again c, ac_decision = BACKUP_IN_NEW_FOLDER,
      ac_transport = claimed_transport\<rparr>"

text \<open>The \<^verbatim>\<open>try\<close> block of the request; its \<^verbatim>\<open>finally\<close> clears the busy mark.\<close>

definition claim_finish :: "pairing_world \<Rightarrow> pairing_world" where
  "claim_finish w = w\<lparr>pv_in_progress := False\<rparr>"

definition claim_body ::
    "pairing_env \<Rightarrow> claim \<Rightarrow> string option \<Rightarrow> pairing_world \<Rightarrow> pairing_world \<times> (int \<times> payload) res" where
  "claim_body env c claimed_transport w =
     (case is_mismatch c of
        Some a \<Rightarrow> (case claim_mismatch c a w of (w', answer) \<Rightarrow> (w', Inr answer))
      | None \<Rightarrow> complete_pairing_acceptance env (acceptance_of_claim c claimed_transport) w)"

definition handle_pairing_request ::
    "pairing_env \<Rightarrow> payload \<Rightarrow> pydatetime option \<Rightarrow> string option \<Rightarrow> pairing_world
     \<Rightarrow> pairing_world \<times> (int \<times> payload) res" where
  "handle_pairing_request env req now claimed_transport w =
     (case utc_now (pe_clock env) now of
        Inl e \<Rightarrow> (w, Inl e)
      | Inr current_time \<Rightarrow>
          (case claim_check current_time req w of
             (w1, Inl e) \<Rightarrow> (w1, Inl e)
           | (w1, Inr (Inl answer)) \<Rightarrow> (w1, Inr answer)
           | (w1, Inr (Inr c)) \<Rightarrow>
               (case claim_body env c claimed_transport w1 of (w2, r) \<Rightarrow> (claim_finish w2, r))))"

section \<open>The state of a session\<close>

definition STATE_FIELDS :: "string list" where
  "STATE_FIELDS = [''schema'', ''session_id'', ''device_uuid'']"

definition handle_pairing_state_request :: "payload \<Rightarrow> pairing_world \<Rightarrow> int \<times> payload" where
  "handle_pairing_state_request req w =
     (case find (\<lambda>f. \<not> present_text req f) STATE_FIELDS of
        Some f \<Rightarrow> pairing_response 400
          (''The pairing state request is missing the required field '' @ quoted f @ ''.'') PENDING_PAIRING
      | None \<Rightarrow>
          if text_field req ''schema'' \<noteq> PAIRING_PROTOCOL_SCHEMA
          then pairing_response 400 ''The pairing state request schema version is unsupported.'' PENDING_PAIRING
          else
            let device_uuid = py_strip (text_field req ''device_uuid'')
            in case dict_get (pv_records w) (py_strip (text_field req ''session_id'')) of
                 None \<Rightarrow> pairing_response 404 ''Desktop could not find this pairing session state.'' PAIRING_STOPPED
               | Some r \<Rightarrow>
                   if rc_device_uuid r \<noteq> None \<and> rc_device_uuid r \<noteq> Some device_uuid
                   then pairing_response 403 ''Desktop rejected this pairing state request.'' PAIRING_STOPPED
                   else (200, if dict_get (rc_payload r) ''device_uuid'' \<in> {None, Some JNull}
                              then dict_set (rc_payload r) ''device_uuid'' (JStr device_uuid)
                              else rc_payload r))"

section \<open>The answer of the desktop\<close>

definition complete_pairing_stopped :: "string \<Rightarrow> string \<Rightarrow> string \<Rightarrow> string \<Rightarrow> pairing_world \<Rightarrow> pairing_world" where
  "complete_pairing_stopped session_id device_uuid device_name message w =
     (case active_with_id session_id w of
        None \<Rightarrow> w
      | Some _ \<Rightarrow>
          let state = advance_backup_state_machine (recorded_state w session_id) E_PAIRING_STOPPED
          in drop_pending session_id (set_record session_id
               \<lparr>rc_state = state, rc_message = message, rc_device_uuid = Some device_uuid,
                rc_payload = state_payload state message session_id (Some device_uuid)\<rparr>
               (w\<lparr>pv_result := (plain_result RS_STOPPED message (Some session_id))
                    \<lparr>pr_device_name := Some device_name, pr_device_uuid := Some device_uuid\<rparr>\<rparr>)))"

text \<open>What the callback does: it raises, or returns a decision or something else.\<close>

datatype resolver_outcome = Resolver_raises pyexn | Resolver_returns "again_decision option"

definition mismatch_context_of :: "pending_resolution \<Rightarrow> mismatch_context" where
  "mismatch_context_of p =
     \<lparr>mm_selected_folder_path = ag_selected_folder_path (pd_context p),
      mm_previous_device_uuid = ag_expected_device_uuid (pd_context p),
      mm_replacement_device_uuid = pd_device_uuid p, mm_replacement_device_name = pd_device_name p\<rparr>"

definition acceptance_of_pending :: "pending_resolution \<Rightarrow> again_decision \<Rightarrow> acceptance" where
  "acceptance_of_pending p decision =
     \<lparr>ac_session_id = pd_session_id p, ac_platform = pd_platform p, ac_token = pd_token p,
      ac_device_uuid = pd_device_uuid p, ac_device_name = pd_device_name p,
      ac_current_time = pd_current_time p, ac_again = Some (pd_context p), ac_decision = decision,
      ac_transport = None\<rparr>"

definition resolve_backup_again_mismatch ::
    "pairing_env \<Rightarrow> (mismatch_context \<Rightarrow> resolver_outcome) \<Rightarrow> pending_resolution \<Rightarrow> pairing_world
     \<Rightarrow> pairing_world \<times> unit res" where
  "resolve_backup_again_mismatch env resolver p w =
     (case resolver (mismatch_context_of p) of
        Resolver_raises e \<Rightarrow>
          (complete_pairing_stopped (pd_session_id p) (pd_device_uuid p) (pd_device_name p)
             ''Desktop failed while resolving the mobile pairing mismatch.'' w, Inr ())
      | Resolver_returns d \<Rightarrow>
          (case (case d of Some x \<Rightarrow> x | None \<Rightarrow> BACKUP_IN_NEW_FOLDER) of
             CANCEL_BACKUP \<Rightarrow>
               (complete_pairing_stopped (pd_session_id p) (pd_device_uuid p) (pd_device_name p)
                  ''Desktop canceled this pairing request. Start Back Up Again to retry.'' w, Inr ())
           | decision \<Rightarrow>
               (case complete_pairing_acceptance env (acceptance_of_pending p decision) w of
                  (w', Inl e) \<Rightarrow> (w', Inl e)
                | (w', Inr _) \<Rightarrow> (w', Inr ()))))"

end
