(* ===== verification/Json.thy ===== *)
theory Json
  imports Prelude "HOL-Library.Char_ord" "HOL-Library.List_Lexorder"
begin

text \<open>
  Python's \<^verbatim>\<open>json.dumps\<close>, as the payload encryption and the transports call it
  (\<^verbatim>\<open>separators=(",", ":")\<close>, \<^verbatim>\<open>sort_keys=True\<close>, with \<^verbatim>\<open>ensure_ascii\<close> as the first argument), and \<^verbatim>\<open>json.loads\<close>, with the proof
  that a text that was dumped is loaded as the same value.

  A text is a list of characters up to U+00FF, like every text of the development; an escape of a
  larger character is refused here and accepted by Python.  The recursion limit and the limit on the
  digits of an integer are left out.
\<close>

section \<open>Texts and numbers\<close>

definition json_hex_digit :: "nat \<Rightarrow> char" where
  "json_hex_digit n = ''0123456789abcdef'' ! (n mod 16)"

text \<open>
  \<^verbatim>\<open>json.encoder.py_encode_basestring\<close>, and \<^verbatim>\<open>py_encode_basestring_ascii\<close> when \<open>ascii\<close> is set
  (\<^verbatim>\<open>ensure_ascii\<close>).
\<close>

definition json_escapes :: "(char \<times> char) list" where
  "json_escapes = [(CHR 0x22, CHR 0x22), (CHR 0x5C, CHR 0x5C), (CHR 0x08, CHR ''b''), (CHR 0x0C, CHR ''f''),
     (CHR 0x0A, CHR ''n''), (CHR 0x0D, CHR ''r''), (CHR 0x09, CHR ''t'')]"

definition json_escape_char :: "bool \<Rightarrow> char \<Rightarrow> string" where
  "json_escape_char ascii c =
     (case map_of json_escapes c of
        Some e \<Rightarrow> [CHR 0x5C, e]
      | None \<Rightarrow>
          let n = of_char c :: nat
          in if n < 32 \<or> ascii \<and> 127 \<le> n then CHR 0x5C # ''u00'' @ [json_hex_digit (n div 16), json_hex_digit n] else [c])"

definition json_quote :: "bool \<Rightarrow> string \<Rightarrow> string" where
  "json_quote ascii s = CHR 0x22 # concat (map (json_escape_char ascii) s) @ [CHR 0x22]"

definition json_ws :: "char \<Rightarrow> bool" where
  "json_ws c \<longleftrightarrow> c \<in> {CHR '' '', CHR 0x09, CHR 0x0A, CHR 0x0D}"

definition skip_ws :: "string \<Rightarrow> string" where
  "skip_ws s = dropWhile json_ws s"

definition hex_digit_value :: "char \<Rightarrow> nat option" where
  "hex_digit_value c =
     (let n = of_char c :: nat
      in if 48 \<le> n \<and> n \<le> 57 then Some (n - 48)
         else if 97 \<le> n \<and> n \<le> 102 then Some (n - 87)
         else if 65 \<le> n \<and> n \<le> 70 then Some (n - 55) else None)"

definition hex4_value :: "char \<Rightarrow> char \<Rightarrow> char \<Rightarrow> char \<Rightarrow> nat option" where
  "hex4_value a b c d =
     (case (hex_digit_value a, hex_digit_value b, hex_digit_value c, hex_digit_value d) of
        (Some x, Some y, Some z, Some w) \<Rightarrow> Some (((x * 16 + y) * 16 + z) * 16 + w)
      | _ \<Rightarrow> None)"

definition json_unescapes :: "(char \<times> char) list" where
  "json_unescapes = (CHR ''/'', CHR ''/'') # map prod.swap json_escapes"

text \<open>The text after an opening quote, up to the closing one, and the rest.\<close>

fun parse_text :: "string \<Rightarrow> (string \<times> string) option" where
  "parse_text [] = None"
| "parse_text (c # cs) =
     (if c = CHR 0x22 then Some ([], cs)
      else if c = CHR 0x5C then
        (case cs of
           [] \<Rightarrow> None
         | e # es \<Rightarrow>
             if e = CHR ''u'' then
               (case es of
                  h # i # j # k # rest \<Rightarrow>
                    (case hex4_value h i j k of
                       None \<Rightarrow> None
                     | Some n \<Rightarrow> if n < 256 then map_option (apfst (Cons (char_of n))) (parse_text rest) else None)
                | _ \<Rightarrow> None)
             else (case map_of json_unescapes e of
                     None \<Rightarrow> None
                   | Some d \<Rightarrow> map_option (apfst (Cons d)) (parse_text es)))
      else if (of_char c :: nat) < 32 then None
      else map_option (apfst (Cons c)) (parse_text cs))"

text \<open>\<^verbatim>\<open>(-?(?:0|[1-9]\d*))(\.\d+)?([eE][-+]?\d+)?\<close>\<close>

definition split_digits :: "string \<Rightarrow> string \<times> string" where
  "split_digits s = (takeWhile is_ascii_digit s, dropWhile is_ascii_digit s)"

definition split_sign :: "char list \<Rightarrow> string \<Rightarrow> string \<times> string" where
  "split_sign signs s =
     (case s of c # r \<Rightarrow> if c \<in> set signs then ([c], r) else ([], s) | [] \<Rightarrow> ([], s))"

definition split_whole :: "string \<Rightarrow> string \<times> string" where
  "split_whole s = (case s of c # r \<Rightarrow> if c = CHR ''0'' then ([c], r) else split_digits s | [] \<Rightarrow> ([], s))"

definition split_fraction :: "string \<Rightarrow> string \<times> string" where
  "split_fraction s =
     (case split_sign ''.'' s of
        (dot, r) \<Rightarrow> (case split_digits r of
                      (ds, t) \<Rightarrow> if dot \<noteq> [] \<and> ds \<noteq> [] then (dot @ ds, t) else ([], s)))"

definition split_exponent :: "string \<Rightarrow> string \<times> string" where
  "split_exponent s =
     (case split_sign ''eE'' s of
        (e, r) \<Rightarrow> (case split_sign ''-+'' r of
                    (sign, t) \<Rightarrow> (case split_digits t of
                                   (ds, u) \<Rightarrow> if e \<noteq> [] \<and> ds \<noteq> [] then (e @ sign @ ds, u) else ([], s))))"

definition parse_number :: "string \<Rightarrow> (json \<times> string) option" where
  "parse_number s =
     (case split_sign ''-'' s of
        (sign, t) \<Rightarrow> (case split_whole t of
                       (whole, u) \<Rightarrow> (case split_fraction u of
                                       (frac, v) \<Rightarrow> (case split_exponent v of
                                                      (expo, w) \<Rightarrow>
        if whole = [] then None
        else if frac = [] \<and> expo = []
        then Some (JInt (if sign = [] then int (dec_value whole) else - int (dec_value whole)), w)
        else Some (JFloat (sign @ whole @ frac @ expo), w)))))"

section \<open>Printing and parsing values\<close>

fun json_dumps :: "bool \<Rightarrow> json \<Rightarrow> string" where
  "json_dumps ascii JNull = ''null''"
| "json_dumps ascii (JBool b) = (if b then ''true'' else ''false'')"
| "json_dumps ascii (JInt i) = str_int i"
| "json_dumps ascii (JFloat t) = t"
| "json_dumps ascii (JStr s) = json_quote ascii s"
| "json_dumps ascii (JList xs) = ''['' @ py_join '','' (map (json_dumps ascii) xs) @ '']''"
| "json_dumps ascii (JObj kvs) =
     ''{'' @ py_join '','' (map (\<lambda>(k, t). json_quote ascii k @ '':'' @ t)
        (sort_key fst (map (\<lambda>(k, v). (k, json_dumps ascii v)) kvs))) @ ''}''"

text \<open>Constants of \<^verbatim>\<open>scan_once\<close>; the numbers are tried first where both could match.\<close>

definition json_constants :: "(string \<times> json) list" where
  "json_constants =
     [(''null'', JNull), (''true'', JBool True), (''false'', JBool False), (''NaN'', JFloat ''NaN''),
      (''Infinity'', JFloat ''Infinity''), (''-Infinity'', JFloat ''-Infinity'')]"

definition parse_constant :: "string \<Rightarrow> (json \<times> string) option" where
  "parse_constant s =
     map_option (\<lambda>(t, v). (v, drop (length t) s)) (find (\<lambda>(t, v). py_startswith s t) json_constants)"

definition parse_atom :: "string \<Rightarrow> (json \<times> string) option" where
  "parse_atom s = (case parse_number s of Some x \<Rightarrow> Some x | None \<Rightarrow> parse_constant s)"

definition dict_of_pairs :: "('k \<times> 'v) list \<Rightarrow> ('k, 'v) dict" where
  "dict_of_pairs kvs = fold (\<lambda>(k, v) d. dict_set d k v) kvs []"

text \<open>
  The fuel bounds the depth of the calls; \<open>json_loads\<close> starts with twice the length of the text,
  which is always enough (\<open>fuel_enough\<close>).
\<close>

fun parse_value :: "nat \<Rightarrow> string \<Rightarrow> (json \<times> string) option"
  and parse_elements :: "nat \<Rightarrow> string \<Rightarrow> (json list \<times> string) option"
  and parse_members :: "nat \<Rightarrow> string \<Rightarrow> ((string \<times> json) list \<times> string) option" where
  "parse_value 0 s = None"
| "parse_value (Suc n) s =
     (case s of
        [] \<Rightarrow> None
      | c # cs \<Rightarrow>
          if c = CHR 0x22 then map_option (apfst JStr) (parse_text cs)
          else if c = CHR ''['' then
            (case skip_ws cs of
               d # r \<Rightarrow> if d = CHR '']'' then Some (JList [], r)
                          else map_option (apfst JList) (parse_elements n (d # r))
             | [] \<Rightarrow> None)
          else if c = CHR ''{'' then
            (case skip_ws cs of
               d # r \<Rightarrow> if d = CHR ''}'' then Some (JObj [], r)
                          else map_option (apfst (\<lambda>kvs. JObj (dict_of_pairs kvs))) (parse_members n (d # r))
             | [] \<Rightarrow> None)
          else parse_atom s)"
| "parse_elements 0 s = None"
| "parse_elements (Suc n) s =
     (case parse_value n s of
        None \<Rightarrow> None
      | Some (v, r) \<Rightarrow>
          (case skip_ws r of
             c # r' \<Rightarrow> if c = CHR '']'' then Some ([v], r')
                        else if c = CHR '','' then map_option (apfst (Cons v)) (parse_elements n (skip_ws r'))
                        else None
           | [] \<Rightarrow> None))"
| "parse_members 0 s = None"
| "parse_members (Suc n) s =
     (case s of
        c # cs \<Rightarrow>
          if c \<noteq> CHR 0x22 then None
          else (case parse_text cs of
                  None \<Rightarrow> None
                | Some (k, r) \<Rightarrow>
                    (case skip_ws r of
                       d # r1 \<Rightarrow>
                         if d \<noteq> CHR '':'' then None
                         else (case parse_value n (skip_ws r1) of
                                 None \<Rightarrow> None
                               | Some (v, r2) \<Rightarrow>
                                   (case skip_ws r2 of
                                      e # r3 \<Rightarrow> if e = CHR ''}'' then Some ([(k, v)], r3)
                                                 else if e = CHR '',''
                                                 then map_option (apfst (Cons (k, v))) (parse_members n (skip_ws r3))
                                                 else None
                                    | [] \<Rightarrow> None))
                     | [] \<Rightarrow> None))
      | [] \<Rightarrow> None)"

definition json_loads :: "string \<Rightarrow> json option" where
  "json_loads s =
     (case parse_value (2 * length s + 2) (skip_ws s) of
        Some (v, r) \<Rightarrow> if skip_ws r = [] then Some v else None
      | None \<Rightarrow> None)"

section \<open>Texts are read back\<close>

lemma hex_digit_roundtrip: "hex_digit_value (json_hex_digit n) = Some (n mod 16)"
proof -
  have "list_all (\<lambda>x. hex_digit_value (json_hex_digit x) = Some x) [0..<16]"
    by (simp add: upt_rec json_hex_digit_def hex_digit_value_def)
  then have "hex_digit_value (json_hex_digit (n mod 16)) = Some (n mod 16)" by (simp only: list_all_iff) simp
  then show ?thesis by (simp add: json_hex_digit_def)
qed

lemma parse_escaped_char:
  "parse_text (json_escape_char ascii c @ t) = map_option (apfst (Cons c)) (parse_text t)"
proof (cases "map_of json_escapes c")
  case (Some e)
  then show ?thesis
    by (auto simp: json_escape_char_def json_escapes_def json_unescapes_def split: if_splits)
next
  case None
  then have c: "c \<noteq> CHR 0x22" "c \<noteq> CHR 0x5C" by (auto simp: json_escapes_def)
  have small: "(of_char c :: nat) < 256" by simp
  then have "(of_char c :: nat) div 16 mod 16 = of_char c div 16" by (intro mod_less) linarith
  then have "hex4_value (CHR ''0'') (CHR ''0'') (json_hex_digit (of_char c div 16)) (json_hex_digit (of_char c))
      = Some (of_char c)"
    by (simp add: hex4_value_def hex_digit_roundtrip) (simp add: hex_digit_value_def)
  with None c small show ?thesis by (simp add: json_escape_char_def Let_def)
qed

lemma parse_escaped_text: "parse_text (concat (map (json_escape_char ascii) s) @ CHR 0x22 # t) = Some (s, t)"
  by (induction s) (simp_all add: parse_escaped_char del: parse_text.simps(2), simp)

section \<open>Numbers are read back\<close>

text \<open>The text behind a value does not go on with the digits of a number.\<close>

definition value_end :: "string \<Rightarrow> bool" where
  "value_end t \<longleftrightarrow> t = [] \<or> hd t \<in> {CHR '','', CHR '']'', CHR ''}''}"

lemma parse_int_roundtrip:
  assumes "value_end t"
  shows "parse_number (str_int i @ t) = Some (JInt i, t)"
proof -
  have stop: "takeWhile is_ascii_digit t = [] \<and> dropWhile is_ascii_digit t = t"
    using assms by (cases t) (auto simp: value_end_def is_ascii_digit_def)
  have rest: "split_fraction t = ([], t)" "split_exponent t = ([], t)"
    using assms by (auto simp: value_end_def split_fraction_def split_exponent_def split_sign_def
        split: list.split prod.split)
  have digits: "split_digits (str_nat n @ t) = (str_nat n, t)" for n
    using str_nat_ascii_digits [of n] stop by (simp add: split_digits_def list_all_iff)
  have whole: "split_whole (str_nat n @ t) = (str_nat n, t)" for n
  proof (cases "n = 0")
    case True
    have "str_nat 0 = ''0''" by code_simp
    with True show ?thesis by (simp add: split_whole_def)
  next
    case False
    then have "hd (str_nat n) \<noteq> CHR ''0''" using str_nat_hd by simp
    moreover obtain c cs where n: "str_nat n = c # cs" by (metis list.exhaust str_nat_ne)
    ultimately show ?thesis using digits [of n] unfolding n by (simp add: split_whole_def)
  qed
  have sign: "split_sign ''-'' (str_nat n @ t) = ([], str_nat n @ t)" for n
  proof -
    obtain c cs where n: "str_nat n = c # cs" by (metis list.exhaust str_nat_ne)
    then show ?thesis using str_nat_not_in(3) [of n] by (auto simp: split_sign_def)
  qed
  have minus: "split_sign ''-'' (CHR ''-'' # r) = (''-'', r)" for r by (simp add: split_sign_def)
  show ?thesis
    by (cases "i < 0") (simp_all add: parse_number_def str_int_def minus sign whole rest dec_value_str_nat)
qed

section \<open>The fuel is enough\<close>

lemma skip_ws_length: "length (skip_ws s) \<le> length s"
  by (simp add: skip_ws_def length_dropWhile_le)

lemma skip_ws_less: "skip_ws s = c # r \<Longrightarrow> length r < length s"
  using skip_ws_length [of s] by simp

lemma parse_text_length: "parse_text s = Some (x, r) \<Longrightarrow> length r < length s"
proof (induction s arbitrary: x rule: parse_text.induct)
  case (2 c cs)
  note IH = 2(1-3) and run = 2(4)
  consider (quote) "c = CHR 0x22" | (plain) "c \<noteq> CHR 0x22" "c \<noteq> CHR 0x5C" | (escape) "c = CHR 0x5C" by blast
  then show ?case
  proof cases
    case quote
    with run show ?thesis by simp
  next
    case plain
    with run obtain y where "\<not> (of_char c :: nat) < 32" "parse_text cs = Some (y, r)" by (auto split: if_splits)
    with IH(3) [OF plain] show ?thesis by fastforce
  next
    case escape
    then obtain e es where cs: "cs = e # es" using run by (cases cs) auto
    show ?thesis
    proof (cases "e = CHR ''u''")
      case True
      with run escape cs obtain h i j k rest n y where "es = h # i # j # k # rest" "hex4_value h i j k = Some n"
        "n < 256" "parse_text rest = Some (y, r)"
        by (auto split: list.splits option.splits if_splits)
      with IH(1) [OF _ escape cs True] escape have "length r < length rest" by fastforce
      with \<open>es = _\<close> cs show ?thesis by simp
    next
      case False
      with run escape cs obtain d y where "map_of json_unescapes e = Some d" "parse_text es = Some (y, r)"
        by (auto split: option.splits)
      with IH(2) [OF _ escape cs False] escape have "length r < length es" by fastforce
      with cs show ?thesis by simp
    qed
  qed
qed simp

text \<open>The parts of a number are pieces of the text.\<close>

lemma split_pieces:
  "split_sign cs s = (a, b) \<Longrightarrow> s = a @ b" "split_digits s = (a, b) \<Longrightarrow> s = a @ b"
  "split_whole s = (a, b) \<Longrightarrow> s = a @ b"
  by (auto simp: split_sign_def split_digits_def split_whole_def split: list.splits if_splits)

lemma split_fraction_piece: "split_fraction s = (a, b) \<Longrightarrow> s = a @ b"
  by (auto simp: split_fraction_def dest!: split_pieces split: prod.splits if_splits)

lemma split_exponent_piece: "split_exponent s = (a, b) \<Longrightarrow> s = a @ b"
  by (auto simp: split_exponent_def dest!: split_pieces split: prod.splits if_splits)

lemma parse_number_length:
  assumes "parse_number s = Some (v, w)"
  shows "length w < length s"
proof -
  from assms obtain sign t whole u frac x expo where
    parts: "split_sign ''-'' s = (sign, t)" "split_whole t = (whole, u)" "split_fraction u = (frac, x)"
      "split_exponent x = (expo, w)" "whole \<noteq> []"
    by (auto simp: parse_number_def split: prod.splits if_splits)
  then have "s = sign @ whole @ frac @ expo @ w"
    using split_pieces(1) [OF parts(1)] split_pieces(3) [OF parts(2)] split_fraction_piece [OF parts(3)]
      split_exponent_piece [OF parts(4)] by simp
  with parts(5) show ?thesis by simp
qed

lemma parse_atom_length:
  assumes "parse_atom s = Some (v, w)"
  shows "length w < length s"
proof (cases "parse_number s")
  case (Some x)
  with assms show ?thesis by (auto simp: parse_atom_def dest: parse_number_length)
next
  case None
  with assms obtain t where t: "find (\<lambda>(t, v). py_startswith s t) json_constants = Some (t, v)" "w = drop (length t) s"
    by (auto simp: parse_atom_def parse_constant_def)
  have member: "find P xs = Some x \<Longrightarrow> x \<in> set xs \<and> P x" for P and xs :: "'a list" and x
    by (auto simp: find_Some_iff)
  from member [OF t(1)] have "t \<noteq> [] \<and> py_startswith s t" by (auto simp: json_constants_def)
  with t(2) show ?thesis by (cases s) (auto simp: py_startswith_def)
qed

lemma parse_lengths:
  "parse_value n s = Some (v, r) \<Longrightarrow> length r < length s"
  "parse_elements n s = Some (vs, r) \<Longrightarrow> length r < length s"
  "parse_members n s = Some (ms, r) \<Longrightarrow> length r < length s"
proof (induction n s and n s and n s arbitrary: v r and vs r and ms r
    rule: parse_value_parse_elements_parse_members.induct)
  case (2 n s)
  then obtain c cs where s: "s = c # cs" by (cases s) auto
  consider "c = CHR 0x22" | "c = CHR ''[''" | "c = CHR ''{''" | "c \<notin> {CHR 0x22, CHR ''['', CHR ''{''}" by blast
  then show ?case
  proof cases
    case 1
    with 2(3) show ?thesis by (auto simp: s dest!: parse_text_length)
  next
    case c: 2
    with 2(3) obtain d t where t: "skip_ws cs = d # t" by (auto simp: s split: list.splits)
    with skip_ws_length [of cs] have "length t < length cs" by simp
    with 2(1) [OF s _ c t] 2(3) c s t skip_ws_length [of cs] show ?thesis by (fastforce split: if_splits)
  next
    case c: 3
    with 2(3) obtain d t where t: "skip_ws cs = d # t" by (auto simp: s split: list.splits)
    with skip_ws_length [of cs] have "length t < length cs" by simp
    with 2(2) [OF s _ _ c t] 2(3) c s t skip_ws_length [of cs] show ?thesis by (fastforce split: if_splits)
  next
    case 4
    with 2(3) show ?thesis by (auto simp: s dest!: parse_atom_length)
  qed
next
  case (4 n s)
  then obtain v r1 where v: "parse_value n s = Some (v, r1)" by (auto split: option.splits)
  with 4(3) obtain c r2 where c: "skip_ws r1 = c # r2" by (auto split: list.splits)
  have short: "length r2 < length s"
    using 4(1) [OF v] skip_ws_length [of r1] c by simp
  show ?case
  proof (cases "c = CHR '']''")
    case True
    with 4(3) v c short show ?thesis by simp
  next
    case False
    with 4(3) v c obtain ws where "c = CHR '',''" "parse_elements n (skip_ws r2) = Some (ws, r)"
      by (auto split: if_splits)
    with 4(2) [OF v _ c False] short skip_ws_length [of r2] show ?thesis by fastforce
  qed
next
  case (6 n s)
  then obtain cs where s: "s = CHR 0x22 # cs" by (auto split: list.splits if_splits)
  with 6(3) obtain k r1 where k: "parse_text cs = Some (k, r1)" by (auto split: option.splits)
  with 6(3) s obtain r2 where r1: "skip_ws r1 = CHR '':'' # r2" by (auto split: list.splits if_splits)
  with 6(3) s k obtain v r3 where v: "parse_value n (skip_ws r2) = Some (v, r3)" by (auto split: option.splits)
  with 6(3) s k r1 obtain e r4 where e: "skip_ws r3 = e # r4" by (auto split: list.splits)
  have "length r2 < length s" using s parse_text_length [OF k] skip_ws_length [of r1] r1 by simp
  moreover have "length r3 < length (skip_ws r2)"
    using 6(1) [OF s _ k _ r1 _ v] by simp
  ultimately have short: "length r4 < length s" using skip_ws_length [of r2] skip_ws_length [of r3] e by simp
  show ?case
  proof (cases "e = CHR ''}''")
    case True
    with 6(3) s k r1 v e short show ?thesis by simp
  next
    case False
    with 6(3) s k r1 v e obtain ws where "e = CHR '',''" "parse_members n (skip_ws r4) = Some (ws, r)"
      by (auto split: if_splits)
    with 6(2) [OF s _ k _ r1 _ v _ e False] short skip_ws_length [of r4] show ?thesis by fastforce
  qed
qed simp_all

lemma fuel_enough:
  "2 * length s < n \<Longrightarrow> 2 * length s < m \<Longrightarrow> parse_value n s = parse_value m s"
  "2 * length s + 1 < n \<Longrightarrow> 2 * length s + 1 < m \<Longrightarrow> parse_elements n s = parse_elements m s"
  "2 * length s + 1 < n \<Longrightarrow> 2 * length s + 1 < m \<Longrightarrow> parse_members n s = parse_members m s"
proof (induction n s and n s and n s arbitrary: m and m and m
    rule: parse_value_parse_elements_parse_members.induct)
  case (2 n s)
  obtain k where m: "m = Suc k" using 2(4) by (cases m) auto
  show ?case
  proof (cases s)
    case s: (Cons c cs)
    consider "c = CHR ''[''" | "c = CHR ''{''" | "c \<notin> {CHR ''['', CHR ''{''}" by blast
    then show ?thesis
    proof cases
      case c: 1
      show ?thesis
      proof (cases "skip_ws cs")
        case (Cons d t)
        have "parse_elements n (d # t) = parse_elements k (d # t)" if "d \<noteq> CHR '']''"
          using 2(1) [OF s _ c Cons that, of k] 2(3,4) skip_ws_length [of cs] Cons c by (simp add: s m)
        with Cons c show ?thesis by (simp add: s m)
      qed (simp add: s m c)
    next
      case c: 2
      show ?thesis
      proof (cases "skip_ws cs")
        case (Cons d t)
        have "parse_members n (d # t) = parse_members k (d # t)" if "d \<noteq> CHR ''}''"
          using 2(2) [OF s _ _ c Cons that, of k] 2(3,4) skip_ws_length [of cs] Cons c by (simp add: s m)
        with Cons c show ?thesis by (simp add: s m)
      qed (simp add: s m c)
    qed (simp add: s m)
  qed (simp add: m)
next
  case (4 n s)
  obtain k where m: "m = Suc k" using 4(4) by (cases m) auto
  have val: "parse_value n s = parse_value k s" using 4(1) [of k] 4(3,4) by (simp add: m)
  show ?case
  proof (cases "parse_value n s")
    case None
    with val show ?thesis by (simp add: m)
  next
    case (Some x)
    obtain v r where x: "x = (v, r)" by (cases x)
    have both: "parse_value n s = Some (v, r)" "parse_value k s = Some (v, r)" using Some val x by simp_all
    show ?thesis
    proof (cases "skip_ws r")
      case Nil
      with both show ?thesis by (simp add: m)
    next
      case (Cons c t)
      have "length r < length s" using parse_lengths(1) Some x by blast
      then have "length (skip_ws t) < length s" using skip_ws_length [of r] skip_ws_length [of t] Cons by simp
      then have "parse_elements n (skip_ws t) = parse_elements k (skip_ws t)" if "c \<noteq> CHR '']''" "c = CHR '',''"
        using 4(2) [OF Some x [symmetric] Cons that, of k] 4(3,4) by (simp add: m)
      with both Cons show ?thesis by (simp add: m)
    qed
  qed
next
  case (6 n s)
  obtain k where m: "m = Suc k" using 6(4) by (cases m) auto
  show ?case
  proof (cases "\<exists>cs key r1 r2. s = CHR 0x22 # cs \<and> parse_text cs = Some (key, r1) \<and> skip_ws r1 = CHR '':'' # r2")
    case False
    then show ?thesis by (auto simp: m split: list.splits option.splits)
  next
    case True
    then obtain cs key r1 r2 where s: "s = CHR 0x22 # cs" and key: "parse_text cs = Some (key, r1)"
      and r1: "skip_ws r1 = CHR '':'' # r2" by blast
    have less: "length (skip_ws r2) < length s"
      using s parse_text_length [OF key] skip_ws_length [of r1] skip_ws_length [of r2] r1 by simp
    have val: "parse_value n (skip_ws r2) = parse_value k (skip_ws r2)"
      using 6(1) [OF s _ key _ r1 _, where m = k] 6(3,4) less by (simp add: m)
    show ?thesis
    proof (cases "parse_value n (skip_ws r2)")
      case None
      with val s key r1 show ?thesis by (simp add: m)
    next
      case (Some x)
      obtain v r3 where x: "x = (v, r3)" by (cases x)
      have both: "parse_value n (skip_ws r2) = Some (v, r3)" "parse_value k (skip_ws r2) = Some (v, r3)"
        using Some val x by simp_all
      show ?thesis
      proof (cases "skip_ws r3")
        case Nil
        with both s key r1 show ?thesis by (simp add: m)
      next
        case (Cons e t)
        have "length r3 < length (skip_ws r2)" using parse_lengths(1) Some x by blast
        then have "length (skip_ws t) < length s"
          using less skip_ws_length [of r3] skip_ws_length [of t] Cons by simp
        then have "parse_members n (skip_ws t) = parse_members k (skip_ws t)" if "e \<noteq> CHR ''}''" "e = CHR '',''"
          using 6(2) [OF s _ key _ r1 _ Some x [symmetric] Cons that, where m = k] 6(3,4) by (simp add: m)
        with both s key r1 Cons show ?thesis by (simp add: m)
      qed
    qed
  qed
qed simp_all

section \<open>Values are read back\<close>

text \<open>A value without floats whose objects are dictionaries, and the value with its keys in order.\<close>

fun json_ok :: "json \<Rightarrow> bool" where
  "json_ok (JFloat t) \<longleftrightarrow> False"
| "json_ok (JList xs) \<longleftrightarrow> (\<forall>x\<in>set xs. json_ok x)"
| "json_ok (JObj kvs) \<longleftrightarrow> dict_ok kvs \<and> (\<forall>kv\<in>set kvs. json_ok (snd kv))"
| "json_ok _ \<longleftrightarrow> True"

fun json_sorted :: "json \<Rightarrow> json" where
  "json_sorted (JList xs) = JList (map json_sorted xs)"
| "json_sorted (JObj kvs) = JObj (sort_key fst (map (\<lambda>(k, v). (k, json_sorted v)) kvs))"
| "json_sorted j = j"

lemma sort_key_map_snd:
  "sort_key fst (map (\<lambda>(k, v). (k, f v)) kvs) = map (\<lambda>(k, v). (k, f v)) (sort_key fst kvs)"
proof (induction kvs)
  case (Cons kv kvs)
  have "insort_key fst (k, f v) (map (\<lambda>(k, v). (k, f v)) xs) = map (\<lambda>(k, v). (k, f v)) (insort_key fst (k, v) xs)"
    for k v xs by (induction xs) auto
  with Cons show ?case by (cases kv) simp
qed simp

lemma dict_set_new: "k \<notin> fst ` set d \<Longrightarrow> dict_set d k v = d @ [(k, v)]"
  by (induction d) auto

lemma dict_of_pairs_ok:
  assumes "dict_ok kvs"
  shows "dict_of_pairs kvs = kvs"
proof -
  have "distinct (map fst (d @ kvs)) \<Longrightarrow> fold (\<lambda>(k, v) d. dict_set d k v) kvs d = d @ kvs" for d
  proof (induction kvs arbitrary: d)
    case (Cons kv kvs)
    then show ?case by (cases kv) (simp add: dict_set_new)
  qed simp
  from this [of "[]"] assms show ?thesis by (simp add: dict_of_pairs_def dict_ok_def dict_keys_def)
qed

lemma skip_ws_id: "s \<noteq> [] \<Longrightarrow> \<not> json_ws (hd s) \<Longrightarrow> skip_ws s = s"
  by (cases s) (simp_all add: skip_ws_def)

text \<open>Every value starts with a character that is no space and closes nothing.\<close>

definition value_start :: "string \<Rightarrow> bool" where
  "value_start s \<longleftrightarrow> s \<noteq> [] \<and> \<not> json_ws (hd s) \<and> hd s \<notin> {CHR '']'', CHR ''}''}"

lemma value_start_digit: "is_ascii_digit c \<Longrightarrow> value_start (c # s)"
  by (auto simp: value_start_def json_ws_def is_ascii_digit_def)

lemma dumps_start: "json_ok j \<Longrightarrow> value_start (json_dumps ascii j @ t)"
proof (cases j)
  case (JInt i)
  have "value_start (str_nat n @ t)" for n
  proof -
    obtain c cs where "str_nat n = c # cs" by (metis list.exhaust str_nat_ne)
    with str_nat_ascii_digits [of n] show ?thesis by (simp add: value_start_digit)
  qed
  with JInt show ?thesis by (simp add: str_int_def) (simp add: value_start_def json_ws_def)
qed (simp_all add: value_start_def json_ws_def json_quote_def)

definition parses :: "(nat \<Rightarrow> string \<Rightarrow> 'a option) \<Rightarrow> string \<Rightarrow> 'a \<Rightarrow> bool" where
  "parses p s r \<longleftrightarrow> (\<exists>N. \<forall>n\<ge>N. p n s = Some r)"

lemma parses_Suc: "parses p s r \<Longrightarrow> \<exists>N. \<forall>n\<ge>N. p n s = Some r \<and> p (Suc n) s = Some r"
  unfolding parses_def by (meson le_SucI)

lemma parsesI: "(\<And>n. N \<le> n \<Longrightarrow> p (Suc n) s = Some r) \<Longrightarrow> parses p s r"
  unfolding parses_def by (metis Suc_le_D Suc_le_mono)

lemma parses_elements:
  assumes "xs \<noteq> []" and "\<And>x t. x \<in> set xs \<Longrightarrow> value_end t \<Longrightarrow> parses parse_value (f x @ t) (g x, t)"
    and "\<And>x t. x \<in> set xs \<Longrightarrow> value_start (f x @ t)"
  shows "parses parse_elements (py_join '','' (map f xs) @ CHR '']'' # t) (map g xs, t)"
  using assms
proof (induction xs)
  case (Cons x xs)
  show ?case
  proof (cases xs)
    case Nil
    have "value_end (CHR '']'' # t)" by (simp add: value_end_def)
    with Cons.prems(2) [of x] obtain N where N: "\<And>n. N \<le> n \<Longrightarrow> parse_value n (f x @ CHR '']'' # t) = Some (g x, CHR '']'' # t)"
      unfolding parses_def by (meson list.set_intros(1))
    show ?thesis by (rule parsesI [of N]) (simp add: Nil N skip_ws_def json_ws_def)
  next
    case (Cons y ys)
    let ?rest = "py_join '','' (map f xs) @ CHR '']'' # t"
    have "parses parse_elements ?rest (map g xs, t)" using Cons.IH Cons.prems Cons by auto
    then obtain M where M: "\<And>n. M \<le> n \<Longrightarrow> parse_elements n ?rest = Some (map g xs, t)" unfolding parses_def by blast
    have "value_end (CHR '','' # ?rest)" by (simp add: value_end_def)
    with Cons.prems(2) [of x] obtain N where N: "\<And>n. N \<le> n \<Longrightarrow> parse_value n (f x @ CHR '','' # ?rest) = Some (g x, CHR '','' # ?rest)"
      unfolding parses_def by (meson list.set_intros(1))
    have "value_start ?rest" using Cons.prems(3) [of y] Cons by (cases ys) simp_all
    then have ws: "skip_ws ?rest = ?rest" by (intro skip_ws_id) (simp_all add: value_start_def)
    have join: "py_join '','' (map f (x # xs)) @ CHR '']'' # t = f x @ CHR '','' # ?rest" by (simp add: Cons)
    have comma: "skip_ws (CHR '','' # r) = CHR '','' # r" for r by (simp add: skip_ws_def json_ws_def)
    show ?thesis
      unfolding join by (rule parsesI [of "max M N"]) (simp add: N M ws comma)
  qed
qed simp

definition member_text :: "bool \<Rightarrow> ('a \<Rightarrow> string) \<Rightarrow> string \<times> 'a \<Rightarrow> string" where
  "member_text ascii f kv = json_quote ascii (fst kv) @ '':'' @ f (snd kv)"

lemma member_text_shape: "member_text ascii f kv @ t = CHR 0x22 # concat (map (json_escape_char ascii) (fst kv)) @ CHR 0x22 # CHR '':'' # f (snd kv) @ t"
  by (simp add: member_text_def json_quote_def)

lemma skip_ws_marks:
  "skip_ws (CHR '','' # r) = CHR '','' # r" "skip_ws (CHR '':'' # r) = CHR '':'' # r"
  "skip_ws (CHR ''}'' # r) = CHR ''}'' # r" "skip_ws (CHR '']'' # r) = CHR '']'' # r"
  "skip_ws (CHR 0x22 # r) = CHR 0x22 # r"
  by (simp_all add: skip_ws_def json_ws_def)

lemma parses_members:
  assumes "kvs \<noteq> []" and "\<And>kv t. kv \<in> set kvs \<Longrightarrow> value_end t \<Longrightarrow> parses parse_value (f (snd kv) @ t) (g (snd kv), t)"
    and "\<And>kv t. kv \<in> set kvs \<Longrightarrow> value_start (f (snd kv) @ t)"
  shows "parses parse_members (py_join '','' (map (member_text ascii f) kvs) @ CHR ''}'' # t) (map (\<lambda>(k, v). (k, g v)) kvs, t)"
  using assms
proof (induction kvs)
  case (Cons kv kvs)
  obtain k v where kv: "kv = (k, v)" by (cases kv)
  have start: "skip_ws (f v @ r) = f v @ r" for r
    using Cons.prems(3) [of kv r] kv by (intro skip_ws_id) (simp_all add: value_start_def)
  show ?case
  proof (cases kvs)
    case Nil
    have "value_end (CHR ''}'' # t)" by (simp add: value_end_def)
    with Cons.prems(2) [of kv] kv obtain N where N: "\<And>n. N \<le> n \<Longrightarrow> parse_value n (f v @ CHR ''}'' # t) = Some (g v, CHR ''}'' # t)"
      unfolding parses_def by (metis list.set_intros(1) snd_conv)
    show ?thesis
      by (rule parsesI [of N]) (simp add: Nil kv N member_text_shape start parse_escaped_text skip_ws_marks)
  next
    case (Cons kv' kvs')
    let ?rest = "py_join '','' (map (member_text ascii f) kvs) @ CHR ''}'' # t"
    have "parses parse_members ?rest (map (\<lambda>(k, v). (k, g v)) kvs, t)" using Cons.IH Cons.prems Cons by auto
    then obtain M where M: "\<And>n. M \<le> n \<Longrightarrow> parse_members n ?rest = Some (map (\<lambda>(k, v). (k, g v)) kvs, t)"
      unfolding parses_def by blast
    have "value_end (CHR '','' # ?rest)" by (simp add: value_end_def)
    with Cons.prems(2) [of kv] kv obtain N where N: "\<And>n. N \<le> n \<Longrightarrow> parse_value n (f v @ CHR '','' # ?rest) = Some (g v, CHR '','' # ?rest)"
      unfolding parses_def by (metis list.set_intros(1) snd_conv)
    have "\<exists>r. ?rest = CHR 0x22 # r" by (cases kvs') (simp_all add: Cons member_text_def json_quote_def)
    then have ws: "skip_ws ?rest = ?rest" by (auto simp: skip_ws_marks)
    have join: "py_join '','' (map (member_text ascii f) (kv # kvs)) @ CHR ''}'' # t =
        CHR 0x22 # concat (map (json_escape_char ascii) k) @ CHR 0x22 # CHR '':'' # f v @ CHR '','' # ?rest"
      by (simp add: Cons kv member_text_def json_quote_def)
    show ?thesis
      unfolding join by (rule parsesI [of "max M N"]) (simp add: N M ws start parse_escaped_text skip_ws_marks kv)
  qed
qed simp

lemma set_sort_key_snd: "kv \<in> set (sort_key fst kvs) \<longleftrightarrow> kv \<in> set kvs"
  by simp

lemma dumps_object:
  "json_dumps ascii (JObj kvs) = ''{'' @ py_join '','' (map (member_text ascii (json_dumps ascii)) (sort_key fst kvs)) @ ''}''"
  unfolding json_dumps.simps sort_key_map_snd
  by (simp add: member_text_def [abs_def] case_prod_unfold o_def)

text \<open>A value that does not start with a quote or a bracket is an atom.\<close>

lemma parse_value_atom:
  assumes "s = c # cs" and "c \<notin> {CHR 0x22, CHR ''['', CHR ''{''}" and "parse_atom s = Some r"
  shows "parses parse_value s r"
  by (rule parsesI [of 0]) (use assms in simp)

lemma dumps_parses: "json_ok j \<Longrightarrow> value_end t \<Longrightarrow> parses parse_value (json_dumps ascii j @ t) (json_sorted j, t)"
proof (induction j arbitrary: t)
  case JNull
  then show ?case
    by (intro parse_value_atom [of _ "CHR ''n''"])
      (simp_all add: parse_atom_def parse_number_def split_sign_def split_whole_def split_digits_def is_ascii_digit_def
        parse_constant_def json_constants_def py_startswith_def split: prod.split)
next
  case (JBool b)
  then show ?case
    by (cases b) (intro parse_value_atom [of _ "CHR ''t''"] parse_value_atom [of _ "CHR ''f''"];
      simp add: parse_atom_def parse_number_def split_sign_def split_whole_def split_digits_def is_ascii_digit_def
        parse_constant_def json_constants_def py_startswith_def split: prod.split)+
next
  case (JInt i)
  obtain c cs where c: "str_int i = c # cs" "c = CHR ''-'' \<or> is_ascii_digit c"
  proof (cases "i < 0")
    case False
    obtain c cs where "str_nat (nat i) = c # cs" by (metis list.exhaust str_nat_ne)
    with str_nat_ascii_digits [of "nat i"] False that show ?thesis by (auto simp: str_int_def)
  qed (auto simp: str_int_def that)
  have "parse_atom (str_int i @ t) = Some (JInt i, t)"
    using parse_int_roundtrip [OF JInt(2)] by (simp add: parse_atom_def)
  with c show ?case by (intro parse_value_atom [of _ c]) (auto simp: is_ascii_digit_def)
next
  case (JStr s)
  then show ?case by (intro parsesI [of 0]) (simp add: json_quote_def parse_escaped_text)
next
  case (JList xs)
  show ?case
  proof (cases xs)
    case Nil
    show ?thesis by (rule parsesI [of 0]) (simp add: Nil skip_ws_marks)
  next
    case (Cons x ys)
    have "parses parse_elements (py_join '','' (map (json_dumps ascii) xs) @ CHR '']'' # t) (map json_sorted xs, t)"
      using JList Cons by (intro parses_elements) (auto intro: dumps_start)
    then obtain N where N: "\<And>n. N \<le> n \<Longrightarrow> parse_elements n (py_join '','' (map (json_dumps ascii) xs) @ CHR '']'' # t) = Some (map json_sorted xs, t)"
      unfolding parses_def by blast
    have start: "value_start (py_join '','' (map (json_dumps ascii) xs) @ CHR '']'' # t)"
      using JList(2) Cons dumps_start [of x] by (cases ys) auto
    obtain d r where d: "py_join '','' (map (json_dumps ascii) xs) @ CHR '']'' # t = d # r" "d \<noteq> CHR '']''"
      using start by (cases "py_join '','' (map (json_dumps ascii) xs) @ CHR '']'' # t") (auto simp: value_start_def)
    have "skip_ws (d # r) = d # r" using start d by (intro skip_ws_id) (simp_all add: value_start_def)
    then show ?thesis by (intro parsesI [of N]) (use N d in simp)
  qed
next
  case (JObj kvs)
  show ?case
  proof (cases "kvs = []")
    case True
    show ?thesis by (rule parsesI [of 0]) (simp add: True skip_ws_marks)
  next
    case False
    let ?kvs = "sort_key fst kvs"
    let ?text = "py_join '','' (map (member_text ascii (json_dumps ascii)) ?kvs) @ CHR ''}'' # t"
    have ne: "?kvs \<noteq> []" using False by (metis length_0_conv length_sort)
    have "parses parse_members ?text (map (\<lambda>(k, v). (k, json_sorted v)) ?kvs, t)"
      using JObj ne by (intro parses_members) (auto intro: dumps_start simp: snds.simps)
    then obtain N where N: "\<And>n. N \<le> n \<Longrightarrow> parse_members n ?text = Some (map (\<lambda>(k, v). (k, json_sorted v)) ?kvs, t)"
      unfolding parses_def by blast
    obtain kv kvs' where "?kvs = kv # kvs'" using ne by (cases ?kvs) auto
    then obtain r where r: "?text = CHR 0x22 # r"
      by (cases kvs') (simp_all add: member_text_def json_quote_def)
    have "dict_ok (map (\<lambda>(k, v). (k, json_sorted v)) ?kvs)"
      using JObj(2) by (simp add: dict_ok_def dict_keys_def case_prod_unfold o_def distinct_map)
    then have pairs: "dict_of_pairs (map (\<lambda>(k, v). (k, json_sorted v)) ?kvs) = map (\<lambda>(k, v). (k, json_sorted v)) ?kvs"
      by (rule dict_of_pairs_ok)
    have whole: "json_dumps ascii (JObj kvs) @ t = CHR ''{'' # CHR 0x22 # r" unfolding dumps_object using r by simp
    show ?thesis
      unfolding whole
      by (intro parsesI [of N]) (use N r pairs in \<open>simp add: skip_ws_marks sort_key_map_snd\<close>)
  qed
qed simp

text \<open>What is dumped is loaded as the same value, with the keys of its objects in order.\<close>

lemma json_roundtrip:
  assumes "json_ok j"
  shows "json_loads (json_dumps ascii j) = Some (json_sorted j)"
proof -
  have "parses parse_value (json_dumps ascii j) (json_sorted j, [])"
    using dumps_parses [OF assms, of "[]" ascii] by (simp add: value_end_def)
  then obtain N where N: "\<And>n. N \<le> n \<Longrightarrow> parse_value n (json_dumps ascii j) = Some (json_sorted j, [])"
    unfolding parses_def by blast
  let ?n = "2 * length (json_dumps ascii j) + 2"
  have "parse_value ?n (json_dumps ascii j) = parse_value (max N ?n) (json_dumps ascii j)"
    by (rule fuel_enough(1)) simp_all
  moreover have "skip_ws (json_dumps ascii j) = json_dumps ascii j"
    using dumps_start [OF assms, of ascii "[]"] by (intro skip_ws_id) (simp_all add: value_start_def)
  ultimately show ?thesis by (simp add: json_loads_def N skip_ws_def)
qed

end
