(* ===== verification/PayloadEncryption.thy ===== *)
theory PayloadEncryption
  imports TrustProof Json
begin

text \<open>
  \<^verbatim>\<open>dt_image_search/mobile/mobile_payload_encryption.py\<close>: JSON payloads and binary chunks that
  the phone and the desktop encrypt with the trust key of the pairing.

  AES-GCM of the \<^verbatim>\<open>cryptography\<close> package is the argument \<open>aead\<close>, SHA-256 the argument
  \<open>sha256\<close>, and the nonce of \<^verbatim>\<open>os.urandom\<close> an argument of every encryption.  A
  \<^verbatim>\<open>MobilePayloadEncryptionError\<close> is an \<open>Inl\<close> with its message.
\<close>

section \<open>Base64 and UTF-8\<close>

text \<open>The value of a digit after the translation of \<^verbatim>\<open>urlsafe_b64decode\<close>.\<close>

definition b64_value :: "char \<Rightarrow> nat option" where
  "b64_value c =
     (let n = of_char c :: nat
      in if 65 \<le> n \<and> n \<le> 90 then Some (n - 65)
         else if 97 \<le> n \<and> n \<le> 122 then Some (n - 71)
         else if 48 \<le> n \<and> n \<le> 57 then Some (n + 4)
         else if c \<in> {CHR ''-'', CHR ''+''} then Some 62
         else if c \<in> {CHR ''_'', CHR ''/''} then Some 63 else None)"

text \<open>
  \<^verbatim>\<open>binascii.a2b_base64\<close>, not strict: characters outside the alphabet are skipped, and a
  complete padding ends the input.  \<open>q\<close> digits of the current group have been read, \<open>l\<close> holds
  the bits of the last one that are left over.
\<close>

fun a2b_loop :: "string \<Rightarrow> nat \<Rightarrow> nat \<Rightarrow> nat \<Rightarrow> byte list option" where
  "a2b_loop [] q l pads = (if q = 0 then Some [] else None)"
| "a2b_loop (c # cs) q l pads =
     (if c = CHR ''='' then
        (if q < 2 then a2b_loop cs q l pads
         else if 4 \<le> q + (pads + 1) then Some [] else a2b_loop cs q l (pads + 1))
      else (case b64_value c of
              None \<Rightarrow> a2b_loop cs q l pads
            | Some v \<Rightarrow>
                if q = 0 then a2b_loop cs 1 v 0
                else if q = 1 then map_option (Cons (word_of_nat (l * 4 + v div 16))) (a2b_loop cs 2 (v mod 16) 0)
                else if q = 2 then map_option (Cons (word_of_nat (l * 16 + v div 4))) (a2b_loop cs 3 (v mod 4) 0)
                else map_option (Cons (word_of_nat (l * 64 + v))) (a2b_loop cs 0 0 0)))"

text \<open>\<^verbatim>\<open>bytes.decode("utf-8")\<close> of a text of characters up to U+00FF.\<close>

fun utf8_decode :: "byte list \<Rightarrow> string option" where
  "utf8_decode [] = Some []"
| "utf8_decode (b # bs) =
     (if unat b < 128 then map_option (Cons (char_of (unat b))) (utf8_decode bs)
      else if unat b \<in> {194, 195} then
        (case bs of
           [] \<Rightarrow> None
         | c # cs \<Rightarrow>
             if 128 \<le> unat c \<and> unat c < 192
             then map_option (Cons (char_of ((unat b - 192) * 64 + (unat c - 128)))) (utf8_decode cs)
             else None)
      else None)"

section \<open>Operations\<close>

definition MOBILE_ENCRYPTION_SCHEMA :: string where
  "MOBILE_ENCRYPTION_SCHEMA = ''dtis.mobile-encryption.v1''"
definition MOBILE_ENCRYPTION_CAPABILITY :: string where
  "MOBILE_ENCRYPTION_CAPABILITY = ''encryption''"
definition MOBILE_ENCRYPTED_BINARY_CHUNK_VERSION :: byte where
  "MOBILE_ENCRYPTED_BINARY_CHUNK_VERSION = 1"
definition MOBILE_ENCRYPTED_BINARY_NONCE_BYTES :: nat where
  "MOBILE_ENCRYPTED_BINARY_NONCE_BYTES = 12"
definition MOBILE_ENCRYPTED_BINARY_TAG_BYTES :: nat where
  "MOBILE_ENCRYPTED_BINARY_TAG_BYTES = 16"
definition MOBILE_ENCRYPTED_BINARY_CHUNK_OVERHEAD_BYTES :: nat where
  "MOBILE_ENCRYPTED_BINARY_CHUNK_OVERHEAD_BYTES =
     1 + MOBILE_ENCRYPTED_BINARY_NONCE_BYTES + MOBILE_ENCRYPTED_BINARY_TAG_BYTES"
definition MOBILE_ENCRYPTION_KEY_DERIVATION_CONTEXT :: string where
  "MOBILE_ENCRYPTION_KEY_DERIVATION_CONTEXT = ''dtis.mobile-encryption.key.v1''"

text \<open>\<^verbatim>\<open>AESGCM(key).encrypt\<close> and \<^verbatim>\<open>decrypt\<close>; \<open>None\<close> is an exception.\<close>

record aead =
  ae_encrypt :: "byte list \<Rightarrow> byte list \<Rightarrow> byte list \<Rightarrow> byte list"
  ae_decrypt :: "byte list \<Rightarrow> byte list \<Rightarrow> byte list \<Rightarrow> byte list option"

type_synonym 'a enc = "string + 'a"

definition is_mobile_encrypted_payload :: "payload \<Rightarrow> bool" where
  "is_mobile_encrypted_payload p = (dict_get p ''schema'' = Some (JStr MOBILE_ENCRYPTION_SCHEMA))"

definition derive_mobile_encryption_key :: "(byte list \<Rightarrow> byte list) \<Rightarrow> string \<Rightarrow> byte list enc" where
  "derive_mobile_encryption_key sha256 trust_key_b64 =
     (let normalized = py_strip trust_key_b64
      in if normalized = [] then Inl ''Desktop rejected an empty mobile transfer trust key.''
         else Inr (sha256 (utf8_encode (MOBILE_ENCRYPTION_KEY_DERIVATION_CONTEXT @ newline_sep @ normalized))))"

fun add_locator_fields :: "(string \<times> string) list \<Rightarrow> payload \<Rightarrow> payload enc" where
  "add_locator_fields [] p = Inr p"
| "add_locator_fields ((name, v) # fs) p =
     (if py_strip name = []
      then Inl ''Desktop rejected an encrypted payload locator with an empty field name.''
      else if py_strip v = []
      then Inl (''Desktop rejected encrypted payload locator field '' @ quoted name @ ''.'')
      else add_locator_fields fs (dict_set p name (JStr (py_strip v))))"

definition encrypt_mobile_json_payload ::
    "aead \<Rightarrow> (byte list \<Rightarrow> byte list) \<Rightarrow> byte list \<Rightarrow> payload \<Rightarrow> string \<Rightarrow> (string \<times> string) list \<Rightarrow> payload enc" where
  "encrypt_mobile_json_payload ae sha256 nonce p trust_key_b64 locator_fields =
     bindE (derive_mobile_encryption_key sha256 trust_key_b64) (\<lambda>key.
       let ciphertext = ae_encrypt ae key nonce (utf8_encode (json_dumps False (JObj p)))
       in add_locator_fields locator_fields
            [(''schema'', JStr MOBILE_ENCRYPTION_SCHEMA), (''nonce'', JStr (b64url_encode_unpadded nonce)),
             (''ciphertext'', JStr (b64url_encode_unpadded ciphertext))])"

definition base64url_decode :: "string \<Rightarrow> byte list enc" where
  "base64url_decode v =
     (let normalized = py_strip v
      in if normalized = []
         then Inl ''Desktop rejected encrypted payload because base64url value is empty.''
         else let padded = normalized @ replicate ((4 - length normalized mod 4) mod 4) (CHR ''='')
              in case encode_ascii padded of
                   None \<Rightarrow> Inl ''Desktop rejected encrypted payload because base64url value is invalid.''
                 | Some _ \<Rightarrow>
                     (case a2b_loop padded 0 0 0 of
                        None \<Rightarrow> Inl ''Desktop rejected encrypted payload because base64url value is invalid.''
                      | Some bs \<Rightarrow> Inr bs))"

definition decode_required_base64url_field :: "payload \<Rightarrow> string \<Rightarrow> byte list enc" where
  "decode_required_base64url_field p field_name =
     (case dict_get p field_name of
        Some (JStr s) \<Rightarrow>
          if py_strip s = []
          then Inl (''Desktop rejected encrypted payload field '' @ quoted field_name @ ''.'')
          else base64url_decode (py_strip s)
      | _ \<Rightarrow> Inl (''Desktop rejected encrypted payload field '' @ quoted field_name @ ''.''))"

definition decrypt_mobile_json_payload ::
    "aead \<Rightarrow> (byte list \<Rightarrow> byte list) \<Rightarrow> payload \<Rightarrow> string \<Rightarrow> payload enc" where
  "decrypt_mobile_json_payload ae sha256 encrypted_payload trust_key_b64 =
     (if \<not> is_mobile_encrypted_payload encrypted_payload
      then Inl ''Desktop received an unsupported encrypted payload schema.''
      else
        bindE (decode_required_base64url_field encrypted_payload ''nonce'') (\<lambda>nonce.
          if length nonce \<noteq> MOBILE_ENCRYPTED_BINARY_NONCE_BYTES
          then Inl ''Desktop rejected encrypted payload nonce length.''
          else
            bindE (decode_required_base64url_field encrypted_payload ''ciphertext'') (\<lambda>ciphertext.
              bindE (derive_mobile_encryption_key sha256 trust_key_b64) (\<lambda>key.
                case ae_decrypt ae key nonce ciphertext of
                  None \<Rightarrow> Inl ''Desktop could not decrypt the encrypted payload.''
                | Some plaintext \<Rightarrow>
                    (case utf8_decode plaintext of
                       None \<Rightarrow> Inl ''Desktop decrypted an invalid encrypted payload JSON body.''
                     | Some text \<Rightarrow>
                         (case json_loads text of
                            None \<Rightarrow> Inl ''Desktop decrypted an invalid encrypted payload JSON body.''
                          | Some (JObj p) \<Rightarrow> Inr p
                          | Some _ \<Rightarrow> Inl ''Desktop decrypted an encrypted payload that is not a JSON object.''))))))"

definition encrypt_mobile_binary_chunk ::
    "aead \<Rightarrow> (byte list \<Rightarrow> byte list) \<Rightarrow> byte list \<Rightarrow> byte list \<Rightarrow> string \<Rightarrow> byte list enc" where
  "encrypt_mobile_binary_chunk ae sha256 nonce chunk trust_key_b64 =
     bindE (derive_mobile_encryption_key sha256 trust_key_b64) (\<lambda>key.
       Inr ([MOBILE_ENCRYPTED_BINARY_CHUNK_VERSION] @ nonce @ ae_encrypt ae key nonce chunk))"

definition decrypt_mobile_binary_chunk ::
    "aead \<Rightarrow> (byte list \<Rightarrow> byte list) \<Rightarrow> byte list \<Rightarrow> string \<Rightarrow> byte list enc" where
  "decrypt_mobile_binary_chunk ae sha256 encrypted_chunk trust_key_b64 =
     (if length encrypted_chunk < MOBILE_ENCRYPTED_BINARY_CHUNK_OVERHEAD_BYTES
      then Inl ''Desktop rejected encrypted transfer chunk framing.''
      else if encrypted_chunk ! 0 \<noteq> MOBILE_ENCRYPTED_BINARY_CHUNK_VERSION
      then Inl ''Desktop rejected encrypted transfer chunk version.''
      else
        let nonce_end = 1 + MOBILE_ENCRYPTED_BINARY_NONCE_BYTES;
            nonce = take MOBILE_ENCRYPTED_BINARY_NONCE_BYTES (drop 1 encrypted_chunk);
            ciphertext = drop nonce_end encrypted_chunk
        in bindE (derive_mobile_encryption_key sha256 trust_key_b64) (\<lambda>key.
             case ae_decrypt ae key nonce ciphertext of
               None \<Rightarrow> Inl ''Desktop could not decrypt transfer chunk.''
             | Some chunk \<Rightarrow> Inr chunk))"

section \<open>Base64 and UTF-8 are read back\<close>

lemma b64_value_char: "b64_value (b64url_char n) = Some (n mod 64)"
proof -
  have "list_all (\<lambda>i. b64_value (b64url_char i) = Some i) [0..<64]"
    by (simp add: upt_rec b64url_char_def b64url_alphabet_def b64_value_def)
  then have "b64_value (b64url_char (n mod 64)) = Some (n mod 64)" by (simp only: list_all_iff) simp
  then show ?thesis by (simp add: b64url_char_def)
qed

lemma b64url_char_no_pad: "b64url_char n \<noteq> CHR ''=''"
  using b64_value_char [of n] by (auto simp: b64_value_def)

lemma a2b_digits:
  "a2b_loop (b64url_char n # cs) 0 l p = a2b_loop cs (Suc 0) (n mod 64) 0"
  "a2b_loop (b64url_char n # cs) (Suc 0) l p =
     map_option (Cons (word_of_nat (l * 4 + n mod 64 div 16))) (a2b_loop cs 2 (n mod 64 mod 16) 0)"
  "a2b_loop (b64url_char n # cs) 2 l p =
     map_option (Cons (word_of_nat (l * 16 + n mod 64 div 4))) (a2b_loop cs 3 (n mod 64 mod 4) 0)"
  "a2b_loop (b64url_char n # cs) 3 l p = map_option (Cons (word_of_nat (l * 64 + n mod 64))) (a2b_loop cs 0 0 0)"
  by (simp_all add: b64_value_char b64url_char_no_pad)

lemma a2b_end: "a2b_loop ''=='' 2 l 0 = Some []" "a2b_loop ''='' 3 l 0 = Some []"
  by simp_all

lemma group_digits:
  fixes a b c :: nat
  assumes "a < 256" "b < 256" "c < 256"
  defines "n \<equiv> (a * 256 + b) * 256 + c"
  shows "n div 262144 mod 64 = a div 4" and "n div 4096 mod 64 = a mod 4 * 16 + b div 16"
    and "n div 64 mod 64 = b mod 16 * 4 + c div 64" and "n mod 64 = c mod 64"
proof -
  define a1 a2 b1 b2 c1 c2 where a1_def: "a1 = a div 4" and a2_def: "a2 = a mod 4"
    and b1_def: "b1 = b div 16" and b2_def: "b2 = b mod 16" and c1_def: "c1 = c div 64" and c2_def: "c2 = c mod 64"
  have n: "n = a1 * 262144 + (a2 * 65536 + b1 * 4096 + b2 * 256 + c1 * 64 + c2)"
  proof -
    have "a = a1 * 4 + a2" "b = b1 * 16 + b2" "c = c1 * 64 + c2"
      unfolding a1_def a2_def b1_def b2_def c1_def c2_def by simp_all
    then show ?thesis unfolding n_def by (simp only:) (simp add: algebra_simps)
  qed
  have bounds: "a1 < 64" "a2 < 4" "b1 < 16" "b2 < 16" "c1 < 4" "c2 < 64"
    using assms unfolding a1_def a2_def b1_def b2_def c1_def c2_def by simp_all
  show "n div 262144 mod 64 = a div 4"
    unfolding a1_def [symmetric] n using bounds by simp
  have "n div 4096 = a1 * 64 + (a2 * 16 + b1)"
    unfolding n using bounds by (intro div_nat_eqI) simp_all
  then show "n div 4096 mod 64 = a mod 4 * 16 + b div 16"
    unfolding a2_def [symmetric] b1_def [symmetric] using bounds by simp
  have low: "(k * 64 + r) mod 64 = r" if "r < 64" for k r :: nat using that by simp
  have "n div 64 = (a1 * 64 + a2 * 16 + b1) * 64 + (b2 * 4 + c1)"
    unfolding n using bounds by (intro div_nat_eqI) simp_all
  moreover have "b2 * 4 + c1 < 64" using bounds by simp
  ultimately show "n div 64 mod 64 = b mod 16 * 4 + c div 64"
    unfolding b2_def [symmetric] c1_def [symmetric] by (simp only: low)
  have "n = c + 64 * (a * 1024 + b * 4)" by (simp add: n_def)
  then show "n mod 64 = c mod 64" by (simp only: mod_mult_self2)
qed

lemma a2b_encode: "a2b_loop (b64url_encode bs) 0 0 0 = Some bs"
proof (induction bs rule: b64url_encode.induct)
  case (2 a)
  have "unat a div 4 mod 64 = unat a div 4" using unat_byte_less [of a] by simp
  moreover have "unat a * 16 mod 64 = unat a mod 4 * 16" using mod_mult_mult2 [of "unat a" 16 4] by simp
  ultimately show ?case
    by (simp add: Let_def a2b_digits a2b_end del: a2b_loop.simps(2) of_nat_add of_nat_mult)
next
  case (3 a b)
  let ?n = "(unat a * 256 + unat b) * 256 + 0"
  have eq: "(unat a * 256 + unat b) * 4 = ?n div 64" by simp
  have deep: "(unat a * 256 + unat b) * 4 div k = ?n div (64 * k)" for k by (simp only: eq div_mult2_eq)
  note g = group_digits [of "unat a" "unat b" 0, OF unat_byte_less unat_byte_less]
  have "?n div (64 * 4096) mod 64 = unat a div 4" "?n div (64 * 64) mod 64 = unat a mod 4 * 16 + unat b div 16"
    "?n div 64 mod 64 = unat b mod 16 * 4"
    using g(1-3) by simp_all
  then have d: "(unat a * 256 + unat b) * 4 div 4096 mod 64 = unat a div 4"
    "(unat a * 256 + unat b) * 4 div 64 mod 64 = unat a mod 4 * 16 + unat b div 16"
    "(unat a * 256 + unat b) * 4 mod 64 = unat b mod 16 * 4"
    unfolding deep eq [symmetric] by simp_all
  have "unat b div 16 < 16" using unat_byte_less [of b] by simp
  then have "unat a div 4 * 4 + (unat a mod 4 * 16 + unat b div 16) div 16 = unat a"
    "(unat a mod 4 * 16 + unat b div 16) mod 16 * 16 + unat b mod 16 * 4 div 4 = unat b"
    by simp_all
  then show ?case unfolding b64url_encode.simps Let_def a2b_digits d a2b_end by (simp only:) simp
next
  case (4 a b c rest)
  note d = group_digits [OF unat_byte_less [of a] unat_byte_less [of b] unat_byte_less [of c]]
  have "unat b div 16 < 16" "unat c div 64 < 4" using unat_byte_less [of b] unat_byte_less [of c] by simp_all
  then have "unat a div 4 * 4 + (unat a mod 4 * 16 + unat b div 16) div 16 = unat a"
    "(unat a mod 4 * 16 + unat b div 16) mod 16 * 16 + (unat b mod 16 * 4 + unat c div 64) div 4 = unat b"
    "(unat b mod 16 * 4 + unat c div 64) mod 4 * 64 + unat c mod 64 = unat c"
    by simp_all
  then show ?case unfolding b64url_encode.simps Let_def append_Cons append_Nil a2b_digits d 4 [OF refl] by (simp only:) simp
qed simp

lemma utf8_roundtrip: "utf8_decode (utf8_encode s) = Some s"
proof (induction s)
  case (Cons c s)
  let ?n = "of_char c :: nat"
  have n: "?n < 256" by (rule nat_of_char_less_256)
  have enc: "utf8_encode (c # s) = utf8_char c @ utf8_encode s" by (simp add: utf8_encode_def)
  show ?case
  proof (cases "?n < 128")
    case True
    define b :: byte where "b = word_of_nat ?n"
    have "unat b = ?n" using n by (simp add: b_def unat_word_of_nat_byte)
    moreover have "utf8_char c = [b]" using True by (simp add: utf8_char_def Let_def b_def)
    ultimately show ?thesis using True Cons unfolding enc by simp
  next
    case False
    define b d :: byte where "b = word_of_nat (192 + ?n div 64)" and "d = word_of_nat (128 + ?n mod 64)"
    have "?n div 64 < 4" by (rule less_mult_imp_div_less) (use n in simp)
    then have small: "192 + ?n div 64 < 256" "128 + ?n mod 64 < 256" by simp_all
    have b: "unat b = 192 + ?n div 64" unfolding b_def unat_word_of_nat_byte using small(1) by simp
    have d: "unat d = 128 + ?n mod 64" unfolding d_def unat_word_of_nat_byte using small(2) by simp
    have "2 \<le> ?n div 64" using div_le_mono [of 128 ?n 64] False by simp
    with \<open>?n div 64 < 4\<close> have "?n div 64 \<in> {2, 3}" by auto
    then have "unat b \<in> {194, 195}" "\<not> unat b < 128" using b by auto
    moreover have "128 \<le> unat d \<and> unat d < 192" using d by simp
    moreover have "(unat b - 192) * 64 + (unat d - 128) = ?n" unfolding b d by simp
    moreover have "utf8_char c = [b, d]" using False by (simp add: utf8_char_def Let_def b_def d_def)
    ultimately show ?thesis using Cons unfolding enc by simp
  qed
qed (simp add: utf8_encode_def)

text \<open>An encoded text is a core of digits and at most two characters of padding.\<close>

definition b64_shape :: "string \<Rightarrow> string \<Rightarrow> nat \<Rightarrow> bool" where
  "b64_shape text core k \<longleftrightarrow>
     text = core @ replicate k (CHR ''='') \<and> k \<le> 2 \<and> list_all (\<lambda>c. b64_value c \<noteq> None) core \<and>
     (length core + k) mod 4 = 0"

lemma b64url_encode_shape: "\<exists>core k. b64_shape (b64url_encode bs) core k \<and> (bs \<noteq> [] \<longrightarrow> core \<noteq> [])"
proof (induction bs rule: b64url_encode.induct)
  case 1
  have "b64_shape (b64url_encode []) [] 0" by (simp add: b64_shape_def)
  then show ?case by blast
next
  case (2 a)
  have "b64_shape (b64url_encode [a]) [b64url_char (unat a * 16 div 64), b64url_char (unat a * 16)] (Suc (Suc 0))"
    by (simp add: Let_def b64_value_char b64_shape_def)
  then show ?case by blast
next
  case (3 a b)
  let ?n = "(unat a * 256 + unat b) * 4"
  have "b64_shape (b64url_encode [a, b]) [b64url_char (?n div 4096), b64url_char (?n div 64), b64url_char ?n] 1"
    by (simp add: Let_def b64_value_char b64_shape_def)
  then show ?case by blast
next
  case (4 a b c rest)
  let ?n = "(unat a * 256 + unat b) * 256 + unat c"
  from 4 [OF refl] obtain core k where "b64_shape (b64url_encode rest) core k" by blast
  then have "b64_shape (b64url_encode (a # b # c # rest)) (b64url_char (?n div 262144) # b64url_char (?n div 4096) #
      b64url_char (?n div 64) # b64url_char ?n # core) k"
    by (simp add: Let_def b64_value_char b64_shape_def)
  then show ?case by blast
qed

lemma b64_value_plain:
  assumes "b64_value c = Some v"
  shows "c \<noteq> CHR ''='' \<and> \<not> py_isspace c \<and> (of_char c :: nat) < 128"
proof -
  define n where "n = (of_char c :: nat)"
  have "33 \<le> n \<and> n \<noteq> 61 \<and> n < 128"
  proof (cases "c = CHR ''-'' \<or> c = CHR ''+'' \<or> c = CHR ''_'' \<or> c = CHR ''/''")
    case True
    then show ?thesis by (elim disjE) (simp_all add: n_def)
  next
    case False
    with assms show ?thesis by (simp add: b64_value_def Let_def n_def [symmetric] split: if_splits)
  qed
  moreover have "c \<noteq> CHR ''=''" if "n \<noteq> 61" using that by (auto simp: n_def)
  moreover have "\<not> py_isspace c" if "33 \<le> n" "n < 128"
    unfolding py_isspace_def Let_def n_def [symmetric] using that by simp
  ultimately show ?thesis unfolding n_def [symmetric] by blast
qed

lemma dropWhile_replicate: "p d \<Longrightarrow> dropWhile p (replicate k d @ xs) = dropWhile p xs"
  by (induction k) simp_all

lemma rstrip_core:
  assumes "\<forall>c\<in>set core. \<not> p c" and "p d"
  shows "rstrip_by p (core @ replicate k d) = core"
proof -
  have "dropWhile p (rev core) = rev core" using assms(1) by (cases core rule: rev_cases) simp_all
  with assms(2) show ?thesis by (simp add: rstrip_by_def dropWhile_replicate)
qed

lemma base64url_roundtrip:
  assumes "bs \<noteq> []"
  shows "base64url_decode (b64url_encode_unpadded bs) = Inr bs"
    and "py_strip (b64url_encode_unpadded bs) = b64url_encode_unpadded bs" and "b64url_encode_unpadded bs \<noteq> []"
proof -
  from b64url_encode_shape [of bs] assms obtain core k where
    shape: "b64_shape (b64url_encode bs) core k" and ne: "core \<noteq> []" by blast
  then have enc: "b64url_encode bs = core @ replicate k (CHR ''='')" and k: "k \<le> 2" "(length core + k) mod 4 = 0"
    by (simp_all add: b64_shape_def)
  have plain: "\<forall>c\<in>set core. c \<noteq> CHR ''='' \<and> \<not> py_isspace c \<and> (of_char c :: nat) < 128"
    using shape by (auto simp: b64_shape_def list_all_iff dest: b64_value_plain)
  have unp: "b64url_encode_unpadded bs = core"
    unfolding b64url_encode_unpadded_def enc by (rule rstrip_core) (use plain in simp_all)
  have strip: "py_strip core = core"
    using ne plain hd_in_set [OF ne] last_in_set [OF ne] by (intro strip_by_id) simp
  show "py_strip (b64url_encode_unpadded bs) = b64url_encode_unpadded bs" "b64url_encode_unpadded bs \<noteq> []"
    using strip ne by (simp_all add: unp)
  have pad: "(4 - length core mod 4) mod 4 = k"
  proof -
    define r where "r = length core mod 4"
    have r: "r < 4" by (simp add: r_def)
    have "4 dvd r + k" using k(2) by (simp add: r_def mod_add_left_eq mod_eq_0_iff_dvd [symmetric])
    then obtain m where m: "r + k = 4 * m" by (rule dvdE)
    with r k(1) have "m < 2" by simp
    then have "m = 0 \<or> m = 1" by auto
    with m have "r = 0 \<and> k = 0 \<or> 4 - r = k" by auto
    then have "(4 - r) mod 4 = k" using k(1) by (elim disjE) simp_all
    then show ?thesis by (simp only: r_def)
  qed
  have "encode_ascii (b64url_encode bs) \<noteq> None"
  proof -
    define e where "e = CHR ''=''"
    have "(of_char e :: nat) < 128" by (simp add: e_def)
    moreover have "set (b64url_encode bs) \<subseteq> insert e (set core)"
      unfolding enc e_def [symmetric] by (auto simp: set_replicate_conv_if)
    ultimately have "\<forall>c\<in>set (b64url_encode bs). (of_char c :: nat) < 128"
      using plain unfolding e_def [symmetric] by blast
    then show ?thesis unfolding encode_ascii_None_iff by (meson not_le)
  qed
  then obtain x where "encode_ascii (b64url_encode bs) = Some x" by blast
  then show "base64url_decode (b64url_encode_unpadded bs) = Inr bs"
    using ne a2b_encode [of bs] unfolding base64url_decode_def unp strip Let_def pad enc [symmetric] by simp
qed

section \<open>Payloads and chunks are read back\<close>

text \<open>
  What is documented of AES-GCM with a tag of 16 bytes: a message that was encrypted under a key and a
  nonce is decrypted under them to what it was.
\<close>

definition aead_ok :: "aead \<Rightarrow> bool" where
  "aead_ok ae \<longleftrightarrow>
     (\<forall>key nonce m. ae_decrypt ae key nonce (ae_encrypt ae key nonce m) = Some m \<and>
        length (ae_encrypt ae key nonce m) = length m + MOBILE_ENCRYPTED_BINARY_TAG_BYTES)"

definition locators_ok :: "(string \<times> string) list \<Rightarrow> bool" where
  "locators_ok fs \<longleftrightarrow>
     (\<forall>(name, v)\<in>set fs. py_strip name \<noteq> [] \<and> py_strip v \<noteq> [] \<and>
        name \<notin> {''schema'', ''nonce'', ''ciphertext''})"

lemma add_locators_ok:
  assumes "locators_ok fs"
  shows "\<exists>p'. add_locator_fields fs p = Inr p' \<and>
    (\<forall>k\<in>{''schema'', ''nonce'', ''ciphertext''}. dict_get p' k = dict_get p k)"
  using assms
proof (induction fs arbitrary: p)
  case (Cons f fs)
  obtain name v where f: "f = (name, v)" by (cases f)
  have "locators_ok fs" using Cons.prems by (simp add: locators_ok_def)
  from Cons.IH [OF this, of "dict_set p name (JStr (py_strip v))"] Cons.prems
  show ?case by (auto simp: locators_ok_def f)
qed simp

lemma dict_get_3:
  "dict_get [(''schema'', a), (''nonce'', b), (''ciphertext'', c)] ''schema'' = Some a"
  "dict_get [(''schema'', a), (''nonce'', b), (''ciphertext'', c)] ''nonce'' = Some b"
  "dict_get [(''schema'', a), (''nonce'', b), (''ciphertext'', c)] ''ciphertext'' = Some c"
  by (simp_all add: dict_get_def)

lemma decode_field_roundtrip:
  assumes "dict_get p f = Some (JStr (b64url_encode_unpadded bs))" and "bs \<noteq> []"
  shows "decode_required_base64url_field p f = Inr bs"
  using assms base64url_roundtrip [OF assms(2)] by (simp add: decode_required_base64url_field_def)

lemma encrypted_payload_decrypts:
  assumes ae: "aead_ok ae" and p: "json_ok (JObj p)" and key: "py_strip trust_key \<noteq> []"
    and nonce: "length nonce = MOBILE_ENCRYPTED_BINARY_NONCE_BYTES" and fs: "locators_ok fs"
  shows "\<exists>e. encrypt_mobile_json_payload ae sha256 nonce p trust_key fs = Inr e \<and>
    is_mobile_encrypted_payload e \<and>
    (\<exists>q. decrypt_mobile_json_payload ae sha256 e trust_key = Inr q \<and> JObj q = json_sorted (JObj p))"
proof -
  let ?key = "sha256 (utf8_encode (MOBILE_ENCRYPTION_KEY_DERIVATION_CONTEXT @ newline_sep @ py_strip trust_key))"
  let ?c = "ae_encrypt ae ?key nonce (utf8_encode (json_dumps False (JObj p)))"
  have k: "derive_mobile_encryption_key sha256 trust_key = Inr ?key"
    using key by (simp add: derive_mobile_encryption_key_def)
  have ne: "nonce \<noteq> []" "?c \<noteq> []"
    using nonce ae by (auto simp: MOBILE_ENCRYPTED_BINARY_NONCE_BYTES_def aead_ok_def MOBILE_ENCRYPTED_BINARY_TAG_BYTES_def
        simp flip: length_greater_0_conv)
  let ?p0 = "[(''schema'', JStr MOBILE_ENCRYPTION_SCHEMA), (''nonce'', JStr (b64url_encode_unpadded nonce)),
    (''ciphertext'', JStr (b64url_encode_unpadded ?c))]"
  from add_locators_ok [OF fs, of ?p0] obtain e where e: "add_locator_fields fs ?p0 = Inr e"
    and keep: "\<forall>k\<in>{''schema'', ''nonce'', ''ciphertext''}. dict_get e k = dict_get ?p0 k" by blast
  have get: "dict_get e ''schema'' = Some (JStr MOBILE_ENCRYPTION_SCHEMA)"
    "dict_get e ''nonce'' = Some (JStr (b64url_encode_unpadded nonce))"
    "dict_get e ''ciphertext'' = Some (JStr (b64url_encode_unpadded ?c))"
    using keep by (simp_all add: dict_get_3)
  have enc: "encrypt_mobile_json_payload ae sha256 nonce p trust_key fs = Inr e"
    using e by (simp add: encrypt_mobile_json_payload_def k)
  have schema: "is_mobile_encrypted_payload e" using get by (simp add: is_mobile_encrypted_payload_def)
  obtain q where q: "json_sorted (JObj p) = JObj q" by simp
  have "decrypt_mobile_json_payload ae sha256 e trust_key = Inr q"
    using schema nonce ae json_roundtrip [OF p] decode_field_roundtrip [OF get(2) ne(1)] decode_field_roundtrip [OF get(3) ne(2)]
    by (simp add: decrypt_mobile_json_payload_def k aead_ok_def utf8_roundtrip q del: json_dumps.simps json_sorted.simps)
  with enc schema q show ?thesis by metis
qed

text \<open>
  An encrypted payload is read back: whatever object of texts, integers, booleans, lists and
  objects the desktop sends, the payload it encrypts under a trust key is marked as encrypted, and is
  decrypted under the same key to the same object with its keys in order.
\<close>
theorem encrypted_payload_roundtrip:
  assumes "aead_ok ae" and "json_ok (JObj p)" and "py_strip trust_key \<noteq> []"
    and "length nonce = MOBILE_ENCRYPTED_BINARY_NONCE_BYTES" and "locators_ok fs"
  shows "\<exists>e. encrypt_mobile_json_payload ae sha256 nonce p trust_key fs = Inr e \<and>
    is_mobile_encrypted_payload e \<and>
    (\<exists>q. decrypt_mobile_json_payload ae sha256 e trust_key = Inr q \<and> JObj q = json_sorted (JObj p))"
  using assms by (rule encrypted_payload_decrypts)

text \<open>
  An encrypted chunk is read back: a binary chunk that is framed with its version and nonce and
  encrypted under a trust key is accepted and decrypted under the same key to the same bytes.
\<close>
theorem binary_chunk_roundtrip:
  assumes "aead_ok ae" and "py_strip trust_key \<noteq> []" and "length nonce = MOBILE_ENCRYPTED_BINARY_NONCE_BYTES"
  shows "\<exists>e. encrypt_mobile_binary_chunk ae sha256 nonce chunk trust_key = Inr e \<and>
    length e = length chunk + MOBILE_ENCRYPTED_BINARY_CHUNK_OVERHEAD_BYTES \<and>
    decrypt_mobile_binary_chunk ae sha256 e trust_key = Inr chunk"
  using assms
  by (simp add: encrypt_mobile_binary_chunk_def decrypt_mobile_binary_chunk_def derive_mobile_encryption_key_def
      MOBILE_ENCRYPTED_BINARY_CHUNK_OVERHEAD_BYTES_def aead_ok_def Let_def)

text \<open>A cipher that fulfils the hypotheses: the message with sixteen zeros.\<close>

definition plain_aead :: aead where
  "plain_aead = \<lparr>ae_encrypt = (\<lambda>_ _ m. m @ replicate 16 0),
     ae_decrypt = (\<lambda>_ _ c. if length c < 16 then None else Some (take (length c - 16) c))\<rparr>"

lemma plain_aead_ok: "aead_ok plain_aead"
  by (simp add: aead_ok_def plain_aead_def MOBILE_ENCRYPTED_BINARY_TAG_BYTES_def)

lemma encrypted_payload_roundtrip_witness:
  "\<exists>e q. encrypt_mobile_json_payload plain_aead (\<lambda>_. [1]) (replicate 12 7) [(''b'', JInt 3), (''a'', JNull)] ''k''
      [(''session_id'', ''s1'')] = Inr e \<and>
    decrypt_mobile_json_payload plain_aead (\<lambda>_. [1]) e ''k'' = Inr q \<and> JObj q = JObj [(''a'', JNull), (''b'', JInt 3)]"
proof -
  have "py_strip ''k'' = ''k''" "py_strip ''session_id'' = ''session_id''" "py_strip ''s1'' = ''s1''" by code_simp+
  then have "locators_ok [(''session_id'', ''s1'')]" "py_strip ''k'' \<noteq> []" by (simp_all add: locators_ok_def)
  moreover have "json_ok (JObj [(''b'', JInt 3), (''a'', JNull)])" by (simp add: dict_ok_def dict_keys_def)
  moreover have "json_sorted (JObj [(''b'', JInt 3), (''a'', JNull)]) = JObj [(''a'', JNull), (''b'', JInt 3)]"
    by code_simp
  ultimately show ?thesis
    using encrypted_payload_roundtrip [OF plain_aead_ok, of "[(''b'', JInt 3), (''a'', JNull)]" "''k''" "replicate 12 7"
        "[(''session_id'', ''s1'')]" "\<lambda>_. [1]"]
    by (auto simp: MOBILE_ENCRYPTED_BINARY_NONCE_BYTES_def)
qed

lemma binary_chunk_roundtrip_witness:
  "\<exists>e. encrypt_mobile_binary_chunk plain_aead (\<lambda>_. [1]) (replicate 12 7) [1, 2, 3] ''k'' = Inr e \<and>
     decrypt_mobile_binary_chunk plain_aead (\<lambda>_. [1]) e ''k'' = Inr [1, 2, 3]"
proof -
  have "py_strip ''k'' = ''k''" by code_simp
  then show ?thesis
    using binary_chunk_roundtrip [OF plain_aead_ok, of "''k''" "replicate 12 7" "\<lambda>_. [1]" "[1, 2, 3]"]
    by (auto simp: MOBILE_ENCRYPTED_BINARY_NONCE_BYTES_def)
qed

end
