(* ===== verification/MobileServices.thy ===== *)
theory MobileServices
  imports PairingStore PairingSession
begin

text \<open>
  The two small services behind the pairing: the exchange of capabilities
  (\<^verbatim>\<open>dt_image_search/mobile/mobile_capability_exchange_service.py\<close>) and the prompt to update the
  desktop (\<^verbatim>\<open>dt_image_search/mobile/mobile_update_prompt_service.py\<close>).  Both answer only a
  phone that proves its trust key.  The exception of a proof that is not ASCII leaves the handlers;
  log messages are left out.
\<close>

type_synonym service_answer = "(int \<times> payload) res"

text \<open>The text fields that both parsers require, stripped, in the order in which they are checked.\<close>

definition SERVICE_REQUIRED_FIELDS :: "string list" where
  "SERVICE_REQUIRED_FIELDS = [''schema'', ''session_id'', ''device_uuid'', ''trust_proof'']"

definition stripped_field :: "payload \<Rightarrow> string \<Rightarrow> string option" where
  "stripped_field p f =
     (case dict_get p f of Some (JStr s) \<Rightarrow> if py_strip s = [] then None else Some (py_strip s) | _ \<Rightarrow> None)"

definition require_service_field :: "string \<Rightarrow> payload \<Rightarrow> string \<Rightarrow> string res" where
  "require_service_field message p f =
     (case stripped_field p f of
        None \<Rightarrow> Inl (ValueError (message @ quoted f @ ''.''))
      | Some s \<Rightarrow> Inr s)"

text \<open>The session of the phone with its trust key, and its proof.\<close>

definition service_authorized ::
    "(byte list \<Rightarrow> byte list \<Rightarrow> byte list) \<Rightarrow> app_db \<Rightarrow> string \<Rightarrow> string \<Rightarrow> string \<Rightarrow> string \<Rightarrow> string \<Rightarrow> bool res" where
  "service_authorized hmac db purpose schema session_id device_uuid trust_proof =
     (case get_mobile_transfer_context db session_id device_uuid of
        None \<Rightarrow> Inr False
      | Some c \<Rightarrow> is_valid_trust_proof hmac (tc_trust_key_b64 c) purpose schema session_id device_uuid trust_proof)"

section \<open>Capabilities\<close>

definition MOBILE_CAPABILITY_EXCHANGE_SCHEMA :: string where
  "MOBILE_CAPABILITY_EXCHANGE_SCHEMA = ''dtis.mobile-capabilities.v1''"
definition MOBILE_CAPABILITY_EXCHANGE_PROOF_PURPOSE :: string where
  "MOBILE_CAPABILITY_EXCHANGE_PROOF_PURPOSE = ''capabilities.exchange''"

record capability_request =
  cq_schema :: string
  cq_session_id :: string
  cq_device_uuid :: string
  cq_trust_proof :: string
  cq_capabilities :: "(string, int) dict"

definition capability_flag :: "string \<Rightarrow> json \<Rightarrow> int res" where
  "capability_flag name v =
     (case v of
        JBool b \<Rightarrow> Inr (if b then 1 else 0)
      | JInt i \<Rightarrow>
          if i \<in> {0, 1} then Inr i
          else Inl (ValueError (''The capability exchange request contains unsupported value ''
                 @ quoted (str_int i) @ '' for capability '' @ quoted name @ ''.''))
      | _ \<Rightarrow> Inl (ValueError (''The capability exchange request contains a non-integer value for capability ''
               @ quoted name @ ''.'')))"

fun normalize_capability_flags :: "(string \<times> json) list \<Rightarrow> (string, int) dict \<Rightarrow> (string, int) dict res" where
  "normalize_capability_flags [] flags = Inr flags"
| "normalize_capability_flags ((raw_name, v) # rest) flags =
     (let name = py_strip raw_name
      in if name = []
         then Inl (ValueError ''The capability exchange request contains an empty capability key.'')
         else bindE (capability_flag name v) (\<lambda>flag.
                normalize_capability_flags rest (if flag = 1 then dict_set flags name 1 else flags)))"

definition parse_capability_exchange_request :: "payload \<Rightarrow> capability_request res" where
  "parse_capability_exchange_request p =
     (let missing = ''The capability exchange request is missing the required field ''
      in bindE (mapE (require_service_field missing p) SERVICE_REQUIRED_FIELDS) (\<lambda>fs.
         bindE (case dict_get p ''capabilities'' of
                  None \<Rightarrow> Inr []
                | Some (JObj c) \<Rightarrow> Inr c
                | _ \<Rightarrow> Inl (ValueError (''The capability exchange request field '' @ quoted ''capabilities''
                         @ '' must be a JSON object.''))) (\<lambda>raw.
         bindE (normalize_capability_flags raw []) (\<lambda>flags.
           Inr \<lparr>cq_schema = fs ! 0, cq_session_id = fs ! 1, cq_device_uuid = fs ! 2, cq_trust_proof = fs ! 3,
                cq_capabilities = flags\<rparr>))))"

definition capability_response ::
    "int \<Rightarrow> string \<Rightarrow> string \<Rightarrow> string option \<Rightarrow> string option \<Rightarrow> (string, int) dict \<Rightarrow> int \<times> payload" where
  "capability_response status_code status message session_id device_uuid capabilities =
     (status_code,
      [(''schema'', JStr MOBILE_CAPABILITY_EXCHANGE_SCHEMA), (''status'', JStr status), (''message'', JStr message),
       (''capabilities'', JObj (map (\<lambda>(k, v). (k, JInt v)) capabilities))]
      @ (case session_id of None \<Rightarrow> [] | Some s \<Rightarrow> [(''session_id'', JStr s)])
      @ (case device_uuid of None \<Rightarrow> [] | Some u \<Rightarrow> [(''device_uuid'', JStr u)]))"

definition capability_rejected :: "int \<Rightarrow> string \<Rightarrow> int \<times> payload" where
  "capability_rejected status_code message = capability_response status_code ''rejected'' message None None []"

definition handle_exchange_request ::
    "(byte list \<Rightarrow> byte list \<Rightarrow> byte list) \<Rightarrow> (string, int) dict \<Rightarrow> app_db \<Rightarrow> payload \<Rightarrow> service_answer" where
  "handle_exchange_request hmac desktop_flags db p =
     (case parse_capability_exchange_request p of
        Inl (ValueError m) \<Rightarrow> Inr (capability_rejected 400 m)
      | Inl e \<Rightarrow> Inl e
      | Inr r \<Rightarrow>
          if cq_schema r \<noteq> MOBILE_CAPABILITY_EXCHANGE_SCHEMA
          then Inr (capability_rejected 400 ''The capability exchange request schema version is unsupported.'')
          else bindE (service_authorized hmac db MOBILE_CAPABILITY_EXCHANGE_PROOF_PURPOSE (cq_schema r)
                        (cq_session_id r) (cq_device_uuid r) (cq_trust_proof r)) (\<lambda>valid.
                 Inr (if \<not> valid
                      then capability_rejected 403 ''Desktop rejected the capability exchange request.''
                      else capability_response 200 ''accepted'' ''Desktop completed capability exchange.''
                             (Some (cq_session_id r)) (Some (cq_device_uuid r)) desktop_flags)))"

section \<open>The update prompt\<close>

definition MOBILE_UPDATE_PROMPT_SCHEMA :: string where
  "MOBILE_UPDATE_PROMPT_SCHEMA = ''dtis.mobile-update.v1''"
definition MOBILE_UPDATE_PROMPT_PROOF_PURPOSE :: string where
  "MOBILE_UPDATE_PROMPT_PROOF_PURPOSE = ''update.prompt''"

record update_prompt_request =
  uq_schema :: string
  uq_session_id :: string
  uq_device_uuid :: string
  uq_trust_proof :: string
  uq_required :: bool
  uq_body_text :: "string option"
  uq_update_destination :: "string option"

definition normalize_optional_text :: "payload \<Rightarrow> string \<Rightarrow> string option res" where
  "normalize_optional_text p f =
     (case dict_get p f of
        None \<Rightarrow> Inr None
      | Some JNull \<Rightarrow> Inr None
      | Some (JStr s) \<Rightarrow> Inr (if py_strip s = [] then None else Some (py_strip s))
      | _ \<Rightarrow> Inl (ValueError (''The update prompt request field '' @ quoted f @ '' must be a string.'')))"

text \<open>
  \<^verbatim>\<open>urlparse\<close>: there is a scheme when \<open>drop_scheme\<close> takes one off.  The text of an error about an
  address in brackets is the one of \<open>url_netloc\<close>.
\<close>

definition validate_destination :: "(string \<Rightarrow> bool) \<Rightarrow> string \<Rightarrow> unit res" where
  "validate_destination bracket_ok destination =
     bindE (url_netloc bracket_ok destination) (\<lambda>netloc.
       if drop_scheme (url_clean destination) = url_clean destination \<or> netloc = []
       then Inl (ValueError (''The update prompt request field '' @ quoted ''update_destination''
              @ '' must be a valid absolute URL.''))
       else Inr ())"

definition parse_update_prompt_request :: "(string \<Rightarrow> bool) \<Rightarrow> payload \<Rightarrow> update_prompt_request res" where
  "parse_update_prompt_request bracket_ok p =
     (let missing = ''The update prompt request is missing the required field ''
      in bindE (mapE (require_service_field missing p) SERVICE_REQUIRED_FIELDS) (\<lambda>fs.
         case dict_get p ''required'' of
           Some (JBool required) \<Rightarrow>
             bindE (normalize_optional_text p ''body_text'') (\<lambda>body_text.
             bindE (normalize_optional_text p ''update_destination'') (\<lambda>destination.
             bindE (case destination of None \<Rightarrow> Inr () | Some d \<Rightarrow> validate_destination bracket_ok d) (\<lambda>_.
               Inr \<lparr>uq_schema = fs ! 0, uq_session_id = fs ! 1, uq_device_uuid = fs ! 2, uq_trust_proof = fs ! 3,
                    uq_required = required, uq_body_text = body_text, uq_update_destination = destination\<rparr>)))
         | _ \<Rightarrow> Inl (ValueError (''The update prompt request field '' @ quoted ''required'' @ '' must be a boolean.''))))"

definition update_prompt_response ::
    "int \<Rightarrow> string \<Rightarrow> string \<Rightarrow> string option \<Rightarrow> string option \<Rightarrow> bool option \<Rightarrow> int \<times> payload" where
  "update_prompt_response status_code status message session_id device_uuid required =
     (status_code,
      [(''schema'', JStr MOBILE_UPDATE_PROMPT_SCHEMA), (''status'', JStr status), (''message'', JStr message)]
      @ (case session_id of None \<Rightarrow> [] | Some s \<Rightarrow> [(''session_id'', JStr s)])
      @ (case device_uuid of None \<Rightarrow> [] | Some u \<Rightarrow> [(''device_uuid'', JStr u)])
      @ (case required of None \<Rightarrow> [] | Some b \<Rightarrow> [(''required'', JBool b)]))"

definition update_rejected :: "int \<Rightarrow> string \<Rightarrow> int \<times> payload" where
  "update_rejected status_code message = update_prompt_response status_code ''rejected'' message None None None"

text \<open>\<open>prompts\<close> are the requests that have been published on the bus of the application, in order.\<close>

definition handle_prompt_request ::
    "(byte list \<Rightarrow> byte list \<Rightarrow> byte list) \<Rightarrow> (string \<Rightarrow> bool) \<Rightarrow> app_db \<Rightarrow> payload \<Rightarrow> update_prompt_request list
     \<Rightarrow> update_prompt_request list \<times> service_answer" where
  "handle_prompt_request hmac bracket_ok db p prompts =
     (case parse_update_prompt_request bracket_ok p of
        Inl (ValueError m) \<Rightarrow> (prompts, Inr (update_rejected 400 m))
      | Inl e \<Rightarrow> (prompts, Inl e)
      | Inr r \<Rightarrow>
          if uq_schema r \<noteq> MOBILE_UPDATE_PROMPT_SCHEMA
          then (prompts, Inr (update_rejected 400 ''The update prompt request schema version is unsupported.''))
          else (case service_authorized hmac db MOBILE_UPDATE_PROMPT_PROOF_PURPOSE (uq_schema r)
                        (uq_session_id r) (uq_device_uuid r) (uq_trust_proof r) of
                  Inl e \<Rightarrow> (prompts, Inl e)
                | Inr False \<Rightarrow> (prompts, Inr (update_rejected 403 ''Desktop rejected the update prompt request.''))
                | Inr True \<Rightarrow>
                    (prompts @ [r],
                     Inr (update_prompt_response 200 ''accepted'' ''Desktop accepted the update prompt request.''
                            (Some (uq_session_id r)) (Some (uq_device_uuid r)) (Some (uq_required r))))))"

section \<open>Only a proof is answered\<close>

lemma service_authorized_iff:
  "service_authorized hmac db purpose schema sid u proof = Inr True \<longleftrightarrow>
     (\<exists>c. get_mobile_transfer_context db sid u = Some c \<and>
        proof = derive_trust_proof_b64 hmac (tc_trust_key_b64 c) purpose schema sid u)"
proof -
  have ascii: "encode_ascii (derive_trust_proof_b64 hmac k purpose schema sid u) \<noteq> None" for k
    unfolding derive_trust_proof_b64_def by (rule derived_proof_ascii)
  have "is_valid_trust_proof hmac k purpose schema sid u proof = Inr True \<longleftrightarrow>
      proof = derive_trust_proof_b64 hmac k purpose schema sid u" for k
  proof (cases "encode_ascii proof = None")
    case True
    then have "proof \<noteq> derive_trust_proof_b64 hmac k purpose schema sid u" using ascii by blast
    with True show ?thesis by (simp add: is_valid_trust_proof_cases)
  next
    case False
    then show ?thesis by (simp add: is_valid_trust_proof_cases eq_commute)
  qed
  then show ?thesis by (simp add: service_authorized_def split: option.split)
qed

text \<open>
  The desktop is asked to update only by a paired phone: a prompt reaches the bus exactly when
  the request is well formed, has the schema of the protocol, and carries the proof that is derived
  from the trust key of the session and phone it names; it is published once, at the end, and every
  other request publishes nothing.
\<close>
theorem prompts_need_proof:
  "fst (handle_prompt_request hmac bracket_ok db p prompts) =
     prompts @ (case parse_update_prompt_request bracket_ok p of
        Inl _ \<Rightarrow> []
      | Inr r \<Rightarrow> if uq_schema r = MOBILE_UPDATE_PROMPT_SCHEMA \<and>
                      (\<exists>c. get_mobile_transfer_context db (uq_session_id r) (uq_device_uuid r) = Some c \<and>
                         uq_trust_proof r = derive_trust_proof_b64 hmac (tc_trust_key_b64 c)
                           MOBILE_UPDATE_PROMPT_PROOF_PURPOSE (uq_schema r) (uq_session_id r) (uq_device_uuid r))
                   then [r] else [])"
  unfolding service_authorized_iff [symmetric]
  by (auto simp: handle_prompt_request_def split: sum.splits pyexn.splits bool.splits)

section \<open>Capability flags\<close>

definition flags_ok :: "(string, int) dict \<Rightarrow> bool" where
  "flags_ok fs \<longleftrightarrow> dict_ok fs \<and> (\<forall>(k, v)\<in>set fs. k \<noteq> [] \<and> py_strip k = k \<and> v = 1)"

lemma dict_set_member: "x \<in> set (dict_set d k v) \<Longrightarrow> x = (k, v) \<or> x \<in> set d"
  by (induction d k v rule: dict_set.induct) (auto split: if_splits)

lemma normalized_flags: "normalize_capability_flags raw flags = Inr fs \<Longrightarrow> flags_ok flags \<Longrightarrow> flags_ok fs"
proof (induction raw flags rule: normalize_capability_flags.induct)
  case (2 raw_name v rest flags)
  then obtain flag where flag: "py_strip raw_name \<noteq> []" "capability_flag (py_strip raw_name) v = Inr flag"
    "normalize_capability_flags rest (if flag = 1 then dict_set flags (py_strip raw_name) 1 else flags) = Inr fs"
    by (auto simp: Let_def exn_simps split: if_splits)
  have "flags_ok (if flag = 1 then dict_set flags (py_strip raw_name) 1 else flags)"
    using 2(3) flag(1) by (auto simp: flags_ok_def strip_by_idem dest: dict_set_member)
  with 2(1) [OF refl flag] show ?case by blast
qed simp

lemma normalize_flags_ok:
  assumes "\<forall>(k, v)\<in>set fs. k \<noteq> [] \<and> py_strip k = k \<and> v = (1 :: int)" and "dict_ok (acc @ fs)"
  shows "normalize_capability_flags (map (\<lambda>(k, v). (k, JInt v)) fs) acc = Inr (acc @ fs)"
  using assms
proof (induction fs arbitrary: acc)
  case (Cons f fs)
  obtain k v where f: "f = (k, v)" by (cases f)
  have fresh: "k \<notin> fst ` set acc" using Cons.prems(2) f by (auto simp: dict_ok_def dict_keys_def)
  have "dict_set acc k 1 = acc @ [(k, 1)]" using fresh by (induction acc) auto
  then show ?case using Cons.IH [of "acc @ [(k, 1)]"] Cons.prems f by (simp add: capability_flag_def)
qed simp

text \<open>
  The capabilities that are exchanged are a set of named flags: what is read from a phone has
  distinct names without spaces around them, each with the value 1, and reading it again gives the
  same flags; whatever else a phone sends is refused.
\<close>
theorem capability_flags_normal:
  assumes "normalize_capability_flags raw [] = Inr fs"
  shows "dict_ok fs \<and> (\<forall>(k, v)\<in>set fs. k \<noteq> [] \<and> py_strip k = k \<and> v = 1) \<and>
    normalize_capability_flags (map (\<lambda>(k, v). (k, JInt v)) fs) [] = Inr fs"
proof -
  have "flags_ok fs" using normalized_flags [OF assms] by (simp add: flags_ok_def)
  then have ok: "dict_ok fs" "\<forall>(k, v)\<in>set fs. k \<noteq> [] \<and> py_strip k = k \<and> v = 1"
    unfolding flags_ok_def by blast+
  from normalize_flags_ok [OF ok(2), of "[]"] ok show ?thesis by simp
qed

lemma capability_flags_normal_witness:
  "normalize_capability_flags [('' aoa '', JBool True), (''encryption'', JInt 0)] [] = Inr [(''aoa'', 1)] \<and>
   normalize_capability_flags (map (\<lambda>(k, v). (k, JInt v)) [(''aoa'', 1)]) [] = Inr [(''aoa'', 1)]"
proof -
  have run: "normalize_capability_flags [('' aoa '', JBool True), (''encryption'', JInt 0)] [] = Inr [(''aoa'', 1)]"
    by code_simp
  with capability_flags_normal [OF run] show ?thesis by blast
qed

end
