(* ===== verification/PairingGateway.thy ===== *)
theory PairingGateway
  imports PairingService PayloadEncryption MobileServices TransferService
begin

text \<open>
  The part of \<^verbatim>\<open>MobilePairingService\<close> that the transports call: the router
  (\<^verbatim>\<open>dt_image_search/mobile/transport/router.py\<close>), the handler of every operation, the
  decryption of requests and the encryption of responses, and the transport that each session was
  last seen on.  It joins the pairing service, the transfer service and the two small services over
  one database and one file system.
\<close>

section \<open>State and environment\<close>

record gateway_world =
  gw_pairing :: pairing_world
  gw_events :: "bus_event list"
  gw_prompts :: "update_prompt_request list"

record gateway_env =
  ge_pairing :: pairing_env
  ge_transfer :: transfer_env
  ge_aead :: aead
  ge_nonce :: "byte list"
  ge_flags :: "(string, int) dict"

text \<open>\<^verbatim>\<open>TransferAssetUploadPayload\<close>; the stream of the body is what it yields when it is read.\<close>

record upload_request =
  up_metadata :: payload
  up_body :: "body_blocks option"
  up_content_length :: int
  up_temp_file_path :: "ppath option"
  up_content_sha1 :: "string option"
  up_trust_key_b64 :: "string option"

text \<open>The payload of a request: a JSON object, an upload, or something else.\<close>

datatype transport_payload = ObjectPayload payload | UploadPayload upload_request | OtherPayload

record transport_request =
  rq_operation :: string
  rq_payload :: transport_payload
  rq_transport :: transport_kind

type_synonym gateway_answer = "gateway_world \<times> http_response res"

definition transfer_view :: "gateway_world \<Rightarrow> transfer_world" where
  "transfer_view g = \<lparr>tw_db = pv_db (gw_pairing g), tw_fs = pv_fs (gw_pairing g), tw_events = gw_events g\<rparr>"

definition put_transfer :: "gateway_world \<Rightarrow> transfer_world \<Rightarrow> gateway_world" where
  "put_transfer g t =
     g\<lparr>gw_pairing := (gw_pairing g)\<lparr>pv_db := tw_db t, pv_fs := tw_fs t\<rparr>, gw_events := tw_events t\<rparr>"

section \<open>Fields and responses\<close>

definition json_rejected_response :: "int \<Rightarrow> string \<Rightarrow> string \<Rightarrow> payload option \<Rightarrow> http_response" where
  "json_rejected_response status_code schema message capabilities =
     (status_code,
      [(''schema'', JStr schema), (''status'', JStr ''rejected''), (''message'', JStr message)]
      @ opt_field ''capabilities'' (map_option JObj capabilities))"

definition extract_transfer_required_field :: "payload \<Rightarrow> string \<Rightarrow> string option" where
  "extract_transfer_required_field p f = stripped_field p f"

definition extract_transfer_session_id :: "transport_payload \<Rightarrow> string option" where
  "extract_transfer_session_id p =
     (case p of
        ObjectPayload d \<Rightarrow> stripped_field d ''session_id''
      | UploadPayload u \<Rightarrow> stripped_field (up_metadata u) ''session_id''
      | OtherPayload \<Rightarrow> None)"

definition track_transfer_transport ::
    "transport_kind \<Rightarrow> transport_payload \<Rightarrow> gateway_world \<Rightarrow> gateway_world" where
  "track_transfer_transport transport p g =
     (case extract_transfer_session_id p of
        None \<Rightarrow> g
      | Some s \<Rightarrow> g\<lparr>gw_pairing := (gw_pairing g)
                     \<lparr>pv_transports := dict_set (pv_transports (gw_pairing g)) s transport\<rparr>\<rparr>)"

section \<open>Encryption\<close>

definition resolve_transfer_trust_key :: "app_db \<Rightarrow> string \<Rightarrow> string option \<Rightarrow> string option" where
  "resolve_transfer_trust_key db session_id device_uuid =
     map_option tc_trust_key_b64
       (case device_uuid of
          None \<Rightarrow> get_mobile_transfer_context_by_session_id db session_id
        | Some u \<Rightarrow> get_mobile_transfer_context db session_id u)"

text \<open>A response that ends the request, or the payload to handle and the key it was encrypted with.\<close>

definition decrypt_transfer_payload_if_needed ::
    "gateway_env \<Rightarrow> app_db \<Rightarrow> payload \<Rightarrow> string \<Rightarrow> string \<Rightarrow> http_response + (payload \<times> string option)" where
  "decrypt_transfer_payload_if_needed env db request_payload response_schema rejected_message =
     (if \<not> is_mobile_encrypted_payload request_payload then Inr (request_payload, None)
      else (case stripped_field request_payload ''session_id'' of
              None \<Rightarrow> Inl (json_rejected_response 400 response_schema
                (''The transfer request is missing the required field '' @ quoted ''session_id'' @ ''.'') None)
            | Some session_id \<Rightarrow>
                (case resolve_transfer_trust_key db session_id None of
                   None \<Rightarrow> Inl (json_rejected_response 403 response_schema rejected_message None)
                 | Some key \<Rightarrow>
                     (case decrypt_mobile_json_payload (ge_aead env) (pe_sha256 (ge_pairing env)) request_payload key of
                        Inl m \<Rightarrow> Inl (json_rejected_response 400 response_schema m None)
                      | Inr p \<Rightarrow> Inr (p, Some key)))))"

definition locator_fields :: "string option \<Rightarrow> string option \<Rightarrow> string option \<Rightarrow> (string \<times> string) list" where
  "locator_fields session_id device_uuid platform =
     concat (map (\<lambda>(k, v). case v of None \<Rightarrow> [] | Some s \<Rightarrow> if s = [] then [] else [(k, s)])
       [(''session_id'', session_id), (''device_uuid'', device_uuid), (''platform'', platform)])"

definition encrypt_response_payload_if_needed ::
    "gateway_env \<Rightarrow> payload \<Rightarrow> string option \<Rightarrow> string option \<Rightarrow> payload res" where
  "encrypt_response_payload_if_needed env response_payload trust_key_b64 session_id =
     (case trust_key_b64 of
        None \<Rightarrow> Inr response_payload
      | Some key \<Rightarrow>
          let fs = locator_fields session_id None None
          in if fs = []
             then Inl (ValueError ''Desktop rejected encrypted response payload because locator fields are missing.'')
             else (case encrypt_mobile_json_payload (ge_aead env) (pe_sha256 (ge_pairing env)) (ge_nonce env)
                          response_payload key fs of
                     Inl m \<Rightarrow> Inl (ValueError m)
                   | Inr e \<Rightarrow> Inr e))"

text \<open>\<^verbatim>\<open>extract(decrypted, "session_id") or extract(request, "session_id")\<close>\<close>

definition response_session_id :: "payload \<Rightarrow> payload \<Rightarrow> string option" where
  "response_session_id decrypted request_payload =
     (case extract_transfer_required_field decrypted ''session_id'' of
        Some s \<Rightarrow> Some s
      | None \<Rightarrow> extract_transfer_required_field request_payload ''session_id'')"

text \<open>The end of every handler: the response of the service is encrypted like its request was.\<close>

definition finish_response ::
    "gateway_env \<Rightarrow> string option \<Rightarrow> string option \<Rightarrow> gateway_world \<times> http_response res \<Rightarrow> gateway_answer" where
  "finish_response env key session_id answer =
     (case answer of
        (g, Inl e) \<Rightarrow> (g, Inl e)
      | (g, Inr (status_code, p)) \<Rightarrow>
          (g, bindE (encrypt_response_payload_if_needed env p key session_id) (\<lambda>q. Inr (status_code, q))))"

section \<open>The handlers\<close>

definition pairing_object_error :: "string \<Rightarrow> http_response" where
  "pairing_object_error message =
     (400, [(''schema'', JStr PAIRING_PROTOCOL_SCHEMA),
            (''backup_state'', JStr (backup_state_value PENDING_PAIRING)), (''message'', JStr message)])"

definition transfer_object_error :: "string \<Rightarrow> http_response" where
  "transfer_object_error message = json_rejected_response 400 MOBILE_TRANSFER_SCHEMA message None"

definition dispatch_pairing_claim :: "gateway_env \<Rightarrow> transport_request \<Rightarrow> gateway_world \<Rightarrow> gateway_answer" where
  "dispatch_pairing_claim env req g =
     (case rq_payload req of
        ObjectPayload p \<Rightarrow>
          (case handle_pairing_request (ge_pairing env) p None (Some (transport_kind_label (rq_transport req)))
                  (gw_pairing g) of
             (w, r) \<Rightarrow> (g\<lparr>gw_pairing := w\<rparr>, r))
      | _ \<Rightarrow> (g, Inr (pairing_object_error ''Desktop requires JSON object payloads for pairing requests.'')))"

definition dispatch_pairing_state :: "gateway_env \<Rightarrow> transport_request \<Rightarrow> gateway_world \<Rightarrow> gateway_answer" where
  "dispatch_pairing_state env req g =
     (case rq_payload req of
        ObjectPayload p \<Rightarrow> (g, Inr (handle_pairing_state_request p (gw_pairing g)))
      | _ \<Rightarrow> (g, Inr (pairing_object_error ''Desktop requires JSON object payloads for pairing state requests.'')))"

definition dispatch_transfer_start :: "gateway_env \<Rightarrow> transport_request \<Rightarrow> gateway_world \<Rightarrow> gateway_answer" where
  "dispatch_transfer_start env req g =
     (case rq_payload req of
        ObjectPayload p \<Rightarrow>
          (case decrypt_transfer_payload_if_needed env (pv_db (gw_pairing g)) p MOBILE_TRANSFER_SCHEMA
                  ''Desktop rejected the transfer session.'' of
             Inl response \<Rightarrow> (g, Inr response)
           | Inr (d, key) \<Rightarrow>
               let g1 = track_transfer_transport (rq_transport req) (ObjectPayload d) g
               in case handle_start_request (ge_transfer env) d None (transfer_view g1) of
                    (t, r) \<Rightarrow> finish_response env key (response_session_id d p) (put_transfer g1 t, r))
      | _ \<Rightarrow> (g, Inr (transfer_object_error ''Desktop requires JSON object payloads for transfer requests.'')))"

definition dispatch_transfer_existence :: "gateway_env \<Rightarrow> transport_request \<Rightarrow> gateway_world \<Rightarrow> gateway_answer" where
  "dispatch_transfer_existence env req g =
     (case rq_payload req of
        ObjectPayload p \<Rightarrow>
          (case decrypt_transfer_payload_if_needed env (pv_db (gw_pairing g)) p MOBILE_TRANSFER_SCHEMA
                  ''Desktop rejected the transfer session.'' of
             Inl response \<Rightarrow> (g, Inr response)
           | Inr (d, key) \<Rightarrow>
               let g1 = track_transfer_transport (rq_transport req) (ObjectPayload d) g
               in case handle_asset_existence_request (ge_transfer env) d (transfer_view g1) of
                    (t, r) \<Rightarrow> finish_response env key (response_session_id d p) (put_transfer g1 t, r))
      | _ \<Rightarrow> (g, Inr (transfer_object_error
                ''Desktop requires JSON object payloads for transfer existence requests.'')))"

definition dispatch_transfer_complete :: "gateway_env \<Rightarrow> transport_request \<Rightarrow> gateway_world \<Rightarrow> gateway_answer" where
  "dispatch_transfer_complete env req g =
     (case rq_payload req of
        ObjectPayload p \<Rightarrow>
          (case decrypt_transfer_payload_if_needed env (pv_db (gw_pairing g)) p MOBILE_TRANSFER_SCHEMA
                  ''Desktop rejected the transfer session.'' of
             Inl response \<Rightarrow> (g, Inr response)
           | Inr (d, key) \<Rightarrow>
               let session_id = extract_transfer_session_id (ObjectPayload d);
                   g1 = track_transfer_transport (rq_transport req) (ObjectPayload d) g
               in case handle_complete_request (ge_transfer env) d None (transfer_view g1) of
                    (t, Inl e) \<Rightarrow> (put_transfer g1 t, Inl e)
                  | (t, Inr r) \<Rightarrow>
                      let g2 = put_transfer g1 t;
                          g3 = g2\<lparr>gw_pairing := clear_transfer_transport_tracking session_id (gw_pairing g2)\<rparr>
                      in finish_response env key (response_session_id d p) (g3, Inr r))
      | _ \<Rightarrow> (g, Inr (transfer_object_error
                ''Desktop requires JSON object payloads for transfer completion requests.'')))"

definition dispatch_transfer_asset :: "gateway_env \<Rightarrow> transport_request \<Rightarrow> gateway_world \<Rightarrow> gateway_answer" where
  "dispatch_transfer_asset env req g =
     (case rq_payload req of
        UploadPayload u \<Rightarrow>
          let g1 = track_transfer_transport (rq_transport req) (UploadPayload u) g
          in (case handle_asset_upload (ge_transfer env) (up_metadata u) (up_body u) (up_content_length u)
                     (up_temp_file_path u) (up_content_sha1 u) None (transfer_view g1) of
                (t, r) \<Rightarrow> finish_response env (up_trust_key_b64 u)
                            (extract_transfer_required_field (up_metadata u) ''session_id'') (put_transfer g1 t, r))
      | _ \<Rightarrow> (g, Inr (json_rejected_response 400 MOBILE_TRANSFER_SCHEMA
                ''Desktop did not receive the transfer asset metadata.'' None)))"

definition dispatch_capability_exchange :: "gateway_env \<Rightarrow> transport_request \<Rightarrow> gateway_world \<Rightarrow> gateway_answer" where
  "dispatch_capability_exchange env req g =
     (case rq_payload req of
        ObjectPayload p \<Rightarrow>
          (case decrypt_transfer_payload_if_needed env (pv_db (gw_pairing g)) p MOBILE_CAPABILITY_EXCHANGE_SCHEMA
                  ''Desktop rejected the capability exchange request.'' of
             Inl response \<Rightarrow> (g, Inr response)
           | Inr (d, key) \<Rightarrow>
               finish_response env key (response_session_id d p)
                 (g, handle_exchange_request (te_hmac (ge_transfer env)) (ge_flags env) (pv_db (gw_pairing g)) d))
      | _ \<Rightarrow> (g, Inr (json_rejected_response 400 MOBILE_CAPABILITY_EXCHANGE_SCHEMA
                ''Desktop requires JSON object payloads for capability exchange requests.'' (Some []))))"

definition dispatch_update_prompt :: "gateway_env \<Rightarrow> transport_request \<Rightarrow> gateway_world \<Rightarrow> gateway_answer" where
  "dispatch_update_prompt env req g =
     (case rq_payload req of
        ObjectPayload p \<Rightarrow>
          (case decrypt_transfer_payload_if_needed env (pv_db (gw_pairing g)) p MOBILE_UPDATE_PROMPT_SCHEMA
                  ''Desktop rejected the update prompt request.'' of
             Inl response \<Rightarrow> (g, Inr response)
           | Inr (d, key) \<Rightarrow>
               (case handle_prompt_request (te_hmac (ge_transfer env)) (pe_bracket_ok (ge_pairing env))
                       (pv_db (gw_pairing g)) d (gw_prompts g) of
                  (prompts, r) \<Rightarrow>
                    finish_response env key (response_session_id d p) (g\<lparr>gw_prompts := prompts\<rparr>, r)))
      | _ \<Rightarrow> (g, Inr (json_rejected_response 400 MOBILE_UPDATE_PROMPT_SCHEMA
                ''Desktop requires JSON object payloads for update prompt requests.'' None)))"

section \<open>The router\<close>

definition PAIRING_CLAIM_OPERATION :: string where "PAIRING_CLAIM_OPERATION = ''pairing.claim''"
definition PAIRING_STATE_OPERATION :: string where "PAIRING_STATE_OPERATION = ''pairing.state''"
definition CAPABILITY_EXCHANGE_OPERATION :: string where "CAPABILITY_EXCHANGE_OPERATION = ''capabilities.exchange''"
definition UPDATE_PROMPT_OPERATION :: string where "UPDATE_PROMPT_OPERATION = ''update.prompt''"
definition TRANSFER_START_OPERATION :: string where "TRANSFER_START_OPERATION = ''transfer.start''"
definition TRANSFER_EXISTENCE_OPERATION :: string where "TRANSFER_EXISTENCE_OPERATION = ''transfer.existence''"
definition TRANSFER_ASSET_OPERATION :: string where "TRANSFER_ASSET_OPERATION = ''transfer.asset''"
definition TRANSFER_COMPLETE_OPERATION :: string where "TRANSFER_COMPLETE_OPERATION = ''transfer.complete''"

text \<open>The handlers by name: the router compares them by identity.\<close>

datatype route_handler =
    H_PairingClaim | H_PairingState | H_CapabilityExchange | H_UpdatePrompt
  | H_TransferStart | H_TransferExistence | H_TransferAsset | H_TransferComplete

fun run_handler :: "route_handler \<Rightarrow> gateway_env \<Rightarrow> transport_request \<Rightarrow> gateway_world \<Rightarrow> gateway_answer" where
  "run_handler H_PairingClaim = dispatch_pairing_claim"
| "run_handler H_PairingState = dispatch_pairing_state"
| "run_handler H_CapabilityExchange = dispatch_capability_exchange"
| "run_handler H_UpdatePrompt = dispatch_update_prompt"
| "run_handler H_TransferStart = dispatch_transfer_start"
| "run_handler H_TransferExistence = dispatch_transfer_existence"
| "run_handler H_TransferAsset = dispatch_transfer_asset"
| "run_handler H_TransferComplete = dispatch_transfer_complete"

type_synonym transport_routes = "(string, route_handler) dict"

definition register_route :: "string \<Rightarrow> route_handler \<Rightarrow> transport_routes \<Rightarrow> transport_routes res" where
  "register_route operation handler routes =
     (case dict_get routes operation of
        None \<Rightarrow> Inr (dict_set routes operation handler)
      | Some h \<Rightarrow> if h = handler then Inr (dict_set routes operation handler)
                  else Inl (ValueError (''Transport route '' @ quoted operation @ '' is already registered.'')))"

definition register_transport_routes :: "transport_routes \<Rightarrow> transport_routes res" where
  "register_transport_routes routes =
     bindE (register_route PAIRING_CLAIM_OPERATION H_PairingClaim routes) (\<lambda>r.
     bindE (register_route PAIRING_STATE_OPERATION H_PairingState r) (\<lambda>r.
     bindE (register_route CAPABILITY_EXCHANGE_OPERATION H_CapabilityExchange r) (\<lambda>r.
     bindE (register_route UPDATE_PROMPT_OPERATION H_UpdatePrompt r) (\<lambda>r.
     bindE (register_route TRANSFER_START_OPERATION H_TransferStart r) (\<lambda>r.
     bindE (register_route TRANSFER_EXISTENCE_OPERATION H_TransferExistence r) (\<lambda>r.
     bindE (register_route TRANSFER_ASSET_OPERATION H_TransferAsset r) (\<lambda>r.
       register_route TRANSFER_COMPLETE_OPERATION H_TransferComplete r)))))))"

text \<open>\<^verbatim>\<open>MobileTransportRouter.dispatch\<close>; a missing route is a \<open>RuntimeError\<close>.\<close>

definition router_dispatch ::
    "transport_routes \<Rightarrow> gateway_env \<Rightarrow> string \<Rightarrow> transport_payload \<Rightarrow> transport_kind \<Rightarrow> gateway_world
     \<Rightarrow> gateway_answer" where
  "router_dispatch routes env operation p transport g =
     (case dict_get routes operation of
        None \<Rightarrow> (g, Inl (RuntimeError (''No transport route is registered for operation '' @ quoted operation @ ''.'')))
      | Some h \<Rightarrow> run_handler h env \<lparr>rq_operation = operation, rq_payload = p, rq_transport = transport\<rparr> g)"

end
