(* ===== verification/PairingServiceProps.thy ===== *)
theory PairingServiceProps
  imports PairingService PairingStoreProps
begin

text \<open>
  What the pairing service guarantees: only the passcode of the session that is shown lets a phone
  in, an accepted phone is authorized to start its transfer with the key of the pairing, the tables
  stay consistent under every interleaving of the locked blocks, and the recorded state of a session
  moves only along the state machine.
\<close>

section \<open>The claim\<close>

lemma find_None_all: "find P xs = None \<longleftrightarrow> (\<forall>x\<in>set xs. \<not> P x)"
  by (induction xs) auto

text \<open>The facts that the first block has established about a claim that goes on.\<close>

definition good_claim :: "pydatetime \<Rightarrow> payload \<Rightarrow> pairing_world \<Rightarrow> pairing_session \<Rightarrow> pairing_token \<Rightarrow> claim \<Rightarrow> bool" where
  "good_claim t req w s token c \<longleftrightarrow>
     pv_session w = Some s \<and> text_field req ''sid'' = ps_session_id s \<and>
     platform_of (text_field req ''platform'') = Some (cl_platform c) \<and>
     token_for s (cl_platform c) = Inr token \<and> \<not> is_expired token t \<and>
     text_field req ''opt'' = pt_one_time_passcode token \<and>
     cl_session_id c = ps_session_id s \<and> cl_token c = token \<and> cl_current_time c = t \<and>
     cl_device_uuid c = py_strip (text_field req ''device_uuid'') \<and> cl_device_uuid c \<noteq> [] \<and>
     cl_again c = pv_again w \<and> \<not> pv_in_progress w"

lemma claim_check_go:
  assumes "claim_check t req w = (w1, Inr (Inr c))"
  shows "w1 = w\<lparr>pv_in_progress := True\<rparr> \<and> (\<exists>s token. good_claim t req w s token c)"
proof -
  from assms obtain s where s: "pv_session w = Some s" by (auto simp: claim_check_def split: option.splits)
  note run = assms [unfolded claim_check_def s option.case]
  from run have fields: "find (\<lambda>f. \<not> present_text req f) CLAIM_FIELDS = None"
    by (auto split: option.splits)
  then have "\<forall>f\<in>set CLAIM_FIELDS. present_text req f" unfolding find_None_all by blast
  then have "present_text req ''device_uuid''" by (simp add: CLAIM_FIELDS_def)
  then have uuid: "py_strip (text_field req ''device_uuid'') \<noteq> []"
    by (auto simp: present_text_def text_field_def split: option.splits json.splits)
  from run fields s uuid show ?thesis
    by (auto simp: good_claim_def split: if_splits option.splits sum.splits)
qed

lemma claim_check_stop:
  assumes "claim_check t req w = (w1, r)" and "\<forall>c. r \<noteq> Inr (Inr c)"
  shows "w1 = w \<or> (\<exists>s. pv_session w = Some s \<and> w1 = expire_session (ps_session_id s) w)"
  using assms by (auto simp: claim_check_def split: option.splits if_splits sum.splits)

lemma world_frames [simp]:
  "pv_db (set_record s r w) = pv_db w" "pv_fs (set_record s r w) = pv_fs w"
  "pv_session (set_record s r w) = pv_session w" "pv_result (set_record s r w) = pv_result w"
  "pv_in_progress (set_record s r w) = pv_in_progress w" "pv_threads (set_record s r w) = pv_threads w"
  "pv_records (set_record s r w) = dict_set (pv_records w) s r" "pv_again (set_record s r w) = pv_again w"
  "pv_db (drop_pending s w) = pv_db w" "pv_fs (drop_pending s w) = pv_fs w"
  "pv_session (drop_pending s w) = pv_session w" "pv_result (drop_pending s w) = pv_result w"
  "pv_in_progress (drop_pending s w) = pv_in_progress w" "pv_threads (drop_pending s w) = pv_threads w"
  "pv_records (drop_pending s w) = pv_records w" "pv_again (drop_pending s w) = pv_again w"
  "pv_db (claim_finish w) = pv_db w" "pv_fs (claim_finish w) = pv_fs w" "pv_result (claim_finish w) = pv_result w"
  "pv_session (claim_finish w) = pv_session w" "pv_records (claim_finish w) = pv_records w"
  "pv_threads (claim_finish w) = pv_threads w" "\<not> pv_in_progress (claim_finish w)"
  by (simp_all add: set_record_def drop_pending_def claim_finish_def split: option.split)

lemma expire_frames [simp]:
  "pv_db (expire_session s w) = pv_db w" "pv_fs (expire_session s w) = pv_fs w"
  "pv_session (expire_session s w) = pv_session w" "pv_in_progress (expire_session s w) = pv_in_progress w"
  "pr_state (pv_result (expire_session s w)) = RS_EXPIRED" "pv_threads (expire_session s w) = pv_threads w"
  by (simp_all add: expire_session_def plain_result_def Let_def)

text \<open>
  C5. Only the passcode lets a phone in: a claim that changes the database or the file system, starts
  a question to the desktop, or turns the result of the session to accepted or mismatched named the
  session that is shown, carried the passcode of the token of its platform, and came before the
  token expired.
\<close>
theorem pairing_needs_passcode:
  assumes "handle_pairing_request env req now transport w = (w', r)"
    and "pv_db w' \<noteq> pv_db w \<or> pv_fs w' \<noteq> pv_fs w \<or> pv_threads w' \<noteq> pv_threads w \<or>
      pv_result w' \<noteq> pv_result w \<and> pr_state (pv_result w') \<in> {RS_ACCEPTED, RS_MISMATCHED}"
  shows "\<exists>t s p token. utc_now (pe_clock env) now = Inr t \<and> pv_session w = Some s \<and>
    text_field req ''sid'' = ps_session_id s \<and> platform_of (text_field req ''platform'') = Some p \<and>
    token_for s p = Inr token \<and> text_field req ''opt'' = pt_one_time_passcode token \<and>
    \<not> is_expired token t"
proof -
  obtain t where t: "utc_now (pe_clock env) now = Inr t"
    using assms by (cases "utc_now (pe_clock env) now") (auto simp: handle_pairing_request_def)
  obtain w1 r1 where check: "claim_check t req w = (w1, r1)" by (cases "claim_check t req w")
  show ?thesis
  proof (cases "\<exists>c. r1 = Inr (Inr c)")
    case True
    then obtain c where "claim_check t req w = (w1, Inr (Inr c))" using check by auto
    then obtain s token where "good_claim t req w s token c" using claim_check_go by blast
    with t show ?thesis by (auto simp: good_claim_def)
  next
    case False
    with assms(1) t check have "w' = w1"
      by (auto simp: handle_pairing_request_def split: sum.splits)
    with claim_check_stop [OF check] False assms(2) show ?thesis by auto
  qed
qed

section \<open>The tables of an acceptance\<close>

lemma device_id_tables [simp]:
  "mobile_ok (fst (get_or_create_desktop_device_id db h)) = mobile_ok db"
  "db_mobile_folders (fst (get_or_create_desktop_device_id db h)) = db_mobile_folders db"
  "db_folders (fst (get_or_create_desktop_device_id db h)) = db_folders db"
  "db_devices (fst (get_or_create_desktop_device_id db h)) = db_devices db"
  "db_sessions (fst (get_or_create_desktop_device_id db h)) = db_sessions db"
  by (simp_all add: get_or_create_desktop_device_id_def set_config_def mobile_ok_def mobile_keys_ok_def
      sessions_bound_def split: option.splits)

lemma upsert_device_tables [simp]:
  "db_mobile_folders (upsert_mobile_device db u p n k t) = db_mobile_folders db"
  "db_folders (upsert_mobile_device db u p n k t) = db_folders db"
  "db_sessions (upsert_mobile_device db u p n k t) = db_sessions db"
  by (simp_all add: upsert_mobile_device_def Let_def)

lemma get_or_create_all_ok:
  assumes "mobile_ok db"
  shows "mobile_ok (fst (get_or_create_mobile_folder expand resolve stamp db fs parent u name t))"
proof -
  define stale where "stale = filter (\<lambda>r. mf_device_uuid r = u
      \<and> \<not> list_ex (\<lambda>f. fo_id f = mf_folder_id r) (db_folders db)) (db_mobile_folders db)"
  define db1 where "db1 = (if stale = [] then db
      else delete_mobile_device_data_for_folder_ids db (map (\<lambda>r. Some (mf_folder_id r)) stale))"
  have ok1: "mobile_ok db1" using assms(1) by (simp add: db1_def delete_device_data_ok)
  have ok2: "mobile_ok db2" if "insert_folder db1 stamp p = (db2, r)" for p db2 r
    using insert_folder_mobile_ok [of db1 stamp p] that ok1 by simp
  show ?thesis
    using ok1 unfolding get_or_create_mobile_folder_def Let_def stale_def [symmetric] db1_def [symmetric]
    by (auto simp: set_folder_state_ok dest: ok2 insert_mobile_folder_ok [rotated]
        split: option.splits prod.splits sum.splits)
qed

lemma repair_cases:
  assumes "repair_mobile_folder_device_binding db i path prev repl t = (db', r)"
  shows "r = Inr \<lparr>mfr_folder_id = i, mfr_folder_path = path, mfr_reused_existing = True\<rparr> \<or> db' = db \<and> isl r"
  using assms by (auto simp: repair_mobile_folder_device_binding_def Let_def split: if_splits)

lemma repair_binds:
  assumes "(i, prev) \<in> set (map mf_pair (db_mobile_folders db))" and "prev \<noteq> repl"
    and "repair_mobile_folder_device_binding db i path prev repl t = (db', Inr rec)"
  shows "(i, repl) \<in> set (map mf_pair (db_mobile_folders db'))" and "db_folders db' = db_folders db"
    and "db_devices db' = filter (\<lambda>r. de_device_uuid r \<noteq> prev) (db_devices db)"
    and "mfr_folder_id rec = i"
    and "db_sessions db' = sql_update (\<lambda>r. se_device_uuid r = prev)
       (\<lambda>r. r\<lparr>se_device_uuid := repl, se_folder_id := i\<rparr>) (db_sessions db)"
proof -
  from assms(1) obtain m where m: "m \<in> set (db_mobile_folders db)" "mf_folder_id m = i"
    by (auto simp: mf_pair_def)
  have db': "db_mobile_folders db' = sql_update (\<lambda>r. mf_folder_id r = i)
      (\<lambda>r. r\<lparr>mf_device_uuid := repl, mf_transfer_state := MOBILE_TRANSFER_STATE_PAIRED,
        mf_transfer_state_updated_at := dt_isoformat t\<rparr>) (db_mobile_folders db)"
    "db_folders db' = db_folders db" "mfr_folder_id rec = i"
    "db_devices db' = filter (\<lambda>r. de_device_uuid r \<noteq> prev) (db_devices db)"
    "db_sessions db' = sql_update (\<lambda>r. se_device_uuid r = prev)
       (\<lambda>r. r\<lparr>se_device_uuid := repl, se_folder_id := i\<rparr>) (db_sessions db)"
    using assms(2,3) by (auto simp: repair_mobile_folder_device_binding_def Let_def split: if_splits)
  have "mf_pair (m\<lparr>mf_device_uuid := repl, mf_transfer_state := MOBILE_TRANSFER_STATE_PAIRED,
        mf_transfer_state_updated_at := dt_isoformat t\<rparr>) = (i, repl)"
    using m by (simp add: mf_pair_def)
  moreover have "m\<lparr>mf_device_uuid := repl, mf_transfer_state := MOBILE_TRANSFER_STATE_PAIRED,
        mf_transfer_state_updated_at := dt_isoformat t\<rparr> \<in> set (db_mobile_folders db')"
    unfolding db' sql_update_def using m by force
  ultimately show "(i, repl) \<in> set (map mf_pair (db_mobile_folders db'))" by (metis image_eqI set_map)
  show "db_folders db' = db_folders db" "db_devices db' = filter (\<lambda>r. de_device_uuid r \<noteq> prev) (db_devices db)"
    "mfr_folder_id rec = i"
    "db_sessions db' = sql_update (\<lambda>r. se_device_uuid r = prev)
       (\<lambda>r. r\<lparr>se_device_uuid := repl, se_folder_id := i\<rparr>) (db_sessions db)" by (fact db')+
qed

text \<open>The folder that the desktop chose in the dialog is still bound to the phone it was bound to.\<close>

definition binding_holds :: "app_db \<Rightarrow> acceptance \<Rightarrow> bool" where
  "binding_holds db a \<longleftrightarrow>
     (case repairs_folder a of
        None \<Rightarrow> True
      | Some g \<Rightarrow> (ag_selected_folder_id g, ag_expected_device_uuid g) \<in> set (map mf_pair (db_mobile_folders db)) \<and>
                  (\<exists>f\<in>set (db_folders db). fo_id f = ag_selected_folder_id g))"

lemma repairs_folder_differs: "repairs_folder a = Some g \<Longrightarrow> ag_expected_device_uuid g \<noteq> ac_device_uuid a"
  by (auto simp: repairs_folder_def split: option.splits if_splits)

lemma accept_folder_ok:
  assumes "mobile_ok db" and "binding_holds db a" and "accept_folder env a s db fs = (db', fs', r)"
  shows "mobile_ok db'"
    and "r = Inr rec \<Longrightarrow> (mfr_folder_id rec, ac_device_uuid a) \<in> set (map mf_pair (db_mobile_folders db')) \<and>
      (\<exists>f\<in>set (db_folders db'). fo_id f = mfr_folder_id rec)"
proof -
  have "mobile_ok db' \<and> (r = Inr rec \<longrightarrow>
      (mfr_folder_id rec, ac_device_uuid a) \<in> set (map mf_pair (db_mobile_folders db')) \<and>
      (\<exists>f\<in>set (db_folders db'). fo_id f = mfr_folder_id rec))"
  proof (cases "repairs_folder a")
    case None
    then have run: "get_or_create_mobile_folder (pe_expand env) (pe_resolve env) (pe_stamp env) db fs
        (ps_destination_parent s) (ac_device_uuid a) (ac_device_name a) (ac_current_time a) = (db', fs', r)"
      using assms(3) by (simp add: accept_folder_def)
    then have "mobile_ok db'"
      using get_or_create_all_ok [OF assms(1)] by (metis fst_conv)
    with get_or_create_bound [OF assms(1)] run show ?thesis by blast
  next
    case (Some g)
    let ?i = "ag_selected_folder_id g" and ?prev = "ag_expected_device_uuid g"
    have run: "repair_mobile_folder_device_binding db ?i (ag_selected_folder_path g) ?prev (ac_device_uuid a)
        (ac_current_time a) = (db', r)"
      using assms(3) Some by (auto simp: accept_folder_def split: prod.splits)
    have bound: "(?i, ?prev) \<in> set (map mf_pair (db_mobile_folders db))"
      "\<exists>f\<in>set (db_folders db). fo_id f = ?i"
      using assms(2) Some by (simp_all add: binding_holds_def)
    show ?thesis
    proof (cases r)
      case (Inl e)
      with repair_cases [OF run] assms(1) show ?thesis by auto
    next
      case (Inr x)
      note run' = run [unfolded Inr]
      from repair_ok [OF assms(1) bound(1) run'] repair_binds [OF bound(1) repairs_folder_differs [OF Some] run']
      show ?thesis using bound(2) Inr by auto
    qed
  qed
  then show "mobile_ok db'" and "r = Inr rec \<Longrightarrow> (mfr_folder_id rec, ac_device_uuid a)
      \<in> set (map mf_pair (db_mobile_folders db')) \<and> (\<exists>f\<in>set (db_folders db'). fo_id f = mfr_folder_id rec)"
    by blast+
qed

lemma accept_tables_ok:
  assumes "mobile_ok db" and "binding_holds db a" and "accept_tables env a s db fs = (db', fs', r)"
  shows "mobile_ok db'"
proof -
  let ?db2 = "upsert_mobile_device (fst (get_or_create_desktop_device_id db (pe_device_hex env)))
      (ac_device_uuid a) (platform_value (ac_platform a)) (ac_device_name a) (pairing_trust_key env a) (ac_current_time a)"
  have ok2: "mobile_ok ?db2" using assms(1) by (intro upsert_device_ok) simp
  have b2: "binding_holds ?db2 a" using assms(2) by (simp add: binding_holds_def split: option.splits)
  obtain db3 fs3 r3 where folder: "accept_folder env a s ?db2 fs = (db3, fs3, r3)" by (cases "accept_folder env a s ?db2 fs") auto
  note ok3 = accept_folder_ok [OF ok2 b2 folder]
  show ?thesis
    using assms(3) folder ok3 insert_session_ok [OF ok3(1)]
    by (auto simp: accept_tables_def Let_def simp del: set_map split: prod.splits sum.splits)
qed

section \<open>An accepted phone can transfer\<close>

lemma session_context:
  assumes "filter (\<lambda>d. de_device_uuid d = u) (db_devices db) = [d]"
    and "f \<in> set (db_folders db)" and "fo_id f = i"
    and "filter (\<lambda>r. se_session_id r = sid \<and> se_device_uuid r = u) (db_sessions db) = [se]"
    and "se_folder_id se = i"
  shows "\<exists>c. get_mobile_transfer_context db sid u = Some c \<and> tc_session_id c = sid \<and> tc_device_uuid c = u \<and>
    tc_session_status c = se_status se \<and> tc_folder_id c = i \<and> tc_trust_key_b64 c = de_trust_key_b64 d"
proof -
  have se: "se_session_id se = sid" "se_device_uuid se = u"
    using assms(4) by (auto dest!: arg_cong [where f = set])
  have "transfer_context_rows db se \<noteq> []"
    using assms(2,3) by (auto simp: transfer_context_rows_def se assms(1,5) Let_def filter_empty_conv)
  then obtain c where c: "fetchone (transfer_context_rows db se) = Some c"
    by (metis fetchone_eq_None option.exhaust)
  then have "c \<in> set (transfer_context_rows db se)" by (rule fetchone_member)
  then have "tc_session_id c = sid \<and> tc_device_uuid c = u \<and> tc_session_status c = se_status se \<and>
      tc_folder_id c = i \<and> tc_trust_key_b64 c = de_trust_key_b64 d"
    by (auto simp: transfer_context_rows_def se assms(1,5) Let_def split: if_splits)
  with c show ?thesis by (simp add: get_mobile_transfer_context_def assms(4))
qed

lemma upserted_device:
  assumes "distinct (map de_device_uuid (db_devices db))"
  shows "\<exists>d. filter (\<lambda>d. de_device_uuid d = u) (db_devices (upsert_mobile_device db u p n k t)) = [d] \<and>
    de_trust_key_b64 d = k"
proof -
  let ?merge = "\<lambda>old new. old\<lparr>de_platform := de_platform new, de_device_name := de_device_name new,
                 de_trust_key_b64 := de_trust_key_b64 new, de_last_seen_at := de_last_seen_at new\<rparr>"
  let ?new = "\<lparr>de_device_uuid = u, de_platform = p, de_device_name = n,
               de_trust_key_b64 = k, de_paired_at = dt_isoformat t, de_last_seen_at = dt_isoformat t\<rparr>"
  let ?rows = "db_devices (upsert_mobile_device db u p n k t)"
  have rows: "?rows = sql_upsert de_device_uuid ?merge ?new (db_devices db)"
    by (simp add: upsert_mobile_device_def Let_def)
  have dist: "distinct (map de_device_uuid ?rows)"
    unfolding rows by (rule distinct_upsert) (simp_all add: assms)
  have "find (\<lambda>d. de_device_uuid d = u) ?rows =
      Some (case find (\<lambda>d. de_device_uuid d = u) (db_devices db) of Some old \<Rightarrow> ?merge old ?new | None \<Rightarrow> ?new)"
    unfolding rows by (subst find_upsert) simp_all
  then obtain d where d: "find (\<lambda>d. de_device_uuid d = u) ?rows = Some d" "de_trust_key_b64 d = k"
    by (auto split: option.splits)
  then have "d \<in> set ?rows" "de_device_uuid d = u" by (auto dest: find_member)
  with filter_key_single [OF dist this(1)] d(2) show ?thesis by metis
qed

text \<open>No row of \<^verbatim>\<open>mobile_folders\<close> of the phone names a folder that is gone.\<close>

definition no_stale_folder :: "app_db \<Rightarrow> string \<Rightarrow> bool" where
  "no_stale_folder db u \<longleftrightarrow>
     (\<forall>m\<in>set (db_mobile_folders db). mf_device_uuid m = u \<longrightarrow> (\<exists>f\<in>set (db_folders db). fo_id f = mf_folder_id m))"

lemma get_or_create_frames:
  assumes "no_stale_folder db u"
    and "get_or_create_mobile_folder expand resolve stamp db fs parent u name t = (db', fs', r)"
  shows "db_devices db' = db_devices db \<and> db_sessions db' = db_sessions db"
proof -
  have "filter (\<lambda>r. mf_device_uuid r = u \<and> \<not> list_ex (\<lambda>f. fo_id f = mf_folder_id r) (db_folders db))
      (db_mobile_folders db) = []"
    using assms(1) by (auto simp: no_stale_folder_def filter_empty_conv list_ex_iff)
  note run = assms(2) [unfolded get_or_create_mobile_folder_def this]
  have "insert_folder db stamp p = (db2, x) \<Longrightarrow> db_devices db2 = db_devices db \<and> db_sessions db2 = db_sessions db"
    for p db2 x by (auto simp: insert_folder_def Let_def split: if_splits)
  note ins = this [THEN conjunct1] this [THEN conjunct2]
  show ?thesis using run
    by (auto simp: Let_def set_folder_state_of_device_def insert_mobile_folder_def
        dest: ins split: option.splits prod.splits sum.splits if_splits)
qed

lemma accept_folder_frames:
  assumes "no_stale_folder db (ac_device_uuid a)" and "accept_folder env a s db fs = (db', fs', r)"
  shows "filter (\<lambda>d. de_device_uuid d = ac_device_uuid a) (db_devices db') =
      filter (\<lambda>d. de_device_uuid d = ac_device_uuid a) (db_devices db)"
proof (cases "repairs_folder a")
  case None
  with assms show ?thesis
    using get_or_create_frames [OF assms(1)] by (simp add: accept_folder_def)
next
  case (Some g)
  then have run: "repair_mobile_folder_device_binding db (ag_selected_folder_id g) (ag_selected_folder_path g)
      (ag_expected_device_uuid g) (ac_device_uuid a) (ac_current_time a) = (db', r)"
    using assms(2) by (auto simp: accept_folder_def split: prod.splits)
  have keep: "filter (\<lambda>d. de_device_uuid d = ac_device_uuid a) (filter (\<lambda>r. de_device_uuid r \<noteq> ag_expected_device_uuid g) (db_devices db))
      = filter (\<lambda>d. de_device_uuid d = ac_device_uuid a) (db_devices db)"
    using repairs_folder_differs [OF Some] by (simp add: conj_commute cong: conj_cong)
  show ?thesis
  proof (cases r)
    case (Inl e)
    with repair_cases [OF run] show ?thesis by auto
  next
    case (Inr x)
    have "db_devices db' = filter (\<lambda>r. de_device_uuid r \<noteq> ag_expected_device_uuid g) (db_devices db)"
      using run repairs_folder_differs [OF Some]
      by (auto simp: Inr repair_mobile_folder_device_binding_def Let_def split: if_splits)
    with keep show ?thesis by simp
  qed
qed

lemma accept_tables_authorize:
  assumes ok: "mobile_ok db" and bind: "binding_holds db a" and live: "no_stale_folder db (ac_device_uuid a)"
    and run: "accept_tables env a s db fs = (db', fs', Inr (did, folder))"
  shows "\<exists>c. get_mobile_transfer_context db' (ac_session_id a) (ac_device_uuid a) = Some c \<and>
    tc_session_status c = MOBILE_BACKUP_SESSION_STATUS_PAIRED \<and>
    tc_session_id c = ac_session_id a \<and> tc_device_uuid c = ac_device_uuid a \<and>
    tc_folder_id c = mfr_folder_id folder \<and> tc_trust_key_b64 c = pairing_trust_key env a"
proof -
  define db2 where "db2 = upsert_mobile_device (fst (get_or_create_desktop_device_id db (pe_device_hex env)))
      (ac_device_uuid a) (platform_value (ac_platform a)) (ac_device_name a) (pairing_trust_key env a) (ac_current_time a)"
  have ok2: "mobile_ok db2" unfolding db2_def using ok by (intro upsert_device_ok) simp
  have b2: "binding_holds db2 a" using bind by (simp add: binding_holds_def db2_def split: option.splits)
  have l2: "no_stale_folder db2 (ac_device_uuid a)" using live by (simp add: no_stale_folder_def db2_def)
  from run obtain db3 where folder: "accept_folder env a s db2 fs = (db3, fs', Inr folder)"
    and ins: "insert_mobile_backup_session db3 (ac_session_id a) (ac_device_uuid a) (mfr_folder_id folder)
        MOBILE_BACKUP_SESSION_STATUS_PAIRED (ps_created_at s) (ac_current_time a) 0 = Inr db'"
    by (auto simp: accept_tables_def Let_def db2_def split: prod.splits sum.splits)
  obtain d where d: "filter (\<lambda>d. de_device_uuid d = ac_device_uuid a) (db_devices db2) = [d]"
      "de_trust_key_b64 d = pairing_trust_key env a"
    using upserted_device ok unfolding db2_def by (metis device_id_tables(4) mobile_keys_ok_def mobile_ok_def)
  obtain f where f: "f \<in> set (db_folders db3)" "fo_id f = mfr_folder_id folder"
    using accept_folder_ok(2) [OF ok2 b2 folder refl] by blast
  from ins have fresh: "filter (\<lambda>r. se_session_id r = ac_session_id a \<and> se_device_uuid r = ac_device_uuid a) (db_sessions db3) = []"
    and db': "db_devices db' = db_devices db3" "db_folders db' = db_folders db3"
    and se: "\<exists>se. db_sessions db' = db_sessions db3 @ [se] \<and> se_session_id se = ac_session_id a \<and>
      se_device_uuid se = ac_device_uuid a \<and> se_folder_id se = mfr_folder_id folder \<and>
      se_status se = MOBILE_BACKUP_SESSION_STATUS_PAIRED"
    by (auto simp: insert_mobile_backup_session_def list_ex_iff filter_empty_conv split: if_splits)
  from se obtain se where se: "db_sessions db' = db_sessions db3 @ [se]" "se_session_id se = ac_session_id a"
      "se_device_uuid se = ac_device_uuid a" "se_folder_id se = mfr_folder_id folder"
      "se_status se = MOBILE_BACKUP_SESSION_STATUS_PAIRED" by blast
  have "filter (\<lambda>d. de_device_uuid d = ac_device_uuid a) (db_devices db') = [d]"
    using accept_folder_frames [OF l2 folder] d(1) db' by simp
  moreover have "filter (\<lambda>r. se_session_id r = ac_session_id a \<and> se_device_uuid r = ac_device_uuid a) (db_sessions db') = [se]"
    by (simp add: se fresh)
  ultimately show ?thesis
    using session_context [of "ac_device_uuid a" db' d f "mfr_folder_id folder" "ac_session_id a" se] f d(2) db' se by auto
qed

lemma active_with_id_Some: "active_with_id sid w = Some s \<longleftrightarrow> pv_session w = Some s \<and> ps_session_id s = sid"
  by (auto simp: active_with_id_def split: option.splits)

lemma platform_of_value: "platform_of v = Some p \<Longrightarrow> platform_value p = v"
  by (auto simp: platform_of_def dest: find_member)

lemma accept_commit_frames:
  "accept_commit env a did folder w = (w', x) \<Longrightarrow>
     pv_db w' = pv_db w \<and> pv_fs w' = pv_fs w \<and> pv_session w' = pv_session w \<and> pv_threads w' = pv_threads w \<and>
     pv_in_progress w' = pv_in_progress w \<and> pv_again w' = pv_again w"
  by (auto simp: accept_commit_def Let_def split: option.splits)

text \<open>How an acceptance ends.\<close>

lemma complete_acceptance_cases:
  assumes "complete_pairing_acceptance env a w = (w', r)"
  obtains (gone) "active_with_id (ac_session_id a) w = None" "w' = w" "r = Inr no_session_response"
  | (raised) s e where "active_with_id (ac_session_id a) w = Some s"
      "accept_tables env a s (pv_db w) (pv_fs w) = (pv_db w', pv_fs w', Inl e)" "r = Inl e"
      "w' = w\<lparr>pv_db := pv_db w', pv_fs := pv_fs w'\<rparr>"
  | (accepted) s did folder payload where "active_with_id (ac_session_id a) w = Some s"
      "accept_tables env a s (pv_db w) (pv_fs w) = (pv_db w', pv_fs w', Inr (did, folder))"
      "accept_commit env a did folder (w\<lparr>pv_db := pv_db w', pv_fs := pv_fs w'\<rparr>) = (w', (200, payload))"
      "r = Inr (200, payload)"
proof (cases "active_with_id (ac_session_id a) w")
  case None
  with assms show ?thesis by (intro gone) (simp_all add: complete_pairing_acceptance_def)
next
  case (Some s)
  obtain db fs x where tables: "accept_tables env a s (pv_db w) (pv_fs w) = (db, fs, x)"
    by (cases "accept_tables env a s (pv_db w) (pv_fs w)") auto
  show ?thesis
  proof (cases x)
    case (Inl e)
    with assms Some tables show ?thesis
      by (intro raised [of s e]) (auto simp: complete_pairing_acceptance_def)
  next
    case (Inr y)
    obtain did folder where y: "y = (did, folder)" by (cases y)
    obtain w2 ans where commit: "accept_commit env a did folder (w\<lparr>pv_db := db, pv_fs := fs\<rparr>) = (w2, ans)"
      by (cases "accept_commit env a did folder (w\<lparr>pv_db := db, pv_fs := fs\<rparr>)")
    have w': "w' = w2" "r = Inr ans"
      using assms Some tables Inr y commit by (simp_all add: complete_pairing_acceptance_def)
    have dbs: "pv_db w2 = db" "pv_fs w2 = fs" using accept_commit_frames [OF commit] by simp_all
    have act: "active_with_id (ac_session_id a) (w\<lparr>pv_db := db, pv_fs := fs\<rparr>) = Some s"
      using Some by (simp add: active_with_id_def)
    from commit obtain payload where "ans = (200, payload)"
      unfolding accept_commit_def act option.case Let_def by blast
    with w' dbs commit Some tables Inr y show ?thesis by (intro accepted [of s did folder payload]) simp_all
  qed
qed

lemma claim_mismatch_frames:
  "claim_mismatch c g w = (w', x) \<Longrightarrow> pv_db w' = pv_db w \<and> pv_fs w' = pv_fs w \<and> pv_session w' = pv_session w \<and>
     (pv_result w' = pv_result w \<or> pr_state (pv_result w') = RS_MISMATCHED)"
  by (auto simp: claim_mismatch_def Let_def plain_result_def split: option.splits)

lemma accepted_claim_context:
  assumes "handle_pairing_request env req now transport w = (w', r)"
    and "pr_state (pv_result w') = RS_ACCEPTED" and "pr_state (pv_result w) \<noteq> RS_ACCEPTED"
    and "mobile_ok (pv_db w)" and "no_stale_folder (pv_db w) (py_strip (text_field req ''device_uuid''))"
  shows "\<exists>c. get_mobile_transfer_context (pv_db w') (text_field req ''sid'') (py_strip (text_field req ''device_uuid'')) = Some c \<and>
    tc_session_status c = MOBILE_BACKUP_SESSION_STATUS_PAIRED \<and>
    tc_trust_key_b64 c = derive_pairing_key_b64 (pe_sha256 env) (text_field req ''sid'')
      (text_field req ''opt'') (text_field req ''platform'')"
proof -
  from assms(1-3) obtain t where t: "utc_now (pe_clock env) now = Inr t"
    by (auto simp: handle_pairing_request_def split: sum.splits)
  obtain w1 r1 where check: "claim_check t req w = (w1, r1)" by (cases "claim_check t req w")
  have "\<exists>c. r1 = Inr (Inr c)"
  proof (rule ccontr)
    assume no: "\<not> ?thesis"
    with assms(1) t check have "w' = w1" by (auto simp: handle_pairing_request_def split: sum.splits)
    with claim_check_stop [OF check] no assms(2,3) show False by auto
  qed
  then obtain c where r1: "r1 = Inr (Inr c)" by blast
  from claim_check_go [OF check [unfolded r1]] obtain s token where
    w1: "w1 = w\<lparr>pv_in_progress := True\<rparr>" and good: "good_claim t req w s token c" by blast
  obtain w2 where body: "claim_body env c transport w1 = (w2, r)" and w': "w' = claim_finish w2"
    using assms(1) t check r1 by (auto simp: handle_pairing_request_def split: prod.splits)
  have accepted: "pr_state (pv_result w2) = RS_ACCEPTED" using assms(2) w' by simp
  let ?a = "acceptance_of_claim c transport"
  have "is_mismatch c = None"
  proof (rule ccontr)
    assume "is_mismatch c \<noteq> None"
    then obtain g where g: "is_mismatch c = Some g" by blast
    obtain w3 x where "claim_mismatch c g w1 = (w3, x)" by (cases "claim_mismatch c g w1")
    with claim_mismatch_frames [OF this] body g w1 accepted assms(3) show False
      by (auto simp: claim_body_def)
  qed
  then have run: "complete_pairing_acceptance env ?a w1 = (w2, r)" using body by (simp add: claim_body_def)
  have a: "ac_session_id ?a = text_field req ''sid''" "ac_device_uuid ?a = py_strip (text_field req ''device_uuid'')"
    "pairing_trust_key env ?a = derive_pairing_key_b64 (pe_sha256 env) (text_field req ''sid'')
      (text_field req ''opt'') (text_field req ''platform'')" "repairs_folder ?a = None"
    using good by (auto simp: acceptance_of_claim_def good_claim_def pairing_trust_key_def repairs_folder_def
        platform_of_value split: option.splits)
  from run show ?thesis
  proof (cases rule: complete_acceptance_cases)
    case (accepted s' did folder payload)
    have "accept_tables env ?a s' (pv_db w) (pv_fs w) = (pv_db w2, pv_fs w2, Inr (did, folder))"
      using accepted(2) w1 by simp
    from accept_tables_authorize [OF assms(4) _ _ this] assms(5) show ?thesis
      by (auto simp: a binding_holds_def w')
  next
    case (raised s' e)
    then have "pv_result w2 = pv_result w" using w1 by (metis pairing_world.select_convs(8) pairing_world.surjective pairing_world.update_convs)
    with accepted assms(3) show ?thesis by simp
  next
    case gone
    with accepted assms(3) w1 show ?thesis by simp
  qed
qed


section \<open>The recorded state of a session\<close>

fun result_matches :: "result_state \<Rightarrow> backup_state \<Rightarrow> bool" where
  "result_matches RS_WAITING s = (s = PENDING_PAIRING)"
| "result_matches RS_ACCEPTED s = (s = PAIRING_COMPLETED)"
| "result_matches RS_MISMATCHED s = (s = PAIRING_MISMATCHED)"
| "result_matches RS_STOPPED s = (s = PAIRING_STOPPED)"
| "result_matches RS_EXPIRED s = (s = PAIRING_EXPIRED)"
| "result_matches RS_REJECTED s = False"

text \<open>
  The record of the open session agrees with the result that the dialog shows, and a resolver thread
  that has not answered belongs to a mismatched session.
\<close>

definition service_ok :: "pairing_world \<Rightarrow> bool" where
  "service_ok w \<longleftrightarrow>
     (case pv_session w of
        None \<Rightarrow> True
      | Some s \<Rightarrow> (case dict_get (pv_records w) (ps_session_id s) of
                     None \<Rightarrow> False
                   | Some r \<Rightarrow> result_matches (pr_state (pv_result w)) (rc_state r)) \<and>
                  (pr_state (pv_result w) \<noteq> RS_MISMATCHED \<longrightarrow>
                     ps_session_id s \<notin> pd_session_id ` set (pv_threads w))) \<and>
     distinct (map pd_session_id (pv_threads w))"

text \<open>One state of the life cycle leads to another along its transition table.\<close>

definition reaches :: "backup_state \<Rightarrow> backup_state \<Rightarrow> bool" where
  "reaches s s' \<longleftrightarrow> (\<exists>es. backup_run s es = Inr s')"

lemma reaches_refl [simp]: "reaches s s"
  by (auto simp: reaches_def intro: exI [where x = "[]"])

definition moves :: "pairing_world \<Rightarrow> pairing_world \<Rightarrow> bool" where
  "moves w w' \<longleftrightarrow>
     (\<forall>sid r. dict_get (pv_records w') sid = Some r \<longrightarrow>
        reaches (recorded_state w sid) (rc_state r))"

lemma moves_same: "pv_records w' = pv_records w \<Longrightarrow> moves w w'"
  by (auto simp: moves_def recorded_state_def)

lemma moves_set:
  assumes "pv_records w' = dict_set (pv_records w) sid r"
    and "reaches (recorded_state w sid) (rc_state r)"
  shows "moves w w'"
  using assms by (auto simp: moves_def recorded_state_def split: if_splits)

lemma reaches_step: "backup_transition s e = Inr s' \<Longrightarrow> reaches s s'"
  by (auto simp: reaches_def bindE_def intro: exI [where x = "[e]"])

lemma reaches_step2: "backup_transition s e = Inr s' \<Longrightarrow> backup_transition s' e' = Inr s'' \<Longrightarrow> reaches s s''"
  by (auto simp: reaches_def bindE_def intro: exI [where x = "[e, e']"])

lemmas table_simps = backup_transition_def state_transitions_def dict_get_def

lemma machine_reaches:
  "s \<in> {PENDING_PAIRING, PAIRING_EXPIRED, PAIRING_STOPPED, PAIRING_COMPLETED} \<Longrightarrow> reaches s PAIRING_COMPLETED"
  "reaches PAIRING_MISMATCHED PAIRING_COMPLETED"
  "s \<in> {PENDING_PAIRING, PAIRING_EXPIRED} \<Longrightarrow> reaches s PAIRING_EXPIRED"
  "s \<in> {PENDING_PAIRING, PAIRING_EXPIRED} \<Longrightarrow> reaches s PAIRING_MISMATCHED"
  "s \<in> {PENDING_PAIRING, PAIRING_EXPIRED, PAIRING_STOPPED, PAIRING_MISMATCHED} \<Longrightarrow> reaches s PAIRING_STOPPED"
  by (auto intro: reaches_step [where e = E_PAIRING_ACCEPTED] reaches_step [where e = E_PAIRING_EXPIRED]
      reaches_step [where e = E_PAIRING_MISMATCH_DETECTED] reaches_step [where e = E_PAIRING_STOPPED]
      reaches_step2 [where e = E_PAIRING_MISMATCH_RESOLVED and e' = E_PAIRING_ACCEPTED] simp: table_simps)

lemma accepted_state_pairing:
  "s \<in> {PENDING_PAIRING, PAIRING_EXPIRED, PAIRING_STOPPED, PAIRING_COMPLETED, PAIRING_MISMATCHED} \<Longrightarrow>
     accepted_state s = PAIRING_COMPLETED \<and> reaches s PAIRING_COMPLETED"
  using machine_reaches(1) [of s] machine_reaches(2)
  by (auto simp: accepted_state_def advance_backup_state_machine_def table_simps)

lemma stopped_state_pairing:
  "s \<in> {PENDING_PAIRING, PAIRING_EXPIRED, PAIRING_STOPPED, PAIRING_MISMATCHED} \<Longrightarrow>
     advance_backup_state_machine s E_PAIRING_STOPPED = PAIRING_STOPPED"
  by (auto simp: advance_backup_state_machine_def table_simps)

lemma service_ok_active:
  assumes "service_ok w" and "pv_session w = Some s"
  shows "result_matches (pr_state (pv_result w)) (recorded_state w (ps_session_id s))"
    and "pr_state (pv_result w) \<noteq> RS_MISMATCHED \<Longrightarrow> ps_session_id s \<notin> pd_session_id ` set (pv_threads w)"
    and "dict_get (pv_records w) (ps_session_id s) \<noteq> None"
  using assms by (auto simp: service_ok_def recorded_state_def split: option.splits)

lemma matched_states:
  "result_matches x s \<Longrightarrow> s \<in> {PENDING_PAIRING, PAIRING_EXPIRED, PAIRING_STOPPED, PAIRING_COMPLETED, PAIRING_MISMATCHED}"
  by (cases x) auto

text \<open>
  One call of the service, run to its end.  A session gets an identifier that no record and no
  thread has; a thread answers at most once.
\<close>

inductive pairing_op :: "pairing_world \<Rightarrow> pairing_world \<Rightarrow> bool" where
  op_start: "start_pairing_session env lan parent again now w = (w', r) \<Longrightarrow>
    dict_get (pv_records w) (pe_session_hex env) = None \<Longrightarrow>
    pe_session_hex env \<notin> pd_session_id ` set (pv_threads w) \<Longrightarrow> pairing_op w w'"
| op_refresh: "refresh_token env platform now w = (w', t) \<Longrightarrow> pairing_op w w'"
| op_close: "pairing_op w (close_active_session w)"
| op_shutdown: "pairing_op w (shutdown w)"
| op_claim: "handle_pairing_request env req now transport w = (w', a) \<Longrightarrow> pairing_op w w'"
| op_answer: "p \<in> set (pv_threads w) \<Longrightarrow>
    resolve_backup_again_mismatch env resolver p (w\<lparr>pv_threads := remove1 p (pv_threads w)\<rparr>) = (w', u) \<Longrightarrow>
    pairing_op w w'"

inductive_cases pairing_opE: "pairing_op w w'"

definition keeps :: "pairing_world \<Rightarrow> pairing_world \<Rightarrow> bool" where
  "keeps w w' \<longleftrightarrow> service_ok w' \<and> moves w w'"

lemma keeps_refl: "service_ok w \<Longrightarrow> keeps w w"
  by (simp add: keeps_def moves_same)

lemma keeps_cong:
  assumes "service_ok w" and "pv_records w' = pv_records w" "pv_result w' = pv_result w"
    "map_option ps_session_id (pv_session w') = map_option ps_session_id (pv_session w)" "pv_threads w' = pv_threads w"
  shows "keeps w w'"
  using assms by (auto simp: keeps_def moves_same service_ok_def split: option.splits) (metis image_eqI)

lemma keeps_set_record:
  assumes ok: "service_ok w" and s: "pv_session w = Some s" and s': "pv_session w' = Some s"
    and rec: "pv_records w' = dict_set (pv_records w) (ps_session_id s) r"
    and run: "reaches (recorded_state w (ps_session_id s)) (rc_state r)"
    and res: "result_matches (pr_state (pv_result w')) (rc_state r)"
    and th: "distinct (map pd_session_id (pv_threads w'))"
      "pr_state (pv_result w') \<noteq> RS_MISMATCHED \<Longrightarrow> ps_session_id s \<notin> pd_session_id ` set (pv_threads w')"
  shows "keeps w w'"
  unfolding keeps_def
proof
  show "service_ok w'" using s' rec res th by (auto simp: service_ok_def)
  show "moves w w'" using moves_set [OF rec] run by blast
qed

lemma keeps_start:
  assumes ok: "service_ok w" and run: "start_pairing_session env lan parent again now w = (w', r)"
    and fresh: "dict_get (pv_records w) (pe_session_hex env) = None" "pe_session_hex env \<notin> pd_session_id ` set (pv_threads w)"
  shows "keeps w w'"
proof (cases "ensure_server_started lan w")
  case (Inl e)
  with run ok show ?thesis by (auto simp: start_pairing_session_def keeps_refl)
next
  case (Inr w1)
  then have w1: "pv_records w1 = pv_records w" "pv_result w1 = pv_result w" "pv_session w1 = pv_session w"
      "pv_threads w1 = pv_threads w"
    by (auto simp: ensure_server_started_def exn_simps)
  note run1 = run [unfolded start_pairing_session_def Inr sum.case Let_def]
  have sess: "ps_session_id s = pe_session_hex env"
    if "create_session b n d (pe_session_hex env) t x y z g = Inr s" for b n d t x y z g s
    using that by (auto simp: create_session_def Let_def exn_simps)
  have opened: "keeps w (f (open_session s again w1))"
    if "ps_session_id s = pe_session_hex env" and "\<And>v. pv_records (f v) = pv_records v \<and> pv_result (f v) = pv_result v \<and>
        pv_session (f v) = pv_session v \<and> pv_threads (f v) = pv_threads v" for s f
  proof -
    have "moves w (f (open_session s again w1))"
      using fresh(1) that by (intro moves_set) (auto simp: open_session_def w1 recorded_state_def)
    moreover have "service_ok (f (open_session s again w1))"
      using ok fresh(2) that by (auto simp: service_ok_def open_session_def w1 plain_result_def)
    ultimately show ?thesis by (simp add: keeps_def)
  qed
  have conf: "pv_records (configure_usb_bootstrap_for_token i t v) = pv_records v \<and>
      pv_result (configure_usb_bootstrap_for_token i t v) = pv_result v \<and>
      pv_session (configure_usb_bootstrap_for_token i t v) = pv_session v \<and>
      pv_threads (configure_usb_bootstrap_for_token i t v) = pv_threads v" for i t v
    by (simp add: configure_usb_bootstrap_for_token_def Let_def)
  have "keeps w w1" using ok w1 by (intro keeps_cong) auto
  with run1 show ?thesis
    by (auto simp: exn_simps split: if_splits sum.splits
        intro: opened [of _ "\<lambda>v. v", OF sess] opened [of _ "configure_usb_bootstrap_for_token _ _", OF sess conf] dest: sym)
qed


lemma keeps_refresh:
  assumes ok: "service_ok w" and run: "refresh_token env platform now w = (w', t)"
  shows "keeps w w'"
proof -
  have same: "ps_session_id s' = ps_session_id s"
    if "refresh_session_token b d n p s = Inr (s', x)" for b d n p s s' x
    using that by (auto simp: refresh_session_token_def Let_def exn_simps split: mobile_platform.splits)
  have conf: "pv_records (configure_usb_bootstrap_for_token i t v) = pv_records v"
      "pv_result (configure_usb_bootstrap_for_token i t v) = pv_result v"
      "pv_session (configure_usb_bootstrap_for_token i t v) = pv_session v"
      "pv_threads (configure_usb_bootstrap_for_token i t v) = pv_threads v" for i t v
    by (simp_all add: configure_usb_bootstrap_for_token_def Let_def)
  show ?thesis
    using run ok
    by (auto simp: refresh_token_def exn_simps conf keeps_refl dest!: same sym [of "Inr _"] intro!: keeps_cong [OF ok]
        split: option.splits if_splits sum.splits)
qed

lemma keeps_close: 
  assumes ok: "service_ok w"
  shows "keeps w (close_active_session w)"
proof -
  let ?w' = "close_active_session w"
  have frame: "pv_session ?w' = None" "pv_threads ?w' = pv_threads w"
    by (auto simp: close_active_session_def clear_transfer_transport_tracking_def stop_waiting_session_def Let_def
        split: option.split)
  have "service_ok ?w'" using ok by (simp add: service_ok_def frame)
  moreover have "moves w ?w'"
  proof (cases "\<exists>s. pv_session w = Some s \<and> pr_state (pv_result w) \<noteq> RS_ACCEPTED")
    case False
    then show ?thesis
      by (intro moves_same) (auto simp: close_active_session_def clear_transfer_transport_tracking_def Let_def
          split: option.split)
  next
    case True
    then obtain s where s: "pv_session w = Some s" "pr_state (pv_result w) \<noteq> RS_ACCEPTED" by blast
    have rec: "\<exists>r. pv_records ?w' = dict_set (pv_records w) (ps_session_id s) r \<and> rc_state r = PAIRING_STOPPED"
      using s by (auto simp: close_active_session_def clear_transfer_transport_tracking_def stop_waiting_session_def Let_def
          set_record_def)
    have "recorded_state w (ps_session_id s) \<in> {PENDING_PAIRING, PAIRING_EXPIRED, PAIRING_STOPPED, PAIRING_MISMATCHED}"
      using service_ok_active(1) [OF ok s(1)] s(2) by (cases "pr_state (pv_result w)") auto
    from machine_reaches(5) [OF this] rec show ?thesis by (metis moves_set)
  qed
  ultimately show ?thesis by (simp add: keeps_def)
qed

lemma keeps_shutdown: "service_ok w \<Longrightarrow> keeps w (shutdown w)"
  by (auto simp: keeps_def moves_def service_ok_def shutdown_def dict_get_def)

text \<open>A claim that goes on, or finds the code expired, has no settled answer.\<close>

lemma claim_unsettled:
  assumes ok: "service_ok w" and check: "claim_check t req w = (w1, r)"
    and s: "pv_session w = Some s" and go: "(\<exists>c. r = Inr (Inr c)) \<or> w1 \<noteq> w"
  shows "pr_state (pv_result w) \<in> {RS_WAITING, RS_EXPIRED}"
proof -
  have "settled_answer (ps_session_id s) w = None"
    using check s go by (auto simp: claim_check_def split: option.splits if_splits sum.splits)
  with service_ok_active [OF ok s] show ?thesis
    by (cases "pr_state (pv_result w)") (auto simp: settled_answer_def)
qed

lemma unsettled_record:
  assumes "service_ok w" and "pv_session w = Some s" and "pr_state (pv_result w) \<in> {RS_WAITING, RS_EXPIRED}"
  shows "recorded_state w (ps_session_id s) \<in> {PENDING_PAIRING, PAIRING_EXPIRED}"
    and "ps_session_id s \<notin> pd_session_id ` set (pv_threads w)" and "distinct (map pd_session_id (pv_threads w))"
  using service_ok_active [OF assms(1,2)] assms by (auto simp: service_ok_def)

lemma keeps_expire:
  assumes "service_ok w" and "pv_session w = Some s" and "pr_state (pv_result w) \<in> {RS_WAITING, RS_EXPIRED}"
  shows "keeps w (expire_session (ps_session_id s) w)"
proof -
  note rec = unsettled_record [OF assms]
  let ?w' = "expire_session (ps_session_id s) w"
  have "\<exists>r. pv_records ?w' = dict_set (pv_records w) (ps_session_id s) r \<and> rc_state r = PAIRING_EXPIRED"
    unfolding expire_session_def Let_def by (rule exI, rule conjI) (simp only: world_frames pairing_world.simps, simp+)
  then obtain r where r: "pv_records ?w' = dict_set (pv_records w) (ps_session_id s) r" "rc_state r = PAIRING_EXPIRED"
    by blast
  show ?thesis
    by (rule keeps_set_record [OF assms(1,2) _ r(1)]) (simp_all add: rec r(2) machine_reaches(3) [OF rec(1)] assms(2))
qed

lemma keeps_trans_same:
  assumes "keeps w v" and "pv_records w' = pv_records v" "pv_result w' = pv_result v"
    "pv_session w' = pv_session v" "pv_threads w' = pv_threads v"
  shows "keeps w w'"
  using assms by (simp add: keeps_def moves_def service_ok_def cong: option.case_cong)

lemma keeps_mismatch:
  assumes "service_ok w" and "pr_state (pv_result w) \<in> {RS_WAITING, RS_EXPIRED}"
    and "claim_mismatch c g w = (w', x)"
  shows "keeps w w'"
proof (cases "active_with_id (cl_session_id c) w")
  case None
  with assms show ?thesis by (simp add: claim_mismatch_def keeps_refl)
next
  case (Some s)
  then have s: "pv_session w = Some s" "cl_session_id c = ps_session_id s" by (auto simp: active_with_id_Some)
  note rec = unsettled_record [OF assms(1) s(1) assms(2)]
  have "\<exists>r p. pv_records w' = dict_set (pv_records w) (ps_session_id s) r \<and> rc_state r = PAIRING_MISMATCHED \<and>
      pv_session w' = pv_session w \<and> pr_state (pv_result w') = RS_MISMATCHED \<and>
      pv_threads w' = pv_threads w @ [p] \<and> pd_session_id p = ps_session_id s"
    using assms(3) Some s(2) by (auto simp: claim_mismatch_def Let_def plain_result_def)
  then obtain r p where r: "pv_records w' = dict_set (pv_records w) (ps_session_id s) r" "rc_state r = PAIRING_MISMATCHED"
      "pv_session w' = pv_session w" "pr_state (pv_result w') = RS_MISMATCHED"
      "pv_threads w' = pv_threads w @ [p]" "pd_session_id p = ps_session_id s" by blast
  show ?thesis
    by (rule keeps_set_record [OF assms(1) s(1) _ r(1)]) (use rec in \<open>simp_all add: r s(1) machine_reaches(4) [OF rec(1)]\<close>)
qed

lemma accept_commit_done:
  assumes "accept_commit env a did folder v = (w', x)" and "active_with_id (ac_session_id a) v = Some s"
  shows "pr_state (pv_result w') = RS_ACCEPTED"
    and "\<exists>r. pv_records w' = dict_set (pv_records v) (ac_session_id a) r \<and>
      rc_state r = accepted_state (recorded_state v (ac_session_id a))"
  using assms by (auto simp: accept_commit_def Let_def)

text \<open>An acceptance is reached with no thread of its session left.\<close>

lemma keeps_acceptance:
  assumes ok: "service_ok w" and free: "ac_session_id a \<notin> pd_session_id ` set (pv_threads w)"
    and run: "complete_pairing_acceptance env a w = (w', r)"
  shows "keeps w w'"
  using run
proof (cases rule: complete_acceptance_cases)
  case gone
  with ok show ?thesis by (simp add: keeps_refl)
next
  case (raised s e)
  obtain db fs where "w' = w\<lparr>pv_db := db, pv_fs := fs\<rparr>" using raised by blast
  with ok show ?thesis by (intro keeps_cong) auto
next
  case (accepted s did folder payload)
  then have s: "pv_session w = Some s" "ac_session_id a = ps_session_id s" by (auto simp: active_with_id_Some)
  have "recorded_state w (ps_session_id s)
      \<in> {PENDING_PAIRING, PAIRING_EXPIRED, PAIRING_STOPPED, PAIRING_COMPLETED, PAIRING_MISMATCHED}"
    using matched_states [OF service_ok_active(1) [OF ok s(1)]] by blast
  note st = accepted_state_pairing [OF this]
  let ?v = "w\<lparr>pv_db := pv_db w', pv_fs := pv_fs w'\<rparr>"
  have act: "active_with_id (ac_session_id a) ?v = Some s" using accepted(1) by (simp add: active_with_id_def)
  have "recorded_state ?v sid = recorded_state w sid" for sid by (simp add: recorded_state_def)
  with accept_commit_done [OF accepted(3) act] st s(2) obtain r where
    r: "pv_records w' = dict_set (pv_records w) (ps_session_id s) r" "rc_state r = PAIRING_COMPLETED" by auto
  have frame: "pv_session w' = Some s" "pv_threads w' = pv_threads w"
    using accept_commit_frames [OF accepted(3)] s by simp_all
  show ?thesis
    by (rule keeps_set_record [OF ok s(1) frame(1) r(1)])
      (use free s ok st accept_commit_done(1) [OF accepted(3) act] in \<open>simp_all add: r(2) frame service_ok_def\<close>)
qed

lemma keeps_claim:
  assumes ok: "service_ok w" and run: "handle_pairing_request env req now transport w = (w', a)"
  shows "keeps w w'"
proof (cases "utc_now (pe_clock env) now")
  case (Inl e)
  with run ok show ?thesis by (simp add: handle_pairing_request_def keeps_refl)
next
  case (Inr t)
  obtain w1 r1 where check: "claim_check t req w = (w1, r1)" by (cases "claim_check t req w")
  show ?thesis
  proof (cases "\<exists>c. r1 = Inr (Inr c)")
    case False
    with run Inr check have "w' = w1" by (auto simp: handle_pairing_request_def split: sum.splits)
    with claim_check_stop [OF check] False claim_unsettled [OF ok check] ok show ?thesis
      by (metis keeps_expire keeps_refl)
  next
    case True
    then obtain c where r1: "r1 = Inr (Inr c)" by blast
    from claim_check_go [OF check [unfolded r1]] obtain s token where
      w1: "w1 = w\<lparr>pv_in_progress := True\<rparr>" and good: "good_claim t req w s token c" by blast
    have s: "pv_session w = Some s" "cl_session_id c = ps_session_id s" using good by (simp_all add: good_claim_def)
    have open': "pr_state (pv_result w) \<in> {RS_WAITING, RS_EXPIRED}"
      using claim_unsettled [OF ok check s(1)] r1 by blast
    have ok1: "service_ok w1" using ok by (simp add: w1 service_ok_def cong: option.case_cong)
    obtain w2 where body: "claim_body env c transport w1 = (w2, a)" and w': "w' = claim_finish w2"
      using run Inr check r1 by (auto simp: handle_pairing_request_def split: prod.splits)
    have "keeps w1 w2"
    proof (cases "is_mismatch c")
      case None
      with body have "complete_pairing_acceptance env (acceptance_of_claim c transport) w1 = (w2, a)"
        by (simp add: claim_body_def)
      then show ?thesis
        using unsettled_record(2) [OF ok s(1) open'] ok1 s(2)
        by (intro keeps_acceptance) (auto simp: acceptance_of_claim_def w1)
    next
      case (Some g)
      with body obtain x where "claim_mismatch c g w1 = (w2, x)"
        by (auto simp: claim_body_def split: prod.splits)
      with open' ok1 show ?thesis by (intro keeps_mismatch) (simp_all add: w1)
    qed
    then have "keeps w w2" by (simp add: keeps_def moves_def w1 recorded_state_def)
    then show ?thesis by (rule keeps_trans_same) (simp_all add: w')
  qed
qed

lemma keeps_stopped:
  assumes ok: "service_ok w" and free: "sid \<notin> pd_session_id ` set (pv_threads w)"
    and mis: "\<And>s. pv_session w = Some s \<Longrightarrow> ps_session_id s = sid \<Longrightarrow> pr_state (pv_result w) = RS_MISMATCHED"
  shows "keeps w (complete_pairing_stopped sid u n m w)"
proof (cases "active_with_id sid w")
  case None
  with ok show ?thesis by (simp add: complete_pairing_stopped_def keeps_refl)
next
  case (Some s)
  then have s: "pv_session w = Some s" "sid = ps_session_id s" by (auto simp: active_with_id_Some)
  let ?w' = "complete_pairing_stopped sid u n m w"
  have st: "recorded_state w (ps_session_id s) = PAIRING_MISMATCHED"
    using service_ok_active(1) [OF ok s(1)] mis s by simp
  then have "\<exists>r. pv_records ?w' = dict_set (pv_records w) (ps_session_id s) r \<and> rc_state r = PAIRING_STOPPED"
    using Some s(2) by (auto simp: complete_pairing_stopped_def Let_def stopped_state_pairing)
  then obtain r where r: "pv_records ?w' = dict_set (pv_records w) (ps_session_id s) r" "rc_state r = PAIRING_STOPPED"
    by blast
  have frame: "pv_session ?w' = Some s" "pv_threads ?w' = pv_threads w" "pr_state (pv_result ?w') = RS_STOPPED"
    using Some s(1) by (simp_all add: complete_pairing_stopped_def Let_def plain_result_def)
  show ?thesis
    by (rule keeps_set_record [OF ok s(1) frame(1) r(1)])
      (use free s ok st in \<open>simp_all add: r(2) frame [unfolded s(2)] service_ok_def machine_reaches(5)\<close>)
qed

lemma remove1_image: "distinct (map f xs) \<Longrightarrow> x \<in> set xs \<Longrightarrow> f x \<notin> f ` set (remove1 x xs)"
  by (auto simp: distinct_map inj_on_def)

lemma keeps_answer:
  assumes ok: "service_ok w" and p: "p \<in> set (pv_threads w)"
    and run: "resolve_backup_again_mismatch env resolver p (w\<lparr>pv_threads := remove1 p (pv_threads w)\<rparr>) = (w', u)"
  shows "keeps w w'"
proof -
  let ?v = "w\<lparr>pv_threads := remove1 p (pv_threads w)\<rparr>"
  have dist: "distinct (map pd_session_id (pv_threads w))" using ok by (simp add: service_ok_def)
  have free: "pd_session_id p \<notin> pd_session_id ` set (pv_threads ?v)"
    using remove1_image [OF dist p] by simp
  have okv: "service_ok ?v"
    using ok dist by (auto simp: service_ok_def distinct_remove1 distinct_map inj_on_def dest: notin_set_remove1
        split: option.splits)
  have mis: "pr_state (pv_result ?v) = RS_MISMATCHED" if "pv_session ?v = Some s" "ps_session_id s = pd_session_id p" for s
    using service_ok_active(2) [OF ok, of s] that p by force
  have "keeps ?v w'"
    using run keeps_stopped [OF okv free mis] keeps_acceptance [OF okv, of "acceptance_of_pending p _"] free
    by (auto simp: resolve_backup_again_mismatch_def acceptance_of_pending_def
        split: resolver_outcome.splits option.splits again_decision.splits prod.splits sum.splits)
  then show ?thesis by (simp add: keeps_def moves_def recorded_state_def)
qed


end
