(* ===== verification/PairingScenarios.thy ===== *)
theory PairingScenarios
  imports PairingServiceProps
begin

text \<open>
  Concrete runs of the pairing service: the witnesses of \<open>PairingServiceProps\<close>, and runs that show
  what the service does when its steps meet in an order that the dialog does not expect.
\<close>

section \<open>A session that is shown\<close>

definition first_day :: pydatetime where
  "first_day = \<lparr>dt_day = 0, dt_us = 0, dt_off = Some 0\<rparr>"

definition pairing_example_env :: pairing_env where
  "pairing_example_env =
     \<lparr>pe_clock = first_day, pe_sha256 = (\<lambda>_. [1]), pe_expand = path_of, pe_resolve = id,
      pe_bracket_ok = (\<lambda>_. True), pe_stamp = ''t'', pe_device_hex = ''d1'', pe_desktop_name = ''pc'',
      pe_strict = True, pe_session_hex = ''s2'', pe_draw = example_draw, pe_usb_connected = False\<rparr>"

definition shown_token :: pairing_token where
  "shown_token =
     \<lparr>pt_one_time_passcode = ''000042'', pt_suggested_usb_port = 47007, pt_payload = ''qr'',
      pt_endpoint_targets = [''pc:80''], pt_strict_security_enabled = True,
      pt_expires_at = first_day\<lparr>dt_us := 900000000\<rparr>, pt_refresh_generation = 0\<rparr>"

definition shown_session :: pairing_session where
  "shown_session =
     \<lparr>ps_destination_parent = ''/backup'', ps_desktop_endpoint_urls = [''http://pc:80''],
      ps_session_id = ''s2'', ps_created_at = first_day,
      ps_tokens = [(ANDROID, shown_token), (IOS, shown_token)]\<rparr>"

definition no_files :: pyfs where
  "no_files = \<lparr>fs_files = [], fs_dirs = [], fs_mtimes = [], fs_faults = []\<rparr>"

definition shown_world :: "again_context option \<Rightarrow> pairing_world" where
  "shown_world again = open_session shown_session again (pairing_init example_store no_files)"

definition phone_claim :: "string \<Rightarrow> string \<Rightarrow> payload" where
  "phone_claim passcode device_uuid =
     [(''schema'', JStr PAIRING_PROTOCOL_SCHEMA), (''sid'', JStr ''s2''), (''opt'', JStr passcode),
      (''platform'', JStr ''ios''), (''device_uuid'', JStr device_uuid), (''device_name'', JStr ''Phone''),
      (''client_nonce'', JStr ''n'')]"

definition example_claim :: "string \<Rightarrow> again_context option \<Rightarrow> claim" where
  "example_claim device_uuid again =
     \<lparr>cl_session_id = ''s2'', cl_platform = IOS, cl_token = shown_token, cl_device_uuid = device_uuid,
      cl_device_name = ''Phone'', cl_client_nonce = ''n'', cl_current_time = first_day, cl_again = again\<rparr>"

lemma claim_texts:
  "present_text (phone_claim c u) ''schema''" "present_text (phone_claim c u) ''sid''"
  "present_text (phone_claim c u) ''platform''" 
  "present_text (phone_claim c u) ''device_name''" "present_text (phone_claim c u) ''client_nonce''"
  "present_text (phone_claim ''000042'' u) ''opt''" "present_text (phone_claim c ''old'') ''device_uuid''"
  "present_text (phone_claim c ''new'') ''device_uuid''"
  by code_simp+

lemma claim_fields:
  "text_field (phone_claim c u) ''schema'' = PAIRING_PROTOCOL_SCHEMA" "text_field (phone_claim c u) ''sid'' = ''s2''"
  "text_field (phone_claim c u) ''opt'' = c" "text_field (phone_claim c u) ''platform'' = ''ios''"
  "text_field (phone_claim c u) ''device_uuid'' = u" "text_field (phone_claim c u) ''device_name'' = ''Phone''"
  "text_field (phone_claim c u) ''client_nonce'' = ''n''"
  by (simp_all add: text_field_def phone_claim_def dict_get_def)

lemma example_claim_check:
  "u \<in> {''old'', ''new''} \<Longrightarrow> claim_check first_day (phone_claim ''000042'' u) (shown_world again) =
     ((shown_world again)\<lparr>pv_in_progress := True\<rparr>, Inr (Inr (example_claim u again)))"
proof -
  assume u: "u \<in> {''old'', ''new''}"
  have "find (\<lambda>f. \<not> present_text (phone_claim ''000042'' u) f) CLAIM_FIELDS = None"
    using u claim_texts by (auto simp: CLAIM_FIELDS_def)
  moreover have "pv_session (shown_world again) = Some shown_session" "pv_again (shown_world again) = again"
    "settled_answer ''s2'' (shown_world again) = None" "\<not> pv_in_progress (shown_world again)"
    by (simp_all add: shown_world_def open_session_def settled_answer_def plain_result_def)
  moreover have "py_strip u = u" "py_strip ''Phone'' = ''Phone''" "py_strip ''n'' = ''n''" using u by auto code_simp+
  moreover have "platform_of ''ios'' = Some IOS" by code_simp
  moreover have "\<not> is_expired shown_token first_day"
    by (simp add: is_expired_def seconds_remaining_def dt_minus_us_def shown_token_def first_day_def)
  moreover have "token_for shown_session IOS = Inr shown_token" "ps_session_id shown_session = ''s2''"
    by (simp_all add: token_for_def shown_session_def dict_get_def)
  moreover have "pt_one_time_passcode shown_token = ''000042''" by (simp add: shown_token_def)
  ultimately show ?thesis
    unfolding claim_check_def by (simp add: claim_fields example_claim_def)
qed

definition acceptance_over :: "string option \<Rightarrow> acceptance" where
  "acceptance_over transport = acceptance_of_claim (example_claim ''old'' None) transport"

abbreviation shown_acceptance :: acceptance where
  "shown_acceptance \<equiv> acceptance_over None"

lemma shown_tables_ok:
  "mobile_ok example_store" "no_stale_folder example_store ''old''" "pv_db (shown_world again) = example_store"
  "pv_fs (shown_world again) = no_files"
  by (simp_all add: mobile_ok_def mobile_keys_ok_def sessions_bound_def mf_pair_def example_store_def example_db_def
      no_stale_folder_def shown_world_def open_session_def pairing_init_def)

text \<open>The phone that is known gets its folder back.\<close>

lemma shown_tables_accept:
  "\<exists>db did folder. accept_tables pairing_example_env (acceptance_over transport) shown_session example_store no_files =
     (db, no_files, Inr (did, folder)) \<and> mfr_folder_id folder = 1"
proof -
  obtain db1 did where dev: "get_or_create_desktop_device_id example_store (pe_device_hex pairing_example_env) = (db1, did)"
    by (cases "get_or_create_desktop_device_id example_store (pe_device_hex pairing_example_env)")
  have db1: "db_mobile_folders db1 = db_mobile_folders example_store" "db_folders db1 = db_folders example_store"
      "db_devices db1 = db_devices example_store" "db_sessions db1 = db_sessions example_store"
    using device_id_tables [of example_store "pe_device_hex pairing_example_env"] by (simp_all add: dev)
  let ?db2 = "upsert_mobile_device db1 ''old'' ''ios'' ''Phone'' (pairing_trust_key pairing_example_env (acceptance_over transport)) first_day"
  have stale: "filter (\<lambda>r. mf_device_uuid r = ''old'' \<and> \<not> list_ex (\<lambda>f. fo_id f = mf_folder_id r) (db_folders ?db2))
      (db_mobile_folders ?db2) = []"
    by (simp add: db1 example_store_def example_db_def)
  have found: "\<exists>f. folder_of_device ?db2 ''old'' = Some f \<and> fo_id f = 1"
    by (simp add: folder_of_device_def fetchone_def db1 example_store_def example_db_def)
  then obtain f where f: "folder_of_device ?db2 ''old'' = Some f" "fo_id f = 1" by blast
  have "\<not> list_ex (\<lambda>r. se_session_id r = ''s2'') (db_sessions (set_folder_state_of_device ''old'' s t ?db2))" for s t
    by (simp add: set_folder_state_of_device_def db1 example_store_def)
  then show ?thesis
    using f stale
    by (simp add: accept_tables_def dev accept_folder_def acceptance_over_def acceptance_of_claim_def example_claim_def
        repairs_folder_def get_or_create_mobile_folder_def insert_mobile_backup_session_def pairing_trust_key_def Let_def)
qed

abbreviation shown_run_over :: "string option \<Rightarrow> pairing_world \<times> (int \<times> payload) res" where
  "shown_run_over transport \<equiv>
     handle_pairing_request pairing_example_env (phone_claim ''000042'' ''old'') None transport (shown_world None)"

abbreviation shown_run :: "pairing_world \<times> (int \<times> payload) res" where
  "shown_run \<equiv> shown_run_over None"

lemma shown_accepts_over: "pr_state (pv_result (fst (shown_run_over transport))) = RS_ACCEPTED"
proof -
  let ?w1 = "(shown_world None)\<lparr>pv_in_progress := True\<rparr>"
  have clock: "utc_now (pe_clock pairing_example_env) None = Inr first_day"
    by (simp add: utc_now_def pairing_example_env_def)
  have act: "active_with_id (ac_session_id (acceptance_over transport)) v = Some shown_session"
    if "pv_session v = Some shown_session" for v
    using that by (simp add: active_with_id_def acceptance_over_def acceptance_of_claim_def example_claim_def shown_session_def)
  have sess: "pv_session ?w1 = Some shown_session" by (simp add: shown_world_def open_session_def)
  obtain db did folder where
    tables: "accept_tables pairing_example_env (acceptance_over transport) shown_session example_store no_files = (db, no_files, Inr (did, folder))"
    using shown_tables_accept by blast
  let ?v = "?w1\<lparr>pv_db := db, pv_fs := no_files\<rparr>"
  obtain w2 x where commit: "accept_commit pairing_example_env (acceptance_over transport) did folder ?v = (w2, x)"
    by (cases "accept_commit pairing_example_env (acceptance_over transport) did folder ?v")
  have "complete_pairing_acceptance pairing_example_env (acceptance_over transport) ?w1 = (w2, Inr x)"
    using act [OF sess] tables commit by (simp add: complete_pairing_acceptance_def shown_tables_ok)
  then have "shown_run_over transport = (claim_finish w2, Inr x)"
    using example_claim_check [of "''old''" None] clock
    by (simp add: handle_pairing_request_def claim_body_def is_mismatch_def example_claim_def acceptance_over_def)
  moreover have "pr_state (pv_result w2) = RS_ACCEPTED"
    by (rule accept_commit_done(1) [OF commit act]) (use sess in simp)
  ultimately show ?thesis by simp
qed

lemmas shown_accepts = shown_accepts_over [of None]

lemma shown_waits: "pr_state (pv_result (shown_world again)) = RS_WAITING"
  by (simp add: shown_world_def open_session_def plain_result_def)

lemma strip_old: "py_strip ''old'' = ''old''"
  by code_simp


lemma pairing_needs_passcode_witness:
  "\<exists>t p token. token_for shown_session p = Inr token \<and> pt_one_time_passcode token = ''000042'' \<and> \<not> is_expired token t"
proof -
  obtain r where run: "shown_run = (fst shown_run, r)" by (metis prod.collapse)
  have "pv_result (fst shown_run) \<noteq> pv_result (shown_world None) \<and>
      pr_state (pv_result (fst shown_run)) \<in> {RS_ACCEPTED, RS_MISMATCHED}"
    using shown_accepts shown_waits [of None] by auto
  then have "\<exists>t s p token. pv_session (shown_world None) = Some s \<and> token_for s p = Inr token \<and>
      ''000042'' = pt_one_time_passcode token \<and> \<not> is_expired token t"
    using pairing_needs_passcode [OF run] unfolding claim_fields by blast
  moreover have "pv_session (shown_world None) = Some shown_session" by (simp add: shown_world_def open_session_def)
  ultimately show ?thesis by force
qed

lemma shown_service_ok: "service_ok (shown_world again)"
  by (simp add: service_ok_def shown_world_def open_session_def plain_result_def pairing_init_def shown_session_def
      set_record_def dict_get_def)


section \<open>A session that is closed while its acceptance is written\<close>

text \<open>
  A phone whose pairing the desktop has closed can still be let in: the tables are written between
  the two locked blocks, so when the session is closed in between, the claim is answered with 404 and
  no result is shown, but the store keeps the phone with a paired session and its trust key.
\<close>
theorem close_during_acceptance:
  assumes "mobile_ok (pv_db w)" and "binding_holds (pv_db w) a" and "no_stale_folder (pv_db w) (ac_device_uuid a)"
    and "active_with_id (ac_session_id a) w = Some s"
    and "accept_tables env a s (pv_db w) (pv_fs w) = (db', fs', Inr (did, folder))"
  shows "\<exists>c. accept_commit env a did folder (close_active_session (w\<lparr>pv_db := db', pv_fs := fs'\<rparr>)) =
      (close_active_session (w\<lparr>pv_db := db', pv_fs := fs'\<rparr>), no_session_response) \<and>
    get_mobile_transfer_context (pv_db (close_active_session (w\<lparr>pv_db := db', pv_fs := fs'\<rparr>)))
      (ac_session_id a) (ac_device_uuid a) = Some c \<and>
    tc_session_status c = MOBILE_BACKUP_SESSION_STATUS_PAIRED \<and> tc_trust_key_b64 c = pairing_trust_key env a"
proof -
  let ?v = "close_active_session (w\<lparr>pv_db := db', pv_fs := fs'\<rparr>)"
  have "pv_session ?v = None \<and> pv_db ?v = db'"
    by (auto simp: close_active_session_def clear_transfer_transport_tracking_def stop_waiting_session_def Let_def
        split: option.split)
  then show ?thesis
    using accept_tables_authorize [OF assms(1-3,5)] by (auto simp: accept_commit_def active_with_id_def)
qed

lemma close_during_acceptance_witness:
  "\<exists>db did folder c. accept_tables pairing_example_env shown_acceptance shown_session example_store no_files =
     (db, no_files, Inr (did, folder)) \<and>
   get_mobile_transfer_context (pv_db (close_active_session ((shown_world None)\<lparr>pv_db := db, pv_fs := no_files\<rparr>)))
     (ac_session_id shown_acceptance) (ac_device_uuid shown_acceptance) = Some c"
proof -
  obtain db did folder where tables: "accept_tables pairing_example_env shown_acceptance shown_session example_store no_files =
     (db, no_files, Inr (did, folder))" using shown_tables_accept by blast
  have a: "repairs_folder shown_acceptance = None" "ac_device_uuid shown_acceptance = ''old''"
      "ac_session_id shown_acceptance = ''s2''"
    by (simp_all add: acceptance_over_def acceptance_of_claim_def example_claim_def repairs_folder_def)
  have "active_with_id ''s2'' (shown_world None) = Some shown_session"
    by (simp add: active_with_id_def shown_world_def open_session_def shown_session_def)
  with close_during_acceptance [of "shown_world None" shown_acceptance shown_session pairing_example_env db no_files did folder]
  show ?thesis using tables shown_tables_ok by (auto simp: a binding_holds_def)
qed

section \<open>A folder that was removed behind the store's back\<close>

lemma no_device_no_context:
  assumes "\<forall>d\<in>set (db_devices db). de_device_uuid d \<noteq> u"
  shows "get_mobile_transfer_context db sid u = None"
proof -
  have "filter (\<lambda>d. de_device_uuid d = u) (db_devices db) = []" using assms by (simp add: filter_empty_conv)
  then have "transfer_context_rows db se = []" if "se_device_uuid se = u" for se
    by (simp add: transfer_context_rows_def that)
  then have "concat (map (transfer_context_rows db)
      (filter (\<lambda>r. se_session_id r = sid \<and> se_device_uuid r = u) (db_sessions db))) = []"
    by (auto simp: concat_eq_Nil_conv)
  then show ?thesis unfolding get_mobile_transfer_context_def by (simp only: fetchone_eq_None)
qed

lemma stale_folder_drops_phone:
  assumes ok: "mobile_ok db" and stale: "\<not> no_stale_folder db u" and u: "u \<noteq> []"
    and run: "get_or_create_mobile_folder expand resolve stamp db fs parent u name t = (db', fs', r)"
  shows "\<forall>d\<in>set (db_devices db'). de_device_uuid d \<noteq> u"
proof -
  define rows where "rows = filter (\<lambda>r. mf_device_uuid r = u
      \<and> \<not> list_ex (\<lambda>f. fo_id f = mf_folder_id r) (db_folders db)) (db_mobile_folders db)"
  define db1 where "db1 = delete_mobile_device_data_for_folder_ids db (map (\<lambda>r. Some (mf_folder_id r)) rows)"
  obtain m where m: "m \<in> set rows" using stale by (auto simp: no_stale_folder_def rows_def list_ex_iff)
  then have m': "m \<in> set (db_mobile_folders db)" "mf_device_uuid m = u" by (auto simp: rows_def)
  have "\<forall>d\<in>set (db_devices db1). de_device_uuid d \<noteq> mf_device_uuid m"
    unfolding db1_def by (rule delete_device_data_gone(1) [OF ok m'(1), of "mf_folder_id ` set rows"])
      (use m m' u in \<open>auto simp: image_image\<close>)
  moreover have "db_devices db' = db_devices db1"
  proof -
    have "rows \<noteq> []" using m by auto
    note run' = run [unfolded get_or_create_mobile_folder_def rows_def [symmetric], unfolded Let_def if_not_P [OF this]
        db1_def [symmetric]]
    have "insert_folder db1 stamp p = (db2, x) \<Longrightarrow> db_devices db2 = db_devices db1" for p db2 x
      by (auto simp: insert_folder_def Let_def split: if_splits)
    with run' show ?thesis
      by (auto simp: Let_def set_folder_state_of_device_def insert_mobile_folder_def
          split: option.splits prod.splits sum.splits if_splits)
  qed
  ultimately show ?thesis using m'(2) by simp
qed

text \<open>
  A phone whose folder was removed behind the store's back is accepted and then locked out: the
  acceptance writes the row of the phone and then \<open>get_or_create_mobile_folder\<close> removes everything
  of the phone with the stale folder, that row included, so the tables are written without an error
  and the phone has no context to start a transfer with.
\<close>
theorem stale_folder_locks_phone_out:
  assumes "mobile_ok db" and "\<not> no_stale_folder db (ac_device_uuid a)" and "ac_device_uuid a \<noteq> []"
    and "repairs_folder a = None" and "accept_tables env a s db fs = (db', fs', Inr (did, folder))"
  shows "get_mobile_transfer_context db' (ac_session_id a) (ac_device_uuid a) = None"
proof -
  define db2 where "db2 = upsert_mobile_device (fst (get_or_create_desktop_device_id db (pe_device_hex env)))
      (ac_device_uuid a) (platform_value (ac_platform a)) (ac_device_name a) (pairing_trust_key env a) (ac_current_time a)"
  have ok: "mobile_ok db2" unfolding db2_def using assms(1) by (intro upsert_device_ok) simp
  have stale: "\<not> no_stale_folder db2 (ac_device_uuid a)" using assms(2) by (simp add: no_stale_folder_def db2_def)
  from assms(4,5) obtain db3 where
    folder: "get_or_create_mobile_folder (pe_expand env) (pe_resolve env) (pe_stamp env) db2 fs
      (ps_destination_parent s) (ac_device_uuid a) (ac_device_name a) (ac_current_time a) = (db3, fs', Inr folder)"
    and ins: "insert_mobile_backup_session db3 (ac_session_id a) (ac_device_uuid a) (mfr_folder_id folder)
        MOBILE_BACKUP_SESSION_STATUS_PAIRED (ps_created_at s) (ac_current_time a) 0 = Inr db'"
    by (auto simp: accept_tables_def accept_folder_def Let_def db2_def split: prod.splits sum.splits)
  have "db_devices db' = db_devices db3" using ins by (auto simp: insert_mobile_backup_session_def split: if_splits)
  with stale_folder_drops_phone [OF ok stale assms(3) folder] show ?thesis by (intro no_device_no_context) simp
qed

text \<open>The folder of the phone is gone from \<^verbatim>\<open>folders\<close>, and the files of a folder of the same name are not there.\<close>

definition stale_store :: app_db where
  "stale_store = example_store\<lparr>db_folders := []\<rparr>"

lemma stale_run:
  "(case get_or_create_mobile_folder path_of id ''t''
      (upsert_mobile_device (fst (get_or_create_desktop_device_id stale_store ''d1'')) ''old'' ''ios'' ''Phone'' k first_day)
      no_files ''/backup'' ''old'' ''Phone'' first_day of
     (db, fs, r) \<Rightarrow> \<not> isl r \<and> db_sessions db = [])"
  by code_simp

lemma stale_folder_locks_phone_out_witness:
  "\<exists>db' fs' did folder. accept_tables pairing_example_env shown_acceptance shown_session stale_store no_files =
      (db', fs', Inr (did, folder)) \<and>
    get_mobile_transfer_context db' ''s2'' ''old'' = None"
proof -
  have a: "repairs_folder shown_acceptance = None" "ac_device_uuid shown_acceptance = ''old''"
      "ac_session_id shown_acceptance = ''s2''"
    by (simp_all add: acceptance_over_def acceptance_of_claim_def example_claim_def repairs_folder_def)
  have more: "ac_platform shown_acceptance = IOS" "ac_device_name shown_acceptance = ''Phone''"
      "ac_current_time shown_acceptance = first_day" "ps_destination_parent shown_session = ''/backup''"
      "pe_device_hex pairing_example_env = ''d1''" "pe_expand pairing_example_env = path_of"
      "pe_resolve pairing_example_env = id" "pe_stamp pairing_example_env = ''t''"
    by (simp_all add: acceptance_over_def acceptance_of_claim_def example_claim_def shown_session_def pairing_example_env_def)
  have ok: "mobile_ok stale_store" "\<not> no_stale_folder stale_store ''old''"
    by (simp_all add: mobile_ok_def mobile_keys_ok_def sessions_bound_def mf_pair_def example_store_def example_db_def
        no_stale_folder_def stale_store_def)
  have "\<not> isl (snd (snd (accept_tables pairing_example_env shown_acceptance shown_session stale_store no_files)))"
    using stale_run [of "pairing_trust_key pairing_example_env shown_acceptance"]
    by (auto simp: accept_tables_def accept_folder_def a more insert_mobile_backup_session_def Let_def
        split: prod.splits sum.splits)
  then obtain db' fs' did folder where
    run: "accept_tables pairing_example_env shown_acceptance shown_session stale_store no_files = (db', fs', Inr (did, folder))"
    by (metis isl_def prod.collapse sum.exhaust_sel)
  with stale_folder_locks_phone_out [of stale_store shown_acceptance] ok show ?thesis unfolding a by blast
qed

section \<open>Guessing the passcode\<close>

fun guess_all :: "pairing_env \<Rightarrow> string option \<Rightarrow> (payload \<times> pydatetime option) list \<Rightarrow> pairing_world \<Rightarrow> pairing_world" where
  "guess_all env transport [] w = w"
| "guess_all env transport ((req, now) # rs) w =
     guess_all env transport rs (fst (handle_pairing_request env req now transport w))"

text \<open>A claim before the token expires that carries the passcode of no token of the session.\<close>

definition wrong_guess :: "pairing_env \<Rightarrow> pairing_world \<Rightarrow> payload \<times> pydatetime option \<Rightarrow> bool" where
  "wrong_guess env w g \<longleftrightarrow>
     (\<forall>s p token t. pv_session w = Some s \<longrightarrow> token_for s p = Inr token \<longrightarrow>
        utc_now (pe_clock env) (snd g) = Inr t \<longrightarrow>
        text_field (fst g) ''opt'' \<noteq> pt_one_time_passcode token \<and> \<not> is_expired token t)"

lemma wrong_guess_keeps:
  assumes "wrong_guess env w (req, now)"
  shows "fst (handle_pairing_request env req now transport w) = w"
proof (cases "utc_now (pe_clock env) now")
  case (Inl e)
  then show ?thesis by (simp add: handle_pairing_request_def)
next
  case (Inr t)
  have "claim_check t req w = (w, snd (claim_check t req w)) \<and> (\<forall>c. snd (claim_check t req w) \<noteq> Inr (Inr c))"
    using assms Inr by (auto simp: claim_check_def wrong_guess_def split: option.splits sum.splits)
  then obtain x where "claim_check t req w = (w, x)" "\<forall>c. x \<noteq> Inr (Inr c)" by blast
  with Inr show ?thesis by (auto simp: handle_pairing_request_def split: sum.splits)
qed

text \<open>
  Wrong passcodes are rejected without a trace: as long as the token has not expired, any number
  of claims with wrong passcodes leaves the service, the tables and the files as they were, so the
  code of the session stays valid and the number of guesses is bounded only by the time it is shown.
\<close>
theorem wrong_passcodes_leave_no_trace:
  assumes "\<forall>g\<in>set gs. wrong_guess env w g"
  shows "guess_all env transport gs w = w"
  using assms
proof (induction gs)
  case (Cons g gs)
  then show ?case by (cases g) (simp add: wrong_guess_keeps)
qed simp

lemma wrong_passcodes_leave_no_trace_witness:
  "guess_all pairing_example_env None [(phone_claim ''000000'' ''evil'', None), (phone_claim ''000041'' ''evil'', None)]
     (shown_world None) = shown_world None"
proof -
  have "\<not> is_expired shown_token first_day"
    by (simp add: is_expired_def seconds_remaining_def dt_minus_us_def shown_token_def first_day_def)
  moreover have "utc_now (pe_clock pairing_example_env) None = Inr first_day"
    by (simp add: utc_now_def pairing_example_env_def)
  moreover have "pt_one_time_passcode shown_token = ''000042''" by (simp add: shown_token_def)
  moreover have "pv_session (shown_world None) = Some shown_session" by (simp add: shown_world_def open_session_def)
  moreover have "token_for shown_session p = Inr tok \<Longrightarrow> tok = shown_token" for p tok
    by (auto simp: token_for_def shown_session_def dict_get_def split: if_splits)
  ultimately have "wrong_guess pairing_example_env (shown_world None) (phone_claim c u, None)" if "c \<noteq> ''000042''" for c u
    using that by (auto simp: wrong_guess_def claim_fields)
  then show ?thesis by (intro wrong_passcodes_leave_no_trace) auto
qed

section \<open>A repair that fails\<close>

lemma settled_claim:
  assumes "pv_session w = Some s" and "\<forall>f\<in>set CLAIM_FIELDS. present_text req f"
    and "text_field req ''schema'' = PAIRING_PROTOCOL_SCHEMA" and "text_field req ''sid'' = ps_session_id s"
    and "settled_answer (ps_session_id s) w = Some a" and "utc_now (pe_clock env) now = Inr t"
  shows "handle_pairing_request env req now transport w = (w, Inr a)"
proof -
  have "find (\<lambda>f. \<not> present_text req f) CLAIM_FIELDS = None" unfolding find_None_all using assms(2) by blast
  with assms show ?thesis by (simp add: handle_pairing_request_def claim_check_def)
qed

text \<open>
  C28. An answer of the desktop that raises leaves the session waiting for ever: when the repair of the
  folder fails in the thread that asked the desktop, the exception ends the thread, the result stays
  at mismatched with no thread left to settle it, and every later claim of the session, with whatever
  passcode, is told that the desktop is still deciding.
\<close>
theorem failed_answer_wedges_session:
  assumes "service_ok w" and "p \<in> set (pv_threads w)"
    and "pv_session w = Some s" and "ps_session_id s = pd_session_id p"
    and "resolve_backup_again_mismatch env resolver p (w\<lparr>pv_threads := remove1 p (pv_threads w)\<rparr>) = (w', Inl e)"
    and "\<forall>f\<in>set CLAIM_FIELDS. present_text req f" and "text_field req ''schema'' = PAIRING_PROTOCOL_SCHEMA"
    and "text_field req ''sid'' = ps_session_id s" and "utc_now (pe_clock env) now = Inr t"
  shows "pr_state (pv_result w') = RS_MISMATCHED \<and> ps_session_id s \<notin> pd_session_id ` set (pv_threads w') \<and>
    (\<exists>r::state_record. rc_state r = PAIRING_MISMATCHED \<and>
       handle_pairing_request env req now transport w' = (w', Inr (200, rc_payload r)))"
proof -
  let ?v = "w\<lparr>pv_threads := remove1 p (pv_threads w)\<rparr>"
  have mis: "pr_state (pv_result w) = RS_MISMATCHED" using service_ok_active(2) [OF assms(1,3)] assms(2,4) by force
  obtain r where r: "dict_get (pv_records w) (ps_session_id s) = Some r" "rc_state r = PAIRING_MISMATCHED"
    using service_ok_active(1,3) [OF assms(1,3)] mis by (auto simp: recorded_state_def)
  from assms(5) obtain d where "complete_pairing_acceptance env (acceptance_of_pending p d) ?v = (w', Inl e)"
    by (auto simp: resolve_backup_again_mismatch_def split: resolver_outcome.splits option.splits
        again_decision.splits prod.splits sum.splits)
  then have "\<exists>db fs. w' = ?v\<lparr>pv_db := db, pv_fs := fs\<rparr>" by (cases rule: complete_acceptance_cases) blast+
  then have w': "pv_session w' = Some s" "pv_result w' = pv_result w" "pv_records w' = pv_records w"
      "pv_threads w' = remove1 p (pv_threads w)" using assms(3) by auto
  have "settled_answer (ps_session_id s) w' = Some (200, rc_payload r)" using r mis by (simp add: settled_answer_def w')
  from settled_claim [OF w'(1) assms(6-8) this assms(9)]
  have "\<exists>r::state_record. rc_state r = PAIRING_MISMATCHED \<and> handle_pairing_request env req now transport w' = (w', Inr (200, rc_payload r))"
    using r(2) by blast
  moreover have "ps_session_id s \<notin> pd_session_id ` set (pv_threads w')"
    using remove1_image [of pd_session_id "pv_threads w" p] assms(1,2,4) by (simp add: w' service_ok_def)
  ultimately show ?thesis by (simp add: w' mis)
qed

text \<open>
  The desktop backs up again into the folder of another phone, and the phone that claims the session
  already has a folder of its own.
\<close>

definition other_folder :: again_context where
  "other_folder = \<lparr>ag_selected_folder_id = 2, ag_selected_folder_path = ''/other'', ag_expected_device_uuid = ''gone''\<rparr>"

definition asking_world :: pairing_world where
  "asking_world = fst (claim_mismatch (example_claim ''old'' (Some other_folder)) other_folder (shown_world (Some other_folder)))"

definition asked :: pending_resolution where
  "asked = \<lparr>pd_session_id = ''s2'', pd_platform = IOS, pd_token = shown_token, pd_device_uuid = ''old'',
     pd_device_name = ''Phone'', pd_client_nonce = ''n'', pd_current_time = first_day, pd_context = other_folder\<rparr>"

lemma asking_world_facts:
  "service_ok asking_world" "pv_threads asking_world = [asked]" "pv_session asking_world = Some shown_session"
  "pv_db asking_world = example_store" "pv_fs asking_world = no_files"
proof -
  have "pr_state (pv_result (shown_world (Some other_folder))) \<in> {RS_WAITING, RS_EXPIRED}" by (simp add: shown_waits)
  from keeps_mismatch [OF shown_service_ok this] show "service_ok asking_world"
    unfolding asking_world_def keeps_def by (metis prod.collapse)
  have act: "active_with_id ''s2'' (shown_world (Some other_folder)) = Some shown_session"
    by (simp add: active_with_id_def shown_world_def open_session_def shown_session_def)
  show "pv_threads asking_world = [asked]" "pv_session asking_world = Some shown_session"
    "pv_db asking_world = example_store" "pv_fs asking_world = no_files"
    using act by (simp_all add: asking_world_def claim_mismatch_def example_claim_def Let_def shown_tables_ok asked_def)
      (simp_all add: shown_world_def open_session_def pairing_init_def)
qed

lemma asked_raises:
  "\<exists>w' e. resolve_backup_again_mismatch pairing_example_env (\<lambda>_. Resolver_returns (Some CONTINUE_IN_SELECTED_FOLDER)) asked
     (asking_world\<lparr>pv_threads := []\<rparr>) = (w', Inl e)"
proof -
  let ?a = "acceptance_of_pending asked CONTINUE_IN_SELECTED_FOLDER"
  have a: "repairs_folder ?a = Some other_folder" "ac_session_id ?a = ''s2''" "ac_device_uuid ?a = ''old''"
    by (simp_all add: repairs_folder_def acceptance_of_pending_def asked_def other_folder_def)
  have "active_with_id ''s2'' (asking_world\<lparr>pv_threads := []\<rparr>) = Some shown_session"
    by (simp add: active_with_id_def asking_world_facts shown_session_def)
  moreover have "\<exists>db e. accept_tables pairing_example_env ?a shown_session example_store no_files = (db, no_files, Inl e)"
  proof -
    obtain db1 did where dev: "get_or_create_desktop_device_id example_store (pe_device_hex pairing_example_env) = (db1, did)"
      by (cases "get_or_create_desktop_device_id example_store (pe_device_hex pairing_example_env)")
    have "db_mobile_folders db1 = db_mobile_folders example_store"
      using device_id_tables(2) [of example_store "pe_device_hex pairing_example_env"] by (simp add: dev)
    then show ?thesis
      by (simp add: accept_tables_def dev Let_def accept_folder_def a)
        (simp add: repair_mobile_folder_device_binding_def other_folder_def example_store_def fetchone_def)
  qed
  ultimately show ?thesis
    by (auto simp: resolve_backup_again_mismatch_def complete_pairing_acceptance_def a asking_world_facts)
qed

lemma failed_answer_wedges_session_witness:
  "\<exists>w' (r::state_record). pr_state (pv_result w') = RS_MISMATCHED \<and> rc_state r = PAIRING_MISMATCHED \<and>
     handle_pairing_request pairing_example_env (phone_claim ''000042'' ''old'') None None w' = (w', Inr (200, rc_payload r))"
proof -
  obtain w' e where run: "resolve_backup_again_mismatch pairing_example_env
      (\<lambda>_. Resolver_returns (Some CONTINUE_IN_SELECTED_FOLDER)) asked
      (asking_world\<lparr>pv_threads := remove1 asked (pv_threads asking_world)\<rparr>) = (w', Inl e)"
    using asked_raises by (auto simp: asking_world_facts)
  have "asked \<in> set (pv_threads asking_world)" "ps_session_id shown_session = pd_session_id asked"
    by (simp_all add: asking_world_facts asked_def shown_session_def)
  moreover have "\<forall>f\<in>set CLAIM_FIELDS. present_text (phone_claim ''000042'' ''old'') f"
    by (auto simp: CLAIM_FIELDS_def claim_texts)
  moreover have "utc_now (pe_clock pairing_example_env) None = Inr first_day"
    by (simp add: utc_now_def pairing_example_env_def)
  moreover have "text_field (phone_claim ''000042'' ''old'') ''sid'' = ps_session_id shown_session"
    by (simp add: claim_fields shown_session_def)
  ultimately show ?thesis
    using failed_answer_wedges_session [OF asking_world_facts(1) _ asking_world_facts(3) _ run, of "phone_claim ''000042'' ''old''"]
      claim_fields(1) by blast
qed

section \<open>The tables under every call\<close>

lemma op_same_tables:
  "start_pairing_session env lan parent again now w = (w', r) \<Longrightarrow> pv_db w' = pv_db w"
  "refresh_token env platform now w = (w', t) \<Longrightarrow> pv_db w' = pv_db w"
  "pv_db (close_active_session w) = pv_db w" "pv_db (shutdown w) = pv_db w"
  "pv_db (complete_pairing_stopped sid u n m w) = pv_db w"
  by (auto simp: start_pairing_session_def refresh_token_def close_active_session_def stop_waiting_session_def
      clear_transfer_transport_tracking_def shutdown_def ensure_server_started_def open_session_def exn_simps
      configure_usb_bootstrap_for_token_def complete_pairing_stopped_def Let_def
      split: option.splits sum.splits if_splits prod.splits)

lemma acceptance_keeps_tables:
  assumes "mobile_ok (pv_db w)" and "binding_holds (pv_db w) a" and "complete_pairing_acceptance env a w = (w', r)"
  shows "mobile_ok (pv_db w')"
  using assms(3)
proof (cases rule: complete_acceptance_cases)
  case gone
  with assms show ?thesis by simp
qed (use accept_tables_ok [OF assms(1,2)] in blast)+

lemma claim_keeps_tables:
  assumes ok: "mobile_ok (pv_db w)" and run: "handle_pairing_request env req now transport w = (w', a)"
  shows "mobile_ok (pv_db w')"
proof (cases "utc_now (pe_clock env) now")
  case (Inl e)
  with run ok show ?thesis by (simp add: handle_pairing_request_def)
next
  case (Inr t)
  obtain w1 r1 where check: "claim_check t req w = (w1, r1)" by (cases "claim_check t req w")
  show ?thesis
  proof (cases "\<exists>c. r1 = Inr (Inr c)")
    case False
    with run Inr check have "w' = w1" by (auto simp: handle_pairing_request_def split: sum.splits)
    with claim_check_stop [OF check] False ok show ?thesis by auto
  next
    case True
    then obtain c where r1: "r1 = Inr (Inr c)" by blast
    have w1: "w1 = w\<lparr>pv_in_progress := True\<rparr>" using claim_check_go [OF check [unfolded r1]] by blast
    obtain w2 where body: "claim_body env c transport w1 = (w2, a)" and w': "w' = claim_finish w2"
      using run Inr check r1 by (auto simp: handle_pairing_request_def split: prod.splits)
    have "mobile_ok (pv_db w2)"
    proof (cases "is_mismatch c")
      case None
      have "repairs_folder (acceptance_of_claim c transport) = None"
        by (simp add: repairs_folder_def acceptance_of_claim_def split: option.split)
      then have "binding_holds (pv_db w1) (acceptance_of_claim c transport)" by (simp add: binding_holds_def)
      with acceptance_keeps_tables [of w1 "acceptance_of_claim c transport" env w2 a] body ok None show ?thesis
        by (simp add: claim_body_def w1)
    next
      case (Some g)
      with body obtain x where "claim_mismatch c g w1 = (w2, x)" by (auto simp: claim_body_def split: prod.splits)
      from claim_mismatch_frames [OF this] ok show ?thesis by (simp add: w1)
    qed
    then show ?thesis by (simp add: w')
  qed
qed

text \<open>The folder that was chosen for a question to the desktop still belongs to the phone it belonged to.\<close>

definition question_holds :: "app_db \<Rightarrow> pending_resolution \<Rightarrow> bool" where
  "question_holds db p \<longleftrightarrow>
     (ag_selected_folder_id (pd_context p), ag_expected_device_uuid (pd_context p)) \<in> set (map mf_pair (db_mobile_folders db)) \<and>
     (\<exists>f\<in>set (db_folders db). fo_id f = ag_selected_folder_id (pd_context p))"

lemma answer_keeps_tables:
  assumes "mobile_ok (pv_db w)" and "question_holds (pv_db w) p"
    and "resolve_backup_again_mismatch env resolver p w = (w', u)"
  shows "mobile_ok (pv_db w')"
proof -
  have "binding_holds (pv_db w) (acceptance_of_pending p d)" for d
    using assms(2) by (auto simp: binding_holds_def question_holds_def repairs_folder_def acceptance_of_pending_def
        split: option.splits if_splits)
  note acc = acceptance_keeps_tables [OF assms(1) this]
  show ?thesis
    using assms(1,3) by (auto simp: resolve_backup_again_mismatch_def op_same_tables dest: acc
        split: resolver_outcome.splits option.splits again_decision.splits prod.splits sum.splits)
qed

lemma pairing_op_tables:
  assumes "pairing_op w w'" and "mobile_ok (pv_db w)"
    and "\<forall>p\<in>set (pv_threads w). question_holds (pv_db w) p"
  shows "mobile_ok (pv_db w')"
  using assms
proof (cases rule: pairing_op.cases)
  case (op_answer p env resolver u)
  with answer_keeps_tables [of "w\<lparr>pv_threads := remove1 p (pv_threads w)\<rparr>" p env resolver w' u] assms show ?thesis
    by simp
qed (use op_same_tables claim_keeps_tables in \<open>metis\<close>)+

text \<open>
  Pairing keeps the tables consistent: after every call of the service the keys of the mobile
  tables are distinct and every session belongs to the folder that its phone is bound to, whether the
  call succeeds, is refused or raises.  An answer of the desktop needs the folder that was chosen in
  the dialog to belong still to the phone that it was chosen for.
\<close>
theorem pairing_keeps_tables:
  assumes "pairing_op w w'" and "mobile_ok (pv_db w)"
    and "\<forall>p\<in>set (pv_threads w). question_holds (pv_db w) p"
  shows "mobile_ok (pv_db w')"
  using assms by (rule pairing_op_tables)

lemma pairing_keeps_tables_witness: "mobile_ok (pv_db (fst shown_run))"
proof -
  obtain r where run: "shown_run = (fst shown_run, r)" by (metis prod.collapse)
  have "pv_threads (shown_world None) = []" by (simp add: shown_world_def open_session_def pairing_init_def)
  then show ?thesis
    using pairing_keeps_tables [OF op_claim [OF run]] shown_tables_ok by simp
qed

end
