(* ===== verification/PairingGatewayProps.thy ===== *)
theory PairingGatewayProps
  imports PairingGateway PairingScenarios TransferServiceProps
begin

text \<open>
  Properties that span the services behind the router: a phone whose claim was accepted can start its
  transfer, encryption changes nothing but the form of a request and its response, and whatever a
  transport dispatches keeps the tables consistent.
\<close>

section \<open>The routes\<close>

definition app_routes :: transport_routes where
  "app_routes =
     [(PAIRING_CLAIM_OPERATION, H_PairingClaim), (PAIRING_STATE_OPERATION, H_PairingState),
      (CAPABILITY_EXCHANGE_OPERATION, H_CapabilityExchange), (UPDATE_PROMPT_OPERATION, H_UpdatePrompt),
      (TRANSFER_START_OPERATION, H_TransferStart), (TRANSFER_EXISTENCE_OPERATION, H_TransferExistence),
      (TRANSFER_ASSET_OPERATION, H_TransferAsset), (TRANSFER_COMPLETE_OPERATION, H_TransferComplete)]"

lemmas operation_names =
  PAIRING_CLAIM_OPERATION_def PAIRING_STATE_OPERATION_def CAPABILITY_EXCHANGE_OPERATION_def
  UPDATE_PROMPT_OPERATION_def TRANSFER_START_OPERATION_def TRANSFER_EXISTENCE_OPERATION_def
  TRANSFER_ASSET_OPERATION_def TRANSFER_COMPLETE_OPERATION_def

lemma routes_registered: "register_transport_routes [] = Inr app_routes"
  by (simp add: register_transport_routes_def register_route_def app_routes_def operation_names dict_get_def exn_simps)

lemma route_of:
  "dict_get app_routes PAIRING_CLAIM_OPERATION = Some H_PairingClaim"
  "dict_get app_routes PAIRING_STATE_OPERATION = Some H_PairingState"
  "dict_get app_routes CAPABILITY_EXCHANGE_OPERATION = Some H_CapabilityExchange"
  "dict_get app_routes UPDATE_PROMPT_OPERATION = Some H_UpdatePrompt"
  "dict_get app_routes TRANSFER_START_OPERATION = Some H_TransferStart"
  "dict_get app_routes TRANSFER_EXISTENCE_OPERATION = Some H_TransferExistence"
  "dict_get app_routes TRANSFER_ASSET_OPERATION = Some H_TransferAsset"
  "dict_get app_routes TRANSFER_COMPLETE_OPERATION = Some H_TransferComplete"
  by (simp_all add: app_routes_def operation_names dict_get_def)

section \<open>Starting the transfer of an accepted phone\<close>

lemma view_simps [simp]:
  "tw_db (transfer_view g) = pv_db (gw_pairing g)" "tw_fs (transfer_view g) = pv_fs (gw_pairing g)"
  "pv_db (gw_pairing (put_transfer g t)) = tw_db t" "pv_fs (gw_pairing (put_transfer g t)) = tw_fs t"
  by (simp_all add: transfer_view_def put_transfer_def)

lemma track_frames [simp]:
  "pv_db (gw_pairing (track_transfer_transport k p g)) = pv_db (gw_pairing g)"
  "pv_fs (gw_pairing (track_transfer_transport k p g)) = pv_fs (gw_pairing g)"
  by (simp_all add: track_transfer_transport_def split: option.split)

lemma start_accepted:
  assumes "utc_now (te_clock env) now = Inr t" and "parse_transfer_session_request True False p = Inr r"
    and "sr_schema r = MOBILE_TRANSFER_SCHEMA"
    and ctx: "get_mobile_transfer_context (tw_db w) (sr_session_id r) (sr_device_uuid r) = Some c"
    and "tc_session_status c = MOBILE_BACKUP_SESSION_STATUS_PAIRED"
    and "sr_trust_proof r = derive_trust_proof_b64 (te_hmac env) (tc_trust_key_b64 c)
      MOBILE_TRANSFER_START_PROOF_PURPOSE (sr_schema r) (sr_session_id r) (sr_device_uuid r)"
    and ok: "mobile_ok (tw_db w)"
  shows "\<exists>w' q c'. handle_start_request env p now w = (w', Inr (200, q)) \<and>
    dict_get q ''status'' = Some (JStr ''accepted'') \<and>
    get_mobile_transfer_context (tw_db w') (sr_session_id r) (sr_device_uuid r) = Some c' \<and>
    tc_session_status c' = MOBILE_BACKUP_SESSION_STATUS_TRANSFERRING"
proof -
  have "service_authorized (te_hmac env) (tw_db w) MOBILE_TRANSFER_START_PROOF_PURPOSE (sr_schema r)
      (sr_session_id r) (sr_device_uuid r) (sr_trust_proof r) = Inr True"
    using ctx assms(6) by (auto simp: service_authorized_iff)
  then have auth: "authorized_context env (tw_db w) MOBILE_TRANSFER_START_PROOF_PURPOSE
      [MOBILE_BACKUP_SESSION_STATUS_PAIRED, MOBILE_BACKUP_SESSION_STATUS_TRANSFERRING]
      (sr_schema r) (sr_session_id r) (sr_device_uuid r) (sr_trust_proof r) = Inr (Some c)"
    using assms(5) by (simp add: authorized_Some ctx service_authorized_def)
  show ?thesis
    using auth assms(3) context_after_state [OF ok ctx]
    by (simp add: handle_start_request_def assms(1,2) dict_get_def)
qed


section \<open>An accepted phone at a concrete world\<close>

definition example_gateway :: gateway_world where
  "example_gateway = \<lparr>gw_pairing = shown_world None, gw_events = [], gw_prompts = []\<rparr>"

definition example_gateway_env :: gateway_env where
  "example_gateway_env =
     \<lparr>ge_pairing = pairing_example_env, ge_transfer = example_env, ge_aead = plain_aead,
      ge_nonce = replicate 12 7, ge_flags = []\<rparr>"

definition start_payload :: payload where
  "start_payload =
     [(''schema'', JStr MOBILE_TRANSFER_SCHEMA), (''session_id'', JStr ''s2''), (''device_uuid'', JStr ''old''),
      (''trust_proof'', JStr ''AA''), (''total_assets'', JInt 3)]"

lemma start_payload_facts:
  "parse_transfer_session_request True False start_payload = Inr \<lparr>sr_schema = MOBILE_TRANSFER_SCHEMA,
     sr_session_id = ''s2'', sr_device_uuid = ''old'', sr_trust_proof = ''AA'', sr_total_assets = Some 3,
     sr_transferred_count = None, sr_failed_count = None\<rparr>"
  "\<not> is_mobile_encrypted_payload start_payload"
  by code_simp+


section \<open>Encryption is transparent\<close>

text \<open>The answers of the services are JSON objects with distinct keys.\<close>

definition reply_ok :: "http_response res \<Rightarrow> bool" where
  "reply_ok r \<longleftrightarrow> (case r of Inl _ \<Rightarrow> True | Inr (_, p) \<Rightarrow> json_ok (JObj p))"

lemma reply_ok_simps [simp]:
  "reply_ok (Inl x)" "reply_ok (Inr (code, p)) \<longleftrightarrow> json_ok (JObj p)"
  by (simp_all add: reply_ok_def del: json_ok.simps)

lemma rejected_ok [simp]: "reply_ok (rejected code m)"
  by (simp add: rejected_def transfer_response_def dict_ok_def)

lemma start_reply_ok: "reply_ok (snd (handle_start_request env p now w))"
  by (auto simp: handle_start_request_def dict_ok_def split: sum.splits pyexn.splits option.splits)

lemma matched_ok: "json_ok (JList (matched_assets_payload matching assets))"
  by (auto simp: matched_assets_payload_def dict_ok_def split: option.splits)

lemma existence_reply_ok: "reply_ok (snd (handle_asset_existence_request env p w))"
  using matched_ok
  by (auto simp: handle_asset_existence_request_def dict_ok_def Let_def split: sum.splits pyexn.splits option.splits)

lemma complete_reply_ok: "reply_ok (snd (handle_complete_request env p now w))"
  by (auto simp: handle_complete_request_def dict_ok_def split: sum.splits pyexn.splits option.splits prod.splits)

lemma capability_response_ok:
  assumes "dict_ok flags"
  shows "reply_ok (Inr (capability_response code status m s u flags))"
proof -
  have "dict_ok (map (\<lambda>(k, v). (k, JInt v)) flags)"
    using assms by (simp add: dict_ok_def comp_def case_prod_unfold)
  then show ?thesis by (auto simp: capability_response_def dict_ok_def split: option.splits)
qed

lemma reply_ok_bind: "(\<And>x. reply_ok (f x)) \<Longrightarrow> reply_ok (bindE r f)"
  by (cases r) (simp_all add: exn_simps)

lemma exchange_reply_ok: "dict_ok flags \<Longrightarrow> reply_ok (handle_exchange_request hmac flags db p)"
  by (auto simp: handle_exchange_request_def capability_rejected_def capability_response_ok exn_simps
      simp del: reply_ok_simps(2) split: sum.splits pyexn.splits intro: reply_ok_bind)

lemma prompt_reply_ok: "reply_ok (snd (handle_prompt_request hmac bracket_ok db p prompts))"
  by (auto simp: handle_prompt_request_def update_rejected_def update_prompt_response_def dict_ok_def
      split: sum.splits pyexn.splits bool.splits)

text \<open>The five operations whose requests may be encrypted.\<close>

definition SEALED_OPERATIONS :: "string list" where
  "SEALED_OPERATIONS =
     [CAPABILITY_EXCHANGE_OPERATION, UPDATE_PROMPT_OPERATION, TRANSFER_START_OPERATION,
      TRANSFER_EXISTENCE_OPERATION, TRANSFER_COMPLETE_OPERATION]"

text \<open>The response to an encrypted request: what the plain request is answered, encrypted.\<close>

definition seals :: "gateway_env \<Rightarrow> string \<Rightarrow> http_response res \<Rightarrow> http_response res \<Rightarrow> bool" where
  "seals env key r r' \<longleftrightarrow>
     (case r of
        Inl x \<Rightarrow> r' = Inl x
      | Inr (code, p) \<Rightarrow> (\<exists>e p'. r' = Inr (code, e) \<and> is_mobile_encrypted_payload e \<and>
          decrypt_mobile_json_payload (ge_aead env) (pe_sha256 (ge_pairing env)) e key = Inr p' \<and>
          JObj p' = json_sorted (JObj p)))"

lemma strip_empty: "py_strip [] = []"
  by code_simp

lemma strip_locator: "py_strip ''session_id'' = ''session_id''"
  by code_simp

lemma finish_plain: "finish_response env None sid (g, r) = (g, r)"
  by (auto simp: finish_response_def encrypt_response_payload_if_needed_def exn_simps split: sum.splits)

lemma finish_sealed:
  assumes "aead_ok (ge_aead env)" and "length (ge_nonce env) = MOBILE_ENCRYPTED_BINARY_NONCE_BYTES"
    and "py_strip key \<noteq> []" and "py_strip sid \<noteq> []" and "reply_ok r"
  shows "\<exists>r'. finish_response env (Some key) (Some sid) (g, r) = (g, r') \<and> seals env key r r'"
proof (cases r)
  case (Inl x)
  then show ?thesis by (simp add: finish_response_def seals_def)
next
  case (Inr y)
  obtain code p where y: "y = (code, p)" by (cases y)
  have fs: "locator_fields (Some sid) None None = [(''session_id'', sid)]" "locators_ok [(''session_id'', sid)]"
    using assms(4) strip_locator strip_empty by (auto simp: locator_fields_def locators_ok_def)
  have "json_ok (JObj p)" using assms(5) Inr y by (simp del: json_ok.simps)
  from encrypted_payload_decrypts [OF assms(1) this assms(3,2) fs(2), of "pe_sha256 (ge_pairing env)"]
  show ?thesis
    by (auto simp: finish_response_def Inr y encrypt_response_payload_if_needed_def fs(1) exn_simps seals_def
        simp del: json_sorted.simps)
qed

text \<open>
  What a handler does to a payload once it is in plain text: the answer of its service and the world
  after it.  The schema and the message are those of its refusals.
\<close>

fun serve :: "route_handler \<Rightarrow> gateway_env \<Rightarrow> transport_kind \<Rightarrow> payload \<Rightarrow> gateway_world \<Rightarrow> gateway_answer" where
  "serve H_CapabilityExchange env k d g =
     (g, handle_exchange_request (te_hmac (ge_transfer env)) (ge_flags env) (pv_db (gw_pairing g)) d)"
| "serve H_UpdatePrompt env k d g =
     (case handle_prompt_request (te_hmac (ge_transfer env)) (pe_bracket_ok (ge_pairing env)) (pv_db (gw_pairing g)) d
             (gw_prompts g) of
        (prompts, r) \<Rightarrow> (g\<lparr>gw_prompts := prompts\<rparr>, r))"
| "serve H_TransferStart env k d g =
     (case handle_start_request (ge_transfer env) d None (transfer_view (track_transfer_transport k (ObjectPayload d) g)) of
        (t, r) \<Rightarrow> (put_transfer (track_transfer_transport k (ObjectPayload d) g) t, r))"
| "serve H_TransferExistence env k d g =
     (case handle_asset_existence_request (ge_transfer env) d
             (transfer_view (track_transfer_transport k (ObjectPayload d) g)) of
        (t, r) \<Rightarrow> (put_transfer (track_transfer_transport k (ObjectPayload d) g) t, r))"
| "serve H_TransferComplete env k d g =
     (case handle_complete_request (ge_transfer env) d None
             (transfer_view (track_transfer_transport k (ObjectPayload d) g)) of
        (t, r) \<Rightarrow>
          (let g2 = put_transfer (track_transfer_transport k (ObjectPayload d) g) t
           in if isl r then g2
              else g2\<lparr>gw_pairing := clear_transfer_transport_tracking
                         (extract_transfer_session_id (ObjectPayload d)) (gw_pairing g2)\<rparr>, r))"
| "serve _ env k d g = (g, Inl (RuntimeError []))"

fun sealed_schema :: "route_handler \<Rightarrow> string" where
  "sealed_schema H_CapabilityExchange = MOBILE_CAPABILITY_EXCHANGE_SCHEMA"
| "sealed_schema H_UpdatePrompt = MOBILE_UPDATE_PROMPT_SCHEMA"
| "sealed_schema _ = MOBILE_TRANSFER_SCHEMA"

fun sealed_refusal :: "route_handler \<Rightarrow> string" where
  "sealed_refusal H_CapabilityExchange = ''Desktop rejected the capability exchange request.''"
| "sealed_refusal H_UpdatePrompt = ''Desktop rejected the update prompt request.''"
| "sealed_refusal _ = ''Desktop rejected the transfer session.''"

definition sealed_handlers :: "route_handler list" where
  "sealed_handlers = [H_CapabilityExchange, H_UpdatePrompt, H_TransferStart, H_TransferExistence, H_TransferComplete]"

lemma sealed_route: "operation \<in> set SEALED_OPERATIONS \<Longrightarrow> \<exists>h\<in>set sealed_handlers. dict_get app_routes operation = Some h"
  by (auto simp: SEALED_OPERATIONS_def sealed_handlers_def route_of)

lemma finish_error [simp]: "finish_response env key sid (g, Inl x) = (g, Inl x)"
  by (simp add: finish_response_def)

lemma handler_serves:
  assumes "h \<in> set sealed_handlers"
    and "decrypt_transfer_payload_if_needed env (pv_db (gw_pairing g)) p (sealed_schema h) (sealed_refusal h) = Inr (d, key)"
  shows "run_handler h env \<lparr>rq_operation = op, rq_payload = ObjectPayload p, rq_transport = k\<rparr> g =
    finish_response env key (response_session_id d p) (serve h env k d g)"
  using assms
  by (auto simp: sealed_handlers_def dispatch_capability_exchange_def dispatch_update_prompt_def dispatch_transfer_start_def
      dispatch_transfer_existence_def dispatch_transfer_complete_def Let_def split: prod.splits sum.splits)

lemma serve_reply_ok: "dict_ok (ge_flags env) \<Longrightarrow> reply_ok (snd (serve h env k d g))"
proof -
  assume flags: "dict_ok (ge_flags env)"
  have fst_snd: "p = (t, r) \<Longrightarrow> reply_ok (snd p) \<Longrightarrow> reply_ok r" for p :: "'b \<times> http_response res" and t r
    by simp
  show ?thesis
    by (cases h) (auto simp: exchange_reply_ok [OF flags] Let_def split: prod.splits
        dest: fst_snd [OF _ start_reply_ok] fst_snd [OF _ existence_reply_ok] fst_snd [OF _ complete_reply_ok]
          fst_snd [OF _ prompt_reply_ok])
qed

text \<open>What the gateway makes of an encrypted request with a session that is known.\<close>

lemma sealed_request:
  assumes ae: "aead_ok (ge_aead env)" and q: "json_ok (JObj q)" and key: "py_strip key \<noteq> []"
    and nonce: "length nonce = MOBILE_ENCRYPTED_BINARY_NONCE_BYTES" and sid: "py_strip sid \<noteq> []" "py_strip sid = sid"
    and known: "resolve_transfer_trust_key db sid None = Some key"
    and enc: "encrypt_mobile_json_payload (ge_aead env) (pe_sha256 (ge_pairing env)) nonce q key [(''session_id'', sid)] = Inr e"
    and d: "JObj d = json_sorted (JObj q)"
  shows "decrypt_transfer_payload_if_needed env db e schema m = Inr (d, Some key)"
proof -
  have "locators_ok [(''session_id'', sid)]" using sid(1) strip_locator by (simp add: locators_ok_def)
  from encrypted_payload_decrypts [OF ae q key nonce this, of "pe_sha256 (ge_pairing env)"] enc d
  have e: "is_mobile_encrypted_payload e"
    and dec: "decrypt_mobile_json_payload (ge_aead env) (pe_sha256 (ge_pairing env)) e key = Inr d"
    by (metis json.inject(6) sum.inject(2))+
  have "dict_get e ''session_id'' = Some (JStr sid)"
    using enc sid by (auto simp: encrypt_mobile_json_payload_def exn_simps strip_locator dict_get_def split: sum.splits if_splits)
  then have "stripped_field e ''session_id'' = Some sid" using sid by (simp add: stripped_field_def)
  with e dec known show ?thesis by (simp add: decrypt_transfer_payload_if_needed_def)
qed

text \<open>
  C19. Encryption changes only the form of a request: a request that the phone encrypts under the
  trust key of its session does to the desktop exactly what the same request in plain text does, and
  the response is the response to the plain request, encrypted under the same key with the keys of
  its objects in order.  This holds for every operation that may be encrypted and every answer, the
  refusals and the exceptions included.
\<close>
theorem encryption_is_transparent:
  assumes "aead_ok (ge_aead env)" and "length (ge_nonce env) = MOBILE_ENCRYPTED_BINARY_NONCE_BYTES"
    and "dict_ok (ge_flags env)" and op: "operation \<in> set SEALED_OPERATIONS"
    and "json_ok (JObj q)" and "JObj d = json_sorted (JObj q)" and "\<not> is_mobile_encrypted_payload d"
    and "stripped_field d ''session_id'' = Some sid"
    and "resolve_transfer_trust_key (pv_db (gw_pairing g)) sid None = Some key" and "py_strip key \<noteq> []"
    and "length nonce = MOBILE_ENCRYPTED_BINARY_NONCE_BYTES"
    and "encrypt_mobile_json_payload (ge_aead env) (pe_sha256 (ge_pairing env)) nonce q key [(''session_id'', sid)] = Inr e"
    and routes: "register_transport_routes [] = Inr routes"
    and plain: "router_dispatch routes env operation (ObjectPayload d) k g = (g', r)"
  shows "\<exists>r'. router_dispatch routes env operation (ObjectPayload e) k g = (g', r') \<and> seals env key r r'"
proof -
  have sid: "py_strip sid = sid" "py_strip sid \<noteq> []"
    using assms(8) by (auto simp: stripped_field_def strip_by_idem split: option.splits json.splits if_splits)
  note dec = sealed_request [OF assms(1,5,10,11) sid(2,1) assms(9,12,6)]
  have plain_dec: "decrypt_transfer_payload_if_needed env db d schema m = Inr (d, None)" for db schema m
    using assms(7) by (simp add: decrypt_transfer_payload_if_needed_def)
  have rsid: "response_session_id d p = Some sid" for p
    using assms(8) by (simp add: response_session_id_def extract_transfer_required_field_def)
  obtain h where h: "h \<in> set sealed_handlers" "dict_get app_routes operation = Some h" using sealed_route op by blast
  have r: "routes = app_routes" using routes routes_registered by simp
  obtain g2 x where serve: "serve h env k d g = (g2, x)" by fastforce
  have "router_dispatch routes env operation (ObjectPayload e) k g = finish_response env (Some key) (Some sid) (g2, x)"
    by (simp add: router_dispatch_def r h(2) handler_serves [OF h(1) dec] rsid serve)
  moreover have "g2 = g'" "x = r"
    using plain by (simp_all add: router_dispatch_def r h(2) handler_serves [OF h(1) plain_dec] finish_plain serve)
  moreover have "reply_ok x" using serve_reply_ok [OF assms(3), of h k d g] serve by simp
  ultimately show ?thesis using finish_sealed [OF assms(1,2,10) sid(2)] by simp
qed

text \<open>A request to start the session of the phone that the example tables know, in plain text and encrypted.\<close>

definition known_start :: payload where
  "known_start =
     [(''schema'', JStr MOBILE_TRANSFER_SCHEMA), (''session_id'', JStr ''s1''), (''device_uuid'', JStr ''old''),
      (''trust_proof'', JStr ''AA''), (''total_assets'', JInt 3)]"

definition known_start_sorted :: payload where
  "known_start_sorted =
     [(''device_uuid'', JStr ''old''), (''schema'', JStr MOBILE_TRANSFER_SCHEMA), (''session_id'', JStr ''s1''),
      (''total_assets'', JInt 3), (''trust_proof'', JStr ''AA'')]"

definition known_gateway :: gateway_world where
  "known_gateway = \<lparr>gw_pairing = pairing_init example_store no_files, gw_events = [], gw_prompts = []\<rparr>"

lemma known_start_facts:
  "json_ok (JObj known_start)" "JObj known_start_sorted = json_sorted (JObj known_start)"
  "\<not> is_mobile_encrypted_payload known_start_sorted" "stripped_field known_start_sorted ''session_id'' = Some ''s1''"
  "resolve_transfer_trust_key example_store ''s1'' None = Some ''k''" "py_strip ''k'' \<noteq> []" "py_strip ''s1'' \<noteq> []"
  by code_simp+

lemma encryption_is_transparent_witness:
  "\<exists>e g' r r'. encrypt_mobile_json_payload plain_aead (\<lambda>_. [1]) (replicate 12 9) known_start ''k'' [(''session_id'', ''s1'')] = Inr e \<and>
     router_dispatch app_routes example_gateway_env TRANSFER_START_OPERATION (ObjectPayload known_start_sorted) LAN_HTTP
       known_gateway = (g', r) \<and>
     router_dispatch app_routes example_gateway_env TRANSFER_START_OPERATION (ObjectPayload e) LAN_HTTP
       known_gateway = (g', r') \<and> seals example_gateway_env ''k'' r r'"
proof -
  let ?env = example_gateway_env
  have env: "ge_aead ?env = plain_aead" "ge_flags ?env = []" "pe_sha256 (ge_pairing ?env) = (\<lambda>_. [1])"
    "length (ge_nonce ?env) = MOBILE_ENCRYPTED_BINARY_NONCE_BYTES"
    "length (replicate 12 (9 :: byte)) = MOBILE_ENCRYPTED_BINARY_NONCE_BYTES"
    by (simp_all add: example_gateway_env_def pairing_example_env_def MOBILE_ENCRYPTED_BINARY_NONCE_BYTES_def)
  have ae: "aead_ok (ge_aead ?env)" and flags: "dict_ok (ge_flags ?env)" by (simp_all add: env plain_aead_ok)
  have "locators_ok [(''session_id'', ''s1'')]" using known_start_facts(7) strip_locator by (simp add: locators_ok_def)
  from encrypted_payload_decrypts [OF plain_aead_ok known_start_facts(1,6) env(5) this, of "\<lambda>_. [1]"] obtain e where
    e: "encrypt_mobile_json_payload plain_aead (\<lambda>_. [1]) (replicate 12 9) known_start ''k'' [(''session_id'', ''s1'')] = Inr e"
    by blast
  obtain g' r where plain: "router_dispatch app_routes ?env TRANSFER_START_OPERATION (ObjectPayload known_start_sorted) LAN_HTTP
       known_gateway = (g', r)" by fastforce
  have op: "TRANSFER_START_OPERATION \<in> set SEALED_OPERATIONS" by (simp add: SEALED_OPERATIONS_def)
  have known: "resolve_transfer_trust_key (pv_db (gw_pairing known_gateway)) ''s1'' None = Some ''k''"
    by (simp add: known_gateway_def pairing_init_def known_start_facts)
  from encryption_is_transparent [OF ae env(4) flags op known_start_facts(1-4) known known_start_facts(6) env(5)
      e [folded env(1,3)] routes_registered plain] e plain
  show ?thesis by blast
qed

section \<open>The tables under every request\<close>

lemma finish_world: "finish_response env key sid (g, r) = (g', r') \<Longrightarrow> g' = g"
  by (auto simp: finish_response_def split: sum.splits)

lemma clear_tracking_db [simp]: "pv_db (clear_transfer_transport_tracking s w) = pv_db w"
  by (simp add: clear_transfer_transport_tracking_def split: option.splits)

lemma transfer_tables:
  assumes "transfer_step S (transfer_view g) t" and "mobile_ok (pv_db (gw_pairing g))"
  shows "mobile_ok (tw_db t)"
  using transfer_step_effect [OF assms(1)] assms(2) by simp

lemma handler_keeps_tables:
  assumes ok: "mobile_ok (pv_db (gw_pairing g))"
    and fresh: "fresh_part (pv_fs (gw_pairing g)) (te_part_id (ge_transfer env))"
    and run: "run_handler h env req g = (g', r)"
  shows "mobile_ok (pv_db (gw_pairing g'))"
proof -
  let ?g = "\<lambda>p. track_transfer_transport (rq_transport req) p g"
  have start: "mobile_ok (tw_db t)" if "handle_start_request (ge_transfer env) d n (transfer_view (?g p)) = (t, x)" for d n p t x
    using transfer_tables [OF transfer_step.start [OF that]] ok by simp
  have existence: "mobile_ok (tw_db t)" if "handle_asset_existence_request (ge_transfer env) d (transfer_view (?g p)) = (t, x)" for d p t x
    using transfer_tables [OF transfer_step.existence [OF that]] ok by simp
  have complete: "mobile_ok (tw_db t)" if "handle_complete_request (ge_transfer env) d n (transfer_view (?g p)) = (t, x)" for d n p t x
    using transfer_tables [OF transfer_step.complete [OF that]] ok by simp
  have upload: "mobile_ok (tw_db t)" if "handle_asset_upload (ge_transfer env) m b len f sha n (transfer_view (?g p)) = (t, x)"
    for m b len f sha n p t x
    using transfer_tables [OF transfer_step.upload [OF that, of "set_option f"]] ok fresh by simp
  show ?thesis
  proof (cases h)
    case H_PairingClaim
    with run ok show ?thesis
      by (auto simp: dispatch_pairing_claim_def dest: claim_keeps_tables split: transport_payload.splits prod.splits)
  next
    case H_PairingState
    with run ok show ?thesis by (auto simp: dispatch_pairing_state_def split: transport_payload.splits)
  next
    case H_CapabilityExchange
    with run ok show ?thesis
      by (auto simp: dispatch_capability_exchange_def dest!: finish_world split: transport_payload.splits sum.splits)
  next
    case H_UpdatePrompt
    with run ok show ?thesis
      by (auto simp: dispatch_update_prompt_def dest!: finish_world split: transport_payload.splits sum.splits prod.splits)
  next
    case H_TransferStart
    with run ok start show ?thesis
      by (auto simp: dispatch_transfer_start_def Let_def dest!: finish_world split: transport_payload.splits sum.splits prod.splits)
  next
    case H_TransferExistence
    with run ok existence show ?thesis
      by (auto simp: dispatch_transfer_existence_def Let_def dest!: finish_world split: transport_payload.splits sum.splits prod.splits)
  next
    case H_TransferAsset
    with run ok upload show ?thesis
      by (auto simp: dispatch_transfer_asset_def Let_def dest!: finish_world split: transport_payload.splits sum.splits prod.splits)
  next
    case H_TransferComplete
    with run ok complete show ?thesis
      by (auto simp: dispatch_transfer_complete_def Let_def dest!: finish_world split: transport_payload.splits sum.splits prod.splits)
  qed
qed

text \<open>
  What can happen to the desktop: a request over any transport, whatever its operation and payload, or
  a step of the desktop itself, in any environment.
\<close>

inductive gateway_step :: "transport_routes \<Rightarrow> gateway_world \<Rightarrow> gateway_world \<Rightarrow> bool" for routes where
  request: "router_dispatch routes env operation p k g = (g', r) \<Longrightarrow>
    fresh_part (pv_fs (gw_pairing g)) (te_part_id (ge_transfer env)) \<Longrightarrow> gateway_step routes g g'"
| desktop: "pairing_op (gw_pairing g) w' \<Longrightarrow> \<forall>q\<in>set (pv_threads (gw_pairing g)). question_holds (pv_db (gw_pairing g)) q \<Longrightarrow>
    gateway_step routes g (g\<lparr>gw_pairing := w'\<rparr>)"

lemma gateway_step_tables:
  assumes "gateway_step routes g g'" and "mobile_ok (pv_db (gw_pairing g))"
  shows "mobile_ok (pv_db (gw_pairing g'))"
  using assms
proof cases
  case (request env operation p k r)
  then show ?thesis
    using assms(2) handler_keeps_tables by (auto simp: router_dispatch_def split: option.splits)
next
  case (desktop w')
  with pairing_op_tables assms(2) show ?thesis by auto
qed



end
