(* ===== verification/TransportEnvelope.thy ===== *)
theory TransportEnvelope
  imports PairingGateway AssetUploadStream
begin

text \<open>
  What the two USB transports share (\<^verbatim>\<open>dt_image_search/mobile/transport/usb_ws_adapter.py\<close> and
  \<^verbatim>\<open>usb_aoa_adapter.py\<close> write it out twice): JSON envelopes that name an operation, assets that
  stream in as binary chunks between a start and a completion, and the answers.

  An adapter keeps the pending uploads; everything else it reaches through the router.  The
  router, the resolver of trust keys and the name of the next temporary file are its environment.
\<close>

section \<open>State and environment\<close>

record adapter_world =
  aw_gateway :: gateway_world
  aw_stream :: upload_stream

record adapter_env =
  ad_gateway :: gateway_env
  ad_routes :: transport_routes
  ad_temp_path :: ppath

abbreviation aw_db :: "adapter_world \<Rightarrow> app_db" where
  "aw_db w \<equiv> pv_db (gw_pairing (aw_gateway w))"

abbreviation aw_fs :: "adapter_world \<Rightarrow> pyfs" where
  "aw_fs w \<equiv> pv_fs (gw_pairing (aw_gateway w))"

definition put_stream :: "adapter_world \<Rightarrow> upload_stream \<Rightarrow> pyfs \<Rightarrow> adapter_world" where
  "put_stream w st fs =
     w\<lparr>aw_stream := st, aw_gateway := (aw_gateway w)\<lparr>gw_pairing := (gw_pairing (aw_gateway w))\<lparr>pv_fs := fs\<rparr>\<rparr>\<rparr>"

text \<open>A call of the upload stream; its \<open>OSError\<close> is raised.\<close>

definition stream_call ::
    "(upload_stream \<Rightarrow> pyfs \<Rightarrow> upload_stream \<times> pyfs \<times> (os_error + 'a)) \<Rightarrow> adapter_world \<Rightarrow> adapter_world \<times> 'a res" where
  "stream_call f w =
     (case f (aw_stream w) (aw_fs w) of
        (st, fs, Inl e) \<Rightarrow> (put_stream w st fs, Inl (OSError e))
      | (st, fs, Inr x) \<Rightarrow> (put_stream w st fs, Inr x))"

definition MOBILE_TRANSPORT_ENVELOPE_SCHEMA :: string where
  "MOBILE_TRANSPORT_ENVELOPE_SCHEMA = ''dtis.mobile-transport.v1''"
definition USB_TRANSPORT_REJECTED_STATUS :: string where
  "USB_TRANSPORT_REJECTED_STATUS = ''rejected''"
definition TRANSFER_ASSET_STREAM_STATE_FIELD :: string where
  "TRANSFER_ASSET_STREAM_STATE_FIELD = ''stream_state''"
definition TRANSFER_ASSET_STREAM_STATE_START :: string where
  "TRANSFER_ASSET_STREAM_STATE_START = ''start''"
definition TRANSFER_ASSET_STREAM_STATE_CHUNK :: string where
  "TRANSFER_ASSET_STREAM_STATE_CHUNK = ''chunk''"
definition TRANSFER_ASSET_STREAM_STATE_COMPLETE :: string where
  "TRANSFER_ASSET_STREAM_STATE_COMPLETE = ''complete''"

section \<open>Envelopes\<close>

definition transport_error_response :: "string \<Rightarrow> http_response" where
  "transport_error_response message =
     (400, [(''schema'', JStr MOBILE_TRANSPORT_ENVELOPE_SCHEMA), (''status'', JStr USB_TRANSPORT_REJECTED_STATUS),
            (''message'', JStr message)])"

definition parse_envelope :: "string \<Rightarrow> http_response + payload" where
  "parse_envelope raw_message =
     (case json_loads raw_message of
        None \<Rightarrow> Inl (transport_error_response ''Desktop could not parse the USB transport envelope JSON payload.'')
      | Some (JObj p) \<Rightarrow>
          if dict_get p ''schema'' \<noteq> Some (JStr MOBILE_TRANSPORT_ENVELOPE_SCHEMA)
          then Inl (transport_error_response ''Desktop rejected an unsupported USB transport schema.'')
          else if stripped_field p ''operation'' = None
          then Inl (transport_error_response ''Desktop rejected a USB transport message with a missing operation.'')
          else Inr p
      | Some _ \<Rightarrow> Inl (transport_error_response ''Desktop requires JSON object envelopes for USB transport messages.''))"

definition extract_request_id :: "string \<Rightarrow> string option" where
  "extract_request_id raw_message =
     (case json_loads raw_message of Some (JObj p) \<Rightarrow> stripped_field p ''request_id'' | _ \<Rightarrow> None)"

definition response_envelope :: "string \<Rightarrow> http_response \<Rightarrow> payload" where
  "response_envelope request_id response =
     [(''schema'', JStr MOBILE_TRANSPORT_ENVELOPE_SCHEMA), (''request_id'', JStr request_id),
      (''status_code'', JInt (fst response)), (''body'', JObj (snd response))]"

definition encode_response_envelope :: "string \<Rightarrow> http_response \<Rightarrow> string" where
  "encode_response_envelope request_id response = json_dumps True (JObj (response_envelope request_id response))"

section \<open>Assets that stream in\<close>

text \<open>The metadata and the trust key of an encrypted start, or the text of its refusal.\<close>

definition decrypt_transfer_asset_stream_metadata ::
    "gateway_env \<Rightarrow> app_db \<Rightarrow> payload \<Rightarrow> string + (payload \<times> string)" where
  "decrypt_transfer_asset_stream_metadata env db metadata_payload =
     (case stripped_field metadata_payload ''session_id'' of
        None \<Rightarrow> Inl (''Desktop rejected encrypted transfer asset metadata field '' @ quoted ''session_id'' @ ''.'')
      | Some session_id \<Rightarrow>
          (case resolve_transfer_trust_key db session_id None of
             None \<Rightarrow> Inl ''Desktop rejected the transfer session.''
           | Some key \<Rightarrow>
               (case decrypt_mobile_json_payload (ge_aead env) (pe_sha256 (ge_pairing env)) metadata_payload key of
                  Inl m \<Rightarrow> Inl m
                | Inr p \<Rightarrow> Inr (p, key))))"

definition upload_of_payload :: "asset_upload_payload \<Rightarrow> upload_request" where
  "upload_of_payload a =
     \<lparr>up_metadata = ap_metadata a, up_body = map_option (\<lambda>b. [Inr b]) (ap_body a),
      up_content_length = ap_content_length a, up_temp_file_path = ap_temp_file_path a,
      up_content_sha1 = ap_content_sha1 a, up_trust_key_b64 = ap_trust_key_b64 a\<rparr>"

text \<open>What a transfer asset message amounts to: nothing to answer, a refusal, or an upload to dispatch.\<close>

datatype stream_payload = NoAnswer | ErrorAnswer http_response | UploadAnswer upload_request

definition complete_pending_asset_upload ::
    "adapter_env \<Rightarrow> string \<Rightarrow> adapter_world \<Rightarrow> adapter_world \<times> stream_payload res" where
  "complete_pending_asset_upload env request_id w =
     (case stream_call (upload_complete (te_sha1 (ge_transfer (ad_gateway env))) request_id) w of
        (w', Inl e) \<Rightarrow> (w', Inl e)
      | (w', Inr (Inl m)) \<Rightarrow> (w', Inr (ErrorAnswer (transport_error_response m)))
      | (w', Inr (Inr a)) \<Rightarrow> (w', Inr (UploadAnswer (upload_of_payload a))))"

definition start_pending_asset_upload ::
    "adapter_env \<Rightarrow> string \<Rightarrow> payload \<Rightarrow> string option \<Rightarrow> adapter_world \<Rightarrow> adapter_world \<times> unit res" where
  "start_pending_asset_upload env request_id metadata_payload trust_key_b64 w =
     stream_call (upload_start (ad_temp_path env) request_id metadata_payload trust_key_b64 False) w"

text \<open>The metadata of a start message, without the fields of the stream.\<close>

definition stream_metadata :: "payload \<Rightarrow> payload" where
  "stream_metadata body = dict_del (dict_del body TRANSFER_ASSET_STREAM_STATE_FIELD) ''chunk_size''"

definition decrypted_metadata :: "gateway_env \<Rightarrow> app_db \<Rightarrow> payload \<Rightarrow> string + (payload \<times> string option)" where
  "decrypted_metadata env db metadata_payload =
     (if is_mobile_encrypted_payload metadata_payload
      then (case decrypt_transfer_asset_stream_metadata env db metadata_payload of
              Inl m \<Rightarrow> Inl m
            | Inr (p, key) \<Rightarrow> Inr (p, Some key))
      else Inr (metadata_payload, None))"

definition dispatch_transfer_asset_stream_payload ::
    "adapter_env \<Rightarrow> string \<Rightarrow> json option \<Rightarrow> adapter_world \<Rightarrow> adapter_world \<times> stream_payload res" where
  "dispatch_transfer_asset_stream_payload env request_id raw_body w =
     (case raw_body of
        Some (JObj body) \<Rightarrow>
          let stream_state = dict_get body TRANSFER_ASSET_STREAM_STATE_FIELD
          in if stream_state = Some (JStr TRANSFER_ASSET_STREAM_STATE_START)
             then (case decrypted_metadata (ad_gateway env) (aw_db w) (stream_metadata body) of
                     Inl m \<Rightarrow> (w, Inr (ErrorAnswer (transport_error_response m)))
                   | Inr (metadata_payload, key) \<Rightarrow>
                       (case start_pending_asset_upload env request_id metadata_payload key w of
                          (w', Inl e) \<Rightarrow> (w', Inl e)
                        | (w', Inr _) \<Rightarrow> (w', Inr NoAnswer)))
             else if stream_state = Some (JStr TRANSFER_ASSET_STREAM_STATE_COMPLETE)
             then complete_pending_asset_upload env request_id w
             else (w, Inr (ErrorAnswer (transport_error_response
                    (''Desktop rejected transfer asset stream message with an unsupported ''
                       @ quoted TRANSFER_ASSET_STREAM_STATE_FIELD @ '' value.''))))
      | _ \<Rightarrow> (w, Inr (ErrorAnswer (transport_error_response
               ''Desktop requires JSON object payloads for transfer asset requests.''))))"

section \<open>Requests\<close>

text \<open>The answer of the router; only a route that is missing is answered here.\<close>

definition dispatch_to_router ::
    "adapter_env \<Rightarrow> transport_kind \<Rightarrow> string \<Rightarrow> transport_payload \<Rightarrow> adapter_world \<Rightarrow> adapter_world \<times> http_response res" where
  "dispatch_to_router env kind operation p w =
     (case router_dispatch (ad_routes env) (ad_gateway env) operation p kind (aw_gateway w) of
        (g, r) \<Rightarrow> (w\<lparr>aw_gateway := g\<rparr>,
          if dict_get (ad_routes env) operation = None
          then Inr (transport_error_response (''Desktop does not support USB transport operation ''
                      @ quoted operation @ ''.''))
          else r))"

text \<open>The body of an envelope; one that is missing is an empty object.\<close>

definition envelope_body :: "payload \<Rightarrow> payload option" where
  "envelope_body envelope =
     (case dict_get envelope ''body'' of
        None \<Rightarrow> Some []
      | Some JNull \<Rightarrow> Some []
      | Some (JObj body) \<Rightarrow> Some body
      | Some _ \<Rightarrow> None)"

text \<open>\<^verbatim>\<open>_dispatch_envelope_request\<close>: the request id and the response, when there is one to send.\<close>

definition dispatch_envelope_request ::
    "adapter_env \<Rightarrow> transport_kind \<Rightarrow> string \<Rightarrow> adapter_world
     \<Rightarrow> adapter_world \<times> (string option \<times> http_response option) res" where
  "dispatch_envelope_request env kind raw_message w =
     (case parse_envelope raw_message of
        Inl response \<Rightarrow> (w, Inr (extract_request_id raw_message, Some response))
      | Inr envelope \<Rightarrow>
          let operation = text_field envelope ''operation''
          in (case stripped_field envelope ''request_id'' of
                None \<Rightarrow> (w, Inr (None, Some (transport_error_response
                          ''Desktop rejected a USB transport message with a missing request id.'')))
              | Some request_id \<Rightarrow>
                  if operation = TRANSFER_ASSET_OPERATION
                  then (case dispatch_transfer_asset_stream_payload env request_id (dict_get envelope ''body'') w of
                          (w', Inl e) \<Rightarrow> (w', Inl e)
                        | (w', Inr NoAnswer) \<Rightarrow> (w', Inr (Some request_id, None))
                        | (w', Inr (ErrorAnswer response)) \<Rightarrow> (w', Inr (Some request_id, Some response))
                        | (w', Inr (UploadAnswer u)) \<Rightarrow>
                            apsnd (\<lambda>r. bindE r (\<lambda>response. Inr (Some request_id, Some response)))
                              (dispatch_to_router env kind operation (UploadPayload u) w'))
                  else (case envelope_body envelope of
                          Some body \<Rightarrow>
                            apsnd (\<lambda>r. bindE r (\<lambda>response. Inr (Some request_id, Some response)))
                              (dispatch_to_router env kind operation (ObjectPayload body) w)
                        | None \<Rightarrow> (w, Inr (Some request_id, Some (transport_error_response
                            (''Desktop requires JSON object payloads for USB transport operation ''
                               @ quoted operation @ ''.'')))))))"

text \<open>
  A text message and the envelope that is sent back, if any: a response without a request id is
  only logged.
\<close>

definition handle_text_message ::
    "adapter_env \<Rightarrow> transport_kind \<Rightarrow> string \<Rightarrow> adapter_world \<Rightarrow> adapter_world \<times> string option res" where
  "handle_text_message env kind raw_message w =
     (case dispatch_envelope_request env kind raw_message w of
        (w', Inl e) \<Rightarrow> (w', Inl e)
      | (w', Inr (Some request_id, Some response)) \<Rightarrow> (w', Inr (Some (encode_response_envelope request_id response)))
      | (w', Inr _) \<Rightarrow> (w', Inr None))"

section \<open>Binary chunks\<close>

text \<open>
  A chunk of the upload \<open>request_id\<close>, encrypted when its upload is.  A refusal of the stream is a
  \<open>RuntimeError\<close>, which ends the session, except when no upload is pending.
\<close>

definition append_binary_chunk ::
    "adapter_env \<Rightarrow> string \<Rightarrow> byte list \<Rightarrow> adapter_world \<Rightarrow> adapter_world \<times> unit res" where
  "append_binary_chunk env request_id chunk w =
     (case (case upload_encryption_trust_key (aw_stream w) (Some request_id) of
              None \<Rightarrow> Inr chunk
            | Some key \<Rightarrow> decrypt_mobile_binary_chunk (ge_aead (ad_gateway env))
                            (pe_sha256 (ge_pairing (ad_gateway env))) chunk key) of
        Inl m \<Rightarrow> (w, Inl (RuntimeError m))
      | Inr frame_payload \<Rightarrow>
          (case stream_call (upload_append_chunk frame_payload (Some request_id)) w of
             (w', Inl e) \<Rightarrow> (w', Inl e)
           | (w', Inr None) \<Rightarrow> (w', Inr ())
           | (w', Inr (Some m)) \<Rightarrow>
               (w', if frame_payload = [] then Inr ()
                    else if TRANSFER_ASSET_STREAM_CHUNK_SIZE_BYTES < length frame_payload then Inl (RuntimeError m)
                    else if active_request_id (aw_stream w') = None then Inr ()
                    else Inl (RuntimeError m))))"

end
