(* ===== verification/LanTransport.thy ===== *)
theory LanTransport
  imports TransportEnvelope
begin

text \<open>
  \<^verbatim>\<open>dt_image_search/mobile/transport/lan_http_adapter.py\<close>: the HTTP server of the desktop on the
  local network.  A request is what \<^verbatim>\<open>http.server\<close> and \<^verbatim>\<open>urllib.parse\<close> make of it: the path,
  the query parameters, the \<^verbatim>\<open>Content-Length\<close> header and the bytes that follow.  A body that is
  not text of characters up to U+00FF is refused, like every text of the development.  The server
  socket, its threads and log messages are left out; a response is written without an error.
\<close>

record http_request =
  hq_path :: string
  hq_query :: "(string, string list) dict"
  hq_content_length :: "string option"
  hq_body :: "byte list"
  hq_read_error :: "os_error option"

section \<open>Reading and writing\<close>

text \<open>\<^verbatim>\<open>int(text)\<close>: a sign, and digits that single underscores may separate.\<close>

definition py_int_digits :: "string \<Rightarrow> int option" where
  "py_int_digits ds =
     (if list_all (\<lambda>g. g \<noteq> [] \<and> list_all is_ascii_digit g) (split_char (CHR ''_'') ds)
      then Some (int (dec_value (filter (\<lambda>c. c \<noteq> CHR ''_'') ds))) else None)"

definition py_int :: "string \<Rightarrow> int option" where
  "py_int s =
     (case py_strip s of
        [] \<Rightarrow> None
      | c # cs \<Rightarrow> if c = CHR ''-'' then map_option uminus (py_int_digits cs)
                  else if c = CHR ''+'' then py_int_digits cs else py_int_digits (c # cs))"

definition header_length :: "http_request \<Rightarrow> int res" where
  "header_length req =
     (case py_int (case hq_content_length req of None \<Rightarrow> ''0'' | Some s \<Rightarrow> s) of
        None \<Rightarrow> Inl (ValueError ''invalid literal for int() with base 10'')
      | Some n \<Rightarrow> Inr n)"

text \<open>\<^verbatim>\<open>rfile.read(n)\<close>: fewer bytes at the end of the connection, all of them for a negative \<open>n\<close>.\<close>

definition rfile_read :: "http_request \<Rightarrow> int \<Rightarrow> os_error + byte list" where
  "rfile_read req n =
     (case hq_read_error req of
        Some e \<Rightarrow> Inl e
      | None \<Rightarrow> Inr (if n < 0 then hq_body req else take (nat n) (hq_body req)))"

text \<open>The payload of a request, or the response that ends it.\<close>

definition read_json_payload ::
    "http_request \<Rightarrow> string \<Rightarrow> string \<Rightarrow> string \<Rightarrow> string \<Rightarrow> string \<Rightarrow> (http_response + payload) res" where
  "read_json_payload req schema status state_field parse_error_message object_error_message =
     bindE (header_length req) (\<lambda>n.
       case rfile_read req n of
         Inl e \<Rightarrow> Inl (OSError e)
       | Inr raw \<Rightarrow>
           (let refusal = (\<lambda>m. Inr (Inl (400, [(''schema'', JStr schema), (state_field, JStr status), (''message'', JStr m)])))
            in case Option.bind (utf8_decode raw) json_loads of
                 None \<Rightarrow> refusal parse_error_message
               | Some (JObj p) \<Rightarrow> Inr (Inr p)
               | Some _ \<Rightarrow> refusal object_error_message))"

definition transfer_response_locator_fields :: "payload option \<Rightarrow> (string \<times> string) list option" where
  "transfer_response_locator_fields metadata_payload =
     (case metadata_payload of
        None \<Rightarrow> None
      | Some p \<Rightarrow> map_option (\<lambda>s. [(''session_id'', s)]) (stripped_field p ''session_id''))"

definition stream_refusal :: "int \<Rightarrow> string \<Rightarrow> http_response" where
  "stream_refusal status_code message =
     (status_code, [(''schema'', JStr MOBILE_TRANSFER_SCHEMA), (''status'', JStr ''rejected''), (''message'', JStr message)])"

text \<open>What is written for a response, encrypted when a key is given.\<close>

definition write_json_response ::
    "gateway_env \<Rightarrow> http_response \<Rightarrow> string option \<Rightarrow> (string \<times> string) list option \<Rightarrow> http_response" where
  "write_json_response env response trust_key_b64 locators =
     (case trust_key_b64 of
        None \<Rightarrow> response
      | Some key \<Rightarrow>
          (case locators of
             None \<Rightarrow> stream_refusal 500 ''Desktop could not build encrypted response locators.''
           | Some fs \<Rightarrow>
               (case encrypt_mobile_json_payload (ge_aead env) (pe_sha256 (ge_pairing env)) (ge_nonce env)
                       (snd response) key fs of
                  Inl m \<Rightarrow> stream_refusal 500 m
                | Inr e \<Rightarrow> (fst response, e))))"

section \<open>Assets that stream in\<close>

text \<open>The error of a stream is reported to the transfer service; its upload is given up.\<close>

definition stream_error_response ::
    "adapter_env \<Rightarrow> string option \<Rightarrow> payload option \<Rightarrow> os_error \<Rightarrow> string option \<Rightarrow> adapter_world
     \<Rightarrow> adapter_world \<times> http_response res" where
  "stream_error_response env request_id metadata_payload error trust_key_b64 w =
     (case (case request_id of
              None \<Rightarrow> (w, Inr (trust_key_b64, metadata_payload))
            | Some r \<Rightarrow>
                let key = (case trust_key_b64 of
                             Some k \<Rightarrow> Some k
                           | None \<Rightarrow> upload_encryption_trust_key (aw_stream w) (Some r))
                in (case stream_call (upload_discard r) w of
                      (w1, Inl e) \<Rightarrow> (w1, Inl e)
                    | (w1, Inr discarded) \<Rightarrow>
                        (w1, Inr (key, case metadata_payload of Some p \<Rightarrow> Some p | None \<Rightarrow> discarded)))) of
        (w1, Inl e) \<Rightarrow> (w1, Inl e)
      | (w1, Inr (key, metadata)) \<Rightarrow>
          (case handle_asset_upload_stream_error (ge_transfer (ad_gateway env)) metadata error None
                  (transfer_view (aw_gateway w1)) of
             (t, r) \<Rightarrow> (w1\<lparr>aw_gateway := put_transfer (aw_gateway w1) t\<rparr>,
               bindE r (\<lambda>response. Inr (write_json_response (ad_gateway env) response key
                                           (transfer_response_locator_fields metadata))))))"

definition stream_accepted :: "string \<Rightarrow> string \<Rightarrow> http_response" where
  "stream_accepted message request_id =
     (200, [(''schema'', JStr MOBILE_TRANSFER_SCHEMA), (''status'', JStr ''accepted''), (''message'', JStr message),
            (''request_id'', JStr request_id)])"

definition lan_dispatch ::
    "adapter_env \<Rightarrow> string \<Rightarrow> transport_payload \<Rightarrow> adapter_world \<Rightarrow> adapter_world \<times> http_response res" where
  "lan_dispatch env operation p w =
     (case router_dispatch (ad_routes env) (ad_gateway env) operation p LAN_HTTP (aw_gateway w) of
        (g, r) \<Rightarrow> (w\<lparr>aw_gateway := g\<rparr>, r))"

definition lan_stream_start ::
    "adapter_env \<Rightarrow> string \<Rightarrow> http_request \<Rightarrow> adapter_world \<Rightarrow> adapter_world \<times> http_response res" where
  "lan_stream_start env request_id req w =
     (case read_json_payload req MOBILE_TRANSFER_SCHEMA ''rejected'' ''status''
             ''Desktop could not parse the transfer asset stream start payload.''
             ''Desktop requires JSON object payloads for transfer asset stream start requests.'' of
        Inl e \<Rightarrow> (w, Inl e)
      | Inr (Inl response) \<Rightarrow> (w, Inr response)
      | Inr (Inr p) \<Rightarrow>
          (case decrypted_metadata (ad_gateway env) (aw_db w) (stream_metadata p) of
             Inl m \<Rightarrow> (w, Inr (stream_refusal 400 m))
           | Inr (metadata, key) \<Rightarrow>
               (case start_pending_asset_upload env request_id metadata key w of
                  (w1, Inl (OSError e)) \<Rightarrow> stream_error_response env None (Some metadata) e key w1
                | (w1, Inl e) \<Rightarrow> (w1, Inl e)
                | (w1, Inr _) \<Rightarrow>
                    (w1, Inr (write_json_response (ad_gateway env)
                           (stream_accepted ''Desktop accepted transfer asset stream metadata.'' request_id) key
                           (transfer_response_locator_fields (Some metadata)))))))"

definition INVALID_CHUNK_LENGTH :: string where
  "INVALID_CHUNK_LENGTH = ''Desktop received an invalid transfer asset stream chunk length.''"

text \<open>The checks on the length of a chunk before it is read: the text of the refusal.\<close>

definition chunk_length_refusal :: "int option \<Rightarrow> string option" where
  "chunk_length_refusal content_length =
     (case content_length of
        None \<Rightarrow> Some INVALID_CHUNK_LENGTH
      | Some n \<Rightarrow>
          if n \<le> 0 then Some INVALID_CHUNK_LENGTH
          else if int (TRANSFER_ASSET_STREAM_CHUNK_SIZE_BYTES + MOBILE_ENCRYPTED_BINARY_CHUNK_OVERHEAD_BYTES) < n
          then Some (''Desktop rejected transfer asset stream chunk because it exceeded ''
                       @ str_nat TRANSFER_ASSET_STREAM_CHUNK_SIZE_BYTES @ '' bytes.'')
          else None)"

definition lan_append_chunk ::
    "adapter_env \<Rightarrow> string \<Rightarrow> byte list \<Rightarrow> adapter_world \<Rightarrow> adapter_world \<times> http_response res" where
  "lan_append_chunk env request_id chunk w =
     (let key = upload_encryption_trust_key (aw_stream w) (Some request_id);
          locators = transfer_response_locator_fields (upload_metadata_payload (aw_stream w) (Some request_id));
          answer = (\<lambda>response. write_json_response (ad_gateway env) response key locators)
      in case (case key of
                 None \<Rightarrow> Inr chunk
               | Some k \<Rightarrow> decrypt_mobile_binary_chunk (ge_aead (ad_gateway env))
                             (pe_sha256 (ge_pairing (ad_gateway env))) chunk k) of
           Inl m \<Rightarrow> (w, Inr (answer (stream_refusal 400 m)))
         | Inr plain \<Rightarrow>
             (case stream_call (upload_append_chunk plain (Some request_id)) w of
                (w1, Inl (OSError e)) \<Rightarrow> stream_error_response env (Some request_id) None e key w1
              | (w1, Inl e) \<Rightarrow> (w1, Inl e)
              | (w1, Inr (Some m)) \<Rightarrow> (w1, Inr (answer (stream_refusal 400 m)))
              | (w1, Inr None) \<Rightarrow>
                  (w1, Inr (answer (stream_accepted ''Desktop accepted transfer asset stream chunk.'' request_id)))))"

definition lan_stream_chunk ::
    "adapter_env \<Rightarrow> string \<Rightarrow> http_request \<Rightarrow> adapter_world \<Rightarrow> adapter_world \<times> http_response res" where
  "lan_stream_chunk env request_id req w =
     (let content_length = (case header_length req of Inl _ \<Rightarrow> None | Inr n \<Rightarrow> Some n)
      in case chunk_length_refusal content_length of
           Some m \<Rightarrow> (w, Inr (stream_refusal 400 m))
         | None \<Rightarrow>
             (case rfile_read req (or_zero content_length) of
                Inl e \<Rightarrow> stream_error_response env (Some request_id) None e None w
              | Inr chunk \<Rightarrow>
                  if int (length chunk) \<noteq> or_zero content_length
                  then (w, Inr (stream_refusal 400 ''Desktop received an incomplete transfer asset stream chunk.''))
                  else lan_append_chunk env request_id chunk w))"

definition lan_stream_complete ::
    "adapter_env \<Rightarrow> string \<Rightarrow> adapter_world \<Rightarrow> adapter_world \<times> http_response res" where
  "lan_stream_complete env request_id w =
     (case stream_call (upload_complete (te_sha1 (ge_transfer (ad_gateway env))) request_id) w of
        (w1, Inl (OSError e)) \<Rightarrow> stream_error_response env (Some request_id) None e None w1
      | (w1, Inl e) \<Rightarrow> (w1, Inl e)
      | (w1, Inr (Inl m)) \<Rightarrow> (w1, Inr (stream_refusal 400 m))
      | (w1, Inr (Inr a)) \<Rightarrow> lan_dispatch env TRANSFER_ASSET_OPERATION (UploadPayload (upload_of_payload a)) w1)"

text \<open>The first value of a query parameter.\<close>

definition query_value :: "http_request \<Rightarrow> string \<Rightarrow> string option" where
  "query_value req name = (case dict_get (hq_query req) name of Some (v # _) \<Rightarrow> Some v | _ \<Rightarrow> None)"

definition lan_asset_request ::
    "adapter_env \<Rightarrow> http_request \<Rightarrow> adapter_world \<Rightarrow> adapter_world \<times> http_response res" where
  "lan_asset_request env req w =
     (let request_id = py_strip (case query_value req ''request_id'' of None \<Rightarrow> [] | Some r \<Rightarrow> r);
          stream_state = query_value req TRANSFER_ASSET_STREAM_STATE_FIELD
      in if request_id = []
         then (w, Inr (stream_refusal 400 ''Desktop did not receive a transfer asset request id.''))
         else if stream_state = Some TRANSFER_ASSET_STREAM_STATE_START then lan_stream_start env request_id req w
         else if stream_state = Some TRANSFER_ASSET_STREAM_STATE_CHUNK then lan_stream_chunk env request_id req w
         else if stream_state = Some TRANSFER_ASSET_STREAM_STATE_COMPLETE then lan_stream_complete env request_id w
         else (w, Inr (stream_refusal 400
                (''Desktop rejected transfer asset stream request with an unsupported ''
                   @ quoted TRANSFER_ASSET_STREAM_STATE_FIELD @ '' value.''))))"

section \<open>Requests\<close>

definition PAIRING_STATE_PATH :: string where "PAIRING_STATE_PATH = ''/api/mobile/pairing/state''"
definition MOBILE_TRANSFER_START_PATH :: string where "MOBILE_TRANSFER_START_PATH = ''/api/mobile/transfer/start''"
definition MOBILE_TRANSFER_EXISTENCE_PATH :: string where
  "MOBILE_TRANSFER_EXISTENCE_PATH = ''/api/mobile/transfer/existence''"
definition MOBILE_TRANSFER_ASSET_PATH :: string where "MOBILE_TRANSFER_ASSET_PATH = ''/api/mobile/transfer/asset''"
definition MOBILE_TRANSFER_COMPLETE_PATH :: string where
  "MOBILE_TRANSFER_COMPLETE_PATH = ''/api/mobile/transfer/complete''"
definition MOBILE_CAPABILITY_EXCHANGE_PATH :: string where
  "MOBILE_CAPABILITY_EXCHANGE_PATH = ''/api/mobile/capabilities/exchange''"
definition MOBILE_UPDATE_PROMPT_PATH :: string where "MOBILE_UPDATE_PROMPT_PATH = ''/api/mobile/update/prompt''"

text \<open>A path whose body is a JSON object: its operation and the texts of its refusals.\<close>

record json_route =
  jr_path :: string
  jr_operation :: string
  jr_schema :: string
  jr_status :: string
  jr_state_field :: string
  jr_subject :: string
  jr_object_subject :: string

definition pairing_rejected_status :: string where
  "pairing_rejected_status = backup_state_value PENDING_PAIRING"

definition json_routes :: "json_route list" where
  "json_routes =
     [\<lparr>jr_path = PAIRING_CLAIM_PATH, jr_operation = PAIRING_CLAIM_OPERATION, jr_schema = PAIRING_PROTOCOL_SCHEMA,
       jr_status = pairing_rejected_status, jr_state_field = ''backup_state'', jr_subject = ''pairing request'',
       jr_object_subject = ''pairing requests''\<rparr>,
      \<lparr>jr_path = PAIRING_STATE_PATH, jr_operation = PAIRING_STATE_OPERATION, jr_schema = PAIRING_PROTOCOL_SCHEMA,
       jr_status = pairing_rejected_status, jr_state_field = ''backup_state'', jr_subject = ''pairing state'',
       jr_object_subject = ''pairing state requests''\<rparr>,
      \<lparr>jr_path = MOBILE_TRANSFER_START_PATH, jr_operation = TRANSFER_START_OPERATION, jr_schema = MOBILE_TRANSFER_SCHEMA,
       jr_status = ''rejected'', jr_state_field = ''status'', jr_subject = ''transfer request'',
       jr_object_subject = ''transfer requests''\<rparr>,
      \<lparr>jr_path = MOBILE_TRANSFER_EXISTENCE_PATH, jr_operation = TRANSFER_EXISTENCE_OPERATION,
       jr_schema = MOBILE_TRANSFER_SCHEMA, jr_status = ''rejected'', jr_state_field = ''status'',
       jr_subject = ''transfer existence'', jr_object_subject = ''transfer existence requests''\<rparr>,
      \<lparr>jr_path = MOBILE_TRANSFER_COMPLETE_PATH, jr_operation = TRANSFER_COMPLETE_OPERATION,
       jr_schema = MOBILE_TRANSFER_SCHEMA, jr_status = ''rejected'', jr_state_field = ''status'',
       jr_subject = ''transfer completion'', jr_object_subject = ''transfer completion requests''\<rparr>,
      \<lparr>jr_path = MOBILE_CAPABILITY_EXCHANGE_PATH, jr_operation = CAPABILITY_EXCHANGE_OPERATION,
       jr_schema = MOBILE_CAPABILITY_EXCHANGE_SCHEMA, jr_status = ''rejected'', jr_state_field = ''status'',
       jr_subject = ''capability exchange'', jr_object_subject = ''capability exchange requests''\<rparr>,
      \<lparr>jr_path = MOBILE_UPDATE_PROMPT_PATH, jr_operation = UPDATE_PROMPT_OPERATION,
       jr_schema = MOBILE_UPDATE_PROMPT_SCHEMA, jr_status = ''rejected'', jr_state_field = ''status'',
       jr_subject = ''update prompt'', jr_object_subject = ''update prompt requests''\<rparr>]"

definition lan_json_request ::
    "adapter_env \<Rightarrow> json_route \<Rightarrow> http_request \<Rightarrow> adapter_world \<Rightarrow> adapter_world \<times> http_response res" where
  "lan_json_request env route req w =
     (case read_json_payload req (jr_schema route) (jr_status route) (jr_state_field route)
             (''Desktop could not parse the '' @ jr_subject route @ '' JSON payload.'')
             (''Desktop requires JSON object payloads for '' @ jr_object_subject route @ ''.'') of
        Inl e \<Rightarrow> (w, Inl e)
      | Inr (Inl response) \<Rightarrow> (w, Inr response)
      | Inr (Inr p) \<Rightarrow> lan_dispatch env (jr_operation route) (ObjectPayload p) w)"

definition lan_handle :: "adapter_env \<Rightarrow> http_request \<Rightarrow> adapter_world \<Rightarrow> adapter_world \<times> http_response res" where
  "lan_handle env req w =
     (case find (\<lambda>r. jr_path r = hq_path req) json_routes of
        Some route \<Rightarrow> lan_json_request env route req w
      | None \<Rightarrow>
          if hq_path req = MOBILE_TRANSFER_ASSET_PATH then lan_asset_request env req w
          else (w, Inr (404, [(''schema'', JStr PAIRING_PROTOCOL_SCHEMA),
                              (''backup_state'', JStr pairing_rejected_status),
                              (''message'', JStr ''Unknown pairing endpoint.'')])))"

definition internal_error_response :: http_response where
  "internal_error_response =
     (500, [(''schema'', JStr PAIRING_PROTOCOL_SCHEMA), (''backup_state'', JStr pairing_rejected_status),
            (''message'', JStr (''Desktop failed while processing the pairing request. ''
               @ ''Retry pairing and check desktop logs if the issue persists.''))])"

text \<open>\<^verbatim>\<open>do_POST\<close>: every exception is answered with 500.\<close>

definition do_POST :: "adapter_env \<Rightarrow> http_request \<Rightarrow> adapter_world \<Rightarrow> adapter_world \<times> http_response" where
  "do_POST env req w =
     (case lan_handle env req w of
        (w', Inl _) \<Rightarrow> (w', internal_error_response)
      | (w', Inr response) \<Rightarrow> (w', response))"

definition encoded_body :: "http_response \<Rightarrow> string" where
  "encoded_body response = json_dumps True (JObj (snd response))"

text \<open>\<^verbatim>\<open>stop\<close> gives up the uploads that are pending.\<close>

definition lan_stop :: "adapter_world \<Rightarrow> adapter_world \<times> unit res" where
  "lan_stop = stream_call upload_clear"

end
