(* ===== verification/UsbTransport.thy ===== *)
theory UsbTransport
  imports TransportEnvelope
begin

text \<open>
  \<^verbatim>\<open>dt_image_search/mobile/transport/usb_ws_adapter.py\<close>: the desktop looks for a phone on the USB
  tunnel, opens a WebSocket to it, lets it prove that it knows the passcode, and serves its messages
  until the connection ends.

  The tunnel and the WebSocket are what they yield: the devices, the ports that connect, and the
  sequence of messages, time-outs and the closing.  Times, threads and log messages are left out; the
  worker thread is a flag that an exception clears.
\<close>

section \<open>Configuration and ports\<close>

datatype usb_state = USB_STOPPED | USB_CONFIGURED | USB_READY | USB_CONNECTED

record usb_config =
  uc_session_id :: string
  uc_one_time_passcode :: string
  uc_suggested_port :: int
  uc_fallback_port_window :: int

definition usb_bootstrap_config :: "string \<Rightarrow> string \<Rightarrow> int \<Rightarrow> int \<Rightarrow> usb_config res" where
  "usb_bootstrap_config session_id one_time_passcode suggested_port fallback_port_window =
     (if py_strip session_id = []
      then Inl (ValueError ''USB bootstrap session_id must be a non-empty string.'')
      else if py_strip one_time_passcode = []
      then Inl (ValueError ''USB bootstrap one_time_passcode must be a non-empty string.'')
      else if suggested_port \<le> 0 \<or> 65535 < suggested_port
      then Inl (ValueError ''USB bootstrap suggested_port must be in range 1..65535.'')
      else if fallback_port_window < 0
      then Inl (ValueError ''USB bootstrap fallback_port_window must be non-negative.'')
      else Inr \<lparr>uc_session_id = session_id, uc_one_time_passcode = one_time_passcode,
                uc_suggested_port = suggested_port, uc_fallback_port_window = fallback_port_window\<rparr>)"

text \<open>The ports at one distance from the suggested one.\<close>

definition ports_at :: "int \<Rightarrow> int \<Rightarrow> int list" where
  "ports_at suggested_port offset =
     (if suggested_port + offset \<le> 65535 then [suggested_port + offset] else []) @
     (if 1 \<le> suggested_port - offset then [suggested_port - offset] else [])"

definition iter_usb_probe_ports :: "int \<Rightarrow> int \<Rightarrow> int list res" where
  "iter_usb_probe_ports suggested_port fallback_port_window =
     (if suggested_port \<le> 0 \<or> 65535 < suggested_port
      then Inl (ValueError ''USB suggested port must be in range 1..65535.'')
      else if fallback_port_window < 0
      then Inl (ValueError ''USB fallback port window must be non-negative.'')
      else Inr (suggested_port # concat (map (ports_at suggested_port) [1..fallback_port_window])))"

text \<open>\<open>connects udid port\<close>: whether the tunnel connects; every exception of it is a refusal.\<close>

definition probe_device_for_ports :: "(string \<Rightarrow> int \<Rightarrow> bool) \<Rightarrow> string \<Rightarrow> int list \<Rightarrow> (string \<times> int) option" where
  "probe_device_for_ports connects udid candidate_ports =
     map_option (Pair udid) (find (connects udid) candidate_ports)"

fun probe_devices :: "(string \<Rightarrow> int \<Rightarrow> bool) \<Rightarrow> string list \<Rightarrow> int list \<Rightarrow> (string \<times> int) option" where
  "probe_devices connects [] candidate_ports = None"
| "probe_devices connects (udid # udids) candidate_ports =
     (case probe_device_for_ports connects udid candidate_ports of
        Some target \<Rightarrow> Some target
      | None \<Rightarrow> probe_devices connects udids candidate_ports)"

text \<open>
  \<^verbatim>\<open>_probe_usb_tunnel\<close>: the new probe error and the target.  \<open>devices\<close> are the devices of
  the tunnel, or the text of the error with which it is unavailable.
\<close>

definition probe_usb_tunnel ::
    "(string + string list) \<Rightarrow> (string \<Rightarrow> int \<Rightarrow> bool) \<Rightarrow> usb_config \<Rightarrow> (string option \<times> (string \<times> int) option) res" where
  "probe_usb_tunnel devices connects config =
     (case devices of
        Inl m \<Rightarrow> Inr (Some m, None)
      | Inr [] \<Rightarrow> Inr (None, None)
      | Inr udids \<Rightarrow>
          bindE (iter_usb_probe_ports (uc_suggested_port config) (uc_fallback_port_window config)) (\<lambda>ports.
            case probe_devices connects udids ports of
              Some target \<Rightarrow> Inr (None, Some target)
            | None \<Rightarrow> Inr (Some ''Desktop could not connect to any USB bootstrap port candidates.'', None)))"

section \<open>The challenge\<close>

definition USB_AUTH_CHALLENGE_OPERATION :: string where
  "USB_AUTH_CHALLENGE_OPERATION = ''transport.auth.challenge''"
definition USB_AUTH_CHALLENGE_BODY_SCHEMA :: string where
  "USB_AUTH_CHALLENGE_BODY_SCHEMA = ''dtis.mobile-pairing.v1''"
definition USB_AUTH_CHALLENGE_REQUEST_ID :: string where
  "USB_AUTH_CHALLENGE_REQUEST_ID = ''auth-challenge''"

definition hexdigest :: "byte list \<Rightarrow> string" where
  "hexdigest bs = concat (map (\<lambda>b. [json_hex_digit (unat b div 16), json_hex_digit (unat b)]) bs)"

definition build_auth_digest :: "(byte list \<Rightarrow> byte list) \<Rightarrow> usb_config \<Rightarrow> string \<Rightarrow> string" where
  "build_auth_digest sha256 config rand =
     hexdigest (sha256 (utf8_encode (uc_one_time_passcode config @ rand)))"

definition verify_auth_digest :: "(byte list \<Rightarrow> byte list) \<Rightarrow> usb_config \<Rightarrow> string \<Rightarrow> string \<Rightarrow> bool res" where
  "verify_auth_digest sha256 config rand provided_digest =
     py_compare_digest (build_auth_digest sha256 config rand) provided_digest"

definition auth_challenge_message :: "usb_config \<Rightarrow> string \<Rightarrow> string \<Rightarrow> string" where
  "auth_challenge_message config request_id challenge_rand =
     json_dumps True (JObj
       [(''schema'', JStr MOBILE_TRANSPORT_ENVELOPE_SCHEMA), (''operation'', JStr USB_AUTH_CHALLENGE_OPERATION),
        (''request_id'', JStr request_id), (''body_schema'', JStr USB_AUTH_CHALLENGE_BODY_SCHEMA),
        (''body'', JObj [(''schema'', JStr USB_AUTH_CHALLENGE_BODY_SCHEMA), (''sid'', JStr (uc_session_id config)),
                         (''rand'', JStr challenge_rand)])])"

text \<open>\<^verbatim>\<open>isinstance(v, int)\<close>: a boolean is an integer.\<close>

definition int_value :: "json option \<Rightarrow> int option" where
  "int_value v = (case v of Some (JInt i) \<Rightarrow> Some i | Some (JBool b) \<Rightarrow> Some (if b then 1 else 0) | _ \<Rightarrow> None)"

text \<open>The verdict on a response that answers the challenge; \<open>name\<close> is the transport in its texts.\<close>

definition challenge_verdict ::
    "(byte list \<Rightarrow> byte list) \<Rightarrow> string \<Rightarrow> usb_config \<Rightarrow> string \<Rightarrow> payload \<Rightarrow> unit res" where
  "challenge_verdict sha256 name config rand p =
     (let what = ''Desktop '' @ name @ '' auth challenge ''
      in case int_value (dict_get p ''status_code'') of
           None \<Rightarrow> Inl (RuntimeError (what @ ''returned an invalid status code.''))
         | Some status_code \<Rightarrow>
             (case dict_get p ''body'' of
                Some (JObj body) \<Rightarrow>
                  if \<not> (200 \<le> status_code \<and> status_code < 300)
                  then Inl (RuntimeError (what @ (case stripped_field body ''message'' of
                         Some m \<Rightarrow> ''was rejected by mobile runtime: '' @ m
                       | None \<Rightarrow> ''was rejected by mobile runtime.'')))
                  else (case stripped_field body ''proof'' of
                          None \<Rightarrow> Inl (RuntimeError (what @ ''response did not include a proof digest.''))
                        | Some challenge_proof \<Rightarrow>
                            bindE (verify_auth_digest sha256 config rand challenge_proof) (\<lambda>valid.
                              if valid then Inr ()
                              else Inl (RuntimeError (what @ ''proof digest verification failed.''))))
              | _ \<Rightarrow> Inl (RuntimeError (what @ ''returned an invalid response body.''))))"

text \<open>What the WebSocket yields when it is read.\<close>

datatype ws_event = WsTimeout | WsClosed | WsText string | WsBytes "byte list"

text \<open>A text that is no answer to the challenge is skipped.\<close>

definition challenge_answer :: "string \<Rightarrow> payload option" where
  "challenge_answer incoming_message =
     (case json_loads incoming_message of
        Some (JObj p) \<Rightarrow>
          if dict_get p ''schema'' = Some (JStr MOBILE_TRANSPORT_ENVELOPE_SCHEMA)
            \<and> dict_get p ''request_id'' = Some (JStr USB_AUTH_CHALLENGE_REQUEST_ID) then Some p else None
      | _ \<Rightarrow> None)"

text \<open>
  The events up to the deadline or the stop of the adapter; those that are left when the challenge
  has been answered are messages of the session.
\<close>

fun perform_auth_challenge ::
    "(byte list \<Rightarrow> byte list) \<Rightarrow> usb_config \<Rightarrow> string \<Rightarrow> bool \<Rightarrow> ('e \<times> ws_event) list \<Rightarrow> ('e \<times> ws_event) list res" where
  "perform_auth_challenge sha256 config rand stopped [] =
     Inl (RuntimeError (if stopped then ''Desktop stopped while waiting for USB auth challenge response.''
                        else ''Desktop USB auth challenge timed out.''))"
| "perform_auth_challenge sha256 config rand stopped ((env, WsTimeout) # es) =
     perform_auth_challenge sha256 config rand stopped es"
| "perform_auth_challenge sha256 config rand stopped ((env, WsClosed) # es) =
     Inl (RuntimeError ''Desktop USB auth challenge connection closed.'')"
| "perform_auth_challenge sha256 config rand stopped ((env, WsBytes b) # es) =
     perform_auth_challenge sha256 config rand stopped es"
| "perform_auth_challenge sha256 config rand stopped ((env, WsText m) # es) =
     (case challenge_answer m of
        None \<Rightarrow> perform_auth_challenge sha256 config rand stopped es
      | Some p \<Rightarrow> bindE (challenge_verdict sha256 ''USB'' config rand p) (\<lambda>_. Inr es))"

section \<open>Binary frames\<close>

definition USB_TRANSFER_BINARY_FRAME_VERSION :: byte where "USB_TRANSFER_BINARY_FRAME_VERSION = 1"
definition USB_TRANSFER_BINARY_REQUEST_ID_LENGTH :: nat where "USB_TRANSFER_BINARY_REQUEST_ID_LENGTH = 36"
definition USB_TRANSFER_BINARY_HEADER_SIZE :: nat where
  "USB_TRANSFER_BINARY_HEADER_SIZE = 1 + USB_TRANSFER_BINARY_REQUEST_ID_LENGTH + 4 + 1"

definition frame_error :: "string \<Rightarrow> pyexn" where
  "frame_error why = RuntimeError (''Desktop rejected transfer asset stream chunk because '' @ why)"

definition decode_transfer_asset_binary_frame :: "byte list \<Rightarrow> (string \<times> byte list) res" where
  "decode_transfer_asset_binary_frame frame =
     (if length frame < USB_TRANSFER_BINARY_HEADER_SIZE
      then Inl (frame_error ''binary frame header is incomplete.'')
      else if frame ! 0 \<noteq> USB_TRANSFER_BINARY_FRAME_VERSION
      then Inl (frame_error ''binary frame version is unsupported.'')
      else case decode_ascii (take USB_TRANSFER_BINARY_REQUEST_ID_LENGTH (drop 1 frame)) of
             None \<Rightarrow> Inl (frame_error ''the request id is invalid.'')
           | Some text \<Rightarrow>
               let request_id = py_strip text;
                   declared_payload_length = from_bytes_be (take 4 (drop (1 + USB_TRANSFER_BINARY_REQUEST_ID_LENGTH) frame));
                   frame_payload = drop USB_TRANSFER_BINARY_HEADER_SIZE frame
               in if request_id = [] then Inl (frame_error ''the request id is missing.'')
                  else if length request_id \<noteq> USB_TRANSFER_BINARY_REQUEST_ID_LENGTH
                  then Inl (frame_error ''the request id length is invalid.'')
                  else if declared_payload_length \<noteq> length frame_payload
                  then Inl (frame_error ''binary frame length does not match the header.'')
                  else Inr (request_id, frame_payload))"

definition append_pending_asset_chunk ::
    "adapter_env \<Rightarrow> byte list \<Rightarrow> adapter_world \<Rightarrow> adapter_world \<times> unit res" where
  "append_pending_asset_chunk env frame w =
     (case decode_transfer_asset_binary_frame frame of
        Inl e \<Rightarrow> (w, Inl e)
      | Inr (request_id, frame_payload) \<Rightarrow> append_binary_chunk env request_id frame_payload w)"

section \<open>The session\<close>

text \<open>
  The messages of a session, each with the environment it meets, up to the stop of the adapter; the
  texts that are sent, and how the session ends.
\<close>

fun usb_session_loop ::
    "(adapter_env \<times> ws_event) list \<Rightarrow> adapter_world \<Rightarrow> adapter_world \<times> string list \<times> unit res" where
  "usb_session_loop [] w = (w, [], Inr ())"
| "usb_session_loop ((env, WsTimeout) # es) w = usb_session_loop es w"
| "usb_session_loop ((env, WsClosed) # es) w = (w, [], Inr ())"
| "usb_session_loop ((env, WsBytes b) # es) w =
     (case append_pending_asset_chunk env b w of
        (w', Inl e) \<Rightarrow> (w', [], Inl e)
      | (w', Inr _) \<Rightarrow> usb_session_loop es w')"
| "usb_session_loop ((env, WsText m) # es) w =
     (case handle_text_message env USB_WEBSOCKET m w of
        (w', Inl e) \<Rightarrow> (w', [], Inl e)
      | (w', Inr answer) \<Rightarrow>
          (case usb_session_loop es w' of
             (w2, sent, r) \<Rightarrow> (w2, (case answer of None \<Rightarrow> sent | Some t \<Rightarrow> t # sent), r)))"

text \<open>
  The adapter.  \<open>ub_worker\<close> says that the worker thread is alive; \<open>ub_sent\<close> is what has been sent.
\<close>

record usb_adapter =
  ub_state :: usb_state
  ub_config :: "usb_config option"
  ub_target :: "(string \<times> int) option"
  ub_error :: "string option"
  ub_worker :: bool
  ub_world :: adapter_world
  ub_sent :: "string list"

definition clear_uploads :: "adapter_world \<Rightarrow> adapter_world \<times> unit res" where
  "clear_uploads = stream_call upload_clear"

definition usb_configure_bootstrap :: "usb_config \<Rightarrow> usb_adapter \<Rightarrow> usb_adapter \<times> unit res" where
  "usb_configure_bootstrap config a =
     (case clear_uploads (ub_world a) of
        (w, r) \<Rightarrow> (a\<lparr>ub_config := Some config, ub_state := USB_CONFIGURED, ub_target := None, ub_error := None,
                     ub_world := w\<rparr>, r))"

definition usb_start :: "usb_adapter \<Rightarrow> usb_adapter \<times> unit res" where
  "usb_start a =
     (if ub_config a = None then (a, Inl (RuntimeError ''USB bootstrap config is not available.''))
      else (a\<lparr>ub_state := USB_READY, ub_target := None, ub_error := None, ub_worker := True\<rparr>, Inr ()))"

definition usb_mark_connected :: "usb_adapter \<Rightarrow> usb_adapter \<times> unit res" where
  "usb_mark_connected a =
     (if ub_state a = USB_STOPPED
      then (a, Inl (RuntimeError ''USB transport must be started before marking connected.''))
      else (a\<lparr>ub_state := USB_CONNECTED\<rparr>, Inr ()))"

definition usb_stop :: "usb_adapter \<Rightarrow> usb_adapter \<times> unit res" where
  "usb_stop a =
     (case clear_uploads (ub_world a) of
        (w, Inl e) \<Rightarrow> (a\<lparr>ub_worker := False, ub_world := w\<rparr>, Inl e)
      | (w, Inr _) \<Rightarrow> (a\<lparr>ub_worker := False, ub_world := w, ub_state := USB_STOPPED, ub_target := None,
                          ub_error := None\<rparr>, Inr ()))"

definition usb_set_ready_state :: "usb_adapter \<Rightarrow> usb_adapter \<times> unit res" where
  "usb_set_ready_state a =
     (case clear_uploads (ub_world a) of
        (w, r) \<Rightarrow> (a\<lparr>ub_state := (if ub_state a \<noteq> USB_STOPPED then USB_READY else ub_state a), ub_target := None,
                     ub_world := w\<rparr>, r))"

text \<open>\<^verbatim>\<open>str(exc)\<close>\<close>

fun exn_text :: "pyexn \<Rightarrow> string" where
  "exn_text (ValueError m) = m"
| "exn_text (RuntimeError m) = m"
| "exn_text (OverflowError m) = m"
| "exn_text (KeyError m) = quoted m"
| "exn_text (TypeError m) = m"
| "exn_text (IntegrityError m) = m"
| "exn_text (ProgrammingError m) = m"
| "exn_text (OSError e) = oe_text e"

text \<open>The exceptions that the transport loop survives.\<close>

fun usb_loop_catches :: "pyexn \<Rightarrow> bool" where
  "usb_loop_catches (RuntimeError m) \<longleftrightarrow> True"
| "usb_loop_catches (OSError e) \<longleftrightarrow> True"
| "usb_loop_catches _ \<longleftrightarrow> False"

text \<open>
  \<^verbatim>\<open>_run_websocket_session\<close>: \<open>connect\<close> is the outcome of opening the WebSocket, \<open>auth\<close> the
  events up to the deadline of the challenge and \<open>events\<close> those after it.
\<close>

definition run_websocket_session ::
    "(byte list \<Rightarrow> byte list) \<Rightarrow> usb_config \<Rightarrow> string \<times> int \<Rightarrow> unit res \<Rightarrow> string \<Rightarrow> bool \<Rightarrow> (adapter_env \<times> ws_event) list
     \<Rightarrow> (adapter_env \<times> ws_event) list \<Rightarrow> usb_adapter \<Rightarrow> usb_adapter \<times> unit res" where
  "run_websocket_session sha256 config target connect rand stopped auth events a =
     (case connect of
        Inl e \<Rightarrow> (a, Inl e)
      | Inr _ \<Rightarrow>
          let a1 = a\<lparr>ub_state := USB_READY, ub_target := Some target, ub_error := None,
                     ub_sent := ub_sent a @ [auth_challenge_message config USB_AUTH_CHALLENGE_REQUEST_ID rand]\<rparr>
          in (case perform_auth_challenge sha256 config rand stopped auth of
                Inl e \<Rightarrow> (a1, Inl e)
              | Inr rest \<Rightarrow>
                  (case usb_session_loop (rest @ events) (ub_world a1) of
                     (w, sent, r) \<Rightarrow>
                       (a1\<lparr>ub_state := USB_CONNECTED, ub_world := w, ub_sent := ub_sent a1 @ sent\<rparr>, r))))"

text \<open>The \<^verbatim>\<open>_set_ready_state\<close> that ends a round; the worker ends with it when an exception is on its way.\<close>

definition usb_end_round :: "bool \<Rightarrow> usb_adapter \<Rightarrow> usb_adapter" where
  "usb_end_round ends a =
     (case usb_set_ready_state a of (a', r) \<Rightarrow> if ends \<or> isl r then a'\<lparr>ub_worker := False\<rparr> else a')"

text \<open>One round of \<^verbatim>\<open>_run_transport_loop\<close>; an exception that it does not catch ends the worker.\<close>

definition usb_loop_round ::
    "(byte list \<Rightarrow> byte list) \<Rightarrow> (string + string list) \<Rightarrow> (string \<Rightarrow> int \<Rightarrow> bool) \<Rightarrow> unit res \<Rightarrow> string \<Rightarrow> bool
     \<Rightarrow> (adapter_env \<times> ws_event) list \<Rightarrow> (adapter_env \<times> ws_event) list \<Rightarrow> usb_adapter \<Rightarrow> usb_adapter" where
  "usb_loop_round sha256 devices connects connect rand stopped auth events a =
     (case ub_config a of
        None \<Rightarrow> a
      | Some config \<Rightarrow>
          (case probe_usb_tunnel devices connects config of
             Inl e \<Rightarrow> usb_end_round False (a\<lparr>ub_error := Some (exn_text e)\<rparr>)
           | Inr (error, None) \<Rightarrow> usb_end_round False (a\<lparr>ub_error := error\<rparr>)
           | Inr (error, Some target) \<Rightarrow>
               (case run_websocket_session sha256 config target connect rand stopped auth events
                       (a\<lparr>ub_error := error\<rparr>) of
                  (a', Inr _) \<Rightarrow> usb_end_round False a'
                | (a', Inl e) \<Rightarrow>
                    if usb_loop_catches e then usb_end_round False (a'\<lparr>ub_error := Some (exn_text e)\<rparr>)
                    else usb_end_round True a')))"

end
