(* ===== verification/AoaTransport.thy ===== *)
theory AoaTransport
  imports UsbTransport AoaFrameCodec
begin

text \<open>
  \<^verbatim>\<open>dt_image_search/mobile/transport/usb_aoa_adapter.py\<close>: the same protocol over the Android
  accessory, whose bulk streams carry the frames of \<^verbatim>\<open>aoa_frame_codec.py\<close>.  The driver is what it
  yields: the outcome of looking for a device and opening its streams, and what the reads return.
\<close>

section \<open>Frames and failures\<close>

text \<open>What a read yields; a time-out says for how many milliseconds nothing has been read.\<close>

datatype aoa_event = AoaTimeout nat | AoaBytes "byte list" | AoaReadFails pyexn

text \<open>How a session ends: an exception of the code below, a malformed frame, or a stall.\<close>

datatype aoa_failure = AoaRaises pyexn | AoaBadFrame string | AoaStall

definition of_frame_error :: "aoa_frame_error \<Rightarrow> aoa_failure" where
  "of_frame_error e = (case e of AoaFrameError m \<Rightarrow> AoaBadFrame m)"

definition lift_res :: "'a res \<Rightarrow> aoa_failure + 'a" where
  "lift_res r = (case r of Inl e \<Rightarrow> Inl (AoaRaises e) | Inr x \<Rightarrow> Inr x)"

definition send_frame :: "string \<Rightarrow> byte list \<Rightarrow> int \<Rightarrow> aoa_failure + byte list" where
  "send_frame request_id frame_payload flags =
     (case encode_aoa_frame request_id frame_payload flags of
        Inl e \<Rightarrow> Inl (of_frame_error e)
      | Inr frame \<Rightarrow> Inr frame)"

section \<open>The challenge\<close>

definition AOA_AUTH_CHALLENGE_REQUEST_ID :: string where
  "AOA_AUTH_CHALLENGE_REQUEST_ID =
     USB_AUTH_CHALLENGE_REQUEST_ID
       @ replicate (AOA_REQUEST_ID_LENGTH - length USB_AUTH_CHALLENGE_REQUEST_ID) (CHR ''0'')"

text \<open>Stale bytes are read until the stream is quiet, at most eight times.\<close>

fun drain_stale_stream_bytes :: "nat \<Rightarrow> ('e \<times> aoa_event) list \<Rightarrow> ('e \<times> aoa_event) list" where
  "drain_stale_stream_bytes (Suc n) ((env, AoaBytes b) # es) =
     (if b = [] then es else drain_stale_stream_bytes n es)"
| "drain_stale_stream_bytes (Suc n) (e # es) = es"
| "drain_stale_stream_bytes n es = es"

text \<open>A frame that answers the challenge; its schema is not looked at.\<close>

definition aoa_challenge_answer :: "aoa_frame \<Rightarrow> payload option" where
  "aoa_challenge_answer frame =
     (case frame of (request_id, flags, frame_payload) \<Rightarrow>
        if request_id = AOA_AUTH_CHALLENGE_REQUEST_ID \<and> flags = AOA_FRAME_FLAG_TEXT
        then (case Option.bind (utf8_decode frame_payload) json_loads of Some (JObj p) \<Rightarrow> Some p | _ \<Rightarrow> None)
        else None)"

text \<open>The verdict of the first frame that answers, if one does.\<close>

fun answer_in_frames ::
    "(byte list \<Rightarrow> byte list) \<Rightarrow> usb_config \<Rightarrow> string \<Rightarrow> aoa_frame list \<Rightarrow> unit res option" where
  "answer_in_frames sha256 config rand [] = None"
| "answer_in_frames sha256 config rand (f # fs) =
     (case aoa_challenge_answer f of
        None \<Rightarrow> answer_in_frames sha256 config rand fs
      | Some p \<Rightarrow> Some (challenge_verdict sha256 ''AOA'' config rand p))"

text \<open>
  The reads up to the deadline or the stop; a malformed frame resets the decoder.  What followed
  the answer in the same read is lost with the decoder.
\<close>

fun await_challenge ::
    "(byte list \<Rightarrow> byte list) \<Rightarrow> usb_config \<Rightarrow> string \<Rightarrow> bool \<Rightarrow> byte list \<Rightarrow> ('e \<times> aoa_event) list
     \<Rightarrow> aoa_failure + ('e \<times> aoa_event) list" where
  "await_challenge sha256 config rand stopped buffer [] =
     Inl (AoaRaises (RuntimeError (if stopped then ''Desktop stopped while waiting for AOA auth challenge response.''
                                   else ''Desktop AOA auth challenge timed out.'')))"
| "await_challenge sha256 config rand stopped buffer ((env, AoaTimeout idle) # es) =
     await_challenge sha256 config rand stopped buffer es"
| "await_challenge sha256 config rand stopped buffer ((env, AoaReadFails e) # es) = Inl (AoaRaises e)"
| "await_challenge sha256 config rand stopped buffer ((env, AoaBytes b) # es) =
     (if b = [] then await_challenge sha256 config rand stopped buffer es
      else case aoa_feed buffer b of
             (buffer', Inl _) \<Rightarrow> await_challenge sha256 config rand stopped (aoa_decoder_reset buffer') es
           | (buffer', Inr frames) \<Rightarrow>
               (case answer_in_frames sha256 config rand frames of
                  None \<Rightarrow> await_challenge sha256 config rand stopped buffer' es
                | Some (Inl e) \<Rightarrow> Inl (AoaRaises e)
                | Some (Inr _) \<Rightarrow> Inr es))"

definition aoa_auth_challenge ::
    "(byte list \<Rightarrow> byte list) \<Rightarrow> usb_config \<Rightarrow> string \<Rightarrow> bool \<Rightarrow> ('e \<times> aoa_event) list
     \<Rightarrow> byte list list \<times> (aoa_failure + ('e \<times> aoa_event) list)" where
  "aoa_auth_challenge sha256 config rand stopped events =
     (let rest = drain_stale_stream_bytes 8 events
      in case send_frame AOA_AUTH_CHALLENGE_REQUEST_ID
                (utf8_encode (auth_challenge_message config AOA_AUTH_CHALLENGE_REQUEST_ID rand)) 0 of
           Inl e \<Rightarrow> ([], Inl e)
         | Inr frame \<Rightarrow> ([frame], await_challenge sha256 config rand stopped aoa_decoder_init rest))"

section \<open>The session\<close>

text \<open>The frames of one read: the frames that are sent back, and the failure that ends the session.\<close>

fun aoa_handle_frames ::
    "adapter_env \<Rightarrow> aoa_frame list \<Rightarrow> adapter_world \<Rightarrow> adapter_world \<times> byte list list \<times> (aoa_failure + unit)" where
  "aoa_handle_frames env [] w = (w, [], Inr ())"
| "aoa_handle_frames env ((request_id, flags, frame_payload) # fs) w =
     (if flags = AOA_FRAME_FLAG_BINARY
      then (case append_binary_chunk env request_id frame_payload w of
              (w', Inl e) \<Rightarrow> (w', [], Inl (AoaRaises e))
            | (w', Inr _) \<Rightarrow> aoa_handle_frames env fs w')
      else case utf8_decode frame_payload of
             None \<Rightarrow> aoa_handle_frames env fs w
           | Some raw_message \<Rightarrow>
               (case handle_text_message env AOA_USB raw_message w of
                  (w', Inl e) \<Rightarrow> (w', [], Inl (AoaRaises e))
                | (w', Inr None) \<Rightarrow> aoa_handle_frames env fs w'
                | (w', Inr (Some answer)) \<Rightarrow>
                    (case send_frame request_id (utf8_encode answer) 0 of
                       Inl e \<Rightarrow> (w', [], Inl e)
                     | Inr frame \<Rightarrow>
                         (case aoa_handle_frames env fs w' of (w2, sent, r) \<Rightarrow> (w2, frame # sent, r)))))"

text \<open>\<^verbatim>\<open>_raise_if_session_stalled\<close>: a session without a pending upload may be silent.\<close>

definition session_stalled :: "nat \<Rightarrow> nat \<Rightarrow> adapter_world \<Rightarrow> bool" where
  "session_stalled stall_timeout idle w \<longleftrightarrow> has_pending (aw_stream w) \<and> stall_timeout \<le> idle"

fun aoa_session_loop ::
    "nat \<Rightarrow> (adapter_env \<times> aoa_event) list \<Rightarrow> byte list \<Rightarrow> adapter_world
     \<Rightarrow> adapter_world \<times> byte list list \<times> (aoa_failure + unit)" where
  "aoa_session_loop stall_timeout [] buffer w = (w, [], Inr ())"
| "aoa_session_loop stall_timeout ((env, AoaTimeout idle) # es) buffer w =
     (if session_stalled stall_timeout idle w then (w, [], Inl AoaStall)
      else aoa_session_loop stall_timeout es buffer w)"
| "aoa_session_loop stall_timeout ((env, AoaReadFails e) # es) buffer w = (w, [], Inl (AoaRaises e))"
| "aoa_session_loop stall_timeout ((env, AoaBytes b) # es) buffer w =
     (if b = [] then (w, [], Inl (AoaRaises (RuntimeError ''AOA stream closed by mobile runtime.'')))
      else case aoa_feed buffer b of
             (buffer', Inl e) \<Rightarrow> (w, [], Inl (of_frame_error e))
           | (buffer', Inr frames) \<Rightarrow>
               (case aoa_handle_frames env frames w of
                  (w', sent, Inl e) \<Rightarrow> (w', sent, Inl e)
                | (w', sent, Inr _) \<Rightarrow>
                    (case aoa_session_loop stall_timeout es buffer' w' of
                       (w2, sent', r) \<Rightarrow> (w2, sent @ sent', r))))"

section \<open>The adapter\<close>

record aoa_adapter =
  ao_state :: usb_state
  ao_config :: "usb_config option"
  ao_error :: "string option"
  ao_worker :: bool
  ao_failures :: nat
  ao_world :: adapter_world
  ao_sent :: "byte list list"

definition aoa_configure_bootstrap :: "usb_config \<Rightarrow> aoa_adapter \<Rightarrow> aoa_adapter \<times> unit res" where
  "aoa_configure_bootstrap config a =
     (case clear_uploads (ao_world a) of
        (w, r) \<Rightarrow> (a\<lparr>ao_config := Some config, ao_state := USB_CONFIGURED, ao_error := None, ao_world := w\<rparr>, r))"

definition aoa_start :: "aoa_adapter \<Rightarrow> aoa_adapter \<times> unit res" where
  "aoa_start a =
     (if ao_config a = None then (a, Inl (RuntimeError ''AOA bootstrap config is not available.''))
      else (a\<lparr>ao_state := USB_READY, ao_error := None, ao_worker := True\<rparr>, Inr ()))"

definition aoa_stop :: "aoa_adapter \<Rightarrow> aoa_adapter \<times> unit res" where
  "aoa_stop a =
     (case clear_uploads (ao_world a) of
        (w, Inl e) \<Rightarrow> (a\<lparr>ao_worker := False, ao_world := w\<rparr>, Inl e)
      | (w, Inr _) \<Rightarrow> (a\<lparr>ao_worker := False, ao_world := w, ao_state := USB_STOPPED, ao_error := None\<rparr>, Inr ()))"

definition aoa_set_ready_state :: "aoa_adapter \<Rightarrow> aoa_adapter" where
  "aoa_set_ready_state a = (if ao_state a \<noteq> USB_STOPPED then a\<lparr>ao_state := USB_READY\<rparr> else a)"

text \<open>The waiting time before the next round, in milliseconds.\<close>

definition retry_interval :: "nat \<Rightarrow> nat \<Rightarrow> nat \<Rightarrow> nat" where
  "retry_interval probe_interval max_backoff failures =
     (if failures \<le> 1 then probe_interval
      else min (probe_interval * 2 ^ min (failures - 1) 4) max_backoff)"

fun aoa_failure_text :: "aoa_failure \<Rightarrow> string" where
  "aoa_failure_text (AoaRaises e) = exn_text e"
| "aoa_failure_text (AoaBadFrame m) = m"
| "aoa_failure_text AoaStall = []"

fun aoa_loop_catches :: "aoa_failure \<Rightarrow> bool" where
  "aoa_loop_catches (AoaRaises e) \<longleftrightarrow> usb_loop_catches e"
| "aoa_loop_catches (AoaBadFrame m) \<longleftrightarrow> True"
| "aoa_loop_catches AoaStall \<longleftrightarrow> True"

text \<open>The challenge and the session over the streams of one device.\<close>

definition aoa_run_session ::
    "(byte list \<Rightarrow> byte list) \<Rightarrow> nat \<Rightarrow> usb_config \<Rightarrow> string \<Rightarrow> bool \<Rightarrow> (adapter_env \<times> aoa_event) list
     \<Rightarrow> (adapter_env \<times> aoa_event) list \<Rightarrow> aoa_adapter \<Rightarrow> aoa_adapter \<times> (aoa_failure + unit)" where
  "aoa_run_session sha256 stall_timeout config rand stopped auth events a =
     (case aoa_auth_challenge sha256 config rand stopped auth of
        (sent, Inl e) \<Rightarrow> (a\<lparr>ao_sent := ao_sent a @ sent\<rparr>, Inl e)
      | (sent, Inr rest) \<Rightarrow>
          (case aoa_session_loop stall_timeout (rest @ events) aoa_decoder_init (ao_world a) of
             (w, sent', r) \<Rightarrow>
               (a\<lparr>ao_sent := ao_sent a @ sent @ sent', ao_world := w, ao_failures := 0,
                  ao_state := (if ao_state a \<noteq> USB_STOPPED then USB_CONNECTED else ao_state a),
                  ao_error := (if ao_state a \<noteq> USB_STOPPED then None else ao_error a)\<rparr>, r)))"

text \<open>The outcome of a probe: it raises, finds nothing, or opens the streams of a device.\<close>

datatype aoa_probe = ProbeRaises string | ProbeNothing | ProbeOpened

text \<open>One round of \<^verbatim>\<open>_run_transport_loop\<close>; an exception that it does not catch ends the worker.\<close>

definition aoa_loop_round ::
    "(byte list \<Rightarrow> byte list) \<Rightarrow> nat \<Rightarrow> aoa_probe \<Rightarrow> string \<Rightarrow> bool \<Rightarrow> (adapter_env \<times> aoa_event) list
     \<Rightarrow> (adapter_env \<times> aoa_event) list \<Rightarrow> aoa_adapter \<Rightarrow> aoa_adapter" where
  "aoa_loop_round sha256 stall_timeout probe rand stopped auth events a =
     (case ao_config a of
        None \<Rightarrow> a\<lparr>ao_worker := False\<rparr>
      | Some config \<Rightarrow>
          (case probe of
             ProbeRaises m \<Rightarrow> aoa_set_ready_state (a\<lparr>ao_error := Some m\<rparr>)
           | ProbeNothing \<Rightarrow> aoa_set_ready_state a
           | ProbeOpened \<Rightarrow>
               (case aoa_run_session sha256 stall_timeout config rand stopped auth events a of
                  (a1, r) \<Rightarrow>
                    let a2 = (case r of
                          Inl e \<Rightarrow> if e \<noteq> AoaStall \<and> aoa_loop_catches e
                                    then a1\<lparr>ao_error := Some (aoa_failure_text e), ao_failures := ao_failures a1 + 1\<rparr>
                                    else a1
                        | Inr _ \<Rightarrow> a1)
                    in (case clear_uploads (ao_world a2) of
                          (w, Inl _) \<Rightarrow> a2\<lparr>ao_world := w, ao_worker := False\<rparr>
                        | (w, Inr _) \<Rightarrow>
                            (let a3 = aoa_set_ready_state (a2\<lparr>ao_world := w\<rparr>)
                             in case r of
                                  Inl e \<Rightarrow> if aoa_loop_catches e then a3 else a3\<lparr>ao_worker := False\<rparr>
                                | Inr _ \<Rightarrow> a3)))))"

end
