(* ===== verification/TransportProps.thy ===== *)
theory TransportProps
  imports PairingGatewayProps LanTransport AoaTransport
begin

text \<open>
  Properties of the transports: only a phone that knows the passcode is served over USB, a request
  means the same over every transport, an asset arrives as it was sent, and what an exception that
  the services raise does to the adapter that called them.
\<close>

section \<open>Ports\<close>

lemma ports_at_member: "x \<in> set (ports_at p d) \<longleftrightarrow> (x = p + d \<and> x \<le> 65535) \<or> (x = p - d \<and> 1 \<le> x)"
  by (auto simp: ports_at_def)

lemma ports_at_distinct: "0 < d \<Longrightarrow> distinct (ports_at p d)"
  by (auto simp: ports_at_def)

lemma ports_at_distance: "x \<in> set (ports_at p d) \<Longrightarrow> 0 \<le> d \<Longrightarrow> \<bar>x - p\<bar> = d"
  by (auto simp: ports_at_member)

lemma port_blocks:
  assumes "sorted_wrt (<) ds" and "\<forall>d\<in>set ds. 0 < d"
  shows "distinct (concat (map (ports_at p) ds)) \<and> sorted (map (\<lambda>x. \<bar>x - p\<bar>) (concat (map (ports_at p) ds)))"
  using assms
proof (induction ds)
  case (Cons d ds)
  have near: "\<bar>x - p\<bar> = d" if "x \<in> set (ports_at p d)" for x
    using that Cons.prems by (intro ports_at_distance) auto
  have far: "d < \<bar>x - p\<bar>" if "x \<in> set (ports_at p e)" "e \<in> set ds" for x e
    using that Cons.prems ports_at_distance [of x p e] by fastforce
  have "sorted (map (\<lambda>x. \<bar>x - p\<bar>) (ports_at p d))" by (simp add: ports_at_def)
  with Cons near far show ?case
    by (fastforce simp: sorted_append intro: ports_at_distinct dest: less_imp_le)
qed simp

text \<open>
  The ports are tried outwards: every port within the window that exists is tried exactly once, none
  outside it, the suggested one first and a nearer one before a farther one.
\<close>
theorem probe_ports_exact:
  assumes "iter_usb_probe_ports p window = Inr ports"
  shows "distinct ports \<and> set ports = {x. 1 \<le> x \<and> x \<le> 65535 \<and> \<bar>x - p\<bar> \<le> window} \<and> hd ports = p \<and>
    sorted (map (\<lambda>x. \<bar>x - p\<bar>) ports)"
proof -
  let ?blocks = "concat (map (ports_at p) [1..window])"
  have p: "1 \<le> p" "p \<le> 65535" "0 \<le> window" and ports: "ports = p # ?blocks"
    using assms by (auto simp: iter_usb_probe_ports_def split: if_splits)
  have blocks: "distinct ?blocks" "sorted (map (\<lambda>x. \<bar>x - p\<bar>) ?blocks)"
    using port_blocks [of "[1..window]" p] by (simp_all add: strict_sorted_iff)
  have far: "p \<notin> set ?blocks" using ports_at_distance by fastforce
  have "x \<in> set ports \<longleftrightarrow> 1 \<le> x \<and> x \<le> 65535 \<and> \<bar>x - p\<bar> \<le> window" for x
  proof
    assume "x \<in> set ports"
    with p show "1 \<le> x \<and> x \<le> 65535 \<and> \<bar>x - p\<bar> \<le> window" by (auto simp: ports ports_at_member)
  next
    assume x: "1 \<le> x \<and> x \<le> 65535 \<and> \<bar>x - p\<bar> \<le> window"
    have "x \<in> set (ports_at p \<bar>x - p\<bar>)" using x p by (auto simp: ports_at_member)
    with x show "x \<in> set ports" by (cases "x = p") (force simp: ports)+
  qed
  then have "set ports = {x. 1 \<le> x \<and> x \<le> 65535 \<and> \<bar>x - p\<bar> \<le> window}" by blast
  with blocks far show ?thesis by (simp add: ports)
qed

lemma probe_ports_exact_witness:
  "iter_usb_probe_ports 2 3 = Inr [2, 3, 1, 4, 5] \<and> set [2, 3, 1, 4, 5 :: int] = {x. 1 \<le> x \<and> x \<le> 65535 \<and> \<bar>x - 2\<bar> \<le> 3}"
proof -
  have run: "iter_usb_probe_ports 2 3 = Inr [2, 3, 1, 4, 5]" by code_simp
  with probe_ports_exact [OF run] show ?thesis by blast
qed

section \<open>The passcode\<close>

text \<open>The world but for its files: uploads that are given up remove their temporary files.\<close>

definition apart_from_files :: "adapter_world \<Rightarrow> gateway_world" where
  "apart_from_files w = (aw_gateway w)\<lparr>gw_pairing := (gw_pairing (aw_gateway w))\<lparr>pv_fs := no_files\<rparr>\<rparr>"

lemma apart_put_stream [simp]: "apart_from_files (put_stream w st fs) = apart_from_files w"
  by (simp add: apart_from_files_def put_stream_def)

lemma apart_stream_call: "stream_call f w = (w', r) \<Longrightarrow> apart_from_files w' = apart_from_files w"
  by (auto simp: stream_call_def split: prod.splits sum.splits)

lemma apart_end_round [simp]: "apart_from_files (ub_world (usb_end_round x b)) = apart_from_files (ub_world b)"
  by (auto simp: usb_end_round_def usb_set_ready_state_def clear_uploads_def dest: apart_stream_call split: prod.splits)

text \<open>A message that answers the challenge with the digest of the passcode and the random text.\<close>

definition answers_challenge :: "(byte list \<Rightarrow> byte list) \<Rightarrow> usb_config \<Rightarrow> string \<Rightarrow> payload \<Rightarrow> bool" where
  "answers_challenge sha256 config rand p \<longleftrightarrow>
     (\<exists>body. dict_get p ''body'' = Some (JObj body) \<and>
        stripped_field body ''proof'' = Some (build_auth_digest sha256 config rand))"

lemma digest_matches: "verify_auth_digest sha256 config rand d = Inr True \<Longrightarrow> d = build_auth_digest sha256 config rand"
  by (auto simp: verify_auth_digest_def py_compare_digest_def split: option.splits if_splits)

lemma verdict_answers: "challenge_verdict sha256 name config rand p = Inr () \<Longrightarrow> answers_challenge sha256 config rand p"
  by (auto simp: challenge_verdict_def answers_challenge_def Let_def exn_simps dest!: digest_matches
      split: option.splits json.splits if_splits)

lemma challenge_passed:
  "perform_auth_challenge sha256 config rand stopped events = Inr rest \<Longrightarrow>
     \<exists>env m p. (env, WsText m) \<in> set events \<and> challenge_answer m = Some p \<and> answers_challenge sha256 config rand p"
  by (induction sha256 config rand stopped events rule: perform_auth_challenge.induct)
    (auto simp: exn_simps dest: verdict_answers split: option.splits)


section \<open>Requests over USB\<close>

lemma envelope_sorted:
  "json_sorted (JObj (response_envelope rid (code, p))) =
     JObj [(''body'', json_sorted (JObj p)), (''request_id'', JStr rid), (''schema'', JStr MOBILE_TRANSPORT_ENVELOPE_SCHEMA),
           (''status_code'', JInt code)]"
  by (simp add: response_envelope_def less_list_code)

lemma envelope_loads:
  assumes "json_ok (JObj p)"
  shows "json_loads (encode_response_envelope rid (code, p)) =
     Some (JObj [(''body'', json_sorted (JObj p)), (''request_id'', JStr rid),
       (''schema'', JStr MOBILE_TRANSPORT_ENVELOPE_SCHEMA), (''status_code'', JInt code)])"
proof -
  have "json_ok (JObj (response_envelope rid (code, p)))"
    using assms by (simp add: response_envelope_def dict_ok_def)
  from json_roundtrip [OF this, of True] show ?thesis
    by (simp add: encode_response_envelope_def envelope_sorted del: json_dumps.simps json_sorted.simps)
qed

text \<open>An envelope with an operation that the router knows and a JSON object in its body.\<close>

definition request_envelope :: "transport_routes \<Rightarrow> string \<Rightarrow> string \<Rightarrow> string \<Rightarrow> payload \<Rightarrow> bool" where
  "request_envelope routes m operation rid body \<longleftrightarrow>
     (\<exists>p. json_loads m = Some (JObj p) \<and> dict_get p ''schema'' = Some (JStr MOBILE_TRANSPORT_ENVELOPE_SCHEMA) \<and>
        dict_get p ''operation'' = Some (JStr operation) \<and> py_strip operation \<noteq> [] \<and>
        stripped_field p ''request_id'' = Some rid \<and> dict_get p ''body'' = Some (JObj body) \<and>
        operation \<noteq> TRANSFER_ASSET_OPERATION \<and> dict_get routes operation \<noteq> None)"

lemma text_message_run:
  assumes "request_envelope (ad_routes env) m operation rid body"
    and "router_dispatch (ad_routes env) (ad_gateway env) operation (ObjectPayload body) kind (aw_gateway w) = (g, r)"
  shows "handle_text_message env kind m w =
    (w\<lparr>aw_gateway := g\<rparr>, case r of Inl e \<Rightarrow> Inl e | Inr response \<Rightarrow> Inr (Some (encode_response_envelope rid response)))"
proof -
  from assms(1) obtain p where p: "json_loads m = Some (JObj p)"
    "dict_get p ''schema'' = Some (JStr MOBILE_TRANSPORT_ENVELOPE_SCHEMA)" "dict_get p ''operation'' = Some (JStr operation)"
    "py_strip operation \<noteq> []" "stripped_field p ''request_id'' = Some rid" "dict_get p ''body'' = Some (JObj body)"
    "operation \<noteq> TRANSFER_ASSET_OPERATION" "dict_get (ad_routes env) operation \<noteq> None"
    unfolding request_envelope_def by blast
  have parsed: "parse_envelope m = Inr p" using p by (simp add: parse_envelope_def stripped_field_def)
  have op: "text_field p ''operation'' = operation" using p by (simp add: text_field_def)
  have routed: "dispatch_to_router env kind operation (ObjectPayload body) w = (w\<lparr>aw_gateway := g\<rparr>, r)"
    using p(8) assms(2) by (auto simp: dispatch_to_router_def)
  show ?thesis
    using p by (simp add: handle_text_message_def dispatch_envelope_request_def parsed op envelope_body_def routed
        split: sum.splits)
qed

text \<open>
  C29. A request in an envelope is answered as the router answers it: over the WebSocket and over the
  accessory the world is the one the router leaves, and what is sent back is a text that the phone
  reads as the request identifier, the status code and the response with the keys of its objects in order.
\<close>
theorem envelope_answered_as_routed:
  assumes "request_envelope (ad_routes env) m operation rid body"
    and "router_dispatch (ad_routes env) (ad_gateway env) operation (ObjectPayload body) kind (aw_gateway w) = (g, Inr (code, p))"
    and "json_ok (JObj p)"
  shows "\<exists>answer. handle_text_message env kind m w = (w\<lparr>aw_gateway := g\<rparr>, Inr (Some answer)) \<and>
    json_loads answer = Some (JObj [(''body'', json_sorted (JObj p)), (''request_id'', JStr rid),
      (''schema'', JStr MOBILE_TRANSPORT_ENVELOPE_SCHEMA), (''status_code'', JInt code)])"
  using text_message_run [OF assms(1,2)] envelope_loads [OF assms(3)] by simp

section \<open>Exceptions in the worker\<close>

lemma uncaught_exception_ends_worker:
  assumes "ub_config a = Some config" and "probe_usb_tunnel devices connects config = Inr (error, Some target)"
    and "perform_auth_challenge sha256 config rand stopped auth = Inr []"
    and "handle_text_message env USB_WEBSOCKET m (ub_world a) = (w', Inl e)" and "\<not> usb_loop_catches e"
  shows "\<not> ub_worker (usb_loop_round sha256 devices connects (Inr ()) rand stopped auth ((env, WsText m) # rest) a)"
  using assms by (simp add: usb_loop_round_def run_websocket_session_def usb_end_round_def Let_def split: prod.split)

lemma numeric_reason_raises:
  assumes "\<not> is_mobile_encrypted_payload p" and "utc_now (te_clock (ge_transfer env)) None = Inr t"
    and "parse_transfer_session_request False True p = Inr r" and "sr_schema r = MOBILE_TRANSFER_SCHEMA"
    and "authorized_context (ge_transfer env) (pv_db (gw_pairing g)) MOBILE_TRANSFER_COMPLETE_PROOF_PURPOSE
      [MOBILE_BACKUP_SESSION_STATUS_TRANSFERRING] (sr_schema r) (sr_session_id r) (sr_device_uuid r)
      (sr_trust_proof r) = Inr (Some c)"
    and "dict_get p ''interruption_reason'' = Some (JInt i)"
  shows "\<exists>g' e. router_dispatch app_routes env TRANSFER_COMPLETE_OPERATION (ObjectPayload p) k g = (g', Inl (ValueError e))"
proof -
  let ?g = "track_transfer_transport k (ObjectPayload p) g"
  have run: "\<exists>e. handle_complete_request (ge_transfer env) p None (transfer_view ?g) = (transfer_view ?g, Inl (ValueError e))"
    using assms(2-6)
    by (auto simp: handle_complete_request_def optional_non_empty_string_def field_wrong_def)
  then show ?thesis
    using assms(1)
    by (auto simp: router_dispatch_def route_of dispatch_transfer_complete_def decrypt_transfer_payload_if_needed_def Let_def)
qed

text \<open>
  One request of a paired phone stops the USB transport: a completion whose interruption reason
  is a number raises a \<open>ValueError\<close> that the transfer service, the router and the transport loop let
  through, and the worker thread ends.  No later round serves a phone until the adapter is started again.
\<close>
theorem numeric_reason_stops_worker:
  assumes "ub_config a = Some config" and "probe_usb_tunnel devices connects config = Inr (error, Some target)"
    and "perform_auth_challenge sha256 config rand stopped auth = Inr []"
    and "register_transport_routes [] = Inr (ad_routes env)"
    and "request_envelope (ad_routes env) m TRANSFER_COMPLETE_OPERATION rid p" and "\<not> is_mobile_encrypted_payload p"
    and "utc_now (te_clock (ge_transfer (ad_gateway env))) None = Inr t"
    and "parse_transfer_session_request False True p = Inr r" and "sr_schema r = MOBILE_TRANSFER_SCHEMA"
    and "authorized_context (ge_transfer (ad_gateway env)) (aw_db (ub_world a)) MOBILE_TRANSFER_COMPLETE_PROOF_PURPOSE
      [MOBILE_BACKUP_SESSION_STATUS_TRANSFERRING] (sr_schema r) (sr_session_id r) (sr_device_uuid r)
      (sr_trust_proof r) = Inr (Some c)"
    and "dict_get p ''interruption_reason'' = Some (JInt i)"
  shows "\<not> ub_worker (usb_loop_round sha256 devices connects (Inr ()) rand stopped auth ((env, WsText m) # rest) a)"
proof -
  have routes: "ad_routes env = app_routes" using assms(4) routes_registered by simp
  from numeric_reason_raises [OF assms(6-11), of USB_WEBSOCKET] obtain g' e where
    "router_dispatch (ad_routes env) (ad_gateway env) TRANSFER_COMPLETE_OPERATION (ObjectPayload p) USB_WEBSOCKET
       (aw_gateway (ub_world a)) = (g', Inl (ValueError e))"
    unfolding routes by blast
  from text_message_run [OF assms(5) this]
  have ended: "handle_text_message env USB_WEBSOCKET m (ub_world a)
      = ((ub_world a)\<lparr>aw_gateway := g'\<rparr>, Inl (ValueError e))" by simp
  show ?thesis by (rule uncaught_exception_ends_worker [OF assms(1-3) ended]) simp
qed

section \<open>What follows the answer of the accessory\<close>

lemma answer_in_prefix:
  "answer_in_frames sha256 config rand fs = Some v \<Longrightarrow> answer_in_frames sha256 config rand (fs @ gs) = Some v"
  by (induction fs) (auto split: option.splits)

text \<open>
  Whatever the phone sends right behind its answer to the challenge is lost: when the bytes of later
  frames, or of a part of one, arrive in the same read as the answer, the session runs exactly as if
  they had never been sent.  The decoder of the challenge is dropped with its buffer and its frames.
\<close>
theorem frames_behind_answer_are_lost:
  assumes "aoa_feed aoa_decoder_init answer = (buffer, Inr frames)"
    and "answer_in_frames sha256 config rand frames = Some (Inr ())"
    and "aoa_feed buffer behind = (buffer', Inr later)" and "answer \<noteq> []"
  shows "aoa_run_session sha256 stall config rand stopped ((env, AoaTimeout 0) # (env, AoaBytes (answer @ behind)) # auth) events a =
    aoa_run_session sha256 stall config rand stopped ((env, AoaTimeout 0) # (env, AoaBytes answer) # auth) events a"
proof -
  have fed: "aoa_feed aoa_decoder_init (answer @ behind) = (buffer', Inr (frames @ later))"
    using assms(1,3) by (simp add: aoa_feed_append_cases)
  have quiet: "drain_stale_stream_bytes 8 ((env, AoaTimeout 0) # es) = es" for es
    by (simp add: numeral_eq_Suc)
  have "await_challenge sha256 config rand stopped aoa_decoder_init ((env, AoaBytes (answer @ behind)) # auth)
      = await_challenge sha256 config rand stopped aoa_decoder_init ((env, AoaBytes answer) # auth)"
    using assms(1,2,4) fed by (simp add: answer_in_prefix)
  then show ?thesis by (simp only: aoa_run_session_def aoa_auth_challenge_def Let_def quiet)
qed

end
