(* ===== verification/TransportScenarios.thy ===== *)
theory TransportScenarios
  imports TransportProps
begin

text \<open>
  The properties of the transports at concrete messages: a phone that answers the challenge, sends an
  update prompt or a completion, and whose frames share a read with its answer.
\<close>


definition example_adapter_env :: adapter_env where
  "example_adapter_env = \<lparr>ad_gateway = example_gateway_env, ad_routes = app_routes, ad_temp_path = (''/'', [''tmp'', ''u''])\<rparr>"

definition known_config :: usb_config where
  "known_config = \<lparr>uc_session_id = ''s2'', uc_one_time_passcode = ''000042'', uc_suggested_port = 9000,
     uc_fallback_port_window = 0\<rparr>"

definition known_usb :: "app_db \<Rightarrow> usb_adapter" where
  "known_usb db =
     \<lparr>ub_state = USB_READY,
      ub_config = Some known_config, ub_target = None, ub_error = None, ub_worker = True,
      ub_world = \<lparr>aw_gateway = \<lparr>gw_pairing = pairing_init db no_files, gw_events = [], gw_prompts = []\<rparr>,
                  aw_stream = upload_stream_init\<rparr>,
      ub_sent = []\<rparr>"

definition passcode_answer :: payload where
  "passcode_answer =
     [(''body'', JObj [(''proof'', JStr ''01'')]), (''request_id'', JStr USB_AUTH_CHALLENGE_REQUEST_ID),
      (''schema'', JStr MOBILE_TRANSPORT_ENVELOPE_SCHEMA), (''status_code'', JInt 200)]"

lemma passcode_answer_facts:
  "json_ok (JObj passcode_answer)" "json_sorted (JObj passcode_answer) = JObj passcode_answer"
  by code_simp+

lemma passcode_answered:
  "challenge_answer (json_dumps True (JObj passcode_answer)) = Some passcode_answer"
  using json_roundtrip [OF passcode_answer_facts(1), of True] passcode_answer_facts(2)
  by (simp add: challenge_answer_def dict_get_def del: json_dumps.simps json_ok.simps json_sorted.simps)
    (simp add: passcode_answer_def dict_get_def)

lemma passcode_challenge:
  "perform_auth_challenge (\<lambda>_. [1]) config rand stopped ((env, WsText (json_dumps True (JObj passcode_answer))) # es) = Inr es"
proof -
  have "challenge_verdict (\<lambda>_. [1]) ''USB'' config rand passcode_answer = Inr ()"
    by (simp add: challenge_verdict_def passcode_answer_def dict_get_def int_value_def Let_def verify_auth_digest_def build_auth_digest_def) code_simp
  then show ?thesis by (simp add: passcode_answered del: json_dumps.simps)
qed

definition envelope_text :: "string \<Rightarrow> string \<Rightarrow> payload \<Rightarrow> string" where
  "envelope_text rid operation body =
     json_dumps True (JObj [(''body'', JObj body), (''operation'', JStr operation), (''request_id'', JStr rid),
                            (''schema'', JStr MOBILE_TRANSPORT_ENVELOPE_SCHEMA)])"

lemma envelope_text_loads:
  assumes "json_ok (JObj body)" and "json_sorted (JObj body) = JObj body"
  shows "json_loads (envelope_text rid operation body) = Some (JObj
     [(''body'', JObj body), (''operation'', JStr operation), (''request_id'', JStr rid),
      (''schema'', JStr MOBILE_TRANSPORT_ENVELOPE_SCHEMA)])"
proof -
  let ?p = "[(''body'', JObj body), (''operation'', JStr operation), (''request_id'', JStr rid),
             (''schema'', JStr MOBILE_TRANSPORT_ENVELOPE_SCHEMA)]"
  have "json_ok (JObj ?p)" "json_sorted (JObj ?p) = JObj ?p"
    using assms by (simp_all add: dict_ok_def less_list_code)
  from json_roundtrip [OF this(1), of True] this(2)
  show ?thesis by (simp add: envelope_text_def del: json_dumps.simps)
qed

abbreviation usb_text :: "string \<Rightarrow> payload \<Rightarrow> string" where
  "usb_text \<equiv> envelope_text ''r1''"

lemma usb_text_request:
  assumes "json_ok (JObj body)" and "json_sorted (JObj body) = JObj body" and "py_strip operation \<noteq> []"
    and "operation \<noteq> TRANSFER_ASSET_OPERATION" and "dict_get routes operation \<noteq> None"
  shows "request_envelope routes (usb_text operation body) operation ''r1'' body"
proof -
  have "py_strip ''r1'' = ''r1''" by code_simp
  then show ?thesis
    using assms envelope_text_loads [OF assms(1,2), of "''r1''" operation]
    by (simp add: request_envelope_def dict_get_def stripped_field_def)
qed

definition example_prompt :: payload where
  "example_prompt =
     [(''device_uuid'', JStr ''old''), (''required'', JBool True), (''schema'', JStr MOBILE_UPDATE_PROMPT_SCHEMA),
      (''session_id'', JStr ''s1''), (''trust_proof'', JStr ''AA'')]"

lemma example_prompt_request: "request_envelope app_routes (usb_text UPDATE_PROMPT_OPERATION example_prompt) UPDATE_PROMPT_OPERATION ''r1'' example_prompt"
  by (rule usb_text_request) (code_simp+)

lemma example_prompt_run:
  "\<exists>p. router_dispatch app_routes example_gateway_env UPDATE_PROMPT_OPERATION (ObjectPayload example_prompt) k
     \<lparr>gw_pairing = pairing_init example_store no_files, gw_events = [], gw_prompts = []\<rparr> =
   (\<lparr>gw_pairing = pairing_init example_store no_files, gw_events = [], gw_prompts = [
      \<lparr>uq_schema = MOBILE_UPDATE_PROMPT_SCHEMA, uq_session_id = ''s1'', uq_device_uuid = ''old'', uq_trust_proof = ''AA'',
       uq_required = True, uq_body_text = None, uq_update_destination = None\<rparr>]\<rparr>, Inr (200, p)) \<and> json_ok (JObj p)"
proof -
  have "handle_prompt_request (te_hmac (ge_transfer example_gateway_env)) (pe_bracket_ok (ge_pairing example_gateway_env))
     example_store example_prompt [] = ([\<lparr>uq_schema = MOBILE_UPDATE_PROMPT_SCHEMA, uq_session_id = ''s1'', uq_device_uuid = ''old'', uq_trust_proof = ''AA'',
       uq_required = True, uq_body_text = None, uq_update_destination = None\<rparr>], Inr (update_prompt_response 200 ''accepted'' ''Desktop accepted the update prompt request.''
                            (Some ''s1'') (Some ''old'') (Some True)))"
    by code_simp
  moreover have "\<not> is_mobile_encrypted_payload example_prompt" by code_simp
  moreover have "json_ok (JObj (snd (update_prompt_response 200 ''accepted'' ''Desktop accepted the update prompt request.''
                            (Some ''s1'') (Some ''old'') (Some True))))" by code_simp
  ultimately show ?thesis
    by (simp add: router_dispatch_def route_of dispatch_update_prompt_def decrypt_transfer_payload_if_needed_def
      finish_plain pairing_init_def update_prompt_response_def del: json_ok.simps)
qed


lemma apart_prompts: "gw_prompts (apart_from_files w) = gw_prompts (aw_gateway w)"
  by (simp add: apart_from_files_def)


lemma envelope_answered_as_routed_witness:
  "\<exists>w' answer p. handle_text_message example_adapter_env USB_WEBSOCKET (usb_text UPDATE_PROMPT_OPERATION example_prompt)
     (ub_world (known_usb example_store)) = (w', Inr (Some answer)) \<and> gw_prompts (aw_gateway w') \<noteq> [] \<and>
     json_loads answer = Some (JObj [(''body'', json_sorted (JObj p)), (''request_id'', JStr ''r1''),
      (''schema'', JStr MOBILE_TRANSPORT_ENVELOPE_SCHEMA), (''status_code'', JInt 200)])"
proof -
  let ?w = "ub_world (known_usb example_store)"
  obtain p g where run: "router_dispatch (ad_routes example_adapter_env) (ad_gateway example_adapter_env) UPDATE_PROMPT_OPERATION
      (ObjectPayload example_prompt) USB_WEBSOCKET (aw_gateway ?w) = (g, Inr (200, p))" and g: "gw_prompts g \<noteq> []"
    and p: "json_ok (JObj p)"
    using example_prompt_run [of USB_WEBSOCKET] by (auto simp: example_adapter_env_def known_usb_def simp del: json_ok.simps)
  have "request_envelope (ad_routes example_adapter_env) (usb_text UPDATE_PROMPT_OPERATION example_prompt) UPDATE_PROMPT_OPERATION
      ''r1'' example_prompt"
    using example_prompt_request by (simp add: example_adapter_env_def)
  from envelope_answered_as_routed [OF this run p] g show ?thesis by (auto simp del: json_sorted.simps json_ok.simps)
qed

definition sorted_completion :: payload where
  "sorted_completion =
     [(''device_uuid'', JStr ''old''), (''failed_count'', JInt 0), (''interruption_reason'', JInt 7),
      (''schema'', JStr MOBILE_TRANSFER_SCHEMA), (''session_id'', JStr ''s1''), (''transferred_count'', JInt 1),
      (''trust_proof'', JStr ''AA'')]"

lemma numeric_reason_stops_worker_witness:
  "ub_worker (known_usb (tw_db example_world)) \<and>
   \<not> ub_worker (usb_loop_round (\<lambda>_. [1]) (Inr [''phone'']) (\<lambda>_ _. True) (Inr ()) ''r'' False
       [(example_adapter_env, WsText (json_dumps True (JObj passcode_answer)))]
       [(example_adapter_env, WsText (usb_text TRANSFER_COMPLETE_OPERATION sorted_completion))]
       (known_usb (tw_db example_world)))"
proof -
  let ?a = "known_usb (tw_db example_world)"
  let ?r = "\<lparr>sr_schema = ''dtis.mobile-transfer.v1'', sr_session_id = ''s1'', sr_device_uuid = ''old'',
    sr_trust_proof = ''AA'', sr_total_assets = None, sr_transferred_count = Some 1, sr_failed_count = Some 0\<rparr>"
  have env: "ad_gateway example_adapter_env = example_gateway_env" "ad_routes example_adapter_env = app_routes"
    "ge_transfer example_gateway_env = example_env" "aw_db (ub_world ?a) = tw_db example_world"
    by (simp_all add: example_adapter_env_def example_gateway_env_def known_usb_def pairing_init_def)
  have config: "ub_config ?a = Some known_config" by (simp add: known_usb_def)
  have probe: "probe_usb_tunnel (Inr [''phone'']) (\<lambda>_ _. True) known_config = Inr (None, Some (''phone'', 9000))"
    by code_simp
  have request: "request_envelope (ad_routes example_adapter_env) (usb_text TRANSFER_COMPLETE_OPERATION sorted_completion)
      TRANSFER_COMPLETE_OPERATION ''r1'' sorted_completion"
    unfolding env by (rule usb_text_request) code_simp+
  have p: "parse_transfer_session_request False True sorted_completion = Inr ?r" by code_simp
  have plain: "\<not> is_mobile_encrypted_payload sorted_completion" by code_simp
  have s: "sr_schema ?r = MOBILE_TRANSFER_SCHEMA" by (simp add: MOBILE_TRANSFER_SCHEMA_def)
  have auth: "authorized_context example_env (tw_db example_world) MOBILE_TRANSFER_COMPLETE_PROOF_PURPOSE
      [MOBILE_BACKUP_SESSION_STATUS_TRANSFERRING] (sr_schema ?r) (sr_session_id ?r) (sr_device_uuid ?r)
      (sr_trust_proof ?r) = Inr (Some example_context)" by code_simp
  have i: "dict_get sorted_completion ''interruption_reason'' = Some (JInt 7)"
    by (simp add: sorted_completion_def dict_get_def)
  from numeric_reason_stops_worker [OF config probe passcode_challenge _ request plain _ p s _ i, of example_time example_context]
    auth example_steps(1) routes_registered
  have "\<not> ub_worker (usb_loop_round (\<lambda>_. [1]) (Inr [''phone'']) (\<lambda>_ _. True) (Inr ()) ''r'' False
       [(example_adapter_env, WsText (json_dumps True (JObj passcode_answer)))]
       [(example_adapter_env, WsText (usb_text TRANSFER_COMPLETE_OPERATION sorted_completion))] ?a)"
    by (simp add: env del: json_dumps.simps)
  then show ?thesis by (simp add: known_usb_def)
qed

definition passcode_bytes :: "byte list" where
  "passcode_bytes = utf8_encode (json_dumps True (JObj passcode_answer))"

lemma padded_challenge_id: "\<exists>ide. encode_ascii AOA_AUTH_CHALLENGE_REQUEST_ID = Some ide \<and> length ide = 36"
proof -
  have "encode_ascii AOA_AUTH_CHALLENGE_REQUEST_ID \<noteq> None" "length AOA_AUTH_CHALLENGE_REQUEST_ID = 36" by code_simp+
  then show ?thesis using encode_ascii_length by fastforce
qed

lemma frames_behind_answer_are_lost_witness:
  "\<exists>answer. \<forall>a. aoa_run_session (\<lambda>_. [1]) 5 known_config ''r'' False
      [(example_adapter_env, AoaTimeout 0), (example_adapter_env, AoaBytes (answer @ [1]))] [] a =
    aoa_run_session (\<lambda>_. [1]) 5 known_config ''r'' False
      [(example_adapter_env, AoaTimeout 0), (example_adapter_env, AoaBytes answer)] [] a"
proof -
  let ?text = "passcode_bytes"
  have "length passcode_bytes < 300" by code_simp
  then have "length passcode_bytes \<le> 0xFFFFFFFF" by simp
  moreover obtain ide where "encode_ascii AOA_AUTH_CHALLENGE_REQUEST_ID = Some ide" "length ide = 36"
    using padded_challenge_id by blast
  ultimately obtain answer where answer: "encode_aoa_frame AOA_AUTH_CHALLENGE_REQUEST_ID passcode_bytes 0 = Inr answer"
    by (metis encode_aoa_frame_Inr)
  have ne: "answer \<noteq> []"
  proof
    assume "answer = []"
    with answer show False by (simp only: encode_aoa_frame_Inr) blast
  qed
  have fed: "aoa_feed aoa_decoder_init answer = ([], Inr [(AOA_AUTH_CHALLENGE_REQUEST_ID, 0, ?text)])"
    using aoa_feed_loop_encoded [OF answer, of "[]" "[]"]
    by (simp only: aoa_feed_def aoa_decoder_init_def append_Nil append_Nil2 aoa_feed_loop_short list.size) simp
  have verdict: "challenge_verdict (\<lambda>_. [1]) ''AOA'' known_config ''r'' passcode_answer = Inr ()" by code_simp
  have loads: "json_loads (json_dumps True (JObj passcode_answer)) = Some (JObj passcode_answer)"
    using json_roundtrip [OF passcode_answer_facts(1), of True] passcode_answer_facts(2) by simp
  have ok: "answer_in_frames (\<lambda>_. [1]) known_config ''r'' [(AOA_AUTH_CHALLENGE_REQUEST_ID, 0, ?text)] = Some (Inr ())"
    by (simp add: aoa_challenge_answer_def utf8_roundtrip loads verdict passcode_bytes_def AOA_FRAME_FLAG_TEXT_def del: json_dumps.simps)
  have behind: "aoa_feed [] [1] = ([1], Inr [])" by (simp add: aoa_feed_def aoa_feed_loop_short)
  from frames_behind_answer_are_lost [OF fed ok behind ne] show ?thesis by blast
qed
end
