(* ===== verification/TransportUploads.thy ===== *)
theory TransportUploads
  imports TransportScenarios
begin

text \<open>
  An asset means the same over every transport.  \<open>receive_upload\<close> is what the desktop does with one:
  start an upload, append its chunks, complete it and hand it to the router.  A transport that keeps
  the laws of \<open>upload_channel\<close> does exactly that with the messages of an asset; the WebSocket, the
  accessory and the HTTP server do.
\<close>

section \<open>What the desktop does with an asset\<close>

fun append_all :: "string \<Rightarrow> byte list list \<Rightarrow> adapter_world \<Rightarrow> adapter_world option" where
  "append_all rid [] w = Some w"
| "append_all rid (c # cs) w =
     (case stream_call (upload_append_chunk c (Some rid)) w of
        (w', Inr None) \<Rightarrow> append_all rid cs w'
      | _ \<Rightarrow> None)"

definition complete_upload ::
    "adapter_env \<Rightarrow> transport_kind \<Rightarrow> string \<Rightarrow> adapter_world \<Rightarrow> (adapter_world \<times> http_response) option" where
  "complete_upload env kind rid w =
     (case stream_call (upload_complete (te_sha1 (ge_transfer (ad_gateway env))) rid) w of
        (w', Inr (Inr a)) \<Rightarrow>
          (case router_dispatch (ad_routes env) (ad_gateway env) TRANSFER_ASSET_OPERATION
                  (UploadPayload (upload_of_payload a)) kind (aw_gateway w') of
             (g, Inr response) \<Rightarrow> Some (w'\<lparr>aw_gateway := g\<rparr>, response)
           | _ \<Rightarrow> None)
      | _ \<Rightarrow> None)"

definition receive_upload ::
    "adapter_env \<Rightarrow> transport_kind \<Rightarrow> string \<Rightarrow> payload \<Rightarrow> byte list list \<Rightarrow> adapter_world
     \<Rightarrow> (adapter_world \<times> http_response) option" where
  "receive_upload env kind rid metadata chunks w =
     (case start_pending_asset_upload env rid metadata None w of
        (w', Inr _) \<Rightarrow> Option.bind (append_all rid chunks w') (complete_upload env kind rid)
      | _ \<Rightarrow> None)"

text \<open>A plain upload stays plain.\<close>

definition plain_upload :: "string \<Rightarrow> adapter_world \<Rightarrow> bool" where
  "plain_upload rid w \<longleftrightarrow> upload_encryption_trust_key (aw_stream w) (Some rid) = None"

lemma started_plain:
  "start_pending_asset_upload env rid metadata None w = (w', Inr x) \<Longrightarrow> plain_upload rid w'"
  by (auto simp: start_pending_asset_upload_def stream_call_def upload_start_def plain_upload_def Let_def
      upload_encryption_trust_key_def resolved_upload_def put_stream_def split: prod.splits sum.splits option.splits)

lemma appended_plain:
  "stream_call (upload_append_chunk c (Some rid)) w = (w', Inr x) \<Longrightarrow> plain_upload rid w \<Longrightarrow> plain_upload rid w'"
  by (auto simp: stream_call_def upload_append_chunk_def plain_upload_def Let_def pending_append_chunk_def fs_seq_def
      upload_encryption_trust_key_def resolved_upload_def put_stream_def split: prod.splits sum.splits option.splits if_splits)

section \<open>The contract of a transport\<close>

text \<open>Replies in front of those of a run.\<close>

lemma apsnd_append [simp]:
  "apsnd ((@) []) x = x" "apsnd ((@) xs) (apsnd ((@) ys) x) = apsnd ((@) (xs @ ys)) x"
  by (cases x, simp)+

text \<open>
  \<open>run\<close> handles messages and yields what is sent back; \<open>is_start\<close>, \<open>is_chunk\<close> and
  \<open>is_finish\<close> say what a message means.  The laws relate one message to the upload stream.
\<close>

definition asset_messages ::
    "(string \<Rightarrow> payload \<Rightarrow> 'm \<Rightarrow> bool) \<Rightarrow> (string \<Rightarrow> byte list \<Rightarrow> 'm \<Rightarrow> bool) \<Rightarrow> (string \<Rightarrow> 'm \<Rightarrow> bool)
     \<Rightarrow> string \<Rightarrow> payload \<Rightarrow> byte list list \<Rightarrow> 'm list \<Rightarrow> bool" where
  "asset_messages is_start is_chunk is_finish rid metadata chunks ms \<longleftrightarrow>
     (\<exists>m cs f. ms = m # cs @ [f] \<and> is_start rid metadata m \<and> list_all2 (is_chunk rid) chunks cs \<and> is_finish rid f)"

locale upload_channel =
  fixes kind :: transport_kind
    and is_start :: "string \<Rightarrow> payload \<Rightarrow> 'm \<Rightarrow> bool"
    and is_chunk :: "string \<Rightarrow> byte list \<Rightarrow> 'm \<Rightarrow> bool"
    and is_finish :: "string \<Rightarrow> 'm \<Rightarrow> bool"
    and run :: "adapter_env \<Rightarrow> 'm list \<Rightarrow> adapter_world \<Rightarrow> adapter_world \<times> 'r list"
    and start_reply :: "string \<Rightarrow> 'r list"
    and chunk_reply :: "string \<Rightarrow> 'r list"
    and reply :: "string \<Rightarrow> http_response \<Rightarrow> 'r list"
  assumes run_start:
      "is_start rid metadata m \<Longrightarrow> start_pending_asset_upload env rid metadata None w = (w', Inr ()) \<Longrightarrow>
       run env (m # ms) w = apsnd ((@) (start_reply rid)) (run env ms w')"
    and run_chunk:
      "is_chunk rid c m \<Longrightarrow> plain_upload rid w \<Longrightarrow> stream_call (upload_append_chunk c (Some rid)) w = (w', Inr None) \<Longrightarrow>
       run env (m # ms) w = apsnd ((@) (chunk_reply rid)) (run env ms w')"
    and run_finish:
      "is_finish rid m \<Longrightarrow> complete_upload env kind rid w = Some (w', response) \<Longrightarrow>
       run env [m] w = (w', reply rid response)"
begin

lemma run_chunks:
  assumes "list_all2 (is_chunk rid) chunks cs" and "append_all rid chunks w = Some w'" and "plain_upload rid w"
  shows "run env (cs @ ms) w = apsnd ((@) (concat (map (\<lambda>_. chunk_reply rid) chunks))) (run env ms w')"
  using assms
proof (induction arbitrary: w rule: list_all2_induct)
  case (Cons c chunks m cs)
  obtain w1 where step: "stream_call (upload_append_chunk c (Some rid)) w = (w1, Inr None)"
    and rest: "append_all rid chunks w1 = Some w'"
    using Cons.prems(1) by (auto split: prod.splits sum.splits option.splits)
  note IH = Cons.IH [OF rest appended_plain [OF step Cons.prems(2)]]
  show ?case using run_chunk [OF Cons.hyps(1) Cons.prems(2) step, of env "cs @ ms"] IH by simp
qed simp

lemma run_upload:
  assumes "asset_messages is_start is_chunk is_finish rid metadata chunks ms" and "receive_upload env kind rid metadata chunks w = Some (w', response)"
  shows "run env ms w = (w', start_reply rid @ concat (map (\<lambda>_. chunk_reply rid) chunks) @ reply rid response)"
proof -
  obtain m cs f where ms: "ms = m # cs @ [f]" "is_start rid metadata m" "list_all2 (is_chunk rid) chunks cs" "is_finish rid f"
    using assms(1) by (auto simp: asset_messages_def)
  obtain w1 w2 where start: "start_pending_asset_upload env rid metadata None w = (w1, Inr ())"
    and chunks: "append_all rid chunks w1 = Some w2" and finish: "complete_upload env kind rid w2 = Some (w', response)"
    using assms(2) by (auto simp: receive_upload_def bind_eq_Some_conv split: prod.splits sum.splits)
  show ?thesis
    using run_start [OF ms(2) start, of "cs @ [f]"] run_chunks [OF ms(3) chunks started_plain [OF start], of env "[f]"]
      run_finish [OF ms(4) finish]
    by (simp add: ms(1))
qed

end

section \<open>The WebSocket\<close>

definition asset_envelope :: "string \<Rightarrow> string \<Rightarrow> payload \<Rightarrow> bool" where
  "asset_envelope m rid body \<longleftrightarrow>
     (\<exists>p. json_loads m = Some (JObj p) \<and> dict_get p ''schema'' = Some (JStr MOBILE_TRANSPORT_ENVELOPE_SCHEMA) \<and>
        dict_get p ''operation'' = Some (JStr TRANSFER_ASSET_OPERATION) \<and> stripped_field p ''request_id'' = Some rid \<and>
        dict_get p ''body'' = Some (JObj body))"

definition start_body :: "payload \<Rightarrow> payload \<Rightarrow> bool" where
  "start_body body metadata \<longleftrightarrow>
     dict_get body TRANSFER_ASSET_STREAM_STATE_FIELD = Some (JStr TRANSFER_ASSET_STREAM_STATE_START) \<and>
     stream_metadata body = metadata \<and> \<not> is_mobile_encrypted_payload metadata"

definition finish_body :: "payload \<Rightarrow> bool" where
  "finish_body body \<longleftrightarrow>
     dict_get body TRANSFER_ASSET_STREAM_STATE_FIELD = Some (JStr TRANSFER_ASSET_STREAM_STATE_COMPLETE)"

lemma asset_operation_text: "py_strip TRANSFER_ASSET_OPERATION \<noteq> []" by code_simp

lemma stream_states_differ: "TRANSFER_ASSET_STREAM_STATE_COMPLETE \<noteq> TRANSFER_ASSET_STREAM_STATE_START" by code_simp

lemma asset_envelope_dispatch:
  assumes "asset_envelope m rid body"
  shows "dispatch_envelope_request env kind m w =
    (case dispatch_transfer_asset_stream_payload env rid (Some (JObj body)) w of
       (w', Inl e) \<Rightarrow> (w', Inl e)
     | (w', Inr NoAnswer) \<Rightarrow> (w', Inr (Some rid, None))
     | (w', Inr (ErrorAnswer response)) \<Rightarrow> (w', Inr (Some rid, Some response))
     | (w', Inr (UploadAnswer u)) \<Rightarrow>
         apsnd (\<lambda>r. bindE r (\<lambda>response. Inr (Some rid, Some response)))
           (dispatch_to_router env kind TRANSFER_ASSET_OPERATION (UploadPayload u) w'))"
proof -
  from assms obtain p where p: "json_loads m = Some (JObj p)"
    "dict_get p ''schema'' = Some (JStr MOBILE_TRANSPORT_ENVELOPE_SCHEMA)"
    "dict_get p ''operation'' = Some (JStr TRANSFER_ASSET_OPERATION)" "stripped_field p ''request_id'' = Some rid"
    "dict_get p ''body'' = Some (JObj body)"
    unfolding asset_envelope_def by blast
  have parsed: "parse_envelope m = Inr p"
    using p asset_operation_text by (simp add: parse_envelope_def stripped_field_def)
  have op: "text_field p ''operation'' = TRANSFER_ASSET_OPERATION" using p by (simp add: text_field_def)
  show ?thesis by (simp add: dispatch_envelope_request_def parsed op p)
qed

lemma start_message:
  assumes "asset_envelope m rid body" and "start_body body metadata"
    and "start_pending_asset_upload env rid metadata None w = (w', Inr ())"
  shows "handle_text_message env kind m w = (w', Inr None)"
  using assms(2,3)
  by (simp add: handle_text_message_def asset_envelope_dispatch [OF assms(1)] start_body_def
      dispatch_transfer_asset_stream_payload_def decrypted_metadata_def Let_def)

lemma finish_message:
  assumes "asset_envelope m rid body" and "finish_body body" and "complete_upload env kind rid w = Some (w', response)"
  shows "handle_text_message env kind m w = (w', Inr (Some (encode_response_envelope rid response)))"
proof -
  obtain w1 a g where c: "stream_call (upload_complete (te_sha1 (ge_transfer (ad_gateway env))) rid) w = (w1, Inr (Inr a))"
    and d: "router_dispatch (ad_routes env) (ad_gateway env) TRANSFER_ASSET_OPERATION
      (UploadPayload (upload_of_payload a)) kind (aw_gateway w1) = (g, Inr response)" and w': "w' = w1\<lparr>aw_gateway := g\<rparr>"
    using assms(3) by (auto simp: complete_upload_def split: prod.splits sum.splits)
  have known: "dict_get (ad_routes env) TRANSFER_ASSET_OPERATION \<noteq> None"
    using d by (auto simp: router_dispatch_def split: option.splits)
  show ?thesis
    using assms(2) stream_states_differ known
    by (auto simp: handle_text_message_def asset_envelope_dispatch [OF assms(1)] finish_body_def c d w'
        dispatch_transfer_asset_stream_payload_def complete_pending_asset_upload_def dispatch_to_router_def)
qed

lemma plain_chunk:
  assumes "plain_upload rid w" and "stream_call (upload_append_chunk c (Some rid)) w = (w', Inr None)"
  shows "append_binary_chunk env rid c w = (w', Inr ())"
  using assms by (simp add: append_binary_chunk_def plain_upload_def)

fun usb_start_message :: "string \<Rightarrow> payload \<Rightarrow> ws_event \<Rightarrow> bool" where
  "usb_start_message rid metadata (WsText m) \<longleftrightarrow> (\<exists>body. asset_envelope m rid body \<and> start_body body metadata)"
| "usb_start_message rid metadata _ \<longleftrightarrow> False"

fun usb_chunk_message :: "string \<Rightarrow> byte list \<Rightarrow> ws_event \<Rightarrow> bool" where
  "usb_chunk_message rid c (WsBytes frame) \<longleftrightarrow> decode_transfer_asset_binary_frame frame = Inr (rid, c)"
| "usb_chunk_message rid c _ \<longleftrightarrow> False"

fun usb_finish_message :: "string \<Rightarrow> ws_event \<Rightarrow> bool" where
  "usb_finish_message rid (WsText m) \<longleftrightarrow> (\<exists>body. asset_envelope m rid body \<and> finish_body body)"
| "usb_finish_message rid _ \<longleftrightarrow> False"

definition usb_run :: "adapter_env \<Rightarrow> ws_event list \<Rightarrow> adapter_world \<Rightarrow> adapter_world \<times> string list" where
  "usb_run env ms w = (case usb_session_loop (map (Pair env) ms) w of (w', sent, r) \<Rightarrow> (w', sent))"

interpretation usb_channel: upload_channel USB_WEBSOCKET usb_start_message usb_chunk_message usb_finish_message usb_run
  "\<lambda>_. []" "\<lambda>_. []" "\<lambda>rid response. [encode_response_envelope rid response]"
proof unfold_locales
  fix rid metadata m env ms and w w' :: adapter_world
  assume "usb_start_message rid metadata m" and "start_pending_asset_upload env rid metadata None w = (w', Inr ())"
  then show "usb_run env (m # ms) w = apsnd ((@) []) (usb_run env ms w')"
    by (cases m) (auto simp: usb_run_def start_message split: prod.split)
next
  fix rid c m env ms and w w' :: adapter_world
  assume "usb_chunk_message rid c m" and "plain_upload rid w"
    and "stream_call (upload_append_chunk c (Some rid)) w = (w', Inr None)"
  then show "usb_run env (m # ms) w = apsnd ((@) []) (usb_run env ms w')"
    by (cases m) (simp_all add: usb_run_def append_pending_asset_chunk_def plain_chunk)
next
  fix rid m env and w w' :: adapter_world and response
  assume "usb_finish_message rid m" and "complete_upload env USB_WEBSOCKET rid w = Some (w', response)"
  then show "usb_run env [m] w = (w', [encode_response_envelope rid response])"
    by (cases m) (auto simp: usb_run_def finish_message)
qed

section \<open>The accessory\<close>

fun aoa_start_message :: "string \<Rightarrow> payload \<Rightarrow> aoa_frame \<Rightarrow> bool" where
  "aoa_start_message rid metadata (i, flags, frame_payload) \<longleftrightarrow> flags \<noteq> AOA_FRAME_FLAG_BINARY \<and>
     (\<exists>m body. utf8_decode frame_payload = Some m \<and> asset_envelope m rid body \<and> start_body body metadata)"

fun aoa_chunk_message :: "string \<Rightarrow> byte list \<Rightarrow> aoa_frame \<Rightarrow> bool" where
  "aoa_chunk_message rid c (i, flags, frame_payload) \<longleftrightarrow> i = rid \<and> flags = AOA_FRAME_FLAG_BINARY \<and> frame_payload = c"

fun aoa_finish_message :: "string \<Rightarrow> aoa_frame \<Rightarrow> bool" where
  "aoa_finish_message rid (i, flags, frame_payload) \<longleftrightarrow> i = rid \<and> flags \<noteq> AOA_FRAME_FLAG_BINARY \<and>
     (\<exists>m body. utf8_decode frame_payload = Some m \<and> asset_envelope m rid body \<and> finish_body body)"

definition aoa_run :: "adapter_env \<Rightarrow> aoa_frame list \<Rightarrow> adapter_world \<Rightarrow> adapter_world \<times> byte list list" where
  "aoa_run env fs w = (case aoa_handle_frames env fs w of (w', sent, r) \<Rightarrow> (w', sent))"

definition aoa_reply :: "string \<Rightarrow> http_response \<Rightarrow> byte list list" where
  "aoa_reply rid response =
     (case send_frame rid (utf8_encode (encode_response_envelope rid response)) 0 of Inl e \<Rightarrow> [] | Inr frame \<Rightarrow> [frame])"

interpretation aoa_channel: upload_channel AOA_USB aoa_start_message aoa_chunk_message aoa_finish_message aoa_run
  "\<lambda>_. []" "\<lambda>_. []" aoa_reply
proof unfold_locales
  fix rid metadata m env ms and w w' :: adapter_world
  assume "aoa_start_message rid metadata m" and "start_pending_asset_upload env rid metadata None w = (w', Inr ())"
  then show "aoa_run env (m # ms) w = apsnd ((@) []) (aoa_run env ms w')"
    by (cases m) (auto simp: aoa_run_def start_message split: prod.split)
next
  fix rid c m env ms and w w' :: adapter_world
  assume "aoa_chunk_message rid c m" and "plain_upload rid w"
    and "stream_call (upload_append_chunk c (Some rid)) w = (w', Inr None)"
  then show "aoa_run env (m # ms) w = apsnd ((@) []) (aoa_run env ms w')"
    by (cases m) (simp add: aoa_run_def plain_chunk)
next
  fix rid m env and w w' :: adapter_world and response
  assume "aoa_finish_message rid m" and "complete_upload env AOA_USB rid w = Some (w', response)"
  then show "aoa_run env [m] w = (w', aoa_reply rid response)"
    by (cases m) (auto simp: aoa_run_def aoa_reply_def finish_message split: sum.split)
qed

text \<open>However the bytes of the frames are cut into reads, the session handles the frames in order.\<close>

lemma handle_frames_append:
  "aoa_handle_frames env (fs @ gs) w =
     (case aoa_handle_frames env fs w of
        (w1, sent, Inl e) \<Rightarrow> (w1, sent, Inl e)
      | (w1, sent, Inr _) \<Rightarrow> (case aoa_handle_frames env gs w1 of (w2, sent', r) \<Rightarrow> (w2, sent @ sent', r)))"
  by (induction env fs w rule: aoa_handle_frames.induct) (auto split: prod.splits sum.splits option.splits)

lemma session_reads_frames:
  assumes "aoa_feed_all buffer reads = (buffer', Inr fs)" and "\<forall>b\<in>set reads. b \<noteq> []"
  shows "aoa_session_loop stall (map (\<lambda>b. (env, AoaBytes b)) reads) buffer w = aoa_handle_frames env fs w"
  using assms
proof (induction reads arbitrary: buffer fs w)
  case (Cons b reads)
  obtain b1 f1 where first: "aoa_feed buffer b = (b1, Inr f1)"
    using Cons.prems(1) by (cases "aoa_feed buffer b"; cases "snd (aoa_feed buffer b)") (auto simp: aoa_feed_all_Cons)
  obtain f2 where rest: "aoa_feed_all b1 reads = (buffer', Inr f2)" and fs: "fs = f1 @ f2"
    using Cons.prems(1)
    by (cases "aoa_feed_all b1 reads"; cases "snd (aoa_feed_all b1 reads)") (auto simp: aoa_feed_all_Cons(2) [OF first])
  show ?case
    using Cons.prems(2) Cons.IH [OF rest]
    by (auto simp: first fs handle_frames_append split: prod.splits sum.splits)
qed simp

section \<open>The HTTP server\<close>

text \<open>The JSON object in the body of a request.\<close>

definition json_body :: "http_request \<Rightarrow> payload \<Rightarrow> bool" where
  "json_body req p \<longleftrightarrow>
     (\<exists>n raw. header_length req = Inr n \<and> rfile_read req n = Inr raw \<and>
        Option.bind (utf8_decode raw) json_loads = Some (JObj p))"

definition asset_request :: "string \<Rightarrow> string \<Rightarrow> http_request \<Rightarrow> bool" where
  "asset_request rid stream_state req \<longleftrightarrow>
     hq_path req = MOBILE_TRANSFER_ASSET_PATH \<and> rid \<noteq> [] \<and>
     (\<exists>v. query_value req ''request_id'' = Some v \<and> py_strip v = rid) \<and>
     query_value req TRANSFER_ASSET_STREAM_STATE_FIELD = Some stream_state"

definition lan_start_message :: "string \<Rightarrow> payload \<Rightarrow> http_request \<Rightarrow> bool" where
  "lan_start_message rid metadata req \<longleftrightarrow> asset_request rid TRANSFER_ASSET_STREAM_STATE_START req \<and>
     (\<exists>body. json_body req body \<and> stream_metadata body = metadata) \<and> \<not> is_mobile_encrypted_payload metadata"

definition lan_chunk_message :: "string \<Rightarrow> byte list \<Rightarrow> http_request \<Rightarrow> bool" where
  "lan_chunk_message rid c req \<longleftrightarrow> asset_request rid TRANSFER_ASSET_STREAM_STATE_CHUNK req \<and> c \<noteq> [] \<and>
     header_length req = Inr (int (length c)) \<and> rfile_read req (int (length c)) = Inr c"

definition lan_finish_message :: "string \<Rightarrow> http_request \<Rightarrow> bool" where
  "lan_finish_message rid req \<longleftrightarrow> asset_request rid TRANSFER_ASSET_STREAM_STATE_COMPLETE req"

fun lan_run :: "adapter_env \<Rightarrow> http_request list \<Rightarrow> adapter_world \<Rightarrow> adapter_world \<times> http_response list" where
  "lan_run env [] w = (w, [])"
| "lan_run env (req # reqs) w = (case do_POST env req w of (w', response) \<Rightarrow> apsnd ((#) response) (lan_run env reqs w'))"

lemma asset_path_routes: "find (\<lambda>r. jr_path r = MOBILE_TRANSFER_ASSET_PATH) json_routes = None" by code_simp

lemma stream_states:
  "TRANSFER_ASSET_STREAM_STATE_CHUNK \<noteq> TRANSFER_ASSET_STREAM_STATE_START"
  "TRANSFER_ASSET_STREAM_STATE_COMPLETE \<noteq> TRANSFER_ASSET_STREAM_STATE_CHUNK"
  by code_simp+

lemma asset_request_answer:
  assumes "asset_request rid s req"
  shows "do_POST env req w =
    (case (if s = TRANSFER_ASSET_STREAM_STATE_START then lan_stream_start env rid req w
           else if s = TRANSFER_ASSET_STREAM_STATE_CHUNK then lan_stream_chunk env rid req w
           else if s = TRANSFER_ASSET_STREAM_STATE_COMPLETE then lan_stream_complete env rid w
           else (w, Inr (stream_refusal 400 (''Desktop rejected transfer asset stream request with an unsupported ''
                   @ quoted TRANSFER_ASSET_STREAM_STATE_FIELD @ '' value.'')))) of
       (w', Inl e) \<Rightarrow> (w', internal_error_response)
     | (w', Inr response) \<Rightarrow> (w', response))"
  using assms by (auto simp: asset_request_def do_POST_def lan_handle_def asset_path_routes lan_asset_request_def Let_def)

interpretation lan_channel: upload_channel LAN_HTTP lan_start_message lan_chunk_message lan_finish_message lan_run
  "\<lambda>rid. [stream_accepted ''Desktop accepted transfer asset stream metadata.'' rid]"
  "\<lambda>rid. [stream_accepted ''Desktop accepted transfer asset stream chunk.'' rid]" "\<lambda>rid response. [response]"
proof unfold_locales
  fix rid metadata m env ms and w w' :: adapter_world
  assume m: "lan_start_message rid metadata m" and start: "start_pending_asset_upload env rid metadata None w = (w', Inr ())"
  obtain body where "json_body m body" and meta: "stream_metadata body = metadata" "\<not> is_mobile_encrypted_payload metadata"
    and req: "asset_request rid TRANSFER_ASSET_STREAM_STATE_START m"
    using m by (auto simp: lan_start_message_def)
  then have "read_json_payload m s a b x y = Inr (Inr body)" for s a b x y
    by (auto simp: json_body_def read_json_payload_def)
  then have "do_POST env m w = (w', stream_accepted ''Desktop accepted transfer asset stream metadata.'' rid)"
    using start meta by (simp add: asset_request_answer [OF req] lan_stream_start_def decrypted_metadata_def write_json_response_def)
  then show "lan_run env (m # ms) w = apsnd ((@) [stream_accepted ''Desktop accepted transfer asset stream metadata.'' rid])
      (lan_run env ms w')" by (cases "lan_run env ms w'") simp
next
  fix rid c m env ms and w w' :: adapter_world
  assume m: "lan_chunk_message rid c m" and plain: "plain_upload rid w"
    and app: "stream_call (upload_append_chunk c (Some rid)) w = (w', Inr None)"
  then have req: "asset_request rid TRANSFER_ASSET_STREAM_STATE_CHUNK m" and c: "c \<noteq> []"
    and read: "header_length m = Inr (int (length c))" "rfile_read m (int (length c)) = Inr c"
    by (auto simp: lan_chunk_message_def)
  have "length c \<le> TRANSFER_ASSET_STREAM_CHUNK_SIZE_BYTES"
    using app c by (auto simp: stream_call_def upload_append_chunk_def split: if_splits)
  then have "chunk_length_refusal (Some (int (length c))) = None"
    using c by (simp add: chunk_length_refusal_def)
  then have "do_POST env m w = (w', stream_accepted ''Desktop accepted transfer asset stream chunk.'' rid)"
    using app plain read
    by (simp add: asset_request_answer [OF req] stream_states lan_stream_chunk_def lan_append_chunk_def Let_def plain_upload_def
        write_json_response_def or_zero_def)
  then show "lan_run env (m # ms) w = apsnd ((@) [stream_accepted ''Desktop accepted transfer asset stream chunk.'' rid])
      (lan_run env ms w')" by (cases "lan_run env ms w'") simp
next
  fix rid m env and w w' :: adapter_world and response
  assume m: "lan_finish_message rid m" and complete: "complete_upload env LAN_HTTP rid w = Some (w', response)"
  have req: "asset_request rid TRANSFER_ASSET_STREAM_STATE_COMPLETE m" using m by (simp add: lan_finish_message_def)
  show "lan_run env [m] w = (w', [response])"
    using complete
    by (auto simp: asset_request_answer [OF req] stream_states stream_states_differ lan_stream_complete_def lan_dispatch_def complete_upload_def
        split: prod.splits sum.splits)
qed

section \<open>One asset, three transports\<close>

text \<open>The world but for the transport that is noted for each session.\<close>

definition untracked :: "adapter_world \<Rightarrow> adapter_world" where
  "untracked w = w\<lparr>aw_gateway := (aw_gateway w)\<lparr>gw_pairing := (gw_pairing (aw_gateway w))\<lparr>pv_transports := []\<rparr>\<rparr>\<rparr>"

lemma complete_upload_kind:
  assumes "ad_routes env = app_routes" and "complete_upload env k rid w = Some (w1, response)"
  shows "\<exists>w2. complete_upload env k' rid w = Some (w2, response) \<and> untracked w2 = untracked w1"
  using assms
  by (auto simp: complete_upload_def router_dispatch_def route_of dispatch_transfer_asset_def Let_def finish_response_def
      track_transfer_transport_def transfer_view_def put_transfer_def untracked_def
      split: prod.splits sum.splits option.splits)

lemma receive_upload_kind:
  assumes "ad_routes env = app_routes" and "receive_upload env k rid metadata chunks w = Some (w1, response)"
  shows "\<exists>w2. receive_upload env k' rid metadata chunks w = Some (w2, response) \<and> untracked w2 = untracked w1"
proof -
  obtain wa wb where "start_pending_asset_upload env rid metadata None w = (wa, Inr ())"
    "append_all rid chunks wa = Some wb" and finish: "complete_upload env k rid wb = Some (w1, response)"
    using assms(2) by (auto simp: receive_upload_def bind_eq_Some_conv split: prod.splits sum.splits)
  with complete_upload_kind [OF assms(1) finish, of k'] show ?thesis by (simp add: receive_upload_def)
qed

text \<open>
  C1. An asset means the same over every transport: when the metadata of an unencrypted upload, its
  chunks and its completion arrive as WebSocket messages, as frames of the accessory cut into reads
  anywhere, or as HTTP requests, the desktop starts the upload, appends the chunks, completes it and
  lets the router store it, exactly once and in order.  The files, the tables, the pending uploads and
  the final response are the same; only the transport that is noted for the session differs, and the
  HTTP server answers the messages in between as well.
\<close>
theorem upload_same_over_every_transport:
  assumes "register_transport_routes [] = Inr (ad_routes env)"
    and "asset_messages usb_start_message usb_chunk_message usb_finish_message rid metadata chunks messages"
    and "asset_messages aoa_start_message aoa_chunk_message aoa_finish_message rid metadata chunks frames"
    and "aoa_feed_all aoa_decoder_init reads = (buffer, Inr frames)" and "\<forall>b\<in>set reads. b \<noteq> []"
    and "asset_messages lan_start_message lan_chunk_message lan_finish_message rid metadata chunks requests"
    and "receive_upload env kind rid metadata chunks w = Some (w', response)"
  shows "\<exists>usb aoa lan r r'.
    usb_session_loop (map (Pair env) messages) w = (usb, [encode_response_envelope rid response], r) \<and>
    aoa_session_loop stall (map (\<lambda>b. (env, AoaBytes b)) reads) aoa_decoder_init w = (aoa, aoa_reply rid response, r') \<and>
    lan_run env requests w = (lan, stream_accepted ''Desktop accepted transfer asset stream metadata.'' rid
       # map (\<lambda>_. stream_accepted ''Desktop accepted transfer asset stream chunk.'' rid) chunks @ [response]) \<and>
    untracked usb = untracked w' \<and> untracked aoa = untracked w' \<and> untracked lan = untracked w'"
proof -
  have routes: "ad_routes env = app_routes" using assms(1) routes_registered by simp
  note same = receive_upload_kind [OF routes assms(7)]
  obtain usb where usb: "receive_upload env USB_WEBSOCKET rid metadata chunks w = Some (usb, response)" "untracked usb = untracked w'"
    using same by blast
  obtain aoa where aoa: "receive_upload env AOA_USB rid metadata chunks w = Some (aoa, response)" "untracked aoa = untracked w'"
    using same by blast
  obtain lan where lan: "receive_upload env LAN_HTTP rid metadata chunks w = Some (lan, response)" "untracked lan = untracked w'"
    using same by blast
  have "\<exists>r. usb_session_loop (map (Pair env) messages) w = (usb, [encode_response_envelope rid response], r)"
    using usb_channel.run_upload [OF assms(2) usb(1)] by (auto simp: usb_run_def split: prod.splits)
  moreover have "\<exists>r. aoa_handle_frames env frames w = (aoa, aoa_reply rid response, r)"
    using aoa_channel.run_upload [OF assms(3) aoa(1)] by (auto simp: aoa_run_def split: prod.splits)
  moreover have "concat (map (\<lambda>_. [x]) chunks) = map (\<lambda>_. x) chunks" for x :: http_response by (induction chunks) auto
  ultimately show ?thesis
    using lan_channel.run_upload [OF assms(6) lan(1)] usb(2) aoa(2) lan(2) session_reads_frames [OF assms(4,5)] by auto
qed

section \<open>An asset at concrete messages\<close>

text \<open>An asset in two chunks, from a phone whose session is transferring.\<close>

definition asset_rid :: string where "asset_rid = replicate 36 (CHR ''a'')"

definition small_metadata :: payload where
  "small_metadata = [(''asset_id'', JStr ''a2''), (''device_uuid'', JStr ''old''), (''filename'', JStr ''b.jpg''),
     (''schema'', JStr MOBILE_TRANSFER_SCHEMA), (''session_id'', JStr ''s1''), (''trust_proof'', JStr ''AA'')]"

definition staged_world :: "upload_stream \<Rightarrow> (ppath, byte list) dict \<Rightarrow> adapter_world" where
  "staged_world st files =
     \<lparr>aw_gateway = \<lparr>gw_pairing = pairing_init (tw_db example_world) (example_fs\<lparr>fs_files := files\<rparr>), gw_events = [], gw_prompts = []\<rparr>,
      aw_stream = st\<rparr>"

definition small_upload :: "byte list \<Rightarrow> upload_stream" where
  "small_upload bs = \<lparr>us_pending = [(asset_rid, \<lparr>pu_request_id = asset_rid, pu_metadata = small_metadata,
     pu_path = (''/'', [''tmp'', ''u'']), pu_hashed = bs, pu_trust_key_b64 = None, pu_content_length = length bs\<rparr>)],
     us_active = Some asset_rid\<rparr>"

definition staged_files :: "byte list \<Rightarrow> (ppath, byte list) dict" where
  "staged_files bs = fs_files example_fs @ [((''/'', [''tmp'', ''u'']), bs)]"

lemma small_start:
  "start_pending_asset_upload example_adapter_env asset_rid small_metadata None
     (staged_world upload_stream_init (fs_files example_fs)) = (staged_world (small_upload []) (staged_files []), Inr ())"
proof -
  have "path_parent (''/'', [''tmp'', ''u'']) = (''/'', [''tmp''])" by code_simp
  moreover have "dict_set (dict_del [] k) k v = [(k, v)]" for k :: string and v :: pending_upload by (simp add: dict_del_def)
  ultimately show ?thesis
    by (simp add: start_pending_asset_upload_def stream_call_def upload_start_def small_upload_def staged_files_def
        staged_world_def upload_stream_init_def fs_create_def fs_call_def example_fs_def put_stream_def Let_def
        pairing_init_def dict_get_def example_adapter_env_def)
qed

lemma small_append:
  assumes "c \<noteq> []" and "length c \<le> TRANSFER_ASSET_STREAM_CHUNK_SIZE_BYTES"
  shows "stream_call (upload_append_chunk c (Some asset_rid)) (staged_world (small_upload bs) (staged_files bs)) =
     (staged_world (small_upload (bs @ c)) (staged_files (bs @ c)), Inr None)"
  using assms
  by (simp add: stream_call_def upload_append_chunk_def small_upload_def staged_files_def staged_world_def pending_append_chunk_def
    fs_append_def fs_call_def example_fs_def put_stream_def Let_def pairing_init_def dict_get_def)

definition small_fs :: pyfs where
  "small_fs = example_fs\<lparr>fs_files := staged_files [1, 2, 3]\<rparr>"

lemma small_steps:
  "parse_transfer_asset_metadata (te_fromiso example_env) small_metadata = Inr example_meta"
  "existing_asset_answer example_meta example_context \<lparr>tw_db = tw_db example_world, tw_fs = small_fs, tw_events = []\<rparr> = None"
  "snd (store_upload example_env example_meta example_context None 3 (Some (''/'', [''tmp'', ''u''])) (Some ''d'') small_fs) =
     Inr \<lparr>sa_local_relative_path = ''2024-02/b.jpg'', sa_content_sha1 = ''d'', sa_file_size_bytes = 3\<rparr>"
  "fs_read (fst (store_upload example_env example_meta example_context None 3 (Some (''/'', [''tmp'', ''u''])) (Some ''d'') small_fs))
     (''/'', [''photos'', ''2024-02'', ''b.jpg'']) = Some [1, 2, 3]"
  by code_simp+

lemma small_stored:
  "\<exists>t. handle_asset_upload example_env small_metadata None 3 (Some (''/'', [''tmp'', ''u''])) (Some ''d'') None
      \<lparr>tw_db = tw_db example_world, tw_fs = small_fs, tw_events = []\<rparr> = (t, Inr (200, stored_payload)) \<and>
    fs_read (tw_fs t) (''/'', [''photos'', ''2024-02'', ''b.jpg'']) = Some [1, 2, 3]"
proof -
  obtain fs1 where st: "store_upload example_env example_meta example_context None 3 (Some (''/'', [''tmp'', ''u''])) (Some ''d'') small_fs
      = (fs1, Inr \<lparr>sa_local_relative_path = ''2024-02/b.jpg'', sa_content_sha1 = ''d'', sa_file_size_bytes = 3\<rparr>)"
    and rd: "fs_read fs1 (''/'', [''photos'', ''2024-02'', ''b.jpg'']) = Some [1, 2, 3]"
    using small_steps(3,4) by (metis prod.collapse)
  show ?thesis
    by (simp add: handle_asset_upload_def example_steps small_steps(1,2) accept_upload_def st rd record_stored_frame)
qed

lemma small_complete:
  "\<exists>w r. complete_upload example_adapter_env LAN_HTTP asset_rid (staged_world (small_upload [1, 2, 3]) (staged_files [1, 2, 3]))
     = Some (w, (200, r)) \<and> fs_read (aw_fs w) (''/'', [''photos'', ''2024-02'', ''b.jpg'']) = Some [1, 2, 3]"
proof -
  let ?w = "staged_world (small_upload [1, 2, 3]) (staged_files [1, 2, 3])"
  let ?a = "\<lparr>ap_metadata = small_metadata, ap_body = None, ap_content_length = 3, ap_temp_file_path = Some (''/'', [''tmp'', ''u'']),
     ap_content_sha1 = Some ''d'', ap_trust_key_b64 = None\<rparr>"
  have whole: "stream_call (upload_complete (te_sha1 (ge_transfer example_gateway_env)) asset_rid) ?w =
      (staged_world upload_stream_init (staged_files [1, 2, 3]), Inr (Inr ?a))"
    by (simp add: stream_call_def upload_complete_def staged_world_def small_upload_def dict_get_def pending_to_payload_def fs_sync_def
        fs_call_def example_fs_def Let_def put_stream_def dict_del_def upload_stream_init_def pairing_init_def
        example_gateway_env_def example_env_def)
  let ?g = "track_transfer_transport LAN_HTTP (UploadPayload (upload_of_payload ?a)) (aw_gateway (staged_world upload_stream_init (staged_files [1, 2, 3])))"
  have view: "transfer_view ?g = \<lparr>tw_db = tw_db example_world, tw_fs = small_fs, tw_events = []\<rparr>"
    by (simp add: transfer_view_def track_transfer_transport_def staged_world_def pairing_init_def small_fs_def split: option.split)
  obtain t where t: "handle_asset_upload example_env small_metadata None 3 (Some (''/'', [''tmp'', ''u''])) (Some ''d'') None
      \<lparr>tw_db = tw_db example_world, tw_fs = small_fs, tw_events = []\<rparr> = (t, Inr (200, stored_payload))"
    and stored: "fs_read (tw_fs t) (''/'', [''photos'', ''2024-02'', ''b.jpg'']) = Some [1, 2, 3]"
    using small_stored by blast
  have env: "ad_gateway example_adapter_env = example_gateway_env" "ad_routes example_adapter_env = app_routes"
    "ge_transfer example_gateway_env = example_env"
    by (simp_all add: example_adapter_env_def example_gateway_env_def)
  have "router_dispatch app_routes example_gateway_env TRANSFER_ASSET_OPERATION (UploadPayload (upload_of_payload ?a)) LAN_HTTP
      (aw_gateway (staged_world upload_stream_init (staged_files [1, 2, 3]))) = (put_transfer ?g t, Inr (200, stored_payload))"
    using view t
    by (simp add: router_dispatch_def route_of dispatch_transfer_asset_def env finish_plain Let_def)
      (simp add: upload_of_payload_def finish_plain)
  then show ?thesis using stored by (simp add: complete_upload_def env whole [unfolded env])
qed

lemma small_received:
  "\<exists>w r. receive_upload example_adapter_env LAN_HTTP asset_rid small_metadata [[1, 2], [3]]
       (staged_world upload_stream_init (fs_files example_fs)) = Some (w, (200, r)) \<and>
     fs_read (aw_fs w) (''/'', [''photos'', ''2024-02'', ''b.jpg'']) = Some [1, 2, 3]"
proof -
  have "append_all asset_rid [[1, 2], [3]] (staged_world (small_upload []) (staged_files []))
      = Some (staged_world (small_upload [1, 2, 3]) (staged_files [1, 2, 3]))"
    by (simp add: small_append TRANSFER_ASSET_STREAM_CHUNK_SIZE_BYTES_def)
  then show ?thesis using small_complete by (auto simp: receive_upload_def small_start)
qed

subsection \<open>Its messages\<close>

definition small_start_body :: payload where
  "small_start_body = [(''asset_id'', JStr ''a2''), (''device_uuid'', JStr ''old''), (''filename'', JStr ''b.jpg''),
     (''schema'', JStr MOBILE_TRANSFER_SCHEMA), (''session_id'', JStr ''s1''), (''stream_state'', JStr ''start''),
     (''trust_proof'', JStr ''AA'')]"

definition small_finish_body :: payload where
  "small_finish_body = [(''stream_state'', JStr ''complete'')]"

lemma small_bodies:
  "json_ok (JObj small_start_body)" "json_sorted (JObj small_start_body) = JObj small_start_body"
  "json_ok (JObj small_finish_body)" "json_sorted (JObj small_finish_body) = JObj small_finish_body"
  "start_body small_start_body small_metadata" "finish_body small_finish_body" "py_strip asset_rid = asset_rid" "asset_rid \<noteq> []"
  by code_simp+

definition small_start_text :: string where
  "small_start_text = envelope_text asset_rid TRANSFER_ASSET_OPERATION small_start_body"

definition small_finish_text :: string where
  "small_finish_text = envelope_text asset_rid TRANSFER_ASSET_OPERATION small_finish_body"

lemma small_envelopes:
  "asset_envelope small_start_text asset_rid small_start_body" "asset_envelope small_finish_text asset_rid small_finish_body"
  using small_bodies(7,8) envelope_text_loads [OF small_bodies(1,2), of asset_rid TRANSFER_ASSET_OPERATION]
    envelope_text_loads [OF small_bodies(3,4), of asset_rid TRANSFER_ASSET_OPERATION]
  by (simp_all add: asset_envelope_def small_start_text_def small_finish_text_def stripped_field_def dict_get_def)

definition small_ws_messages :: "ws_event list" where
  "small_ws_messages =
     [WsText small_start_text, WsBytes (1 # replicate 36 97 @ [0, 0, 0, 2, 0, 1, 2]),
      WsBytes (1 # replicate 36 97 @ [0, 0, 0, 1, 0, 3]), WsText small_finish_text]"

lemma small_ws: "asset_messages usb_start_message usb_chunk_message usb_finish_message asset_rid small_metadata [[1, 2], [3]] small_ws_messages"
proof -
  have "decode_transfer_asset_binary_frame (1 # replicate 36 97 @ [0, 0, 0, 2, 0, 1, 2]) = Inr (asset_rid, [1, 2])"
    "decode_transfer_asset_binary_frame (1 # replicate 36 97 @ [0, 0, 0, 1, 0, 3]) = Inr (asset_rid, [3])"
    by code_simp+
  then show ?thesis
    using small_envelopes small_bodies(5,6)
    by (auto simp: asset_messages_def small_ws_messages_def intro!: exI [of _ "WsText small_finish_text"])
qed

definition small_frames :: "aoa_frame list" where
  "small_frames =
     [(asset_rid, 0, utf8_encode small_start_text), (asset_rid, 1, [1, 2]), (asset_rid, 1, [3]),
      (asset_rid, 0, utf8_encode small_finish_text)]"

lemma small_aoa: "asset_messages aoa_start_message aoa_chunk_message aoa_finish_message asset_rid small_metadata [[1, 2], [3]] small_frames"
  using small_envelopes small_bodies(5,6)
  by (auto simp: asset_messages_def small_frames_def utf8_roundtrip AOA_FRAME_FLAG_BINARY_def
      intro!: exI [of _ "(asset_rid, 0, utf8_encode small_finish_text)"])

lemma small_frames_encode: "\<exists>ds. aoa_encodes small_frames ds"
proof -
  have len: "length (utf8_encode small_start_text) < 600" "length (utf8_encode small_finish_text) < 600" by code_simp+
  have "encode_ascii asset_rid = Some (replicate 36 97)" by code_simp
  then have enc: "\<exists>d. encode_aoa_frame asset_rid p fl = Inr d" if "length p < 600" "fl = 0 \<or> fl = 1" for p fl
    using that by (auto simp: encode_aoa_frame_Inr)
  have "\<exists>ds. list_all2 (\<lambda>(rid, fl, payload) d. encode_aoa_frame rid payload (uint fl) = Inr d) fs ds"
    if "\<forall>(i, fl, p)\<in>set fs. i = asset_rid \<and> length p < 600 \<and> (fl = 0 \<or> fl = 1)" for fs :: "aoa_frame list"
    using that
  proof (induction fs)
    case (Cons f fs)
    then obtain d ds where "list_all2 (\<lambda>(rid, fl, payload) d. encode_aoa_frame rid payload (uint fl) = Inr d) (f # fs) (d # ds)"
      using enc [of "snd (snd f)" "uint (fst (snd f))"] by fastforce
    then show ?case by blast
  qed (auto intro: exI [of _ "[]"])
  then show ?thesis using len by (simp add: aoa_encodes_def small_frames_def)
qed

subsection \<open>Its requests\<close>

lemma digit_no_space: "is_ascii_digit c \<Longrightarrow> \<not> py_isspace c"
  by (auto simp: is_ascii_digit_def py_isspace_def Let_def)

lemma py_int_str_nat: "py_int (str_nat n) = Some (int n)"
proof -
  have digits: "is_ascii_digit c" if "c \<in> set (str_nat n)" for c
    using str_nat_ascii_digits that by (simp add: list_all_iff)
  have odd: "\<not> is_ascii_digit (CHR ''_'')" "\<not> is_ascii_digit (CHR ''-'')" "\<not> is_ascii_digit (CHR ''+'')" by code_simp+
  have strip: "py_strip (str_nat n) = str_nat n"
    using digits by (intro strip_by_id) (simp add: digit_no_space)
  have us: "CHR ''_'' \<notin> set (str_nat n)" using digits odd(1) by blast
  have "filter (\<lambda>c. c \<noteq> CHR ''_'') (str_nat n) = str_nat n" using us by (auto intro: filter_True)
  then have "py_int_digits (str_nat n) = Some (int n)"
    using us str_nat_ascii_digits by (simp add: py_int_digits_def split_char_simple dec_value_str_nat)
  moreover obtain c cs where c: "str_nat n = c # cs" using str_nat_ne by (cases "str_nat n") blast+
  moreover have "c \<noteq> CHR ''-''" "c \<noteq> CHR ''+''" using digits [of c] odd c by auto
  ultimately show ?thesis unfolding py_int_def strip by simp
qed

definition asset_http :: "string \<Rightarrow> byte list \<Rightarrow> http_request" where
  "asset_http stream_state body =
     \<lparr>hq_path = MOBILE_TRANSFER_ASSET_PATH,
      hq_query = [(''request_id'', [asset_rid]), (TRANSFER_ASSET_STREAM_STATE_FIELD, [stream_state])],
      hq_content_length = Some (str_nat (length body)), hq_body = body, hq_read_error = None\<rparr>"

lemma asset_http_request: "asset_request asset_rid s (asset_http s body)"
  using small_bodies(7,8)
  by (simp add: asset_request_def asset_http_def query_value_def dict_get_def TRANSFER_ASSET_STREAM_STATE_FIELD_def)

lemma asset_http_body:
  "header_length (asset_http s body) = Inr (int (length body))" "rfile_read (asset_http s body) (int (length body)) = Inr body"
  by (simp_all add: header_length_def asset_http_def py_int_str_nat rfile_read_def)

definition small_requests :: "http_request list" where
  "small_requests =
     [asset_http TRANSFER_ASSET_STREAM_STATE_START (utf8_encode (json_dumps True (JObj small_start_body))),
      asset_http TRANSFER_ASSET_STREAM_STATE_CHUNK [1, 2], asset_http TRANSFER_ASSET_STREAM_STATE_CHUNK [3],
      asset_http TRANSFER_ASSET_STREAM_STATE_COMPLETE []]"

lemma small_lan: "asset_messages lan_start_message lan_chunk_message lan_finish_message asset_rid small_metadata [[1, 2], [3]] small_requests"
proof -
  have "json_loads (json_dumps True (JObj small_start_body)) = Some (JObj small_start_body)"
    using json_roundtrip [OF small_bodies(1), of True] small_bodies(2) by simp
  then have "json_body (asset_http TRANSFER_ASSET_STREAM_STATE_START (utf8_encode (json_dumps True (JObj small_start_body)))) small_start_body"
    by (auto simp: json_body_def asset_http_body utf8_roundtrip simp del: json_dumps.simps)
  then show ?thesis
    using small_bodies(5) asset_http_body(2) [of _ "[1, 2]"] asset_http_body(2) [of _ "[3]"]
    by (auto simp: asset_messages_def small_requests_def lan_start_message_def lan_chunk_message_def lan_finish_message_def
        start_body_def asset_http_request asset_http_body simp del: json_dumps.simps
        intro!: exI [of _ "asset_http TRANSFER_ASSET_STREAM_STATE_COMPLETE []"])
qed

lemma upload_same_over_every_transport_witness:
  "\<exists>w' response usb r. fs_read (aw_fs w') (''/'', [''photos'', ''2024-02'', ''b.jpg'']) = Some [1, 2, 3] \<and>
     usb_session_loop (map (Pair example_adapter_env) small_ws_messages) (staged_world upload_stream_init (fs_files example_fs))
       = (usb, [encode_response_envelope asset_rid (200, response)], r) \<and> untracked usb = untracked w'"
proof -
  obtain ds where "aoa_encodes small_frames ds" using small_frames_encode by blast
  from aoa_feed_loop_encodes [OF this, of "[]" "[]"]
  have read: "aoa_feed_all aoa_decoder_init [concat ds] = ([], Inr small_frames)"
    by (simp add: aoa_feed_all_Cons aoa_feed_def aoa_decoder_init_def aoa_feed_loop_short prepend_frames_def)
  have "concat ds \<noteq> []"
  proof
    assume "concat ds = []"
    with read aoa_feed_init_settled have "small_frames = []" by (simp only: aoa_feed_all_Cons) (simp add: prepend_frames_def)
    then show False by (simp add: small_frames_def)
  qed
  then have ne: "\<forall>b\<in>set [concat ds]. b \<noteq> []" by simp
  have routes: "register_transport_routes [] = Inr (ad_routes example_adapter_env)"
    by (simp add: routes_registered example_adapter_env_def)
  obtain w' response where run: "receive_upload example_adapter_env LAN_HTTP asset_rid small_metadata [[1, 2], [3]]
       (staged_world upload_stream_init (fs_files example_fs)) = Some (w', (200, response))"
    and stored: "fs_read (aw_fs w') (''/'', [''photos'', ''2024-02'', ''b.jpg'']) = Some [1, 2, 3]"
    using small_received by blast
  from upload_same_over_every_transport [OF routes small_ws small_aoa read ne small_lan run] stored show ?thesis by blast
qed

end
