(* ===== verification/ImageIndex.thy ===== *)
theory ImageIndex
  imports PairingStore
begin

text \<open>
  The image index: \<^verbatim>\<open>index/dts_index.py\<close> (building, extending, recovering and
  querying the vector index of a folder), \<^verbatim>\<open>index/image_processor.py\<close> (decoding a
  batch) and \<^verbatim>\<open>search/search_service.py\<close>.

  What comes from PyTorch, Pillow, FAISS and the process pool is a parameter: the fields of
  \<open>round_env\<close> and \<open>search_env\<close>.  A vector is a value of the type variable \<open>'v\<close>, a decoded image
  one of \<open>'i\<close> and a score one of a linear order.  An index file is the list of the pairs of
  identifier and vector it holds (\<^verbatim>\<open>IndexIDMap2\<close> over \<^verbatim>\<open>IndexFlatIP\<close>).
\<close>

section \<open>Image files and index files\<close>

definition supported_image_types :: "string list" where
  "supported_image_types = [''.jpg'', ''.jpeg'', ''.png'', ''.bmp'', ''.gif'', ''.webp'', ''.heic'', ''.heif'']"

definition path_basename :: "string \<Rightarrow> string" where
  "path_basename path = last (split_char (CHR ''/'') path)"

definition is_image_file :: "string \<Rightarrow> bool" where
  "is_image_file file_path =
     (let file_name = path_basename (py_lower file_path)
      in if file_name = [] \<or> py_startswith file_name ''.'' then False
         else list_ex (py_endswith file_name) supported_image_types)"

definition index_path_for_folder :: "string \<Rightarrow> int \<Rightarrow> string" where
  "index_path_for_folder app_data folder_id = app_data @ ''/'' @ str_int folder_id @ ''.faiss''"

text \<open>
  An index file that exists can be read, fails with FAISS's read error or fails in another way.
\<close>

datatype 'v index_file = FlatIndex "(int \<times> 'v) list" | CorruptFile | UnreadableFile

record 'v index_world =
  iw_db :: app_db
  iw_indexes :: "(string, 'v index_file) dict"

datatype index_error = CorruptFaissIndexError string | OtherError pyexn

section \<open>Decoding a batch\<close>

datatype 'i opened = OpenedImage 'i | ImageMissing | ImageInvalid

text \<open>
  One call of \<open>add_to_index\<close> sees: whether the model is ready before and after it, whether
  \<open>_get_model\<close> returns, whether submitting to the pool works, what opening a path gives, whether
  the tensors of a batch stack, whether the result of the \<open>i\<close>-th batch arrives, the encoder,
  whether writing an index works, whether the damaged index can be moved away and the time.
\<close>

record ('i, 'v) round_env =
  re_ready :: bool
  re_ready_after :: bool
  re_model :: bool
  re_submit :: bool
  re_opened :: "string \<Rightarrow> 'i opened"
  re_stack :: "'i list \<Rightarrow> bool"
  re_future :: "nat \<Rightarrow> bool"
  re_encode :: "'i list \<Rightarrow> 'v list option"
  re_write :: bool
  re_backup :: bool
  re_time :: int

fun open_batch ::
    "(string \<Rightarrow> 'i opened) \<Rightarrow> file_row list
       \<Rightarrow> 'i list \<times> file_row list \<times> file_row list \<times> file_row list" where
  "open_batch opened [] = ([], [], [], [])"
| "open_batch opened (file # files) =
     (case open_batch opened files of
        (batch_images, valid_files, deleted_files, invalid_files) \<Rightarrow>
          (case opened (fi_path file) of
             OpenedImage i \<Rightarrow> (i # batch_images, file # valid_files, deleted_files, invalid_files)
           | ImageMissing \<Rightarrow> (batch_images, valid_files, file # deleted_files, invalid_files)
           | ImageInvalid \<Rightarrow> (batch_images, valid_files, deleted_files, file # invalid_files)))"

definition process_image_batch ::
    "('i, 'v) round_env \<Rightarrow> file_row list
       \<Rightarrow> 'i list option \<times> file_row list \<times> file_row list \<times> file_row list" where
  "process_image_batch e files =
     (case open_batch (re_opened e) files of
        (batch_images, valid_files, deleted_files, invalid_files) \<Rightarrow>
          if batch_images \<noteq> [] \<and> re_stack e batch_images
          then (Some batch_images, valid_files, deleted_files, invalid_files)
          else (None, [], [], []))"

section \<open>Creating and recovering an index\<close>

definition create_empty_index ::
    "bool \<Rightarrow> bool \<Rightarrow> string \<Rightarrow> 'v index_world \<Rightarrow> 'v index_world \<times> index_error option" where
  "create_empty_index model write_ok index_path w =
     (if \<not> model then (w, Some (OtherError (RuntimeError ''Model load failed. A reload attempt is required.'')))
      else if \<not> write_ok then (w, Some (OtherError (RuntimeError ''could not write the index file'')))
      else (w\<lparr>iw_indexes := dict_set (iw_indexes w) index_path (FlatIndex [])\<rparr>, None))"

definition create_index_if_needed ::
    "bool \<Rightarrow> bool \<Rightarrow> string \<Rightarrow> 'v index_world \<Rightarrow> 'v index_world \<times> index_error option" where
  "create_index_if_needed model write_ok index_path w =
     (if dict_get (iw_indexes w) index_path \<noteq> None then (w, None)
      else create_empty_index model write_ok index_path w)"

definition reset_folder_files :: "app_db \<Rightarrow> int \<Rightarrow> app_db" where
  "reset_folder_files db folder_id =
     db\<lparr>db_files := sql_update (\<lambda>r. fi_folder_id r = folder_id \<and> fi_status r \<noteq> 2)
                      (\<lambda>r. r\<lparr>fi_clip_index := None, fi_status := 0\<rparr>) (db_files db)\<rparr>"

definition recover_corrupted_index ::
    "('i, 'v) round_env \<Rightarrow> string \<Rightarrow> int \<Rightarrow> 'v index_world \<Rightarrow> 'v index_world \<times> index_error option" where
  "recover_corrupted_index e index_path folder_id w =
     (let backup_path = index_path @ ''.corrupt-'' @ str_int (re_time e);
          w1 = (case dict_get (iw_indexes w) index_path of
                  Some f \<Rightarrow> if re_backup e
                            then w\<lparr>iw_indexes := dict_set (dict_del (iw_indexes w) index_path) backup_path f\<rparr>
                            else w
                | None \<Rightarrow> w)
      in case create_empty_index (re_model e) (re_write e) index_path w1 of
           (w2, Some err) \<Rightarrow> (w2, Some err)
         | (w2, None) \<Rightarrow>
             (w2\<lparr>iw_db := update_folder_status (reset_folder_files (iw_db w2) folder_id) folder_id 1\<rparr>, None))"

definition load_index :: "'v index_world \<Rightarrow> string \<Rightarrow> index_error + (int \<times> 'v) list" where
  "load_index w index_path =
     (case dict_get (iw_indexes w) index_path of
        None \<Rightarrow> Inl (OtherError (OSError (os_error_of (''Index file '' @ quoted index_path @ '' does not exist.'') (Some 2))))
      | Some (FlatIndex entries) \<Rightarrow> Inr entries
      | Some CorruptFile \<Rightarrow> Inl (CorruptFaissIndexError ''faiss::read_index: read error in index file'')
      | Some UnreadableFile \<Rightarrow> Inl (OtherError (RuntimeError ''could not open the index file'')))"

section \<open>Adding files to an index\<close>

text \<open>\<^verbatim>\<open>[xs[i:i + n] for i in range(0, len(xs), n)]\<close>.\<close>

function batches_of :: "nat \<Rightarrow> 'a list \<Rightarrow> 'a list list" where
  "batches_of n xs = (if xs = [] \<or> n = 0 then [] else take n xs # batches_of n (drop n xs))"
  by pat_completeness auto
termination
  by (relation "measure (\<lambda>(n, xs). length xs)") auto

declare batches_of.simps [simp del]

text \<open>
  The loop over the futures: the database, the features of the batches that were encoded, their
  files and the result so far.
\<close>

fun embed_batches ::
    "('i, 'v) round_env \<Rightarrow> nat \<Rightarrow> file_row list list \<Rightarrow> app_db \<Rightarrow> 'v list list \<Rightarrow> file_row list \<Rightarrow> bool
       \<Rightarrow> app_db \<times> 'v list list \<times> file_row list \<times> bool" where
  "embed_batches e i [] db all_features valid_files result = (db, all_features, valid_files, result)"
| "embed_batches e i (batch # batches) db all_features valid_files result =
     (if \<not> re_future e i then embed_batches e (i + 1) batches db all_features valid_files False
      else case process_image_batch e batch of
          (batch_tensor, batch_valid_files, deleted_files, invalid_files) \<Rightarrow>
            (let db' = mark_files_skipped (mark_files_deleted db (map fi_id deleted_files)) (map fi_id invalid_files)
             in case batch_tensor of
                  None \<Rightarrow> embed_batches e (i + 1) batches db' all_features valid_files result
                | Some tensor \<Rightarrow>
                    (case re_encode e tensor of
                       None \<Rightarrow> embed_batches e (i + 1) batches db all_features valid_files False
                     | Some features \<Rightarrow>
                         embed_batches e (i + 1) batches db' (all_features @ [features])
                           (valid_files @ batch_valid_files) result)))"

fun mark_files_indexed :: "file_row list \<Rightarrow> app_db \<Rightarrow> app_db \<times> pyexn option" where
  "mark_files_indexed [] db = (db, None)"
| "mark_files_indexed (file # files) db =
     (case update_file db (fi_id file) None None (Some (fi_id file)) (Some 1) of
        Inl err \<Rightarrow> (db, Some err)
      | Inr db' \<Rightarrow> mark_files_indexed files db')"

text \<open>What happens to the features: \<^verbatim>\<open>add_with_ids\<close> asserts that every vector has an id.\<close>

definition store_features ::
    "('i, 'v) round_env \<Rightarrow> string \<Rightarrow> (int \<times> 'v) list \<Rightarrow> 'v list list \<Rightarrow> file_row list \<Rightarrow> bool \<Rightarrow> 'v index_world
       \<Rightarrow> 'v index_world \<times> (index_error + bool)" where
  "store_features e index_path entries all_features valid_files result w =
     (let features_np = concat all_features; ids = map fi_id valid_files
      in if length features_np \<noteq> length ids
         then (w, Inl (OtherError (RuntimeError ''not same number of vectors as ids'')))
         else if \<not> re_write e then (w, Inl (OtherError (RuntimeError ''could not write the index file'')))
         else (case mark_files_indexed valid_files (iw_db w) of (db', err) \<Rightarrow>
           (w\<lparr>iw_db := db', iw_indexes := dict_set (iw_indexes w) index_path (FlatIndex (entries @ zip ids features_np))\<rparr>,
            case err of Some x \<Rightarrow> Inl (OtherError x) | None \<Rightarrow> Inr result)))"

definition add_to_index ::
    "('i, 'v) round_env \<Rightarrow> string \<Rightarrow> int \<Rightarrow> file_row list \<Rightarrow> 'v index_world
       \<Rightarrow> 'v index_world \<times> (index_error + bool)" where
  "add_to_index e index_path folder_id image_files w =
     (if \<not> re_ready e then (w, Inr False)
      else case load_index w index_path of
        Inl (CorruptFaissIndexError msg) \<Rightarrow>
          (case recover_corrupted_index e index_path folder_id w of
             (w', Some err) \<Rightarrow> (w', Inl err)
           | (w', None) \<Rightarrow> (w', Inl (CorruptFaissIndexError msg)))
      | Inl err \<Rightarrow> (w, Inl err)
      | Inr entries \<Rightarrow>
          if \<not> re_model e
          then (w, Inl (OtherError (RuntimeError ''Model load failed. A reload attempt is required.'')))
          else case embed_batches e 0 (if re_submit e then batches_of 16 image_files else [])
                      (iw_db w) [] [] True of
            (db', all_features, valid_files, result) \<Rightarrow>
              if all_features = []
              then (w\<lparr>iw_db := mark_files_skipped db' (map fi_id image_files)\<rparr>,
                    Inr (list_all (\<lambda>f. \<not> is_image_file (fi_path f)) image_files))
              else store_features e index_path entries all_features valid_files result (w\<lparr>iw_db := db'\<rparr>))"

section \<open>Building an index\<close>

record progress =
  pr_batch_start :: nat
  pr_batch_end :: nat
  pr_total_files :: nat
  pr_files_processed :: nat
  pr_files_in_batch :: nat
  pr_batch_result :: bool

datatype round_outcome = RoundFinished | RoundBreak | RoundContinue nat | RoundYield progress

text \<open>One turn of the loop of \<open>build_index\<close> from the end of the previous batch.\<close>

definition build_round ::
    "('i, 'v) round_env \<Rightarrow> string \<Rightarrow> int \<Rightarrow> nat \<Rightarrow> nat \<Rightarrow> 'v index_world \<Rightarrow> 'v index_world \<times> round_outcome" where
  "build_round e index_path folder_id total_files last_end w =
     (let files = get_pending_files_for_folder (iw_db w) folder_id 0 100
      in if files = [] then (w, RoundFinished)
         else let batch_start = last_end;
                  batch_end = last_end + length files;
                  files_to_index = filter (\<lambda>f. fi_clip_index f = None \<and> fi_status f = 0) files
              in if files_to_index = [] then (w, RoundContinue batch_end)
                 else case add_to_index e index_path folder_id files_to_index w of (w', r) \<Rightarrow>
                   (let batch_result = (case r of Inl _ \<Rightarrow> False | Inr b \<Rightarrow> b)
                    in if \<not> re_ready_after e then (w', RoundBreak)
                       else if \<not> batch_result then (w', RoundBreak)
                       else (w', RoundYield \<lparr>pr_batch_start = batch_start, pr_batch_end = batch_end,
                               pr_total_files = total_files, pr_files_processed = batch_end,
                               pr_files_in_batch = length files_to_index, pr_batch_result = batch_result\<rparr>)))"

text \<open>
  The generator with its consumer: \<open>es n\<close> is what round \<open>n\<close> sees, \<open>stops n\<close> whether the consumer
  drops the generator at the yield of round \<open>n\<close>.  \<open>None\<close> is a loop that never ends.
\<close>

partial_function (option) build_rounds ::
    "(nat \<Rightarrow> ('i, 'v) round_env) \<Rightarrow> (nat \<Rightarrow> bool) \<Rightarrow> string \<Rightarrow> int \<Rightarrow> nat \<Rightarrow> nat \<Rightarrow> nat \<Rightarrow> 'v index_world
       \<Rightarrow> progress list \<Rightarrow> ('v index_world \<times> progress list) option" where
  "build_rounds es stops index_path folder_id total_files n last_end w yielded =
     (case build_round (es n) index_path folder_id total_files last_end w of (w', outcome) \<Rightarrow>
        (case outcome of
           RoundFinished \<Rightarrow> Some (w', yielded)
         | RoundBreak \<Rightarrow> Some (w', yielded)
         | RoundContinue batch_end \<Rightarrow>
             build_rounds es stops index_path folder_id total_files (n + 1) batch_end w' yielded
         | RoundYield p \<Rightarrow>
             if stops n then Some (w', yielded @ [p])
             else build_rounds es stops index_path folder_id total_files (n + 1) (pr_batch_end p) w' (yielded @ [p])))"

text \<open>
  Before the first round: whether the model is ready, else whether the event of the preload ever
  comes and whether the model is ready then; and whether a missing index can be created.
\<close>

record ('i, 'v) build_env =
  be_ready :: bool
  be_event :: bool
  be_ready_then :: bool
  be_model :: bool
  be_write :: bool
  be_rounds :: "nat \<Rightarrow> ('i, 'v) round_env"

definition not_ready_progress :: progress where
  "not_ready_progress = \<lparr>pr_batch_start = 0, pr_batch_end = 0, pr_total_files = 0, pr_files_processed = 0,
     pr_files_in_batch = 0, pr_batch_result = False\<rparr>"

text \<open>The yields, and the exception that ends the generator when creating the index fails.\<close>

definition build_index ::
    "('i, 'v) build_env \<Rightarrow> (nat \<Rightarrow> bool) \<Rightarrow> string \<Rightarrow> int \<Rightarrow> 'v index_world
       \<Rightarrow> ('v index_world \<times> progress list \<times> index_error option) option" where
  "build_index b stops index_path folder_id w =
     (if \<not> be_ready b \<and> \<not> be_event b then None
      else if \<not> be_ready b \<and> \<not> be_ready_then b then Some (w, [not_ready_progress], None)
      else case create_index_if_needed (be_model b) (be_write b) index_path w of
          (w', Some err) \<Rightarrow> Some (w', [], Some err)
        | (w', None) \<Rightarrow>
            map_option (\<lambda>(w'', yielded). (w'', yielded, None))
              (build_rounds (be_rounds b) stops index_path folder_id
                 (count_files_in_folder (iw_db w') folder_id) 0 0 w' []))"

section \<open>Extending an index\<close>

definition append_batch ::
    "('i, 'v) round_env \<Rightarrow> string \<Rightarrow> int \<Rightarrow> string list \<Rightarrow> 'v index_world \<Rightarrow> 'v index_world \<times> bool" where
  "append_batch e index_path folder_id batch_files w =
     (let batch_file_objs = filter (\<lambda>f. fi_status f = 0)
            (List.map_filter (get_file_by_path (iw_db w)) batch_files)
      in if batch_file_objs = [] then (w, True)
         else case add_to_index e index_path folder_id batch_file_objs w of
             (w', Inl err) \<Rightarrow> (w', False)
           | (w', Inr batch_result) \<Rightarrow> (w', batch_result))"

fun append_slices ::
    "(nat \<Rightarrow> ('i, 'v) round_env) \<Rightarrow> (nat \<Rightarrow> 'v index_world \<Rightarrow> bool) \<Rightarrow> string \<Rightarrow> int \<Rightarrow> nat \<Rightarrow> nat
       \<Rightarrow> string list list \<Rightarrow> nat \<Rightarrow> 'v index_world \<Rightarrow> progress list \<Rightarrow> 'v index_world \<times> progress list" where
  "append_slices es stops index_path folder_id total_files n [] files_processed w yielded = (w, yielded)"
| "append_slices es stops index_path folder_id total_files n (batch_files # slices) files_processed w yielded =
     (case append_batch (es n) index_path folder_id batch_files w of (w', batch_result) \<Rightarrow>
        (let files_processed = files_processed + (if batch_result then length batch_files else 0);
             p = \<lparr>pr_batch_start = 100 * n, pr_batch_end = min (100 * n + 100) total_files,
                  pr_total_files = total_files, pr_files_processed = files_processed,
                  pr_files_in_batch = length batch_files, pr_batch_result = batch_result\<rparr>
         in if stops n w' then (w', yielded @ [p])
            else append_slices es stops index_path folder_id total_files (n + 1) slices files_processed w'
                   (yielded @ [p])))"

text \<open>
  \<open>stops n w\<close>: the consumer leaves its loop at the yield of slice \<open>n\<close> in the state \<open>w\<close>.  When the
  model is not ready the one value yielded has only its \<^verbatim>\<open>batch_result\<close>.
\<close>

definition append_to_index ::
    "('i, 'v) build_env \<Rightarrow> (nat \<Rightarrow> 'v index_world \<Rightarrow> bool) \<Rightarrow> string \<Rightarrow> int \<Rightarrow> string list \<Rightarrow> 'v index_world
       \<Rightarrow> ('v index_world \<times> progress list \<times> index_error option) option" where
  "append_to_index b stops index_path folder_id file_paths w =
     (if \<not> be_ready b \<and> \<not> be_event b then None
      else if \<not> be_ready b \<and> \<not> be_ready_then b then Some (w, [not_ready_progress], None)
      else if file_paths = [] then Some (w, [], None)
      else case create_index_if_needed (be_model b) (be_write b) index_path w of
          (w', Some err) \<Rightarrow> Some (w', [], Some err)
        | (w', None) \<Rightarrow>
            (case append_slices (be_rounds b) stops index_path folder_id (length file_paths) 0
                    (batches_of 100 file_paths) 0 w' [] of
               (w'', yielded) \<Rightarrow> Some (w'', yielded, None)))"

section \<open>Deleting a folder\<close>

definition delete_one_folder :: "string \<Rightarrow> folder_row \<Rightarrow> 'v index_world \<Rightarrow> 'v index_world" where
  "delete_one_folder app_data folder w =
     (let index_path = index_path_for_folder app_data (fo_id folder)
      in w\<lparr>iw_indexes := dict_del (iw_indexes w) index_path,
           iw_db := delete_files_by_folder_id (delete_folders (iw_db w) [fo_path folder]) (fo_id folder)\<rparr>)"

definition delete_folder :: "string \<Rightarrow> string \<Rightarrow> 'v index_world \<Rightarrow> 'v index_world" where
  "delete_folder app_data folder_path w =
     (if folder_path = [] then w
      else fold (delete_one_folder app_data) (get_subfolders (iw_db w) (with_slash folder_path)) w)"

section \<open>Queries\<close>

definition TOP_K :: nat where
  "TOP_K = 100"

text \<open>
  \<open>se_search\<close> is the encoding of the query text followed by FAISS's \<^verbatim>\<open>search\<close>: the
  pairs of identifier and score of the best \<open>k\<close> entries, filled up with the identifier -1.
\<close>

record ('v, 's) search_env =
  se_state :: string
  se_exists :: "string \<Rightarrow> bool"
  se_model :: bool
  se_search :: "string \<Rightarrow> (int \<times> 'v) list \<Rightarrow> nat \<Rightarrow> (int \<times> 's) list"

text \<open>\<^verbatim>\<open>sorted(xs, key=..., reverse=True)\<close> keeps the order of equal keys.\<close>

definition sorted_reverse :: "('a \<Rightarrow> 'k :: linorder) \<Rightarrow> 'a list \<Rightarrow> 'a list" where
  "sorted_reverse key xs = rev (sort_key key (rev xs))"

definition query_internal ::
    "('v, 's :: linorder) search_env \<Rightarrow> 'v index_world \<Rightarrow> string \<Rightarrow> string \<Rightarrow> nat
       \<Rightarrow> index_error + (int \<times> 's) list" where
  "query_internal se w index_path query_text top_k =
     (case load_index w index_path of
        Inl (CorruptFaissIndexError msg) \<Rightarrow> Inr []
      | Inl err \<Rightarrow> Inl err
      | Inr entries \<Rightarrow>
          if \<not> se_model se
          then Inl (OtherError (RuntimeError ''Model load failed. A reload attempt is required.''))
          else Inr (sorted_reverse snd (se_search se query_text entries top_k)))"

fun dedupe_pairs :: "int list \<Rightarrow> (int \<times> 's) list \<Rightarrow> (int \<times> 's) list" where
  "dedupe_pairs seen_ids [] = []"
| "dedupe_pairs seen_ids (item # items) =
     (if fst item \<in> set seen_ids then dedupe_pairs seen_ids items
      else item # dedupe_pairs (fst item # seen_ids) items)"

definition named_pairs :: "string option list \<Rightarrow> (int \<times> 's) list \<Rightarrow> (string \<times> 's) list" where
  "named_pairs file_paths pairs =
     List.map_filter (\<lambda>(file, pair). map_option (\<lambda>f. (f, snd pair)) file) (zip file_paths pairs)"

definition query_index ::
    "('v, 's :: linorder) search_env \<Rightarrow> 'v index_world \<Rightarrow> int \<Rightarrow> string \<Rightarrow> string
       \<Rightarrow> index_error + (string \<times> 's) list" where
  "query_index se w folder_id index_path query_text =
     (case get_folder_by_id (iw_db w) folder_id of
        None \<Rightarrow> Inr []
      | Some folder \<Rightarrow>
          if \<not> se_exists se (fo_path folder) then Inr []
          else bindE (query_internal se w index_path query_text (TOP_K * 5)) (\<lambda>pairs.
            (let index_score_pairs = dedupe_pairs [] pairs;
                 file_paths = get_files_by_clip_indices (iw_db w) folder_id (map fst index_score_pairs)
             in Inr (take TOP_K (named_pairs file_paths index_score_pairs)))))"

section \<open>Searching all folders\<close>

datatype search_error = ModelNotReadyError string | SearchError index_error

definition search_in_folder ::
    "string \<Rightarrow> ('v, 's :: linorder) search_env \<Rightarrow> 'v index_world \<Rightarrow> folder_row \<Rightarrow> string
       \<Rightarrow> index_error + (string \<times> 's) list" where
  "search_in_folder app_data se w folder query =
     (let index_path = index_path_for_folder app_data (fo_id folder)
      in if dict_get (iw_indexes w) index_path = None then Inr []
         else query_index se w (fo_id folder) index_path query)"

definition search_folders ::
    "string \<Rightarrow> ('v, 's :: linorder) search_env \<Rightarrow> 'v index_world \<Rightarrow> string
       \<Rightarrow> search_error + (string \<times> 's) list" where
  "search_folders app_data se w query =
     (if se_state se \<noteq> ''ready'' then Inl (ModelNotReadyError (se_state se))
      else case mapE (\<lambda>folder. search_in_folder app_data se w folder query) (get_all_folders (iw_db w)) of
          Inl err \<Rightarrow> Inl (SearchError err)
        | Inr results \<Rightarrow> Inr (take TOP_K (sorted_reverse snd (concat results))))"

end
