(* ===== verification/IncrementalIndex.thy ===== *)
theory IncrementalIndex
  imports ImageIndex
begin

text \<open>
  \<^verbatim>\<open>index/incremental_index_worker.py\<close>: how the index follows the file system.  Events
  gather in a buffer; a run of events of one type is taken from its front when no worker is
  active; new files go to workers of at most a hundred, deletions and moves are handled at once.
\<close>

section \<open>Events\<close>

record fs_event =
  ev_type :: string
  ev_src :: string
  ev_dest :: string
  ev_is_directory :: bool

definition created_event :: "string \<Rightarrow> fs_event" where
  "created_event path = \<lparr>ev_type = ''created'', ev_src = path, ev_dest = [], ev_is_directory = False\<rparr>"

definition deleted_event_for_moved_path :: "string \<Rightarrow> bool \<Rightarrow> fs_event" where
  "deleted_event_for_moved_path path is_directory =
     \<lparr>ev_type = ''deleted'', ev_src = path, ev_dest = [], ev_is_directory = is_directory\<rparr>"

section \<open>New files\<close>

text \<open>\<open>folderId2FilePaths\<close> and \<open>folderId2Folders\<close>, as one dictionary.\<close>

definition group_by_folder :: "app_db \<Rightarrow> string list \<Rightarrow> (int, folder_row \<times> string list) dict" where
  "group_by_folder db file_paths =
     fold (\<lambda>p groups.
        case match_parent_folder db p of
          None \<Rightarrow> groups
        | Some folder \<Rightarrow>
            (case dict_get groups (fo_id folder) of
               None \<Rightarrow> dict_set groups (fo_id folder) (folder, [p])
             | Some (f, ps) \<Rightarrow> dict_set groups (fo_id folder) (f, ps @ [p]))) file_paths []"

datatype creation_end = CreationDone | CreationStopped | CreationRaised index_error

text \<open>
  One folder of a worker.  \<open>stop n\<close>: the worker finds its flag set at the \<open>n\<close>-th value of
  \<open>append_to_index\<close>.  The value that is yielded when the model is not ready has no
  \<^verbatim>\<open>files_processed\<close>, which the log line of the worker reads first.  The flag of the
  result tells whether the worker goes on; the last part whether it called
  \<open>resume_index_workers\<close>.
\<close>

definition index_group ::
    "('i, 'v) build_env \<Rightarrow> (nat \<Rightarrow> bool) \<Rightarrow> string \<Rightarrow> folder_row \<Rightarrow> string list \<Rightarrow> 'v index_world
       \<Rightarrow> ('v index_world \<times> creation_end \<times> bool) option" where
  "index_group b stop app_data folder files w =
     (let folder_id = fo_id folder;
          db = fold (\<lambda>p db. insert_file db p folder_id) files (update_folder_status (iw_db w) folder_id 3);
          w1 = w\<lparr>iw_db := db\<rparr>;
          gone = (\<lambda>w. \<not> is_folder_exists (iw_db w) (fo_path folder))
      in if \<not> be_ready b \<and> be_event b \<and> \<not> be_ready_then b
         then Some (w1, CreationRaised (OtherError (KeyError ''files_processed'')), False)
         else case append_to_index b (\<lambda>n w. stop n \<or> gone w) (index_path_for_folder app_data folder_id)
                      folder_id files w1 of
                None \<Rightarrow> None
              | Some (w2, yielded, Some err) \<Rightarrow> Some (w2, CreationRaised err, False)
              | Some (w2, yielded, None) \<Rightarrow>
                  if stop (length yielded - 1) then Some (w2, CreationStopped, False)
                  else if gone w2 then Some (w2, CreationDone, False)
                  else if pr_batch_result (last yielded)
                    then Some (w2\<lparr>iw_db := update_folder_status (iw_db w2) folder_id 2\<rparr>, CreationDone, False)
                  else Some (w2\<lparr>iw_db := update_folder_status (iw_db w2) folder_id 1\<rparr>, CreationDone, True))"

fun index_groups ::
    "(int \<Rightarrow> ('i, 'v) build_env) \<Rightarrow> (int \<Rightarrow> nat \<Rightarrow> bool) \<Rightarrow> string \<Rightarrow> (folder_row \<times> string list) list
       \<Rightarrow> 'v index_world \<Rightarrow> bool \<Rightarrow> ('v index_world \<times> creation_end \<times> bool) option" where
  "index_groups bs stop app_data [] w resumed = Some (w, CreationDone, resumed)"
| "index_groups bs stop app_data ((folder, files) # groups) w resumed =
     (case index_group (bs (fo_id folder)) (stop (fo_id folder)) app_data folder files w of
        None \<Rightarrow> None
      | Some (w', CreationDone, r) \<Rightarrow> index_groups bs stop app_data groups w' (resumed \<or> r)
      | Some (w', ended, r) \<Rightarrow> Some (w', ended, resumed \<or> r))"

text \<open>\<open>_run_impl\<close> of a \<open>FileCreationIndexWorker\<close> without its \<^verbatim>\<open>finally\<close>.\<close>

definition file_creation_run ::
    "(string \<Rightarrow> bool) \<Rightarrow> (int \<Rightarrow> ('i, 'v) build_env) \<Rightarrow> (int \<Rightarrow> nat \<Rightarrow> bool) \<Rightarrow> string \<Rightarrow> fs_event list
       \<Rightarrow> 'v index_world \<Rightarrow> ('v index_world \<times> creation_end \<times> bool) option" where
  "file_creation_run isfile bs stop app_data events w =
     (let all_files = map ev_src (filter (\<lambda>e. isfile (ev_src e) \<and> is_image_file (ev_src e)) events)
      in if all_files = [] then Some (w, CreationDone, False)
         else index_groups bs stop app_data (map snd (group_by_folder (iw_db w) all_files)) w False)"

text \<open>The workers that \<open>_on_created\<close> starts, by their events.\<close>

definition on_created :: "(string \<Rightarrow> bool) \<Rightarrow> fs_event list \<Rightarrow> fs_event list list" where
  "on_created isfile events = batches_of 100 (filter (\<lambda>e. isfile (ev_src e) \<and> is_image_file (ev_src e)) events)"

section \<open>Deletions and moves\<close>

text \<open>The identifiers and the root folders that the deletion of a path reaches.\<close>

definition deleted_ids :: "app_db \<Rightarrow> string \<Rightarrow> int list" where
  "deleted_ids db path =
     (case get_file_by_path db path of
        Some f \<Rightarrow> [fi_id f]
      | None \<Rightarrow> map fi_id (match_child_files db path))"

definition deleted_roots :: "app_db \<Rightarrow> fs_event list \<Rightarrow> (int, folder_row) dict" where
  "deleted_roots db events =
     fold (\<lambda>e roots.
        if get_file_by_path db (ev_src e) \<noteq> None then roots
        else case get_folder_by_path db (ev_src e) of
            None \<Rightarrow> roots
          | Some folder \<Rightarrow> dict_set roots (fo_id folder) folder) events []"

definition on_deleted :: "string \<Rightarrow> fs_event list \<Rightarrow> 'v index_world \<Rightarrow> 'v index_world" where
  "on_deleted app_data events w =
     (let file_id_set = remdups (concat (map (\<lambda>e. deleted_ids (iw_db w) (ev_src e)) events));
          folders = map snd (deleted_roots (iw_db w) events)
      in if file_id_set = [] \<and> folders = [] then w
         else fold (\<lambda>folder w. delete_folder app_data (fo_path folder) w) folders
                (w\<lparr>iw_db := delete_files_by_ids (iw_db w) file_id_set\<rparr>))"

datatype move_kind = MoveInside folder_row | MoveAway | MoveIn | MoveIgnored

definition classify_move :: "app_db \<Rightarrow> fs_event \<Rightarrow> move_kind" where
  "classify_move db e =
     (case get_file_by_path db (ev_src e) of
        Some src_file \<Rightarrow>
          (case match_parent_folder db (ev_dest e) of Some folder \<Rightarrow> MoveInside folder | None \<Rightarrow> MoveAway)
      | None \<Rightarrow> (case match_parent_folder db (ev_dest e) of Some folder \<Rightarrow> MoveIn | None \<Rightarrow> MoveIgnored))"

text \<open>
  The renames run on one new connection, whose count of changes starts at zero; an exception ends
  the handler after the renames before it.
\<close>

fun rename_moved :: "(fs_event \<times> folder_row) list \<Rightarrow> int \<Rightarrow> app_db \<Rightarrow> app_db \<times> pyexn option" where
  "rename_moved [] changes db = (db, None)"
| "rename_moved ((e, dest_folder) # renames) changes db =
     (case rename_file db changes (ev_src e) (ev_dest e) (fo_id dest_folder) of
        Inl err \<Rightarrow> (db, Some err)
      | Inr (db', changes') \<Rightarrow>
          if changes' = 0
          then rename_moved renames changes' (fst (rename_files_in_folder db' (ev_src e) (ev_dest e) (fo_id dest_folder)))
          else rename_moved renames changes' db')"

definition on_moved ::
    "(string \<Rightarrow> bool) \<Rightarrow> string \<Rightarrow> fs_event list \<Rightarrow> 'v index_world \<Rightarrow> 'v index_world \<times> fs_event list list" where
  "on_moved isfile app_data events w =
     (let kinds = map (\<lambda>e. (e, classify_move (iw_db w) e)) events;
          internal_rename_events = List.map_filter (\<lambda>(e, k). case k of MoveInside f \<Rightarrow> Some (e, f) | _ \<Rightarrow> None) kinds;
          created_events = map (\<lambda>(e, k). created_event (ev_dest e)) (filter (\<lambda>(e, k). k = MoveIn) kinds);
          deleted_events = map (\<lambda>(e, k). deleted_event_for_moved_path (ev_src e) (ev_is_directory e))
                             (filter (\<lambda>(e, k). k = MoveAway) kinds)
      in case rename_moved internal_rename_events 0 (iw_db w) of
           (db', Some err) \<Rightarrow> (w\<lparr>iw_db := db'\<rparr>, [])
         | (db', None) \<Rightarrow>
             (let w' = w\<lparr>iw_db := db'\<rparr>;
                  workers = (if created_events = [] then [] else on_created isfile created_events)
              in (if deleted_events = [] then w' else on_deleted app_data deleted_events w', workers)))"

section \<open>The buffer\<close>

record 'v increments =
  in_world :: "'v index_world"
  in_buffer :: "fs_event list"
  in_workers :: "fs_event list list"

definition event_run :: "fs_event list \<Rightarrow> fs_event list" where
  "event_run buffer =
     (case buffer of [] \<Rightarrow> [] | e # _ \<Rightarrow> takeWhile (\<lambda>x. ev_type x = ev_type e) buffer)"

definition try_schedule_next_batch ::
    "(string \<Rightarrow> bool) \<Rightarrow> string \<Rightarrow> 'v increments \<Rightarrow> 'v increments" where
  "try_schedule_next_batch isfile app_data s =
     (if in_buffer s = [] \<or> in_workers s \<noteq> [] then s
      else let to_be_handled = event_run (in_buffer s);
               event_type = ev_type (hd (in_buffer s));
               s = s\<lparr>in_buffer := drop (length to_be_handled) (in_buffer s)\<rparr>
           in if event_type = ''created''
              then s\<lparr>in_workers := in_workers s @ on_created isfile to_be_handled\<rparr>
              else if event_type = ''deleted''
              then s\<lparr>in_world := on_deleted app_data to_be_handled (in_world s)\<rparr>
              else if event_type = ''moved''
              then (case on_moved isfile app_data to_be_handled (in_world s) of
                      (w, workers) \<Rightarrow> s\<lparr>in_world := w, in_workers := in_workers s @ workers\<rparr>)
              else s)"

definition on_directory_changed :: "(string \<Rightarrow> bool) \<Rightarrow> string \<Rightarrow> fs_event \<Rightarrow> 'v increments \<Rightarrow> 'v increments" where
  "on_directory_changed isfile app_data e s =
     try_schedule_next_batch isfile app_data (s\<lparr>in_buffer := in_buffer s @ [e]\<rparr>)"

text \<open>
  A worker ends with the world \<open>w\<close>; unless it was stopped it schedules the next run.
\<close>

definition creation_worker_ended ::
    "(string \<Rightarrow> bool) \<Rightarrow> string \<Rightarrow> fs_event list \<Rightarrow> bool \<Rightarrow> 'v index_world \<Rightarrow> 'v increments \<Rightarrow> 'v increments" where
  "creation_worker_ended isfile app_data worker was_stopped w s =
     (let s = s\<lparr>in_world := w, in_workers := remove1 worker (in_workers s)\<rparr>
      in if was_stopped then s else try_schedule_next_batch isfile app_data s)"

text \<open>
  The end of the program: the buffer is dropped, and the flag of every worker is set, so that each
  ends with \<open>was_stopped\<close>.
\<close>

definition deinit_incremental_index_workers :: "'v increments \<Rightarrow> 'v increments" where
  "deinit_incremental_index_workers s = s\<lparr>in_buffer := []\<rparr>"

end
