(* ===== verification/ImageIndexProps.thy ===== *)
theory ImageIndexProps
  imports ImageIndex
begin

text \<open>
  How a batch changes the files of the image index, and the termination of the build: it ends
  when no pending file still carries a vector, and does not end when the only pending file does.
\<close>

section \<open>Settling files\<close>

text \<open>
  Everything that indexing a batch does to the files is to settle some of them: their rows keep
  identifier, path and folder and leave the pending status.
\<close>

definition settling :: "int set \<Rightarrow> (file_row \<Rightarrow> file_row) \<Rightarrow> bool" where
  "settling ids g \<longleftrightarrow> (\<forall>r. fi_id (g r) = fi_id r \<and> fi_path (g r) = fi_path r \<and> fi_folder_id (g r) = fi_folder_id r \<and>
     (fi_id r \<in> ids \<longrightarrow> fi_status (g r) \<noteq> 0) \<and> (fi_id r \<notin> ids \<longrightarrow> g r = r))"

definition settles :: "int set \<Rightarrow> app_db \<Rightarrow> app_db \<Rightarrow> bool" where
  "settles ids db db' \<longleftrightarrow> (\<exists>g. settling ids g \<and> db' = db\<lparr>db_files := map g (db_files db)\<rparr>)"

lemma settlesE:
  assumes "settles ids db db'"
  obtains g where "db' = db\<lparr>db_files := map g (db_files db)\<rparr>"
    "\<And>r. fi_id (g r) = fi_id r" "\<And>r. fi_path (g r) = fi_path r" "\<And>r. fi_folder_id (g r) = fi_folder_id r"
    "\<And>r. fi_id r \<in> ids \<Longrightarrow> fi_status (g r) \<noteq> 0" "\<And>r. fi_id r \<notin> ids \<Longrightarrow> g r = r"
  using assms unfolding settles_def settling_def by blast

lemma settles_refl [simp]: "settles {} db db"
  unfolding settles_def by (rule exI [of _ id]) (simp add: settling_def)

lemma settling_comp: "settling A g \<Longrightarrow> settling B h \<Longrightarrow> settling (A \<union> B) (h \<circ> g)"
  unfolding settling_def comp_def Un_iff by metis

lemma settles_trans: "settles A a b \<Longrightarrow> settles B b c \<Longrightarrow> settles (A \<union> B) a c"
  unfolding settles_def using settling_comp by fastforce

lemma settles_sql_update:
  assumes "\<And>r. fi_id (f r) = fi_id r \<and> fi_path (f r) = fi_path r \<and> fi_folder_id (f r) = fi_folder_id r
      \<and> fi_status (f r) \<noteq> 0"
  shows "settles ids db (db\<lparr>db_files := sql_update (\<lambda>r. fi_id r \<in> ids) f (db_files db)\<rparr>)"
  unfolding settles_def sql_update_def
  by (rule exI [of _ "\<lambda>r. if fi_id r \<in> ids then f r else r"]) (simp add: assms settling_def)

text \<open>Marking files as deleted and marking them as skipped are the same update.\<close>

definition skip_rows :: "int set \<Rightarrow> app_db \<Rightarrow> app_db" where
  "skip_rows ids db =
     db\<lparr>db_files := sql_update (\<lambda>r. fi_id r \<in> ids) (fi_status_update (\<lambda>_. 2)) (db_files db)\<rparr>"

lemma mark_files_skip_rows:
  "mark_files_skipped db ids = skip_rows (set ids) db" "mark_files_deleted db ids = skip_rows (set ids) db"
  by (cases "ids = []"; simp add: mark_files_skipped_def mark_files_deleted_def skip_rows_def sql_update_def)+

lemma skip_rows_empty [simp]: "skip_rows {} db = db"
  by (simp add: skip_rows_def sql_update_def)

lemma skip_rows_skip_rows [simp]: "skip_rows B (skip_rows A db) = skip_rows (A \<union> B) db"
  by (auto simp: skip_rows_def sql_update_def)

lemma settles_skip_rows: "settles ids db (skip_rows ids db)"
  unfolding skip_rows_def by (rule settles_sql_update) simp

lemma settles_mark_skipped: "settles (set ids) db (mark_files_skipped db ids)"
  by (simp add: mark_files_skip_rows settles_skip_rows)

lemma settles_update_file:
  "update_file db i None None (Some c) (Some 1) = Inr db' \<Longrightarrow> settles {i} db db'"
  by (auto simp: update_file_def Let_def apply_file_update_def split: if_splits
      intro: settles_sql_update [where ids = "{i}", simplified])

lemma settles_mark_indexed:
  "mark_files_indexed files db = (db', None) \<Longrightarrow> settles (set (map fi_id files)) db db'"
proof (induction files db rule: mark_files_indexed.induct)
  case (1 db)
  then show ?case by simp
next
  case (2 f files db)
  then obtain d where d: "update_file db (fi_id f) None None (Some (fi_id f)) (Some 1) = Inr d"
    by (auto split: sum.splits)
  with 2 have "settles (set (map fi_id files)) d db'" by simp
  from settles_trans [OF settles_update_file [OF d] this] show ?case by simp
qed

text \<open>The number of pending files of a folder, which settling never raises.\<close>

definition is_pending :: "int \<Rightarrow> file_row \<Rightarrow> bool" where
  "is_pending folder_id r \<longleftrightarrow> fi_folder_id r = folder_id \<and> fi_status r = 0"

definition pending_count :: "int \<Rightarrow> app_db \<Rightarrow> nat" where
  "pending_count folder_id db = length (filter (is_pending folder_id) (db_files db))"

lemma length_filter_map_le:
  "(\<And>x. P (g x) \<Longrightarrow> P x) \<Longrightarrow> length (filter P (map g xs)) \<le> length (filter P xs)"
proof (induction xs)
  case (Cons a xs)
  then have "length (filter P (map g xs)) \<le> length (filter P xs)" by blast
  moreover have "P (g a) \<Longrightarrow> P a" using Cons.prems by blast
  ultimately show ?case by auto
qed simp

lemma length_filter_map_less:
  assumes "\<And>x. P (g x) \<Longrightarrow> P x" and "x \<in> set xs" and "P x" and "\<not> P (g x)"
  shows "length (filter P (map g xs)) < length (filter P xs)"
proof -
  obtain ys zs where xs: "xs = ys @ x # zs" using assms(2) by (auto dest: split_list)
  have "length (filter P (map g ys)) \<le> length (filter P ys)" "length (filter P (map g zs)) \<le> length (filter P zs)"
    using length_filter_map_le [where P = P and g = g] assms(1) by blast+
  with xs assms(3,4) show ?thesis by simp
qed

lemma pending_count_settles:
  assumes "settles ids db db'"
  shows "pending_count folder_id db' \<le> pending_count folder_id db"
    and "r \<in> set (db_files db) \<Longrightarrow> is_pending folder_id r \<Longrightarrow> fi_id r \<in> ids
      \<Longrightarrow> pending_count folder_id db' < pending_count folder_id db"
proof -
  from assms obtain g where g: "db' = db\<lparr>db_files := map g (db_files db)\<rparr>"
    "\<And>r. fi_folder_id (g r) = fi_folder_id r" "\<And>r. fi_id r \<in> ids \<Longrightarrow> fi_status (g r) \<noteq> 0"
    "\<And>r. fi_id r \<notin> ids \<Longrightarrow> g r = r" by (rule settlesE) blast
  have down: "is_pending folder_id (g r) \<Longrightarrow> is_pending folder_id r" for r
    using g(2) [of r] g(3,4) [of r] by (cases "fi_id r \<in> ids") (auto simp: is_pending_def)
  show "pending_count folder_id db' \<le> pending_count folder_id db"
    using length_filter_map_le [where P = "is_pending folder_id" and g = g and xs = "db_files db"] down g(1)
    by (simp add: pending_count_def)
  show "pending_count folder_id db' < pending_count folder_id db"
    if "r \<in> set (db_files db)" "is_pending folder_id r" "fi_id r \<in> ids"
    using length_filter_map_less [where P = "is_pending folder_id" and g = g, OF down that(1,2)]
      g that by (simp add: pending_count_def is_pending_def)
qed

section \<open>Batches\<close>

lemma concat_batches_of: "0 < n \<Longrightarrow> concat (batches_of n xs) = xs"
proof (induction n xs rule: batches_of.induct)
  case (1 n xs)
  show ?case
  proof (cases "xs = []")
    case True
    then show ?thesis by (simp add: batches_of.simps [of n "[]"])
  next
    case False
    with 1 show ?thesis by (subst batches_of.simps) simp
  qed
qed

lemma set_batches_of: "b \<in> set (batches_of n xs) \<Longrightarrow> set b \<subseteq> set xs"
proof (induction n xs rule: batches_of.induct)
  case (1 n xs)
  then show ?case
    by (cases "xs = [] \<or> n = 0") (auto simp: batches_of.simps [of n xs] dest: in_set_takeD in_set_dropD)
qed

text \<open>Decoding a batch sorts its files into three lists, and the images are those of the first.\<close>

lemma open_batch_valid:
  "open_batch opened files = (images, valid, deleted, invalid) \<Longrightarrow>
     list_all2 (\<lambda>i f. opened (fi_path f) = OpenedImage i) images valid \<and> set valid \<subseteq> set files"
  by (induction files arbitrary: images valid deleted invalid) (auto split: prod.splits opened.splits)

lemma open_batch_partition:
  "open_batch opened files = (images, valid, deleted, invalid) \<Longrightarrow>
     set valid \<union> set deleted \<union> set invalid = set files"
  by (induction files arbitrary: images valid deleted invalid) (fastforce split: prod.splits opened.splits)+

lemma process_image_batch_Some:
  assumes "process_image_batch e files = (Some tensor, valid, deleted, invalid)"
  shows "tensor \<noteq> []" and "valid \<noteq> []" and "set valid \<subseteq> set files"
    and "list_all2 (\<lambda>i f. re_opened e (fi_path f) = OpenedImage i) tensor valid"
  using assms open_batch_valid [of "re_opened e" files]
  by (auto simp: process_image_batch_def split: prod.splits if_splits dest!: list_all2_lengthD)

lemma process_image_batch_None:
  "process_image_batch e files = (None, valid, deleted, invalid) \<Longrightarrow> valid = [] \<and> deleted = [] \<and> invalid = []"
  by (auto simp: process_image_batch_def split: prod.splits if_splits)

text \<open>What one turn of the loop over the futures does.\<close>

lemma embed_batches_cases:
  assumes "embed_batches e i (b # bs) db feats valid res = out"
  obtains (failed) "embed_batches e (i + 1) bs db feats valid False = out"
  | (nothing) "embed_batches e (i + 1) bs db feats valid res = out"
  | (encoded) tensor bv d n fs where "process_image_batch e b = (Some tensor, bv, d, n)"
      "re_encode e tensor = Some fs"
      "embed_batches e (i + 1) bs (mark_files_skipped (mark_files_deleted db (map fi_id d)) (map fi_id n))
         (feats @ [fs]) (valid @ bv) res = out"
proof -
  obtain t bv d n where b: "process_image_batch e b = (t, bv, d, n)" by (metis prod_cases4)
  show thesis
  proof (cases "re_future e i")
    case False
    with assms failed show thesis by simp
  next
    case True
    show thesis
    proof (cases t)
      case None
      with b process_image_batch_None [of e b bv d n] have "d = []" "n = []" by auto
      with assms True b None have "embed_batches e (i + 1) bs db feats valid res = out"
        by (simp add: mark_files_skipped_def mark_files_deleted_def)
      then show thesis by (rule nothing)
    next
      case (Some tensor)
      with assms True b failed encoded show thesis by (auto split: option.splits)
    qed
  qed
qed

lemma open_batch_sets:
  "open_batch opened files = (images, valid, deleted, invalid) \<Longrightarrow>
     set deleted \<subseteq> set files \<and> set invalid \<subseteq> set files"
  by (induction files arbitrary: images valid deleted invalid) (auto split: prod.splits opened.splits)

lemma process_image_batch_sets:
  "process_image_batch e files = (t, valid, deleted, invalid) \<Longrightarrow>
     set deleted \<subseteq> set files \<and> set invalid \<subseteq> set files"
  using open_batch_sets [of "re_opened e" files]
  by (auto simp: process_image_batch_def split: prod.splits if_splits)

lemma later_batches: "ids \<subseteq> f ` set (concat bs) \<Longrightarrow> ids \<subseteq> f ` set (concat (b # bs))"
  by (simp add: image_Un) blast

lemma embed_batches_skips:
  "embed_batches e i bs db feats valid res = (db', feats', valid', res') \<Longrightarrow>
     \<exists>ids \<subseteq> fi_id ` set (concat bs). db' = skip_rows ids db"
proof (induction bs arbitrary: i db feats valid res)
  case Nil
  then have "db' = skip_rows {} db" by simp
  then show ?case by blast
next
  case (Cons b bs)
  from Cons.prems show ?case
  proof (cases rule: embed_batches_cases)
    case (encoded tensor bv d n fs)
    from Cons.IH [OF encoded(3)] obtain ids where ids: "ids \<subseteq> fi_id ` set (concat bs)"
      "db' = skip_rows (set (map fi_id d) \<union> set (map fi_id n) \<union> ids) db" by (auto simp: mark_files_skip_rows)
    have "set (map fi_id d) \<union> set (map fi_id n) \<union> ids \<subseteq> fi_id ` set (concat (b # bs))"
    proof -
      have "set d \<union> set n \<subseteq> set (concat (b # bs))" "set (concat bs) \<subseteq> set (concat (b # bs))"
        using process_image_batch_sets [OF encoded(1)] by auto
      with ids(1) show ?thesis by (simp add: image_Un) blast
    qed
    with ids(2) show ?thesis by blast
  next
    case failed
    from Cons.IH [OF this] show ?thesis by (elim exE conjE) (intro exI conjI, erule later_batches)
  next
    case nothing
    from Cons.IH [OF this] show ?thesis by (elim exE conjE) (intro exI conjI, erule later_batches)
  qed
qed

lemma embed_batches_settles:
  "embed_batches e i bs db feats valid res = (db', feats', valid', res') \<Longrightarrow> \<exists>ids. settles ids db db'"
  using embed_batches_skips settles_skip_rows by blast

lemma embed_batches_valid:
  "embed_batches e i bs db feats valid res = (db', feats', valid', res') \<Longrightarrow>
     set valid' \<subseteq> set valid \<union> set (concat bs)"
proof (induction bs arbitrary: i db feats valid res)
  case (Cons b bs)
  from Cons.prems show ?case
  proof (cases rule: embed_batches_cases)
    case (encoded tensor bv d n fs)
    from Cons.IH [OF encoded(3)] process_image_batch_Some(3) [OF encoded(1)] show ?thesis by auto
  qed (use Cons.IH in fastforce)+
qed simp

lemma embed_batches_nonempty:
  "embed_batches e i bs db feats valid res = (db', feats', valid', res') \<Longrightarrow>
     feats \<noteq> [] \<longrightarrow> valid \<noteq> [] \<Longrightarrow> feats' \<noteq> [] \<longrightarrow> valid' \<noteq> []"
proof (induction bs arbitrary: i db feats valid res)
  case (Cons b bs)
  from Cons.prems(1) show ?case
  proof (cases rule: embed_batches_cases)
    case (encoded tensor bv d n fs)
    have "feats @ [fs] \<noteq> [] \<longrightarrow> valid @ bv \<noteq> []" using process_image_batch_Some(2) [OF encoded(1)] by simp
    with Cons.IH [OF encoded(3)] show ?thesis by blast
  next
    case failed
    with Cons.IH Cons.prems(2) show ?thesis by blast
  next
    case nothing
    with Cons.IH Cons.prems(2) show ?thesis by blast
  qed
qed simp

section \<open>Termination of the build\<close>

text \<open>A batch that succeeds settles at least one of its files.\<close>

lemma add_to_index_progress:
  assumes "add_to_index e path folder_id files w = (w', Inr True)" and "files \<noteq> []"
  shows "\<exists>ids f. settles ids (iw_db w) (iw_db w') \<and> f \<in> set files \<and> fi_id f \<in> ids"
proof -
  let ?bs = "if re_submit e then batches_of 16 files else []"
  obtain db1 feats valid result
    where emb: "embed_batches e 0 ?bs (iw_db w) [] [] True = (db1, feats, valid, result)"
    by (metis prod_cases4)
  obtain ids where s1: "settles ids (iw_db w) db1" using embed_batches_settles [OF emb] by blast
  have sub: "set valid \<subseteq> set files" using embed_batches_valid [OF emb] set_batches_of [of _ 16 files] by auto
  from assms(1) obtain entries where "load_index w path = Inr entries" and "re_ready e" and "re_model e"
    by (auto simp: add_to_index_def split: if_splits sum.splits index_error.splits option.splits prod.splits)
  with assms(1) emb have step: "(if feats = [] then (w\<lparr>iw_db := mark_files_skipped db1 (map fi_id files)\<rparr>,
       Inr (list_all (\<lambda>f. \<not> is_image_file (fi_path f)) files))
     else store_features e path entries feats valid result (w\<lparr>iw_db := db1\<rparr>)) = (w', Inr True)"
    by (simp add: add_to_index_def)
  show ?thesis
  proof (cases "feats = []")
    case True
    with step have "iw_db w' = mark_files_skipped db1 (map fi_id files)" by auto
    with settles_trans [OF s1 settles_mark_skipped [of "map fi_id files"]] assms(2) show ?thesis
      by (cases files) auto
  next
    case False
    with step have "mark_files_indexed valid db1 = (iw_db w', None)"
      by (auto simp: store_features_def Let_def split: if_splits prod.splits option.splits)
    from settles_trans [OF s1 settles_mark_indexed [OF this]] False embed_batches_nonempty [OF emb] sub
    show ?thesis by (cases valid) auto
  qed
qed

definition pending_clean :: "app_db \<Rightarrow> bool" where
  "pending_clean db \<longleftrightarrow> (\<forall>r\<in>set (db_files db). fi_status r = 0 \<longrightarrow> fi_clip_index r = None)"

lemma pending_clean_settles:
  assumes "settles ids db db'" and "pending_clean db"
  shows "pending_clean db'"
proof -
  from assms(1) obtain g where g: "db' = db\<lparr>db_files := map g (db_files db)\<rparr>"
    "\<And>r. fi_id r \<in> ids \<Longrightarrow> fi_status (g r) \<noteq> 0" "\<And>r. fi_id r \<notin> ids \<Longrightarrow> g r = r" by (rule settlesE) blast
  have "fi_clip_index (g r) = None" if "r \<in> set (db_files db)" "fi_status (g r) = 0" for r
    using g(2,3) [of r] that assms(2) by (cases "fi_id r \<in> ids") (auto simp: pending_clean_def)
  with g(1) show ?thesis by (auto simp: pending_clean_def)
qed

lemma get_pending_in:
  "f \<in> set (get_pending_files_for_folder db folder_id k n) \<Longrightarrow> f \<in> set (db_files db) \<and> is_pending folder_id f"
  by (auto simp: get_pending_files_for_folder_def is_pending_def dest!: in_set_takeD in_set_dropD)

lemma build_round_yield:
  assumes "build_round e path folder_id tot b w = (w', RoundYield p)"
  shows "\<exists>ids. settles ids (iw_db w) (iw_db w') \<and> pending_count folder_id (iw_db w') < pending_count folder_id (iw_db w)"
proof -
  let ?files = "get_pending_files_for_folder (iw_db w) folder_id 0 100"
  let ?new = "filter (\<lambda>f. fi_clip_index f = None \<and> fi_status f = 0) ?files"
  from assms have "?new \<noteq> []" and "add_to_index e path folder_id ?new w = (w', Inr True)"
    by (auto simp: build_round_def Let_def split: if_splits prod.splits sum.splits)
  from add_to_index_progress [OF this(2,1)] obtain ids f
    where s: "settles ids (iw_db w) (iw_db w')" and f: "f \<in> set ?new" "fi_id f \<in> ids" by blast
  from f(1) have "f \<in> set ?files" by simp
  with get_pending_in [OF this] pending_count_settles(2) [OF s] f(2) s show ?thesis by blast
qed

lemma build_round_continue:
  assumes "build_round e path folder_id tot b w = (w', RoundContinue b')"
  shows "\<not> pending_clean (iw_db w)"
proof
  assume clean: "pending_clean (iw_db w)"
  let ?files = "get_pending_files_for_folder (iw_db w) folder_id 0 100"
  from assms have ne: "?files \<noteq> []" and old: "filter (\<lambda>f. fi_clip_index f = None \<and> fi_status f = 0) ?files = []"
    by (simp_all add: build_round_def Let_def split: if_splits prod.splits)
  from ne obtain f where f: "f \<in> set ?files" by (meson last_in_set)
  with old have "\<not> (fi_clip_index f = None \<and> fi_status f = 0)" by (simp add: filter_empty_conv)
  with get_pending_in [OF f] clean show False by (auto simp: pending_clean_def is_pending_def)
qed

lemma build_rounds_ends:
  "pending_clean (iw_db w) \<Longrightarrow> \<exists>r. build_rounds es stops path folder_id tot n b w ys = Some r"
proof (induction "pending_count folder_id (iw_db w)" arbitrary: n b w ys rule: less_induct)
  case less
  obtain w' o' where r: "build_round (es n) path folder_id tot b w = (w', o')" by fastforce
  show ?case
  proof (cases o')
    case (RoundContinue b')
    with r build_round_continue less.prems show ?thesis by blast
  next
    case (RoundYield p)
    with build_round_yield r obtain ids where s: "settles ids (iw_db w) (iw_db w')"
      "pending_count folder_id (iw_db w') < pending_count folder_id (iw_db w)" by blast
    from less.hyps [OF s(2) pending_clean_settles [OF s(1) less.prems]] r RoundYield show ?thesis
      by (subst build_rounds.simps) simp
  next
    case RoundFinished
    with r show ?thesis by (subst build_rounds.simps) simp
  next
    case RoundBreak
    with r show ?thesis by (subst build_rounds.simps) simp
  qed
qed

lemma create_index_db: "create_index_if_needed m wr path w = (w', err) \<Longrightarrow> iw_db w' = iw_db w"
  by (auto simp: create_index_if_needed_def create_empty_index_def split: if_splits)

lemma build_index_ends:
  assumes "pending_clean (iw_db w)" and "be_ready b \<or> be_event b"
  shows "\<exists>r. build_index b stops path folder_id w = Some r"
proof -
  obtain w' err where c: "create_index_if_needed (be_model b) (be_write b) path w = (w', err)" by fastforce
  then have "pending_clean (iw_db w')" using assms(1) by (simp add: create_index_db)
  with build_rounds_ends [OF this] assms(2) c show ?thesis
    by (fastforce simp: build_index_def split: option.splits)
qed

text \<open>
  C30. Building the index of a folder ends, whatever the decoder, the encoder, the pool and the disk
  answer in each round and wherever the consumer stops, when no pending file carries a vector
  and the preload of the model signals its end.
\<close>
theorem build_index_terminates:
  assumes "pending_clean (iw_db w)" and "be_ready b \<or> be_event b"
  shows "\<exists>r. build_index b stops path folder_id w = Some r"
  using assms by (rule build_index_ends)

text \<open>
  A pending file that still carries a vector is taken by every round and never indexed: with
  one such file and the model ready the loop never ends.
\<close>

lemma sort_key_Nil_iff: "sort_key k xs = [] \<longleftrightarrow> xs = []"
  by (metis length_0_conv length_sort)

lemma build_round_stuck:
  assumes "\<forall>f\<in>set (get_pending_files_for_folder (iw_db w) folder_id 0 100). fi_clip_index f \<noteq> None"
    and "get_pending_files_for_folder (iw_db w) folder_id 0 100 \<noteq> []"
  shows "\<exists>b'. build_round e path folder_id tot b w = (w, RoundContinue b')"
  using assms by (auto simp: build_round_def Let_def)

lemma build_rounds_stuck:
  assumes "build_rounds es stops path folder_id tot n b w ys = Some r"
  shows "\<not> ((\<forall>f\<in>set (get_pending_files_for_folder (iw_db w) folder_id 0 100). fi_clip_index f \<noteq> None) \<and>
     get_pending_files_for_folder (iw_db w) folder_id 0 100 \<noteq> [])"
  using assms
proof (induction rule: build_rounds.raw_induct [rotated, consumes 1, case_names step])
  case (step rounds es stops path folder_id tot n b w ys r)
  show ?case
  proof
    assume stuck: "(\<forall>f\<in>set (get_pending_files_for_folder (iw_db w) folder_id 0 100). fi_clip_index f \<noteq> None) \<and>
     get_pending_files_for_folder (iw_db w) folder_id 0 100 \<noteq> []"
    then obtain b' where "build_round (es n) path folder_id tot b w = (w, RoundContinue b')"
      using build_round_stuck by blast
    with step(2) have "rounds es stops path folder_id tot (n + 1) b' w ys = Some r" by simp
    from step(1) [OF this] stuck show False by blast
  qed
qed

text \<open>
  A file that was indexed, then marked as skipped or deleted by a second worker that had read it
  as pending, and then appears again keeps its vector: \<open>insert_file\<close> only resets the status.  When
  it is the only pending file of the folder, building the index never ends.
\<close>
theorem reinserted_file_spins:
  assumes "files_ok (iw_db w)" and "r \<in> set (db_files (iw_db w))" and "fi_clip_index r \<noteq> None"
    and "slashes (fi_path r) = fi_path r"
    and "\<forall>f\<in>set (db_files (iw_db w)). fi_folder_id f = fi_folder_id r \<longrightarrow> fi_status f \<noteq> 0"
    and "dict_get (iw_indexes w) path \<noteq> None" and "be_ready b"
  shows "build_index b stops path (fi_folder_id r)
    (w\<lparr>iw_db := insert_file (mark_files_skipped (iw_db w) [fi_id r]) (fi_path r) (fi_folder_id r)\<rparr>)
      = None"
proof -
  let ?db = "insert_file (mark_files_skipped (iw_db w) [fi_id r]) (fi_path r) (fi_folder_id r)"
  let ?w = "w\<lparr>iw_db := ?db\<rparr>"
  let ?skip = "\<lambda>x. if fi_id x = fi_id r then fi_status_update (\<lambda>_. 2) x else x"
  let ?revived = "\<lambda>x. if fi_path x = fi_path r \<and> fi_folder_id x = fi_folder_id r \<and> fi_status x = 2
     then fi_status_update (\<lambda>_. 0) x else x"
  have one: "x = r" if "x \<in> set (db_files (iw_db w))" "fi_id x = fi_id r \<or> fi_path x = fi_path r \<and> fi_folder_id x = fi_folder_id r" for x
    using assms(1,2) that by (auto simp: files_ok_def files_unique_def distinct_map inj_on_def)
  have db: "db_files ?db = map (?revived \<circ> ?skip) (db_files (iw_db w))"
  proof -
    have "fi_status_update (\<lambda>_. 2) r \<in> set (db_files (mark_files_skipped (iw_db w) [fi_id r]))"
      using assms(2) by (force simp: mark_files_skipped_def sql_update_def)
    then have "list_ex (\<lambda>x. fi_path x = fi_path r \<and> fi_folder_id x = fi_folder_id r)
        (db_files (mark_files_skipped (iw_db w) [fi_id r]))"
      unfolding list_ex_iff by (rule bexI [rotated]) simp
    then show ?thesis
      using assms(4) by (simp add: insert_file_def mark_files_skipped_def sql_update_def comp_def)
  qed
  have each: "(?revived \<circ> ?skip) x = (if x = r then fi_status_update (\<lambda>_. 0) r else x)"
    if "x \<in> set (db_files (iw_db w))" for x
    using one [OF that] by auto
  have "db_files ?db = map (\<lambda>x. if x = r then fi_status_update (\<lambda>_. 0) r else x) (db_files (iw_db w))"
    unfolding db by (rule map_cong) (use each in auto)
  then have rows: "set (db_files ?db) = (\<lambda>x. if x = r then fi_status_update (\<lambda>_. 0) r else x) ` set (db_files (iw_db w))"
    by simp
  let ?files = "get_pending_files_for_folder ?db (fi_folder_id r) 0 100"
  have "fi_clip_index f \<noteq> None" if f: "f \<in> set ?files" for f
    using get_pending_in [OF f] rows assms(3,5) by (auto simp: is_pending_def split: if_splits)
  moreover have "?files \<noteq> []"
  proof -
    have "\<exists>x\<in>set (db_files ?db). fi_folder_id x = fi_folder_id r \<and> fi_status x = 0"
      using rows assms(2) by force
    then have "filter (\<lambda>x. fi_folder_id x = fi_folder_id r \<and> fi_status x = 0) (db_files ?db) \<noteq> []"
      by (auto simp: filter_empty_conv)
    then show ?thesis unfolding get_pending_files_for_folder_def by (simp add: sort_key_Nil_iff)
  qed
  ultimately have stuck: "(\<forall>f\<in>set ?files. fi_clip_index f \<noteq> None) \<and> ?files \<noteq> []" by blast
  have "build_rounds (be_rounds b) stops path (fi_folder_id r) tot n e ?w ys = None" for tot n e ys
  proof (rule ccontr)
    assume "build_rounds (be_rounds b) stops path (fi_folder_id r) tot n e ?w ys \<noteq> None"
    then obtain z where "build_rounds (be_rounds b) stops path (fi_folder_id r) tot n e ?w ys = Some z" by blast
    from build_rounds_stuck [OF this] stuck show False by simp
  qed
  with assms(6,7) show ?thesis by (simp add: build_index_def create_index_if_needed_def)
qed

end
