(* ===== verification/IndexFaithful.thy ===== *)
theory IndexFaithful
  imports ImageIndexProps
begin

text \<open>
  Every vector of an index belongs to its file: the vectors are stored under the identifiers of
  the files they were computed from, and a file marked as indexed has its vector in the index of
  its folder, whatever fails while the index is built.
\<close>

section \<open>Every vector belongs to its file\<close>

text \<open>
  The images do not change while the index is used, and the encoder works on each image of a
  batch for itself: \<open>vp\<close> is the vector of the image at a path.
\<close>

definition encodes_as :: "('i, 'v) round_env \<Rightarrow> (string \<Rightarrow> 'i) \<Rightarrow> ('i \<Rightarrow> 'v) \<Rightarrow> bool" where
  "encodes_as e img vec \<longleftrightarrow> (\<forall>p i. re_opened e p = OpenedImage i \<longrightarrow> i = img p) \<and>
     (\<forall>tensor features. re_encode e tensor = Some features \<longrightarrow> features = map vec tensor)"

text \<open>A recovery that moves the damaged file away also creates the empty index.\<close>

definition recovery_completes :: "('i, 'v) round_env \<Rightarrow> bool" where
  "recovery_completes e \<longleftrightarrow> (re_backup e \<longrightarrow> re_model e \<and> re_write e)"

text \<open>
  The index of a folder is faithful: every file marked as indexed has its vector in it under its
  own identifier, and whatever is stored under the identifier of one of its files is the vector
  of that file.
\<close>

definition row_faithful :: "(string \<Rightarrow> 'v) \<Rightarrow> (int \<times> 'v) set \<Rightarrow> file_row \<Rightarrow> bool" where
  "row_faithful vp entries r \<longleftrightarrow>
     (fi_status r = 1 \<longrightarrow> fi_clip_index r = Some (fi_id r) \<and> (fi_id r, vp (fi_path r)) \<in> entries) \<and>
     (\<forall>v. (fi_id r, v) \<in> entries \<longrightarrow> v = vp (fi_path r))"

definition index_faithful :: "(string \<Rightarrow> 'v) \<Rightarrow> string \<Rightarrow> int \<Rightarrow> 'v index_world \<Rightarrow> bool" where
  "index_faithful vp path folder_id w \<longleftrightarrow>
     (\<forall>r\<in>set (db_files (iw_db w)). fi_folder_id r = folder_id \<longrightarrow>
        (case dict_get (iw_indexes w) path of
           None \<Rightarrow> fi_status r \<noteq> 1
         | Some (FlatIndex entries) \<Rightarrow> row_faithful vp (set entries) r
         | Some _ \<Rightarrow> True))"

lemma embed_batches_aligned:
  assumes "encodes_as e img vec"
  shows "embed_batches e i bs db feats valid res = (db', feats', valid', res') \<Longrightarrow>
     concat feats = map (\<lambda>f. vec (img (fi_path f))) valid \<Longrightarrow>
     concat feats' = map (\<lambda>f. vec (img (fi_path f))) valid'"
proof (induction bs arbitrary: i db feats valid res)
  case (Cons b bs)
  from Cons.prems(1) show ?case
  proof (cases rule: embed_batches_cases)
    case (encoded tensor bv d n fs)
    have "list_all2 (\<lambda>i f. i = img (fi_path f)) tensor bv"
      using process_image_batch_Some(4) [OF encoded(1)] assms
      by (auto simp: encodes_as_def elim: list_all2_mono)
    then have "tensor = map (\<lambda>f. img (fi_path f)) bv"
      by (simp add: list_all2_map2 [symmetric] list.rel_eq list_all2_conv_all_nth list_eq_iff_nth_eq)
    moreover have "fs = map vec tensor" using assms encoded(2) by (simp add: encodes_as_def)
    ultimately have "concat (feats @ [fs]) = map (\<lambda>f. vec (img (fi_path f))) (valid @ bv)"
      using Cons.prems(2) by simp
    with Cons.IH [OF encoded(3)] show ?thesis by blast
  next
    case failed
    with Cons.IH Cons.prems(2) show ?thesis by blast
  next
    case nothing
    with Cons.IH Cons.prems(2) show ?thesis by blast
  qed
qed simp

text \<open>Marking files as indexed never fails on a database whose pairs of folder and path are distinct.\<close>

lemma mark_files_indexed_db:
  assumes "files_ok db"
  shows "mark_files_indexed files db =
    (db\<lparr>db_files := sql_update (\<lambda>r. fi_id r \<in> fi_id ` set files)
        (\<lambda>r. r\<lparr>fi_clip_index := Some (fi_id r), fi_status := 1\<rparr>) (db_files db)\<rparr>, None)"
  using assms
proof (induction files arbitrary: db)
  case Nil
  then show ?case by (simp add: sql_update_def)
next
  case (Cons f files)
  let ?one = "db\<lparr>db_files := sql_update (\<lambda>r. fi_id r = fi_id f)
    (\<lambda>r. r\<lparr>fi_clip_index := Some (fi_id r), fi_status := 1\<rparr>) (db_files db)\<rparr>"
  have rows: "sql_update (\<lambda>r. fi_id r = fi_id f) (apply_file_update None None (Some (fi_id f)) (Some 1)) (db_files db)
      = db_files ?one"
    by (simp add: sql_update_def apply_file_update_def)
  have ok: "files_ok ?one" using Cons.prems by (rule files_ok_update) simp_all
  then have "update_file db (fi_id f) None None (Some (fi_id f)) (Some 1) = Inr ?one"
    by (simp add: update_file_def rows files_ok_def)
  with Cons.IH [OF ok] show ?case
    by (auto simp: sql_update_def)
qed

text \<open>Everything that a call of \<open>add_to_index\<close> can do.\<close>

lemma add_to_index_cases:
  assumes "add_to_index e path folder_id files w = (w', r)" and "files_ok (iw_db w)"
  obtains (unchanged) "w' = w"
  | (lost) "iw_db w' = iw_db w" "\<not> (re_model e \<and> re_write e)" "re_backup e"
      "\<forall>q. q \<noteq> path \<and> q \<noteq> path @ ''.corrupt-'' @ str_int (re_time e) \<longrightarrow>
         dict_get (iw_indexes w') q = dict_get (iw_indexes w) q"
  | (recovered) "iw_db w' = update_folder_status (reset_folder_files (iw_db w) folder_id) folder_id 1"
      "dict_get (iw_indexes w') path = Some (FlatIndex [])"
      "\<forall>q. q \<noteq> path \<and> q \<noteq> path @ ''.corrupt-'' @ str_int (re_time e) \<longrightarrow>
         dict_get (iw_indexes w') q = dict_get (iw_indexes w) q"
  | (skipped) ids where "ids \<subseteq> fi_id ` set files" "iw_db w' = skip_rows ids (iw_db w)" "iw_indexes w' = iw_indexes w"
  | (stored) ids valid entries features where "ids \<subseteq> fi_id ` set files" "set valid \<subseteq> set files"
      "iw_db w' = fst (mark_files_indexed valid (skip_rows ids (iw_db w)))"
      "dict_get (iw_indexes w) path = Some (FlatIndex entries)" "length features = length valid"
      "\<And>img vec. encodes_as e img vec \<Longrightarrow> features = map (\<lambda>f. vec (img (fi_path f))) valid"
      "iw_indexes w' = dict_set (iw_indexes w) path (FlatIndex (entries @ zip (map fi_id valid) features))"
proof (cases "re_ready e")
  case False
  with assms(1) unchanged show thesis by (simp add: add_to_index_def)
next
  case ready: True
  show thesis
  proof (cases "load_index w path")
    case (Inl err)
    show thesis
    proof (cases err)
      case (CorruptFaissIndexError msg)
      with Inl ready assms(1) have rec: "fst (recover_corrupted_index e path folder_id w) = w'"
        by (auto simp: add_to_index_def split: prod.splits option.splits)
      show thesis
      proof (cases "re_model e \<and> re_write e")
        case True
        with rec show thesis
          by (intro recovered) (auto simp: recover_corrupted_index_def create_empty_index_def Let_def
              split: option.splits if_splits)
      next
        case no: False
        show thesis
        proof (cases "re_backup e")
          case True
          with no rec show thesis
            by (intro lost) (auto simp: recover_corrupted_index_def create_empty_index_def Let_def
                split: option.splits if_splits)
        next
          case False
          with no rec have "w' = w"
            by (auto simp: recover_corrupted_index_def create_empty_index_def Let_def
                split: option.splits if_splits)
          then show thesis by (rule unchanged)
        qed
      qed
    next
      case (OtherError x)
      with Inl ready assms(1) unchanged show thesis by (simp add: add_to_index_def)
    qed
  next
    case (Inr entries)
    then have entries: "dict_get (iw_indexes w) path = Some (FlatIndex entries)"
      by (auto simp: load_index_def split: option.splits index_file.splits)
    show thesis
    proof (cases "re_model e")
      case False
      with Inr ready assms(1) unchanged show thesis by (simp add: add_to_index_def)
    next
      case model: True
      let ?bs = "if re_submit e then batches_of 16 files else []"
      obtain db1 feats valid result
        where emb: "embed_batches e 0 ?bs (iw_db w) [] [] True = (db1, feats, valid, result)"
        by (metis prod_cases4)
      have bs: "set (concat ?bs) \<subseteq> set files" using set_batches_of [of _ 16 files] by auto
      from embed_batches_skips [OF emb] bs obtain ids where ids: "ids \<subseteq> fi_id ` set files"
        and db1: "db1 = skip_rows ids (iw_db w)"
        using image_mono [OF bs, of fi_id] by (elim exE conjE) (blast dest: order_trans)
      have sub: "set valid \<subseteq> set files" using embed_batches_valid [OF emb] bs by auto
      have step: "(if feats = [] then (w\<lparr>iw_db := mark_files_skipped db1 (map fi_id files)\<rparr>,
           Inr (list_all (\<lambda>f. \<not> is_image_file (fi_path f)) files))
         else store_features e path entries feats valid result (w\<lparr>iw_db := db1\<rparr>)) = (w', r)"
        using assms(1) ready model Inr emb by (simp add: add_to_index_def)
      show thesis
      proof (cases "feats = []")
        case True
        with step have "w' = w\<lparr>iw_db := skip_rows (ids \<union> fi_id ` set files) (iw_db w)\<rparr>"
          by (simp add: mark_files_skip_rows db1)
        with ids show thesis by (intro skipped [of "ids \<union> fi_id ` set files"]) auto
      next
        case False
        show thesis
        proof (cases "length (concat feats) = length valid \<and> re_write e")
          case True
          have "concat feats = map (\<lambda>f. vec (img (fi_path f))) valid" if "encodes_as e img vec" for img vec
            using embed_batches_aligned [OF that emb] by simp
          with False True step ids sub entries db1 show thesis
            by (intro stored [of ids valid entries "concat feats"])
              (auto simp: store_features_def Let_def split: prod.splits)
        next
          case no: False
          with False step have "w' = w\<lparr>iw_db := skip_rows ids (iw_db w)\<rparr>"
            by (auto simp: store_features_def Let_def db1 split: if_splits)
          with ids show thesis by (intro skipped) auto
        qed
      qed
    qed
  qed
qed

lemma zip_two_maps: "zip (map f xs) (map g xs) = map (\<lambda>x. (f x, g x)) xs"
  by (induction xs) simp_all

lemma files_ok_skip_rows: "files_ok db \<Longrightarrow> files_ok (skip_rows ids db)"
  unfolding skip_rows_def by (rule files_ok_update) simp_all

lemma files_ok_reset: "files_ok db \<Longrightarrow> files_ok (update_folder_status (reset_folder_files db folder_id) folder_id st)"
proof -
  assume "files_ok db"
  then have "files_ok (reset_folder_files db folder_id)"
    unfolding reset_folder_files_def by (rule files_ok_update) simp_all
  then show ?thesis by (simp add: update_folder_status_def files_ok_def)
qed

lemma files_ok_indexed: "files_ok db \<Longrightarrow> files_ok (fst (mark_files_indexed files db))"
  by (simp add: mark_files_indexed_db files_ok_update)

lemma files_ok_same_row:
  "files_ok db \<Longrightarrow> x \<in> set (db_files db) \<Longrightarrow> y \<in> set (db_files db) \<Longrightarrow> fi_id x = fi_id y \<Longrightarrow> x = y"
  by (auto simp: files_ok_def distinct_map inj_on_def)

text \<open>
  The rows after a batch was stored: \<open>skipped\<close> and \<open>indexed\<close> are the identifiers marked in turn.
\<close>

definition row_after :: "int set \<Rightarrow> int set \<Rightarrow> file_row \<Rightarrow> file_row" where
  "row_after skipped indexed r =
     (if fi_id r \<in> indexed then r\<lparr>fi_clip_index := Some (fi_id r), fi_status := 1\<rparr>
      else if fi_id r \<in> skipped then r\<lparr>fi_status := 2\<rparr> else r)"

lemma row_after_simps [simp]:
  "fi_id (row_after s i r) = fi_id r" "fi_path (row_after s i r) = fi_path r"
  "fi_folder_id (row_after s i r) = fi_folder_id r"
  by (simp_all add: row_after_def)

lemma rows_after_store:
  assumes "files_ok db"
  shows "db_files (fst (mark_files_indexed valid (skip_rows ids db))) = map (row_after ids (fi_id ` set valid)) (db_files db)"
  unfolding mark_files_indexed_db [OF files_ok_skip_rows [OF assms]]
  by (simp add: skip_rows_def sql_update_def row_after_def)

lemma row_faithful_store:
  assumes "row_faithful vp (set entries) r" and "\<And>f. f \<in> set valid \<Longrightarrow> fi_id f = fi_id r \<Longrightarrow> f = r"
  shows "row_faithful vp (set (entries @ map (\<lambda>f. (fi_id f, vp (fi_path f))) valid)) (row_after ids (fi_id ` set valid) r)"
proof -
  let ?new = "map (\<lambda>f. (fi_id f, vp (fi_path f))) valid"
  let ?r = "row_after ids (fi_id ` set valid) r"
  have new: "v = vp (fi_path r)" if "(fi_id r, v) \<in> set ?new" for v
  proof -
    from that obtain f where f: "f \<in> set valid" "fi_id f = fi_id r" "v = vp (fi_path f)" by auto
    from assms(2) [OF f(1,2)] f(3) show ?thesis by simp
  qed
  have old: "v = vp (fi_path r)" if "(fi_id r, v) \<in> set entries" for v
    using that assms(1) by (simp add: row_faithful_def)
  have "fi_clip_index ?r = Some (fi_id r) \<and> (fi_id r, vp (fi_path r)) \<in> set (entries @ ?new)" if st: "fi_status ?r = 1"
  proof (cases "fi_id r \<in> fi_id ` set valid")
    case True
    then obtain f where f: "f \<in> set valid" "fi_id f = fi_id r" by (metis imageE)
    from assms(2) [OF f] f(1) have "r \<in> set valid" by simp
    with True show ?thesis by (simp add: row_after_def)
  next
    case False
    with st have "?r = r" by (cases "fi_id r \<in> ids") (simp_all add: row_after_def)
    with st assms(1) show ?thesis by (simp add: row_faithful_def)
  qed
  with new old show ?thesis unfolding row_faithful_def row_after_simps set_append Un_iff by blast
qed

lemma row_faithful_skip: "row_faithful vp E r \<Longrightarrow> row_faithful vp E (row_after ids {} r)"
  by (auto simp: row_faithful_def row_after_def)

lemma skip_rows_row_after: "db_files (skip_rows ids db) = map (row_after ids {}) (db_files db)"
  by (auto simp: skip_rows_def sql_update_def row_after_def)

text \<open>
  What one call does to the other folders: their rows stay as they are, and so do the index files
  other than the one of the folder and the backup of it.
\<close>

definition other_folders_kept :: "string \<Rightarrow> int \<Rightarrow> 'v index_world \<Rightarrow> 'v index_world \<Rightarrow> bool" where
  "other_folders_kept path folder_id w w' \<longleftrightarrow>
     (\<forall>r\<in>set (db_files (iw_db w')). fi_folder_id r \<noteq> folder_id \<longrightarrow> r \<in> set (db_files (iw_db w))) \<and>
     (\<forall>q. q \<noteq> path \<and> (\<forall>t. q \<noteq> path @ ''.corrupt-'' @ str_int t) \<longrightarrow>
        dict_get (iw_indexes w') q = dict_get (iw_indexes w) q)"

lemma other_folders_kept_refl: "other_folders_kept path folder_id w w"
  by (simp add: other_folders_kept_def)

lemma other_folders_kept_trans:
  "other_folders_kept path folder_id a b \<Longrightarrow> other_folders_kept path folder_id b c
     \<Longrightarrow> other_folders_kept path folder_id a c"
  by (auto simp: other_folders_kept_def)

lemma row_after_other:
  assumes "files_ok db" and "set files \<subseteq> set (db_files db)" and "\<forall>f\<in>set files. fi_folder_id f = folder_id"
    and "ids \<subseteq> fi_id ` set files" and "V \<subseteq> fi_id ` set files" and "r \<in> set (db_files db)"
    and "fi_folder_id r \<noteq> folder_id"
  shows "row_after ids V r = r"
proof -
  have "fi_id r \<notin> fi_id ` set files"
    using files_ok_same_row [OF assms(1,6)] assms(2,3,7) by (metis image_iff subsetD)
  with assms(4,5) show ?thesis by (auto simp: row_after_def)
qed

lemma index_faithful_flat:
  "dict_get (iw_indexes w) path = Some (FlatIndex entries) \<Longrightarrow>
     index_faithful vp path folder_id w \<longleftrightarrow>
     (\<forall>r\<in>set (db_files (iw_db w)). fi_folder_id r = folder_id \<longrightarrow> row_faithful vp (set entries) r)"
  by (simp add: index_faithful_def)

lemma index_faithful_skip:
  assumes "index_faithful vp path folder_id w" and "iw_db w' = skip_rows ids (iw_db w)"
    and "iw_indexes w' = iw_indexes w"
  shows "index_faithful vp path folder_id w'"
proof -
  have "fi_status r = 1" if "fi_status (row_after ids {} r) = 1" for r
    using that by (cases "fi_id r \<in> ids") (simp_all add: row_after_def)
  with assms show ?thesis
    by (auto simp: index_faithful_def skip_rows_row_after split: option.splits index_file.splits
        intro: row_faithful_skip)
qed

lemma add_to_index_keeps:
  assumes "add_to_index e path folder_id files w = (w', r)" and "files_ok (iw_db w)"
    and "set files \<subseteq> set (db_files (iw_db w))" and "\<forall>f\<in>set files. fi_folder_id f = folder_id"
    and "recovery_completes e" and "encodes_as e img vec"
    and "index_faithful (\<lambda>p. vec (img p)) path folder_id w"
  shows "index_faithful (\<lambda>p. vec (img p)) path folder_id w' \<and> files_ok (iw_db w') \<and>
    other_folders_kept path folder_id w w'"
  using assms(1,2)
proof (cases rule: add_to_index_cases)
  case unchanged
  with assms show ?thesis by (simp add: other_folders_kept_refl)
next
  case lost
  with assms(5) show ?thesis by (simp add: recovery_completes_def)
next
  case recovered
  have rows: "r \<in> set (db_files (iw_db w)) \<and> \<not> (fi_folder_id r = folder_id \<and> fi_status r \<noteq> 2) \<or>
      fi_folder_id r = folder_id \<and> fi_status r = 0"
    if "r \<in> set (db_files (iw_db w'))" for r
    using that recovered(1)
    by (auto simp: update_folder_status_def reset_folder_files_def sql_update_def split: if_splits)
  have "index_faithful (\<lambda>p. vec (img p)) path folder_id w'"
    unfolding index_faithful_flat [OF recovered(2)] row_faithful_def using rows by fastforce
  moreover have "files_ok (iw_db w')" using assms(2) recovered(1) by (simp add: files_ok_reset)
  ultimately show ?thesis using rows recovered(3) by (fastforce simp: other_folders_kept_def)
next
  case (skipped ids)
  have "row_after ids {} x = x" if "x \<in> set (db_files (iw_db w))" "fi_folder_id x \<noteq> folder_id" for x
    by (rule row_after_other [OF assms(2-4) skipped(1) _ that]) simp
  then have "other_folders_kept path folder_id w w'"
    using skipped by (auto simp: other_folders_kept_def skip_rows_row_after)
  with index_faithful_skip [OF assms(7) skipped(2,3)] assms(2) skipped(2) show ?thesis
    by (simp add: files_ok_skip_rows)
next
  case (stored ids valid entries features)
  let ?vp = "\<lambda>p. vec (img p)"
  have files: "db_files (iw_db w') = map (row_after ids (fi_id ` set valid)) (db_files (iw_db w))"
    using stored(3) rows_after_store [OF assms(2)] by simp
  have new: "dict_get (iw_indexes w') path = Some (FlatIndex (entries @ map (\<lambda>f. (fi_id f, ?vp (fi_path f))) valid))"
    using stored(7) stored(6) [OF assms(6)] by (simp add: zip_two_maps)
  have same: "f = x" if "f \<in> set valid" "fi_id f = fi_id x" "x \<in> set (db_files (iw_db w))" for f x
    using files_ok_same_row [OF assms(2) _ that(3)] that assms(3) stored(2) by blast
  have "index_faithful ?vp path folder_id w'"
    unfolding index_faithful_flat [OF new]
  proof (intro ballI impI)
    fix y
    assume "y \<in> set (db_files (iw_db w'))" and y: "fi_folder_id y = folder_id"
    then obtain x where x: "x \<in> set (db_files (iw_db w))" "y = row_after ids (fi_id ` set valid) x"
      unfolding files set_map by blast
    with y assms(7) [unfolded index_faithful_flat [OF stored(4)]] have "row_faithful ?vp (set entries) x" by simp
    from row_faithful_store [where vp = ?vp, OF this same [OF _ _ x(1)]]
    show "row_faithful ?vp (set (entries @ map (\<lambda>f. (fi_id f, ?vp (fi_path f))) valid)) y"
      unfolding x(2) by blast
  qed
  moreover have "files_ok (iw_db w')"
    using stored(3) assms(2) by (simp add: files_ok_indexed files_ok_skip_rows)
  moreover have "row_after ids (fi_id ` set valid) x = x"
    if "x \<in> set (db_files (iw_db w))" "fi_folder_id x \<noteq> folder_id" for x
    by (rule row_after_other [OF assms(2-4) stored(1) image_mono [OF stored(2)] that])
  then have "other_folders_kept path folder_id w w'"
    using stored(7) by (auto simp: other_folders_kept_def files)
  ultimately show ?thesis by blast
qed

lemma build_round_keeps:
  assumes "build_round e path folder_id tot b w = (w', r)" and "files_ok (iw_db w)"
    and "recovery_completes e" and "encodes_as e img vec"
    and "index_faithful (\<lambda>p. vec (img p)) path folder_id w"
  shows "index_faithful (\<lambda>p. vec (img p)) path folder_id w' \<and> files_ok (iw_db w') \<and>
    other_folders_kept path folder_id w w'"
proof -
  let ?files = "get_pending_files_for_folder (iw_db w) folder_id 0 100"
  let ?new = "filter (\<lambda>f. fi_clip_index f = None \<and> fi_status f = 0) ?files"
  have new: "set ?new \<subseteq> set (db_files (iw_db w))" "\<forall>f\<in>set ?new. fi_folder_id f = folder_id"
    using get_pending_in [of _ "iw_db w" folder_id 0 100] by (auto simp: is_pending_def)
  show ?thesis
  proof (cases "w' = w")
    case True
    with assms show ?thesis by (simp add: other_folders_kept_refl)
  next
    case False
    with assms(1) obtain r' where "add_to_index e path folder_id ?new w = (w', r')"
      by (auto simp: build_round_def Let_def split: if_splits prod.splits)
    from add_to_index_keeps [OF this assms(2) new assms(3-5)] show ?thesis .
  qed
qed

text \<open>Whatever each round keeps, the whole build keeps.\<close>

lemma build_rounds_invariant:
  assumes "\<And>n b w w' r. I w \<Longrightarrow> build_round (es n) path folder_id tot b w = (w', r) \<Longrightarrow> I w'"
    and "build_rounds es stops path folder_id tot n b w ys = Some z" and "I w"
  shows "I (fst z)"
  using assms(2,1,3)
proof (induction rule: build_rounds.raw_induct [rotated, consumes 1, case_names step])
  case (step rounds es stops path folder_id tot n b w ys z)
  obtain w' r where r: "build_round (es n) path folder_id tot b w = (w', r)" by fastforce
  with step.prems have I: "I w'" by blast
  show ?case
  proof (cases r)
    case (RoundContinue b')
    with step(2) r have "rounds es stops path folder_id tot (n + 1) b' w' ys = Some z" by simp
    from step(1) [OF this step.prems(1) I] show ?thesis .
  next
    case (RoundYield p)
    show ?thesis
    proof (cases "stops n")
      case True
      with step(2) r RoundYield I show ?thesis by auto
    next
      case False
      with step(2) r RoundYield
      have "rounds es stops path folder_id tot (n + 1) (pr_batch_end p) w' (ys @ [p]) = Some z" by simp
      from step(1) [OF this step.prems(1) I] show ?thesis .
    qed
  qed (use step(2) r I in auto)
qed

lemma create_index_keeps:
  assumes "create_index_if_needed m wr path w = (w', err)" and "index_faithful vp path folder_id w"
  shows "index_faithful vp path folder_id w' \<and> other_folders_kept path folder_id w w'"
  using assms
  by (auto simp: create_index_if_needed_def create_empty_index_def index_faithful_def row_faithful_def
      other_folders_kept_def split: if_splits option.splits index_file.splits)

lemma build_index_keeps:
  assumes "build_index b stops path folder_id w = Some (w', ys, err)" and "files_ok (iw_db w)"
    and "\<forall>n. recovery_completes (be_rounds b n) \<and> encodes_as (be_rounds b n) img vec"
    and "index_faithful (\<lambda>p. vec (img p)) path folder_id w"
  shows "index_faithful (\<lambda>p. vec (img p)) path folder_id w' \<and> files_ok (iw_db w') \<and>
    other_folders_kept path folder_id w w'"
proof (cases "w' = w")
  case True
  with assms show ?thesis by (simp add: other_folders_kept_refl)
next
  case False
  obtain w1 err1 where c: "create_index_if_needed (be_model b) (be_write b) path w = (w1, err1)" by fastforce
  let ?I = "\<lambda>x. index_faithful (\<lambda>p. vec (img p)) path folder_id x \<and> files_ok (iw_db x) \<and>
    other_folders_kept path folder_id w x"
  have one: "?I w1"
    using create_index_keeps [OF c assms(4)] assms(2) by (simp add: create_index_db [OF c])
  show ?thesis
  proof (cases err1)
    case (Some x)
    with c assms(1) False one show ?thesis by (auto simp: build_index_def split: if_splits)
  next
    case None
    with c assms(1) False obtain z where
      "build_rounds (be_rounds b) stops path folder_id (count_files_in_folder (iw_db w1) folder_id) 0 0 w1 [] = Some z"
      "fst z = w'"
      by (auto simp: build_index_def split: if_splits)
    with build_rounds_invariant [where I = ?I, OF _ this(1) one] build_round_keeps assms(3)
      other_folders_kept_trans show ?thesis by blast
  qed
qed

section \<open>All folders at once\<close>

lemma str_int_inj: "str_int i = str_int j \<Longrightarrow> i = j"
proof -
  assume eq: "str_int i = str_int j"
  have neg: "CHR ''-'' \<in> set (str_int k) \<longleftrightarrow> k < 0" for k
    by (auto simp: str_int_def str_nat_not_in)
  with eq have "i < 0 \<longleftrightarrow> j < 0" by metis
  with eq show "i = j" by (auto simp: str_int_def split: if_splits dest!: str_nat_inj)
qed

lemma index_path_inj: "index_path_for_folder app i = index_path_for_folder app j \<Longrightarrow> i = j"
  by (simp add: index_path_for_folder_def str_int_inj)

lemma last_str_int: "last (str_int i) \<noteq> CHR ''s''"
proof -
  have "last (str_nat n) \<noteq> CHR ''s''" for n
    using str_nat_digits [of "last (str_nat n)" n] by auto
  then show ?thesis by (simp add: str_int_def)
qed

lemma index_path_not_backup: "index_path_for_folder app i \<noteq> path @ ''.corrupt-'' @ str_int t"
proof
  assume "index_path_for_folder app i = path @ ''.corrupt-'' @ str_int t"
  then have "last (index_path_for_folder app i) = last (path @ ''.corrupt-'' @ str_int t)" by simp
  with last_str_int [of t] show False
    by (auto simp: index_path_for_folder_def str_int_def split: if_splits)
qed

definition indexes_faithful :: "(string \<Rightarrow> 'v) \<Rightarrow> string \<Rightarrow> 'v index_world \<Rightarrow> bool" where
  "indexes_faithful vp app_data w \<longleftrightarrow> files_ok (iw_db w) \<and>
     (\<forall>folder_id. index_faithful vp (index_path_for_folder app_data folder_id) folder_id w)"


end
