(* ===== verification/ImageSearch.thy ===== *)
theory ImageSearch
  imports IndexFaithful "HOL-Library.Multiset"
begin

text \<open>
  What a search returns, on indexes that are faithful: live files with their own scores in
  descending order, at most a hundred, and none better is left out while no index holds more than
  five hundred vectors; with more, vectors of files that are gone hide the ones that are there.
\<close>

section \<open>Descending lists\<close>

definition descending :: "('a \<times> 's :: linorder) list \<Rightarrow> bool" where
  "descending xs \<longleftrightarrow> sorted_wrt (\<lambda>x y. snd y \<le> snd x) xs"

lemma set_sorted_reverse [simp]: "set (sorted_reverse key xs) = set xs"
  by (simp add: sorted_reverse_def)

lemma length_sorted_reverse [simp]: "length (sorted_reverse key xs) = length xs"
  by (simp add: sorted_reverse_def)

lemma mset_sorted_reverse [simp]: "mset (sorted_reverse key xs) = mset xs"
  by (simp add: sorted_reverse_def)

lemma descending_sorted_reverse [simp]: "descending (sorted_reverse snd xs)"
proof -
  have "sorted_wrt (\<lambda>x y. snd x \<le> snd y) (sort_key snd (rev xs))"
    using sorted_sort_key [of snd "rev xs"] by (simp add: sorted_map)
  then show ?thesis by (simp add: descending_def sorted_reverse_def sorted_wrt_rev)
qed

lemma descending_take: "descending xs \<Longrightarrow> descending (take n xs)"
  by (simp add: descending_def sorted_wrt_take)

lemma descending_Cons: "descending (x # xs) \<longleftrightarrow> (\<forall>y\<in>set xs. snd y \<le> snd x) \<and> descending xs"
  by (simp add: descending_def)

text \<open>An element that does not make the first \<open>k\<close> is beaten by \<open>k\<close> others.\<close>

lemma descending_left_out:
  assumes "descending xs" and "x \<in> set xs" and "x \<notin> set (take k xs)"
  shows "length (take k xs) = k \<and> (\<forall>y\<in>set (take k xs). snd x \<le> snd y)"
proof -
  have x: "x \<in> set (drop k xs)" using assms(2,3) by (metis Un_iff append_take_drop_id set_append)
  then have len: "length (take k xs) = k" by (cases "k \<le> length xs") auto
  have "sorted_wrt (\<lambda>x y. snd y \<le> snd x) (take k xs @ drop k xs)" using assms(1) by (simp add: descending_def)
  then have "snd x \<le> snd y" if "y \<in> set (take k xs)" for y
    using x that unfolding sorted_wrt_append by blast
  with len show ?thesis by blast
qed

lemma descending_top:
  assumes "descending xs" and "k \<le> length (filter (\<lambda>y. s \<le> snd y) xs)"
  shows "length (take k xs) = k \<and> (\<forall>y\<in>set (take k xs). s \<le> snd y)"
proof -
  let ?P = "\<lambda>y. s \<le> snd y"
  have len: "k \<le> length xs" using assms(2) length_filter_le [of ?P xs] by linarith
  have "s \<le> snd y" if y: "y \<in> set (take k xs)" for y
  proof (rule ccontr)
    assume low: "\<not> s \<le> snd y"
    from y obtain ys zs where split: "take k xs = ys @ y # zs" by (auto dest: split_list)
    then have xs: "xs = ys @ y # zs @ drop k xs" by (metis append.assoc append_Cons append_take_drop_id)
    have "length ys < k" using split len by (metis add_less_same_cancel1 add.right_neutral length_Cons length_append length_take
          less_add_same_cancel1 min.absorb2 zero_less_Suc)
    have "sorted_wrt (\<lambda>x y. snd y \<le> snd x) (ys @ y # zs @ drop k xs)"
      using assms(1) xs by (simp add: descending_def)
    then have "\<forall>z\<in>set (zs @ drop k xs). snd z \<le> snd y" unfolding sorted_wrt_append sorted_wrt.simps by blast
    with low have "filter ?P (zs @ drop k xs) = []" unfolding filter_empty_conv by (meson order_trans)
    with low xs have "filter ?P xs = filter ?P ys" by (metis append_Nil2 filter.simps(2) filter_append)
    then have "k \<le> length (filter ?P ys)" using assms(2) by metis
    then show False using length_filter_le [of ?P ys] \<open>length ys < k\<close> by linarith
  qed
  with len show ?thesis by simp
qed

section \<open>The steps of a query\<close>

lemma set_dedupe: "set (dedupe_pairs seen xs) \<subseteq> set xs"
  by (induction seen xs rule: dedupe_pairs.induct) auto

lemma dedupe_keeps_id: "x \<in> set xs \<Longrightarrow> fst x \<notin> set seen \<Longrightarrow> \<exists>y\<in>set (dedupe_pairs seen xs). fst y = fst x"
proof (induction seen xs rule: dedupe_pairs.induct)
  case (2 seen item items)
  then show ?case by (cases "fst item = fst x"; cases "fst item \<in> set seen") auto
qed simp

lemma descending_dedupe: "descending xs \<Longrightarrow> descending (dedupe_pairs seen xs)"
proof (induction seen xs rule: dedupe_pairs.induct)
  case (2 seen item items)
  then show ?case using set_dedupe [of "fst item # seen" items] by (auto simp: descending_Cons)
qed simp

lemma named_pairs_Cons:
  "named_pairs (p # ps) (x # xs) = (case p of None \<Rightarrow> [] | Some f \<Rightarrow> [(f, snd x)]) @ named_pairs ps xs"
  by (auto simp: named_pairs_def map_filter_simps split: option.splits)

lemma named_pairs_map:
  "set (named_pairs (map g xs) xs) = {(f, snd x) | f x. x \<in> set xs \<and> g x = Some f}"
proof (induction xs)
  case Nil
  then show ?case by (simp add: named_pairs_def map_filter_simps)
next
  case (Cons x xs)
  show ?case unfolding list.map(2) named_pairs_Cons set_append Cons by (cases x; cases "g x") auto
qed

lemma descending_named: "descending xs \<Longrightarrow> descending (named_pairs (map g xs) xs)"
proof (induction xs)
  case Nil
  then show ?case by (simp add: named_pairs_def map_filter_simps descending_def)
next
  case (Cons x xs)
  then show ?case
    by (auto simp: named_pairs_Cons descending_Cons named_pairs_map split: option.splits)
qed

lemma dict_get_fold_set:
  "dict_get (fold (\<lambda>r d. dict_set d (k r) (v r)) rows d) c = Some p \<Longrightarrow>
     dict_get d c = Some p \<or> (\<exists>r\<in>set rows. k r = c \<and> v r = p)"
  by (induction rows arbitrary: d) (fastforce split: if_splits)+

lemma dict_get_fold_some:
  "r \<in> set rows \<Longrightarrow> \<exists>p. dict_get (fold (\<lambda>r d. dict_set d (k r) (v r)) rows d) (k r) = Some p"
proof (induction rows arbitrary: d)
  case (Cons a rows)
  have keep: "dict_get d c \<noteq> None \<Longrightarrow> dict_get (fold (\<lambda>r d. dict_set d (k r) (v r)) rows d) c \<noteq> None" for d c
    by (induction rows arbitrary: d) auto
  show ?case
  proof (cases "r \<in> set rows")
    case True
    with Cons.IH show ?thesis by simp
  next
    case False
    with Cons.prems keep [of "dict_set d (k r) (v r)" "k r"] show ?thesis by auto
  qed
qed simp

definition live :: "app_db \<Rightarrow> int \<Rightarrow> int \<Rightarrow> string \<Rightarrow> bool" where
  "live db folder_id c p \<longleftrightarrow>
     (\<exists>r\<in>set (db_files db). fi_folder_id r = folder_id \<and> fi_status r = 1 \<and> fi_clip_index r = Some c \<and> fi_path r = p)"

definition path_of_index :: "app_db \<Rightarrow> int \<Rightarrow> int list \<Rightarrow> int \<Rightarrow> string option" where
  "path_of_index db folder_id cs c =
     dict_get (fold (\<lambda>r d. dict_set d (fi_clip_index r) (fi_path r))
       (filter (\<lambda>r. fi_folder_id r = folder_id \<and> fi_status r = 1 \<and>
          (case fi_clip_index r of None \<Rightarrow> False | Some c \<Rightarrow> c \<in> set cs)) (db_files db)) []) (Some c)"

lemma files_by_clip_indices_map:
  "get_files_by_clip_indices db folder_id cs = map (path_of_index db folder_id cs) cs"
  by (simp add: get_files_by_clip_indices_def path_of_index_def Let_def)

lemma path_of_index_live: "path_of_index db folder_id cs c = Some p \<Longrightarrow> live db folder_id c p"
  by (auto simp: path_of_index_def live_def dest!: dict_get_fold_set)

lemma live_path_of_index:
  assumes "live db folder_id c p" and "c \<in> set cs" and "\<And>q. live db folder_id c q \<Longrightarrow> q = p"
  shows "path_of_index db folder_id cs c = Some p"
proof -
  from assms(1) obtain r where r: "r \<in> set (db_files db)" "fi_folder_id r = folder_id" "fi_status r = 1"
    "fi_clip_index r = Some c" by (auto simp: live_def)
  with assms(2) have "r \<in> set (filter (\<lambda>r. fi_folder_id r = folder_id \<and> fi_status r = 1 \<and>
          (case fi_clip_index r of None \<Rightarrow> False | Some c \<Rightarrow> c \<in> set cs)) (db_files db))" by simp
  from dict_get_fold_some [OF this, where k = fi_clip_index and v = fi_path and d = "[]"] r(4)
  obtain q where q: "path_of_index db folder_id cs c = Some q" by (auto simp: path_of_index_def)
  with path_of_index_live [OF q] assms(3) show ?thesis by blast
qed

lemma list_all2_in_set2_ex: "list_all2 P xs ys \<Longrightarrow> y \<in> set ys \<Longrightarrow> \<exists>x\<in>set xs. P x y"
  by (induction rule: list_all2_induct) auto

lemma list_all2_in_set1_ex: "list_all2 P xs ys \<Longrightarrow> x \<in> set xs \<Longrightarrow> \<exists>y\<in>set ys. P x y"
  by (induction rule: list_all2_induct) auto

section \<open>Search over faithful indexes\<close>

text \<open>
  FAISS's exact inner product search: the best \<open>k\<close> entries with their scores, then padding under
  the identifier -1.
\<close>

definition exact_search :: "('v, 's :: linorder) search_env \<Rightarrow> (string \<Rightarrow> 'v \<Rightarrow> 's) \<Rightarrow> bool" where
  "exact_search se score \<longleftrightarrow> (\<forall>q entries k. \<exists>hits pad.
     se_search se q entries k = hits @ pad \<and> (\<forall>x\<in>set pad. fst x = -1) \<and>
     length hits = min k (length entries) \<and>
     mset hits \<subseteq># mset (map (\<lambda>(i, v). (i, score q v)) entries) \<and>
     (\<forall>x\<in>#mset (map (\<lambda>(i, v). (i, score q v)) entries) - mset hits. \<forall>h\<in>set hits. snd x \<le> snd h))"

lemma exact_searchE:
  assumes "exact_search se score"
  obtains hits pad where "se_search se q entries k = hits @ pad" "\<forall>x\<in>set pad. fst x = -1"
    "length hits = min k (length entries)"
    "mset hits \<subseteq># mset (map (\<lambda>(i, v). (i, score q v)) entries)"
proof -
  from assms [unfolded exact_search_def, rule_format, of q entries k] obtain hits pad where
    "se_search se q entries k = hits @ pad" "\<forall>x\<in>set pad. fst x = -1" "length hits = min k (length entries)"
    "mset hits \<subseteq># mset (map (\<lambda>(i, v). (i, score q v)) entries)" by (elim exE conjE)
  then show thesis by (rule that)
qed

lemma live_faithful:
  assumes "index_faithful vp path folder_id w" and "dict_get (iw_indexes w) path = Some (FlatIndex entries)"
    and "live (iw_db w) folder_id c p"
  obtains r where "r \<in> set (db_files (iw_db w))" "fi_id r = c" "fi_path r = p" "(c, vp p) \<in> set entries"
    "\<And>v. (c, v) \<in> set entries \<Longrightarrow> v = vp p"
proof -
  from assms(3) obtain r where r: "r \<in> set (db_files (iw_db w))" "fi_folder_id r = folder_id" "fi_status r = 1"
    "fi_clip_index r = Some c" "fi_path r = p" unfolding live_def by blast
  with assms(1) have "row_faithful vp (set entries) r" unfolding index_faithful_flat [OF assms(2)] by blast
  with r show thesis by (intro that [of r]) (simp_all add: row_faithful_def)
qed

lemma live_unique:
  assumes "files_ok (iw_db w)" and "index_faithful vp path folder_id w"
    and "dict_get (iw_indexes w) path = Some (FlatIndex entries)"
    and "live (iw_db w) folder_id c p" and "live (iw_db w) folder_id c q"
  shows "p = q"
  using live_faithful [OF assms(2,3,4)] live_faithful [OF assms(2,3,5)] files_ok_same_row [OF assms(1)] by metis

text \<open>What the search of one folder returns when its index can be read.\<close>

definition folder_answer ::
    "('v, 's :: linorder) search_env \<Rightarrow> 'v index_world \<Rightarrow> int \<Rightarrow> (int \<times> 'v) list \<Rightarrow> string \<Rightarrow> (string \<times> 's) list" where
  "folder_answer se w folder_id entries query =
     (let pairs = dedupe_pairs [] (sorted_reverse snd (se_search se query entries 500))
      in take 100 (named_pairs (map (\<lambda>x. path_of_index (iw_db w) folder_id (map fst pairs) (fst x)) pairs) pairs))"

lemma search_in_folder_cases:
  assumes "search_in_folder app se w folder q = Inr res"
  obtains "res = []" | entries where
    "dict_get (iw_indexes w) (index_path_for_folder app (fo_id folder)) = Some (FlatIndex entries)"
    "res = folder_answer se w (fo_id folder) entries q"
proof -
  let ?path = "index_path_for_folder app (fo_id folder)"
  have empty: "named_pairs [] [] = []" by (simp add: named_pairs_def map_filter_simps)
  show thesis
  proof (cases "dict_get (iw_indexes w) ?path")
    case None
    with assms that(1) show thesis by (simp add: search_in_folder_def)
  next
    case (Some f)
    with assms that empty show thesis
      by (cases f)
        (auto simp: search_in_folder_def Let_def query_index_def query_internal_def load_index_def TOP_K_def
          folder_answer_def files_by_clip_indices_map comp_def get_files_by_clip_indices_def
          split: if_splits option.splits)
  qed
qed

lemma folder_answer_descending: "descending (folder_answer se w folder_id entries q)"
  unfolding folder_answer_def Let_def
  by (intro descending_take descending_named descending_dedupe descending_sorted_reverse)

lemma folder_answer_sound:
  assumes "exact_search se score" and "index_faithful vp path folder_id w"
    and "dict_get (iw_indexes w) path = Some (FlatIndex entries)"
    and "\<forall>r\<in>set (db_files (iw_db w)). fi_id r \<noteq> -1"
    and "(p, s) \<in> set (folder_answer se w folder_id entries q)"
  shows "(\<exists>c. live (iw_db w) folder_id c p) \<and> s = score q (vp p)"
proof -
  let ?pairs = "dedupe_pairs [] (sorted_reverse snd (se_search se q entries 500))"
  let ?g = "\<lambda>x. path_of_index (iw_db w) folder_id (map fst ?pairs) (fst x)"
  from assms(5) have "(p, s) \<in> set (named_pairs (map ?g ?pairs) ?pairs)"
    unfolding folder_answer_def Let_def by (rule in_set_takeD)
  then obtain x where x: "x \<in> set ?pairs" "?g x = Some p" "s = snd x" unfolding named_pairs_map by blast
  have live: "live (iw_db w) folder_id (fst x) p" using x(2) by (rule path_of_index_live)
  from live_faithful [OF assms(2,3) this] obtain r where
    r: "r \<in> set (db_files (iw_db w))" "fi_id r = fst x" "\<And>v. (fst x, v) \<in> set entries \<Longrightarrow> v = vp p" by metis
  obtain hits pad where h: "se_search se q entries 500 = hits @ pad" "\<forall>x\<in>set pad. fst x = -1"
    "length hits = min 500 (length entries)"
    "mset hits \<subseteq># mset (map (\<lambda>(i, v). (i, score q v)) entries)"
    using assms(1) by (rule exact_searchE [where q = q and entries = entries and k = 500])
  have "x \<in> set (hits @ pad)" using x(1) set_dedupe h(1) by fastforce
  moreover have "fst x \<noteq> -1" using r assms(4) by metis
  ultimately have "x \<in># mset hits" using h(2) by auto
  with h(4) have "x \<in> (\<lambda>(i, v). (i, score q v)) ` set entries" by (metis list.set_map mset_subset_eqD set_mset_mset)
  with r(3) x(3) live show ?thesis by auto
qed

lemma folder_answer_complete:
  assumes "exact_search se score" and "files_ok (iw_db w)" and "index_faithful vp path folder_id w"
    and "dict_get (iw_indexes w) path = Some (FlatIndex entries)" and "length entries \<le> 500"
    and "live (iw_db w) folder_id c p" and "\<forall>r\<in>set (db_files (iw_db w)). fi_id r \<noteq> -1"
  shows "(p, score q (vp p)) \<in> set (folder_answer se w folder_id entries q) \<or>
    length (folder_answer se w folder_id entries q) = 100 \<and>
    (\<forall>y\<in>set (folder_answer se w folder_id entries q). score q (vp p) \<le> snd y)"
proof -
  let ?found = "sorted_reverse snd (se_search se q entries 500)"
  let ?pairs = "dedupe_pairs [] ?found"
  let ?g = "\<lambda>x. path_of_index (iw_db w) folder_id (map fst ?pairs) (fst x)"
  let ?named = "named_pairs (map ?g ?pairs) ?pairs"
  from live_faithful [OF assms(3,4,6)] assms(7) have c: "c \<noteq> -1" by metis
  obtain r: "(c, vp p) \<in> set entries" "\<And>v. (c, v) \<in> set entries \<Longrightarrow> v = vp p"
    by (rule live_faithful [OF assms(3,4,6)]) blast
  obtain hits pad where h: "se_search se q entries 500 = hits @ pad" "\<forall>x\<in>set pad. fst x = -1"
    "length hits = min 500 (length entries)"
    "mset hits \<subseteq># mset (map (\<lambda>(i, v). (i, score q v)) entries)"
    using assms(1) by (rule exact_searchE [where q = q and entries = entries and k = 500])
  have "mset hits = mset (map (\<lambda>(i, v). (i, score q v)) entries)"
  proof -
    have "size (mset hits) = size (mset (map (\<lambda>(i, v). (i, score q v)) entries))" using h(3) assms(5) by simp
    with h(4) show ?thesis by (metis mset_subset_size order_less_irrefl subset_mset.le_imp_less_or_eq)
  qed
  then have hits: "set hits = (\<lambda>(i, v). (i, score q v)) ` set entries" by (metis list.set_map set_mset_mset)
  with r(1) have "(c, score q (vp p)) \<in> set hits" by force
  then have "(c, score q (vp p)) \<in> set ?found" using h(1) by simp
  from dedupe_keeps_id [OF this, of "[]"] obtain y where y: "y \<in> set ?pairs" "fst y = c" by force
  then have "y \<in> set (hits @ pad)" using set_dedupe [of "[]" ?found] h(1) by auto
  with y(2) c h(2) have "y \<in> set hits" by auto
  with hits y(2) r(2) have "snd y = score q (vp p)" by auto
  moreover have "?g y = Some p"
    using live_path_of_index [OF assms(6) _ live_unique [OF assms(2,3,4) _ assms(6)]] y by auto
  ultimately have in_named: "(p, score q (vp p)) \<in> set ?named"
    unfolding named_pairs_map using y(1) by (intro CollectI exI [of _ p] exI [of _ y]) simp
  have desc: "descending ?named"
    by (intro descending_named descending_dedupe descending_sorted_reverse)
  have answer: "folder_answer se w folder_id entries q = take 100 ?named" by (simp add: folder_answer_def Let_def)
  show ?thesis
  proof (cases "(p, score q (vp p)) \<in> set (take 100 ?named)")
    case True
    with answer show ?thesis by simp
  next
    case False
    from descending_left_out [OF desc in_named False] answer show ?thesis by simp
  qed
qed

text \<open>The search over the registered folders.\<close>

lemma search_folders_Inr:
  assumes "search_folders app se w q = Inr res"
  obtains results where "list_all2 (\<lambda>folder r. search_in_folder app se w folder q = Inr r) (db_folders (iw_db w)) results"
    "res = take 100 (sorted_reverse snd (concat results))"
  using assms
  by (auto simp: search_folders_def get_all_folders_def mapE_Inr_iff TOP_K_def split: if_splits sum.splits)

text \<open>
  C17. On faithful indexes every result of a search is a file that is marked as indexed, in a
  registered folder, with the score of its own image; the results are in descending order and at
  most a hundred.
\<close>
theorem search_results_sound:
  assumes "search_folders app_data se w query = Inr results" and "exact_search se score"
    and "indexes_faithful vp app_data w" and "\<forall>r\<in>set (db_files (iw_db w)). fi_id r \<noteq> -1"
  shows "sorted_wrt (\<lambda>x y. snd y \<le> snd x) results \<and> length results \<le> 100 \<and>
    (\<forall>(p, s)\<in>set results. s = score query (vp p) \<and>
       (\<exists>r\<in>set (db_files (iw_db w)). fi_path r = p \<and> fi_status r = 1 \<and>
          fi_folder_id r \<in> fo_id ` set (db_folders (iw_db w))))"
proof -
  from assms(1) obtain rs where rs:
    "list_all2 (\<lambda>folder r. search_in_folder app_data se w folder query = Inr r) (db_folders (iw_db w)) rs"
    "results = take 100 (sorted_reverse snd (concat rs))"
    by (rule search_folders_Inr)
  have "s = score query (vp p) \<and> (\<exists>r\<in>set (db_files (iw_db w)). fi_path r = p \<and> fi_status r = 1 \<and>
          fi_folder_id r \<in> fo_id ` set (db_folders (iw_db w)))" if "(p, s) \<in> set results" for p s
  proof -
    have "(p, s) \<in> set (concat rs)"
      using that rs(2) by (metis in_set_takeD set_sorted_reverse)
    then obtain r where "r \<in> set rs" and ps: "(p, s) \<in> set r" by auto
    with rs(1) obtain folder where folder: "folder \<in> set (db_folders (iw_db w))"
      "search_in_folder app_data se w folder query = Inr r"
      by (meson list_all2_in_set2_ex)
    from folder(2) show ?thesis
    proof (cases rule: search_in_folder_cases)
      case 1
      with ps show ?thesis by simp
    next
      case (2 entries)
      have "index_faithful vp (index_path_for_folder app_data (fo_id folder)) (fo_id folder) w"
        using assms(3) by (simp add: indexes_faithful_def)
      from folder_answer_sound [OF assms(2) this 2(1) assms(4) ps [unfolded 2(2)]] folder(1)
      show ?thesis by (auto simp: live_def)
    qed
  qed
  moreover have "descending results" unfolding rs(2) by (intro descending_take descending_sorted_reverse)
  ultimately show ?thesis using rs(2) by (auto simp: descending_def)
qed


text \<open>
  Vectors of deleted files are never taken out of an index: once five hundred of them score higher
  than every file that is there, a search of the folder finds nothing.
\<close>
theorem stale_vectors_hide_files:
  assumes "exact_search se score"
    and "dict_get (iw_indexes w) (index_path_for_folder app (fo_id folder)) = Some (FlatIndex (stale @ fresh))"
    and "500 \<le> length stale" and "\<forall>(i, v)\<in>set stale. \<forall>(j, u)\<in>set fresh. score q u < score q v"
    and "\<forall>i p. live (iw_db w) (fo_id folder) i p \<longrightarrow> i \<noteq> -1 \<and> i \<notin> fst ` set stale"
    and "search_in_folder app se w folder q = Inr res"
  shows "res = []"
  using assms(6)
proof (cases rule: search_in_folder_cases)
  case (2 entries)
  with assms(2) have entries: "entries = stale @ fresh" by simp
  let ?f = "\<lambda>(i, v). (i, score q v)"
  from assms(1) [unfolded exact_search_def, rule_format, of q entries 500] obtain hits pad where
    h: "se_search se q entries 500 = hits @ pad" "\<forall>x\<in>set pad. fst x = -1" "length hits = min 500 (length entries)"
      "mset hits \<subseteq># mset (map ?f entries)"
      "\<forall>x\<in>#mset (map ?f entries) - mset hits. \<forall>h\<in>set hits. snd x \<le> snd h" by (elim exE conjE)
  let ?A = "mset (map ?f stale)"
  have all: "mset (map ?f entries) = ?A + mset (map ?f fresh)" by (simp add: entries)
  have size: "size (mset hits) = 500" using h(3) assms(3) by (simp add: entries)
  let ?pairs = "dedupe_pairs [] (sorted_reverse snd (se_search se q entries 500))"
  let ?g = "\<lambda>x. path_of_index (iw_db w) (fo_id folder) (map fst ?pairs) (fst x)"
  have "?g x = None" if x: "x \<in> set ?pairs" for x
  proof (rule ccontr)
    assume "?g x \<noteq> None"
    then obtain p where "?g x = Some p" by blast
    then have live: "live (iw_db w) (fo_id folder) (fst x) p" by (rule path_of_index_live)
    with assms(5) have x1: "fst x \<noteq> -1" "fst x \<notin> fst ` set stale" by blast+
    have "x \<in> set (hits @ pad)" using x set_dedupe h(1) by fastforce
    with x1(1) h(2) have hit: "x \<in> set hits" by auto
    have notA: "x \<notin> set (map ?f stale)" using x1(2) by force
    have "x \<in># mset (map ?f entries)" using mset_subset_eqD [OF h(4)] hit by simp
    with notA have xf: "x \<in> ?f ` set fresh" by (auto simp: entries)
    have "\<not> ?A \<subseteq># mset hits"
    proof
      assume sub: "?A \<subseteq># mset hits"
      have "?A \<noteq> mset hits" using notA hit by (metis set_mset_mset)
      with sub have "?A \<subset># mset hits" unfolding subset_mset.less_le by blast
      then have "size ?A < size (mset hits)" by (rule mset_subset_size)
      with size assms(3) show False by simp
    qed
    then obtain a where a: "count (mset hits) a < count ?A a" by (meson not_le subseteq_mset_def)
    then have "a \<in># mset (map ?f entries) - mset hits" unfolding all by (simp add: in_diff_count)
    with h(5) hit have "snd a \<le> snd x" by blast
    moreover have "a \<in> set (map ?f stale)"
    proof -
      have "0 < count ?A a" using a by linarith
      then show ?thesis by (simp only: count_greater_zero_iff set_mset_mset)
    qed
    with xf assms(4) have "snd x < snd a" by fastforce
    ultimately show False by simp
  qed
  then have none: "?g x \<noteq> Some f" if "x \<in> set ?pairs" for x f using that by simp
  have "set (named_pairs (map ?g ?pairs) ?pairs) = {}" unfolding named_pairs_map using none by blast
  then have "named_pairs (map ?g ?pairs) ?pairs = []" by simp
  with 2(2) show ?thesis by (simp add: folder_answer_def Let_def)
qed

end
