(* ===== verification/IncrementalProps.thy ===== *)
theory IncrementalProps
  imports IncrementalIndex ImageSearch
begin

text \<open>
  How the index follows the file system, and where it loses files: a file moved to another
  registered folder is no longer found, new files that arrive while the model cannot be loaded stay
  pending, and events behind a run of deletions wait for the next event.
\<close>

section \<open>Moved files\<close>

lemma folder_answer_live:
  assumes "exact_search se score" and "(p, s) \<in> set (folder_answer se w folder_id entries q)"
    and "\<And>c. live (iw_db w) folder_id c p \<Longrightarrow> c \<noteq> -1"
  shows "\<exists>c. live (iw_db w) folder_id c p \<and> c \<in> fst ` set entries"
proof -
  let ?pairs = "dedupe_pairs [] (sorted_reverse snd (se_search se q entries 500))"
  let ?g = "\<lambda>x. path_of_index (iw_db w) folder_id (map fst ?pairs) (fst x)"
  from assms(2) have "(p, s) \<in> set (named_pairs (map ?g ?pairs) ?pairs)"
    unfolding folder_answer_def Let_def by (rule in_set_takeD)
  then obtain x where x: "x \<in> set ?pairs" "?g x = Some p" unfolding named_pairs_map by blast
  have live: "live (iw_db w) folder_id (fst x) p" using x(2) by (rule path_of_index_live)
  obtain hits pad where h: "se_search se q entries 500 = hits @ pad" "\<forall>x\<in>set pad. fst x = -1"
    "length hits = min 500 (length entries)"
    "mset hits \<subseteq># mset (map (\<lambda>(i, v). (i, score q v)) entries)"
    using assms(1) by (rule exact_searchE [where q = q and entries = entries and k = 500])
  have "x \<in> set (hits @ pad)" using x(1) set_dedupe h(1) by fastforce
  with h(2) assms(3) [OF live] have "x \<in># mset hits" by auto
  with h(4) have "x \<in> (\<lambda>(i, v). (i, score q v)) ` set entries" by (metis list.set_map mset_subset_eqD set_mset_mset)
  then have "fst x \<in> fst ` set entries" by force
  with live show ?thesis by blast
qed

lemma rename_file_rows:
  assumes "rename_file db ch old new_path dest = Inr (db', ch')" and "x \<in> set (db_files db')"
    and "fi_path x = slashes new_path" and "slashes old \<noteq> slashes new_path"
  shows "\<exists>r\<in>set (db_files db). fi_path r = slashes old \<and> x = r\<lparr>fi_path := slashes new_path, fi_folder_id := dest\<rparr>"
  using assms by (auto simp: rename_file_def Let_def sql_update_def split: if_splits)

text \<open>
  C32. A file that is moved to another registered folder disappears from the search: its row changes
  the folder and stays marked as indexed, its vector stays in the index of the folder it came from,
  and no result of any later search carries its new path until something re-indexes it.
\<close>
theorem moved_file_is_not_found:
  assumes "rename_file (iw_db w) changes (fi_path r) new_path dest = Inr (db', changes')"
    and "slashes (fi_path r) = fi_path r" and "slashes new_path \<noteq> fi_path r"
    and "\<forall>x\<in>set (db_files (iw_db w)). fi_path x = fi_path r \<longrightarrow> x = r"
    and "fi_clip_index r = Some (fi_id r)" and "fi_id r \<noteq> -1"
    and "\<forall>entries. dict_get (iw_indexes w) (index_path_for_folder app_data dest) = Some (FlatIndex entries) \<longrightarrow>
       fi_id r \<notin> fst ` set entries"
    and "exact_search se score" and "search_folders app_data se (w\<lparr>iw_db := db'\<rparr>) query = Inr results"
  shows "slashes new_path \<notin> fst ` set results"
proof
  let ?w = "w\<lparr>iw_db := db'\<rparr>" and ?p = "slashes new_path"
  assume "?p \<in> fst ` set results"
  then obtain s where ps: "(?p, s) \<in> set results" by force
  from assms(9) obtain rs where rs:
    "list_all2 (\<lambda>folder r. search_in_folder app_data se ?w folder query = Inr r) (db_folders (iw_db ?w)) rs"
    "results = take 100 (sorted_reverse snd (concat rs))"
    by (rule search_folders_Inr)
  from ps rs(2) have "(?p, s) \<in> set (concat rs)" by (metis in_set_takeD set_sorted_reverse)
  then obtain a where "a \<in> set rs" and psa: "(?p, s) \<in> set a" by auto
  with rs(1) obtain folder where "search_in_folder app_data se ?w folder query = Inr a"
    by (meson list_all2_in_set2_ex)
  then show False
  proof (cases rule: search_in_folder_cases)
    case 1
    with psa show False by simp
  next
    case (2 entries)
    have live_row: "c = fi_id r \<and> fo_id folder = dest" if live: "live (iw_db ?w) (fo_id folder) c ?p" for c
    proof -
      from live obtain x where x: "x \<in> set (db_files db')" "fi_folder_id x = fo_id folder" "fi_status x = 1"
        "fi_clip_index x = Some c" "fi_path x = ?p" unfolding live_def by auto
      have "slashes (fi_path r) \<noteq> ?p" using assms(2,3) by simp
      from rename_file_rows [OF assms(1) x(1,5) this] assms(2,4) have "x = r\<lparr>fi_path := ?p, fi_folder_id := dest\<rparr>"
        by metis
      with x assms(5) show ?thesis by simp
    qed
    have "c \<noteq> -1" if "live (iw_db ?w) (fo_id folder) c ?p" for c
      using live_row [OF that] assms(6) by simp
    from folder_answer_live [OF assms(8) psa [unfolded 2(2)] this] obtain c where
      c: "live (iw_db ?w) (fo_id folder) c ?p" "c \<in> fst ` set entries" by blast
    have "dict_get (iw_indexes w) (index_path_for_folder app_data dest) = Some (FlatIndex entries)"
      using 2(1) live_row [OF c(1)] by simp
    with assms(7) live_row [OF c(1)] c(2) show False by blast
  qed
qed

section \<open>New files while the model is not there\<close>

text \<open>
  New files that a worker takes while the model cannot be loaded are inserted and never indexed:
  the worker dies of a \<open>KeyError\<close> at the first value of \<open>append_to_index\<close>, leaves the folder as
  partially indexed and does not ask for it to be resumed.
\<close>
theorem created_files_left_pending:
  assumes "\<not> be_ready b" and "be_event b" and "\<not> be_ready_then b" and "slashes p = p" and "p \<in> set files"
    and "fo_id folder \<in> fo_id ` set (db_folders (iw_db w))"
    and "\<forall>r\<in>set (db_files (iw_db w)). \<not> (fi_path r = p \<and> fi_folder_id r = fo_id folder)"
  shows "case index_group b stop app_data folder files w of
    None \<Rightarrow> False
  | Some (w', ended, resumed) \<Rightarrow> ended = CreationRaised (OtherError (KeyError ''files_processed'')) \<and> \<not> resumed \<and>
      (\<exists>r\<in>set (db_files (iw_db w')). fi_path r = p \<and> fi_folder_id r = fo_id folder \<and> fi_status r = 0) \<and>
      (\<forall>f\<in>set (db_folders (iw_db w')). fo_id f = fo_id folder \<longrightarrow> fo_status f = 3)"
proof -
  let ?ins = "\<lambda>fs db. fold (\<lambda>p db. insert_file db p (fo_id folder)) fs db"
  have folders: "db_folders (?ins fs db) = db_folders db" for fs db
    by (induction fs arbitrary: db) (simp_all add: insert_file_def Let_def)
  define fresh where "fresh = (\<lambda>db :: app_db. \<forall>r\<in>set (db_files db). fi_path r = p \<and> fi_folder_id r = fo_id folder \<longrightarrow> fi_status r = 0)"
  define there where "there = (\<lambda>db :: app_db. \<exists>r\<in>set (db_files db). fi_path r = p \<and> fi_folder_id r = fo_id folder \<and> fi_status r = 0)"
  have keep: "fresh (insert_file db q (fo_id folder)) \<and> (there db \<longrightarrow> there (insert_file db q (fo_id folder))) \<and>
      (slashes q = p \<longrightarrow> there (insert_file db q (fo_id folder)))" if "fresh db" for db q
  proof (cases "list_ex (\<lambda>r. fi_path r = slashes q \<and> fi_folder_id r = fo_id folder) (db_files db)")
    case True
    with that show ?thesis
      by (fastforce simp: insert_file_def sql_update_def fresh_def there_def list_ex_iff)
  next
    case False
    with that show ?thesis by (auto simp: insert_file_def fresh_def there_def)
  qed
  have "fresh db \<Longrightarrow> (p \<in> set fs \<or> there db) \<Longrightarrow> there (?ins fs db)" for fs db
    by (induction fs arbitrary: db) (use keep assms(4) in auto)
  moreover have "fresh (update_folder_status (iw_db w) (fo_id folder) 3)"
    using assms(7) by (auto simp: fresh_def update_folder_status_def)
  ultimately have "there (?ins files (update_folder_status (iw_db w) (fo_id folder) 3))"
    using assms(5) by blast
  with assms(1-3) show ?thesis
    by (auto simp: index_group_def Let_def folders there_def update_folder_status_def sql_update_def)
qed

section \<open>The buffer\<close>

text \<open>
  A run of deletions at the front of the buffer is handled in the thread of the event that found
  it, and nobody schedules what comes behind: the remaining events wait in the buffer, without a
  worker whose end would take them, until another event arrives.
\<close>
theorem deletions_strand_later_events:
  assumes "in_buffer s = run @ rest" and "run \<noteq> []" and "\<forall>e\<in>set run. ev_type e = ''deleted''"
    and "rest \<noteq> []" and "ev_type (hd rest) \<noteq> ''deleted''" and "in_workers s = []"
  shows "in_buffer (try_schedule_next_batch isfile app_data s) = rest \<and>
    in_workers (try_schedule_next_batch isfile app_data s) = []"
proof -
  from assms(2,3) obtain e es where run: "run = e # es" "ev_type e = ''deleted''" by (cases run) auto
  have "event_run (in_buffer s) = run"
    using assms(1,3,4,5) run by (cases rest) (simp_all add: event_run_def takeWhile_append2)
  with assms run show ?thesis by (simp add: try_schedule_next_batch_def Let_def)
qed

end
