(* ===== verification/IndexWorkers.thy ===== *)
theory IndexWorkers
  imports ImageIndex
begin

text \<open>
  \<^verbatim>\<open>index/index_worker.py\<close>: the thread that walks a folder and builds its index, and
  the queue of folders that wait for the one worker that may run.
\<close>

section \<open>Walking a folder\<close>

text \<open>
  What \<^verbatim>\<open>os.scandir\<close> finds, as a tree: an entry has its path, the answers of
  \<^verbatim>\<open>is_dir\<close> and \<^verbatim>\<open>is_file\<close> (without following links), and what scanning it
  gives; a scan fails at once or lists its entries and may fail after the last one it returned.
\<close>

datatype dir_entry =
    DirEntry (de_path: string) (de_is_dir: "os_error + bool") (de_is_file: "os_error + bool") (de_listing: listing)
  and listing = ScanError os_error | Listing "dir_entry list" "os_error option"

text \<open>
  \<open>stop_after\<close>: how many times the worker reads its flag before it finds it set, \<open>None\<close> if nobody
  stops it.  Once set, the flag stays set.
\<close>

definition is_stopped :: "nat option \<Rightarrow> nat \<Rightarrow> bool" where
  "is_stopped stop_after checks = (case stop_after of None \<Rightarrow> False | Some k \<Rightarrow> k \<le> checks)"

record traversal =
  tr_db :: app_db
  tr_issue_count :: nat
  tr_checks :: nat

definition is_non_fatal_traversal_error :: "os_error \<Rightarrow> bool" where
  "is_non_fatal_traversal_error error = (oe_errno error \<in> {Some 13, Some 1, Some 2, Some 20})"

text \<open>The handlers of an \<^verbatim>\<open>OSError\<close>: counted and swallowed, or raised again.\<close>

definition handle_traversal_error :: "os_error \<Rightarrow> traversal \<Rightarrow> traversal \<times> os_error option" where
  "handle_traversal_error error st =
     (if is_non_fatal_traversal_error error then (st\<lparr>tr_issue_count := tr_issue_count st + 1\<rparr>, None)
      else (st, Some error))"

definition count_check :: "traversal \<Rightarrow> traversal" where
  "count_check st = st\<lparr>tr_checks := tr_checks st + 1\<rparr>"

text \<open>
  \<open>traverse_entries\<close> is the loop over the entries of one directory; its flag tells whether it
  returned because the worker was stopped.
\<close>

fun traverse_dir :: "nat option \<Rightarrow> int \<Rightarrow> listing \<Rightarrow> traversal \<Rightarrow> traversal \<times> os_error option"
and traverse_entries :: "nat option \<Rightarrow> int \<Rightarrow> dir_entry list \<Rightarrow> traversal \<Rightarrow> traversal \<times> os_error option \<times> bool"
and traverse_entry :: "nat option \<Rightarrow> int \<Rightarrow> dir_entry \<Rightarrow> traversal \<Rightarrow> traversal \<times> os_error option"
where
  "traverse_dir stop folder_id (ScanError error) st =
     (if is_stopped stop (tr_checks st) then (count_check st, None)
      else handle_traversal_error error (count_check st))"
| "traverse_dir stop folder_id (Listing entries scan_error) st =
     (if is_stopped stop (tr_checks st) then (count_check st, None)
      else case traverse_entries stop folder_id entries (count_check st) of
          (st', Some error, _) \<Rightarrow> handle_traversal_error error st'
        | (st', None, True) \<Rightarrow> (st', None)
        | (st', None, False) \<Rightarrow>
            (case scan_error of None \<Rightarrow> (st', None) | Some error \<Rightarrow> handle_traversal_error error st'))"
| "traverse_entries stop folder_id [] st = (st, None, False)"
| "traverse_entries stop folder_id (entry # entries) st =
     (if is_stopped stop (tr_checks st) then (count_check st, None, True)
      else case traverse_entry stop folder_id entry (count_check st) of
          (st', Some error) \<Rightarrow>
            (case handle_traversal_error error st' of
               (st'', Some e) \<Rightarrow> (st'', Some e, False)
             | (st'', None) \<Rightarrow> traverse_entries stop folder_id entries st'')
        | (st', None) \<Rightarrow> traverse_entries stop folder_id entries st')"
| "traverse_entry stop folder_id (DirEntry filepath is_dir is_file listing) st =
     (case is_dir of
        Inl error \<Rightarrow> (st, Some error)
      | Inr True \<Rightarrow>
          if get_folder_by_path (tr_db st) (with_slash filepath) \<noteq> None then (st, None)
          else traverse_dir stop folder_id listing st
      | Inr False \<Rightarrow>
          (case is_file of
             Inl error \<Rightarrow> (st, Some error)
           | Inr True \<Rightarrow>
               if is_image_file filepath then (st\<lparr>tr_db := insert_file (tr_db st) filepath folder_id\<rparr>, None)
               else (st, None)
           | Inr False \<Rightarrow> (st, None)))"

section \<open>The worker\<close>

datatype worker_end = WorkerFinished | WorkerStopped | WorkerRaised

text \<open>The status the worker leaves in its folder: 2 fully indexed, 3 partially.\<close>

definition finish_folder :: "int \<Rightarrow> nat \<Rightarrow> progress list \<Rightarrow> 'v index_world \<Rightarrow> 'v index_world" where
  "finish_folder folder_id issue_count yielded w =
     w\<lparr>iw_db := update_folder_status (iw_db w) folder_id
        (if list_all pr_batch_result yielded \<and> issue_count = 0 then 2 else 3)\<rparr>"

text \<open>
  \<open>_run_impl\<close> without its \<^verbatim>\<open>finally\<close>.  The worker reads its flag once after the walk
  and at every value that \<open>build_index\<close> yields; \<open>None\<close> is a build that never ends.
\<close>

definition run_worker ::
    "nat option \<Rightarrow> ('i, 'v) build_env \<Rightarrow> string \<Rightarrow> folder_row \<Rightarrow> listing \<Rightarrow> 'v index_world
       \<Rightarrow> ('v index_world \<times> worker_end) option" where
  "run_worker stop b app_data folder root w =
     (let folder_id = fo_id folder
      in case traverse_dir stop folder_id root
                \<lparr>tr_db = update_folder_status (iw_db w) folder_id 0, tr_issue_count = 0, tr_checks = 0\<rparr> of
           (st, Some error) \<Rightarrow> Some (w\<lparr>iw_db := tr_db st\<rparr>, WorkerRaised)
         | (st, None) \<Rightarrow>
             if is_stopped stop (tr_checks st) then Some (w\<lparr>iw_db := tr_db st\<rparr>, WorkerStopped)
             else let w1 = w\<lparr>iw_db := update_folder_status (tr_db st) folder_id 1\<rparr>;
                      stops = (\<lambda>n. is_stopped stop (tr_checks st + 1 + n))
                  in case build_index b stops (index_path_for_folder app_data folder_id) folder_id w1 of
                       None \<Rightarrow> None
                     | Some (w2, yielded, Some err) \<Rightarrow> Some (w2, WorkerRaised)
                     | Some (w2, yielded, None) \<Rightarrow>
                         if yielded \<noteq> [] \<and> stops (length yielded - 1) then Some (w2, WorkerStopped)
                         else Some (finish_folder folder_id (tr_issue_count st) yielded w2, WorkerFinished))"

section \<open>The queue of workers\<close>

definition max_workers :: nat where
  "max_workers = 1"

record index_worker =
  wk_id :: nat
  wk_folder :: folder_row
  wk_stopped :: bool

text \<open>Every worker object has an identity of its own, \<open>iq_next\<close> is the next one.\<close>

record index_queue =
  iq_workers :: "index_worker list"
  iq_pending :: "folder_row list"
  iq_next :: nat

text \<open>\<open>_index_workers\<close> never holds more than one worker, so its order does not matter.\<close>

definition add_index_worker :: "folder_row option \<Rightarrow> index_queue \<Rightarrow> index_queue \<times> index_worker option" where
  "add_index_worker folder q =
     (let popped = folder = None \<and> iq_pending q \<noteq> [];
          chosen = (if popped then Some (last (iq_pending q)) else folder);
          q = (if popped then q\<lparr>iq_pending := butlast (iq_pending q)\<rparr> else q)
      in case chosen of
           None \<Rightarrow> (q, None)
         | Some f \<Rightarrow>
             (case find (\<lambda>w. fo_id (wk_folder w) = fo_id f) (iq_workers q) of
                Some existing_worker \<Rightarrow> (q, Some existing_worker)
              | None \<Rightarrow>
                  if length (iq_workers q) < max_workers
                  then let worker = \<lparr>wk_id = iq_next q, wk_folder = f, wk_stopped = False\<rparr>
                       in (q\<lparr>iq_workers := sort_key (fo_added_at \<circ> wk_folder) (iq_workers q @ [worker]),
                             iq_pending := filter (\<lambda>p. fo_id p \<noteq> fo_id f) (iq_pending q),
                             iq_next := iq_next q + 1\<rparr>, Some worker)
                  else if list_ex (\<lambda>p. fo_id p = fo_id f) (iq_pending q) then (q, None)
                  else (q\<lparr>iq_pending := iq_pending q @ [f]\<rparr>, None)))"

definition folders_to_resume :: "(string \<Rightarrow> bool) \<Rightarrow> bool \<Rightarrow> app_db \<Rightarrow> folder_row list" where
  "folders_to_resume path_exists is_init db =
     filter (\<lambda>f. fo_status f \<in> (if is_init then {0, 1, 2, 3} else {0, 1}) \<and> path_exists (fo_path f))
       (get_all_folders db)"

definition resume_index_workers ::
    "(string \<Rightarrow> bool) \<Rightarrow> bool \<Rightarrow> bool \<Rightarrow> app_db \<Rightarrow> index_queue \<Rightarrow> index_queue" where
  "resume_index_workers path_exists model_failed is_init db q =
     (if model_failed then q
      else let folders = folders_to_resume path_exists is_init db
           in if folders = [] then fst (add_index_worker None q)
              else fold (\<lambda>folder q. fst (add_index_worker (Some folder) q)) folders q)"

text \<open>The \<^verbatim>\<open>finally\<close> of a worker: \<open>db\<close> is the database when it ends.\<close>

definition worker_ended ::
    "(string \<Rightarrow> bool) \<Rightarrow> bool \<Rightarrow> app_db \<Rightarrow> index_worker \<Rightarrow> index_queue \<Rightarrow> index_queue" where
  "worker_ended path_exists model_failed db worker q =
     (if \<not> list_ex (\<lambda>w. wk_id w = wk_id worker) (iq_workers q) then q
      else let q = q\<lparr>iq_workers := filter (\<lambda>w. wk_id w \<noteq> wk_id worker) (iq_workers q)\<rparr>
           in case get_folder_by_path db (fo_path (wk_folder worker)) of
                None \<Rightarrow> resume_index_workers path_exists model_failed False db q
              | Some folder \<Rightarrow>
                  if fo_status folder = 2 then resume_index_workers path_exists model_failed False db q else q)"

text \<open>The subscribers of the event bus, and the end of the program.\<close>

definition stop_deleted_worker_for_folder :: "string \<Rightarrow> index_queue \<Rightarrow> index_queue \<times> index_worker option" where
  "stop_deleted_worker_for_folder folder_path q =
     (let normalized_path = slashes (with_slash folder_path)
      in case find (\<lambda>w. fo_path (wk_folder w) = normalized_path) (iq_workers q) of
           None \<Rightarrow> (q, None)
         | Some worker \<Rightarrow>
             (q\<lparr>iq_workers := filter (\<lambda>w. wk_id w \<noteq> wk_id worker) (iq_workers q)\<rparr>,
              Some (worker\<lparr>wk_stopped := True\<rparr>)))"

definition on_model_failure :: "index_queue \<Rightarrow> index_queue" where
  "on_model_failure q =
     q\<lparr>iq_pending := [], iq_workers := map (wk_stopped_update (\<lambda>_. True)) (iq_workers q)\<rparr>"

definition deinit_index_workers :: "index_queue \<Rightarrow> index_queue \<times> index_worker list" where
  "deinit_index_workers q =
     (q\<lparr>iq_workers := []\<rparr>, map (wk_stopped_update (\<lambda>_. True)) (iq_workers q))"

end
