(* ===== verification/IndexWorkersProps.thy ===== *)
theory IndexWorkersProps
  imports IndexWorkers ImageIndexProps
begin

text \<open>
  The index workers: the walk of a folder inserts the images it should, the queue keeps its
  invariant, every folder gets its turn while workers complete, and the cases where that fails.
\<close>

section \<open>The walk\<close>

text \<open>
  The reference: the image files of a listing in the order of the walk, without the directories
  that are registered folders and without entries that cannot be examined, and the number of the
  latter.
\<close>

fun walk_images :: "(string \<Rightarrow> bool) \<Rightarrow> listing \<Rightarrow> string list"
and entry_images :: "(string \<Rightarrow> bool) \<Rightarrow> dir_entry \<Rightarrow> string list"
where
  "walk_images registered (ScanError e) = []"
| "walk_images registered (Listing entries e) = concat (map (entry_images registered) entries)"
| "entry_images registered (DirEntry p is_dir is_file l) =
     (if is_dir = Inr True then (if registered p then [] else walk_images registered l)
      else if is_dir = Inr False \<and> is_file = Inr True \<and> is_image_file p then [p] else [])"

fun walk_issues :: "(string \<Rightarrow> bool) \<Rightarrow> listing \<Rightarrow> nat"
and entry_issues :: "(string \<Rightarrow> bool) \<Rightarrow> dir_entry \<Rightarrow> nat"
where
  "walk_issues registered (ScanError e) = 1"
| "walk_issues registered (Listing entries e) =
     sum_list (map (entry_issues registered) entries) + (if e = None then 0 else 1)"
| "entry_issues registered (DirEntry p is_dir is_file l) =
     (case is_dir of Inl e \<Rightarrow> 1
      | Inr d \<Rightarrow> if d then (if registered p then 0 else walk_issues registered l)
                 else (case is_file of Inl e \<Rightarrow> 1 | Inr _ \<Rightarrow> 0))"

fun walk_tolerated :: "listing \<Rightarrow> bool"
and entry_tolerated :: "dir_entry \<Rightarrow> bool"
where
  "walk_tolerated (ScanError e) = is_non_fatal_traversal_error e"
| "walk_tolerated (Listing entries e) =
     (list_all entry_tolerated entries \<and> (case e of None \<Rightarrow> True | Some x \<Rightarrow> is_non_fatal_traversal_error x))"
| "entry_tolerated (DirEntry p is_dir is_file l) =
     ((case is_dir of Inl e \<Rightarrow> is_non_fatal_traversal_error e | Inr _ \<Rightarrow> True) \<and>
      (case is_file of Inl e \<Rightarrow> is_non_fatal_traversal_error e | Inr _ \<Rightarrow> True) \<and> walk_tolerated l)"

abbreviation insert_files :: "int \<Rightarrow> string list \<Rightarrow> app_db \<Rightarrow> app_db" where
  "insert_files folder_id paths db \<equiv> fold (\<lambda>p db. insert_file db p folder_id) paths db"

definition registered_folder :: "app_db \<Rightarrow> string \<Rightarrow> bool" where
  "registered_folder db p \<longleftrightarrow> get_folder_by_path db (with_slash p) \<noteq> None"

lemma insert_file_folders [simp]: "db_folders (insert_file db p f) = db_folders db"
  by (simp add: insert_file_def Let_def)

lemma registered_insert_files [simp]: "registered_folder (insert_files f ps db) = registered_folder db"
proof -
  have "db_folders (insert_files f ps db) = db_folders db" by (induction ps arbitrary: db) simp_all
  then show ?thesis by (simp add: fun_eq_iff registered_folder_def get_folder_by_path_def)
qed

definition walked :: "int \<Rightarrow> string list \<Rightarrow> nat \<Rightarrow> traversal \<Rightarrow> traversal \<Rightarrow> bool" where
  "walked folder_id images issues st st' \<longleftrightarrow>
     tr_db st' = insert_files folder_id images (tr_db st) \<and> tr_issue_count st' = tr_issue_count st + issues"

lemma walked_trans:
  "walked f a m st st1 \<Longrightarrow> walked f b n st1 st2 \<Longrightarrow> walked f (a @ b) (m + n) st st2"
  by (simp add: walked_def)

lemma walked_check [simp]: "walked f a n (count_check st) st' = walked f a n st st'"
  by (simp add: walked_def count_check_def)

lemma count_check_db [simp]: "tr_db (count_check st) = tr_db st"
  by (simp add: count_check_def)

lemma handle_tolerated:
  "is_non_fatal_traversal_error e \<Longrightarrow>
     \<exists>st'. handle_traversal_error e st = (st', None) \<and> walked f [] 1 st st' \<and> tr_db st' = tr_db st"
  by (simp add: handle_traversal_error_def walked_def)

definition entry_walks :: "int \<Rightarrow> (string \<Rightarrow> bool) \<Rightarrow> dir_entry \<Rightarrow> bool" where
  "entry_walks f reg x \<longleftrightarrow> (\<forall>st. reg = registered_folder (tr_db st) \<longrightarrow>
     (\<exists>st'. traverse_entry None f x st = (st', None) \<and> walked f (entry_images reg x) (entry_issues reg x) st st') \<or>
     (\<exists>e. traverse_entry None f x st = (st, Some e) \<and> is_non_fatal_traversal_error e \<and>
        entry_images reg x = [] \<and> entry_issues reg x = 1))"

definition dir_walks :: "int \<Rightarrow> (string \<Rightarrow> bool) \<Rightarrow> listing \<Rightarrow> bool" where
  "dir_walks f reg l \<longleftrightarrow> (\<forall>st. reg = registered_folder (tr_db st) \<longrightarrow>
     (\<exists>st'. traverse_dir None f l st = (st', None) \<and> walked f (walk_images reg l) (walk_issues reg l) st st'))"

lemma walked_registered: "walked f a n st st' \<Longrightarrow> registered_folder (tr_db st') = registered_folder (tr_db st)"
  by (simp add: walked_def)

lemma entries_walk:
  assumes "\<And>x. x \<in> set entries \<Longrightarrow> entry_walks f reg x" and "reg = registered_folder (tr_db st)"
  shows "\<exists>st'. traverse_entries None f entries st = (st', None, False) \<and>
    walked f (concat (map (entry_images reg) entries)) (sum_list (map (entry_issues reg) entries)) st st'"
  using assms
proof (induction entries arbitrary: st)
  case Nil
  then show ?case by (simp add: walked_def)
next
  case (Cons x entries)
  have reg: "reg = registered_folder (tr_db (count_check st))" using Cons.prems(2) by simp
  have rest: "\<exists>st'. traverse_entries None f entries st1 = (st', None, False) \<and>
      walked f (entry_images reg x @ concat (map (entry_images reg) entries))
        (entry_issues reg x + sum_list (map (entry_issues reg) entries)) st st'"
    if "walked f (entry_images reg x) (entry_issues reg x) st st1" for st1
    using Cons.IH [of st1] Cons.prems that walked_trans [OF that] walked_registered [OF that] by fastforce
  from Cons.prems(1) [of x] reg consider
    (ok) st1 where "traverse_entry None f x (count_check st) = (st1, None)"
      "walked f (entry_images reg x) (entry_issues reg x) (count_check st) st1"
    | (err) e where "traverse_entry None f x (count_check st) = (count_check st, Some e)"
      "is_non_fatal_traversal_error e" "entry_images reg x = []" "entry_issues reg x = 1"
    unfolding entry_walks_def by (metis list.set_intros(1))
  then show ?case
  proof cases
    case ok
    with rest [of st1] show ?thesis by (auto simp: is_stopped_def)
  next
    case err
    from handle_tolerated [OF err(2), of "count_check st" f] obtain st1 where
      st1: "handle_traversal_error e (count_check st) = (st1, None)" "walked f [] 1 (count_check st) st1" by blast
    with rest [of st1] err show ?thesis by (auto simp: is_stopped_def)
  qed
qed

lemma walk_correct:
  "walk_tolerated l \<Longrightarrow> dir_walks f reg l" "entry_tolerated x \<Longrightarrow> entry_walks f reg x"
proof (induction l and x)
  case (ScanError e)
  then show ?case
    using handle_tolerated [of e _ f] by (fastforce simp: dir_walks_def is_stopped_def)
next
  case (Listing entries e)
  show ?case
    unfolding dir_walks_def
  proof (intro allI impI)
    fix st :: traversal
    assume reg: "reg = registered_folder (tr_db st)"
    have "reg = registered_folder (tr_db (count_check st))" using reg by simp
    from entries_walk [OF _ this] Listing obtain st1 where
      st1: "traverse_entries None f entries (count_check st) = (st1, None, False)"
        "walked f (concat (map (entry_images reg) entries)) (sum_list (map (entry_issues reg) entries)) st st1"
      by (force simp: list_all_iff)
    show "\<exists>st'. traverse_dir None f (Listing entries e) st = (st', None) \<and>
      walked f (walk_images reg (Listing entries e)) (walk_issues reg (Listing entries e)) st st'"
    proof (cases e)
      case None
      with st1 show ?thesis by (simp add: is_stopped_def)
    next
      case (Some x)
      with Listing.prems have "is_non_fatal_traversal_error x" by simp
      from handle_tolerated [OF this, of st1 f] obtain st2 where
        "handle_traversal_error x st1 = (st2, None)" "walked f [] 1 st1 st2" by blast
      with walked_trans [OF st1(2)] st1(1) Some show ?thesis by (fastforce simp: is_stopped_def)
    qed
  qed
next
  case (DirEntry p is_dir is_file l)
  then show ?case
    by (fastforce simp: entry_walks_def dir_walks_def walked_def registered_folder_def split: sum.splits bool.splits)
qed

text \<open>
  C31. A walk that nobody stops and that meets no fatal error inserts exactly the images of the
  reference in their order, goes past every entry that cannot be examined and counts each of
  them once.
\<close>
theorem walk_inserts_images:
  assumes "walk_tolerated root"
  shows "\<exists>checks. traverse_dir None folder_id root \<lparr>tr_db = db, tr_issue_count = 0, tr_checks = 0\<rparr> =
    (\<lparr>tr_db = insert_files folder_id (walk_images (registered_folder db) root) db,
       tr_issue_count = walk_issues (registered_folder db) root, tr_checks = checks\<rparr>, None)"
  using walk_correct(1) [OF assms, of folder_id "registered_folder db"]
  unfolding dir_walks_def walked_def
  by (metis (mono_tags, lifting) add_0 traversal.select_convs(1,2) traversal.surjective old.unit.exhaust)

section \<open>What the worker reports\<close>

text \<open>Every value that a build with a ready model yields reports success.\<close>

lemma build_rounds_yield_success:
  assumes "build_rounds es stops path folder_id tot n b w ys = Some z" and "list_all pr_batch_result ys"
  shows "list_all pr_batch_result (snd z)"
  using assms
proof (induction rule: build_rounds.raw_induct [rotated, consumes 1, case_names step])
  case (step rounds es stops path folder_id tot n b w ys z)
  obtain w' r where r: "build_round (es n) path folder_id tot b w = (w', r)" by fastforce
  show ?case
  proof (cases r)
    case (RoundContinue b')
    with step(2) r have "rounds es stops path folder_id tot (n + 1) b' w' ys = Some z" by simp
    from step(1) [OF this step.prems] show ?thesis .
  next
    case (RoundYield p)
    with r have p: "pr_batch_result p"
      by (auto simp: build_round_def Let_def split: if_splits prod.splits)
    show ?thesis
    proof (cases "stops n")
      case True
      with step(2) r RoundYield step.prems p show ?thesis by auto
    next
      case False
      with step(2) r RoundYield
      have "rounds es stops path folder_id tot (n + 1) (pr_batch_end p) w' (ys @ [p]) = Some z" by simp
      from step(1) [OF this] step.prems p show ?thesis by simp
    qed
  qed (use step(2) r step.prems in auto)
qed

lemma build_index_yields_success:
  assumes "build_index b stops path folder_id w = Some (w', ys, err)" and "be_ready b \<or> be_ready_then b"
  shows "list_all pr_batch_result ys"
proof -
  obtain w1 err1 where c: "create_index_if_needed (be_model b) (be_write b) path w = (w1, err1)" by fastforce
  show ?thesis
  proof (cases err1)
    case None
    with c assms show ?thesis by (auto simp: build_index_def split: if_splits dest!: build_rounds_yield_success)
  next
    case (Some x)
    with c assms show ?thesis by (auto simp: build_index_def split: if_splits)
  qed
qed

text \<open>
  A worker that finishes with a ready model and without a skipped path marks its folder as fully
  indexed, whatever happened to the batches: a batch that fails ends the build before it yields,
  and the worker only counts the values that were yielded.  The files behind the failed batch stay
  pending in a folder that counts as complete.
\<close>
theorem failed_batches_still_complete:
  assumes "run_worker stop b app_data folder root w = Some (w', WorkerFinished)"
    and "be_ready b \<or> be_ready_then b" and "walk_tolerated root" and "stop = None"
    and "walk_issues (registered_folder (update_folder_status (iw_db w) (fo_id folder) 0)) root = 0"
  shows "\<forall>f\<in>set (db_folders (iw_db w')). fo_id f = fo_id folder \<longrightarrow> fo_status f = 2"
proof -
  let ?db = "update_folder_status (iw_db w) (fo_id folder) 0"
  obtain checks where walk: "traverse_dir None (fo_id folder) root \<lparr>tr_db = ?db, tr_issue_count = 0, tr_checks = 0\<rparr> =
    (\<lparr>tr_db = insert_files (fo_id folder) (walk_images (registered_folder ?db) root) ?db,
       tr_issue_count = walk_issues (registered_folder ?db) root, tr_checks = checks\<rparr>, None)"
    using walk_inserts_images [OF assms(3)] by blast
  let ?path = "index_path_for_folder app_data (fo_id folder)"
  let ?w = "w\<lparr>iw_db := update_folder_status (insert_files (fo_id folder) (walk_images (registered_folder ?db) root) ?db)
    (fo_id folder) 1\<rparr>"
  obtain w2 ys err where build: "build_index b (\<lambda>n. False) ?path (fo_id folder) ?w = Some (w2, ys, err)"
    and w': "w' = finish_folder (fo_id folder) 0 ys w2"
  proof (cases "build_index b (\<lambda>n. False) ?path (fo_id folder) ?w")
    case None
    with walk assms(1,4,5) show thesis by (simp add: run_worker_def is_stopped_def)
  next
    case (Some z)
    obtain w2 ys err where z: "z = (w2, ys, err)" by (metis prod_cases3)
    with walk assms(1,4,5) Some that show thesis
      by (cases err) (simp_all add: run_worker_def is_stopped_def)
  qed
  have "list_all pr_batch_result ys" using build_index_yields_success [OF build assms(2)] .
  with w' show ?thesis by (auto simp: finish_folder_def update_folder_status_def sql_update_def)
qed

section \<open>The queue\<close>

definition worker_ids :: "index_queue \<Rightarrow> int list" where
  "worker_ids q = map (fo_id \<circ> wk_folder) (iq_workers q)"

definition pending_ids :: "index_queue \<Rightarrow> int list" where
  "pending_ids q = map fo_id (iq_pending q)"

text \<open>
  At most one worker runs, no folder waits twice, the folder of the running worker does not
  wait, and the identities of the workers are behind the counter.
\<close>

definition queue_ok :: "index_queue \<Rightarrow> bool" where
  "queue_ok q \<longleftrightarrow> length (iq_workers q) \<le> 1 \<and> distinct (pending_ids q) \<and>
     set (worker_ids q) \<inter> set (pending_ids q) = {} \<and> (\<forall>w\<in>set (iq_workers q). wk_id w < iq_next q)"

lemma sort_key_single [simp]: "sort_key k [x] = [x]"
  by simp

lemma distinct_map_butlast: "distinct (map f xs) \<Longrightarrow> distinct (map f (butlast xs))"
  by (simp add: map_butlast distinct_butlast)

lemma butlast_without_last: "distinct (map f xs) \<Longrightarrow> xs \<noteq> [] \<Longrightarrow> f (last xs) \<notin> f ` set (butlast xs)"
  by (induction xs rule: rev_induct) auto

text \<open>Adding a given folder: it works or waits afterwards, and nothing else changes.\<close>

lemma add_Some:
  assumes "queue_ok q"
  shows "queue_ok (fst (add_index_worker (Some f) q))"
    and "iq_workers (fst (add_index_worker (Some f) q)) \<noteq> []"
    and "set (worker_ids (fst (add_index_worker (Some f) q))) \<union> set (pending_ids (fst (add_index_worker (Some f) q)))
      = insert (fo_id f) (set (worker_ids q) \<union> set (pending_ids q))"
proof -
  let ?q = "fst (add_index_worker (Some f) q)"
  have "queue_ok ?q \<and> iq_workers ?q \<noteq> [] \<and>
    set (worker_ids ?q) \<union> set (pending_ids ?q) = insert (fo_id f) (set (worker_ids q) \<union> set (pending_ids q))"
  proof (cases "iq_workers q")
    case Nil
    with assms show ?thesis
      by (auto simp: add_index_worker_def Let_def max_workers_def queue_ok_def worker_ids_def pending_ids_def
          distinct_map_filter)
  next
    case (Cons w ws)
    with assms have one: "iq_workers q = [w]" by (simp add: queue_ok_def)
    show ?thesis
    proof (cases "fo_id (wk_folder w) = fo_id f")
      case True
      with assms one show ?thesis by (auto simp: add_index_worker_def worker_ids_def)
    next
      case new: False
      show ?thesis
      proof (cases "fo_id f \<in> set (pending_ids q)")
        case True
        then have "list_ex (\<lambda>p. fo_id p = fo_id f) (iq_pending q)" by (auto simp: list_ex_iff pending_ids_def)
        with assms one new True show ?thesis by (auto simp: add_index_worker_def max_workers_def)
      next
        case False
        then have "\<not> list_ex (\<lambda>p. fo_id p = fo_id f) (iq_pending q)"
          by (simp add: list_ex_iff pending_ids_def image_iff) metis
        with assms one new False show ?thesis
          by (auto simp: add_index_worker_def max_workers_def queue_ok_def worker_ids_def pending_ids_def)
      qed
    qed
  qed
  then show "queue_ok ?q" "iq_workers ?q \<noteq> []"
    "set (worker_ids ?q) \<union> set (pending_ids ?q) = insert (fo_id f) (set (worker_ids q) \<union> set (pending_ids q))"
    by blast+
qed

lemma add_None:
  assumes "queue_ok q"
  shows "queue_ok (fst (add_index_worker None q))"
    and "iq_pending q \<noteq> [] \<Longrightarrow> iq_workers (fst (add_index_worker None q)) \<noteq> []"
    and "set (worker_ids (fst (add_index_worker None q))) \<union> set (pending_ids (fst (add_index_worker None q)))
      = set (worker_ids q) \<union> set (pending_ids q)"
proof -
  let ?q = "fst (add_index_worker None q)"
  have "queue_ok ?q \<and> (iq_pending q \<noteq> [] \<longrightarrow> iq_workers ?q \<noteq> []) \<and>
    set (worker_ids ?q) \<union> set (pending_ids ?q) = set (worker_ids q) \<union> set (pending_ids q)"
  proof (cases "iq_pending q = []")
    case True
    with assms show ?thesis by (simp add: add_index_worker_def)
  next
    case False
    let ?p = "q\<lparr>iq_pending := butlast (iq_pending q)\<rparr>" and ?f = "last (iq_pending q)"
    have ok: "queue_ok ?p"
      using assms by (auto simp: queue_ok_def worker_ids_def pending_ids_def distinct_map_butlast dest: in_set_butlastD)
    have step: "?q = fst (add_index_worker (Some ?f) ?p)"
      using False by (simp add: add_index_worker_def Let_def)
    have "set (pending_ids q) = insert (fo_id ?f) (set (pending_ids ?p))"
      using False by (simp add: pending_ids_def)
        (metis append_butlast_last_id image_insert list.set(2) rotate1.simps(2) set_rotate1)
    then show ?thesis unfolding step using add_Some [OF ok, of ?f] by (auto simp: worker_ids_def)
  qed
  then show "queue_ok ?q" "iq_pending q \<noteq> [] \<Longrightarrow> iq_workers ?q \<noteq> []"
    "set (worker_ids ?q) \<union> set (pending_ids ?q) = set (worker_ids q) \<union> set (pending_ids q)"
    by blast+
qed

lemma add_all:
  assumes "queue_ok q"
  shows "queue_ok (fold (\<lambda>f q. fst (add_index_worker (Some f) q)) fs q) \<and>
    (fs \<noteq> [] \<longrightarrow> iq_workers (fold (\<lambda>f q. fst (add_index_worker (Some f) q)) fs q) \<noteq> []) \<and>
    set (worker_ids (fold (\<lambda>f q. fst (add_index_worker (Some f) q)) fs q))
      \<union> set (pending_ids (fold (\<lambda>f q. fst (add_index_worker (Some f) q)) fs q))
      = fo_id ` set fs \<union> set (worker_ids q) \<union> set (pending_ids q)"
  using assms
proof (induction fs arbitrary: q)
  case (Cons f fs)
  have "fs \<noteq> [] \<or> fs = []" by simp
  with Cons.IH [OF add_Some(1) [OF Cons.prems], of f] add_Some(2,3) [OF Cons.prems, of f] show ?case by auto
qed simp

lemma resume_queue:
  assumes "queue_ok q"
  shows "queue_ok (resume_index_workers pe mf init db q)"
    and "set (worker_ids (resume_index_workers pe False init db q)) \<union> set (pending_ids (resume_index_workers pe False init db q))
      = fo_id ` set (folders_to_resume pe init db) \<union> set (worker_ids q) \<union> set (pending_ids q)"
    and "iq_workers (resume_index_workers pe False init db q) = [] \<Longrightarrow>
      iq_pending q = [] \<and> folders_to_resume pe init db = []"
proof -
  let ?fs = "folders_to_resume pe init db"
  have "queue_ok (resume_index_workers pe mf init db q) \<and>
    set (worker_ids (resume_index_workers pe False init db q)) \<union> set (pending_ids (resume_index_workers pe False init db q))
      = fo_id ` set ?fs \<union> set (worker_ids q) \<union> set (pending_ids q) \<and>
    (iq_workers (resume_index_workers pe False init db q) = [] \<longrightarrow> iq_pending q = [] \<and> ?fs = [])"
  proof (cases "?fs = []")
    case True
    with add_None [OF assms] assms show ?thesis by (auto simp: resume_index_workers_def)
  next
    case False
    with add_all [OF assms, of ?fs] assms show ?thesis by (simp add: resume_index_workers_def)
  qed
  then show "queue_ok (resume_index_workers pe mf init db q)"
    "set (worker_ids (resume_index_workers pe False init db q)) \<union> set (pending_ids (resume_index_workers pe False init db q))
      = fo_id ` set ?fs \<union> set (worker_ids q) \<union> set (pending_ids q)"
    "iq_workers (resume_index_workers pe False init db q) = [] \<Longrightarrow> iq_pending q = [] \<and> ?fs = []"
    by blast+
qed

lemma queue_ok_remove: "queue_ok q \<Longrightarrow> queue_ok (q\<lparr>iq_workers := filter P (iq_workers q)\<rparr>)"
  by (auto simp: queue_ok_def worker_ids_def pending_ids_def intro: le_trans [OF length_filter_le])

text \<open>Everything that happens to the queue.\<close>

inductive queue_step :: "index_queue \<Rightarrow> index_queue \<Rightarrow> bool" where
  queue_add: "queue_step q (fst (add_index_worker folder q))"
| queue_resume: "queue_step q (resume_index_workers pe mf init db q)"
| queue_ended: "queue_step q (worker_ended pe mf db worker q)"
| queue_deleted: "queue_step q (fst (stop_deleted_worker_for_folder path q))"
| queue_model_failure: "queue_step q (on_model_failure q)"
| queue_deinit: "queue_step q (fst (deinit_index_workers q))"

lemma queue_step_ok: "queue_step q q' \<Longrightarrow> queue_ok q \<Longrightarrow> queue_ok q'"
proof (induction rule: queue_step.induct)
  case (queue_add q folder)
  then show ?case using add_None(1) add_Some(1) by (cases folder) auto
next
  case (queue_resume q pe mf init db)
  then show ?case by (rule resume_queue(1))
next
  case (queue_ended q pe mf db worker)
  then show ?case
    using resume_queue(1) [OF queue_ok_remove] queue_ok_remove
    by (auto simp: worker_ended_def Let_def split: option.splits)
next
  case (queue_deleted q path)
  then show ?case using queue_ok_remove by (auto simp: stop_deleted_worker_for_folder_def Let_def split: option.splits)
next
  case (queue_model_failure q)
  then show ?case by (auto simp: on_model_failure_def queue_ok_def pending_ids_def)
next
  case (queue_deinit q)
  then show ?case by (auto simp: deinit_index_workers_def queue_ok_def worker_ids_def pending_ids_def)
qed

text \<open>
  Whatever is added, resumed, ended, stopped or shut down: at most one worker is registered at a
  time, no folder waits twice and the folder being indexed does not wait.
\<close>
theorem queue_invariant:
  assumes "queue_step\<^sup>*\<^sup>* q q'" and "queue_ok q"
  shows "queue_ok q'"
  using assms by (induction rule: rtranclp_induct) (auto intro: queue_step_ok)

section \<open>Every folder gets its turn\<close>

text \<open>The running worker completes: its folder gets the status 2, then its \<^verbatim>\<open>finally\<close> runs.\<close>

definition complete_worker :: "(string \<Rightarrow> bool) \<Rightarrow> app_db \<times> index_queue \<Rightarrow> app_db \<times> index_queue" where
  "complete_worker path_exists s =
     (case iq_workers (snd s) of
        [] \<Rightarrow> s
      | w # _ \<Rightarrow>
          let db = update_folder_status (fst s) (fo_id (wk_folder w)) 2
          in (db, worker_ended path_exists False db w (snd s)))"

text \<open>No folder's path is another one's with a slash behind it.\<close>

definition paths_apart :: "app_db \<Rightarrow> bool" where
  "paths_apart db \<longleftrightarrow> (\<forall>f\<in>set (db_folders db). \<forall>g\<in>set (db_folders db).
     fo_path g \<in> set (dts_folder_path_variants (fo_path f)) \<longrightarrow> fo_id g = fo_id f)"

definition unfinished :: "(string \<Rightarrow> bool) \<Rightarrow> app_db \<Rightarrow> index_queue \<Rightarrow> int set" where
  "unfinished path_exists db q =
     fo_id ` set (folders_to_resume path_exists False db) \<union> set (worker_ids q) \<union> set (pending_ids q)"

definition serving :: "(string \<Rightarrow> bool) \<Rightarrow> app_db \<times> index_queue \<Rightarrow> bool" where
  "serving path_exists s \<longleftrightarrow> (case s of (db, q) \<Rightarrow>
     queue_ok q \<and> paths_apart db \<and>
     (iq_workers q = [] \<longrightarrow> unfinished path_exists db q = {}) \<and>
     (\<forall>w\<in>set (iq_workers q). \<exists>f\<in>set (db_folders db). fo_id f = fo_id (wk_folder w) \<and> fo_path f = fo_path (wk_folder w)) \<and>
     (\<forall>p\<in>set (iq_pending q). \<exists>f\<in>set (db_folders db). fo_id f = fo_id p \<and> fo_path f = fo_path p) \<and>
     (\<forall>f\<in>set (db_folders db). path_exists (fo_path f) \<and> fo_status f \<noteq> 2 \<longrightarrow> fo_id f \<in> unfinished path_exists db q))"

definition queue_folders :: "index_queue \<Rightarrow> folder_row set" where
  "queue_folders q = wk_folder ` set (iq_workers q) \<union> set (iq_pending q)"

lemma add_folders: "queue_folders (fst (add_index_worker f q)) \<subseteq> queue_folders q \<union> set_option f"
proof -
  have some: "queue_folders (fst (add_index_worker (Some g) q)) \<subseteq> insert g (queue_folders q)" for g q
    by (auto simp: add_index_worker_def Let_def queue_folders_def split: option.splits)
  show ?thesis
  proof (cases f)
    case (Some g)
    with some [of g q] show ?thesis by simp
  next
    case None
    show ?thesis
    proof (cases "iq_pending q = []")
      case True
      with None show ?thesis by (simp add: add_index_worker_def)
    next
      case False
      let ?p = "q\<lparr>iq_pending := butlast (iq_pending q)\<rparr>"
      have "fst (add_index_worker None q) = fst (add_index_worker (Some (last (iq_pending q))) ?p)"
        using False by (simp add: add_index_worker_def Let_def)
      with some [of "last (iq_pending q)" ?p] False None show ?thesis
        by (auto simp: queue_folders_def dest: in_set_butlastD)
    qed
  qed
qed

lemma resume_folders:
  "queue_folders (resume_index_workers pe mf init db q) \<subseteq> queue_folders q \<union> set (folders_to_resume pe init db)"
proof -
  have all: "queue_folders (fold (\<lambda>f q. fst (add_index_worker (Some f) q)) fs q) \<subseteq> queue_folders q \<union> set fs" for fs
  proof (induction fs arbitrary: q)
    case (Cons f fs)
    from Cons.IH [of "fst (add_index_worker (Some f) q)"] add_folders [of "Some f" q] show ?case by auto
  qed simp
  show ?thesis using all add_folders [of None q] by (simp add: resume_index_workers_def Let_def)
qed

lemma get_folder_by_path_in:
  "get_folder_by_path db p = Some f \<Longrightarrow> f \<in> set (db_folders db) \<and> fo_path f \<in> set (dts_folder_path_variants p)"
  unfolding get_folder_by_path_def by (auto dest: first_max_by_Some)

lemma serving_step:
  assumes "serving pe (db, q)" and "iq_workers q = w # ws"
  shows "serving pe (complete_worker pe (db, q)) \<and>
    unfinished pe (fst (complete_worker pe (db, q))) (snd (complete_worker pe (db, q)))
      \<subseteq> unfinished pe db q - {fo_id (wk_folder w)}"
proof -
  let ?a = "fo_id (wk_folder w)"
  let ?db = "update_folder_status db ?a 2" and ?q = "q\<lparr>iq_workers := []\<rparr>"
  let ?r = "resume_index_workers pe False False ?db ?q"
  let ?F = "fo_id ` set (folders_to_resume pe False db)" and ?F' = "fo_id ` set (folders_to_resume pe False ?db)"
  from assms have ok: "queue_ok q" and apart: "paths_apart db" by (simp_all add: serving_def)
  from ok assms(2) have one: "iq_workers q = [w]" by (simp add: queue_ok_def)
  have rows: "db_folders ?db = map (\<lambda>f. if fo_id f = ?a then f\<lparr>fo_status := 2\<rparr> else f) (db_folders db)"
    by (simp add: update_folder_status_def sql_update_def)
  have apart': "paths_apart ?db" using apart unfolding paths_apart_def rows by auto
  obtain f0 where f0: "f0 \<in> set (db_folders db)" "fo_id f0 = ?a" "fo_path f0 = fo_path (wk_folder w)"
    using assms one by (auto simp: serving_def)
  have done2: "fo_status f = 2" if "get_folder_by_path ?db (fo_path (wk_folder w)) = Some f" for f
  proof -
    have "f0\<lparr>fo_status := 2\<rparr> \<in> set (db_folders ?db)" unfolding rows using f0(1,2) by force
    with apart' get_folder_by_path_in [OF that] f0 have "fo_id f = ?a"
      unfolding paths_apart_def by fastforce
    with get_folder_by_path_in [OF that] show ?thesis unfolding rows by auto
  qed
  have step: "complete_worker pe (db, q) = (?db, ?r)"
    using one done2 by (auto simp: complete_worker_def worker_ended_def Let_def split: option.splits)
  have okq: "queue_ok ?q" using ok by (simp add: queue_ok_def worker_ids_def pending_ids_def)
  have ids: "set (worker_ids ?r) \<union> set (pending_ids ?r) = ?F' \<union> set (pending_ids q)"
    using resume_queue(2) [OF okq, of pe False ?db] by (simp add: worker_ids_def pending_ids_def)
  have F': "?F' \<subseteq> ?F - {?a}" "\<And>f. f \<in> set (db_folders db) \<Longrightarrow> fo_id f \<noteq> ?a \<Longrightarrow> fo_id f \<in> ?F \<Longrightarrow> fo_id f \<in> ?F'"
    unfolding folders_to_resume_def get_all_folders_def rows by force+
  have pend: "?a \<notin> set (pending_ids q)" using ok one by (auto simp: queue_ok_def worker_ids_def)
  have less: "unfinished pe ?db ?r \<subseteq> unfinished pe db q - {?a}"
    using F'(1) ids pend unfolding unfinished_def by blast
  have empty: "unfinished pe ?db ?r = {}" if "iq_workers ?r = []"
    using resume_queue(3) [OF okq that] ids unfolding unfinished_def
    by (auto simp: pending_ids_def)
  have in_db: "\<exists>g\<in>set (db_folders ?db). fo_id g = fo_id f \<and> fo_path g = fo_path f" if "f \<in> queue_folders ?r" for f
  proof -
    from that resume_folders [of pe False False ?db ?q]
    consider "f \<in> set (iq_pending q)" | "f \<in> set (db_folders ?db)"
      by (auto simp: queue_folders_def folders_to_resume_def get_all_folders_def)
    then show ?thesis
    proof cases
      case 1
      with assms(1) obtain g where "g \<in> set (db_folders db)" "fo_id g = fo_id f" "fo_path g = fo_path f"
        by (auto simp: serving_def)
      then show ?thesis
        unfolding rows set_map
        by (intro bexI [of _ "if fo_id g = ?a then g\<lparr>fo_status := 2\<rparr> else g"]) auto
    qed blast
  qed
  have left: "fo_id f \<in> unfinished pe ?db ?r"
    if f: "f \<in> set (db_folders ?db)" "pe (fo_path f)" "fo_status f \<noteq> 2" for f
  proof -
    from f have f': "f \<in> set (db_folders db)" "fo_id f \<noteq> ?a" unfolding rows by (auto split: if_splits)
    with assms(1) f(2,3) have "fo_id f \<in> unfinished pe db q" by (auto simp: serving_def)
    with f' one have "fo_id f \<in> ?F \<or> fo_id f \<in> set (pending_ids q)" by (auto simp: unfinished_def worker_ids_def)
    with F'(2) [OF f'] ids show ?thesis unfolding unfinished_def by blast
  qed
  have "serving pe (?db, ?r)"
    using resume_queue(1) [OF okq] apart' empty in_db left by (auto simp: serving_def queue_folders_def)
  with step less show ?thesis by simp
qed

lemma complete_all:
  assumes "serving pe s" and "card (unfinished pe (fst s) (snd s)) \<le> n" and "finite (unfinished pe (fst s) (snd s))"
  shows "serving pe ((complete_worker pe ^^ n) s) \<and>
    unfinished pe (fst ((complete_worker pe ^^ n) s)) (snd ((complete_worker pe ^^ n) s)) = {}"
  using assms
proof (induction n arbitrary: s)
  case 0
  then show ?case by simp
next
  case (Suc n)
  let ?t = "complete_worker pe s"
  obtain db q where s: "s = (db, q)" by fastforce
  have "serving pe ?t \<and> card (unfinished pe (fst ?t) (snd ?t)) \<le> n \<and> finite (unfinished pe (fst ?t) (snd ?t))"
  proof (cases "iq_workers q")
    case Nil
    with Suc.prems(1) s have "?t = s" "unfinished pe db q = {}" by (simp_all add: complete_worker_def serving_def)
    with Suc.prems s show ?thesis by simp
  next
    case (Cons w ws)
    let ?a = "fo_id (wk_folder w)"
    from serving_step [OF Suc.prems(1) [unfolded s] Cons] s
    have t: "serving pe ?t" "unfinished pe (fst ?t) (snd ?t) \<subseteq> unfinished pe db q - {?a}" by simp_all
    have a: "?a \<in> unfinished pe db q" using Cons by (simp add: unfinished_def worker_ids_def)
    have fin: "finite (unfinished pe db q)" using Suc.prems(3) s by simp
    with t(2) have "card (unfinished pe (fst ?t) (snd ?t)) \<le> card (unfinished pe db q - {?a})"
      by (meson card_mono finite_Diff)
    also have "\<dots> \<le> n" using a fin Suc.prems(2) s by simp
    finally show ?thesis using t fin by (auto dest: finite_subset)
  qed
  with Suc.IH [of ?t] show ?case by (simp add: funpow_swap1)
qed

text \<open>
  C18. After the start of the program every registered folder that exists is indexed once as many
  workers have completed as there are folders: while workers complete, each one hands over to the
  next folder, and in the end none runs and none waits.
\<close>
theorem every_folder_gets_indexed:
  assumes "paths_apart db" and "iq_workers q = []" and "iq_pending q = []"
    and "\<forall>f\<in>set (db_folders db). fo_status f \<in> {0, 1, 2, 3}"
  shows "case (complete_worker pe ^^ length (db_folders db)) (db, resume_index_workers pe False True db q) of
    (db', q') \<Rightarrow> iq_workers q' = [] \<and> iq_pending q' = [] \<and>
      (\<forall>f\<in>set (db_folders db'). pe (fo_path f) \<longrightarrow> fo_status f = 2)"
proof -
  have ok: "queue_ok q" using assms(2,3) by (simp add: queue_ok_def worker_ids_def pending_ids_def)
  let ?r = "resume_index_workers pe False True db q"
  let ?n = "length (db_folders db)"
  have ids: "set (worker_ids ?r) \<union> set (pending_ids ?r) = fo_id ` set (folders_to_resume pe True db)"
    using resume_queue(2) [OF ok, of pe True db] assms(2,3) by (simp add: worker_ids_def pending_ids_def)
  have all: "set (folders_to_resume pe True db) = {f \<in> set (db_folders db). pe (fo_path f)}"
    using assms(4) by (auto simp: folders_to_resume_def get_all_folders_def)
  have sub: "set (folders_to_resume pe False db) \<subseteq> set (folders_to_resume pe True db)"
    by (auto simp: folders_to_resume_def)
  have unf: "unfinished pe db ?r = fo_id ` set (folders_to_resume pe True db)"
    unfolding unfinished_def using ids sub by blast
  have in_db: "f \<in> set (db_folders db)" if "f \<in> queue_folders ?r" for f
    using resume_folders [of pe False True db q] that all assms(2,3) by (auto simp: queue_folders_def)
  have none: "unfinished pe db ?r = {}" if "iq_workers ?r = []"
    using resume_queue(3) [OF ok that] unf by simp
  have serving: "serving pe (db, ?r)"
    using resume_queue(1) [OF ok] assms(1) none in_db unf all by (auto simp: serving_def queue_folders_def)
  have "unfinished pe db ?r \<subseteq> fo_id ` set (db_folders db)" unfolding unf all by auto
  then have "card (unfinished pe db ?r) \<le> card (fo_id ` set (db_folders db))" by (intro card_mono) auto
  also have "\<dots> \<le> ?n" by (rule le_trans [OF card_image_le card_length]) simp
  finally have card: "card (unfinished pe db ?r) \<le> ?n" .
  have fin: "finite (unfinished pe db ?r)" unfolding unf by simp
  obtain db' q' where end1: "(complete_worker pe ^^ ?n) (db, ?r) = (db', q')" by fastforce
  with complete_all [OF serving, of ?n] card fin
  have final: "serving pe (db', q')" "unfinished pe db' q' = {}" by simp_all
  then have "iq_workers q' = []" "iq_pending q' = []"
    by (simp_all add: unfinished_def worker_ids_def pending_ids_def)
  with final end1 show ?thesis by (auto simp: serving_def)
qed

text \<open>
  A worker that does not complete hands over to nobody: when its folder ends as partially indexed
  (or its thread dies before), the queue is left without a worker while other folders wait.
\<close>
theorem incomplete_worker_starves_queue:
  assumes "queue_ok q" and "iq_workers q = [w]"
    and "get_folder_by_path db (fo_path (wk_folder w)) = Some f" and "fo_status f \<noteq> 2"
  shows "worker_ended pe mf db w q = q\<lparr>iq_workers := []\<rparr>"
  using assms by (simp add: worker_ended_def)

end
