(* ===== verification/ModelLoading.thy ===== *)
theory ModelLoading
  imports Prelude
begin

text \<open>
  The life of the search model: the state, the events and the preload thread of
  \<^verbatim>\<open>index/dts_index.py\<close>, and the download thread of
  \<^verbatim>\<open>index/dts_model_downloader.py\<close> as far as its events reach the preload.

  \<open>_set_model_failed\<close> and \<open>publish_model_load_failure\<close> assign \<open>_model_state\<close> without declaring it
  global: the assignment makes a local variable and the state of the module stays as it is.
\<close>

section \<open>State\<close>

definition MODEL_STATE_LOADING :: string where "MODEL_STATE_LOADING = ''loading''"
definition MODEL_STATE_READY :: string where "MODEL_STATE_READY = ''ready''"
definition MODEL_STATE_FAILED :: string where "MODEL_STATE_FAILED = ''failed''"

text \<open>
  \<open>ml_model\<close> tells whether a model is loaded; \<open>ml_starting\<close> and \<open>ml_waiting\<close> count the preload
  threads that have not run yet and that wait for the download; \<open>ml_downloads\<close> counts the download
  threads.
\<close>

record model_state =
  ml_state :: string
  ml_model :: bool
  ml_loaded_event :: bool
  ml_load_failed_event :: bool
  ml_reload_ready :: bool
  ml_downloaded_event :: bool
  ml_download_failed_event :: bool
  ml_download_active :: bool
  ml_starting :: nat
  ml_waiting :: nat
  ml_downloads :: nat

definition model_init :: model_state where
  "model_init = \<lparr>ml_state = MODEL_STATE_READY, ml_model = False, ml_loaded_event = False,
     ml_load_failed_event = False, ml_reload_ready = False, ml_downloaded_event = False,
     ml_download_failed_event = False, ml_download_active = False, ml_starting = 0, ml_waiting = 0,
     ml_downloads = 0\<rparr>"

definition model_is_ready :: "model_state \<Rightarrow> bool" where
  "model_is_ready s = (ml_state s = MODEL_STATE_READY)"

definition clear_load_events :: "model_state \<Rightarrow> model_state" where
  "clear_load_events s = s\<lparr>ml_loaded_event := False, ml_load_failed_event := False, ml_reload_ready := False\<rparr>"

section \<open>Failures and reloads\<close>

definition set_model_failed :: "model_state \<Rightarrow> model_state" where
  "set_model_failed s = s\<lparr>ml_load_failed_event := True, ml_reload_ready := False\<rparr>"

definition publish_model_load_failure :: "model_state \<Rightarrow> model_state" where
  "publish_model_load_failure s = s\<lparr>ml_load_failed_event := True, ml_reload_ready := False\<rparr>"

definition start_preload :: "model_state \<Rightarrow> model_state" where
  "start_preload s =
     (if ml_state s = MODEL_STATE_LOADING then s
      else clear_load_events (s\<lparr>ml_state := MODEL_STATE_LOADING, ml_model := False, ml_starting := ml_starting s + 1\<rparr>))"

definition retry_model_download :: "model_state \<Rightarrow> model_state" where
  "retry_model_download s =
     (if ml_downloaded_event s \<and> \<not> ml_download_failed_event s then s
      else if ml_download_active s
        then (if \<not> ml_download_failed_event s then s
              else s\<lparr>ml_download_failed_event := False, ml_downloaded_event := False\<rparr>)
      else s\<lparr>ml_download_failed_event := False, ml_downloaded_event := False, ml_download_active := True,
             ml_downloads := ml_downloads s + 1\<rparr>)"

definition reload_model :: "model_state \<Rightarrow> model_state \<times> bool" where
  "reload_model s =
     (if ml_state s = MODEL_STATE_LOADING then (s, False)
      else (start_preload (retry_model_download
              (clear_load_events (s\<lparr>ml_state := MODEL_STATE_LOADING, ml_model := False\<rparr>))), True))"

section \<open>The threads\<close>

definition preload_begin :: "model_state \<Rightarrow> model_state" where
  "preload_begin s = clear_load_events (s\<lparr>ml_state := MODEL_STATE_LOADING\<rparr>)"

text \<open>
  The three attempts: \<open>oks\<close> tells which of them succeed.  After the last failure, and once more
  behind the loop, the preload reports the failure.
\<close>

fun load_attempts :: "nat \<Rightarrow> bool list \<Rightarrow> model_state \<Rightarrow> model_state" where
  "load_attempts 0 oks s = s"
| "load_attempts (Suc n) oks s =
     (if oks \<noteq> [] \<and> hd oks then s\<lparr>ml_model := True, ml_state := MODEL_STATE_READY, ml_loaded_event := True\<rparr>
      else load_attempts n (tl oks) (if n = 0 then set_model_failed s else s))"

definition preload_load :: "bool list \<Rightarrow> model_state \<Rightarrow> model_state" where
  "preload_load oks s =
     (let s1 = load_attempts 3 oks (s\<lparr>ml_model := False, ml_loaded_event := False, ml_state := MODEL_STATE_LOADING\<rparr>)
      in if ml_state s1 = MODEL_STATE_READY then s1\<lparr>ml_reload_ready := True\<rparr> else set_model_failed s1)"

text \<open>
  The download ends with the event of its outcome; \<open>offline_mode\<close> starts the thread at once,
  otherwise the event is simply set.
\<close>

definition download_ended :: "bool \<Rightarrow> model_state \<Rightarrow> model_state" where
  "download_ended ok s =
     (if ok then s\<lparr>ml_downloaded_event := True, ml_download_active := False, ml_downloads := ml_downloads s - 1\<rparr>
      else s\<lparr>ml_download_failed_event := True, ml_download_active := False, ml_downloads := ml_downloads s - 1\<rparr>)"

definition download_init :: "bool \<Rightarrow> model_state \<Rightarrow> model_state" where
  "download_init offline_mode s =
     (if offline_mode then s\<lparr>ml_downloads := ml_downloads s + 1\<rparr> else s\<lparr>ml_downloaded_event := True\<rparr>)"

inductive model_step :: "model_state \<Rightarrow> model_state \<Rightarrow> bool" where
  ms_start: "model_step s (start_preload s)"
| ms_reload: "model_step s (fst (reload_model s))"
| ms_publish_failure: "model_step s (publish_model_load_failure s)"
| ms_retry: "model_step s (retry_model_download s)"
| ms_begin: "0 < ml_starting s \<Longrightarrow>
    model_step s ((preload_begin s)\<lparr>ml_starting := ml_starting s - 1, ml_waiting := ml_waiting s + 1\<rparr>)"
| ms_wait_again: "0 < ml_waiting s \<Longrightarrow> ml_downloaded_event s \<Longrightarrow> ml_download_failed_event s \<Longrightarrow>
    model_step s (s\<lparr>ml_downloaded_event := False\<rparr>)"
| ms_load: "0 < ml_waiting s \<Longrightarrow> ml_downloaded_event s \<Longrightarrow> \<not> ml_download_failed_event s \<Longrightarrow>
    model_step s ((preload_load oks s)\<lparr>ml_waiting := ml_waiting s - 1\<rparr>)"
| ms_download: "0 < ml_downloads s \<Longrightarrow> model_step s (download_ended ok s)"
| ms_download_init: "model_step s (download_init offline_mode s)"

inductive_cases model_stepE: "model_step s s'"

lemmas model_defs = start_preload_def reload_model_def publish_model_load_failure_def set_model_failed_def
  retry_model_download_def preload_begin_def preload_load_def download_ended_def download_init_def
  clear_load_events_def MODEL_STATE_LOADING_def MODEL_STATE_READY_def MODEL_STATE_FAILED_def

section \<open>What the model can do\<close>

lemma load_attempts_state:
  "ml_state (load_attempts n oks s) = (if \<exists>i<n. i < length oks \<and> oks ! i then MODEL_STATE_READY else ml_state s)"
proof (induction n arbitrary: oks s)
  case (Suc n)
  show ?case
  proof (cases oks)
    case Nil
    with Suc show ?thesis by (simp add: set_model_failed_def)
  next
    case (Cons x xs)
    have "(\<exists>i<Suc n. i < length oks \<and> oks ! i) \<longleftrightarrow> x \<or> (\<exists>i<n. i < length xs \<and> xs ! i)"
      unfolding Cons by (metis Suc_less_eq length_Cons less_Suc_eq_0_disj nth_Cons_0 nth_Cons_Suc zero_less_Suc)
    with Suc [of xs] Cons show ?thesis by (cases x; cases n) (auto simp: set_model_failed_def)
  qed
qed simp

lemma load_attempts_threads [simp]:
  "ml_starting (load_attempts n oks s) = ml_starting s" "ml_waiting (load_attempts n oks s) = ml_waiting s"
  by (induction n arbitrary: oks s) (auto simp: set_model_failed_def)

definition model_stuck :: "model_state \<Rightarrow> bool" where
  "model_stuck s \<longleftrightarrow> ml_state s = MODEL_STATE_LOADING \<and> ml_starting s = 0 \<and> ml_waiting s = 0"

lemma model_stuck_step: "model_step s s' \<Longrightarrow> model_stuck s \<Longrightarrow> model_stuck s'"
  by (induction rule: model_step.induct) (auto simp: model_stuck_def model_defs)

lemma model_stuck_run: "model_step\<^sup>*\<^sup>* s s' \<Longrightarrow> model_stuck s \<Longrightarrow> model_stuck s'"
  by (induction rule: rtranclp_induct) (auto intro: model_stuck_step)

lemma model_stuck_not_ready: "model_stuck s \<Longrightarrow> \<not> model_is_ready s"
  by (simp add: model_stuck_def model_is_ready_def MODEL_STATE_LOADING_def MODEL_STATE_READY_def)

text \<open>
  A preload whose three attempts fail is final: whatever reloads, retries, downloads and failure
  reports follow, the model never becomes ready again while the program runs.
\<close>
theorem failed_load_is_final:
  assumes "ml_waiting s = 1" and "ml_starting s = 0" and "\<forall>i<3. i < length oks \<longrightarrow> \<not> oks ! i"
    and "model_step\<^sup>*\<^sup>* ((preload_load oks s)\<lparr>ml_waiting := ml_waiting s - 1\<rparr>) s'"
  shows "\<not> model_is_ready s' \<and> snd (reload_model s') = False"
proof -
  have "model_stuck ((preload_load oks s)\<lparr>ml_waiting := ml_waiting s - 1\<rparr>)"
    using assms(1-3) load_attempts_state [of 3 oks]
    by (auto simp: model_stuck_def preload_load_def Let_def set_model_failed_def MODEL_STATE_READY_def MODEL_STATE_LOADING_def)
  with assms(4) have "model_stuck s'" by (rule model_stuck_run)
  then show ?thesis using model_stuck_not_ready by (simp add: reload_model_def model_stuck_def)
qed

text \<open>
  Reloading a model that is ready ends it: the reload puts the state to loading itself, so the
  preload it asks for is not started, and the model never becomes ready again.
\<close>
theorem reload_of_ready_model_is_final:
  assumes "model_is_ready s" and "ml_starting s = 0" and "ml_waiting s = 0"
    and "model_step\<^sup>*\<^sup>* (fst (reload_model s)) s'"
  shows "snd (reload_model s) = True \<and> \<not> model_is_ready s'"
proof -
  have "model_stuck (fst (reload_model s))"
    using assms(1-3) by (auto simp: model_stuck_def model_is_ready_def model_defs)
  with assms(4) have "model_stuck s'" by (rule model_stuck_run)
  with assms(1) show ?thesis
    using model_stuck_not_ready by (simp add: reload_model_def model_is_ready_def model_defs)
qed

text \<open>The state for a failed model is never reached: nothing the program does records a failure.\<close>
theorem failure_is_never_recorded:
  assumes "model_step\<^sup>*\<^sup>* model_init s"
  shows "ml_state s = MODEL_STATE_READY \<or> ml_state s = MODEL_STATE_LOADING"
  using assms
proof (induction rule: rtranclp_induct)
  case base
  then show ?case by (simp add: model_init_def)
next
  case (step s s')
  from step(2,3) show ?case
    by (induction rule: model_step.induct)
      (auto simp: start_preload_def reload_model_def publish_model_load_failure_def set_model_failed_def
        retry_model_download_def preload_begin_def preload_load_def download_ended_def download_init_def
        clear_load_events_def load_attempts_state Let_def)
qed

end
