(* ===== verification/IndexScenarios.thy ===== *)
theory IndexScenarios
  imports IncrementalProps IndexWorkersProps ModelLoading
begin

text \<open>
  A small library of photos on which the theorems about the image index are evaluated: the image
  at a path is the path, its vector is the length of the path, and a query scores a vector with
  itself.
\<close>

section \<open>A folder with two pending files\<close>

definition photo_row :: "int \<Rightarrow> string \<Rightarrow> int option \<Rightarrow> int \<Rightarrow> file_row" where
  "photo_row i path clip status =
     \<lparr>fi_id = i, fi_path = path, fi_folder_id = 1, fi_clip_index = clip, fi_status = status\<rparr>"

definition photo_db :: "folder_row list \<Rightarrow> file_row list \<Rightarrow> app_db" where
  "photo_db folders files = \<lparr>db_config = [], db_folders = folders, db_next_folder_id = 10, db_files = files,
     db_next_file_id = 10, db_devices = [], db_mobile_folders = [], db_sessions = [], db_assets = []\<rparr>"

definition photo_folder :: "int \<Rightarrow> string \<Rightarrow> int \<Rightarrow> folder_row" where
  "photo_folder i path status = \<lparr>fo_id = i, fo_path = path, fo_status = status, fo_added_at = ''2026-01-01''\<rparr>"

definition photo_round :: "(string, int) round_env" where
  "photo_round = \<lparr>re_ready = True, re_ready_after = True, re_model = True, re_submit = True,
     re_opened = (\<lambda>p. if p = ''/p/bad.jpg'' then ImageInvalid else OpenedImage p), re_stack = (\<lambda>_. True),
     re_future = (\<lambda>_. True), re_encode = (\<lambda>ts. Some (map (int \<circ> length) ts)), re_write = True,
     re_backup = True, re_time = 7\<rparr>"

definition photo_build :: "(string, int) build_env" where
  "photo_build = \<lparr>be_ready = True, be_event = True, be_ready_then = True, be_model = True, be_write = True,
     be_rounds = (\<lambda>_. photo_round)\<rparr>"

definition pending_world :: "int index_world" where
  "pending_world = \<lparr>iw_db = photo_db [photo_folder 1 ''/p'' 1]
       [photo_row 1 ''/p/a.jpg'' None 0, photo_row 2 ''/p/bad.jpg'' None 0], iw_indexes = []\<rparr>"

lemmas photo_defs = photo_row_def photo_db_def photo_folder_def pending_world_def

lemma build_index_terminates_witness:
  "\<exists>r. build_index photo_build (\<lambda>_. False) ''/d/1.faiss'' 1 pending_world = Some r"
  by (rule build_index_terminates) (simp_all add: pending_clean_def photo_defs photo_build_def)

lemma photo_round_good: "recovery_completes photo_round \<and> encodes_as photo_round (\<lambda>p. p) (int \<circ> length)"
  by (auto simp: recovery_completes_def encodes_as_def photo_round_def split: if_splits)

lemma pending_world_faithful: "indexes_faithful vp ''/d'' pending_world"
  by (auto simp: indexes_faithful_def index_faithful_def files_ok_def files_unique_def photo_defs)


text \<open>A file that was skipped by a second worker after it was indexed, and appears again.\<close>

definition indexed_world :: "int index_world" where
  "indexed_world = \<lparr>iw_db = photo_db [photo_folder 1 ''/p'' 2] [photo_row 1 ''/p/a.jpg'' (Some 1) 1],
     iw_indexes = [(''/d/1.faiss'', FlatIndex [(1, 8)])]\<rparr>"

lemma slashes_a [simp]: "slashes ''/p/a.jpg'' = ''/p/a.jpg''"
  by (simp add: slashes_def replace_char_def)

lemma reinserted_file_spins_witness:
  "build_index photo_build (\<lambda>_. False) ''/d/1.faiss'' 1
     (indexed_world\<lparr>iw_db := insert_file (mark_files_skipped (iw_db indexed_world) [1]) ''/p/a.jpg'' 1\<rparr>) = None"
  using reinserted_file_spins [of indexed_world "photo_row 1 ''/p/a.jpg'' (Some 1) 1" "''/d/1.faiss''" photo_build "\<lambda>_. False"]
  by (simp add: indexed_world_def photo_defs photo_build_def files_ok_def files_unique_def dict_get_def)

section \<open>A search\<close>

text \<open>A search that sorts all the entries by their scores and pads with the identifier -1.\<close>

definition sorting_search :: "string \<Rightarrow> (int \<times> int) list \<Rightarrow> nat \<Rightarrow> (int \<times> int) list" where
  "sorting_search q entries k = take k (sorted_reverse snd entries) @ [(-1, 0)]"

definition photo_search :: "(int, int) search_env" where
  "photo_search = \<lparr>se_state = ''ready'', se_exists = (\<lambda>_. True), se_model = True, se_search = sorting_search\<rparr>"

lemma photo_search_exact: "exact_search photo_search (\<lambda>q v. v)"
  unfolding exact_search_def
proof (intro allI exI conjI)
  fix q :: string and entries :: "(int \<times> int) list" and k
  let ?hits = "take k (sorted_reverse snd entries)"
  let ?rest = "drop k (sorted_reverse snd entries)"
  have all: "map (\<lambda>(i, v). (i, v)) entries = entries" by (simp add: case_prod_beta')
  have parts: "mset entries = mset ?hits + mset ?rest"
    by (metis append_take_drop_id mset_append mset_sorted_reverse)
  show "se_search photo_search q entries k = ?hits @ [(-1, 0)]" by (simp add: photo_search_def sorting_search_def)
  show "\<forall>x\<in>set [(-1 :: int, 0 :: int)]. fst x = -1" by simp
  show "length ?hits = min k (length entries)" by (simp add: min.commute)
  show "mset ?hits \<subseteq># mset (map (\<lambda>(i, v). (i, v)) entries)" unfolding all parts by simp
  have "descending (?hits @ ?rest)" by simp
  then have "\<forall>x\<in>set ?rest. \<forall>h\<in>set ?hits. snd x \<le> snd h"
    unfolding descending_def sorted_wrt_append by blast
  then show "\<forall>x\<in>#mset (map (\<lambda>(i, v). (i, v)) entries) - mset ?hits. \<forall>h\<in>set ?hits. snd x \<le> snd h"
    unfolding all parts by simp
qed

lemma path_d1: "index_path_for_folder ''/d'' 1 = ''/d/1.faiss''"
  by code_simp

lemma indexed_world_faithful: "indexes_faithful (int \<circ> length) ''/d'' indexed_world"
proof -
  have "index_faithful (int \<circ> length) (index_path_for_folder ''/d'' f) f indexed_world" for f
  proof (cases "f = 1")
    case True
    then show ?thesis
      by (simp add: index_faithful_def row_faithful_def indexed_world_def photo_defs path_d1 dict_get_def)
  next
    case False
    then show ?thesis by (simp add: index_faithful_def indexed_world_def photo_defs)
  qed
  then show ?thesis by (simp add: indexes_faithful_def indexed_world_def photo_defs files_ok_def files_unique_def)
qed

lemma photo_search_result:
  "search_folders ''/d'' photo_search indexed_world ''cat'' = Inr [(''/p/a.jpg'', 8)]"
  by (simp add: search_folders_def photo_search_def get_all_folders_def indexed_world_def photo_defs
      search_in_folder_def path_d1 dict_get_def query_index_def get_folder_by_id_def fetchone_def
      query_internal_def load_index_def TOP_K_def sorting_search_def sorted_reverse_def
      get_files_by_clip_indices_def named_pairs_def map_filter_simps Let_def)

lemma search_results_sound_witness:
  "(8 :: int) = (int \<circ> length) ''/p/a.jpg'' \<and>
     (\<exists>r\<in>set (db_files (iw_db indexed_world)). fi_path r = ''/p/a.jpg'' \<and> fi_status r = 1 \<and>
        fi_folder_id r \<in> fo_id ` set (db_folders (iw_db indexed_world)))"
proof -
  have "\<forall>r\<in>set (db_files (iw_db indexed_world)). fi_id r \<noteq> -1"
    by (simp add: indexed_world_def photo_defs)
  from search_results_sound [OF photo_search_result photo_search_exact indexed_world_faithful this]
  show ?thesis by simp
qed


section \<open>Workers\<close>

text \<open>
  A folder with a photo, a file that cannot be examined, a directory that cannot be read and a
  registered subfolder.
\<close>

definition photo_file :: "string \<Rightarrow> dir_entry" where
  "photo_file p = DirEntry p (Inr False) (Inr True) (Listing [] None)"

definition denied :: os_error where
  "denied = os_error_of ''Permission denied'' (Some 13)"

definition photo_tree :: listing where
  "photo_tree = Listing [photo_file ''/p/a.jpg'', DirEntry ''/p/x.jpg'' (Inr False) (Inl denied) (Listing [] None),
     DirEntry ''/p/secret'' (Inr True) (Inr False) (ScanError denied),
     DirEntry ''/p/sub'' (Inr True) (Inr False) (Listing [photo_file ''/p/sub/b.jpg''] None)] None"

lemma photo_tree_tolerated: "walk_tolerated photo_tree"
  by (simp add: photo_tree_def photo_file_def denied_def is_non_fatal_traversal_error_def oe_errno_def os_error_of_def)

lemma walk_inserts_images_witness:
  "\<exists>checks. traverse_dir None 1 photo_tree \<lparr>tr_db = iw_db indexed_world, tr_issue_count = 0, tr_checks = 0\<rparr> =
    (\<lparr>tr_db = insert_files 1 (walk_images (registered_folder (iw_db indexed_world)) photo_tree) (iw_db indexed_world),
       tr_issue_count = walk_issues (registered_folder (iw_db indexed_world)) photo_tree, tr_checks = checks\<rparr>, None)"
  by (rule walk_inserts_images [OF photo_tree_tolerated])

text \<open>
  A batch for which the model stops being ready, in a folder without further images: the worker
  marks the folder as fully indexed with both files pending.
\<close>

definition failing_build :: "(string, int) build_env" where
  "failing_build = photo_build\<lparr>be_rounds := (\<lambda>_. photo_round\<lparr>re_ready := False\<rparr>)\<rparr>"

definition pending_folder :: folder_row where
  "pending_folder = photo_folder 1 ''/p'' 1"

lemma failing_rounds:
  assumes "map fi_status (db_files (iw_db w)) = [0, 0]" and "map fi_clip_index (db_files (iw_db w)) = [None, None]"
    and "map fi_folder_id (db_files (iw_db w)) = [1, 1]"
  shows "build_rounds (be_rounds failing_build) stops path 1 tot 0 0 w [] = Some (w, [])"
proof -
  let ?files = "get_pending_files_for_folder (iw_db w) 1 0 100"
  from assms obtain x y where "db_files (iw_db w) = [x, y]" "fi_status x = 0" "fi_status y = 0"
    "fi_clip_index x = None" "fi_clip_index y = None" "fi_folder_id x = 1" "fi_folder_id y = 1"
    by (auto simp: map_eq_Cons_conv)
  then have "?files = sort_key fi_id [x, y]" "set ?files = {x, y}"
    by (auto simp: get_pending_files_for_folder_def insert_commute)
  then have files: "?files \<noteq> []" "filter (\<lambda>f. fi_clip_index f = None \<and> fi_status f = 0) ?files = ?files"
    using \<open>fi_status x = 0\<close> \<open>fi_status y = 0\<close> \<open>fi_clip_index x = None\<close> \<open>fi_clip_index y = None\<close>
    by (auto simp: filter_id_conv)
  have "build_round (be_rounds failing_build 0) path 1 tot 0 w = (w, RoundBreak)"
    unfolding build_round_def Let_def files(2)
    using files(1) by (simp add: failing_build_def photo_build_def photo_round_def add_to_index_def)
  then show ?thesis by (subst build_rounds.simps) simp
qed

definition walked_world :: "int index_world" where
  "walked_world = pending_world\<lparr>iw_db := update_folder_status (update_folder_status (iw_db pending_world) 1 0) 1 1\<rparr>"

definition created_world :: "int index_world" where
  "created_world = walked_world\<lparr>iw_indexes := dict_set [] (index_path_for_folder ''/d'' 1) (FlatIndex [])\<rparr>"

lemma created_world_rows:
  "map fi_status (db_files (iw_db created_world)) = [0, 0]"
  "map fi_clip_index (db_files (iw_db created_world)) = [None, None]"
  "map fi_folder_id (db_files (iw_db created_world)) = [1, 1]"
  by (simp_all add: created_world_def walked_world_def update_folder_status_def photo_defs)

lemma failing_build_index:
  "build_index failing_build stops (index_path_for_folder ''/d'' 1) 1 walked_world = Some (created_world, [], None)"
proof -
  have "iw_indexes walked_world = []" by (simp add: walked_world_def pending_world_def)
  then have "create_index_if_needed True True (index_path_for_folder ''/d'' 1) walked_world = (created_world, None)"
    by (simp add: create_index_if_needed_def create_empty_index_def created_world_def)
  moreover have "be_ready failing_build" "be_model failing_build" "be_write failing_build"
    by (simp_all add: failing_build_def photo_build_def)
  ultimately show ?thesis
    unfolding build_index_def by (simp add: failing_rounds [OF created_world_rows])
qed

lemma failing_run:
  "run_worker None failing_build ''/d'' pending_folder (Listing [] None) pending_world
     = Some (finish_folder 1 0 [] created_world, WorkerFinished)"
proof -
  have "fo_id pending_folder = 1" by (simp add: pending_folder_def photo_folder_def)
  moreover have "traverse_dir None 1 (Listing [] None)
      \<lparr>tr_db = update_folder_status (iw_db pending_world) 1 0, tr_issue_count = 0, tr_checks = 0\<rparr>
      = (\<lparr>tr_db = update_folder_status (iw_db pending_world) 1 0, tr_issue_count = 0, tr_checks = 1\<rparr>, None)"
    by (simp add: is_stopped_def count_check_def)
  ultimately show ?thesis
    unfolding run_worker_def Let_def
    by (simp add: is_stopped_def walked_world_def [symmetric] failing_build_index)
qed

lemma failed_batches_still_complete_witness:
  "map fi_status (db_files (iw_db (finish_folder 1 0 [] created_world))) = [0, 0] \<and>
     map fo_status (db_folders (iw_db (finish_folder 1 0 [] created_world))) = [2]"
proof
  show "map fi_status (db_files (iw_db (finish_folder 1 0 [] created_world))) = [0, 0]"
    using created_world_rows(1) by (simp add: finish_folder_def update_folder_status_def)
  have "\<forall>f\<in>set (db_folders (iw_db (finish_folder 1 0 [] created_world))). fo_id f = fo_id pending_folder \<longrightarrow> fo_status f = 2"
    by (rule failed_batches_still_complete [OF failing_run])
      (simp_all add: failing_build_def photo_build_def)
  moreover have "map fo_id (db_folders (iw_db (finish_folder 1 0 [] created_world))) = [fo_id pending_folder]"
    by (simp add: finish_folder_def created_world_def walked_world_def update_folder_status_def photo_defs pending_folder_def sql_update_def)
  ultimately show "map fo_status (db_folders (iw_db (finish_folder 1 0 [] created_world))) = [2]"
    by (cases "db_folders (iw_db (finish_folder 1 0 [] created_world))") auto
qed

text \<open>Two folders, one of them indexed before, and an empty queue.\<close>

definition two_folders :: app_db where
  "two_folders = photo_db [photo_folder 1 ''/p'' 2, photo_folder 2 ''/q'' 0] []"

definition empty_queue :: index_queue where
  "empty_queue = \<lparr>iq_workers = [], iq_pending = [], iq_next = 0\<rparr>"

lemma queue_invariant_witness:
  "queue_ok (fst (add_index_worker None (resume_index_workers (\<lambda>_. True) False True two_folders empty_queue)))"
proof (rule queue_invariant)
  show "queue_step\<^sup>*\<^sup>* empty_queue (fst (add_index_worker None (resume_index_workers (\<lambda>_. True) False True two_folders empty_queue)))"
    by (rule converse_rtranclp_into_rtranclp [where r = queue_step, OF queue_resume
          r_into_rtranclp [where r = queue_step, OF queue_add]])
  show "queue_ok empty_queue" by (simp add: queue_ok_def empty_queue_def worker_ids_def pending_ids_def)
qed

lemma every_folder_gets_indexed_witness:
  "case (complete_worker (\<lambda>_. True) ^^ length (db_folders two_folders))
      (two_folders, resume_index_workers (\<lambda>_. True) False True two_folders empty_queue) of
    (db', q') \<Rightarrow> iq_workers q' = [] \<and> iq_pending q' = [] \<and> (\<forall>f\<in>set (db_folders db'). True \<longrightarrow> fo_status f = 2)"
  by (rule every_folder_gets_indexed)
    (simp_all add: two_folders_def photo_defs empty_queue_def paths_apart_def dts_folder_path_variants_def
      slashes_def replace_char_def rstrip_slash_def rstrip_by_def)

section \<open>File system events\<close>

definition moved_db :: app_db where
  "moved_db = photo_db [photo_folder 1 ''/p'' 2] [\<lparr>fi_id = 1, fi_path = ''/q/a.jpg'', fi_folder_id = 2,
     fi_clip_index = Some 1, fi_status = 1\<rparr>]"

lemma moved_result:
  "search_folders ''/d'' photo_search (indexed_world\<lparr>iw_db := moved_db\<rparr>) ''cat'' = Inr []"
  by (simp add: search_folders_def photo_search_def get_all_folders_def indexed_world_def photo_defs moved_db_def
      search_in_folder_def path_d1 dict_get_def query_index_def get_folder_by_id_def fetchone_def
      query_internal_def load_index_def TOP_K_def sorting_search_def sorted_reverse_def
      get_files_by_clip_indices_def named_pairs_def map_filter_simps Let_def)

lemma moved_file_is_not_found_witness: "slashes ''/q/a.jpg'' \<notin> fst ` set ([] :: (string \<times> int) list)"
proof -
  let ?r = "photo_row 1 ''/p/a.jpg'' (Some 1) 1"
  have "rename_file (iw_db indexed_world) 0 (fi_path ?r) ''/q/a.jpg'' 2 = Inr (moved_db, 1)"
    by (simp add: rename_file_def indexed_world_def photo_defs moved_db_def slashes_def replace_char_def
        sql_update_def files_unique_def Let_def)
  moreover have "index_path_for_folder ''/d'' 2 \<noteq> ''/d/1.faiss''"
    using index_path_inj [of "''/d''" 2 1] path_d1 by auto
  ultimately show ?thesis
    using moved_file_is_not_found [of indexed_world 0 ?r "''/q/a.jpg''" 2 moved_db 1 "''/d''" photo_search "\<lambda>q v. v"
        "''cat''" "[]"] photo_search_exact moved_result
    by (simp add: photo_row_def indexed_world_def photo_db_def slashes_def replace_char_def dict_get_def)
qed

definition model_gone :: "(string, int) build_env" where
  "model_gone = photo_build\<lparr>be_ready := False, be_ready_then := False\<rparr>"

lemma created_files_left_pending_witness:
  "case index_group model_gone (\<lambda>_. False) ''/d'' (photo_folder 1 ''/p'' 2) [''/p/new.jpg''] indexed_world of
    None \<Rightarrow> False
  | Some (w', ended, resumed) \<Rightarrow> ended = CreationRaised (OtherError (KeyError ''files_processed'')) \<and> \<not> resumed \<and>
      (\<exists>r\<in>set (db_files (iw_db w')). fi_path r = ''/p/new.jpg'' \<and> fi_folder_id r = fo_id (photo_folder 1 ''/p'' 2) \<and> fi_status r = 0) \<and>
      (\<forall>f\<in>set (db_folders (iw_db w')). fo_id f = fo_id (photo_folder 1 ''/p'' 2) \<longrightarrow> fo_status f = 3)"
  by (rule created_files_left_pending)
    (simp_all add: model_gone_def photo_build_def indexed_world_def photo_defs slashes_def replace_char_def)

definition stranded :: "int increments" where
  "stranded = \<lparr>in_world = indexed_world,
     in_buffer = [deleted_event_for_moved_path ''/p/z.jpg'' False, created_event ''/p/new.jpg''], in_workers = []\<rparr>"

lemma deletions_strand_later_events_witness:
  "in_buffer (try_schedule_next_batch (\<lambda>_. True) ''/d'' stranded) = [created_event ''/p/new.jpg''] \<and>
   in_workers (try_schedule_next_batch (\<lambda>_. True) ''/d'' stranded) = []"
  by (rule deletions_strand_later_events [where run = "[deleted_event_for_moved_path ''/p/z.jpg'' False]"])
    (simp_all add: stranded_def deleted_event_for_moved_path_def created_event_def)

section \<open>The model\<close>

lemma failed_load_is_final_witness:
  "\<not> model_is_ready (preload_load [False, False, False] (model_init\<lparr>ml_waiting := 1\<rparr>)\<lparr>ml_waiting := 0\<rparr>) \<and>
   snd (reload_model (preload_load [False, False, False] (model_init\<lparr>ml_waiting := 1\<rparr>)\<lparr>ml_waiting := 0\<rparr>)) = False"
  by (rule failed_load_is_final [of "model_init\<lparr>ml_waiting := 1\<rparr>" "[False, False, False]"])
    (auto simp: model_init_def less_Suc_eq numeral_3_eq_3)

lemma reload_of_ready_model_is_final_witness:
  "snd (reload_model model_init) = True \<and> \<not> model_is_ready (fst (reload_model model_init))"
  by (rule reload_of_ready_model_is_final) (simp_all add: model_init_def model_is_ready_def)

lemma failure_is_never_recorded_witness:
  "ml_state (start_preload model_init) = MODEL_STATE_READY \<or> ml_state (start_preload model_init) = MODEL_STATE_LOADING"
  by (rule failure_is_never_recorded) (rule r_into_rtranclp [where r = model_step, OF ms_start])

end
