(* ===== verification/ShareContracts.thy ===== *)
theory ShareContracts
  imports Prelude
begin

text \<open>
  The vocabulary of the instant share protocol (\<^verbatim>\<open>instant_sharing/contracts.py\<close>,
  \<^verbatim>\<open>errors.py\<close> and the configuration of a connection in \<^verbatim>\<open>mdns.py\<close>): the
  enumerations with their values, the errors, the metadata and the headers of a request with their
  validation, the entries of a stash and the result of a delivery.

  An exception of this component is an \<^verbatim>\<open>InstantShareError\<close> or another Python exception.
  An operation that keeps state returns the state it leaves together with its result, so a change
  made before an exception is part of the model.
\<close>

section \<open>Enumerations\<close>

datatype payload_class = PayloadText | PayloadLink | PayloadImage

datatype target_intent = ClipboardOnly | ClipboardOrFile

datatype trust_mode = FirstShare | TrustedDirect

datatype session_state =
    SsBootstrapped | SsQueued | SsNegotiating | SsTransferring | SsDelivering
  | SsDone | SsFailed | SsTimedOut | SsAborted

datatype share_error_code =
    ReceiverBusyMaxSessions | SessionIdMismatch | SessionNotFound | TargetIntentInvalidForPayload
  | HandshakeRequired | TrustRequired | PinMismatchOrRejected | ConfirmTimeout
  | SignatureVerificationFailed | SessionSignatureInvalid | TrustedKeyNotFound | TlsPinValidationFailed
  | PayloadUnreadable | DeliveryPathInvalid | TransferLimitExceeded | TransferTimeout | UserAborted
  | ProtocolVersionUnsupported | InvalidRequest | HttpRequestFailed

definition payload_class_values :: "(string \<times> payload_class) list" where
  "payload_class_values = [(''text'', PayloadText), (''link'', PayloadLink), (''image'', PayloadImage)]"

definition target_intent_values :: "(string \<times> target_intent) list" where
  "target_intent_values = [(''clipboard_only'', ClipboardOnly), (''clipboard_or_file'', ClipboardOrFile)]"

definition trust_mode_values :: "(string \<times> trust_mode) list" where
  "trust_mode_values = [(''first_share'', FirstShare), (''trusted_direct'', TrustedDirect)]"

primrec payload_class_value :: "payload_class \<Rightarrow> string" where
  "payload_class_value PayloadText = ''text''"
| "payload_class_value PayloadLink = ''link''"
| "payload_class_value PayloadImage = ''image''"

primrec target_intent_value :: "target_intent \<Rightarrow> string" where
  "target_intent_value ClipboardOnly = ''clipboard_only''"
| "target_intent_value ClipboardOrFile = ''clipboard_or_file''"

primrec trust_mode_value :: "trust_mode \<Rightarrow> string" where
  "trust_mode_value FirstShare = ''first_share''"
| "trust_mode_value TrustedDirect = ''trusted_direct''"

primrec session_state_value :: "session_state \<Rightarrow> string" where
  "session_state_value SsBootstrapped = ''bootstrapped''"
| "session_state_value SsQueued = ''queued''"
| "session_state_value SsNegotiating = ''negotiating''"
| "session_state_value SsTransferring = ''transferring''"
| "session_state_value SsDelivering = ''delivering''"
| "session_state_value SsDone = ''done''"
| "session_state_value SsFailed = ''failed''"
| "session_state_value SsTimedOut = ''timed_out''"
| "session_state_value SsAborted = ''aborted''"

primrec share_error_code_value :: "share_error_code \<Rightarrow> string" where
  "share_error_code_value ReceiverBusyMaxSessions = ''RECEIVER_BUSY_MAX_SESSIONS''"
| "share_error_code_value SessionIdMismatch = ''SESSION_ID_MISMATCH''"
| "share_error_code_value SessionNotFound = ''SESSION_NOT_FOUND''"
| "share_error_code_value TargetIntentInvalidForPayload = ''TARGET_INTENT_INVALID_FOR_PAYLOAD''"
| "share_error_code_value HandshakeRequired = ''HANDSHAKE_REQUIRED''"
| "share_error_code_value TrustRequired = ''TRUST_REQUIRED''"
| "share_error_code_value PinMismatchOrRejected = ''PIN_MISMATCH_OR_REJECTED''"
| "share_error_code_value ConfirmTimeout = ''CONFIRM_TIMEOUT''"
| "share_error_code_value SignatureVerificationFailed = ''SIGNATURE_VERIFICATION_FAILED''"
| "share_error_code_value SessionSignatureInvalid = ''SESSION_SIGNATURE_INVALID''"
| "share_error_code_value TrustedKeyNotFound = ''TRUSTED_KEY_NOT_FOUND''"
| "share_error_code_value TlsPinValidationFailed = ''TLS_PIN_VALIDATION_FAILED''"
| "share_error_code_value PayloadUnreadable = ''PAYLOAD_UNREADABLE''"
| "share_error_code_value DeliveryPathInvalid = ''DELIVERY_PATH_INVALID''"
| "share_error_code_value TransferLimitExceeded = ''TRANSFER_LIMIT_EXCEEDED''"
| "share_error_code_value TransferTimeout = ''TRANSFER_TIMEOUT''"
| "share_error_code_value UserAborted = ''USER_ABORTED''"
| "share_error_code_value ProtocolVersionUnsupported = ''PROTOCOL_VERSION_UNSUPPORTED''"
| "share_error_code_value InvalidRequest = ''INVALID_REQUEST''"
| "share_error_code_value HttpRequestFailed = ''HTTP_REQUEST_FAILED''"

text \<open>\<^verbatim>\<open>PayloadClass(text)\<close>: a member by its value, or a \<^verbatim>\<open>ValueError\<close>.\<close>

definition enum_of :: "string \<Rightarrow> (string \<times> 'a) list \<Rightarrow> string \<Rightarrow> 'a res" where
  "enum_of cls values t =
     (case map_of values t of
        Some x \<Rightarrow> Inr x
      | None \<Rightarrow> Inl (ValueError (quoted t @ '' is not a valid '' @ cls)))"

definition payload_class_of :: "string \<Rightarrow> payload_class res" where
  "payload_class_of = enum_of ''PayloadClass'' payload_class_values"

definition target_intent_of :: "string \<Rightarrow> target_intent res" where
  "target_intent_of = enum_of ''TargetIntent'' target_intent_values"

definition trust_mode_of :: "string \<Rightarrow> trust_mode res" where
  "trust_mode_of = enum_of ''TrustMode'' trust_mode_values"

lemmas enum_of_defs = enum_of_def payload_class_of_def target_intent_of_def trust_mode_of_def
  payload_class_values_def target_intent_values_def trust_mode_values_def

lemma enum_of_value [simp]:
  "payload_class_of (payload_class_value p) = Inr p"
  "target_intent_of (target_intent_value t) = Inr t"
  "trust_mode_of (trust_mode_value m) = Inr m"
  by (cases p; cases t; cases m; simp add: enum_of_defs)+

section \<open>Errors\<close>

record share_error =
  er_error_code :: share_error_code
  er_message :: string
  er_correlation_id :: "string option"
  er_retryable :: bool
  er_details :: payload
  er_status_code :: int

definition share_error_of :: "share_error_code \<Rightarrow> string \<Rightarrow> string option \<Rightarrow> share_error" where
  "share_error_of code message correlation_id =
     \<lparr>er_error_code = code, er_message = message, er_correlation_id = correlation_id,
      er_retryable = False, er_details = [], er_status_code = 400\<rparr>"

definition share_error_to_payload :: "share_error \<Rightarrow> payload" where
  "share_error_to_payload e =
     [(''error_code'', JStr (share_error_code_value (er_error_code e))), (''message'', JStr (er_message e)),
      (''retryable'', JBool (er_retryable e))]
     @ (case er_correlation_id e of None \<Rightarrow> [] | Some c \<Rightarrow> [(''correlation_id'', JStr c)])
     @ (if er_details e = [] then [] else [(''details'', JObj (er_details e))])"

datatype share_exn = ShareError share_error | PyError pyexn

type_synonym 'a shared = "share_exn + 'a"

text \<open>A step of stateful code after another; an exception keeps the state that it leaves.\<close>

definition and_then :: "'s \<times> ('e + 'a) \<Rightarrow> ('a \<Rightarrow> 's \<Rightarrow> 's \<times> ('e + 'b)) \<Rightarrow> 's \<times> ('e + 'b)" where
  "and_then m f = (case m of (s, Inl e) \<Rightarrow> (s, Inl e) | (s, Inr x) \<Rightarrow> f x s)"

lemma and_then_simps [simp]: "and_then (s, Inl e) f = (s, Inl e)" "and_then (s, Inr x) f = f x s"
  by (simp_all add: and_then_def)

lemma and_then_fst:
  assumes "P (fst m)" and "\<And>x. snd m = Inr x \<Longrightarrow> P (fst m) \<Longrightarrow> P (fst (f x (fst m)))"
  shows "P (fst (and_then m f))"
  using assms by (cases m; cases "snd m") auto

definition py_raise :: "pyexn + 'a \<Rightarrow> 'a shared" where
  "py_raise r = map_sum PyError id r"

lemma py_raise_simps [simp]: "py_raise (Inl e) = Inl (PyError e)" "py_raise (Inr x) = Inr x"
  by (simp_all add: py_raise_def)

section \<open>Metadata of a share\<close>

definition FLOW_ID :: string where "FLOW_ID = ''instant_share''"
definition PROTOCOL_VERSION :: string where "PROTOCOL_VERSION = ''1.0''"

record share_metadata =
  sm_payload_class :: payload_class
  sm_target_intent :: target_intent
  sm_trust_mode :: trust_mode
  sm_flow_id :: string

fun allowed_targets :: "payload_class \<Rightarrow> target_intent list" where
  "allowed_targets PayloadText = [ClipboardOnly]"
| "allowed_targets PayloadLink = [ClipboardOnly]"
| "allowed_targets PayloadImage = [ClipboardOrFile]"

definition metadata_validate :: "share_metadata \<Rightarrow> unit res" where
  "metadata_validate m =
     (if sm_flow_id m \<noteq> FLOW_ID then Inl (ValueError (''flow_id must be '' @ FLOW_ID @ ''.''))
      else if sm_target_intent m \<notin> set (allowed_targets (sm_payload_class m))
        then Inl (ValueError (''target_intent='' @ target_intent_value (sm_target_intent m)
                @ '' is invalid for payload_class='' @ payload_class_value (sm_payload_class m) @ ''.''))
      else Inr ())"

definition metadata_as_dict :: "share_metadata \<Rightarrow> payload res" where
  "metadata_as_dict m = bindE (metadata_validate m) (\<lambda>_. Inr
     [(''flow_id'', JStr (sm_flow_id m)), (''payload_class'', JStr (payload_class_value (sm_payload_class m))),
      (''target_intent'', JStr (target_intent_value (sm_target_intent m))),
      (''trust_mode'', JStr (trust_mode_value (sm_trust_mode m)))])"

text \<open>
  \<^verbatim>\<open>str(value)\<close> of a JSON value.  \<open>shown\<close> is \<^verbatim>\<open>str\<close> of the values that are
  neither text, a truth value, a whole number nor \<^verbatim>\<open>None\<close> (floats, lists and objects).
\<close>

fun py_str_json :: "(json \<Rightarrow> string) \<Rightarrow> json \<Rightarrow> string" where
  "py_str_json shown (JStr s) = s"
| "py_str_json shown JNull = ''None''"
| "py_str_json shown (JBool b) = (if b then ''True'' else ''False'')"
| "py_str_json shown (JInt i) = str_int i"
| "py_str_json shown v = shown v"

definition dict_str :: "(json \<Rightarrow> string) \<Rightarrow> payload \<Rightarrow> string \<Rightarrow> string \<Rightarrow> string" where
  "dict_str shown raw key dflt =
     (case dict_get raw key of None \<Rightarrow> dflt | Some v \<Rightarrow> py_str_json shown v)"

definition metadata_from_dict :: "(json \<Rightarrow> string) \<Rightarrow> payload \<Rightarrow> share_metadata res" where
  "metadata_from_dict shown raw =
     bindE (payload_class_of (dict_str shown raw ''payload_class'' [])) (\<lambda>pc.
     bindE (target_intent_of (dict_str shown raw ''target_intent'' [])) (\<lambda>ti.
     bindE (trust_mode_of (dict_str shown raw ''trust_mode'' [])) (\<lambda>tm.
       let metadata = \<lparr>sm_payload_class = pc, sm_target_intent = ti, sm_trust_mode = tm,
             sm_flow_id = dict_str shown raw ''flow_id'' FLOW_ID\<rparr>
       in bindE (metadata_validate metadata) (\<lambda>_. Inr metadata))))"

section \<open>Addresses\<close>

text \<open>
  \<^verbatim>\<open>ipaddress.ip_address(text)\<close>: whether the standard library reads the text as an IPv4
  or an IPv6 address.
\<close>

definition ipv4_octet_ok :: "string \<Rightarrow> bool" where
  "ipv4_octet_ok s \<longleftrightarrow> s \<noteq> [] \<and> list_all is_ascii_digit s \<and> length s \<le> 3 \<and> \<not> (s \<noteq> ''0'' \<and> hd s = CHR ''0'') \<and>
     dec_value s \<le> 255"

definition ipv4_ok :: "string \<Rightarrow> bool" where
  "ipv4_ok s \<longleftrightarrow> CHR ''/'' \<notin> set s \<and> length (split_char (CHR ''.'') s) = 4 \<and>
     list_all ipv4_octet_ok (split_char (CHR ''.'') s)"

definition ipv6_hextet_ok :: "string \<Rightarrow> bool" where
  "ipv6_hextet_ok s \<longleftrightarrow> s \<noteq> [] \<and> length s \<le> 4 \<and> list_all (\<lambda>c. c \<in> set ''0123456789abcdefABCDEF'') s"

definition ipv6_parts_ok :: "string list \<Rightarrow> bool" where
  "ipv6_parts_ok parts =
     (let gaps = filter (\<lambda>i. parts ! i = []) [1..<length parts - 1] in
      length parts \<le> 9 \<and>
      (case gaps of
         [] \<Rightarrow> length parts = 8 \<and> list_all ipv6_hextet_ok parts
       | [i] \<Rightarrow>
           (let hi = take i parts; lo = drop (Suc i) parts;
                hi' = (if hd parts = [] then tl hi else hi);
                lo' = (if last parts = [] then butlast lo else lo)
            in (hd parts = [] \<longrightarrow> hi' = []) \<and> (last parts = [] \<longrightarrow> lo' = []) \<and>
               length hi' + length lo' < 8 \<and> list_all ipv6_hextet_ok (hi' @ lo'))
       | _ \<Rightarrow> False))"

definition ipv6_ok :: "string \<Rightarrow> bool" where
  "ipv6_ok s =
     (let addr = takeWhile (\<lambda>c. c \<noteq> CHR 0x25) s; scope = drop (Suc (length addr)) s;
          parts = split_char (CHR '':'') addr
      in CHR ''/'' \<notin> set s \<and> (CHR 0x25 \<in> set s \<longrightarrow> scope \<noteq> [] \<and> CHR 0x25 \<notin> set scope) \<and>
         3 \<le> length parts \<and>
         (if CHR ''.'' \<in> set (last parts) then ipv4_ok (last parts) \<and> ipv6_parts_ok (butlast parts @ [''0'', ''0''])
          else ipv6_parts_ok parts))"

definition ip_address :: "string \<Rightarrow> unit res" where
  "ip_address s =
     (if ipv4_ok s \<or> ipv6_ok s then Inr ()
      else Inl (ValueError (quoted s @ '' does not appear to be an IPv4 or IPv6 address'')))"

lemma ip_address_loopback: "ip_address ''127.0.0.1'' = Inr ()"
  by (simp add: ip_address_def ipv4_ok_def ipv4_octet_ok_def is_ascii_digit_def dec_value_def)

section \<open>The configuration of a connection\<close>

record connection_config =
  cc_session_id :: string
  cc_mobile_port :: int
  cc_mobile_ip_list :: "string list"
  cc_correlation_id :: string
  cc_metadata :: share_metadata

definition endpoint_validate :: "string \<Rightarrow> string \<Rightarrow> int \<Rightarrow> string list \<Rightarrow> unit res" where
  "endpoint_validate session_id correlation_id mobile_port mobile_ip_list =
     (if py_strip session_id = [] then Inl (ValueError ''session_id must not be empty.'')
      else if py_strip correlation_id = [] then Inl (ValueError ''correlation_id must not be empty.'')
      else if mobile_port \<le> 0 \<or> 65535 < mobile_port
        then Inl (ValueError ''mobile_port must be between 1 and 65535.'')
      else if mobile_ip_list = []
        then Inl (ValueError ''mobile_ip_list must contain at least one IP address.'')
      else bindE (mapE ip_address mobile_ip_list) (\<lambda>_. Inr ()))"

definition config_validate :: "connection_config \<Rightarrow> unit res" where
  "config_validate c =
     bindE (endpoint_validate (cc_session_id c) (cc_correlation_id c) (cc_mobile_port c) (cc_mobile_ip_list c)) (\<lambda>_.
       metadata_validate (cc_metadata c))"

definition config_as_dict :: "connection_config \<Rightarrow> payload res" where
  "config_as_dict c = bindE (config_validate c) (\<lambda>_. bindE (metadata_as_dict (cc_metadata c)) (\<lambda>m. Inr
     ([(''session_id'', JStr (cc_session_id c)), (''mobile_port'', JInt (cc_mobile_port c)),
       (''mobile_ip_list'', JList (map JStr (cc_mobile_ip_list c))), (''correlation_id'', JStr (cc_correlation_id c))] @ m)))"

text \<open>\<^verbatim>\<open>isinstance(value, int)\<close> holds of a truth value too, which is then the number 0 or 1.\<close>

fun json_as_int :: "json option \<Rightarrow> int option" where
  "json_as_int (Some (JInt i)) = Some i"
| "json_as_int (Some (JBool b)) = Some (if b then 1 else 0)"
| "json_as_int _ = None"

definition endpoint_from_dict :: "(json \<Rightarrow> string) \<Rightarrow> payload \<Rightarrow> (int \<times> string list) res" where
  "endpoint_from_dict shown raw =
     (case json_as_int (dict_get raw ''mobile_port'') of
        None \<Rightarrow> Inl (ValueError ''mobile_port must be an integer.'')
      | Some mobile_port \<Rightarrow>
          (case dict_get raw ''mobile_ip_list'' of
             Some (JList xs) \<Rightarrow> Inr (mobile_port, map (py_str_json shown) xs)
           | _ \<Rightarrow> Inl (ValueError ''mobile_ip_list must be a list of IP addresses.'')))"

definition config_from_dict :: "(json \<Rightarrow> string) \<Rightarrow> payload \<Rightarrow> connection_config res" where
  "config_from_dict shown raw =
     bindE (metadata_from_dict shown raw) (\<lambda>metadata.
     bindE (endpoint_from_dict shown raw) (\<lambda>(mobile_port, ip_list).
       let config = \<lparr>cc_session_id = py_strip (dict_str shown raw ''session_id'' []),
             cc_mobile_port = mobile_port, cc_mobile_ip_list = ip_list,
             cc_correlation_id = py_strip (dict_str shown raw ''correlation_id'' []), cc_metadata = metadata\<rparr>
       in bindE (config_validate config) (\<lambda>_. Inr config)))"

text \<open>
  What \<open>as_dict\<close> writes, \<open>from_dict\<close> reads back, up to the white space around the two identifiers.
\<close>
theorem connection_config_roundtrip:
  assumes "config_as_dict c = Inr d"
  shows "config_from_dict shown d = Inr (c\<lparr>cc_session_id := py_strip (cc_session_id c),
     cc_correlation_id := py_strip (cc_correlation_id c)\<rparr>)"
proof -
  from assms have valid: "config_validate c = Inr ()" and meta: "metadata_validate (cc_metadata c) = Inr ()"
    by (auto simp: config_as_dict_def config_validate_def exn_simps)
  have d: "d = [(''session_id'', JStr (cc_session_id c)), (''mobile_port'', JInt (cc_mobile_port c)),
       (''mobile_ip_list'', JList (map JStr (cc_mobile_ip_list c))), (''correlation_id'', JStr (cc_correlation_id c)),
       (''flow_id'', JStr (sm_flow_id (cc_metadata c))),
       (''payload_class'', JStr (payload_class_value (sm_payload_class (cc_metadata c)))),
       (''target_intent'', JStr (target_intent_value (sm_target_intent (cc_metadata c)))),
       (''trust_mode'', JStr (trust_mode_value (sm_trust_mode (cc_metadata c))))]"
    using assms by (auto simp: config_as_dict_def metadata_as_dict_def exn_simps)
  have "config_validate (c\<lparr>cc_session_id := py_strip (cc_session_id c),
     cc_correlation_id := py_strip (cc_correlation_id c)\<rparr>) = Inr ()"
    using valid by (simp add: config_validate_def endpoint_validate_def strip_by_idem split: if_splits)
  moreover have "map (py_str_json shown) (map JStr xs) = xs" for xs by (induction xs) auto
  moreover have "metadata_from_dict shown d = Inr (cc_metadata c)"
    using meta by (cases "cc_metadata c") (simp add: d metadata_from_dict_def dict_str_def dict_get_def)
  ultimately show ?thesis
    by (cases c) (simp add: d config_from_dict_def endpoint_from_dict_def dict_str_def dict_get_def)
qed

lemma connection_config_roundtrip_witness:
  "config_from_dict (\<lambda>_. []) [(''session_id'', JStr ''a1''), (''mobile_port'', JInt 8080),
      (''mobile_ip_list'', JList [JStr ''127.0.0.1'']), (''correlation_id'', JStr ''c''),
      (''flow_id'', JStr ''instant_share''), (''payload_class'', JStr ''image''),
      (''target_intent'', JStr ''clipboard_or_file''), (''trust_mode'', JStr ''first_share'')]
   = Inr \<lparr>cc_session_id = ''a1'', cc_mobile_port = 8080, cc_mobile_ip_list = [''127.0.0.1''], cc_correlation_id = ''c'',
       cc_metadata = \<lparr>sm_payload_class = PayloadImage, sm_target_intent = ClipboardOrFile, sm_trust_mode = FirstShare,
         sm_flow_id = ''instant_share''\<rparr>\<rparr>"
proof -
  let ?c = "\<lparr>cc_session_id = ''a1'', cc_mobile_port = 8080, cc_mobile_ip_list = [''127.0.0.1''], cc_correlation_id = ''c'',
       cc_metadata = \<lparr>sm_payload_class = PayloadImage, sm_target_intent = ClipboardOrFile, sm_trust_mode = FirstShare,
         sm_flow_id = ''instant_share''\<rparr>\<rparr>"
  have strip: "py_strip ''a1'' = ''a1''" "py_strip ''c'' = ''c''"
    by (simp_all add: strip_by_def py_isspace_def)
  have "config_as_dict ?c = Inr [(''session_id'', JStr ''a1''), (''mobile_port'', JInt 8080),
      (''mobile_ip_list'', JList [JStr ''127.0.0.1'']), (''correlation_id'', JStr ''c''),
      (''flow_id'', JStr ''instant_share''), (''payload_class'', JStr ''image''),
      (''target_intent'', JStr ''clipboard_or_file''), (''trust_mode'', JStr ''first_share'')]"
    by (simp add: config_as_dict_def config_validate_def endpoint_validate_def strip ip_address_loopback
        metadata_as_dict_def metadata_validate_def FLOW_ID_def)
  from connection_config_roundtrip [OF this] show ?thesis by (simp add: strip)
qed

section \<open>Headers, stash entries and delivery results\<close>

definition require_non_empty :: "string \<Rightarrow> string \<Rightarrow> string res" where
  "require_non_empty value field_name =
     (let normalized = py_strip value
      in if normalized = [] then Inl (ValueError (field_name @ '' must not be empty.'')) else Inr normalized)"

record share_headers =
  hd_correlation_id :: string
  hd_session_id :: string
  hd_device_id :: string
  hd_version :: string
  hd_session_signature :: "string option"
  hd_session_signature_algorithm :: "string option"

definition blank_text :: "string option \<Rightarrow> bool" where
  "blank_text v = (case v of None \<Rightarrow> True | Some s \<Rightarrow> py_strip s = [])"

definition headers_validate :: "bool \<Rightarrow> share_headers \<Rightarrow> unit res" where
  "headers_validate requires_signature h =
     (if hd_version h \<noteq> PROTOCOL_VERSION
        then Inl (ValueError (''Unsupported protocol version: '' @ hd_version h @ ''.''))
      else bindE (require_non_empty (hd_correlation_id h) ''correlation_id'') (\<lambda>_.
           bindE (require_non_empty (hd_session_id h) ''session_id'') (\<lambda>_.
             if py_strip (hd_device_id h) = [] then Inl (ValueError ''device_id must not be empty.'')
             else if requires_signature \<and> blank_text (hd_session_signature h)
               then Inl (ValueError ''session_signature is required for this request.'')
             else if requires_signature \<and> blank_text (hd_session_signature_algorithm h)
               then Inl (ValueError ''session_signature_algorithm is required for this request.'')
             else Inr ())))"

definition as_http_headers :: "bool \<Rightarrow> share_headers \<Rightarrow> (string, string) dict res" where
  "as_http_headers requires_signature h = bindE (headers_validate requires_signature h) (\<lambda>_. Inr
     ([(''X-Instant-Share-Version'', hd_version h), (''X-Correlation-Id'', hd_correlation_id h),
       (''X-Session-Id'', hd_session_id h), (''X-Device-Id'', hd_device_id h)]
      @ (case hd_session_signature h of None \<Rightarrow> [] | Some s \<Rightarrow> [(''X-Session-Signature'', s)])
      @ (case hd_session_signature_algorithm h of None \<Rightarrow> [] | Some s \<Rightarrow> [(''X-Session-Signature-Alg'', s)])))"

record file_entry =
  fe_file_path :: string
  fe_filename :: "string option"
  fe_content_type :: string
  fe_size_bytes :: int
  fe_content :: "string option"

definition entry_type :: "file_entry \<Rightarrow> string" where
  "entry_type f =
     (if fe_content f = None then ''file''
      else if fe_content_type f = ''text/html'' then ''html''
      else if fe_content_type f = ''text/uri-list'' then ''link''
      else ''text'')"

definition or_empty :: "string option \<Rightarrow> string" where
  "or_empty v = (case v of None \<Rightarrow> [] | Some s \<Rightarrow> s)"

definition file_entry_as_dict :: "file_entry \<Rightarrow> payload" where
  "file_entry_as_dict f =
     [(''file_path'', JStr (fe_file_path f)), (''filename'', JStr (or_empty (fe_filename f))),
      (''content_type'', JStr (fe_content_type f)), (''size_bytes'', JInt (fe_size_bytes f)), (''type'', JStr (entry_type f))]
     @ (case fe_content f of None \<Rightarrow> [] | Some c \<Rightarrow> [(''content'', JStr c)])"

record delivery_target_result =
  dt_clipboard_written :: bool
  dt_files_written_count :: int
  dt_output_paths :: "string list"

record delivery_result =
  dr_state :: session_state
  dr_target_result :: delivery_target_result
  dr_error_code :: "string option"
  dr_error_message :: "string option"

definition terminal_delivery_states :: "session_state list" where
  "terminal_delivery_states = [SsDone, SsFailed, SsTimedOut, SsAborted]"

definition delivery_result_validate :: "delivery_result \<Rightarrow> unit res" where
  "delivery_result_validate r =
     (if dr_state r \<notin> set terminal_delivery_states
        then Inl (ValueError (''delivery result state must be terminal, got '' @ session_state_value (dr_state r) @ ''.''))
      else if dr_state r = SsDone then Inr ()
      else if or_empty (dr_error_code r) = []
        then Inl (ValueError ''error_code is required for non-success delivery results.'')
      else Inr ())"

definition target_result_as_dict :: "delivery_target_result \<Rightarrow> payload" where
  "target_result_as_dict t =
     [(''clipboard_written'', JBool (dt_clipboard_written t)), (''files_written_count'', JInt (dt_files_written_count t)),
      (''output_paths'', JList (map JStr (dt_output_paths t)))]"

definition delivery_result_as_dict :: "delivery_result \<Rightarrow> payload res" where
  "delivery_result_as_dict r = bindE (delivery_result_validate r) (\<lambda>_. Inr
     ([(''state'', JStr (session_state_value (dr_state r))),
       (''target_result'', JObj (target_result_as_dict (dr_target_result r)))]
      @ (case dr_error_code r of None \<Rightarrow> [] | Some c \<Rightarrow> [(''error_code'', JStr c)])
      @ (case dr_error_message r of None \<Rightarrow> [] | Some m \<Rightarrow> [(''error_message'', JStr m)])))"

end
