(* ===== verification/ShareTrust.thy ===== *)
theory ShareTrust
  imports ShareContracts PayloadEncryption
begin

text \<open>
  The trust sessions of the receiver: the encrypted envelope of a session
  (\<^verbatim>\<open>instant_sharing/trust_crypto.py\<close>), the key agreement and the proof of the short
  secret (\<^verbatim>\<open>security.py\<close>), the sessions and their registry (\<^verbatim>\<open>trust_server.py\<close>),
  and the text that carries the identifier of a device in its certificate
  (\<^verbatim>\<open>identity/device_identity.py\<close>).

  The primitives of the \<^verbatim>\<open>cryptography\<close> package are arguments: X25519 over private keys
  of any type, HKDF, HMAC and the cipher.  What \<^verbatim>\<open>os.urandom\<close> yields is an argument of the
  operation that asks for it.
\<close>

section \<open>Primitives\<close>

text \<open>\<open>cr_exchange\<close> is \<open>None\<close> where the library raises (a key of a wrong length or of low order).\<close>

record 'k share_crypto =
  cr_public :: "'k \<Rightarrow> byte list"
  cr_exchange :: "'k \<Rightarrow> byte list \<Rightarrow> byte list option"
  cr_hkdf :: "byte list \<Rightarrow> byte list \<Rightarrow> byte list \<Rightarrow> byte list"
  cr_hmac :: "byte list \<Rightarrow> byte list \<Rightarrow> byte list"
  cr_aead :: aead

definition b64_padded :: "string \<Rightarrow> string" where
  "b64_padded v = v @ replicate ((4 - length v mod 4) mod 4) (CHR ''='')"

definition urlsafe_decode :: "string \<Rightarrow> byte list option" where
  "urlsafe_decode v =
     (case encode_ascii (b64_padded v) of None \<Rightarrow> None | Some _ \<Rightarrow> a2b_loop (b64_padded v) 0 0 0)"

lemma urlsafe_roundtrip: "bs \<noteq> [] \<Longrightarrow> urlsafe_decode (py_strip (b64url_encode_unpadded bs)) = Some bs"
  using base64url_roundtrip [of bs]
  by (auto simp: base64url_decode_def urlsafe_decode_def b64_padded_def Let_def split: if_splits option.splits)

lemma unpadded_ne: "bs \<noteq> [] \<Longrightarrow> py_strip (b64url_encode_unpadded bs) \<noteq> []"
  using base64url_roundtrip [of bs] by (auto simp: base64url_decode_def split: if_splits)

text \<open>\<^verbatim>\<open>security.base64url_decode\<close>: every failure is a \<^verbatim>\<open>ValueError\<close>.\<close>

definition security_b64url_decode :: "string \<Rightarrow> string \<Rightarrow> byte list res" where
  "security_b64url_decode v field_name =
     (if py_strip v = [] then Inl (ValueError (field_name @ '' must be a non-empty base64url string.''))
      else case urlsafe_decode (py_strip v) of
             None \<Rightarrow> Inl (ValueError ''Invalid base64-encoded string'')
           | Some bs \<Rightarrow> Inr bs)"

lemma security_roundtrip: "bs \<noteq> [] \<Longrightarrow> security_b64url_decode (b64url_encode_unpadded bs) f = Inr bs"
  using unpadded_ne [of bs] urlsafe_roundtrip [of bs] by (simp add: security_b64url_decode_def)

section \<open>The envelope of a trust session\<close>

definition TRUST_SESSION_ENVELOPE_SCHEMA :: string where
  "TRUST_SESSION_ENVELOPE_SCHEMA = ''dtis.instant-share.trust-envelope.v1''"

definition TRUST_SESSION_NONCE_BYTES :: nat where "TRUST_SESSION_NONCE_BYTES = 12"

definition is_trust_session_envelope :: "payload \<Rightarrow> bool" where
  "is_trust_session_envelope p \<longleftrightarrow> dict_get p ''schema'' = Some (JStr TRUST_SESSION_ENVELOPE_SCHEMA)"

definition require_session_key :: "byte list option \<Rightarrow> string \<Rightarrow> byte list shared" where
  "require_session_key key correlation_id =
     (case key of
        None \<Rightarrow> Inl (ShareError (share_error_of HandshakeRequired
                  ''Instant-share trust session protector requires a completed /trust/handshake first.'' (Some correlation_id)))
      | Some k \<Rightarrow> Inr k)"

definition encrypt_json_payload ::
    "'k share_crypto \<Rightarrow> byte list option \<Rightarrow> byte list \<Rightarrow> payload \<Rightarrow> string \<Rightarrow> payload shared" where
  "encrypt_json_payload cr session_key nonce p correlation_id =
     bindE (require_session_key session_key correlation_id) (\<lambda>key.
       if length nonce \<noteq> TRUST_SESSION_NONCE_BYTES
       then Inl (ShareError (share_error_of InvalidRequest
              ''Instant-share trust session protector received an invalid AES-GCM nonce.'' (Some correlation_id)))
       else Inr [(''schema'', JStr TRUST_SESSION_ENVELOPE_SCHEMA), (''nonce'', JStr (b64url_encode_unpadded nonce)),
              (''ciphertext'', JStr (b64url_encode_unpadded
                 (ae_encrypt (cr_aead cr) key nonce (utf8_encode (json_dumps False (JObj p))))))])"

definition unreadable :: "string \<Rightarrow> string \<Rightarrow> share_exn" where
  "unreadable message correlation_id = ShareError (share_error_of PayloadUnreadable message (Some correlation_id))"

definition decode_envelope_field :: "payload \<Rightarrow> string \<Rightarrow> string \<Rightarrow> byte list shared" where
  "decode_envelope_field p field_name correlation_id =
     (case dict_get p field_name of
        Some (JStr s) \<Rightarrow>
          if py_strip s = []
          then Inl (unreadable (''Instant-share trust response field '' @ quoted field_name @ '' is missing.'') correlation_id)
          else (case urlsafe_decode (py_strip s) of
                  None \<Rightarrow> Inl (unreadable ''Instant-share trust response contains an invalid base64url field.'' correlation_id)
                | Some bs \<Rightarrow> Inr bs)
      | _ \<Rightarrow> Inl (unreadable (''Instant-share trust response field '' @ quoted field_name @ '' is missing.'') correlation_id))"

definition decrypt_json_payload ::
    "'k share_crypto \<Rightarrow> byte list option \<Rightarrow> payload \<Rightarrow> string \<Rightarrow> payload shared" where
  "decrypt_json_payload cr session_key p correlation_id =
     bindE (require_session_key session_key correlation_id) (\<lambda>key.
       if \<not> is_trust_session_envelope p
       then Inl (unreadable ''Instant-share trust response is not a supported encrypted envelope.'' correlation_id)
       else bindE (decode_envelope_field p ''nonce'' correlation_id) (\<lambda>nonce.
         if length nonce \<noteq> TRUST_SESSION_NONCE_BYTES
         then Inl (unreadable ''Instant-share trust response nonce length is invalid.'' correlation_id)
         else bindE (decode_envelope_field p ''ciphertext'' correlation_id) (\<lambda>ciphertext.
           case ae_decrypt (cr_aead cr) key nonce ciphertext of
             None \<Rightarrow> Inl (unreadable ''Instant-share trust response could not be decrypted.'' correlation_id)
           | Some plaintext \<Rightarrow>
               (case Option.bind (utf8_decode plaintext) json_loads of
                  None \<Rightarrow> Inl (unreadable ''Instant-share trust response decrypted to invalid JSON.'' correlation_id)
                | Some (JObj q) \<Rightarrow> Inr q
                | Some _ \<Rightarrow> Inl (unreadable
                      ''Instant-share trust response decrypted to a non-object JSON payload.'' correlation_id)))))"

section \<open>The short secret\<close>

definition PAIRING_PROTOCOL_CONTEXT :: string where "PAIRING_PROTOCOL_CONTEXT = ''SnapGet Pairing v1''"
definition TRUST_SESSION_INFO_PREFIX :: string where
  "TRUST_SESSION_INFO_PREFIX = ''dtis.instant-share.trust-session.v1''"

definition compute_pairing_auth ::
    "'k share_crypto \<Rightarrow> byte list \<Rightarrow> string \<Rightarrow> byte list \<Rightarrow> byte list \<Rightarrow> byte list" where
  "compute_pairing_auth cr dh_shared_secret short_secret pc_dh_public_key mobile_dh_public_key =
     cr_hmac cr (cr_hkdf cr (utf8_encode short_secret) [] dh_shared_secret)
       (utf8_encode PAIRING_PROTOCOL_CONTEXT @ pc_dh_public_key @ mobile_dh_public_key)"

definition verify_auth ::
    "'k share_crypto \<Rightarrow> string \<Rightarrow> string \<Rightarrow> 'k \<Rightarrow> byte list \<Rightarrow> bool res" where
  "verify_auth cr auth_b64 short_secret pc_private_key mobile_dh_public_key =
     (case cr_exchange cr pc_private_key mobile_dh_public_key of
        None \<Rightarrow> Inl (ValueError ''Error computing shared key.'')
      | Some dh_shared_secret \<Rightarrow>
          (case urlsafe_decode auth_b64 of
             None \<Rightarrow> Inl (ValueError ''Invalid base64-encoded string'')
           | Some auth \<Rightarrow> Inr (auth = compute_pairing_auth cr dh_shared_secret short_secret
                 (cr_public cr pc_private_key) mobile_dh_public_key)))"

definition generate_pin_code :: "byte list \<Rightarrow> string" where
  "generate_pin_code random = zero_pad 4 (str_nat (from_bytes_be random mod 10000))"

section \<open>Trust sessions\<close>

datatype trust_flow = MobileToPc | PcToMobile

record 'k trust_session =
  ts_session_id :: string
  ts_correlation_id :: string
  ts_flow_type :: trust_flow
  ts_private_key :: 'k
  ts_pc_nonce :: "byte list"
  ts_session_key :: "byte list option"
  ts_mobile_dh_public_key :: "string option"
  ts_mobile_dh_public_key_bytes :: "byte list option"
  ts_mobile_nonce :: "string option"
  ts_kdf_context :: "string option"
  ts_pin_code :: "string option"
  ts_opt_code :: "string option"
  ts_stash_id :: "string option"
  ts_mobile_certificate_pem :: "string option"
  ts_peer_device_name :: string
  ts_is_trusted :: bool

definition new_trust_session ::
    "'k \<Rightarrow> byte list \<Rightarrow> string \<Rightarrow> string \<Rightarrow> trust_flow \<Rightarrow> string option \<Rightarrow> string option \<Rightarrow> 'k trust_session" where
  "new_trust_session private_key nonce session_id correlation_id flow_type opt_code stash_id =
     \<lparr>ts_session_id = session_id, ts_correlation_id = correlation_id, ts_flow_type = flow_type,
      ts_private_key = private_key, ts_pc_nonce = nonce, ts_session_key = None, ts_mobile_dh_public_key = None,
      ts_mobile_dh_public_key_bytes = None, ts_mobile_nonce = None, ts_kdf_context = None, ts_pin_code = None,
      ts_opt_code = opt_code, ts_stash_id = stash_id, ts_mobile_certificate_pem = None,
      ts_peer_device_name = [], ts_is_trusted = False\<rparr>"

definition set_peer_device_name :: "string \<Rightarrow> 'k trust_session \<Rightarrow> 'k trust_session" where
  "set_peer_device_name name t = (if ts_peer_device_name t \<noteq> [] then t else t\<lparr>ts_peer_device_name := name\<rparr>)"

definition store_mobile_certificate :: "string \<Rightarrow> 'k trust_session \<Rightarrow> 'k trust_session" where
  "store_mobile_certificate pem t = t\<lparr>ts_mobile_certificate_pem := Some pem\<rparr>"

text \<open>A key that cannot be decoded raises after the text was stored.\<close>

definition store_mobile_handshake ::
    "string \<Rightarrow> string \<Rightarrow> 'k trust_session \<Rightarrow> 'k trust_session \<times> unit shared" where
  "store_mobile_handshake mobile_dh_public_key mobile_nonce t =
     (let t1 = t\<lparr>ts_mobile_dh_public_key := Some mobile_dh_public_key\<rparr>
      in case security_b64url_decode mobile_dh_public_key ''mobile_dh_public_key'' of
           Inl e \<Rightarrow> (t1, Inl (PyError e))
         | Inr bs \<Rightarrow> (t1\<lparr>ts_mobile_dh_public_key_bytes := Some bs, ts_mobile_nonce := Some mobile_nonce\<rparr>, Inr ()))"

definition derive_kdf_context :: "byte list \<Rightarrow> 'k trust_session \<Rightarrow> 'k trust_session \<times> string" where
  "derive_kdf_context random t =
     (case ts_kdf_context t of
        Some c \<Rightarrow> (t, c)
      | None \<Rightarrow> let c = b64url_encode_unpadded random in (t\<lparr>ts_kdf_context := Some c\<rparr>, c))"

definition set_kdf_context :: "string \<Rightarrow> 'k trust_session \<Rightarrow> 'k trust_session" where
  "set_kdf_context c t = t\<lparr>ts_kdf_context := Some c\<rparr>"

definition handshake_response ::
    "'k share_crypto \<Rightarrow> byte list \<Rightarrow> 'k trust_session \<Rightarrow> 'k trust_session \<times> payload" where
  "handshake_response cr random t =
     (case derive_kdf_context random t of
        (t1, c) \<Rightarrow> (t1, [(''pc_dh_public_key'', JStr (b64url_encode_unpadded (cr_public cr (ts_private_key t)))),
                        (''pc_nonce'', JStr (b64url_encode_unpadded (ts_pc_nonce t))), (''kdf_context'', JStr c)]))"

text \<open>\<open>X25519TrustSessionKeyResolver.__call__\<close>; \<open>None\<close> for any exception.\<close>

definition resolve_session_key ::
    "'k share_crypto \<Rightarrow> 'k \<Rightarrow> byte list \<Rightarrow> string \<Rightarrow> string \<Rightarrow> string \<Rightarrow> byte list option" where
  "resolve_session_key cr private_key pc_nonce mobile_dh_public_key mobile_nonce kdf_context =
     (case (security_b64url_decode mobile_dh_public_key ''mobile_dh_public_key'',
            security_b64url_decode mobile_nonce ''mobile_nonce'',
            security_b64url_decode kdf_context ''kdf_context'',
            security_b64url_decode (b64url_encode_unpadded pc_nonce) ''pc_nonce'') of
        (Inr mobile_key, Inr nonce, Inr kdf, Inr pc) \<Rightarrow>
          map_option (cr_hkdf cr (pc @ nonce) (utf8_encode TRUST_SESSION_INFO_PREFIX @ kdf))
            (cr_exchange cr private_key mobile_key)
      | _ \<Rightarrow> None)"

definition establish_session_key ::
    "'k share_crypto \<Rightarrow> byte list \<Rightarrow> 'k trust_session \<Rightarrow> 'k trust_session \<times> unit shared" where
  "establish_session_key cr random t =
     (case (ts_mobile_dh_public_key t, ts_mobile_nonce t) of
        (Some mobile_key, Some mobile_nonce) \<Rightarrow>
          (case derive_kdf_context random t of
             (t1, c) \<Rightarrow>
               (case resolve_session_key cr (ts_private_key t) (ts_pc_nonce t) mobile_key mobile_nonce c of
                  None \<Rightarrow> (t1, Inl (ShareError (share_error_of HandshakeRequired
                    ''Instant-share trust session protector could not derive a shared key from /trust/handshake.'' None)))
                | Some key \<Rightarrow>
                    if length key \<notin> {16, 24, 32}
                    then (t1, Inl (ShareError (share_error_of HandshakeRequired
                      ''Instant-share trust session protector requires a 128/192/256-bit AES key.'' None)))
                    else (t1\<lparr>ts_session_key := Some key\<rparr>, Inr ())))
      | _ \<Rightarrow> (t, Inl (ShareError (share_error_of HandshakeRequired
                ''Cannot establish session key before mobile handshake.'' (Some (ts_correlation_id t))))))"

definition needs_key :: "string \<Rightarrow> 'k trust_session \<Rightarrow> share_exn" where
  "needs_key what t = ShareError (share_error_of HandshakeRequired
     (''Cannot '' @ what @ '' before trust session key is established.'') (Some (ts_correlation_id t)))"

definition decrypt_apply_request :: "'k share_crypto \<Rightarrow> 'k trust_session \<Rightarrow> payload \<Rightarrow> payload shared" where
  "decrypt_apply_request cr t envelope =
     (if ts_session_key t = None then Inl (needs_key ''decrypt apply request'' t)
      else decrypt_json_payload cr (ts_session_key t) envelope (ts_correlation_id t))"

definition decrypt_confirm_request :: "'k share_crypto \<Rightarrow> 'k trust_session \<Rightarrow> payload \<Rightarrow> payload shared" where
  "decrypt_confirm_request cr t envelope =
     (if ts_session_key t = None then Inl (needs_key ''decrypt confirm request'' t)
      else decrypt_json_payload cr (ts_session_key t) envelope (ts_correlation_id t))"

definition generate_pin :: "byte list \<Rightarrow> 'k trust_session \<Rightarrow> 'k trust_session \<times> string" where
  "generate_pin random t =
     (case ts_pin_code t of
        Some p \<Rightarrow> (t, p)
      | None \<Rightarrow> let p = generate_pin_code random in (t\<lparr>ts_pin_code := Some p\<rparr>, p))"

definition short_secret :: "'k trust_session \<Rightarrow> string option" where
  "short_secret t = (if ts_flow_type t = PcToMobile then ts_opt_code t else ts_pin_code t)"

definition verify_pairing_auth :: "'k share_crypto \<Rightarrow> 'k trust_session \<Rightarrow> string \<Rightarrow> bool res" where
  "verify_pairing_auth cr t auth_b64 =
     (case (short_secret t, ts_mobile_dh_public_key_bytes t) of
        (Some secret, Some mobile_key) \<Rightarrow> verify_auth cr auth_b64 secret (ts_private_key t) mobile_key
      | _ \<Rightarrow> Inr False)"

definition verify_opt :: "'k trust_session \<Rightarrow> string \<Rightarrow> bool" where
  "verify_opt t opt_code \<longleftrightarrow> ts_opt_code t = Some opt_code"

definition ENCRYPTION_ALG :: string where "ENCRYPTION_ALG = ''aes-256-gcm''"

definition encrypted_envelope ::
    "'k share_crypto \<Rightarrow> string \<Rightarrow> byte list \<Rightarrow> payload \<Rightarrow> 'k trust_session \<Rightarrow> payload shared" where
  "encrypted_envelope cr what nonce p t =
     (if ts_session_key t = None then Inl (needs_key what t)
      else bindE (encrypt_json_payload cr (ts_session_key t) nonce p (ts_correlation_id t)) (\<lambda>e.
             Inr (e @ [(''encryption_alg'', JStr ENCRYPTION_ALG)])))"

definition encrypted_apply_ack_envelope ::
    "'k share_crypto \<Rightarrow> byte list \<Rightarrow> 'k trust_session \<Rightarrow> payload shared" where
  "encrypted_apply_ack_envelope cr nonce t =
     encrypted_envelope cr ''encrypt apply ack'' nonce [(''status'', JStr ''accepted'')] t"

definition encrypted_trust_status ::
    "'k share_crypto \<Rightarrow> byte list \<Rightarrow> string option \<Rightarrow> 'k trust_session \<Rightarrow> payload shared" where
  "encrypted_trust_status cr nonce pc_certificate_pem t =
     encrypted_envelope cr ''encrypt trust status'' nonce
       ([(''trust_status'', JStr ''trusted'')]
        @ (case pc_certificate_pem of None \<Rightarrow> [] | Some c \<Rightarrow> [(''device_certificate_pem'', JStr c)])) t"

definition mark_trusted :: "'k trust_session \<Rightarrow> 'k trust_session" where
  "mark_trusted t = t\<lparr>ts_is_trusted := True\<rparr>"

section \<open>The registry\<close>

type_synonym 'k trust_registry = "(string, 'k trust_session) dict"

definition create_trust_session ::
    "'k \<Rightarrow> byte list \<Rightarrow> string \<Rightarrow> string \<Rightarrow> trust_flow \<Rightarrow> string option \<Rightarrow> string option \<Rightarrow> 'k trust_registry
     \<Rightarrow> 'k trust_registry \<times> 'k trust_session" where
  "create_trust_session private_key nonce session_id correlation_id flow_type opt_code stash_id reg =
     (let t = new_trust_session private_key nonce session_id correlation_id flow_type opt_code stash_id
      in (dict_set reg session_id t, t))"

definition require_trust_session :: "'k trust_registry \<Rightarrow> string \<Rightarrow> 'k trust_session shared" where
  "require_trust_session reg session_id =
     (case dict_get reg session_id of
        None \<Rightarrow> Inl (ShareError (share_error_of SessionIdMismatch
                  ''No active trust session matches the provided session id.'' None))
      | Some t \<Rightarrow> Inr t)"

text \<open>\<open>clear\<close> and the cleanup timer both remove a session.  Nothing in the program calls them.\<close>

definition clear_trust_session :: "string \<Rightarrow> 'k trust_registry \<Rightarrow> 'k trust_registry" where
  "clear_trust_session session_id reg = dict_del reg session_id"

section \<open>The identifier of a device in its certificate\<close>

fun base256 :: "nat \<Rightarrow> byte list" where
  "base256 n = (if n = 0 then [] else base256 (n div 256) @ [word_of_nat n])"

declare base256.simps [simp del]

definition encode_asn1_utf8_string :: "string \<Rightarrow> byte list" where
  "encode_asn1_utf8_string v =
     (let data = utf8_encode v; n = length data
      in if n < 128 then [0x0C, word_of_nat n] @ data
         else [0x0C, word_of_nat (128 + length (base256 n))] @ base256 n @ data)"

definition decode_asn1_utf8_string :: "byte list \<Rightarrow> string option" where
  "decode_asn1_utf8_string data =
     (if length data < 2 \<or> data ! 0 \<noteq> 0x0C then None
      else let length_byte = unat (data ! 1);
               k = (if 128 \<le> length_byte then length_byte - 128 else 0)
           in if length data < 2 + k then None
              else let n = (if 128 \<le> length_byte then from_bytes_be (take k (drop 2 data)) else length_byte)
                   in if length data < 2 + k + n then None
                      else utf8_decode (take n (drop (2 + k) data)))"

end
