(* ===== verification/ShareSessions.thy ===== *)
theory ShareSessions
  imports ShareContracts
begin

text \<open>
  The receiver's sessions (\<^verbatim>\<open>instant_sharing/session.py\<close>) and the orchestrator that moves
  them (\<^verbatim>\<open>orchestrator.py\<close>).

  A registry is the dictionary of its sessions, its limit and the identifiers with a running
  cleanup timer; the timer that fires is the operation \<open>cleanup_session\<close>.  Every operation gets the
  reading of the monotonic clock.  The orchestrator adds the list of events that it published;
  \<open>name_of\<close> is the name of the peer that the trust sessions know.
\<close>

section \<open>The registry\<close>

definition DEFAULT_MAX_SESSIONS :: int where "DEFAULT_MAX_SESSIONS = 100"

fun active_state :: "session_state \<Rightarrow> bool" where
  "active_state SsBootstrapped = True"
| "active_state SsQueued = True"
| "active_state SsNegotiating = True"
| "active_state SsTransferring = True"
| "active_state SsDelivering = True"
| "active_state _ = False"

fun allowed_transitions :: "session_state \<Rightarrow> session_state list" where
  "allowed_transitions SsBootstrapped = [SsQueued, SsNegotiating, SsTransferring]"
| "allowed_transitions SsQueued = [SsNegotiating, SsTransferring, SsFailed, SsTimedOut]"
| "allowed_transitions SsNegotiating = [SsTransferring, SsFailed, SsTimedOut]"
| "allowed_transitions SsTransferring = [SsDelivering, SsFailed, SsTimedOut, SsAborted]"
| "allowed_transitions SsDelivering = [SsDone, SsFailed]"
| "allowed_transitions _ = []"

record share_session =
  se_connection_config :: connection_config
  se_state :: session_state
  se_started_monotonic :: int
  se_last_updated :: int
  se_image_count :: int
  se_received_count :: int

record session_registry =
  sr_active_sessions :: "(string, share_session) dict"
  sr_max_sessions :: int
  sr_cleanup_timers :: "string list"

definition new_session :: "int \<Rightarrow> connection_config \<Rightarrow> share_session" where
  "new_session now config =
     \<lparr>se_connection_config = config, se_state = SsBootstrapped, se_started_monotonic = now,
      se_last_updated = now, se_image_count = 0, se_received_count = 0\<rparr>"

definition active_sessions :: "session_registry \<Rightarrow> share_session list" where
  "active_sessions r = filter (\<lambda>s. active_state (se_state s)) (map snd (sr_active_sessions r))"

definition get_share_session :: "session_registry \<Rightarrow> string \<Rightarrow> share_session option" where
  "get_share_session r session_id = dict_get (sr_active_sessions r) session_id"

definition put_session :: "string \<Rightarrow> share_session \<Rightarrow> session_registry \<Rightarrow> session_registry" where
  "put_session session_id s r = r\<lparr>sr_active_sessions := dict_set (sr_active_sessions r) session_id s\<rparr>"

definition busy_error :: "connection_config \<Rightarrow> share_error" where
  "busy_error config =
     (share_error_of ReceiverBusyMaxSessions ''Maximum concurrent sessions reached.''
        (Some (cc_correlation_id config)))\<lparr>er_retryable := True, er_status_code := 503\<rparr>"

definition bootstrap ::
    "int \<Rightarrow> connection_config \<Rightarrow> session_registry \<Rightarrow> session_registry \<times> share_session shared" where
  "bootstrap now config r =
     (case config_validate config of
        Inl e \<Rightarrow> (r, Inl (PyError e))
      | Inr _ \<Rightarrow>
          (case get_share_session r (cc_session_id config) of
             Some existing \<Rightarrow> (r, Inr existing)
           | None \<Rightarrow>
               if sr_max_sessions r \<le> int (length (active_sessions r))
               then (r, Inl (ShareError (busy_error config)))
               else (let s = new_session now config
                     in (put_session (cc_session_id config) s r, Inr s))))"

definition mismatch_error :: share_error where
  "mismatch_error =
     share_error_of SessionIdMismatch ''No active instant-share session matches the provided session id.'' None"

definition require_session ::
    "string \<Rightarrow> session_registry \<Rightarrow> session_registry \<times> share_session shared" where
  "require_session session_id r =
     (case get_share_session r session_id of
        None \<Rightarrow> (r, Inl (ShareError mismatch_error))
      | Some s \<Rightarrow> (r, Inr s))"

definition transition_error :: "share_session \<Rightarrow> session_state \<Rightarrow> share_error" where
  "transition_error s next_state =
     share_error_of InvalidRequest
       (''Cannot transition instant-share session from '' @ session_state_value (se_state s) @ '' to ''
          @ session_state_value next_state @ ''.'')
       (Some (cc_correlation_id (se_connection_config s)))"

definition schedule_cleanup :: "string \<Rightarrow> session_registry \<Rightarrow> session_registry" where
  "schedule_cleanup session_id r =
     r\<lparr>sr_cleanup_timers := List.insert session_id (sr_cleanup_timers r)\<rparr>"

definition cleanup_session :: "string \<Rightarrow> session_registry \<Rightarrow> session_registry" where
  "cleanup_session session_id r =
     r\<lparr>sr_active_sessions := dict_del (sr_active_sessions r) session_id,
       sr_cleanup_timers := removeAll session_id (sr_cleanup_timers r)\<rparr>"

definition transition ::
    "int \<Rightarrow> string \<Rightarrow> session_state \<Rightarrow> session_registry \<Rightarrow> session_registry \<times> share_session shared" where
  "transition now session_id next_state r =
     and_then (require_session session_id r) (\<lambda>s r.
       if next_state \<notin> set (allowed_transitions (se_state s))
       then (r, Inl (ShareError (transition_error s next_state)))
       else (let updated = s\<lparr>se_state := next_state, se_last_updated := now\<rparr>;
                 r1 = put_session session_id updated r
             in (if active_state next_state then r1 else schedule_cleanup session_id r1, Inr updated)))"

definition bootstrap_revisit ::
    "int \<Rightarrow> connection_config \<Rightarrow> session_registry \<Rightarrow> session_registry \<times> share_session shared" where
  "bootstrap_revisit now config r =
     and_then (bootstrap now config r) (\<lambda>s.
       transition now (cc_session_id (se_connection_config s)) SsTransferring)"

definition set_batch_metadata ::
    "int \<Rightarrow> string \<Rightarrow> int \<Rightarrow> session_registry \<Rightarrow> session_registry \<times> share_session shared" where
  "set_batch_metadata now session_id image_count r =
     and_then (require_session session_id r) (\<lambda>s r.
       let updated = s\<lparr>se_image_count := image_count, se_last_updated := now\<rparr>
       in (put_session session_id updated r, Inr updated))"

definition increment_received_count ::
    "int \<Rightarrow> string \<Rightarrow> session_registry \<Rightarrow> session_registry \<times> share_session shared" where
  "increment_received_count now session_id r =
     and_then (require_session session_id r) (\<lambda>s r.
       let updated = s\<lparr>se_received_count := se_received_count s + 1, se_last_updated := now\<rparr>
       in (put_session session_id updated r, Inr updated))"

section \<open>The orchestrator\<close>

record share_core =
  co_registry :: session_registry
  co_events :: "payload list"

definition in_registry ::
    "(session_registry \<Rightarrow> session_registry \<times> 'a shared) \<Rightarrow> share_core \<Rightarrow> share_core \<times> 'a shared" where
  "in_registry f core = (case f (co_registry core) of (r, x) \<Rightarrow> (core\<lparr>co_registry := r\<rparr>, x))"

text \<open>The event that \<open>_publish\<close> sends for a session; empty texts are left out.\<close>

definition text_field :: "string \<Rightarrow> string \<Rightarrow> payload" where
  "text_field key value = (if value = [] then [] else [(key, JStr value)])"

definition lifecycle_event ::
    "share_session \<Rightarrow> string \<Rightarrow> string \<Rightarrow> string \<Rightarrow> share_error option \<Rightarrow> payload" where
  "lifecycle_event s device_name text_content file_path err =
     (let c = se_connection_config s; m = cc_metadata c in
      [(''session_id'', JStr (cc_session_id c)), (''correlation_id'', JStr (cc_correlation_id c)),
       (''state'', JStr (session_state_value (se_state s))),
       (''payload_class'', JStr (payload_class_value (sm_payload_class m))),
       (''target_intent'', JStr (target_intent_value (sm_target_intent m))),
       (''trust_mode'', JStr (trust_mode_value (sm_trust_mode m))),
       (''image_count'', JInt (se_image_count s)), (''received_count'', JInt (se_received_count s))]
      @ text_field ''device_name'' device_name @ text_field ''text_content'' text_content
      @ text_field ''file_path'' file_path
      @ (case err of None \<Rightarrow> []
         | Some e \<Rightarrow> [(''error_code'', JStr (share_error_code_value (er_error_code e))),
                      (''error_message'', JStr (er_message e))]))"

definition publish ::
    "(string \<Rightarrow> string) \<Rightarrow> share_session \<Rightarrow> string \<Rightarrow> string \<Rightarrow> share_error option \<Rightarrow> share_core \<Rightarrow> share_core" where
  "publish name_of s text_content file_path err core =
     core\<lparr>co_events := co_events core @
       [lifecycle_event s (name_of (cc_session_id (se_connection_config s))) text_content file_path err]\<rparr>"

definition handle_connection_config ::
    "(string \<Rightarrow> string) \<Rightarrow> int \<Rightarrow> connection_config \<Rightarrow> share_core \<Rightarrow> share_core \<times> share_session shared" where
  "handle_connection_config name_of now config core =
     and_then (in_registry (bootstrap now config) core) (\<lambda>_ core.
     and_then (in_registry (transition now (cc_session_id config) SsQueued) core) (\<lambda>s core.
       (publish name_of s [] [] None core, Inr s)))"

definition handle_trust_handshake_received ::
    "(string \<Rightarrow> string) \<Rightarrow> int \<Rightarrow> string \<Rightarrow> share_core \<Rightarrow> share_core \<times> unit shared" where
  "handle_trust_handshake_received name_of now session_id core =
     and_then (in_registry (require_session session_id) core) (\<lambda>_ core.
     and_then (in_registry (transition now session_id SsNegotiating) core) (\<lambda>s core.
       (publish name_of s [] [] None core, Inr ())))"

definition handle_trust_confirmed ::
    "(string \<Rightarrow> string) \<Rightarrow> int \<Rightarrow> string \<Rightarrow> share_core \<Rightarrow> share_core \<times> unit shared" where
  "handle_trust_confirmed name_of now session_id core =
     and_then (in_registry (require_session session_id) core) (\<lambda>_ core.
     and_then (in_registry (transition now session_id SsNegotiating) core) (\<lambda>s core.
       (publish name_of s [] [] None core, Inr ())))"

definition batch_complete :: "share_session \<Rightarrow> bool" where
  "batch_complete s \<longleftrightarrow> se_image_count s = 0 \<or> se_image_count s \<le> se_received_count s"

definition handle_transfer_received ::
    "(string \<Rightarrow> string) \<Rightarrow> int \<Rightarrow> string \<Rightarrow> int option \<Rightarrow> share_core \<Rightarrow> share_core \<times> bool shared" where
  "handle_transfer_received name_of now session_id image_count core =
     and_then (in_registry (require_session session_id) core) (\<lambda>s core.
     and_then (case image_count of
                 Some n \<Rightarrow> if se_image_count s = 0
                           then in_registry (set_batch_metadata now session_id n) core else (core, Inr s)
               | None \<Rightarrow> (core, Inr s)) (\<lambda>_ core.
     and_then (in_registry (increment_received_count now session_id) core) (\<lambda>_ core.
     and_then (if se_state s \<noteq> SsTransferring
               then in_registry (transition now session_id SsTransferring) core
               else in_registry (require_session session_id) core) (\<lambda>s core.
     and_then (in_registry (require_session session_id) (publish name_of s [] [] None core)) (\<lambda>s core.
       (core, Inr (batch_complete s)))))))"

definition handle_revisit_transfer ::
    "int \<Rightarrow> connection_config \<Rightarrow> string \<Rightarrow> int option \<Rightarrow> share_core
     \<Rightarrow> share_core \<times> share_session shared" where
  "handle_revisit_transfer now config peer_device_name image_count core =
     and_then (in_registry (bootstrap now config) core) (\<lambda>s core.
     and_then (if se_state s \<noteq> SsTransferring
               then in_registry (transition now (cc_session_id config) SsTransferring) core
               else (core, Inr s)) (\<lambda>_ core.
     and_then (case image_count of
                 Some n \<Rightarrow> in_registry (set_batch_metadata now (cc_session_id config) n) core
               | None \<Rightarrow> (core, Inr s)) (\<lambda>_ core.
     and_then (in_registry (require_session (cc_session_id config)) core) (\<lambda>s core.
       (publish (\<lambda>_. peer_device_name) s [] [] None core, Inr s)))))"

definition handle_delivery_complete ::
    "(string \<Rightarrow> string) \<Rightarrow> int \<Rightarrow> string \<Rightarrow> string \<Rightarrow> string \<Rightarrow> share_core \<Rightarrow> share_core \<times> unit shared" where
  "handle_delivery_complete name_of now session_id text_content file_path core =
     and_then (in_registry (require_session session_id) core) (\<lambda>s core.
       if 0 < se_image_count s \<and> se_received_count s < se_image_count s then (core, Inr ())
       else and_then (if se_state s \<noteq> SsDelivering
                      then and_then (in_registry (transition now session_id SsDelivering) core) (\<lambda>s core.
                             (publish name_of s text_content file_path None core, Inr ()))
                      else (core, Inr ())) (\<lambda>_ core.
            and_then (in_registry (transition now session_id SsDone) core) (\<lambda>s core.
              (publish name_of s text_content file_path None core, Inr ()))))"

definition desired_terminal_state_for_error :: "share_error \<Rightarrow> session_state" where
  "desired_terminal_state_for_error e =
     (if er_error_code e = UserAborted then SsAborted
      else if er_error_code e \<in> {TransferTimeout, ConfirmTimeout} then SsTimedOut
      else SsFailed)"

definition fail_session ::
    "(string \<Rightarrow> string) \<Rightarrow> int \<Rightarrow> string \<Rightarrow> share_error \<Rightarrow> share_core \<Rightarrow> share_core \<times> share_session shared" where
  "fail_session name_of now session_id err core =
     and_then (case in_registry (transition now session_id (desired_terminal_state_for_error err)) core of
                 (core1, Inl (ShareError _)) \<Rightarrow> in_registry (transition now session_id SsFailed) core1
               | r \<Rightarrow> r) (\<lambda>s core.
       (publish name_of s [] [] (Some err) core, Inr s))"

definition abort_session ::
    "(string \<Rightarrow> string) \<Rightarrow> int \<Rightarrow> string \<Rightarrow> share_core \<Rightarrow> share_core \<times> share_session shared" where
  "abort_session name_of now session_id core =
     and_then (in_registry (transition now session_id SsAborted) core) (\<lambda>s core.
       (publish name_of s [] []
          (Some (share_error_of UserAborted ''User aborted the instant-share transfer.'' None)) core, Inr s))"

section \<open>What a step may do to a registry\<close>

text \<open>
  The contract of the registry: its sessions are keyed by their own identifiers and have valid
  configurations, the active ones stay within the limit, and the running timers are those of the
  sessions that ended.
\<close>

definition registry_ok :: "session_registry \<Rightarrow> bool" where
  "registry_ok r \<longleftrightarrow>
     dict_ok (sr_active_sessions r) \<and> distinct (sr_cleanup_timers r) \<and>
     (\<forall>(k, s)\<in>set (sr_active_sessions r).
        cc_session_id (se_connection_config s) = k \<and> config_validate (se_connection_config s) = Inr () \<and>
        0 \<le> se_received_count s \<and> (k \<in> set (sr_cleanup_timers r) \<longleftrightarrow> \<not> active_state (se_state s))) \<and>
     set (sr_cleanup_timers r) \<subseteq> fst ` set (sr_active_sessions r) \<and>
     int (length (active_sessions r)) \<le> sr_max_sessions r"

text \<open>
  One step of the life of the sessions: a new one, a change of a session along the transition table
  (or of its counters and clock only), or the end of one whose timer fired.
\<close>

inductive registry_step :: "session_registry \<Rightarrow> session_registry \<Rightarrow> bool" where
  step_new: "config_validate config = Inr () \<Longrightarrow> get_share_session r (cc_session_id config) = None \<Longrightarrow>
     int (length (active_sessions r)) < sr_max_sessions r \<Longrightarrow>
     registry_step r (put_session (cc_session_id config) (new_session now config) r)"
| step_counters: "get_share_session r k = Some s \<Longrightarrow> se_state s' = se_state s \<Longrightarrow>
     se_connection_config s' = se_connection_config s \<Longrightarrow> se_received_count s \<le> se_received_count s' \<Longrightarrow>
     registry_step r (put_session k s' r)"
| step_move: "get_share_session r k = Some s \<Longrightarrow> n \<in> set (allowed_transitions (se_state s)) \<Longrightarrow> active_state n \<Longrightarrow>
     registry_step r (put_session k (s\<lparr>se_state := n, se_last_updated := now\<rparr>) r)"
| step_end: "get_share_session r k = Some s \<Longrightarrow> n \<in> set (allowed_transitions (se_state s)) \<Longrightarrow> \<not> active_state n \<Longrightarrow>
     registry_step r (schedule_cleanup k (put_session k (s\<lparr>se_state := n, se_last_updated := now\<rparr>) r))"

abbreviation registry_steps :: "session_registry \<Rightarrow> session_registry \<Rightarrow> bool" where
  "registry_steps \<equiv> registry_step\<^sup>*\<^sup>*"

inductive_cases registry_stepE: "registry_step r r'"

end
