(* ===== verification/ShareDelivery.thy ===== *)
theory ShareDelivery
  imports ShareSessions TransferFilesProps PayloadEncryption
begin

text \<open>
  Where a shared text or image goes: the delivery service (\<^verbatim>\<open>instant_sharing/delivery.py\<close>)
  writes it to the clipboard or to a new file of the downloads directory, and the transfer handler
  (\<^verbatim>\<open>transfer_server.py\<close>) checks an upload against its session before it delivers it.

  The clipboard writer is an argument: \<open>None\<close> without one, else the exception that writing an item
  raises, if any.  The file system has no symbolic links, so \<^verbatim>\<open>resolve\<close> leaves an absolute
  path without \<^verbatim>\<open>..\<close> as it is.
\<close>

section \<open>The delivery service\<close>

datatype clip_item = ClipText string | ClipImage "byte list"

type_synonym clipboard_writer = "clip_item \<Rightarrow> pyexn option"

text \<open>\<open>QtClipboardWriter\<close>, given whether a Qt application runs and which bytes decode to an image.\<close>

definition qt_write_text :: "bool \<Rightarrow> string \<Rightarrow> pyexn option" where
  "qt_write_text application t =
     (if application then None else Some (RuntimeError ''Qt application instance is not available.''))"

definition qt_write_image_bytes :: "bool \<Rightarrow> (byte list \<Rightarrow> bool) \<Rightarrow> byte list \<Rightarrow> pyexn option" where
  "qt_write_image_bytes application decodes bs =
     (if \<not> application then Some (RuntimeError ''Qt application instance is not available.'')
      else if \<not> decodes bs then Some (ValueError ''image_bytes do not decode into a valid image.'')
      else None)"

definition qt_clipboard_writer :: "bool \<Rightarrow> (byte list \<Rightarrow> bool) \<Rightarrow> clipboard_writer" where
  "qt_clipboard_writer application decodes item =
     (case item of ClipText t \<Rightarrow> qt_write_text application t
      | ClipImage bs \<Rightarrow> qt_write_image_bytes application decodes bs)"

record delivery_service =
  dv_clipboard_writer :: "clipboard_writer option"
  dv_image_delivery_mode :: string
  dv_downloads_dir :: ppath

record delivery_state =
  ds_fs :: pyfs
  ds_clipboard :: "clip_item option"

record image_payload =
  ip_metadata :: share_metadata
  ip_image_bytes :: "byte list"
  ip_filename :: "string option"
  ip_content_type :: string
  ip_temp_file_path :: "ppath option"

definition in_fs :: "(pyfs \<Rightarrow> pyfs \<times> (os_error + 'a)) \<Rightarrow> delivery_state \<Rightarrow> delivery_state \<times> 'a shared" where
  "in_fs f st = (case f (ds_fs st) of (fs, r) \<Rightarrow> (st\<lparr>ds_fs := fs\<rparr>, map_sum (\<lambda>e. PyError (OSError e)) id r))"

definition delivered :: "bool \<Rightarrow> string list \<Rightarrow> delivery_result" where
  "delivered clipboard paths =
     \<lparr>dr_state = SsDone,
      dr_target_result = \<lparr>dt_clipboard_written = clipboard, dt_files_written_count = int (length paths), dt_output_paths = paths\<rparr>,
      dr_error_code = None, dr_error_message = None\<rparr>"

definition write_clipboard ::
    "delivery_service \<Rightarrow> string \<Rightarrow> clip_item \<Rightarrow> delivery_state \<Rightarrow> delivery_state \<times> delivery_result shared" where
  "write_clipboard dv what item st =
     (case dv_clipboard_writer dv of
        None \<Rightarrow> (st, Inl (ShareError (share_error_of PayloadUnreadable
                  (what @ '' delivery requires a clipboard writer.'') None)))
      | Some writer \<Rightarrow>
          (case writer item of
             Some e \<Rightarrow> (st, Inl (PyError e))
           | None \<Rightarrow> (st\<lparr>ds_clipboard := Some item\<rparr>, Inr (delivered True []))))"

definition deliver_text ::
    "delivery_service \<Rightarrow> string \<Rightarrow> delivery_state \<Rightarrow> delivery_state \<times> delivery_result shared" where
  "deliver_text dv text_utf8 st = write_clipboard dv ''Text payload'' (ClipText text_utf8) st"

definition fs_read_bytes :: "ppath \<Rightarrow> pyfs \<Rightarrow> pyfs \<times> (os_error + byte list)" where
  "fs_read_bytes p = fs_call (\<lambda>fs.
     case fs_read fs p of
       None \<Rightarrow> (fs, Inl (os_error_of ''No such file or directory'' (Some ENOENT)))
     | Some bs \<Rightarrow> (fs, Inr bs))"

text \<open>\<^verbatim>\<open>path.write_bytes(bs)\<close>: the file is created or emptied, written and closed.\<close>

definition fs_write_bytes :: "ppath \<Rightarrow> byte list \<Rightarrow> pyfs \<Rightarrow> pyfs \<times> (os_error + unit)" where
  "fs_write_bytes p bs fs =
     fs_seq (fs_create p fs) (\<lambda>_ fs. fs_seq (fs_append p bs fs) (\<lambda>_ fs. fs_close fs))"

text \<open>\<^verbatim>\<open>shutil.copy2(src, dst)\<close>: the contents, then the metadata.\<close>

definition shutil_copy2 :: "ppath \<Rightarrow> ppath \<Rightarrow> pyfs \<Rightarrow> pyfs \<times> (os_error + unit)" where
  "shutil_copy2 src dst fs =
     fs_seq (fs_read_bytes src fs) (\<lambda>bs fs. fs_seq (fs_write_bytes dst bs fs) (\<lambda>_ fs. fs_call (\<lambda>fs. (fs, Inr ())) fs))"

definition infer_extension :: "string \<Rightarrow> string" where
  "infer_extension content_type =
     (let t = py_lower (py_strip content_type)
      in if t = ''image/png'' then ''.png''
         else if t \<in> {''image/jpeg'', ''image/jpg''} then ''.jpg''
         else if t = ''image/webp'' then ''.webp''
         else ''.bin'')"

definition download_name_char :: "char \<Rightarrow> bool" where
  "download_name_char c \<longleftrightarrow> (let n = of_char c :: nat in
     65 \<le> n \<and> n \<le> 90 \<or> 97 \<le> n \<and> n \<le> 122 \<or> 48 \<le> n \<and> n \<le> 57 \<or> c \<in> {CHR ''.'', CHR ''_'', CHR ''-''})"

definition sanitize_download_name :: "string \<Rightarrow> string" where
  "sanitize_download_name filename =
     (let sanitized = strip_by (\<lambda>c. c = CHR ''-'' \<or> c = CHR ''.'')
            (sub_runs (\<lambda>c. \<not> download_name_char c) (CHR ''-'') filename)
      in if sanitized = [] then ''instant-share-image.bin'' else sanitized)"

definition path_invalid :: "string \<Rightarrow> share_exn" where
  "path_invalid message = ShareError (share_error_of DeliveryPathInvalid message None)"

definition resolve_filename :: "image_payload \<Rightarrow> string shared" where
  "resolve_filename p =
     (if sm_payload_class (ip_metadata p) \<noteq> PayloadImage
      then Inl (ShareError (share_error_of TargetIntentInvalidForPayload
             ''Instant-share delivery currently supports image binary payloads only.'' None))
      else let filename = (if blank_text (ip_filename p) then ''instant-share-image'' @ infer_extension (ip_content_type p)
                           else py_strip (or_empty (ip_filename p)));
               path = path_of filename
           in if fst path \<noteq> [] \<or> ''..'' \<in> set (snd path)
              then Inl (path_invalid (''Unsafe output filename requested: '' @ filename))
              else Inr (sanitize_download_name (path_name path)))"

definition is_within :: "ppath \<Rightarrow> ppath \<Rightarrow> bool" where
  "is_within p base = (case path_relative_to p base of Inl _ \<Rightarrow> False | Inr _ \<Rightarrow> True)"

definition escapes :: "ppath \<Rightarrow> share_exn" where
  "escapes candidate =
     path_invalid (''Resolved delivery path escapes the downloads directory: '' @ path_posix candidate)"

text \<open>The loop over the collision indices; \<open>None\<close> is a loop that needs more rounds than the fuel.\<close>

fun next_output_path :: "nat \<Rightarrow> pyfs \<Rightarrow> ppath \<Rightarrow> string \<Rightarrow> nat \<Rightarrow> ppath shared option" where
  "next_output_path 0 fs downloads_dir filename collision_index = None"
| "next_output_path (Suc fuel) fs downloads_dir filename collision_index =
     (let next_candidate = path_join downloads_dir
            (name_stem filename @ ''-'' @ str_nat collision_index @ name_suffix filename)
      in if \<not> is_within next_candidate downloads_dir then Some (Inl (escapes next_candidate))
         else if \<not> fs_exists fs next_candidate then Some (Inr next_candidate)
         else next_output_path fuel fs downloads_dir filename (collision_index + 1))"

definition resolve_output_path :: "nat \<Rightarrow> pyfs \<Rightarrow> ppath \<Rightarrow> string \<Rightarrow> ppath shared option" where
  "resolve_output_path fuel fs downloads_dir filename =
     (let candidate = path_join downloads_dir filename
      in if \<not> is_within candidate downloads_dir then Some (Inl (escapes candidate))
         else if \<not> fs_exists fs candidate then Some (Inr candidate)
         else next_output_path fuel fs downloads_dir (path_name candidate) 2)"

text \<open>The fuel is the number of files and directories and one more, which is enough (\<open>output_path_found\<close>).\<close>

definition write_image_file ::
    "delivery_service \<Rightarrow> image_payload \<Rightarrow> delivery_state \<Rightarrow> delivery_state \<times> ppath shared" where
  "write_image_file dv p st =
     and_then (in_fs (fs_mkdir_parents (dv_downloads_dir dv)) st) (\<lambda>_ st.
       case resolve_filename p of
         Inl e \<Rightarrow> (st, Inl e)
       | Inr filename \<Rightarrow>
           (case resolve_output_path (conflict_fuel (ds_fs st)) (ds_fs st) (dv_downloads_dir dv) filename of
              Some (Inr output_path) \<Rightarrow>
                and_then (case ip_temp_file_path p of
                            Some temp \<Rightarrow> in_fs (shutil_copy2 temp output_path) st
                          | None \<Rightarrow> in_fs (fs_write_bytes output_path (ip_image_bytes p)) st) (\<lambda>_ st.
                  (st, Inr output_path))
            | Some (Inl e) \<Rightarrow> (st, Inl e)
            | None \<Rightarrow> (st, Inl (PyError (RuntimeError ''out of fuel'')))))"

definition deliver_image ::
    "delivery_service \<Rightarrow> image_payload \<Rightarrow> delivery_state \<Rightarrow> delivery_state \<times> delivery_result shared" where
  "deliver_image dv p st =
     (if dv_image_delivery_mode dv = ''clipboard''
      then (if dv_clipboard_writer dv = None then write_clipboard dv ''Image clipboard'' (ClipImage []) st
            else and_then (case ip_temp_file_path p of
                             Some temp \<Rightarrow> in_fs (fs_read_bytes temp) st
                           | None \<Rightarrow> (st, Inr (ip_image_bytes p))) (\<lambda>bs.
                   write_clipboard dv ''Image clipboard'' (ClipImage bs)))
      else and_then (write_image_file dv p st) (\<lambda>output_path st.
             (st, Inr (delivered False [path_posix output_path]))))"

section \<open>The transfer handler\<close>

record share_transfer_result =
  xr_session_id :: string
  xr_correlation_id :: string
  xr_state :: string
  xr_bytes_received :: int
  xr_output_file_path :: string

definition transfer_result_as_dict :: "share_transfer_result \<Rightarrow> payload" where
  "transfer_result_as_dict r =
     [(''session_id'', JStr (xr_session_id r)), (''correlation_id'', JStr (xr_correlation_id r)),
      (''state'', JStr (xr_state r)), (''bytes_received'', JInt (xr_bytes_received r)), (''accepted'', JBool True)]"

definition handler_error :: "share_error_code \<Rightarrow> string \<Rightarrow> string \<Rightarrow> share_exn" where
  "handler_error code message correlation_id = ShareError (share_error_of code message (Some correlation_id))"

text \<open>
  \<open>reason\<close> is the text of the exception that decoding or parsing the body raises, and \<open>shown\<close> the
  text of a JSON value that is not a string.
\<close>

definition receive_text ::
    "delivery_service \<Rightarrow> (byte list \<Rightarrow> string) \<Rightarrow> (json \<Rightarrow> string) \<Rightarrow> session_registry \<Rightarrow> string \<Rightarrow> string \<Rightarrow> byte list
     \<Rightarrow> delivery_state \<Rightarrow> delivery_state \<times> share_transfer_result shared" where
  "receive_text dv reason shown reg session_id correlation_id body st =
     (case snd (require_session session_id reg) of
        Inl e \<Rightarrow> (st, Inl e)
      | Inr s \<Rightarrow>
          let metadata = cc_metadata (se_connection_config s) in
          if sm_payload_class metadata \<notin> {PayloadText, PayloadLink}
          then (st, Inl (handler_error DeliveryPathInvalid
                 (''Session '' @ session_id @ '' expects payload_class=image, got text.'') correlation_id))
          else (case Option.bind (utf8_decode body) json_loads of
                  None \<Rightarrow> (st, Inl (handler_error PayloadUnreadable
                            (''Failed to decode text payload: '' @ reason body) correlation_id))
                | Some (JObj decoded) \<Rightarrow>
                    let text_utf8 = dict_str shown decoded ''text_utf8'' []
                    in if text_utf8 = []
                       then (st, Inl (handler_error PayloadUnreadable
                              ''Text payload is missing or empty text_utf8.'' correlation_id))
                       else and_then (deliver_text dv text_utf8 st) (\<lambda>result st. (st, Inr
                              \<lparr>xr_session_id = session_id, xr_correlation_id = correlation_id,
                               xr_state = session_state_value (dr_state result),
                               xr_bytes_received = int (length body), xr_output_file_path = []\<rparr>))
                | Some _ \<Rightarrow> (st, Inl (handler_error PayloadUnreadable
                             ''Text payload must be a JSON object.'' correlation_id))))"

definition fs_file_size :: "ppath \<Rightarrow> pyfs \<Rightarrow> pyfs \<times> (os_error + int)" where
  "fs_file_size p fs = fs_seq (fs_read_bytes p fs) (\<lambda>bs fs. (fs, Inr (int (length bs))))"

definition receive_image ::
    "delivery_service \<Rightarrow> session_registry \<Rightarrow> string \<Rightarrow> string \<Rightarrow> byte list option \<Rightarrow> string option \<Rightarrow> string option
     \<Rightarrow> ppath option \<Rightarrow> delivery_state \<Rightarrow> delivery_state \<times> share_transfer_result shared" where
  "receive_image dv reg session_id correlation_id body content_type filename temp_file_path st =
     (case snd (require_session session_id reg) of
        Inl e \<Rightarrow> (st, Inl e)
      | Inr s \<Rightarrow>
          let metadata = cc_metadata (se_connection_config s);
              bytes = (case body of None \<Rightarrow> [] | Some bs \<Rightarrow> bs) in
          if sm_payload_class metadata \<noteq> PayloadImage
          then (st, Inl (handler_error DeliveryPathInvalid
                 (''Session '' @ session_id @ '' expects payload_class=text, got image.'') correlation_id))
          else if 0 < se_image_count s \<and> se_image_count s \<le> se_received_count s
          then (st, Inl (handler_error TransferLimitExceeded
                 (''Expected '' @ str_int (se_image_count s) @ '' images, but received more.'') correlation_id))
          else if bytes = [] \<and> temp_file_path = None
          then (st, Inl (handler_error PayloadUnreadable ''Image payload body is empty.'' correlation_id))
          else and_then (deliver_image dv
                 \<lparr>ip_metadata = metadata, ip_image_bytes = bytes, ip_filename = filename,
                  ip_content_type = (if or_empty content_type = [] then ''application/octet-stream'' else or_empty content_type),
                  ip_temp_file_path = temp_file_path\<rparr> st) (\<lambda>result st.
               and_then (case temp_file_path of
                           Some temp \<Rightarrow> in_fs (fs_file_size temp) st
                         | None \<Rightarrow> (st, Inr (int (length bytes)))) (\<lambda>n st. (st, Inr
                 \<lparr>xr_session_id = session_id, xr_correlation_id = correlation_id,
                  xr_state = session_state_value (dr_state result), xr_bytes_received = n,
                  xr_output_file_path = (case dt_output_paths (dr_target_result result) of [] \<Rightarrow> [] | p # _ \<Rightarrow> p)\<rparr>))))"

section \<open>Short session identifiers\<close>

text \<open>
  The generator of the identifiers of links (\<^verbatim>\<open>session_id_generator.py\<close>): a counter from 1
  to 255 that is kept in a file; \<open>persisted\<close> is the number that the file holds, if it can be read.
\<close>

definition MAX_COUNTER :: int where "MAX_COUNTER = 255"

definition read_persisted :: "int option \<Rightarrow> int" where
  "read_persisted persisted =
     (case persisted of Some v \<Rightarrow> if 0 < v \<and> v \<le> MAX_COUNTER then v else 0 | None \<Rightarrow> 0)"

definition next_counter :: "int \<Rightarrow> int" where
  "next_counter current = (if MAX_COUNTER < current + 1 then 1 else current + 1)"

text \<open>\<^verbatim>\<open>hex(n)[2:]\<close>.\<close>

fun hex_digits :: "nat \<Rightarrow> string" where
  "hex_digits n = (if n < 16 then [json_hex_digit n] else hex_digits (n div 16) @ [json_hex_digit (n mod 16)])"

declare hex_digits.simps [simp del]

definition next_session_id :: "int \<Rightarrow> int \<times> string" where
  "next_session_id current = (let n = next_counter current in (n, hex_digits (nat n)))"

end
