(* ===== verification/ShareStash.thy ===== *)
theory ShareStash
  imports ShareTrust ShareDelivery
begin

text \<open>
  The stashes that a QR code offers to a phone (\<^verbatim>\<open>instant_sharing/qr_trigger_handler.py\<close>):
  a trigger puts a text or some files aside under a secret code, and the phone fetches the manifest
  and the files.

  The store keeps the entries, the session of each, the stashes with a running expiry timer and the
  notifications that its callbacks got.  A timer that fires is the operation
  \<open>on_expiry_timer_fired\<close>.  The file system of the desktop is an argument: which paths are files,
  their size and their bytes (\<open>None\<close> for any error).  Times are microseconds.
\<close>

section \<open>The store\<close>

definition OPT_CODE_TTL :: int where "OPT_CODE_TTL = 300000000"
definition MAX_CLAIM_ATTEMPTS :: int where "MAX_CLAIM_ATTEMPTS = 3"

text \<open>The configuration module has no \<^verbatim>\<open>_config\<close>, so the limit is always the default.\<close>

definition DEFAULT_MAX_BATCH_FILE_COUNT :: nat where "DEFAULT_MAX_BATCH_FILE_COUNT = 50"

record stash_entry =
  st_stash_id :: string
  st_content_type :: string
  st_content :: "string option"
  st_files :: "file_entry list"
  st_opt_code :: string
  st_created_at :: int
  st_expires_at :: int
  st_attempt_count :: int
  st_max_attempts :: int
  st_claimed :: bool
  st_expired :: bool

datatype stash_event = StashCreated string | StashExpired string | StashClaimed string string

record stash_store =
  sh_stashes :: "(string, stash_entry) dict"
  sh_session_ids :: "(string, string) dict"
  sh_timers :: "string list"
  sh_notices :: "stash_event list"

record desktop_files =
  df_is_file :: "string \<Rightarrow> bool"
  df_size :: "string \<Rightarrow> int option"
  df_read :: "string \<Rightarrow> byte list option"

definition get_stash :: "stash_store \<Rightarrow> string \<Rightarrow> stash_entry option" where
  "get_stash s stash_id = dict_get (sh_stashes s) stash_id"

definition active_stash :: "stash_store \<Rightarrow> stash_entry option" where
  "active_stash s = find (\<lambda>e. \<not> st_claimed e \<and> \<not> st_expired e) (map snd (sh_stashes s))"

definition put_stash :: "stash_entry \<Rightarrow> stash_store \<Rightarrow> stash_store" where
  "put_stash e s = s\<lparr>sh_stashes := dict_set (sh_stashes s) (st_stash_id e) e\<rparr>"

definition notify :: "stash_event \<Rightarrow> stash_store \<Rightarrow> stash_store" where
  "notify n s = s\<lparr>sh_notices := sh_notices s @ [n]\<rparr>"

definition cancel_timer :: "string \<Rightarrow> stash_store \<Rightarrow> stash_store" where
  "cancel_timer stash_id s = s\<lparr>sh_timers := removeAll stash_id (sh_timers s)\<rparr>"

definition start_expiry_timer :: "string \<Rightarrow> stash_store \<Rightarrow> stash_store" where
  "start_expiry_timer stash_id s = s\<lparr>sh_timers := List.insert stash_id (sh_timers s)\<rparr>"

definition invalidate_stash :: "stash_entry \<Rightarrow> stash_store \<Rightarrow> stash_store" where
  "invalidate_stash e s =
     notify (StashExpired (st_stash_id e))
       (cancel_timer (st_stash_id e) (put_stash (e\<lparr>st_expired := True, st_claimed := False\<rparr>) s))"

section \<open>The type of a file\<close>

definition text_extensions :: "(string list \<times> string) list" where
  "text_extensions =
     [([''.txt'', ''.text'', ''.log'', ''.diff'', ''.patch''], ''text/plain''),
      ([''.cfg'', ''.conf'', ''.ini'', ''.toml'', ''.env'', ''.properties'', ''.editorconfig''], ''text/plain''),
      ([''.sh'', ''.bash'', ''.zsh'', ''.fish'', ''.command''], ''text/plain''),
      ([''.py'', ''.pyi'', ''.pyx''], ''text/plain''),
      ([''.js'', ''.jsx'', ''.mjs'', ''.cjs''], ''text/plain''),
      ([''.ts'', ''.tsx''], ''text/plain''),
      ([''.swift''], ''text/plain''),
      ([''.kt'', ''.kts''], ''text/plain''),
      ([''.java'', ''.scala'', ''.groovy''], ''text/plain''),
      ([''.c'', ''.h''], ''text/plain''),
      ([''.cpp'', ''.cxx'', ''.cc'', ''.hpp'', ''.hxx''], ''text/plain''),
      ([''.rs''], ''text/plain''),
      ([''.go''], ''text/plain''),
      ([''.rb'', ''.rake''], ''text/plain''),
      ([''.php'', ''.phtml''], ''text/plain''),
      ([''.lua''], ''text/plain''),
      ([''.r'', ''.R''], ''text/plain''),
      ([''.pl'', ''.pm''], ''text/plain''),
      ([''.dart''], ''text/plain''),
      ([''.md'', ''.markdown'', ''.mdown'', ''.mkd'', ''.rst'', ''.adoc''], ''text/plain''),
      ([''.html'', ''.htm'', ''.xhtml''], ''text/html''),
      ([''.css'', ''.scss'', ''.sass'', ''.less''], ''text/css''),
      ([''.xml'', ''.plist'', ''.svg'', ''.xaml'', ''.rss'', ''.atom''], ''text/xml''),
      ([''.yaml'', ''.yml''], ''text/yaml''),
      ([''.json'', ''.geojson'', ''.har''], ''text/plain''),
      ([''.csv'', ''.tsv''], ''text/plain''),
      ([''.sql''], ''text/plain''),
      ([''.dockerignore''], ''text/plain''),
      ([''.gitignore'', ''.gitattributes''], ''text/plain''),
      ([''.python-version'', ''.ruby-version'', ''.node-version'', ''.nvmrc''], ''text/plain'')]"

definition plain_file_names :: "string list" where
  "plain_file_names = [''makefile'', ''dockerfile'', ''vagrantfile'', ''gemfile'', ''rakefile'', ''procfile'',
     ''brewfile'', ''berksfile'', ''pipfile'', ''jenkinsfile'', ''license'']"

definition detect_mime :: "string \<Rightarrow> string" where
  "detect_mime file_path =
     (let lower = py_lower file_path; basename = last (split_char (CHR ''/'') lower) in
      if py_endswith lower ''.png'' then ''image/png''
      else if py_endswith lower ''.jpg'' \<or> py_endswith lower ''.jpeg'' then ''image/jpeg''
      else if py_endswith lower ''.gif'' then ''image/gif''
      else if py_endswith lower ''.webp'' then ''image/webp''
      else if py_endswith lower ''.bmp'' then ''image/bmp''
      else if basename \<in> set plain_file_names then ''text/plain''
      else case find (\<lambda>(exts, mime). list_ex (py_endswith lower) exts) text_extensions of
             Some (_, mime) \<Rightarrow> mime
           | None \<Rightarrow> ''application/octet-stream'')"

section \<open>Creating a stash\<close>

text \<open>What a trigger draws: \<^verbatim>\<open>uuid4\<close>, \<^verbatim>\<open>time.time()\<close> and \<^verbatim>\<open>secrets.randbelow\<close>.\<close>

record stash_draw =
  sd_stash_id :: string
  sd_now :: int
  sd_random :: nat

definition generate_opt_code :: "nat \<Rightarrow> string" where
  "generate_opt_code random = zero_pad 6 (str_nat (random mod 1000000))"

definition new_stash :: "stash_draw \<Rightarrow> string \<Rightarrow> string option \<Rightarrow> file_entry list \<Rightarrow> stash_entry" where
  "new_stash d content_type content files =
     \<lparr>st_stash_id = sd_stash_id d, st_content_type = content_type, st_content = content, st_files = files,
      st_opt_code = generate_opt_code (sd_random d), st_created_at = sd_now d, st_expires_at = sd_now d + OPT_CODE_TTL,
      st_attempt_count = 0, st_max_attempts = MAX_CLAIM_ATTEMPTS, st_claimed = False, st_expired = False\<rparr>"

definition create_text_stash ::
    "stash_draw \<Rightarrow> string \<Rightarrow> string \<Rightarrow> stash_store \<Rightarrow> stash_store \<times> stash_entry" where
  "create_text_stash d content_type content s =
     (let e = new_stash d content_type (Some content)
            [\<lparr>fe_file_path = [], fe_filename = None, fe_content_type = content_type, fe_size_bytes = 0,
              fe_content = Some content\<rparr>]
      in (start_expiry_timer (st_stash_id e) (put_stash e s), e))"

definition file_entry_of :: "desktop_files \<Rightarrow> json \<Rightarrow> file_entry res" where
  "file_entry_of df item =
     (case item of
        JObj o' \<Rightarrow>
          (case dict_get o' ''file_path'' of
             Some (JStr fp) \<Rightarrow>
               if fp = [] then Inl (ValueError (''Missing or invalid '' @ quoted ''file_path'' @ '' in files entry.''))
               else if \<not> df_is_file df fp then Inl (ValueError (''File not found: '' @ fp))
               else Inr \<lparr>fe_file_path = fp,
                      fe_filename = (case dict_get o' ''filename'' of
                                       Some (JStr n) \<Rightarrow> if n = [] then None else Some n | _ \<Rightarrow> None),
                      fe_content_type = detect_mime fp,
                      fe_size_bytes = (case df_size df fp of Some n \<Rightarrow> n | None \<Rightarrow> 0), fe_content = None\<rparr>
           | _ \<Rightarrow> Inl (ValueError (''Missing or invalid '' @ quoted ''file_path'' @ '' in files entry.'')))
      | _ \<Rightarrow> Inl (ValueError (''Each entry in files must be an object with '' @ quoted ''file_path'' @ ''.'')))"

definition create_file_stash ::
    "desktop_files \<Rightarrow> stash_draw \<Rightarrow> json list \<Rightarrow> stash_store \<Rightarrow> stash_store \<times> stash_entry res" where
  "create_file_stash df d files_raw s =
     (if DEFAULT_MAX_BATCH_FILE_COUNT < length files_raw
      then (s, Inl (ValueError (''Too many files. Maximum is '' @ str_nat DEFAULT_MAX_BATCH_FILE_COUNT @ ''.'')))
      else if files_raw = [] then (s, Inl (ValueError ''files list must not be empty.''))
      else case mapE (file_entry_of df) files_raw of
             Inl e \<Rightarrow> (s, Inl e)
           | Inr file_entries \<Rightarrow>
               let e = new_stash d ''multi/image'' None file_entries
               in (start_expiry_timer (st_stash_id e) (put_stash e s), Inr e))"

definition bad_trigger :: "string \<Rightarrow> payload" where
  "bad_trigger message = [(''_status'', JInt 400), (''status'', JStr ''error''), (''error'', JStr message)]"

text \<open>The stash of a trigger: created, refused with an answer (the inner \<open>Inl\<close>), or an exception.\<close>

definition text_trigger ::
    "stash_draw \<Rightarrow> payload \<Rightarrow> string \<Rightarrow> string \<Rightarrow> stash_store \<Rightarrow> stash_store \<times> (payload + stash_entry) res" where
  "text_trigger d body content_type what s =
     (let bad = (s, Inr (Inl (bad_trigger (''Missing or invalid '' @ quoted ''content'' @ '' for '' @ what @ '' type''))))
      in case dict_get body ''content'' of
           Some (JStr c) \<Rightarrow>
             if c = [] then bad else (case create_text_stash d content_type c s of (s1, e) \<Rightarrow> (s1, Inr (Inr e)))
         | _ \<Rightarrow> bad)"

definition legacy_files :: "payload \<Rightarrow> json list option" where
  "legacy_files body =
     (case dict_get body ''file_path'' of
        Some (JStr fp) \<Rightarrow>
          if fp = [] then None
          else Some [JObj ((''file_path'', JStr fp) #
                 (case dict_get body ''filename'' of
                    Some (JStr n) \<Rightarrow> if n = [] then [] else [(''filename'', JStr n)] | _ \<Rightarrow> []))]
      | _ \<Rightarrow> None)"

definition file_trigger ::
    "desktop_files \<Rightarrow> stash_draw \<Rightarrow> payload \<Rightarrow> stash_store \<Rightarrow> stash_store \<times> (payload + stash_entry) res" where
  "file_trigger df d body s =
     (let files = (\<lambda>raw. case create_file_stash df d raw s of (s1, r) \<Rightarrow> (s1, map_sum id Inr r));
          legacy = (case legacy_files body of
                      None \<Rightarrow> (s, Inr (Inl (bad_trigger (''Missing '' @ quoted ''files'' @ '' array or '' @ quoted ''file_path''))))
                    | Some raw \<Rightarrow> files raw)
      in case dict_get body ''files'' of
           None \<Rightarrow> legacy
         | Some JNull \<Rightarrow> legacy
         | Some (JList raw) \<Rightarrow> files raw
         | Some _ \<Rightarrow> (s, Inr (Inl (bad_trigger (quoted ''files'' @ '' must be an array'')))))"

definition trigger_stash ::
    "desktop_files \<Rightarrow> stash_draw \<Rightarrow> payload \<Rightarrow> stash_store \<Rightarrow> stash_store \<times> (payload + stash_entry) res" where
  "trigger_stash df d body s =
     (let t = dict_get body ''type'' in
      if t = Some (JStr ''text'') then text_trigger d body ''text/plain'' ''text'' s
      else if t = Some (JStr ''link'') then text_trigger d body ''text/uri-list'' ''link'' s
      else if t = Some (JStr ''html'') then text_trigger d body ''text/html'' ''html'' s
      else if t = Some (JStr ''file'') then file_trigger df d body s
      else (s, Inr (Inl (bad_trigger (''Invalid type, must be '' @ quoted ''text'' @ '', '' @ quoted ''file'' @ '', ''
              @ quoted ''html'' @ '', or '' @ quoted ''link'')))))"

text \<open>
  \<open>_process_trigger\<close>: the stash gets the next short session identifier and a trust session of its
  own, whose secret is its code.  The counter belongs to the generator of the identifiers; \<open>key\<close>
  and \<open>nonce\<close> are those of the new trust session.
\<close>

record 'k stash_world =
  sw_store :: stash_store
  sw_trust :: "'k trust_registry"
  sw_counter :: int

definition trigger_answer :: "string \<Rightarrow> stash_entry \<Rightarrow> payload" where
  "trigger_answer session_id e =
     [(''status'', JStr ''stashed''), (''session_id'', JStr session_id), (''stash_id'', JStr (st_stash_id e)),
      (''content_type'', JStr (st_content_type e))]
     @ (if st_files e = [] then [] else [(''file_count'', JInt (int (length (st_files e))))])"

definition process_trigger ::
    "desktop_files \<Rightarrow> stash_draw \<Rightarrow> 'k \<Rightarrow> byte list \<Rightarrow> payload \<Rightarrow> 'k stash_world \<Rightarrow> 'k stash_world \<times> payload res" where
  "process_trigger df d key nonce body w =
     (case trigger_stash df d body (sw_store w) of
        (s, Inl e) \<Rightarrow> (w\<lparr>sw_store := s\<rparr>, Inl e)
      | (s, Inr (Inl answer)) \<Rightarrow> (w\<lparr>sw_store := s\<rparr>, Inr answer)
      | (s, Inr (Inr e)) \<Rightarrow>
          (let (counter, session_id) = next_session_id (sw_counter w);
               (trust, _) = create_trust_session key nonce session_id session_id PcToMobile
                  (Some (st_opt_code e)) (Some (st_stash_id e)) (sw_trust w);
               s1 = s\<lparr>sh_session_ids := dict_set (sh_session_ids s) (st_stash_id e) session_id\<rparr>
           in (\<lparr>sw_store = notify (StashCreated (st_stash_id e)) s1, sw_trust = trust, sw_counter = counter\<rparr>,
               Inr (trigger_answer session_id e))))"

section \<open>Serving a stash\<close>

definition stash_error :: "int \<Rightarrow> string \<Rightarrow> string \<Rightarrow> payload" where
  "stash_error code status message =
     [(''_status'', JInt code), (''status'', JStr status), (''error'', JStr message)]"

definition manifest_item :: "nat \<Rightarrow> file_entry \<Rightarrow> json" where
  "manifest_item i f = JObj
     ([(''index'', JInt (int i)), (''type'', JStr (entry_type f))]
      @ (case fe_content f of
           Some c \<Rightarrow> [(''content'', JStr c), (''content_type'', JStr (fe_content_type f))]
         | None \<Rightarrow> [(''filename'', JStr (or_empty (fe_filename f))), (''content_type'', JStr (fe_content_type f)),
                    (''size_bytes'', JInt (fe_size_bytes f))]))"

definition retrieve_stash_content :: "int \<Rightarrow> string \<Rightarrow> stash_store \<Rightarrow> stash_store \<times> payload" where
  "retrieve_stash_content now stash_id s =
     (case get_stash s (py_strip stash_id) of
        None \<Rightarrow> (s, stash_error 404 ''not_found'' ''Stash not found'')
      | Some e \<Rightarrow>
          if st_expired e then (s, stash_error 410 ''expired'' ''Stash has expired'')
          else if st_claimed e then (s, stash_error 410 ''expired'' ''Stash already claimed'')
          else if st_expires_at e < now
            then (invalidate_stash e s, stash_error 410 ''expired'' ''Stash has expired'')
          else if st_files e = [] then (s, stash_error 500 ''error'' ''Invalid stash state'')
          else (s, [(''_status'', JInt 200), (''status'', JStr ''ok''), (''file_count'', JInt (int (length (st_files e)))),
                    (''files'', JList (map (\<lambda>(i, f). manifest_item i f) (enumerate 0 (st_files e))))]))"

text \<open>The claim of the first download; \<open>name_of\<close> is the name of the peer of a session.\<close>

definition peer_name_for_stash :: "(string \<Rightarrow> string) \<Rightarrow> string \<Rightarrow> stash_store \<Rightarrow> string" where
  "peer_name_for_stash name_of stash_id s =
     (case dict_get (sh_session_ids s) stash_id of None \<Rightarrow> [] | Some session_id \<Rightarrow> name_of session_id)"

definition claim_stash :: "(string \<Rightarrow> string) \<Rightarrow> stash_entry \<Rightarrow> stash_store \<Rightarrow> stash_store" where
  "claim_stash name_of e s =
     (if st_claimed e then s
      else notify (StashClaimed (st_stash_id e) (peer_name_for_stash name_of (st_stash_id e) s))
             (cancel_timer (st_stash_id e) (put_stash (e\<lparr>st_claimed := True\<rparr>) s)))"

type_synonym file_answer = "int \<times> byte list \<times> string \<times> string"

definition retrieve_stash_file ::
    "desktop_files \<Rightarrow> (string \<Rightarrow> string) \<Rightarrow> string \<Rightarrow> int \<Rightarrow> stash_store \<Rightarrow> stash_store \<times> file_answer" where
  "retrieve_stash_file df name_of stash_id file_index s =
     (case get_stash s (py_strip stash_id) of
        None \<Rightarrow> (s, 404, [], [], [])
      | Some e \<Rightarrow>
          if st_expired e then (s, 410, [], [], [])
          else if st_files e = [] then (s, 400, [], [], [])
          else if file_index < 0 \<or> int (length (st_files e)) \<le> file_index then (s, 400, [], [], [])
          else let f = st_files e ! nat file_index in
            (case fe_content f of
               Some c \<Rightarrow> (claim_stash name_of e s, 200, utf8_encode c, fe_content_type f, or_empty (fe_filename f))
             | None \<Rightarrow>
                 (case df_read df (fe_file_path f) of
                    None \<Rightarrow> (invalidate_stash e s, 404, [], [], [])
                  | Some bs \<Rightarrow> (claim_stash name_of e s, 200, bs, fe_content_type f, or_empty (fe_filename f)))))"

definition cancel_stash :: "string \<Rightarrow> stash_store \<Rightarrow> stash_store \<times> bool" where
  "cancel_stash stash_id s =
     (case get_stash s stash_id of
        None \<Rightarrow> (s, False)
      | Some e \<Rightarrow>
          if st_claimed e \<or> st_expired e then (s, False)
          else (invalidate_stash e s, True))"

definition on_expiry_timer_fired :: "string \<Rightarrow> stash_store \<Rightarrow> stash_store" where
  "on_expiry_timer_fired stash_id s =
     (case get_stash s stash_id of
        None \<Rightarrow> s
      | Some e \<Rightarrow>
          if st_claimed e then s
          else notify (StashExpired stash_id) (put_stash (e\<lparr>st_expired := True\<rparr>) s))"

end
