(* ===== verification/ShareServer.thy ===== *)
theory ShareServer
  imports ShareStash
begin

text \<open>
  The two servers of the receiver: the plain one that establishes trust
  (\<^verbatim>\<open>instant_sharing/https_bootstrap.py\<close>) and the TLS one that takes uploads and serves
  stashes (\<^verbatim>\<open>https_tls_server.py\<close>), with the check of the signature of a request
  (\<^verbatim>\<open>security.verify_session_signature\<close>) and the keychain of peer certificates
  (\<^verbatim>\<open>identity/device_identity.py\<close>).

  All services are present, as \<^verbatim>\<open>runtime.py\<close> wires them.  A request runs by itself: the
  handlers take locks of the registries only, and no theorem here is about two requests that
  overlap.  The X.509 library is an argument; calls of the keychain succeed.
\<close>

section \<open>Certificates\<close>

record 'c x509 =
  xc_parse :: "string \<Rightarrow> 'c option"
  xc_device_id_value :: "'c \<Rightarrow> byte list option"
  xc_common_name :: "'c \<Rightarrow> string option"
  xc_is_ec :: "'c \<Rightarrow> bool"
  xc_verify :: "'c \<Rightarrow> byte list \<Rightarrow> byte list \<Rightarrow> bool"

type_synonym keychain = "(string, string) dict"

definition store_peer_certificate :: "string \<Rightarrow> string \<Rightarrow> keychain \<Rightarrow> keychain" where
  "store_peer_certificate peer_device_id pem kc = dict_set (dict_del kc peer_device_id) peer_device_id pem"

definition load_peer_certificate :: "string \<Rightarrow> keychain \<Rightarrow> string option" where
  "load_peer_certificate peer_device_id kc = dict_get kc peer_device_id"

definition delete_peer_certificate :: "string \<Rightarrow> keychain \<Rightarrow> keychain" where
  "delete_peer_certificate peer_device_id kc = dict_del kc peer_device_id"

definition extract_device_id :: "'c x509 \<Rightarrow> 'c \<Rightarrow> string option" where
  "extract_device_id x c = Option.bind (xc_device_id_value x c) decode_asn1_utf8_string"

definition signature_invalid :: "string \<Rightarrow> share_exn" where
  "signature_invalid message = ShareError ((share_error_of SessionSignatureInvalid message None)\<lparr>er_status_code := 401\<rparr>)"

text \<open>Every way the verification itself can fail gives the same error.\<close>

definition verify_session_signature ::
    "'c x509 \<Rightarrow> keychain \<Rightarrow> string \<Rightarrow> string \<Rightarrow> string \<Rightarrow> string \<Rightarrow> unit shared" where
  "verify_session_signature x kc peer_device_id session_id signature algorithm =
     (if algorithm \<noteq> ''ecdsa-sha256''
      then Inl (signature_invalid (''Unsupported signature algorithm: '' @ algorithm))
      else case load_peer_certificate peer_device_id kc of
             None \<Rightarrow> Inl (ShareError ((share_error_of TrustedKeyNotFound
                       ''No trusted peer certificate found for device'' None)\<lparr>er_status_code := 403\<rparr>))
           | Some pem \<Rightarrow>
               (case xc_parse x pem of
                  None \<Rightarrow> Inl (signature_invalid ''Signature verification failed'')
                | Some cert \<Rightarrow>
                    if \<not> xc_is_ec x cert then Inl (signature_invalid ''Signature verification failed'')
                    else (case security_b64url_decode signature ''signature'' of
                            Inl _ \<Rightarrow> Inl (signature_invalid ''Signature verification failed'')
                          | Inr bs \<Rightarrow>
                              if xc_verify x cert bs (utf8_encode session_id) then Inr ()
                              else Inl (signature_invalid ''Signature verification failed''))))"

section \<open>The receiver\<close>

record 'k receiver =
  rv_world :: "'k stash_world"
  rv_core :: share_core
  rv_delivery :: delivery_state
  rv_keychain :: keychain
  rv_pins_shown :: "(string \<times> string) list"

record ('k, 'c) receiver_env =
  rx_crypto :: "'k share_crypto"
  rx_x509 :: "'c x509"
  rx_delivery :: delivery_service
  rx_files :: desktop_files
  rx_pc_certificate :: string
  rx_reason :: "byte list \<Rightarrow> string"
  rx_shown :: "json \<Rightarrow> string"

text \<open>What a request draws: clocks, identifiers, keys and random bytes.\<close>

record 'k draws =
  dw_monotonic :: int
  dw_time :: int
  dw_uuid :: string
  dw_key :: 'k
  dw_pc_nonce :: "byte list"
  dw_kdf :: "byte list"
  dw_pin :: "byte list"
  dw_nonce :: "byte list"
  dw_temp_path :: ppath

definition trust_of :: "'k receiver \<Rightarrow> string \<Rightarrow> 'k trust_session option" where
  "trust_of rv session_id = dict_get (sw_trust (rv_world rv)) session_id"

definition put_trust :: "string \<Rightarrow> 'k trust_session \<Rightarrow> 'k receiver \<Rightarrow> 'k receiver" where
  "put_trust session_id t rv =
     rv\<lparr>rv_world := (rv_world rv)\<lparr>sw_trust := dict_set (sw_trust (rv_world rv)) session_id t\<rparr>\<rparr>"

definition peer_name :: "'k receiver \<Rightarrow> string \<Rightarrow> string" where
  "peer_name rv session_id = (case trust_of rv session_id of None \<Rightarrow> [] | Some t \<Rightarrow> ts_peer_device_name t)"

definition in_core :: "(share_core \<Rightarrow> share_core \<times> 'a shared) \<Rightarrow> 'k receiver \<Rightarrow> 'k receiver \<times> 'a shared" where
  "in_core f rv = (case f (rv_core rv) of (c, r) \<Rightarrow> (rv\<lparr>rv_core := c\<rparr>, r))"

definition in_delivery ::
    "(delivery_state \<Rightarrow> delivery_state \<times> 'a shared) \<Rightarrow> 'k receiver \<Rightarrow> 'k receiver \<times> 'a shared" where
  "in_delivery f rv = (case f (rv_delivery rv) of (d, r) \<Rightarrow> (rv\<lparr>rv_delivery := d\<rparr>, r))"

definition in_store :: "(stash_store \<Rightarrow> stash_store \<times> 'a) \<Rightarrow> 'k receiver \<Rightarrow> 'k receiver \<times> 'a" where
  "in_store f rv =
     (case f (sw_store (rv_world rv)) of (s, x) \<Rightarrow> (rv\<lparr>rv_world := (rv_world rv)\<lparr>sw_store := s\<rparr>\<rparr>, x))"

definition in_trust ::
    "string \<Rightarrow> ('k trust_session \<Rightarrow> 'k trust_session \<times> 'a shared) \<Rightarrow> 'k trust_session \<Rightarrow> 'k receiver
     \<Rightarrow> 'k receiver \<times> 'a shared" where
  "in_trust session_id f t rv = (case f t of (t', r) \<Rightarrow> (put_trust session_id t' rv, r))"

section \<open>Trust\<close>

record handshake_request =
  hs_mobile_dh_public_key :: string
  hs_mobile_nonce :: string
  hs_payload_class :: string
  hs_target_intent :: string
  hs_trust_mode :: string
  hs_mobile_port :: int
  hs_mobile_ip_list :: "string list"

definition handshake_config :: "string \<Rightarrow> string \<Rightarrow> handshake_request \<Rightarrow> connection_config res" where
  "handshake_config session_id correlation_id body =
     bindE (payload_class_of (hs_payload_class body)) (\<lambda>pc.
     bindE (target_intent_of (hs_target_intent body)) (\<lambda>ti.
     bindE (trust_mode_of (hs_trust_mode body)) (\<lambda>tm. Inr
       \<lparr>cc_session_id = session_id, cc_mobile_port = hs_mobile_port body,
        cc_mobile_ip_list = hs_mobile_ip_list body, cc_correlation_id = correlation_id,
        cc_metadata = \<lparr>sm_payload_class = pc, sm_target_intent = ti, sm_trust_mode = tm, sm_flow_id = FLOW_ID\<rparr>\<rparr>)))"

text \<open>The session of a first share: an \<^verbatim>\<open>InstantShareError\<close> is logged and dropped.\<close>

definition bootstrap_from_handshake ::
    "'k draws \<Rightarrow> string \<Rightarrow> string \<Rightarrow> handshake_request \<Rightarrow> 'k receiver \<Rightarrow> 'k receiver \<times> unit shared" where
  "bootstrap_from_handshake d session_id correlation_id body rv =
     (case handshake_config session_id correlation_id body of
        Inl e \<Rightarrow> (rv, Inl (PyError e))
      | Inr config \<Rightarrow>
          (case and_then (in_core (handle_connection_config (peer_name rv) (dw_monotonic d) config) rv) (\<lambda>_.
                  in_core (handle_trust_handshake_received (peer_name rv) (dw_monotonic d) session_id)) of
             (rv1, Inl (ShareError _)) \<Rightarrow> (rv1, Inr ())
           | r \<Rightarrow> r))"

definition do_trust_handshake ::
    "('k, 'c) receiver_env \<Rightarrow> 'k draws \<Rightarrow> string \<Rightarrow> string \<Rightarrow> handshake_request \<Rightarrow> 'k receiver
     \<Rightarrow> 'k receiver \<times> payload shared" where
  "do_trust_handshake env d session_id_header correlation_id body rv =
     (let session_id = (if session_id_header = [] then dw_uuid d else session_id_header);
          (rv0, t) = (case trust_of rv session_id of
                        Some t \<Rightarrow> (rv, t)
                      | None \<Rightarrow>
                          (case create_trust_session (dw_key d) (dw_pc_nonce d) session_id
                                  (if correlation_id = [] then session_id else correlation_id) MobileToPc None None
                                  (sw_trust (rv_world rv)) of
                             (reg, t) \<Rightarrow> (rv\<lparr>rv_world := (rv_world rv)\<lparr>sw_trust := reg\<rparr>\<rparr>, t)))
      in and_then (if ts_flow_type t = MobileToPc then bootstrap_from_handshake d session_id correlation_id body rv0
                   else (rv0, Inr ())) (\<lambda>_ rv.
         and_then (in_trust session_id (store_mobile_handshake (hs_mobile_dh_public_key body) (hs_mobile_nonce body)) t rv)
           (\<lambda>_ rv. case trust_of rv session_id of
                     None \<Rightarrow> (rv, Inl (ShareError mismatch_error))
                   | Some t \<Rightarrow>
                       and_then (in_trust session_id (establish_session_key (rx_crypto env) (dw_kdf d)) t rv) (\<lambda>_ rv.
                         (case trust_of rv session_id of
                            None \<Rightarrow> (rv, Inl (ShareError mismatch_error))
                          | Some t \<Rightarrow>
                              (case handshake_response (rx_crypto env) (dw_kdf d) t of
                                 (t', answer) \<Rightarrow> (put_trust session_id t' rv, Inr answer)))))))"

definition handshake_required :: "string \<Rightarrow> share_exn" where
  "handshake_required message = ShareError (share_error_of HandshakeRequired message None)"

definition established_session :: "'k receiver \<Rightarrow> string \<Rightarrow> 'k trust_session shared" where
  "established_session rv session_id =
     (case trust_of rv session_id of
        None \<Rightarrow> Inl (handshake_required ''No active session found'')
      | Some t \<Rightarrow>
          if ts_session_key t = None
          then Inl (handshake_required ''Session key not established. Complete handshake first.'')
          else Inr t)"

definition unsupported_action :: "(json \<Rightarrow> string) \<Rightarrow> payload \<Rightarrow> share_exn" where
  "unsupported_action shown p =
     ShareError (share_error_of InvalidRequest (''Unsupported action: '' @ dict_str shown p ''action'' ''None'') None)"

definition with_peer_name :: "payload \<Rightarrow> 'k trust_session \<Rightarrow> 'k trust_session" where
  "with_peer_name p t =
     (case dict_get p ''peer_device_name'' of
        Some (JStr n) \<Rightarrow> if py_strip n = [] then t else set_peer_device_name (py_strip n) t
      | _ \<Rightarrow> t)"

definition do_trust_apply ::
    "('k, 'c) receiver_env \<Rightarrow> 'k draws \<Rightarrow> string \<Rightarrow> payload \<Rightarrow> 'k receiver \<Rightarrow> 'k receiver \<times> payload shared" where
  "do_trust_apply env d session_id envelope rv =
     (case established_session rv session_id of
        Inl e \<Rightarrow> (rv, Inl e)
      | Inr t \<Rightarrow>
          (case decrypt_apply_request (rx_crypto env) t envelope of
             Inl e \<Rightarrow> (rv, Inl e)
           | Inr p \<Rightarrow>
               if dict_get p ''action'' \<noteq> Some (JStr ''request_pin'')
               then (rv, Inl (unsupported_action (rx_shown env) p))
               else (case generate_pin (dw_pin d) (with_peer_name p t) of
                       (t', pin) \<Rightarrow>
                         (case encrypted_apply_ack_envelope (rx_crypto env) (dw_nonce d) t' of
                            Inl e \<Rightarrow> (put_trust session_id t' rv, Inl e)
                          | Inr ack \<Rightarrow>
                              ((put_trust session_id t' rv)\<lparr>rv_pins_shown := rv_pins_shown rv @ [(pin, session_id)]\<rparr>,
                               Inr ((''apply_status'', JStr ''accepted'') # ack))))))"

text \<open>The identifier under which the certificate of the phone is stored.\<close>

definition certificate_device_id :: "'c x509 \<Rightarrow> string \<Rightarrow> string \<Rightarrow> string" where
  "certificate_device_id x correlation_id pem =
     (case xc_parse x pem of
        None \<Rightarrow> correlation_id
      | Some cert \<Rightarrow>
          (case extract_device_id x cert of
             Some device_id \<Rightarrow> device_id
           | None \<Rightarrow> (case xc_common_name x cert of Some cn \<Rightarrow> cn | None \<Rightarrow> correlation_id)))"

definition do_trust_confirm ::
    "('k, 'c) receiver_env \<Rightarrow> 'k draws \<Rightarrow> string \<Rightarrow> string \<Rightarrow> payload \<Rightarrow> 'k receiver
     \<Rightarrow> 'k receiver \<times> payload shared" where
  "do_trust_confirm env d session_id correlation_id envelope rv =
     (case established_session rv session_id of
        Inl e \<Rightarrow> (rv, Inl e)
      | Inr t \<Rightarrow>
          (case decrypt_confirm_request (rx_crypto env) t envelope of
             Inl e \<Rightarrow> (rv, Inl e)
           | Inr p \<Rightarrow>
               if dict_get p ''action'' \<noteq> Some (JStr ''confirm'')
               then (rv, Inl (unsupported_action (rx_shown env) p))
               else let t1 = with_peer_name p t; rv1 = put_trust session_id t1 rv in
                 (case dict_get p ''pairing_auth'' of
                    Some (JStr auth) \<Rightarrow>
                      if py_strip auth = []
                      then (rv1, Inl (ShareError (share_error_of InvalidRequest
                             ''pairing_auth is required for trust confirmation.'' None)))
                      else (case verify_pairing_auth (rx_crypto env) t1 (py_strip auth) of
                              Inl e \<Rightarrow> (rv1, Inl (PyError e))
                            | Inr False \<Rightarrow> (rv1, Inl (ShareError ((share_error_of PinMismatchOrRejected
                                    ''Pairing auth does not match.'' None)\<lparr>er_status_code := 403\<rparr>)))
                            | Inr True \<Rightarrow>
                                (let (t2, kc) = (case dict_get p ''device_certificate_pem'' of
                                       Some (JStr pem) \<Rightarrow>
                                         if py_strip pem = [] then (t1, rv_keychain rv)
                                         else (store_mobile_certificate pem t1,
                                               store_peer_certificate
                                                 (certificate_device_id (rx_x509 env) correlation_id pem) pem (rv_keychain rv))
                                     | _ \<Rightarrow> (t1, rv_keychain rv));
                                     t3 = mark_trusted t2
                                 in ((put_trust session_id t3 rv)\<lparr>rv_keychain := kc\<rparr>,
                                     encrypted_trust_status (rx_crypto env) (dw_nonce d)
                                       (Some (rx_pc_certificate env)) t3)))
                  | _ \<Rightarrow> (rv1, Inl (ShareError (share_error_of InvalidRequest
                           ''pairing_auth is required for trust confirmation.'' None))))))"

section \<open>Transfers\<close>

record signature_headers =
  sg_session_id :: string
  sg_peer_device_id :: string
  sg_signature :: string
  sg_algorithm :: string

definition missing_headers :: "signature_headers \<Rightarrow> string list" where
  "missing_headers h = map fst (filter (\<lambda>(n, v). v = [])
     [(''X-Session-Id'', sg_session_id h), (''X-Peer-Device-Id'', sg_peer_device_id h),
      (''X-Session-Signature'', sg_signature h), (''X-Session-Signature-Alg'', sg_algorithm h)])"

definition authenticate :: "('k, 'c) receiver_env \<Rightarrow> 'k receiver \<Rightarrow> signature_headers \<Rightarrow> unit shared" where
  "authenticate env rv h =
     (if missing_headers h \<noteq> []
      then Inl (ShareError ((share_error_of InvalidRequest
             (''Missing required signature headers: '' @ py_join '', '' (missing_headers h)) None)\<lparr>er_status_code := 401\<rparr>))
      else verify_session_signature (rx_x509 env) (rv_keychain rv) (sg_peer_device_id h) (sg_session_id h)
             (sg_signature h) (sg_algorithm h))"

definition revisit_config ::
    "string \<Rightarrow> string \<Rightarrow> payload_class \<Rightarrow> target_intent \<Rightarrow> connection_config" where
  "revisit_config session_id correlation_id payload_class target_intent =
     \<lparr>cc_session_id = session_id, cc_mobile_port = 1, cc_mobile_ip_list = [''127.0.0.1''],
      cc_correlation_id = (if correlation_id = [] then session_id else correlation_id),
      cc_metadata = \<lparr>sm_payload_class = payload_class, sm_target_intent = target_intent,
        sm_trust_mode = TrustedDirect, sm_flow_id = FLOW_ID\<rparr>\<rparr>"

definition positive :: "int \<Rightarrow> int option" where
  "positive n = (if 0 < n then Some n else None)"

definition try_create_revisit_session ::
    "'k draws \<Rightarrow> string \<Rightarrow> string \<Rightarrow> payload_class \<Rightarrow> target_intent \<Rightarrow> string \<Rightarrow> int \<Rightarrow> 'k receiver
     \<Rightarrow> 'k receiver \<times> bool shared" where
  "try_create_revisit_session d session_id correlation_id payload_class target_intent peer_device_name image_count rv =
     (let config = revisit_config session_id correlation_id payload_class target_intent
      in case config_validate config of
           Inl _ \<Rightarrow> (rv, Inr False)
         | Inr _ \<Rightarrow>
             and_then (in_core (handle_revisit_transfer (dw_monotonic d) config peer_device_name (positive image_count)) rv)
               (\<lambda>_ rv. (rv, Inr True)))"

definition session_not_found :: share_exn where
  "session_not_found = ShareError ((share_error_of SessionNotFound ''No active session found'' None)\<lparr>er_status_code := 404\<rparr>)"

definition trust_required :: share_exn where
  "trust_required = ShareError ((share_error_of TrustRequired
     ''Trust handshake must be completed before transfer'' None)\<lparr>er_status_code := 403\<rparr>)"

text \<open>Who may upload: a trusted session, or a new visit of a known peer; the answer tells which.\<close>

definition admit_upload ::
    "'k draws \<Rightarrow> string \<Rightarrow> string \<Rightarrow> payload_class \<Rightarrow> target_intent \<Rightarrow> string \<Rightarrow> int \<Rightarrow> 'k receiver
     \<Rightarrow> 'k receiver \<times> bool shared" where
  "admit_upload d session_id correlation_id payload_class target_intent peer_device_name image_count rv =
     (case trust_of rv session_id of
        None \<Rightarrow>
          and_then (try_create_revisit_session d session_id correlation_id payload_class target_intent
                      peer_device_name image_count rv) (\<lambda>created rv.
            if created then (rv, Inr True) else (rv, Inl session_not_found))
      | Some t \<Rightarrow> if ts_is_trusted t then (rv, Inr False) else (rv, Inl trust_required))"

definition delivered_answer :: "share_transfer_result \<Rightarrow> payload" where
  "delivered_answer r = fold (\<lambda>(k, v) p. dict_set p k v) (transfer_result_as_dict r) [(''state'', JStr ''delivered'')]"

text \<open>The calls of the orchestrator after an upload: whatever they raise is logged and dropped.\<close>

definition do_transfer_text ::
    "('k, 'c) receiver_env \<Rightarrow> 'k draws \<Rightarrow> string \<Rightarrow> string \<Rightarrow> byte list \<Rightarrow> string \<Rightarrow> string \<Rightarrow> 'k receiver
     \<Rightarrow> 'k receiver \<times> payload shared" where
  "do_transfer_text env d session_id correlation_id raw_body payload_text_utf8 peer_device_name rv =
     and_then (admit_upload d session_id correlation_id PayloadText ClipboardOnly peer_device_name 0 rv) (\<lambda>is_revisit rv.
     and_then (in_delivery (receive_text (rx_delivery env) (rx_reason env) (rx_shown env) (co_registry (rv_core rv))
                 session_id correlation_id raw_body) rv) (\<lambda>result rv.
       (fst (and_then (if is_revisit then (rv, Inr True)
                       else in_core (handle_transfer_received (peer_name rv) (dw_monotonic d) session_id None) rv) (\<lambda>_ rv.
               in_core (handle_delivery_complete (peer_name rv) (dw_monotonic d) session_id payload_text_utf8 []) rv)),
        Inr (delivered_answer result))))"

definition do_transfer_image ::
    "('k, 'c) receiver_env \<Rightarrow> 'k draws \<Rightarrow> string \<Rightarrow> string \<Rightarrow> string \<Rightarrow> string option \<Rightarrow> string \<Rightarrow> ppath \<Rightarrow> int
     \<Rightarrow> 'k receiver \<Rightarrow> 'k receiver \<times> payload shared" where
  "do_transfer_image env d session_id correlation_id content_type filename peer_device_name temp_file_path image_count rv =
     and_then (admit_upload d session_id correlation_id PayloadImage ClipboardOrFile peer_device_name image_count rv) (\<lambda>_ rv.
     and_then (in_delivery (receive_image (rx_delivery env) (co_registry (rv_core rv)) session_id correlation_id None
                 (Some content_type) filename (Some temp_file_path)) rv) (\<lambda>result rv.
       (fst (and_then (in_core (handle_transfer_received (peer_name rv) (dw_monotonic d) session_id (positive image_count)) rv)
               (\<lambda>complete rv.
                  if complete
                  then in_core (handle_delivery_complete (peer_name rv) (dw_monotonic d) session_id []
                         (xr_output_file_path result)) rv
                  else (rv, Inr ()))),
        Inr (delivered_answer result))))"

text \<open>The stash that a trusted session may fetch.\<close>

definition admitted_stash :: "'k receiver \<Rightarrow> string \<Rightarrow> string shared" where
  "admitted_stash rv session_id =
     (case trust_of rv session_id of
        None \<Rightarrow> Inl session_not_found
      | Some t \<Rightarrow>
          if \<not> ts_is_trusted t then Inl trust_required
          else (case ts_stash_id t of
                  None \<Rightarrow> Inl (ShareError (share_error_of InvalidRequest ''No stash associated with this session'' None))
                | Some stash_id \<Rightarrow> Inr stash_id))"

definition do_transfer_manifest :: "'k draws \<Rightarrow> string \<Rightarrow> 'k receiver \<Rightarrow> 'k receiver \<times> payload shared" where
  "do_transfer_manifest d session_id rv =
     (case admitted_stash rv session_id of
        Inl e \<Rightarrow> (rv, Inl e)
      | Inr stash_id \<Rightarrow>
          (case in_store (retrieve_stash_content (dw_time d) stash_id) rv of
             (rv1, p) \<Rightarrow> (rv1, Inr (filter (\<lambda>(k, v). \<not> py_startswith k ''_'') p))))"

definition do_transfer_download_file ::
    "('k, 'c) receiver_env \<Rightarrow> string \<Rightarrow> int \<Rightarrow> 'k receiver \<Rightarrow> 'k receiver \<times> file_answer shared" where
  "do_transfer_download_file env session_id file_index rv =
     (case admitted_stash rv session_id of
        Inl e \<Rightarrow> (rv, Inl e)
      | Inr stash_id \<Rightarrow>
          (case in_store (retrieve_stash_file (rx_files env) (peer_name rv) stash_id file_index) rv of
             (rv1, answer) \<Rightarrow> (rv1, Inr answer)))"

section \<open>Routes\<close>

datatype share_request =
    TrustHandshake string string handshake_request
  | TrustApply string payload
  | TrustConfirm string string payload
  | SharePing
  | UnknownEndpoint
  | TransferText signature_headers string "byte list" string string
  | TransferImage signature_headers string "byte list" string "string option" string int
  | TransferManifest signature_headers
  | TransferDownload signature_headers int

datatype share_body = JsonBody payload | FileBody "byte list" string string

type_synonym share_response = "int \<times> share_body"

definition error_response :: "share_exn \<Rightarrow> share_response" where
  "error_response e =
     (case e of
        ShareError s \<Rightarrow> (er_status_code s,
          JsonBody [(''error_code'', JStr (share_error_code_value (er_error_code s))), (''message'', JStr (er_message s))])
      | PyError _ \<Rightarrow> (500, JsonBody []))"

definition respond :: "int \<Rightarrow> 'k receiver \<times> payload shared \<Rightarrow> 'k receiver \<times> share_response" where
  "respond status r = (case r of (rv, Inl e) \<Rightarrow> (rv, error_response e) | (rv, Inr p) \<Rightarrow> (rv, status, JsonBody p))"

definition download_error :: "int \<Rightarrow> int \<Rightarrow> string" where
  "download_error status file_index =
     (if status = 404 then ''Stash not found or source file not accessible''
      else if status = 410 then ''Stash expired or source file unavailable''
      else if status = 400 then ''File index '' @ str_int file_index @ '' out of range''
      else ''Invalid request'')"

text \<open>The image is first written to a temporary file, which is removed whatever happens.\<close>

definition transfer_image ::
    "('k, 'c) receiver_env \<Rightarrow> 'k draws \<Rightarrow> signature_headers \<Rightarrow> string \<Rightarrow> byte list \<Rightarrow> string \<Rightarrow> string option \<Rightarrow> string
     \<Rightarrow> int \<Rightarrow> 'k receiver \<Rightarrow> 'k receiver \<times> payload shared" where
  "transfer_image env d h correlation_id body content_type filename peer_device_name image_count rv =
     and_then (in_delivery (in_fs (fs_write_bytes (dw_temp_path d) body)) rv) (\<lambda>_ rv.
       case do_transfer_image env d (sg_session_id h) correlation_id content_type filename peer_device_name
              (dw_temp_path d) image_count rv of
         (rv1, r) \<Rightarrow> (fst (in_delivery (in_fs (fs_unlink False (dw_temp_path d))) rv1), r))"

definition serve ::
    "('k, 'c) receiver_env \<Rightarrow> 'k draws \<Rightarrow> share_request \<Rightarrow> 'k receiver \<Rightarrow> 'k receiver \<times> share_response" where
  "serve env d request rv =
     (case request of
        TrustHandshake session_id correlation_id body \<Rightarrow>
          respond 200 (do_trust_handshake env d session_id correlation_id body rv)
      | TrustApply session_id envelope \<Rightarrow> respond 202 (do_trust_apply env d session_id envelope rv)
      | TrustConfirm session_id correlation_id envelope \<Rightarrow>
          respond 200 (do_trust_confirm env d session_id correlation_id envelope rv)
      | SharePing \<Rightarrow> (rv, 200, JsonBody [(''status'', JStr ''ok'')])
      | UnknownEndpoint \<Rightarrow> (rv, 404, JsonBody [(''error_code'', JStr ''NOT_FOUND''), (''message'', JStr ''Unknown endpoint'')])
      | TransferText h correlation_id body text_utf8 peer_device_name \<Rightarrow>
          (case authenticate env rv h of
             Inl e \<Rightarrow> (rv, error_response e)
           | Inr _ \<Rightarrow> respond 200 (do_transfer_text env d (sg_session_id h) correlation_id body text_utf8 peer_device_name rv))
      | TransferImage h correlation_id body content_type filename peer_device_name image_count \<Rightarrow>
          (case authenticate env rv h of
             Inl e \<Rightarrow> (rv, error_response e)
           | Inr _ \<Rightarrow> respond 200 (transfer_image env d h correlation_id body content_type filename peer_device_name image_count rv))
      | TransferManifest h \<Rightarrow>
          (case authenticate env rv h of
             Inl e \<Rightarrow> (rv, error_response e)
           | Inr _ \<Rightarrow> respond 200 (do_transfer_manifest d (sg_session_id h) rv))
      | TransferDownload h file_index \<Rightarrow>
          (case authenticate env rv h of
             Inl e \<Rightarrow> (rv, error_response e)
           | Inr _ \<Rightarrow>
               (case do_transfer_download_file env (sg_session_id h) file_index rv of
                  (rv1, Inl e) \<Rightarrow> (rv1, error_response e)
                | (rv1, Inr (status, bytes, content_type, filename)) \<Rightarrow>
                    if status = 200 then (rv1, 200, FileBody bytes content_type filename)
                    else (rv1, status, JsonBody [(''error_code'', JStr ''INVALID_REQUEST''),
                            (''message'', JStr (download_error status file_index))]))))"

end
