(* ===== verification/ShareSessionsProps.thy ===== *)
theory ShareSessionsProps
  imports ShareSessions
begin

text \<open>
  The sessions of the receiver: the registry keeps its contract over every run of the
  orchestrator, a session only moves along the transition table, a batch is complete when its last
  image is counted, and sessions that are never finished fill the registry for good.
\<close>

section \<open>Stores whose entries move along an order\<close>

text \<open>
  The interface of a keyed store that changes by steps: a step keeps the store well formed, and an
  entry that is present stays present and only moves forward.
\<close>

locale forward_store =
  fixes step :: "'r \<Rightarrow> 'r \<Rightarrow> bool" and look :: "'r \<Rightarrow> 'k \<Rightarrow> 's option"
    and ok :: "'r \<Rightarrow> bool" and le :: "'s \<Rightarrow> 's \<Rightarrow> bool"
  assumes step_ok: "ok r \<Longrightarrow> step r r' \<Longrightarrow> ok r'"
    and step_forward: "look r k = Some s \<Longrightarrow> step r r' \<Longrightarrow> \<exists>s'. look r' k = Some s' \<and> le s s'"
    and le_refl: "le s s"
    and le_trans: "le s s' \<Longrightarrow> le s' s'' \<Longrightarrow> le s s''"
begin

lemma steps_ok: "step\<^sup>*\<^sup>* r r' \<Longrightarrow> ok r \<Longrightarrow> ok r'"
  by (induction rule: rtranclp_induct) (auto intro: step_ok)

lemma steps_forward:
  "step\<^sup>*\<^sup>* r r' \<Longrightarrow> look r k = Some s \<Longrightarrow> \<exists>s'. look r' k = Some s' \<and> le s s'"
proof (induction rule: rtranclp_induct)
  case base
  then show ?case using le_refl by blast
next
  case (step r1 r2)
  then obtain s1 where "look r1 k = Some s1" "le s s1" by blast
  moreover from step_forward [OF this(1) step.hyps(2)]
  obtain s2 where "look r2 k = Some s2" "le s1 s2" by blast
  ultimately show ?case using le_trans by blast
qed

lemma steps_final:
  assumes "step\<^sup>*\<^sup>* r r'" and "look r k = Some s" and "\<And>s'. le s s' \<Longrightarrow> f s' = f s"
  shows "\<exists>s'. look r' k = Some s' \<and> f s' = f s"
  using steps_forward [OF assms(1,2)] assms(3) by blast

end

section \<open>Steps of the registry\<close>

definition session_le :: "share_session \<Rightarrow> share_session \<Rightarrow> bool" where
  "session_le s s' \<longleftrightarrow>
     (\<lambda>a b. b \<in> set (allowed_transitions a))\<^sup>*\<^sup>* (se_state s) (se_state s') \<and>
     se_connection_config s' = se_connection_config s \<and> se_received_count s \<le> se_received_count s'"

lemma get_put_session [simp]:
  "get_share_session (put_session k s r) j = (if j = k then Some s else get_share_session r j)"
  by (simp add: get_share_session_def put_session_def)

lemma get_schedule [simp]: "get_share_session (schedule_cleanup k r) = get_share_session r"
  by (simp add: get_share_session_def schedule_cleanup_def fun_eq_iff)

lemma sr_schedule [simp]:
  "sr_active_sessions (schedule_cleanup k r) = sr_active_sessions r"
  "sr_max_sessions (schedule_cleanup k r) = sr_max_sessions r"
  "set (sr_cleanup_timers (schedule_cleanup k r)) = insert k (set (sr_cleanup_timers r))"
  "distinct (sr_cleanup_timers (schedule_cleanup k r)) \<longleftrightarrow> distinct (sr_cleanup_timers r)"
  by (auto simp: schedule_cleanup_def)

lemma sr_put [simp]:
  "sr_max_sessions (put_session k s r) = sr_max_sessions r"
  "sr_cleanup_timers (put_session k s r) = sr_cleanup_timers r"
  "sr_active_sessions (put_session k s r) = dict_set (sr_active_sessions r) k s"
  by (simp_all add: put_session_def)

lemma in_dict_set:
  "dict_ok d \<Longrightarrow> (k', v') \<in> set (dict_set d k v) \<longleftrightarrow> (if k' = k then v' = v else (k', v') \<in> set d)"
  by (simp flip: dict_get_Some_iff) (metis option.inject)

lemma dict_set_keys: "fst ` set (dict_set d k v) = insert k (fst ` set d)"
proof -
  have "set (map fst (dict_set d k v)) = insert k (set (map fst d))"
    unfolding dict_keys_set by auto
  then show ?thesis by simp
qed

text \<open>Replacing an entry changes the number of entries with a property by that of the entry only.\<close>

lemma count_dict_set:
  "length (filter P (map snd (dict_set d k v))) + (case dict_get d k of Some w \<Rightarrow> if P w then 1 else 0 | None \<Rightarrow> 0)
     = length (filter P (map snd d)) + (if P v then 1 else 0)"
  by (induction d) (auto simp: dict_get_def split: option.splits)

lemma active_put:
  "length (active_sessions (put_session k s r)) +
     (case get_share_session r k of Some w \<Rightarrow> if active_state (se_state w) then 1 else 0 | None \<Rightarrow> 0)
   = length (active_sessions r) + (if active_state (se_state s) then 1 else 0)"
  using count_dict_set [of "\<lambda>s. active_state (se_state s)" "sr_active_sessions r" k s]
  by (simp add: active_sessions_def get_share_session_def)

lemma active_schedule [simp]: "active_sessions (schedule_cleanup k r) = active_sessions r"
  by (simp add: active_sessions_def)

lemma allowed_active: "n \<in> set (allowed_transitions a) \<Longrightarrow> active_state a"
  by (cases a) auto

lemma registry_ok_get:
  "registry_ok r \<Longrightarrow> get_share_session r k = Some s \<Longrightarrow>
     cc_session_id (se_connection_config s) = k \<and> config_validate (se_connection_config s) = Inr () \<and>
     0 \<le> se_received_count s \<and> (k \<in> set (sr_cleanup_timers r) \<longleftrightarrow> \<not> active_state (se_state s))"
  unfolding registry_ok_def get_share_session_def by (auto simp: dict_get_Some_iff)

lemma registry_ok_put:
  assumes "registry_ok r" and "get_share_session r k = Some s" and "se_connection_config s' = se_connection_config s"
    and "0 \<le> se_received_count s'" and "active_state (se_state s') = active_state (se_state s)"
  shows "registry_ok (put_session k s' r)"
proof -
  from registry_ok_get [OF assms(1,2)] assms active_put [of k s' r] show ?thesis
    by (auto simp: registry_ok_def in_dict_set dict_set_keys split: if_splits)
qed

lemma registry_ok_end:
  assumes "registry_ok r" and "get_share_session r k = Some s" and "active_state (se_state s)"
    and "se_connection_config s' = se_connection_config s" "se_received_count s' = se_received_count s"
    and "\<not> active_state (se_state s')"
  shows "registry_ok (schedule_cleanup k (put_session k s' r))"
proof -
  from registry_ok_get [OF assms(1,2)] assms active_put [of k s' r] show ?thesis
    by (auto simp: registry_ok_def in_dict_set dict_set_keys split: if_splits)
qed

lemma step_keeps_ok: "registry_ok r \<Longrightarrow> registry_step r r' \<Longrightarrow> registry_ok r'"
proof (erule registry_stepE)
  fix config now
  assume ok: "registry_ok r" and r': "r' = put_session (cc_session_id config) (new_session now config) r"
    and valid: "config_validate config = Inr ()" and free: "get_share_session r (cc_session_id config) = None"
    and room: "int (length (active_sessions r)) < sr_max_sessions r"
  have "cc_session_id config \<notin> fst ` set (sr_active_sessions r)"
    using free by (simp add: get_share_session_def dict_get_None_iff)
  then have "cc_session_id config \<notin> set (sr_cleanup_timers r)"
    using ok by (auto simp: registry_ok_def)
  with ok valid room free active_put [of "cc_session_id config" "new_session now config" r] show ?thesis
    by (auto simp: r' registry_ok_def in_dict_set dict_set_keys new_session_def split: if_splits)
next
  fix k s s'
  assume ok: "registry_ok r" and r': "r' = put_session k s' r" and get: "get_share_session r k = Some s"
    and same: "se_state s' = se_state s" "se_connection_config s' = se_connection_config s"
    and more: "se_received_count s \<le> se_received_count s'"
  from registry_ok_get [OF ok get] more have "0 \<le> se_received_count s'" by simp
  then show ?thesis unfolding r' by (intro registry_ok_put [OF ok get]) (simp_all add: same)
next
  fix k s n now
  assume ok: "registry_ok r" and r': "r' = put_session k (s\<lparr>se_state := n, se_last_updated := now\<rparr>) r"
    and get: "get_share_session r k = Some s" and n: "n \<in> set (allowed_transitions (se_state s))" "active_state n"
  from registry_ok_get [OF ok get] allowed_active [OF n(1)] n(2) show ?thesis
    unfolding r' by (intro registry_ok_put [OF ok get]) simp_all
next
  fix k s n now
  assume ok: "registry_ok r"
    and r': "r' = schedule_cleanup k (put_session k (s\<lparr>se_state := n, se_last_updated := now\<rparr>) r)"
    and get: "get_share_session r k = Some s" and n: "n \<in> set (allowed_transitions (se_state s))" "\<not> active_state n"
  from allowed_active [OF n(1)] n(2) show ?thesis
    unfolding r' by (intro registry_ok_end [OF ok get]) simp_all
qed

lemma step_moves_forward:
  "get_share_session r k = Some s \<Longrightarrow> registry_step r r' \<Longrightarrow>
     \<exists>s'. get_share_session r' k = Some s' \<and> session_le s s'"
  by (erule registry_stepE) (auto simp: session_le_def intro: r_into_rtranclp)

interpretation registry: forward_store registry_step get_share_session registry_ok session_le
proof
  show "session_le s s'' " if "session_le s s'" "session_le s' s''" for s s' s''
    using that by (auto simp: session_le_def intro: rtranclp_trans)
  show "session_le s s" for s by (simp add: session_le_def)
qed (erule step_keeps_ok step_moves_forward, assumption)+

section \<open>Every operation is a sequence of steps\<close>

named_theorems steps "operations as steps of the registry"

lemma bootstrap_steps [steps]: "registry_steps r (fst (bootstrap now config r))"
  by (auto simp: bootstrap_def Let_def split: sum.splits option.splits intro!: r_into_rtranclp step_new)

lemma require_fst [simp]: "fst (require_session k r) = r"
  by (simp add: require_session_def split: option.splits)

lemma require_steps [steps]: "registry_steps r (fst (require_session k r))"
  by simp

lemma transition_steps [steps]: "registry_steps r (fst (transition now k n r))"
  by (auto simp: transition_def require_session_def Let_def split: option.splits
      intro!: r_into_rtranclp step_move step_end)

lemma batch_steps [steps]: "registry_steps r (fst (set_batch_metadata now k n r))"
  by (auto simp: set_batch_metadata_def require_session_def Let_def split: option.splits
      intro!: r_into_rtranclp step_counters)

lemma increment_steps [steps]: "registry_steps r (fst (increment_received_count now k r))"
  by (auto simp: increment_received_count_def require_session_def Let_def split: option.splits
      intro!: r_into_rtranclp step_counters)

definition core_steps :: "share_core \<Rightarrow> share_core \<Rightarrow> bool" where
  "core_steps c c' \<longleftrightarrow> registry_steps (co_registry c) (co_registry c')"

lemma core_steps_refl [steps, simp]: "core_steps c c"
  by (simp add: core_steps_def)

lemma core_steps_trans: "core_steps c c' \<Longrightarrow> core_steps c' c'' \<Longrightarrow> core_steps c c''"
  by (simp add: core_steps_def)

lemma co_registry_update [simp]: "co_registry (core\<lparr>co_registry := r\<rparr>) = r"
  by simp

lemma in_registry_steps [steps]:
  "(\<And>r. registry_steps r (fst (f r))) \<Longrightarrow> core_steps c c' \<Longrightarrow> core_steps c (fst (in_registry f c'))"
  unfolding core_steps_def in_registry_def
  by (cases "f (co_registry c')") (metis fst_conv co_registry_update prod.case rtranclp_trans)

lemma publish_registry [simp]: "co_registry (publish name_of s t p e c) = co_registry c"
  by (simp add: publish_def)

lemma publish_steps [steps]: "core_steps c c' \<Longrightarrow> core_steps c (publish name_of s t p e c')"
  by (simp add: core_steps_def)

lemma and_then_steps [steps]:
  assumes "core_steps c (fst m)" and "\<And>x c'. core_steps c' (fst (f x c'))"
  shows "core_steps c (fst (and_then m f))"
  by (rule and_then_fst [where P = "core_steps c", OF assms(1)]) (rule core_steps_trans [OF _ assms(2)])

lemma handlers_step:
  "core_steps core (fst (handle_connection_config name_of now config core))"
  "core_steps core (fst (handle_trust_handshake_received name_of now k core))"
  "core_steps core (fst (handle_trust_confirmed name_of now k core))"
  "core_steps core (fst (handle_transfer_received name_of now k count core))"
  "core_steps core (fst (handle_revisit_transfer now config name count core))"
  "core_steps core (fst (handle_delivery_complete name_of now k text path core))"
  "core_steps core (fst (abort_session name_of now k core))"
  unfolding handle_connection_config_def handle_trust_handshake_received_def handle_trust_confirmed_def
    handle_transfer_received_def handle_revisit_transfer_def handle_delivery_complete_def abort_session_def
  by (auto intro!: steps split: option.splits)

lemma fail_steps: "core_steps core (fst (fail_session name_of now k err core))"
proof -
  have first: "core_steps core (fst (in_registry (transition now k n) core))" for n
    by (intro steps)
  show ?thesis
    unfolding fail_session_def
    by (rule and_then_steps)
      (auto intro!: steps split: sum.splits share_exn.splits prod.splits
        intro: core_steps_trans [OF first] dest: arg_cong [where f = fst])
qed

section \<open>Runs of the orchestrator\<close>

datatype orch_call =
    ConnectionConfigReceived connection_config
  | HandshakeReceived string
  | TrustConfirmed string
  | TransferReceived string "int option"
  | RevisitTransfer connection_config string "int option"
  | DeliveryComplete string string string
  | FailSession string share_error
  | AbortSession string
  | CleanupTimer string

text \<open>A timer fires only while it runs; \<open>now\<close> is the clock at the call.\<close>

fun orch_step :: "(string \<Rightarrow> string) \<Rightarrow> int \<times> orch_call \<Rightarrow> share_core \<Rightarrow> share_core" where
  "orch_step name_of (now, ConnectionConfigReceived c) core = fst (handle_connection_config name_of now c core)"
| "orch_step name_of (now, HandshakeReceived k) core = fst (handle_trust_handshake_received name_of now k core)"
| "orch_step name_of (now, TrustConfirmed k) core = fst (handle_trust_confirmed name_of now k core)"
| "orch_step name_of (now, TransferReceived k n) core = fst (handle_transfer_received name_of now k n core)"
| "orch_step name_of (now, RevisitTransfer c name n) core = fst (handle_revisit_transfer now c name n core)"
| "orch_step name_of (now, DeliveryComplete k t p) core = fst (handle_delivery_complete name_of now k t p core)"
| "orch_step name_of (now, FailSession k e) core = fst (fail_session name_of now k e core)"
| "orch_step name_of (now, AbortSession k) core = fst (abort_session name_of now k core)"
| "orch_step name_of (now, CleanupTimer k) core =
     (if k \<in> set (sr_cleanup_timers (co_registry core))
      then core\<lparr>co_registry := cleanup_session k (co_registry core)\<rparr> else core)"

definition orch_run :: "(string \<Rightarrow> string) \<Rightarrow> (int \<times> orch_call) list \<Rightarrow> share_core \<Rightarrow> share_core" where
  "orch_run name_of calls core = fold (orch_step name_of) calls core"

lemma orch_step_steps:
  "(\<And>k. snd call \<noteq> CleanupTimer k) \<Longrightarrow> core_steps core (orch_step name_of call core)"
  by (cases call; cases "snd call") (auto intro: handlers_step fail_steps)

lemma cleanup_ok: "registry_ok r \<Longrightarrow> registry_ok (cleanup_session k r)"
proof -
  assume ok: "registry_ok r"
  have "length (filter P (map snd (dict_del d k))) \<le> length (filter P (map snd d))" for P d
    unfolding dict_del_def by (induction d) auto
  then have "length (active_sessions (cleanup_session k r)) \<le> length (active_sessions r)"
    by (simp add: active_sessions_def cleanup_session_def)
  with ok show ?thesis
    unfolding registry_ok_def by (auto simp: cleanup_session_def dict_del_def dict_ok_def distinct_map_filter
        distinct_remove1_removeAll [symmetric] removeAll_filter_not_eq)
qed

lemma orch_step_ok: "registry_ok (co_registry core) \<Longrightarrow> registry_ok (co_registry (orch_step name_of call core))"
proof (cases "\<exists>k. snd call = CleanupTimer k")
  case True
  then show "registry_ok (co_registry core) \<Longrightarrow> ?thesis" by (cases call) (auto intro: cleanup_ok)
next
  case False
  then have "core_steps core (orch_step name_of call core)" by (intro orch_step_steps) blast
  then show "registry_ok (co_registry core) \<Longrightarrow> ?thesis"
    unfolding core_steps_def by (rule registry.steps_ok)
qed

text \<open>
  Every run of the orchestrator keeps the contract of the registry: sessions under their own
  identifiers with valid configurations, no more active sessions than the limit, and a cleanup
  timer for exactly the sessions that ended.
\<close>
theorem orchestrator_keeps_registry:
  assumes "registry_ok (co_registry core)"
  shows "registry_ok (co_registry (orch_run name_of calls core))"
  using assms unfolding orch_run_def
  by (induction calls arbitrary: core) (auto intro: orch_step_ok)

lemma cleanup_other: "j \<noteq> k \<Longrightarrow> get_share_session (cleanup_session j r) k = get_share_session r k"
  by (simp add: get_share_session_def cleanup_session_def)

lemma orch_step_forward:
  assumes "get_share_session (co_registry core) k = Some s" and "snd call \<noteq> CleanupTimer k"
  shows "\<exists>s'. get_share_session (co_registry (orch_step name_of call core)) k = Some s' \<and> session_le s s'"
proof (cases "\<exists>j. snd call = CleanupTimer j")
  case True
  with assms show ?thesis using registry.le_refl by (cases call) (auto simp: cleanup_other)
next
  case False
  then have "core_steps core (orch_step name_of call core)" by (intro orch_step_steps) blast
  then show ?thesis unfolding core_steps_def by (rule registry.steps_forward [OF _ assms(1)])
qed

text \<open>
  C34. Over any run in which its timer does not fire, a session stays in the registry with its
  configuration, moves only along the transition table, and never loses a counted image.
\<close>
theorem session_follows_table:
  assumes "get_share_session (co_registry core) k = Some s" and "CleanupTimer k \<notin> snd ` set calls"
  shows "\<exists>s'. get_share_session (co_registry (orch_run name_of calls core)) k = Some s' \<and>
     (\<lambda>a b. b \<in> set (allowed_transitions a))\<^sup>*\<^sup>* (se_state s) (se_state s') \<and>
     se_connection_config s' = se_connection_config s \<and> se_received_count s \<le> se_received_count s'"
  unfolding session_le_def [symmetric] using assms
proof (induction calls arbitrary: core s)
  case Nil
  then show ?case using registry.le_refl by (auto simp: orch_run_def)
next
  case (Cons call calls)
  from Cons.prems obtain s1 where "get_share_session (co_registry (orch_step name_of call core)) k = Some s1"
    and "session_le s s1" using orch_step_forward [of core k s call name_of] by auto
  moreover from Cons.IH [OF this(1)] Cons.prems(2)
  obtain s2 where "get_share_session (co_registry (orch_run name_of calls (orch_step name_of call core))) k = Some s2"
    and "session_le s1 s2" by auto
  ultimately show ?case using registry.le_trans by (auto simp: orch_run_def)
qed

section \<open>Sessions that are never finished\<close>

lemma accept_connection:
  assumes "config_validate config = Inr ()" and "get_share_session (co_registry core) (cc_session_id config) = None"
    and "int (length (active_sessions (co_registry core))) < sr_max_sessions (co_registry core)"
  shows "co_registry (fst (handle_connection_config name_of now config core)) =
     put_session (cc_session_id config) ((new_session now config)\<lparr>se_state := SsQueued, se_last_updated := now\<rparr>)
       (put_session (cc_session_id config) (new_session now config) (co_registry core))"
  using assms
  by (simp add: handle_connection_config_def in_registry_def bootstrap_def transition_def require_session_def
      new_session_def Let_def)

lemma refuse_connection:
  assumes "config_validate config = Inr ()" and "get_share_session (co_registry core) (cc_session_id config) = None"
    and "sr_max_sessions (co_registry core) \<le> int (length (active_sessions (co_registry core)))"
  shows "handle_connection_config name_of now config core = (core, Inl (ShareError (busy_error config)))"
  using assms by (simp add: handle_connection_config_def in_registry_def bootstrap_def)

definition queue_all :: "(string \<Rightarrow> string) \<Rightarrow> int \<Rightarrow> connection_config list \<Rightarrow> share_core \<Rightarrow> share_core" where
  "queue_all name_of now configs core =
     fold (\<lambda>c core. fst (handle_connection_config name_of now c core)) configs core"

lemma queue_all_fills:
  assumes "\<forall>c\<in>set configs. config_validate c = Inr () \<and> get_share_session (co_registry core) (cc_session_id c) = None"
    and "distinct (map cc_session_id configs)"
    and "int (length (active_sessions (co_registry core)) + length configs) \<le> sr_max_sessions (co_registry core)"
  shows "length (active_sessions (co_registry (queue_all name_of now configs core)))
       = length (active_sessions (co_registry core)) + length configs \<and>
     sr_max_sessions (co_registry (queue_all name_of now configs core)) = sr_max_sessions (co_registry core) \<and>
     sr_cleanup_timers (co_registry (queue_all name_of now configs core)) = sr_cleanup_timers (co_registry core) \<and>
     (\<forall>k. k \<notin> cc_session_id ` set configs \<longrightarrow>
        get_share_session (co_registry (queue_all name_of now configs core)) k = get_share_session (co_registry core) k)"
  using assms
proof (induction configs arbitrary: core)
  case Nil
  then show ?case by (simp add: queue_all_def)
next
  case (Cons c configs)
  let ?core = "fst (handle_connection_config name_of now c core)"
  let ?new = "new_session now c" and ?k = "cc_session_id c"
  have reg: "co_registry ?core = put_session ?k (?new\<lparr>se_state := SsQueued, se_last_updated := now\<rparr>)
       (put_session ?k ?new (co_registry core))"
    using Cons.prems by (intro accept_connection) auto
  have "length (active_sessions (put_session ?k ?new (co_registry core))) = Suc (length (active_sessions (co_registry core)))"
    using Cons.prems active_put [of ?k ?new "co_registry core"] by (simp add: new_session_def)
  moreover have "length (active_sessions (co_registry ?core)) =
      length (active_sessions (put_session ?k ?new (co_registry core)))"
    unfolding reg using active_put [of ?k "?new\<lparr>se_state := SsQueued, se_last_updated := now\<rparr>" "put_session ?k ?new (co_registry core)"]
    by (simp add: new_session_def)
  ultimately have active: "length (active_sessions (co_registry ?core)) = Suc (length (active_sessions (co_registry core)))"
    by simp
  have same: "sr_max_sessions (co_registry ?core) = sr_max_sessions (co_registry core)"
    "sr_cleanup_timers (co_registry ?core) = sr_cleanup_timers (co_registry core)"
    "\<And>k. k \<noteq> ?k \<Longrightarrow> get_share_session (co_registry ?core) k = get_share_session (co_registry core) k"
    by (simp_all add: reg)
  have "queue_all name_of now (c # configs) core = queue_all name_of now configs ?core"
    by (simp add: queue_all_def)
  moreover have "\<forall>d\<in>set configs. config_validate d = Inr () \<and> get_share_session (co_registry ?core) (cc_session_id d) = None"
  proof
    fix d
    assume d: "d \<in> set configs"
    with Cons.prems(2) have "cc_session_id d \<noteq> ?k" by (auto simp: image_iff)
    with d Cons.prems(1) same(3) show "config_validate d = Inr () \<and> get_share_session (co_registry ?core) (cc_session_id d) = None"
      by simp
  qed
  from Cons.IH [OF this] Cons.prems(2,3)
  have "length (active_sessions (co_registry (queue_all name_of now configs ?core)))
       = length (active_sessions (co_registry ?core)) + length configs \<and>
     sr_max_sessions (co_registry (queue_all name_of now configs ?core)) = sr_max_sessions (co_registry ?core) \<and>
     sr_cleanup_timers (co_registry (queue_all name_of now configs ?core)) = sr_cleanup_timers (co_registry ?core) \<and>
     (\<forall>k. k \<notin> cc_session_id ` set configs \<longrightarrow>
        get_share_session (co_registry (queue_all name_of now configs ?core)) k = get_share_session (co_registry ?core) k)"
    by (simp add: active same)
  ultimately show ?case using same active by auto
qed

text \<open>
  Sessions that a phone opens and never finishes fill the registry: after as many of them as the
  limit allows, every other connection is refused, and no timer runs that would ever end one of
  them.
\<close>
theorem abandoned_sessions_fill_registry:
  assumes "\<forall>c\<in>set configs. config_validate c = Inr ()" and "distinct (map cc_session_id configs)"
    and "int (length configs) = limit" and "config_validate config = Inr ()"
    and "cc_session_id config \<notin> cc_session_id ` set configs"
    and "core = \<lparr>co_registry = \<lparr>sr_active_sessions = [], sr_max_sessions = limit, sr_cleanup_timers = []\<rparr>, co_events = []\<rparr>"
  shows "handle_connection_config name_of now' config (queue_all name_of now configs core) =
       (queue_all name_of now configs core, Inl (ShareError (busy_error config))) \<and>
     sr_cleanup_timers (co_registry (queue_all name_of now configs core)) = []"
proof -
  have empty: "get_share_session (co_registry core) k = None" "active_sessions (co_registry core) = []"
    "sr_max_sessions (co_registry core) = limit" "sr_cleanup_timers (co_registry core) = []" for k
    by (simp_all add: assms(6) get_share_session_def active_sessions_def)
  have "length (active_sessions (co_registry (queue_all name_of now configs core)))
       = length (active_sessions (co_registry core)) + length configs \<and>
     sr_max_sessions (co_registry (queue_all name_of now configs core)) = sr_max_sessions (co_registry core) \<and>
     sr_cleanup_timers (co_registry (queue_all name_of now configs core)) = sr_cleanup_timers (co_registry core) \<and>
     (\<forall>k. k \<notin> cc_session_id ` set configs \<longrightarrow>
        get_share_session (co_registry (queue_all name_of now configs core)) k = get_share_session (co_registry core) k)"
    proof (rule queue_all_fills)
    show "\<forall>c\<in>set configs. config_validate c = Inr () \<and> get_share_session (co_registry core) (cc_session_id c) = None"
      using assms(1) by (simp add: empty)
    show "int (length (active_sessions (co_registry core)) + length configs) \<le> sr_max_sessions (co_registry core)"
      using assms(3) by (simp add: empty)
  qed (rule assms(2))
  then show ?thesis
    using refuse_connection [OF assms(4), of "queue_all name_of now configs core" name_of now'] assms(3,5)
    by (simp add: empty)
qed

section \<open>Batches\<close>

definition receive_image_of ::
    "(string \<Rightarrow> string) \<Rightarrow> int \<Rightarrow> string \<Rightarrow> int \<Rightarrow> share_core \<Rightarrow> share_core" where
  "receive_image_of name_of now k n core = fst (handle_transfer_received name_of now k (Some n) core)"

lemma receive_image_session:
  assumes "get_share_session (co_registry core) k = Some s" and "se_image_count s = 0 \<or> se_image_count s = n"
    and "se_state s = SsTransferring \<or> SsTransferring \<in> set (allowed_transitions (se_state s))"
  shows "\<exists>s'. get_share_session (co_registry (receive_image_of name_of now k n core)) k = Some s' \<and>
     se_state s' = SsTransferring \<and> se_image_count s' = n \<and> se_received_count s' = se_received_count s + 1"
proof -
  have "handle_transfer_received name_of now k (Some n) core = handle_transfer_received name_of now k (Some n) core" ..
  then show ?thesis
    using assms unfolding receive_image_of_def handle_transfer_received_def
    by (auto simp: in_registry_def require_session_def set_batch_metadata_def increment_received_count_def
        transition_def Let_def)
qed

lemma receive_images_session:
  assumes "get_share_session (co_registry core) k = Some s" and "se_image_count s = 0" and "se_received_count s = 0"
    and "se_state s = SsTransferring \<or> SsTransferring \<in> set (allowed_transitions (se_state s))"
  shows "\<exists>s'. get_share_session (co_registry ((receive_image_of name_of now k n ^^ Suc m) core)) k = Some s' \<and>
     se_state s' = SsTransferring \<and> se_image_count s' = n \<and> se_received_count s' = int (Suc m)"
proof (induction m)
  case 0
  from receive_image_session [OF assms(1), of n name_of now] assms(2,3,4) show ?case by auto
next
  case (Suc m)
  then obtain s' where s': "get_share_session (co_registry ((receive_image_of name_of now k n ^^ Suc m) core)) k = Some s'"
    "se_state s' = SsTransferring" "se_image_count s' = n" "se_received_count s' = int (Suc m)" by blast
  from receive_image_session [OF s'(1), of n name_of now] s'(2-4) show ?case by auto
qed

text \<open>
  A batch of \<open>n\<close> images is delivered with its last image: a call of \<open>handle_delivery_complete\<close>
  after \<open>m\<close> of them ends the session exactly when \<open>m\<close> has reached \<open>n\<close>, and otherwise leaves it
  transferring.
\<close>
theorem delivery_waits_for_batch:
  assumes "get_share_session (co_registry core) k = Some s" and "se_image_count s = 0" and "se_received_count s = 0"
    and "se_state s = SsTransferring \<or> SsTransferring \<in> set (allowed_transitions (se_state s))" and "0 < n" and "0 < m"
  shows "map_option se_state (get_share_session (co_registry (fst (handle_delivery_complete name_of now' k text path
       ((receive_image_of name_of now k n ^^ m) core)))) k) = Some (if n \<le> int m then SsDone else SsTransferring)"
proof -
  from assms(6) obtain j where m: "m = Suc j" by (cases m) auto
  from receive_images_session [OF assms(1-4)] obtain s' where
    "get_share_session (co_registry ((receive_image_of name_of now k n ^^ m) core)) k = Some s'"
    "se_state s' = SsTransferring" "se_image_count s' = n" "se_received_count s' = int m" unfolding m by blast
  with assms(5) show ?thesis
    unfolding handle_delivery_complete_def
    by (auto simp: in_registry_def require_session_def transition_def Let_def)
qed

end
