(* ===== verification/ShareTrustProps.thy ===== *)
theory ShareTrustProps
  imports ShareStash ShareSessionsProps
begin

text \<open>
  The envelope of a trust session and the identifier in a certificate are read back; a stash that
  expired is never served again, and a text that was claimed once is served for as long as the
  program runs.
\<close>

section \<open>The envelope\<close>

lemma trust_dict_get:
  "dict_get [(''schema'', a), (''nonce'', b), (''ciphertext'', c)] ''schema'' = Some a"
  "dict_get [(''schema'', a), (''nonce'', b), (''ciphertext'', c)] ''nonce'' = Some b"
  "dict_get [(''schema'', a), (''nonce'', b), (''ciphertext'', c)] ''ciphertext'' = Some c"
  by (simp_all add: dict_get_def)

lemma envelope_field:
  assumes "dict_get p f = Some (JStr (b64url_encode_unpadded bs))" and "bs \<noteq> []"
  shows "decode_envelope_field p f cid = Inr bs"
  using assms unpadded_ne [of bs] urlsafe_roundtrip [of bs] by (simp add: decode_envelope_field_def)

lemma envelope_decrypts:
  assumes ae: "aead_ok (cr_aead cr)" and p: "json_ok (JObj p)" and nonce: "length nonce = TRUST_SESSION_NONCE_BYTES"
  shows "\<exists>e q. encrypt_json_payload cr (Some key) nonce p cid = Inr e \<and>
    decrypt_json_payload cr (Some key) e cid' = Inr q \<and> JObj q = json_sorted (JObj p)"
proof -
  let ?c = "ae_encrypt (cr_aead cr) key nonce (utf8_encode (json_dumps False (JObj p)))"
  let ?e = "[(''schema'', JStr TRUST_SESSION_ENVELOPE_SCHEMA), (''nonce'', JStr (b64url_encode_unpadded nonce)),
    (''ciphertext'', JStr (b64url_encode_unpadded ?c))]"
  have ne: "nonce \<noteq> []" "?c \<noteq> []"
    using nonce ae by (auto simp: TRUST_SESSION_NONCE_BYTES_def aead_ok_def MOBILE_ENCRYPTED_BINARY_TAG_BYTES_def
        simp flip: length_greater_0_conv)
  have enc: "encrypt_json_payload cr (Some key) nonce p cid = Inr ?e"
    using nonce by (simp add: encrypt_json_payload_def require_session_key_def)
  have schema: "is_trust_session_envelope ?e" by (simp add: is_trust_session_envelope_def trust_dict_get)
  obtain q where q: "json_sorted (JObj p) = JObj q" by simp
  have "decrypt_json_payload cr (Some key) ?e cid' = Inr q"
    using schema nonce ae json_roundtrip [OF p]
      envelope_field [OF trust_dict_get(2) ne(1)] envelope_field [OF trust_dict_get(3) ne(2)]
    by (simp add: decrypt_json_payload_def require_session_key_def aead_ok_def utf8_roundtrip q
        del: json_dumps.simps json_sorted.simps)
  with enc q show ?thesis by metis
qed

section \<open>The identifier of a device\<close>

lemma base256_0 [simp]: "base256 0 = []"
  by (subst base256.simps) simp

lemma base256_value: "from_bytes_be (base256 n) = n"
proof (induction n rule: base256.induct)
  case (1 n)
  show ?case
  proof (cases "n = 0")
    case False
    then have "base256 n = base256 (n div 256) @ [word_of_nat n]"
      by (subst base256.simps) simp
    with 1 [OF False] show ?thesis by (simp add: unat_word_of_nat_byte)
  qed simp
qed

lemma base256_length: "n < 256 ^ k \<Longrightarrow> length (base256 n) \<le> k"
proof (induction n arbitrary: k rule: base256.induct)
  case (1 n)
  show ?case
  proof (cases "n = 0")
    case False
    with 1 obtain j where k: "k = Suc j" by (cases k) auto
    then have "n div 256 < 256 ^ j"
      using 1 by (simp add: less_mult_imp_div_less mult.commute)
    with 1 False k show ?thesis by (simp add: base256.simps [of n])
  qed (simp add: base256.simps)
qed

text \<open>
  The identifier that the desktop writes into its certificate is the one that a peer reads from it,
  in the short and in the long form of the length.
\<close>
theorem device_id_roundtrip:
  assumes "length (utf8_encode v) < 256 ^ 127"
  shows "decode_asn1_utf8_string (encode_asn1_utf8_string v) = Some v"
proof (cases "length (utf8_encode v) < 128")
  case True
  then have "unat (word_of_nat (length (utf8_encode v)) :: byte) = length (utf8_encode v)"
    by (simp add: unat_word_of_nat_byte)
  with True show ?thesis
    by (simp add: encode_asn1_utf8_string_def decode_asn1_utf8_string_def Let_def utf8_roundtrip)
next
  case False
  let ?n = "length (utf8_encode v)" and ?b = "base256 (length (utf8_encode v))"
  have "length ?b \<le> 127" by (rule base256_length [OF assms])
  then have "unat (word_of_nat (128 + length ?b) :: byte) = 128 + length ?b"
    by (simp add: unat_word_of_nat_byte del: of_nat_add)
  with False show ?thesis
    by (simp add: encode_asn1_utf8_string_def decode_asn1_utf8_string_def Let_def utf8_roundtrip base256_value
        del: of_nat_add)
qed

lemma device_id_roundtrip_witness:
  "decode_asn1_utf8_string (encode_asn1_utf8_string ''7f-1'') = Some ''7f-1''"
  by (rule device_id_roundtrip) (simp add: utf8_encode_def utf8_char_def)

section \<open>The life of a stash\<close>

text \<open>
  The operations on the store after a stash was made, with the file system and the names of the
  peers at each of them.
\<close>

datatype stash_op =
    ManifestAsked int string
  | FileAsked desktop_files "string \<Rightarrow> string" string int
  | StashCancelled string
  | ExpiryTimer string
  | StashMade stash_entry

fun stash_step :: "stash_op \<Rightarrow> stash_store \<Rightarrow> stash_store" where
  "stash_step (ManifestAsked now k) s = fst (retrieve_stash_content now k s)"
| "stash_step (FileAsked df names k i) s = fst (retrieve_stash_file df names k i s)"
| "stash_step (StashCancelled k) s = fst (cancel_stash k s)"
| "stash_step (ExpiryTimer k) s = on_expiry_timer_fired k s"
| "stash_step (StashMade e) s =
     (if get_stash s (st_stash_id e) = None then start_expiry_timer (st_stash_id e) (put_stash e s) else s)"

definition stash_store_ok :: "stash_store \<Rightarrow> bool" where
  "stash_store_ok s \<longleftrightarrow> (\<forall>k e. get_stash s k = Some e \<longrightarrow> st_stash_id e = k)"

text \<open>
  An entry keeps its contents; once it is expired it stays expired, and once it is claimed it stays
  so unless a file of it could not be read.
\<close>

definition stash_le :: "stash_entry \<Rightarrow> stash_entry \<Rightarrow> bool" where
  "stash_le e e' \<longleftrightarrow>
     st_files e' = st_files e \<and> st_content_type e' = st_content_type e \<and> st_expires_at e' = st_expires_at e \<and>
     st_stash_id e' = st_stash_id e \<and> (st_expired e \<longrightarrow> st_expired e') \<and>
     (st_claimed e \<and> (\<forall>f\<in>set (st_files e). fe_content f \<noteq> None) \<longrightarrow> st_claimed e' \<and> st_expired e' = st_expired e)"

lemma get_put_stash [simp]:
  "get_stash (put_stash e s) k = (if k = st_stash_id e then Some e else get_stash s k)"
  by (simp add: get_stash_def put_stash_def)

lemma get_stash_other [simp]:
  "get_stash (notify n s) = get_stash s" "get_stash (cancel_timer k s) = get_stash s"
  "get_stash (start_expiry_timer k s) = get_stash s"
  by (simp_all add: get_stash_def notify_def cancel_timer_def start_expiry_timer_def fun_eq_iff)

lemma get_invalidate [simp]:
  "get_stash (invalidate_stash e s) k =
     (if k = st_stash_id e then Some (e\<lparr>st_expired := True, st_claimed := False\<rparr>) else get_stash s k)"
  by (simp add: invalidate_stash_def)

lemma get_claim [simp]:
  "get_stash (claim_stash names e s) k =
     (if k = st_stash_id e \<and> \<not> st_claimed e then Some (e\<lparr>st_claimed := True\<rparr>) else get_stash s k)"
  by (simp add: claim_stash_def)

lemma nth_in_files: "0 \<le> i \<Longrightarrow> i < int (length xs) \<Longrightarrow> xs ! nat i \<in> set xs"
  by (rule nth_mem) linarith

lemma stash_step_cases:
  assumes "stash_store_ok s" and "get_stash s k = Some e"
  shows "\<exists>e'. get_stash (stash_step op s) k = Some e' \<and> stash_le e e'"
proof -
  have id: "get_stash s j = Some f \<Longrightarrow> st_stash_id f = j" for j f
    using assms(1) by (simp add: stash_store_ok_def)
  show ?thesis
  proof (cases op)
    case (FileAsked df names j i)
    show ?thesis
    proof (cases "get_stash s (py_strip j)")
      case None
      then show ?thesis using assms(2) by (simp add: FileAsked retrieve_stash_file_def stash_le_def)
    next
      case (Some f)
      then show ?thesis using assms(2) id [of "py_strip j" f] nth_in_files [of i "st_files f"]
        by (auto simp: FileAsked retrieve_stash_file_def Let_def stash_le_def split: option.splits)
    qed
  qed (use assms(2) id in \<open>auto simp: retrieve_stash_content_def cancel_stash_def on_expiry_timer_fired_def stash_le_def
        split: option.splits\<close>)
qed

lemma stash_step_ok: "stash_store_ok s \<Longrightarrow> stash_store_ok (stash_step op s)"
proof (unfold stash_store_ok_def, intro allI impI)
  fix k e
  assume ok: "\<forall>k e. get_stash s k = Some e \<longrightarrow> st_stash_id e = k" and get: "get_stash (stash_step op s) k = Some e"
  show "st_stash_id e = k"
  proof (cases "get_stash s k")
    case None
    with get ok show ?thesis
      by (cases op) (auto simp: retrieve_stash_content_def retrieve_stash_file_def cancel_stash_def
          on_expiry_timer_fired_def Let_def split: option.splits if_splits)
  next
    case (Some f)
    moreover have "stash_store_ok s" using ok by (simp add: stash_store_ok_def)
    ultimately show ?thesis using stash_step_cases [of s k f op] get ok by (auto simp: stash_le_def)
  qed
qed

interpretation stashes: forward_store "\<lambda>s s'. stash_store_ok s \<and> (\<exists>op. s' = stash_step op s)" get_stash stash_store_ok stash_le
proof
  show "stash_le e e" for e by (simp add: stash_le_def)
  show "stash_le e e''" if "stash_le e e'" "stash_le e' e''" for e e' e''
    using that by (auto simp: stash_le_def)
  show "stash_store_ok s'" if "stash_store_ok s" "stash_store_ok s \<and> (\<exists>op. s' = stash_step op s)" for s s'
    using that stash_step_ok by blast
  show "\<exists>e'. get_stash s' k = Some e' \<and> stash_le e e'"
    if "get_stash s k = Some e" "stash_store_ok s \<and> (\<exists>op. s' = stash_step op s)" for s s' k e
    using that stash_step_cases by blast
qed

lemma stash_run_steps:
  "stash_store_ok s \<Longrightarrow> (\<lambda>s s'. stash_store_ok s \<and> (\<exists>op. s' = stash_step op s))\<^sup>*\<^sup>* s (fold stash_step ops s)"
proof (induction ops arbitrary: s)
  case (Cons op ops)
  from Cons.IH [OF stash_step_ok [OF Cons.prems, of op]] Cons.prems show ?case
    by (auto intro: converse_rtranclp_into_rtranclp)
qed simp

text \<open>
  C35. A stash that expired is never served again: whatever happens to the store, a request for one of
  its files is answered 410 without a byte, and so is a request for its manifest.
\<close>
theorem expired_stash_is_gone:
  assumes "stash_store_ok s" and "get_stash s k = Some e" and "st_expired e" and "py_strip k = k"
  shows "snd (retrieve_stash_file df names k i (fold stash_step ops s)) = (410, [], [], []) \<and>
    dict_get (snd (retrieve_stash_content now k (fold stash_step ops s))) ''_status'' = Some (JInt 410)"
proof -
  from stashes.steps_forward [OF stash_run_steps [OF assms(1)] assms(2)] assms(3)
  obtain e' where "get_stash (fold stash_step ops s) k = Some e'" "st_expired e'"
    by (auto simp: stash_le_def)
  with assms(4) show ?thesis
    by (simp add: retrieve_stash_file_def retrieve_stash_content_def stash_error_def dict_get_def)
qed

text \<open>
  The limit of five minutes ends with the first download: a text that was claimed is served at any
  later time, after any operations on the store, the timer and the button that cancels included.
\<close>
theorem claimed_text_served_forever:
  assumes "stash_store_ok s" and "get_stash s k = Some e" and "st_claimed e" and "\<not> st_expired e"
    and "\<forall>f\<in>set (st_files e). fe_content f \<noteq> None" and "st_files e ! 0 = f" and "st_files e \<noteq> []"
    and "fe_content f = Some c" and "py_strip k = k"
  shows "snd (retrieve_stash_file df names k 0 (fold stash_step ops s)) =
     (200, utf8_encode c, fe_content_type f, or_empty (fe_filename f))"
proof -
  from stashes.steps_forward [OF stash_run_steps [OF assms(1)] assms(2)]
  obtain e' where "get_stash (fold stash_step ops s) k = Some e'" "\<not> st_expired e'" "st_files e' = st_files e"
    using assms(3,4,5) by (auto simp: stash_le_def)
  with assms(6-9) show ?thesis by (simp add: retrieve_stash_file_def Let_def)
qed

end
