(* ===== verification/ShareDeliveryProps.thy ===== *)
theory ShareDeliveryProps
  imports ShareDelivery
begin

text \<open>
  A shared image becomes a new file directly inside the downloads directory, byte by byte what was
  sent, and no file that exists is touched, whichever of the calls of the file system fail.  Short
  session identifiers do not repeat within 255 of them.
\<close>

section \<open>Names\<close>

lemma download_chars: "download_name_char (CHR ''-'')" "\<not> download_name_char (CHR ''/'')"
  by code_simp+

lemma default_download_safe: "\<forall>c\<in>set ''instant-share-image.bin''. download_name_char c"
  by code_simp

lemma sanitize_download_chars:
  "sanitize_download_name f \<noteq> [] \<and> hd (sanitize_download_name f) \<noteq> CHR ''.'' \<and>
   (\<forall>c\<in>set (sanitize_download_name f). download_name_char c)"
proof -
  let ?a = "sub_runs (\<lambda>c. \<not> download_name_char c) (CHR ''-'') f"
  let ?b = "strip_by (\<lambda>c. c = CHR ''-'' \<or> c = CHR ''.'') ?a"
  have "\<forall>c\<in>set ?a. download_name_char c"
    using set_sub_runs [of "\<lambda>c. \<not> download_name_char c" "CHR ''-''" f] download_chars(1) by blast
  then have "\<forall>c\<in>set ?b. download_name_char c" by (meson set_strip_by subsetD)
  moreover have "?b \<noteq> [] \<Longrightarrow> hd ?b \<noteq> CHR ''.''" by (drule hd_strip_by) simp
  moreover have "sanitize_download_name f = (if ?b = [] then ''instant-share-image.bin'' else ?b)"
    by (simp add: sanitize_download_name_def Let_def)
  ultimately show ?thesis using default_download_safe by (cases "?b = []") simp_all
qed

lemma sanitize_download_component:
  "sanitize_download_name f \<noteq> [] \<and> CHR ''/'' \<notin> set (sanitize_download_name f) \<and>
   sanitize_download_name f \<noteq> ''.'' \<and> sanitize_download_name f \<noteq> ''..''"
  using sanitize_download_chars [of f] download_chars(2) by auto

lemma resolve_filename_component:
  "resolve_filename p = Inr n \<Longrightarrow> n \<noteq> [] \<and> CHR ''/'' \<notin> set n \<and> n \<noteq> ''.'' \<and> n \<noteq> ''..''"
  using sanitize_download_component by (auto simp: resolve_filename_def Let_def split: if_splits)

section \<open>The output path\<close>

lemma within_component: "is_within (fst d, snd d @ [n]) d"
  by (simp add: is_within_def path_relative_to_def)

lemma next_output_conflict:
  assumes "CHR ''/'' \<notin> set n"
  shows "next_output_path fuel fs d n i = map_option Inr (free_conflict_path fuel fs d n i)"
  using join_conflict [OF assms, unfolded conflict_name_def] within_component
  by (induction fuel arbitrary: i) (simp_all add: conflict_name_def Let_def)

text \<open>For a plain name the search is the one of the phone transfers, of which it is known that it ends.\<close>

lemma resolve_output_conflict:
  assumes "n \<noteq> []" and "CHR ''/'' \<notin> set n" and "n \<noteq> ''.''"
  shows "resolve_output_path fuel fs d n = map_option Inr (resolve_conflict_safe_path fuel fs d n)"
  using path_join_component [OF assms(1,3,2), of d] next_output_conflict [OF assms(2)]
  by (simp add: resolve_output_path_def resolve_conflict_safe_path_def within_component Let_def path_name_def)

lemma output_path_found:
  assumes "resolve_filename p = Inr n"
  shows "\<exists>m. resolve_output_path (conflict_fuel fs) fs d n = Some (Inr (fst d, snd d @ [m])) \<and>
     CHR ''/'' \<notin> set m \<and> m \<noteq> ''..'' \<and> \<not> fs_exists fs (fst d, snd d @ [m])"
proof -
  note n = resolve_filename_component [OF assms]
  obtain q where q: "resolve_conflict_safe_path (conflict_fuel fs) fs d n = Some q"
    using conflict_path_enough n by blast
  have join: "path_join d n = (fst d, snd d @ [n])" using n by (intro path_join_component) auto
  have "\<not> fs_exists fs q \<and> (q = path_join d n \<or> (\<exists>k. q = path_join d (conflict_name n k)))"
    using q by (auto simp: resolve_conflict_safe_path_def Let_def split: if_splits dest!: free_conflict_some)
  then have "\<exists>m. q = (fst d, snd d @ [m]) \<and> CHR ''/'' \<notin> set m \<and> m \<noteq> ''..'' \<and> \<not> fs_exists fs q"
    using n conflict_name_component [of n] join join_conflict [of n d] by metis
  moreover have "resolve_output_path (conflict_fuel fs) fs d n = Some (Inr q)"
    using q n by (simp add: resolve_output_conflict)
  ultimately show ?thesis by auto
qed

section \<open>What a delivery writes\<close>

lemma fs_read_bytes_keeps: "fs_read (fst (fs_read_bytes p fs)) q = fs_read fs q"
  by (auto simp: fs_read_bytes_def fs_read_def intro!: fs_call_file split: option.split)

lemma fs_nop_keeps: "fs_read (fst (fs_call (\<lambda>fs. (fs, Inr x)) fs)) q = fs_read fs q"
  unfolding fs_read_def by (rule fs_call_file) simp

lemma fs_close_keeps: "fs_read (fst (fs_close fs)) q = fs_read fs q"
  unfolding fs_close_def by (rule fs_nop_keeps)

lemma fs_seq_keeps:
  "fs_read (fst m) q = c \<Longrightarrow> (\<And>x fs. fs_read (fst (g x fs)) q = fs_read fs q) \<Longrightarrow> fs_read (fst (fs_seq m g)) q = c"
  by (cases m; cases "snd m") (auto simp: fs_seq_def)

lemma fs_write_bytes_other: "q \<noteq> p \<Longrightarrow> fs_read (fst (fs_write_bytes p bs fs)) q = fs_read fs q"
  unfolding fs_write_bytes_def
  by (rule fs_seq_keeps, simp add: fs_read_def fs_other, rule fs_seq_keeps, simp add: fs_read_def fs_other,
      rule fs_close_keeps)

lemma shutil_copy2_other: "q \<noteq> p \<Longrightarrow> fs_read (fst (shutil_copy2 src p fs)) q = fs_read fs q"
  unfolding shutil_copy2_def
  by (rule fs_seq_keeps, rule fs_read_bytes_keeps, rule fs_seq_keeps, erule fs_write_bytes_other, rule fs_nop_keeps)

lemma fs_call_nop_Inr: "fs_call (\<lambda>fs. (fs, Inr x)) fs = (fs', Inr y) \<Longrightarrow> fs_read fs' q = fs_read fs q"
  by (drule arg_cong [where f = fst]) (metis fs_nop_keeps fst_conv)

lemma fs_read_bytes_Inr: "fs_read_bytes p fs = (fs', Inr bs) \<Longrightarrow> fs_read fs p = Some bs \<and> (\<forall>q. fs_read fs' q = fs_read fs q)"
  using fs_read_bytes_keeps [of p fs] unfolding fs_read_bytes_def
  by (auto dest!: fs_call_Inr simp: fs_read_def split: option.splits)

lemma fs_write_bytes_Inr: "fs_write_bytes p bs fs = (fs', Inr x) \<Longrightarrow> fs_read fs' p = Some bs"
  unfolding fs_write_bytes_def fs_seq_def fs_close_def
  by (auto split: prod.splits sum.splits dest!: fs_create_Inr fs_append_Inr fs_call_nop_Inr [where q = p])

lemma shutil_copy2_Inr: "shutil_copy2 src p fs = (fs', Inr x) \<Longrightarrow> fs_read fs src = fs_read fs' p \<and> fs_read fs src \<noteq> None"
  unfolding shutil_copy2_def fs_seq_def
  by (auto split: prod.splits sum.splits dest!: fs_read_bytes_Inr fs_write_bytes_Inr fs_call_nop_Inr [where q = p])

lemma in_fs_simps [simp]:
  "ds_fs (fst (in_fs f st)) = fst (f (ds_fs st))" "ds_clipboard (fst (in_fs f st)) = ds_clipboard st"
  by (simp_all add: in_fs_def split: prod.splits)

lemma in_fs_Inr: "in_fs f st = (st', Inr x) \<Longrightarrow> f (ds_fs st) = (ds_fs st', Inr x)"
  by (auto simp: in_fs_def map_sum_def split: prod.splits sum.splits)

lemma mkdir_keeps: "fs_read (fst (fs_mkdir_parents p fs)) q = fs_read fs q"
  by (simp add: fs_read_def)

text \<open>
  The write of an image either leaves every file as it was (it raises before it opens its output),
  or there is one new path inside the directory that alone may differ.
\<close>

lemma write_image_file_touches:
  "\<exists>m. CHR ''/'' \<notin> set m \<and> m \<noteq> ''..'' \<and> fs_read (ds_fs st) (fst (dv_downloads_dir dv), snd (dv_downloads_dir dv) @ [m]) = None \<and>
     (\<forall>q. q \<noteq> (fst (dv_downloads_dir dv), snd (dv_downloads_dir dv) @ [m]) \<longrightarrow>
        fs_read (ds_fs (fst (write_image_file dv p st))) q = fs_read (ds_fs st) q)
   \<or> (\<forall>q. fs_read (ds_fs (fst (write_image_file dv p st))) q = fs_read (ds_fs st) q)"
proof -
  let ?d = "dv_downloads_dir dv"
  obtain st1 r where mk: "in_fs (fs_mkdir_parents ?d) st = (st1, r)" by force
  then have same: "fs_read (ds_fs st1) q = fs_read (ds_fs st) q" for q
    using in_fs_simps(1) [of "fs_mkdir_parents ?d" st] by (simp add: mkdir_keeps)
  show ?thesis
  proof (cases "(\<exists>e. r = Inl e) \<or> (\<exists>e. resolve_filename p = Inl e)")
    case True
    then have "fst (write_image_file dv p st) = st1"
      by (cases r) (auto simp: write_image_file_def mk)
    with same show ?thesis by simp
  next
    case False
    then obtain x n where r: "r = Inr x" and n: "resolve_filename p = Inr n"
      by (cases r; cases "resolve_filename p") auto
    from output_path_found [OF n, of "ds_fs st1" ?d] obtain m where
      m: "resolve_output_path (conflict_fuel (ds_fs st1)) (ds_fs st1) ?d n = Some (Inr (fst ?d, snd ?d @ [m]))"
      "CHR ''/'' \<notin> set m" "m \<noteq> ''..''" "\<not> fs_exists (ds_fs st1) (fst ?d, snd ?d @ [m])" by blast
    let ?o = "(fst ?d, snd ?d @ [m])"
    have keep: "fst (and_then a (\<lambda>_ st. (st, Inr ?o))) = fst a" for a :: "delivery_state \<times> unit shared"
      by (cases a; cases "snd a") auto
    have "fst (write_image_file dv p st) =
        fst (case ip_temp_file_path p of Some temp \<Rightarrow> in_fs (shutil_copy2 temp ?o) st1
             | None \<Rightarrow> in_fs (fs_write_bytes ?o (ip_image_bytes p)) st1)"
      using keep by (simp add: write_image_file_def mk r n m(1))
    then have "\<forall>q. q \<noteq> ?o \<longrightarrow> fs_read (ds_fs (fst (write_image_file dv p st))) q = fs_read (ds_fs st) q"
      by (auto simp: same fs_write_bytes_other shutil_copy2_other split: option.splits)
    moreover have "fs_read (ds_fs st) ?o = None"
      using m(4) by (simp add: fs_exists_def fs_read_def same [unfolded fs_read_def])
    ultimately show ?thesis using m(2,3) by blast
  qed
qed

lemma deliver_image_file_fst:
  "dv_image_delivery_mode dv \<noteq> ''clipboard'' \<Longrightarrow> fst (deliver_image dv p st) = fst (write_image_file dv p st)"
  by (cases "write_image_file dv p st"; cases "snd (write_image_file dv p st)") (auto simp: deliver_image_def)

text \<open>
  Whatever name a phone sends and whichever calls fail, the delivery of an image changes no file
  that exists, and what it creates lies directly inside the downloads directory.
\<close>
theorem delivered_image_keeps_files:
  assumes "dv_image_delivery_mode dv \<noteq> ''clipboard''"
  shows "(fs_read (ds_fs st) q \<noteq> None \<longrightarrow> fs_read (ds_fs (fst (deliver_image dv p st))) q = fs_read (ds_fs st) q) \<and>
     (fs_read (ds_fs st) q = None \<and> fs_read (ds_fs (fst (deliver_image dv p st))) q \<noteq> None \<longrightarrow>
        (\<exists>m. q = (fst (dv_downloads_dir dv), snd (dv_downloads_dir dv) @ [m]) \<and> CHR ''/'' \<notin> set m \<and> m \<noteq> ''..''))"
proof -
  have "fst (deliver_image dv p st) = fst (write_image_file dv p st)"
    using assms by (rule deliver_image_file_fst)
  with write_image_file_touches [of st dv p] show ?thesis by (metis (no_types, lifting))
qed

text \<open>
  An image that is reported as delivered is in the file that the answer names: the bytes of the
  upload, or of the temporary file that holds them.
\<close>
theorem delivered_image_is_stored:
  assumes "deliver_image dv p st = (st', Inr r)" and "dv_image_delivery_mode dv \<noteq> ''clipboard''"
  shows "\<exists>m. dt_output_paths (dr_target_result r) =
        [path_posix (fst (dv_downloads_dir dv), snd (dv_downloads_dir dv) @ [m])] \<and>
      fs_read (ds_fs st') (fst (dv_downloads_dir dv), snd (dv_downloads_dir dv) @ [m]) =
        (case ip_temp_file_path p of Some temp \<Rightarrow> fs_read (ds_fs st) temp | None \<Rightarrow> Some (ip_image_bytes p))"
proof -
  let ?d = "dv_downloads_dir dv"
  obtain st1 r1 where mk: "in_fs (fs_mkdir_parents ?d) st = (st1, r1)" by force
  then have same: "fs_read (ds_fs st1) q = fs_read (ds_fs st) q" for q
    using in_fs_simps(1) [of "fs_mkdir_parents ?d" st] by (simp add: mkdir_keeps)
  from assms obtain o' where w: "write_image_file dv p st = (st', Inr o')" and r: "r = delivered False [path_posix o']"
    by (auto simp: deliver_image_def and_then_def split: prod.splits sum.splits)
  have "\<not> ((\<exists>e. r1 = Inl e) \<or> (\<exists>e. resolve_filename p = Inl e))"
  proof
    assume "(\<exists>e. r1 = Inl e) \<or> (\<exists>e. resolve_filename p = Inl e)"
    then have "\<exists>e. snd (write_image_file dv p st) = Inl e"
      by (cases r1) (auto simp: write_image_file_def mk)
    with w show False by simp
  qed
  then obtain u n where r1: "r1 = Inr u" and n: "resolve_filename p = Inr n"
    by (cases r1; cases "resolve_filename p") simp_all
  from output_path_found [OF n, of "ds_fs st1" ?d] obtain m where
    m: "resolve_output_path (conflict_fuel (ds_fs st1)) (ds_fs st1) ?d n = Some (Inr (fst ?d, snd ?d @ [m]))" by blast
  let ?o = "(fst ?d, snd ?d @ [m])"
  let ?wrote = "case ip_temp_file_path p of Some temp \<Rightarrow> in_fs (shutil_copy2 temp ?o) st1
             | None \<Rightarrow> in_fs (fs_write_bytes ?o (ip_image_bytes p)) st1"
  have "write_image_file dv p st = and_then ?wrote (\<lambda>_ st. (st, Inr ?o))"
    by (simp add: write_image_file_def mk r1 n m)
  with w have o': "o' = ?o" and run: "?wrote = (st', Inr ())"
    by (cases ?wrote; cases "snd ?wrote"; simp)+
  have "fs_read (ds_fs st') ?o =
      (case ip_temp_file_path p of Some temp \<Rightarrow> fs_read (ds_fs st) temp | None \<Rightarrow> Some (ip_image_bytes p))"
  proof (cases "ip_temp_file_path p")
    case None
    with run show ?thesis by (auto dest!: in_fs_Inr fs_write_bytes_Inr)
  next
    case (Some temp)
    with run have "shutil_copy2 temp ?o (ds_fs st1) = (ds_fs st', Inr ())" by (auto dest!: in_fs_Inr)
    from shutil_copy2_Inr [OF this] Some show ?thesis by (simp add: same)
  qed
  then show ?thesis by (auto simp: o' r delivered_def)
qed

section \<open>Session identifiers\<close>

lemma next_counter_range: "0 \<le> c \<Longrightarrow> c \<le> 255 \<Longrightarrow> 1 \<le> next_counter c \<and> next_counter c \<le> 255"
  by (simp add: next_counter_def MAX_COUNTER_def)

lemma read_persisted_range: "0 \<le> read_persisted p \<and> read_persisted p \<le> 255"
  by (simp add: read_persisted_def MAX_COUNTER_def split: option.splits)

lemma next_counter_mod: "0 \<le> c \<Longrightarrow> c \<le> 255 \<Longrightarrow> (next_counter ^^ Suc k) c = (c + int k) mod 255 + 1"
proof (induction k)
  case 0
  then show ?case by (cases "c = 255") (simp_all add: next_counter_def MAX_COUNTER_def)
next
  case (Suc k)
  have "(next_counter ^^ Suc (Suc k)) c = next_counter ((c + int k) mod 255 + 1)"
    using Suc by simp
  also have "\<dots> = (c + int (Suc k)) mod 255 + 1"
  proof -
    let ?x = "(c + int k) mod 255"
    have "0 \<le> ?x" "?x < 255" by simp_all
    moreover have "(c + int (Suc k)) mod 255 = (?x + 1) mod 255"
      by (simp add: mod_simps ac_simps)
    ultimately show ?thesis
      by (cases "?x = 254") (simp_all add: next_counter_def MAX_COUNTER_def)
  qed
  finally show ?case .
qed

lemma hex_digits_inj_small: "\<forall>a\<in>{..<256::nat}. \<forall>b\<in>{..<256}. hex_digits a = hex_digits b \<longrightarrow> a = b"
proof -
  have rec: "hex_digits a = (if a < 16 then [json_hex_digit a] else [json_hex_digit (a div 16), json_hex_digit (a mod 16)])"
    if "a < 256" for a
  proof (cases "a < 16")
    case True
    then show ?thesis by (subst hex_digits.simps) simp
  next
    case False
    from that have "a div 16 < 16" by auto
    then have "hex_digits (a div 16) = [json_hex_digit (a div 16)]" by (subst hex_digits.simps) simp
    with False show ?thesis by (subst hex_digits.simps) simp
  qed
  have digit: "a = b" if "json_hex_digit a = json_hex_digit b" "a < 16" "b < 16" for a b
  proof -
    have "distinct ''0123456789abcdef''" by simp
    with that show ?thesis
      using nth_eq_iff_index_eq [of "''0123456789abcdef''" a b] by (simp add: json_hex_digit_def)
  qed
  show ?thesis
  proof (intro ballI impI)
    fix a b :: nat
    assume a: "a \<in> {..<256}" and b: "b \<in> {..<256}" and eq: "hex_digits a = hex_digits b"
    then consider "a < 16" "b < 16" "json_hex_digit a = json_hex_digit b"
      | "json_hex_digit (a div 16) = json_hex_digit (b div 16)" "json_hex_digit (a mod 16) = json_hex_digit (b mod 16)"
      using rec [of a] rec [of b] by (auto split: if_splits)
    then show "a = b"
    proof cases
      case 1
      then show ?thesis using digit by blast
    next
      case 2
      with a b have "a div 16 = b div 16" "a mod 16 = b mod 16" by (auto intro!: digit)
      then show ?thesis by (metis div_mult_mod_eq)
    qed
  qed
qed

text \<open>
  C36. The identifiers of 255 links in a row are distinct, wherever the counter starts, and each is the
  hexadecimal text of a number from 1 to 255.
\<close>
theorem session_ids_distinct:
  assumes "i < 255" and "j < 255" and "i \<noteq> j"
  shows "snd (next_session_id ((next_counter ^^ i) (read_persisted persisted)))
     \<noteq> snd (next_session_id ((next_counter ^^ j) (read_persisted persisted)))"
proof -
  let ?c = "read_persisted persisted"
  have c: "0 \<le> ?c" "?c \<le> 255" using read_persisted_range by auto
  have val: "next_counter ((next_counter ^^ k) ?c) = (?c + int k) mod 255 + 1" for k
    using next_counter_mod [OF c, of k] by simp
  have "(?c + int i) mod 255 \<noteq> (?c + int j) mod 255"
  proof
    assume "(?c + int i) mod 255 = (?c + int j) mod 255"
    then have "255 dvd (int i - int j)" by (metis add_diff_cancel_left mod_eq_dvd_iff)
    with assms(3) have "\<bar>255\<bar> \<le> \<bar>int i - int j\<bar>" by (intro dvd_imp_le_int) auto
    with assms(1,2) show False by linarith
  qed
  moreover have range: "0 \<le> (?c + int k) mod 255" "(?c + int k) mod 255 < 255" for k by simp_all
  ultimately have "nat ((?c + int i) mod 255 + 1) \<noteq> nat ((?c + int j) mod 255 + 1)"
    by (metis add_right_cancel add_nonneg_nonneg eq_nat_nat_iff zero_le_one)
  moreover have "nat ((?c + int k) mod 255 + 1) \<in> {..<256}" for k
    using range [of k] by (simp add: nat_less_iff)
  ultimately have "hex_digits (nat ((?c + int i) mod 255 + 1)) \<noteq> hex_digits (nat ((?c + int j) mod 255 + 1))"
    using hex_digits_inj_small by blast
  then show ?thesis by (simp only: next_session_id_def Let_def val snd_conv not_False_eq_True)
qed

end
