(* ===== verification/ShareServerProps.thy ===== *)
theory ShareServerProps
  imports ShareServer ShareTrustProps ShareDeliveryProps
begin

text \<open>
  What the requests of a phone can do to the receiver: the contract of the sessions holds over every
  run of requests, a session is trusted only after the proof of the short secret, an upload needs
  the signature of a known phone, and a shared text reaches the clipboard.
\<close>

section \<open>The parts of a receiver\<close>

named_theorems receiver_parts "the parts of the receiver after an operation on another part"

lemma trust_of_put [simp]: "trust_of (put_trust k t rv) j = (if j = k then Some t else trust_of rv j)"
  by (simp add: trust_of_def put_trust_def)

lemma put_trust_parts [receiver_parts]:
  "rv_core (put_trust k t rv) = rv_core rv" "rv_keychain (put_trust k t rv) = rv_keychain rv"
  "rv_delivery (put_trust k t rv) = rv_delivery rv" "sw_store (rv_world (put_trust k t rv)) = sw_store (rv_world rv)"
  by (simp_all add: put_trust_def)

lemma in_core_parts [receiver_parts]:
  "rv_core (fst (in_core f rv)) = fst (f (rv_core rv))" "snd (in_core f rv) = snd (f (rv_core rv))"
  "rv_keychain (fst (in_core f rv)) = rv_keychain rv" "trust_of (fst (in_core f rv)) = trust_of rv"
  "rv_delivery (fst (in_core f rv)) = rv_delivery rv" "rv_world (fst (in_core f rv)) = rv_world rv"
  by (simp_all add: in_core_def trust_of_def fun_eq_iff split: prod.split)

lemma in_delivery_parts [receiver_parts]:
  "rv_delivery (fst (in_delivery g rv)) = fst (g (rv_delivery rv))" "snd (in_delivery g rv) = snd (g (rv_delivery rv))"
  "rv_keychain (fst (in_delivery g rv)) = rv_keychain rv" "trust_of (fst (in_delivery g rv)) = trust_of rv"
  "rv_core (fst (in_delivery g rv)) = rv_core rv" "rv_world (fst (in_delivery g rv)) = rv_world rv"
  by (simp_all add: in_delivery_def trust_of_def fun_eq_iff split: prod.split)

lemma in_store_parts [receiver_parts]:
  "sw_store (rv_world (fst (in_store h rv))) = fst (h (sw_store (rv_world rv)))"
  "snd (in_store h rv) = snd (h (sw_store (rv_world rv)))" "trust_of (fst (in_store h rv)) = trust_of rv"
  "rv_keychain (fst (in_store h rv)) = rv_keychain rv" "rv_core (fst (in_store h rv)) = rv_core rv"
  "rv_delivery (fst (in_store h rv)) = rv_delivery rv"
  by (simp_all add: in_store_def trust_of_def fun_eq_iff split: prod.split)

lemma in_trust_parts [receiver_parts]:
  "rv_core (fst (in_trust k u t rv)) = rv_core rv" "rv_keychain (fst (in_trust k u t rv)) = rv_keychain rv"
  "sw_store (rv_world (fst (in_trust k u t rv))) = sw_store (rv_world rv)"
  "trust_of (fst (in_trust k u t rv)) = (trust_of rv)(k \<mapsto> fst (u t))" "snd (in_trust k u t rv) = snd (u t)"
  by (simp_all add: in_trust_def receiver_parts fun_eq_iff split: prod.split)

section \<open>Relations that requests keep\<close>

text \<open>
  An upload runs through operations on the sessions and on the delivery; a relation between the
  receiver before and after it holds for all of it when it holds for each of these operations.
\<close>

locale request_relation =
  fixes R :: "'k receiver \<Rightarrow> 'k receiver \<Rightarrow> bool"
  assumes same: "R rv rv" and seq: "R rv rv1 \<Longrightarrow> R rv1 rv2 \<Longrightarrow> R rv rv2"
    and core: "core_steps (rv_core rv) c \<Longrightarrow> R rv (rv\<lparr>rv_core := c\<rparr>)"
    and delivery: "R rv (rv\<lparr>rv_delivery := st\<rparr>)"
begin

lemma and_then_op:
  assumes "R rv (fst m)" and "\<And>x rv'. R rv' (fst (f x rv'))"
  shows "R rv (fst (and_then m f))"
  by (rule and_then_fst [where P = "R rv", OF assms(1)]) (rule seq [OF _ assms(2)])

lemma core_op: "(\<And>c. core_steps c (fst (f c))) \<Longrightarrow> R rv (fst (in_core f rv))"
  using core [of rv "fst (f (rv_core rv))"] by (simp add: in_core_def split: prod.split) (metis fst_conv)

lemma delivery_op: "R rv (fst (in_delivery g rv))"
  using delivery by (simp add: in_delivery_def split: prod.split)

lemmas ops = and_then_op core_op handlers_step delivery_op

lemma case_op: "m = (rv', x) \<Longrightarrow> R rv (fst m) \<Longrightarrow> R rv rv'"
  by simp

lemma bootstrap: "R rv (fst (bootstrap_from_handshake d k cid body rv))"
proof -
  let ?m = "\<lambda>config. and_then (in_core (handle_connection_config (peer_name rv) (dw_monotonic d) config) rv)
      (\<lambda>_. in_core (handle_trust_handshake_received (peer_name rv) (dw_monotonic d) k))"
  have "R rv (fst (?m config))" for config
    by (intro ops)
  moreover have "fst (case r of (rv1, Inl (ShareError _)) \<Rightarrow> (rv1, Inr ()) | r \<Rightarrow> r) = fst r"
    for r :: "'k receiver \<times> unit shared"
    by (auto split: prod.splits sum.splits share_exn.splits)
  ultimately show ?thesis
    by (auto simp: bootstrap_from_handshake_def same split: sum.split)
qed

lemma admit: "R rv (fst (admit_upload d k cid pc ti name n rv))"
  unfolding admit_upload_def try_create_revisit_session_def Let_def
  by (auto intro!: ops simp: same split: option.split sum.split)

lemma text_transfer: "R rv (fst (do_transfer_text env d k cid body text name rv))"
  unfolding do_transfer_text_def
  by (intro and_then_op admit delivery_op) (auto intro!: ops simp: same)

lemma image_transfer: "R rv (fst (do_transfer_image env d k cid ct fn name temp n rv))"
  unfolding do_transfer_image_def
  by (intro and_then_op admit delivery_op) (auto intro!: ops simp: same)

lemma upload: "R rv (fst (transfer_image env d h cid body ct fn name n rv))"
proof -
  have "R rv' (fst (case do_transfer_image env d sid cid ct fn name temp n rv' of
      (rv1, r) \<Rightarrow> (fst (in_delivery g rv1), r)))" for rv' sid temp and g :: "delivery_state \<Rightarrow> delivery_state \<times> unit shared"
    using image_transfer [of rv' env d sid cid ct fn name temp n] delivery_op [of _ g] seq by (auto split: prod.split)
  then show ?thesis
    unfolding transfer_image_def by (intro and_then_op delivery_op)
qed

end

lemma respond_fst [simp]: "fst (respond status r) = fst r"
  by (cases r; cases "snd r") (auto simp: respond_def)

text \<open>The sessions only make registry steps.\<close>

definition moves :: "'k receiver \<Rightarrow> 'k receiver \<Rightarrow> bool" where
  "moves rv rv' \<longleftrightarrow> core_steps (rv_core rv) (rv_core rv')"

interpretation mv: request_relation moves
  by unfold_locales (auto simp: moves_def intro: core_steps_trans)

lemma core_kept_moves: "rv_core rv' = rv_core rv \<Longrightarrow> moves rv rv'"
  by (simp add: moves_def)

lemma moves_trust: "moves rv (fst (in_trust k u t rv))"
  by (simp add: core_kept_moves receiver_parts)

text \<open>The store of the stashes is left alone.\<close>

definition same_store :: "'k receiver \<Rightarrow> 'k receiver \<Rightarrow> bool" where
  "same_store rv rv' \<longleftrightarrow> sw_store (rv_world rv') = sw_store (rv_world rv)"

interpretation st: request_relation same_store
  by unfold_locales (auto simp: same_store_def)

text \<open>The trust sessions and the certificates are left alone.\<close>

definition untouched :: "'k receiver \<Rightarrow> 'k receiver \<Rightarrow> bool" where
  "untouched rv rv' \<longleftrightarrow> trust_of rv' = trust_of rv \<and> rv_keychain rv' = rv_keychain rv"

interpretation un: request_relation untouched
  by unfold_locales (auto simp: untouched_def trust_of_def fun_eq_iff)

section \<open>Steps of the sessions\<close>

lemma and_then_keeps:
  assumes "transp R" and "R s (fst m)" and "\<And>x s'. R s' (fst (f x s'))"
  shows "R s (fst (and_then m f))"
  by (rule and_then_fst [where P = "R s", OF assms(2)]) (rule transpD [OF assms(1) _ assms(3)])

lemma do_trust_handshake_moves: "moves rv (fst (do_trust_handshake env d k cid body rv))"
proof -
  have store: "moves rv' (fst (and_then (in_trust sid u t rv') (\<lambda>_ rv. case trust_of rv sid of
       None \<Rightarrow> (rv, Inl e) | Some t \<Rightarrow> and_then (in_trust sid u' t rv) (\<lambda>_ rv. case trust_of rv sid of
         None \<Rightarrow> (rv, Inl e) | Some t \<Rightarrow> (case hs t of (t', answer) \<Rightarrow> (put_trust sid t' rv, Inr answer))))))"
    for rv' :: "'a receiver" and sid u u' t e and hs :: "'a trust_session \<Rightarrow> 'a trust_session \<times> payload"
    by (intro mv.ops moves_trust) (auto intro!: mv.ops moves_trust simp: core_kept_moves put_trust_parts split: option.split prod.split)
  have boot: "moves rv rv0 \<Longrightarrow> moves rv (fst (if b then bootstrap_from_handshake d sid cid body rv0 else (rv0, Inr ())))"
    for b sid rv0
    using mv.seq [of rv rv0] mv.bootstrap [of rv0 d sid cid body] by simp
  have first: "moves rv (fst (case trust_of rv sid of Some t \<Rightarrow> (rv, t)
     | None \<Rightarrow> (case c of (reg, t) \<Rightarrow> (rv\<lparr>rv_world := (rv_world rv)\<lparr>sw_trust := reg\<rparr>\<rparr>, t))))"
    for sid and c :: "'a trust_registry \<times> 'a trust_session"
    by (simp add: core_kept_moves split: option.split prod.split)
  show ?thesis
    unfolding do_trust_handshake_def Let_def
    by (split prod.split, intro allI impI mv.and_then_op boot store)
      (metis first fst_conv)
qed

lemma do_trust_apply_moves: "moves rv (fst (do_trust_apply env d k envelope rv))"
  unfolding do_trust_apply_def by (auto simp: core_kept_moves receiver_parts split: sum.split prod.split)

lemma do_trust_confirm_moves: "moves rv (fst (do_trust_confirm env d k cid envelope rv))"
  unfolding do_trust_confirm_def Let_def
  by (auto simp: core_kept_moves receiver_parts split: sum.split prod.split option.split json.split bool.split)

lemma in_store_moves: "moves rv (fst (in_store f rv))"
  by (simp add: core_kept_moves receiver_parts)

lemma do_transfer_manifest_moves: "moves rv (fst (do_transfer_manifest d k rv))"
  by (cases "admitted_stash rv k")
    (auto simp: do_transfer_manifest_def core_kept_moves split: prod.split dest!: mv.case_op [OF _ in_store_moves])

lemma do_transfer_download_file_moves: "moves rv (fst (do_transfer_download_file env k i rv))"
  by (cases "admitted_stash rv k")
    (auto simp: do_transfer_download_file_def core_kept_moves split: prod.split dest!: mv.case_op [OF _ in_store_moves])

lemma serve_moves: "moves rv (fst (serve env d request rv))"
  by (cases request)
    (auto simp: serve_def core_kept_moves do_trust_handshake_moves do_trust_apply_moves do_trust_confirm_moves
      mv.text_transfer mv.upload do_transfer_manifest_moves
      split: sum.split prod.split dest!: mv.case_op [OF _ do_transfer_download_file_moves])

section \<open>What a request does to a trust session\<close>

definition same_secret :: "'k trust_session \<Rightarrow> 'k trust_session \<Rightarrow> bool" where
  "same_secret t t' \<longleftrightarrow>
     ts_session_id t' = ts_session_id t \<and> ts_flow_type t' = ts_flow_type t \<and> ts_private_key t' = ts_private_key t \<and>
     ts_stash_id t' = ts_stash_id t \<and> (short_secret t \<noteq> None \<longrightarrow> short_secret t' = short_secret t) \<and>
     (ts_session_key t \<noteq> None \<longrightarrow> ts_session_key t' \<noteq> None) \<and>
     (ts_mobile_dh_public_key_bytes t \<noteq> None \<longrightarrow> ts_mobile_dh_public_key_bytes t' \<noteq> None)"

definition trust_kept :: "'k trust_session \<Rightarrow> 'k trust_session \<Rightarrow> bool" where
  "trust_kept t t' \<longleftrightarrow> same_secret t t' \<and> ts_is_trusted t' = ts_is_trusted t"

lemma same_secret_refl [simp]: "same_secret t t"
  by (simp add: same_secret_def)

lemma same_secret_trans: "same_secret t t' \<Longrightarrow> same_secret t' t'' \<Longrightarrow> same_secret t t''"
  by (simp add: same_secret_def)

lemma trust_kept_refl [simp]: "trust_kept t t"
  by (simp add: trust_kept_def)

lemma trust_kept_trans: "trust_kept t t' \<Longrightarrow> trust_kept t' t'' \<Longrightarrow> trust_kept t t''"
  using same_secret_trans by (auto simp: trust_kept_def)

lemmas kept_defs = trust_kept_def same_secret_def short_secret_def

lemma kept_peer_name [simp]: "trust_kept t (set_peer_device_name n t)"
  by (simp add: kept_defs set_peer_device_name_def)

lemma kept_certificate [simp]: "trust_kept t (store_mobile_certificate pem t)"
  by (simp add: kept_defs store_mobile_certificate_def)

lemma kept_handshake [simp]: "trust_kept t (fst (store_mobile_handshake key nonce t))"
  by (simp add: kept_defs store_mobile_handshake_def Let_def split: sum.split)

lemma kept_kdf [simp]: "trust_kept t (fst (derive_kdf_context r t))"
  by (simp add: kept_defs derive_kdf_context_def Let_def split: option.split)

lemma kept_pin [simp]: "trust_kept t (fst (generate_pin r t))"
  by (simp add: kept_defs generate_pin_def Let_def split: option.split)

lemma kept_with_name [simp]: "trust_kept t (with_peer_name p t)"
  by (simp add: with_peer_name_def split: option.split json.split)

lemma kept_establish: "trust_kept t (fst (establish_session_key cr r t))"
proof -
  have "short_secret (t1\<lparr>ts_session_key := Some key\<rparr>) = short_secret t1" for t1 :: "'a trust_session" and key
    by (simp add: short_secret_def)
  then have "trust_kept t (t1\<lparr>ts_session_key := Some key\<rparr>)" if "trust_kept t t1" for t1 key
    using that by (simp add: trust_kept_def same_secret_def)
  then show ?thesis
    using kept_kdf [of t r]
    by (cases "derive_kdf_context r t") (simp add: establish_session_key_def split: option.split)
qed

lemma kept_response: "trust_kept t (fst (handshake_response cr r t))"
  using kept_kdf [of t r] by (cases "derive_kdf_context r t") (simp add: handshake_response_def)

definition trusts_kept :: "'k receiver \<Rightarrow> 'k receiver \<Rightarrow> bool" where
  "trusts_kept rv rv' \<longleftrightarrow> (\<forall>k.
     (\<forall>t. trust_of rv k = Some t \<longrightarrow> (\<exists>t'. trust_of rv' k = Some t' \<and> trust_kept t t')) \<and>
     (\<forall>t'. trust_of rv k = None \<longrightarrow> trust_of rv' k = Some t' \<longrightarrow> ts_session_id t' = k \<and> \<not> ts_is_trusted t'))"

lemma trusts_kept_trans: "transp trusts_kept"
proof (rule transpI)
  fix x y z :: "'a receiver"
  assume xy: "trusts_kept x y" and yz: "trusts_kept y z"
  show "trusts_kept x z"
    unfolding trusts_kept_def
  proof (intro allI conjI impI)
    fix k t
    assume "trust_of x k = Some t"
    with xy obtain t1 where t1: "trust_of y k = Some t1" "trust_kept t t1" unfolding trusts_kept_def by blast
    with yz obtain t2 where "trust_of z k = Some t2" "trust_kept t1 t2" unfolding trusts_kept_def by blast
    with t1 show "\<exists>t'. trust_of z k = Some t' \<and> trust_kept t t'" using trust_kept_trans by blast
  next
    fix k t'
    assume x: "trust_of x k = None" and z: "trust_of z k = Some t'"
    show "ts_session_id t' = k" and "\<not> ts_is_trusted t'"
    proof -
      show "ts_session_id t' = k"
      proof (cases "trust_of y k")
        case (Some t1)
        with xy x have "ts_session_id t1 = k" unfolding trusts_kept_def by blast
        moreover from Some yz z have "trust_kept t1 t'" unfolding trusts_kept_def by force
        ultimately show ?thesis by (simp add: trust_kept_def same_secret_def)
      qed (use yz z in \<open>auto simp: trusts_kept_def\<close>)
      show "\<not> ts_is_trusted t'"
      proof (cases "trust_of y k")
        case (Some t1)
        with xy x have "\<not> ts_is_trusted t1" unfolding trusts_kept_def by blast
        moreover from Some yz z have "trust_kept t1 t'" unfolding trusts_kept_def by force
        ultimately show ?thesis by (simp add: trust_kept_def)
      qed (use yz z in \<open>auto simp: trusts_kept_def\<close>)
    qed
  qed
qed

lemma trusts_same: "trust_of rv' = trust_of rv \<Longrightarrow> trusts_kept rv rv'"
  by (simp add: trusts_kept_def)

lemma trusts_put: "trust_of rv k = Some t \<Longrightarrow> trust_kept t t' \<Longrightarrow> trusts_kept rv (put_trust k t' rv)"
  by (auto simp: trusts_kept_def)

lemma trusts_in_trust: "trust_of rv k = Some t \<Longrightarrow> trust_kept t (fst (u t)) \<Longrightarrow> trusts_kept rv (fst (in_trust k u t rv))"
  by (auto simp: trusts_kept_def receiver_parts)

fun transfer_headers :: "share_request \<Rightarrow> signature_headers option" where
  "transfer_headers (TransferText h cid body text name) = Some h"
| "transfer_headers (TransferImage h cid body ct fn name n) = Some h"
| "transfer_headers (TransferManifest h) = Some h"
| "transfer_headers (TransferDownload h i) = Some h"
| "transfer_headers _ = None"

lemma untouched_store: "untouched rv (fst (in_store h rv))"
  by (simp add: untouched_def receiver_parts)

lemma untouched_manifest: "untouched rv (fst (do_transfer_manifest d k rv))"
  by (cases "admitted_stash rv k")
    (auto simp: do_transfer_manifest_def un.same split: prod.split dest!: un.case_op [OF _ untouched_store])

lemma untouched_download: "untouched rv (fst (do_transfer_download_file env k i rv))"
  by (cases "admitted_stash rv k")
    (auto simp: do_transfer_download_file_def un.same split: prod.split dest!: un.case_op [OF _ untouched_store])

lemma serve_transfer_untouched: "transfer_headers q = Some h \<Longrightarrow> untouched rv (fst (serve env d q rv))"
  by (cases q)
    (auto simp: serve_def un.same un.text_transfer un.upload untouched_manifest
      split: sum.split prod.split dest!: un.case_op [OF _ untouched_download])

lemma untouched_trusts: "untouched rv rv' \<Longrightarrow> trusts_kept rv rv'"
  by (simp add: untouched_def trusts_same)

lemma handshake_steps_kept:
  assumes "trust_of rv sid = Some t" and "\<And>t. trust_kept t (fst (u t))" "\<And>t. trust_kept t (fst (u' t))"
    and "\<And>t. trust_kept t (fst (hs t))"
  shows "trusts_kept rv (fst (and_then (in_trust sid u t rv) (\<lambda>_ rv. case trust_of rv sid of
       None \<Rightarrow> (rv, Inl e) | Some t \<Rightarrow> and_then (in_trust sid u' t rv) (\<lambda>_ rv. case trust_of rv sid of
         None \<Rightarrow> (rv, Inl e) | Some t \<Rightarrow> (case hs t of (t', answer) \<Rightarrow> (put_trust sid t' rv, Inr answer))))))"
proof -
  have last: "trusts_kept rv (fst (case trust_of rv sid of None \<Rightarrow> (rv, Inl e)
      | Some t \<Rightarrow> (case hs t of (t', answer) \<Rightarrow> (put_trust sid t' rv, Inr answer))))" for rv
    using assms(4) by (auto simp: trusts_same split: option.split prod.split intro!: trusts_put) (metis fst_conv)
  have mid: "trusts_kept rv (fst (case trust_of rv sid of None \<Rightarrow> (rv, Inl e)
      | Some t \<Rightarrow> and_then (in_trust sid u' t rv) (\<lambda>_ rv. case trust_of rv sid of None \<Rightarrow> (rv, Inl e)
          | Some t \<Rightarrow> (case hs t of (t', answer) \<Rightarrow> (put_trust sid t' rv, Inr answer)))))" for rv
    using assms(3) last
    by (auto simp: trusts_same split: option.split intro!: and_then_keeps [OF trusts_kept_trans] trusts_in_trust)
  show ?thesis
    by (intro and_then_keeps [OF trusts_kept_trans] trusts_in_trust assms(1,2) mid)
qed

lemma handshake_kept: "trusts_kept rv (fst (do_trust_handshake env d k cid body rv))"
proof -
  let ?sid = "if k = [] then dw_uuid d else k"
  let ?new = "new_trust_session (dw_key d) (dw_pc_nonce d) ?sid (if cid = [] then ?sid else cid) MobileToPc None None"
  let ?start = "case trust_of rv ?sid of Some t \<Rightarrow> (rv, t)
     | None \<Rightarrow> (case create_trust_session (dw_key d) (dw_pc_nonce d) ?sid (if cid = [] then ?sid else cid) MobileToPc None None
          (sw_trust (rv_world rv)) of (reg, t) \<Rightarrow> (rv\<lparr>rv_world := (rv_world rv)\<lparr>sw_trust := reg\<rparr>\<rparr>, t))"
  have put: "rv\<lparr>rv_world := (rv_world rv)\<lparr>sw_trust := dict_set (sw_trust (rv_world rv)) ?sid ?new\<rparr>\<rparr> = put_trust ?sid ?new rv"
    by (simp add: put_trust_def)
  have start: "trusts_kept rv (fst ?start) \<and> trust_of (fst ?start) ?sid = Some (snd ?start)"
  proof (cases "trust_of rv ?sid")
    case None
    then have "trusts_kept rv (put_trust ?sid ?new rv)"
      by (auto simp: trusts_kept_def new_trust_session_def)
    with None put show ?thesis by (simp add: create_trust_session_def Let_def)
  qed (simp add: trusts_same)
  have steps: "trusts_kept rv0 (fst (and_then (if b then bootstrap_from_handshake d ?sid cid body rv0 else (rv0, Inr ()))
      (\<lambda>_ rv. and_then (in_trust ?sid (store_mobile_handshake (hs_mobile_dh_public_key body) (hs_mobile_nonce body)) t rv)
         (\<lambda>_ rv. case trust_of rv ?sid of None \<Rightarrow> (rv, Inl e)
           | Some t \<Rightarrow> and_then (in_trust ?sid (establish_session_key (rx_crypto env) (dw_kdf d)) t rv) (\<lambda>_ rv.
               case trust_of rv ?sid of None \<Rightarrow> (rv, Inl e)
               | Some t \<Rightarrow> (case handshake_response (rx_crypto env) (dw_kdf d) t of
                   (t', answer) \<Rightarrow> (put_trust ?sid t' rv, Inr answer)))))))"
    if "trust_of rv0 ?sid = Some t" for rv0 t b e
  proof (rule and_then_fst [where P = "trusts_kept rv0"])
    have boot: "untouched rv0 (fst (if b then bootstrap_from_handshake d ?sid cid body rv0 else (rv0, Inr ())))"
      using un.bootstrap [of rv0 d ?sid cid body] by (simp add: un.same)
    then show "trusts_kept rv0 (fst (if b then bootstrap_from_handshake d ?sid cid body rv0 else (rv0, Inr ())))"
      by (rule untouched_trusts)
    fix x
    show "trusts_kept rv0 (fst (and_then (in_trust ?sid (store_mobile_handshake (hs_mobile_dh_public_key body) (hs_mobile_nonce body)) t
           (fst (if b then bootstrap_from_handshake d ?sid cid body rv0 else (rv0, Inr ()))))
         (\<lambda>_ rv. case trust_of rv ?sid of None \<Rightarrow> (rv, Inl e)
           | Some t \<Rightarrow> and_then (in_trust ?sid (establish_session_key (rx_crypto env) (dw_kdf d)) t rv) (\<lambda>_ rv.
               case trust_of rv ?sid of None \<Rightarrow> (rv, Inl e)
               | Some t \<Rightarrow> (case handshake_response (rx_crypto env) (dw_kdf d) t of
                   (t', answer) \<Rightarrow> (put_trust ?sid t' rv, Inr answer))))))"
      using boot that
      by (intro transpD [OF trusts_kept_trans untouched_trusts [OF boot]] handshake_steps_kept kept_handshake kept_establish
          kept_response) (simp add: untouched_def)
  qed
  obtain rv0 t where st: "?start = (rv0, t)" by (rule prod.exhaust)
  from start have kept: "trusts_kept rv rv0" "trust_of rv0 ?sid = Some t" by (simp_all only: st fst_conv snd_conv)
  have "trusts_kept rv0 (fst (do_trust_handshake env d k cid body rv))"
    unfolding do_trust_handshake_def Let_def st prod.case
    by (rule steps [OF kept(2)])
  then show ?thesis
    by (rule transpD [OF trusts_kept_trans kept(1)])
qed

lemma apply_kept: "trusts_kept rv (fst (do_trust_apply env d k envelope rv))"
proof (cases "trust_of rv k")
  case (Some t)
  have "trust_kept t (fst (generate_pin (dw_pin d) (with_peer_name p t)))" for p
    using trust_kept_trans [OF kept_with_name kept_pin] by blast
  then have "trust_kept t t'" if "generate_pin (dw_pin d) (with_peer_name p t) = (t', pin)" for p t' pin
    using that by (metis fst_conv)
  moreover have "trusts_kept rv (put_trust k t' rv\<lparr>rv_pins_shown := x\<rparr>)" if "trust_kept t t'" for t' x
    using that Some by (auto simp: trusts_kept_def trust_of_def put_trust_def)
  ultimately show ?thesis
    using Some by (auto simp: do_trust_apply_def established_session_def trusts_same split: sum.split prod.split intro!: trusts_put)
qed (simp add: do_trust_apply_def established_session_def trusts_same)

text \<open>
  A confirmation proves the short secret when its envelope decrypts to a confirmation whose
  \<open>pairing_auth\<close> verifies.
\<close>

definition proves_secret :: "'k share_crypto \<Rightarrow> 'k trust_session \<Rightarrow> payload \<Rightarrow> bool" where
  "proves_secret cr t envelope \<longleftrightarrow>
     (case decrypt_confirm_request cr t envelope of
        Inl _ \<Rightarrow> False
      | Inr p \<Rightarrow> dict_get p ''action'' = Some (JStr ''confirm'') \<and>
          (case dict_get p ''pairing_auth'' of
             Some (JStr auth) \<Rightarrow> py_strip auth \<noteq> [] \<and> verify_pairing_auth cr t (py_strip auth) = Inr True
           | _ \<Rightarrow> False))"

lemma verify_with_name [simp]: "verify_pairing_auth cr (with_peer_name p t) a = verify_pairing_auth cr t a"
  by (simp add: verify_pairing_auth_def short_secret_def with_peer_name_def set_peer_device_name_def
      split: option.split json.split)

lemma verify_needs: "verify_pairing_auth cr t a = Inr True \<Longrightarrow> short_secret t \<noteq> None \<and> ts_mobile_dh_public_key_bytes t \<noteq> None"
  by (auto simp: verify_pairing_auth_def split: option.splits)

lemma proves_needs:
  "proves_secret cr t e \<Longrightarrow> ts_session_key t \<noteq> None \<and> short_secret t \<noteq> None \<and> ts_mobile_dh_public_key_bytes t \<noteq> None"
  using verify_needs by (auto simp: proves_secret_def decrypt_confirm_request_def split: if_splits sum.splits option.splits json.splits)

lemma confirm_refused:
  assumes "\<And>t. trust_of rv k = Some t \<Longrightarrow> \<not> proves_secret (rx_crypto env) t e"
  shows "trusts_kept rv (fst (do_trust_confirm env d k cid e rv))"
proof (cases "trust_of rv k")
  case (Some t)
  note put = trusts_put [OF Some kept_with_name]
  show ?thesis
  proof (cases "established_session rv k")
    case (Inr t0)
    with Some have t0: "t0 = t" by (simp add: established_session_def split: if_splits)
    show ?thesis
    proof (cases "decrypt_confirm_request (rx_crypto env) t e")
      case dec: (Inr p)
      show ?thesis
      proof (cases "\<exists>auth. dict_get p ''pairing_auth'' = Some (JStr auth)")
        case True
        then obtain auth where auth: "dict_get p ''pairing_auth'' = Some (JStr auth)" by blast
        have "verify_pairing_auth (rx_crypto env) t (py_strip auth) \<noteq> Inr True"
          if "dict_get p ''action'' = Some (JStr ''confirm'')" "py_strip auth \<noteq> []"
          using assms [OF Some] dec auth that by (simp add: proves_secret_def)
        then show ?thesis
          using Inr t0 dec auth put
          by (cases "verify_pairing_auth (rx_crypto env) t (py_strip auth)")
            (auto simp: do_trust_confirm_def trusts_same Let_def)
      next
        case False
        then show ?thesis
          using Inr t0 dec put
          by (cases "dict_get p ''pairing_auth''")
            (auto simp: do_trust_confirm_def trusts_same Let_def split: json.split)
      qed
    qed (use Inr t0 in \<open>simp add: do_trust_confirm_def trusts_same\<close>)
  qed (simp add: do_trust_confirm_def trusts_same)
qed (simp add: do_trust_confirm_def established_session_def trusts_same)

lemma confirm_accepted:
  assumes "trust_of rv k = Some t" and "proves_secret (rx_crypto env) t e"
  shows "\<exists>t' kc. fst (do_trust_confirm env d k cid e rv) = (put_trust k (mark_trusted t') rv)\<lparr>rv_keychain := kc\<rparr> \<and> trust_kept t t'"
proof -
  obtain key where key: "ts_session_key t = Some key" using proves_needs [OF assms(2)] by blast
  obtain p auth where p: "decrypt_confirm_request (rx_crypto env) t e = Inr p" "dict_get p ''action'' = Some (JStr ''confirm'')"
    "dict_get p ''pairing_auth'' = Some (JStr auth)" "py_strip auth \<noteq> []"
    "verify_pairing_auth (rx_crypto env) t (py_strip auth) = Inr True"
    using assms(2) by (auto simp: proves_secret_def split: sum.splits option.splits json.splits)
  have "trust_kept t (store_mobile_certificate pem (with_peer_name p t))" for pem
    by (rule trust_kept_trans [OF kept_with_name kept_certificate])
  then have "trust_kept t (fst (case dict_get p ''device_certificate_pem'' of
       Some (JStr pem) \<Rightarrow> if py_strip pem = [] then (with_peer_name p t, rv_keychain rv)
         else (store_mobile_certificate pem (with_peer_name p t),
               store_peer_certificate (certificate_device_id (rx_x509 env) cid pem) pem (rv_keychain rv))
     | _ \<Rightarrow> (with_peer_name p t, rv_keychain rv)))" (is "trust_kept t (fst ?pair)")
    by (auto split: option.split json.split)
  moreover obtain t2 kc where t2: "?pair = (t2, kc)" by (rule prod.exhaust)
  ultimately have "trust_kept t t2" by simp
  moreover have "fst (do_trust_confirm env d k cid e rv) = (put_trust k (mark_trusted t2) rv)\<lparr>rv_keychain := kc\<rparr>"
    using assms(1) key p t2 by (simp add: do_trust_confirm_def established_session_def Let_def)
  ultimately show ?thesis by blast
qed

section \<open>Trust over a run\<close>

text \<open>Everything that changes the receiver: requests, triggers on the desktop, timers and the button that cancels.\<close>

datatype 'k receiver_op =
    Request "'k draws" share_request
  | Trigger stash_draw 'k "byte list" payload
  | SessionTimer string
  | StashTimer string
  | CancelPressed string

fun receiver_step :: "('k, 'c) receiver_env \<Rightarrow> 'k receiver_op \<Rightarrow> 'k receiver \<Rightarrow> 'k receiver" where
  "receiver_step env (Request d q) rv = fst (serve env d q rv)"
| "receiver_step env (Trigger d key nonce body) rv =
     rv\<lparr>rv_world := fst (process_trigger (rx_files env) d key nonce body (rv_world rv))\<rparr>"
| "receiver_step env (SessionTimer k) rv =
     rv\<lparr>rv_core := orch_step (peer_name rv) (0, CleanupTimer k) (rv_core rv)\<rparr>"
| "receiver_step env (StashTimer k) rv = fst (in_store (\<lambda>s. (on_expiry_timer_fired k s, ())) rv)"
| "receiver_step env (CancelPressed k) rv = fst (in_store (cancel_stash k) rv)"

definition receiver_run :: "('k, 'c) receiver_env \<Rightarrow> 'k receiver_op list \<Rightarrow> 'k receiver \<Rightarrow> 'k receiver" where
  "receiver_run env ops rv = fold (receiver_step env) ops rv"

lemma receiver_run_simps [simp]:
  "receiver_run env [] rv = rv"
  "receiver_run env (op # ops) rv = receiver_run env ops (receiver_step env op rv)"
  "receiver_run env (ops @ ops') rv = receiver_run env ops' (receiver_run env ops rv)"
  by (simp_all add: receiver_run_def)

definition trusted :: "'k receiver \<Rightarrow> string \<Rightarrow> bool" where
  "trusted rv k \<longleftrightarrow> (case trust_of rv k of None \<Rightarrow> False | Some t \<Rightarrow> ts_is_trusted t)"

lemma kept_trusted: "trusts_kept rv rv' \<Longrightarrow> trusted rv' k = trusted rv k"
proof (cases "trust_of rv k")
  case None
  assume "trusts_kept rv rv'"
  with None have "\<not> ts_is_trusted t'" if "trust_of rv' k = Some t'" for t' using that unfolding trusts_kept_def by blast
  with None show ?thesis by (simp add: trusted_def split: option.split)
next
  case (Some t)
  assume "trusts_kept rv rv'"
  with Some obtain t' where "trust_of rv' k = Some t'" "trust_kept t t'" unfolding trusts_kept_def by blast
  with Some show ?thesis by (simp add: trusted_def trust_kept_def)
qed

lemma serve_trusts:
  "trusts_kept rv (fst (serve env d q rv)) \<or>
   (\<exists>k cid e t t' kc. q = TrustConfirm k cid e \<and> trust_of rv k = Some t \<and> proves_secret (rx_crypto env) t e \<and>
      trust_kept t t' \<and> fst (serve env d q rv) = (put_trust k (mark_trusted t') rv)\<lparr>rv_keychain := kc\<rparr>)"
proof (cases "transfer_headers q")
  case (Some h)
  then show ?thesis using untouched_trusts [OF serve_transfer_untouched] by blast
next
  case None
  then show ?thesis
  proof (cases q)
    case (TrustConfirm k cid e)
    show ?thesis
    proof (cases "\<exists>t. trust_of rv k = Some t \<and> proves_secret (rx_crypto env) t e")
      case True
      then obtain t where "trust_of rv k = Some t" "proves_secret (rx_crypto env) t e" by blast
      with confirm_accepted [OF this] show ?thesis by (simp add: TrustConfirm serve_def) blast
    next
      case False
      then show ?thesis using confirm_refused [of rv k env e d cid] by (auto simp: TrustConfirm serve_def)
    qed
  qed (use None in \<open>simp_all add: serve_def trusts_same handshake_kept apply_kept\<close>)
qed

lemma trigger_trusts:
  "trust_of (receiver_step env (Trigger d key nonce body) rv) k = trust_of rv k \<or>
   (\<exists>t. trust_of (receiver_step env (Trigger d key nonce body) rv) k = Some t \<and> ts_session_id t = k \<and> \<not> ts_is_trusted t)"
  by (auto simp: process_trigger_def trust_of_def create_trust_session_def new_trust_session_def Let_def
      split: prod.split sum.split)

lemma step_trusted:
  assumes "\<not> trusted rv k" and "trusted (receiver_step env op rv) k"
  shows "\<exists>d cid e t. op = Request d (TrustConfirm k cid e) \<and> trust_of rv k = Some t \<and> proves_secret (rx_crypto env) t e"
proof (cases op)
  case (Request d q)
  from serve_trusts [of rv env d q] show ?thesis
  proof
    assume "trusts_kept rv (fst (serve env d q rv))"
    from kept_trusted [OF this] assms show ?thesis by (simp add: Request)
  next
    assume "\<exists>k cid e t t' kc. q = TrustConfirm k cid e \<and> trust_of rv k = Some t \<and> proves_secret (rx_crypto env) t e \<and>
      trust_kept t t' \<and> fst (serve env d q rv) = (put_trust k (mark_trusted t') rv)\<lparr>rv_keychain := kc\<rparr>"
    then obtain j cid e t t' kc where j: "q = TrustConfirm j cid e" "trust_of rv j = Some t"
      "proves_secret (rx_crypto env) t e" "fst (serve env d q rv) = (put_trust j (mark_trusted t') rv)\<lparr>rv_keychain := kc\<rparr>"
      by blast
    have "trust_of (receiver_step env op rv) i = trust_of (put_trust j (mark_trusted t') rv) i" for i
      by (simp add: Request j(4) trust_of_def)
    then have "j = k" using assms by (auto simp: trusted_def split: if_splits)
    with j Request show ?thesis by blast
  qed
next
  case (Trigger d key nonce body)
  from trigger_trusts [of env d key nonce body rv k] assms show ?thesis by (auto simp: trusted_def Trigger)
qed (use assms in \<open>simp_all add: trusted_def receiver_parts trust_of_def\<close>)

text \<open>
  C10. Trust is earned: a session that is trusted after a run of the receiver and was not before became
  so by a confirmation that proved its short secret, against the keys and the secret of the session
  at that moment.
\<close>
theorem trust_is_earned:
  assumes "\<not> trusted rv k" and "trusted (receiver_run env ops rv) k"
  shows "\<exists>pre d cid e post t. ops = pre @ Request d (TrustConfirm k cid e) # post \<and>
     trust_of (receiver_run env pre rv) k = Some t \<and> proves_secret (rx_crypto env) t e"
  using assms
proof (induction ops arbitrary: rv)
  case (Cons op ops)
  show ?case
  proof (cases "trusted (receiver_step env op rv) k")
    case True
    from step_trusted [OF Cons.prems(1) this] obtain d cid e t where
      "op = Request d (TrustConfirm k cid e)" "trust_of rv k = Some t" "proves_secret (rx_crypto env) t e" by blast
    then have "op # ops = [] @ Request d (TrustConfirm k cid e) # ops" "trust_of (receiver_run env [] rv) k = Some t" by simp_all
    with \<open>proves_secret (rx_crypto env) t e\<close> show ?thesis by blast
  next
    case False
    from Cons.IH [OF this] Cons.prems(2) obtain pre d cid e post t where
      "ops = pre @ Request d (TrustConfirm k cid e) # post"
      "trust_of (receiver_run env pre (receiver_step env op rv)) k = Some t" "proves_secret (rx_crypto env) t e" by auto
    then have "op # ops = (op # pre) @ Request d (TrustConfirm k cid e) # post"
      "trust_of (receiver_run env (op # pre) rv) k = Some t" by simp_all
    with \<open>proves_secret (rx_crypto env) t e\<close> show ?thesis by blast
  qed
qed simp

section \<open>The contract of the receiver\<close>

text \<open>
  The sessions and the stashes are well formed, and every trusted session has a session key, a
  short secret and the public key of its phone.
\<close>

definition trust_session_ok :: "string \<Rightarrow> 'k trust_session \<Rightarrow> bool" where
  "trust_session_ok k t \<longleftrightarrow> ts_session_id t = k \<and>
     (ts_is_trusted t \<longrightarrow>
        ts_session_key t \<noteq> None \<and> short_secret t \<noteq> None \<and> ts_mobile_dh_public_key_bytes t \<noteq> None)"

definition trusts_ok :: "'k receiver \<Rightarrow> bool" where
  "trusts_ok rv \<longleftrightarrow> (\<forall>k t. trust_of rv k = Some t \<longrightarrow> trust_session_ok k t)"

definition receiver_ok :: "'k receiver \<Rightarrow> bool" where
  "receiver_ok rv \<longleftrightarrow>
     registry_ok (co_registry (rv_core rv)) \<and> stash_store_ok (sw_store (rv_world rv)) \<and> trusts_ok rv"

lemma kept_ok: "trust_session_ok k t \<Longrightarrow> trust_kept t t' \<Longrightarrow> trust_session_ok k t'"
  unfolding trust_session_ok_def trust_kept_def same_secret_def by auto

lemma trusts_kept_ok:
  assumes "trusts_ok rv" and "trusts_kept rv rv'"
  shows "trusts_ok rv'"
  unfolding trusts_ok_def
proof (intro allI impI)
  fix k t'
  assume get: "trust_of rv' k = Some t'"
  show "trust_session_ok k t'"
  proof (cases "trust_of rv k")
    case None
    with assms(2) get have "ts_session_id t' = k \<and> \<not> ts_is_trusted t'" unfolding trusts_kept_def by blast
    then show ?thesis by (simp add: trust_session_ok_def)
  next
    case (Some t)
    with assms(2) get have "trust_kept t t'" unfolding trusts_kept_def by force
    with assms(1) Some show ?thesis unfolding trusts_ok_def using kept_ok by blast
  qed
qed

lemma serve_trusts_ok:
  assumes "trusts_ok rv"
  shows "trusts_ok (fst (serve env d q rv))"
  using serve_trusts [of rv env d q]
proof
  assume "trusts_kept rv (fst (serve env d q rv))"
  with assms show ?thesis by (rule trusts_kept_ok)
next
  assume "\<exists>k cid e t t' kc. q = TrustConfirm k cid e \<and> trust_of rv k = Some t \<and> proves_secret (rx_crypto env) t e \<and>
      trust_kept t t' \<and> fst (serve env d q rv) = (put_trust k (mark_trusted t') rv)\<lparr>rv_keychain := kc\<rparr>"
  then obtain k e t t' kc where k: "trust_of rv k = Some t" "proves_secret (rx_crypto env) t e" "trust_kept t t'"
    "fst (serve env d q rv) = (put_trust k (mark_trusted t') rv)\<lparr>rv_keychain := kc\<rparr>" by blast
  have "short_secret (mark_trusted t') = short_secret t'" by (simp add: short_secret_def mark_trusted_def)
  moreover have "trust_session_ok k t" using assms k(1) by (simp add: trusts_ok_def)
  ultimately have "trust_session_ok k (mark_trusted t')"
    using proves_needs [OF k(2)] k(3)
    unfolding trust_session_ok_def trust_kept_def same_secret_def by (simp add: mark_trusted_def)
  moreover have "trust_of (fst (serve env d q rv)) j = trust_of (put_trust k (mark_trusted t') rv) j" for j
    by (simp add: k(4) trust_of_def)
  ultimately show ?thesis using assms by (simp add: trusts_ok_def)
qed

lemma bind_store: "same_store rv rv' \<Longrightarrow> stash_store_ok (sw_store (rv_world rv)) \<Longrightarrow> stash_store_ok (sw_store (rv_world rv'))"
  by (simp add: same_store_def)

lemma same_store_put: "same_store rv (put_trust k t rv)"
  by (simp add: same_store_def receiver_parts)

lemma same_store_trust: "same_store rv (fst (in_trust k u t rv))"
  by (simp add: same_store_def receiver_parts)

lemma handshake_store: "same_store rv (fst (do_trust_handshake env d k cid body rv))"
proof -
  have steps: "same_store rv' (fst (and_then (in_trust sid u t rv') (\<lambda>_ rv. case trust_of rv sid of
       None \<Rightarrow> (rv, Inl e) | Some t \<Rightarrow> and_then (in_trust sid u' t rv) (\<lambda>_ rv. case trust_of rv sid of
         None \<Rightarrow> (rv, Inl e) | Some t \<Rightarrow> (case hs t of (t', answer) \<Rightarrow> (put_trust sid t' rv, Inr answer))))))"
    for rv' :: "'a receiver" and sid u u' t e and hs :: "'a trust_session \<Rightarrow> 'a trust_session \<times> payload"
    by (intro st.ops same_store_trust)
      (auto intro!: st.ops same_store_trust simp: st.same same_store_put split: option.split prod.split)
  have boot: "same_store rv rv0 \<Longrightarrow> same_store rv (fst (if b then bootstrap_from_handshake d sid cid body rv0 else (rv0, Inr ())))"
    for b sid rv0
    using st.seq [of rv rv0] st.bootstrap [of rv0 d sid cid body] by simp
  have first: "same_store rv (fst (case trust_of rv sid of Some t \<Rightarrow> (rv, t)
     | None \<Rightarrow> (case c of (reg, t) \<Rightarrow> (rv\<lparr>rv_world := (rv_world rv)\<lparr>sw_trust := reg\<rparr>\<rparr>, t))))"
    for sid and c :: "'a trust_registry \<times> 'a trust_session"
    by (simp add: same_store_def split: option.split prod.split)
  show ?thesis
    unfolding do_trust_handshake_def Let_def
    by (split prod.split, intro allI impI st.and_then_op boot steps) (metis first fst_conv)
qed

lemma apply_store: "same_store rv (fst (do_trust_apply env d k envelope rv))"
  unfolding do_trust_apply_def by (auto simp: same_store_def receiver_parts split: sum.split prod.split)

lemma confirm_store: "same_store rv (fst (do_trust_confirm env d k cid envelope rv))"
  unfolding do_trust_confirm_def Let_def
  by (auto simp: same_store_def receiver_parts split: sum.split prod.split option.split json.split bool.split)

text \<open>Fetching from a stash is a step of its store.\<close>

definition store_kept :: "'k receiver \<Rightarrow> 'k receiver \<Rightarrow> bool" where
  "store_kept rv rv' \<longleftrightarrow> (stash_store_ok (sw_store (rv_world rv)) \<longrightarrow> stash_store_ok (sw_store (rv_world rv')))"

lemma store_kept_in_store:
  "(\<And>s. stash_store_ok s \<Longrightarrow> stash_store_ok (fst (f s))) \<Longrightarrow> store_kept rv (fst (in_store f rv))"
  by (simp add: store_kept_def receiver_parts)

lemma same_store_kept: "same_store rv rv' \<Longrightarrow> store_kept rv rv'"
  by (simp add: store_kept_def same_store_def)

lemma manifest_store: "store_kept rv (fst (do_transfer_manifest d k rv))"
  using stash_step_ok [of _ "ManifestAsked (dw_time d) _"]
  by (cases "admitted_stash rv k")
    (auto simp: do_transfer_manifest_def same_store_kept st.same split: prod.split
      dest!: arg_cong [where f = fst] intro!: store_kept_in_store)

lemma store_kept_case: "m = (rv', x) \<Longrightarrow> store_kept rv (fst m) \<Longrightarrow> store_kept rv rv'"
  by simp

lemma download_store: "store_kept rv (fst (do_transfer_download_file env k i rv))"
proof (cases "admitted_stash rv k")
  case (Inr j)
  have "store_kept rv (fst (in_store (retrieve_stash_file (rx_files env) (peer_name rv) j i) rv))"
    using stash_step_ok [of _ "FileAsked (rx_files env) (peer_name rv) j i"] by (intro store_kept_in_store) simp
  with Inr show ?thesis by (auto simp: do_transfer_download_file_def split: prod.split)
qed (simp add: do_transfer_download_file_def same_store_kept st.same)

lemma serve_store: "store_kept rv (fst (serve env d q rv))"
  by (cases q)
    (auto simp: serve_def same_store_kept st.same st.text_transfer st.upload handshake_store apply_store confirm_store manifest_store
      split: sum.split prod.split dest!: store_kept_case [OF _ download_store])

lemma new_stash_ok: "stash_store_ok s \<Longrightarrow> stash_store_ok (start_expiry_timer k (put_stash e s))"
  by (simp add: stash_store_ok_def)

lemma text_trigger_ok: "stash_store_ok s \<Longrightarrow> stash_store_ok (fst (text_trigger d body ct what s))"
  by (simp add: text_trigger_def create_text_stash_def new_stash_ok Let_def split: option.split json.split)

lemma create_file_stash_ok: "stash_store_ok s \<Longrightarrow> stash_store_ok (fst (create_file_stash df d raw s))"
  by (simp add: create_file_stash_def new_stash_ok Let_def split: sum.split)

lemma file_trigger_ok:
  assumes "stash_store_ok s"
  shows "stash_store_ok (fst (file_trigger df d body s))"
proof -
  have "fst (case r of (s1, r) \<Rightarrow> (s1, map_sum id Inr r :: pyexn + (payload + stash_entry))) = fst r"
    for r :: "stash_store \<times> (pyexn + stash_entry)"
    by (simp split: prod.split)
  with assms show ?thesis
    by (simp add: file_trigger_def create_file_stash_ok Let_def split: option.split json.split)
qed

lemma trigger_stash_ok: "stash_store_ok s \<Longrightarrow> stash_store_ok (fst (trigger_stash df d body s))"
  by (simp add: trigger_stash_def Let_def text_trigger_ok file_trigger_ok)

lemma trigger_store:
  assumes "stash_store_ok (sw_store w)"
  shows "stash_store_ok (sw_store (fst (process_trigger df d key nonce body w)))"
proof -
  have "stash_store_ok (notify n (s\<lparr>sh_session_ids := x\<rparr>)) = stash_store_ok s" for n s x
    by (simp add: stash_store_ok_def get_stash_def notify_def)
  with trigger_stash_ok [OF assms, of df d body] show ?thesis
    by (auto simp: process_trigger_def Let_def split: prod.split sum.split dest!: arg_cong [where f = fst])
qed

lemma receiver_step_ok:
  assumes "receiver_ok rv"
  shows "receiver_ok (receiver_step env op rv)"
proof (cases op)
  case (Request d q)
  have "registry_ok (co_registry (rv_core (fst (serve env d q rv))))"
    using assms serve_moves [of rv env d q] registry.steps_ok unfolding receiver_ok_def moves_def core_steps_def by blast
  moreover have "stash_store_ok (sw_store (rv_world (fst (serve env d q rv))))"
    using assms serve_store [of rv env d q] by (simp add: receiver_ok_def store_kept_def)
  ultimately show ?thesis using assms serve_trusts_ok [of rv env d q] by (simp add: Request receiver_ok_def)
next
  case (Trigger d key nonce body)
  have "trust_session_ok k t" if "trust_of (receiver_step env op rv) k = Some t" for k t
    using trigger_trusts [of env d key nonce body rv k] that assms
    by (auto simp: Trigger receiver_ok_def trusts_ok_def trust_session_ok_def)
  then have "trusts_ok (receiver_step env op rv)" by (simp add: trusts_ok_def)
  with assms trigger_store [of "rv_world rv"] show ?thesis by (simp add: Trigger receiver_ok_def)
next
  case (SessionTimer k)
  then show ?thesis
    using assms orch_step_ok [of "rv_core rv" "peer_name rv" "(0, CleanupTimer k)"]
    by (simp add: receiver_ok_def trusts_ok_def trust_of_def)
next
  case (StashTimer k)
  then show ?thesis
    using assms stash_step_ok [of "sw_store (rv_world rv)" "ExpiryTimer k"]
    by (simp add: receiver_ok_def trusts_ok_def receiver_parts)
next
  case (CancelPressed k)
  then show ?thesis
    using assms stash_step_ok [of "sw_store (rv_world rv)" "StashCancelled k"]
    by (simp add: receiver_ok_def trusts_ok_def receiver_parts)
qed

text \<open>
  C14. Every run of the receiver keeps its contract: over any sequence of requests, triggers, timers and
  cancellations the sessions and the stashes stay well formed, and no session is trusted without a
  session key, a short secret and the public key of its phone.
\<close>
theorem receiver_keeps_contract:
  assumes "receiver_ok rv"
  shows "receiver_ok (receiver_run env ops rv)"
  using assms by (induction ops arbitrary: rv) (simp_all add: receiver_step_ok)

section \<open>Guessing the secret\<close>

lemma verify_kept:
  assumes "ts_mobile_dh_public_key_bytes t' = ts_mobile_dh_public_key_bytes t" "ts_private_key t' = ts_private_key t"
    and "short_secret t' = short_secret t"
  shows "verify_pairing_auth cr t' a = verify_pairing_auth cr t a"
  unfolding verify_pairing_auth_def assms ..

text \<open>What a confirmation leaves of a trust session: all that the next one is checked against.\<close>

definition same_proof :: "'k trust_session \<Rightarrow> 'k trust_session \<Rightarrow> bool" where
  "same_proof t t' \<longleftrightarrow>
     ts_mobile_dh_public_key_bytes t' = ts_mobile_dh_public_key_bytes t \<and> ts_private_key t' = ts_private_key t \<and>
     ts_session_key t' = ts_session_key t \<and> ts_correlation_id t' = ts_correlation_id t \<and>
     ts_flow_type t' = ts_flow_type t \<and> ts_pin_code t' = ts_pin_code t \<and> ts_opt_code t' = ts_opt_code t"

lemma same_proof_proves: "same_proof t t' \<Longrightarrow> proves_secret cr t' e = proves_secret cr t e"
proof -
  assume same: "same_proof t t'"
  then have verify: "verify_pairing_auth cr t' = verify_pairing_auth cr t"
    by (intro ext verify_kept) (simp_all add: same_proof_def short_secret_def)
  from same have "decrypt_confirm_request cr t' e = decrypt_confirm_request cr t e"
    by (simp add: decrypt_confirm_request_def needs_key_def same_proof_def)
  then show ?thesis unfolding proves_secret_def verify by simp
qed

lemma same_proof_ops [simp]:
  "same_proof t t" "same_proof t (with_peer_name p t)" "same_proof t (mark_trusted t') = same_proof t t'"
  "same_proof t (store_mobile_certificate pem t') = same_proof t t'"
  by (simp_all add: same_proof_def with_peer_name_def set_peer_device_name_def mark_trusted_def store_mobile_certificate_def
      split: option.split json.split)

lemma confirm_same_proof:
  assumes "trust_of rv k = Some t"
  shows "\<exists>t'. trust_of (fst (do_trust_confirm env d k cid e rv)) k = Some t' \<and> same_proof t t'"
proof (cases "established_session rv k")
  case (Inr t0)
  with assms have t0: "t0 = t" by (simp add: established_session_def split: if_splits)
  show ?thesis
  proof (cases "decrypt_confirm_request (rx_crypto env) t e")
    case dec: (Inr p)
    show ?thesis
    proof (cases "\<exists>auth. dict_get p ''pairing_auth'' = Some (JStr auth)")
      case True
      then obtain auth where auth: "dict_get p ''pairing_auth'' = Some (JStr auth)" by blast
      have kc: "trust_of (rv'\<lparr>rv_keychain := kc\<rparr>) = trust_of rv'" for rv' :: "'a receiver" and kc
        by (simp add: trust_of_def fun_eq_iff)
      show ?thesis
        using Inr t0 dec auth assms
        by (auto simp: do_trust_confirm_def Let_def kc split: sum.split bool.split option.split json.split)
    next
      case False
      then show ?thesis
        using Inr t0 dec assms
        by (cases "dict_get p ''pairing_auth''") (auto simp: do_trust_confirm_def Let_def split: json.split)
    qed
  qed (use Inr t0 assms in \<open>simp add: do_trust_confirm_def\<close>)
qed (use assms in \<open>simp add: do_trust_confirm_def\<close>)

lemma confirm_proved:
  assumes "trust_of rv k = Some t" and "proves_secret (rx_crypto env) t e"
  shows "trusted (fst (do_trust_confirm env d k cid e rv)) k"
proof -
  from confirm_accepted [OF assms] obtain t' kc where
    "fst (do_trust_confirm env d k cid e rv) = (put_trust k (mark_trusted t') rv)\<lparr>rv_keychain := kc\<rparr>" by blast
  moreover have "trust_of (rv'\<lparr>rv_keychain := kc\<rparr>) = trust_of rv'" for rv' :: "'a receiver" by (simp add: trust_of_def fun_eq_iff)
  ultimately show ?thesis by (simp add: trusted_def mark_trusted_def)
qed

definition confirm_all ::
    "('k, 'c) receiver_env \<Rightarrow> string \<Rightarrow> string \<Rightarrow> ('k draws \<times> payload) list \<Rightarrow> 'k receiver \<Rightarrow> 'k receiver" where
  "confirm_all env k cid guesses rv =
     fold (\<lambda>(d, e) rv. fst (serve env d (TrustConfirm k cid e) rv)) guesses rv"

text \<open>
  C33. Wrong proofs cost nothing: after any number of confirmations, whatever they contained, one that
  proves the secret is accepted as if it were the first.  The limit of three attempts that a stash
  carries is never consulted.
\<close>
theorem guesses_are_unlimited:
  assumes "trust_of rv k = Some t" and "proves_secret (rx_crypto env) t e"
  shows "trusted (fst (serve env d (TrustConfirm k cid e) (confirm_all env k cid guesses rv))) k"
  using assms
proof (induction guesses arbitrary: rv t)
  case Nil
  then show ?case by (simp add: confirm_all_def serve_def confirm_proved)
next
  case (Cons g guesses)
  from confirm_same_proof [OF Cons.prems(1), of env "fst g" cid "snd g"] obtain t' where
    t': "trust_of (fst (serve env (fst g) (TrustConfirm k cid (snd g)) rv)) k = Some t'" "same_proof t t'"
    by (auto simp: serve_def)
  from Cons.IH [OF t'(1)] Cons.prems(2) same_proof_proves [OF t'(2)] show ?case
    by (simp add: confirm_all_def split: prod.split) (metis fst_conv snd_conv)
qed

section \<open>Uploads and downloads\<close>

text \<open>The signature over the session identifier that a stored certificate verifies.\<close>

definition signed_by_peer :: "'c x509 \<Rightarrow> keychain \<Rightarrow> signature_headers \<Rightarrow> bool" where
  "signed_by_peer x kc h \<longleftrightarrow>
     (case load_peer_certificate (sg_peer_device_id h) kc of
        None \<Rightarrow> False
      | Some pem \<Rightarrow>
          (case (xc_parse x pem, security_b64url_decode (sg_signature h) ''signature'') of
             (Some cert, Inr bs) \<Rightarrow> xc_is_ec x cert \<and> xc_verify x cert bs (utf8_encode (sg_session_id h))
           | _ \<Rightarrow> False))"

lemma authenticate_signed:
  assumes "authenticate env rv h = Inr u"
  shows "signed_by_peer (rx_x509 env) (rv_keychain rv) h"
proof -
  from assms obtain pem where pem: "load_peer_certificate (sg_peer_device_id h) (rv_keychain rv) = Some pem"
    by (auto simp: authenticate_def verify_session_signature_def split: if_splits option.splits)
  with assms obtain cert where cert: "xc_parse (rx_x509 env) pem = Some cert"
    by (auto simp: authenticate_def verify_session_signature_def split: if_splits option.splits)
  from assms pem cert show ?thesis
    by (auto simp: authenticate_def verify_session_signature_def signed_by_peer_def split: if_splits sum.splits)
qed

lemma trust_gate:
  "admit_upload d k cid pc ti name n rv = (rv', Inr b) \<Longrightarrow> trust_of rv k = None \<or> trusted rv k"
  "admitted_stash rv k = Inr j \<Longrightarrow> trusted rv k"
  by (auto simp: admit_upload_def admitted_stash_def trusted_def split: option.splits if_splits)

lemma untrusted_refused:
  assumes "trust_of rv k = Some t" and "\<not> ts_is_trusted t"
  shows "admit_upload d k cid pc ti name n rv = (rv, Inl trust_required)" "admitted_stash rv k = Inl trust_required"
  using assms by (simp_all add: admit_upload_def admitted_stash_def)

lemma refused_upload:
  assumes "trust_of rv (sg_session_id h) = Some t" and "\<not> ts_is_trusted t"
  shows "\<exists>st e. ds_clipboard st = ds_clipboard (rv_delivery rv) \<and> fst (error_response e) \<noteq> 200 \<and>
     transfer_image env d h cid body ct fn name n rv = (rv\<lparr>rv_delivery := st\<rparr>, Inl e)"
proof -
  obtain fs r where w: "fs_write_bytes (dw_temp_path d) body (ds_fs (rv_delivery rv)) = (fs, r)" by (rule prod.exhaust)
  show ?thesis
  proof (cases r)
    case (Inl e)
    with w show ?thesis
      by (simp add: transfer_image_def in_delivery_def in_fs_def error_response_def)
        (intro exI [of _ "(rv_delivery rv)\<lparr>ds_fs := fs\<rparr>"] exI [of _ "PyError (OSError e)"], simp)
  next
    case (Inr x)
    let ?rv = "rv\<lparr>rv_delivery := (rv_delivery rv)\<lparr>ds_fs := fs\<rparr>\<rparr>"
    have "trust_of ?rv (sg_session_id h) = Some t" using assms(1) by (simp add: trust_of_def)
    note untrusted_refused(1) [OF this assms(2)]
    then have "do_transfer_image env d (sg_session_id h) cid ct fn name (dw_temp_path d) n ?rv = (?rv, Inl trust_required)"
      by (simp add: do_transfer_image_def)
    then have "transfer_image env d h cid body ct fn name n rv =
        (fst (in_delivery (in_fs (fs_unlink False (dw_temp_path d))) ?rv), Inl trust_required)"
      using w Inr by (simp add: transfer_image_def in_delivery_def in_fs_def)
    moreover have "fst (in_delivery (in_fs (fs_unlink False (dw_temp_path d))) ?rv) =
        rv\<lparr>rv_delivery := fst (in_fs (fs_unlink False (dw_temp_path d)) (rv_delivery ?rv))\<rparr>"
      by (simp add: in_delivery_def split: prod.split)
    moreover have "fst (error_response trust_required) \<noteq> 200"
      by (simp add: error_response_def trust_required_def share_error_of_def)
    ultimately show ?thesis
      by (intro exI [of _ "fst (in_fs (fs_unlink False (dw_temp_path d)) (rv_delivery ?rv))"] exI [of _ trust_required]) simp
  qed
qed


text \<open>
  The certificate of the phone that a session was trusted with plays no role: two phones whose
  signatures verify, under whichever stored certificates, get the same answer for the same session.
\<close>
theorem any_known_phone_opens_session:
  assumes "authenticate env rv h = Inr u" and "authenticate env rv h' = Inr u'" and "sg_session_id h' = sg_session_id h"
  shows "serve env d (TransferManifest h') rv = serve env d (TransferManifest h) rv \<and>
     serve env d (TransferDownload h' i) rv = serve env d (TransferDownload h i) rv"
  using assms by (simp add: serve_def)

text \<open>
  A manifest that is refused is still answered with HTTP status 200: the status of an expired stash
  stands in the body only.
\<close>
theorem expired_manifest_says_200:
  assumes "authenticate env rv h = Inr u" and "trust_of rv (sg_session_id h) = Some t" and "ts_is_trusted t"
    and "ts_stash_id t = Some k" and "py_strip k = k" and "get_stash (sw_store (rv_world rv)) k = Some e" and "st_expired e"
  shows "snd (serve env d (TransferManifest h) rv) =
     (200, JsonBody [(''status'', JStr ''expired''), (''error'', JStr ''Stash has expired'')])"
  using assms
  by (simp add: serve_def respond_def do_transfer_manifest_def admitted_stash_def in_store_def retrieve_stash_content_def
      stash_error_def py_startswith_def split: prod.split)

lemma strip_nothing: "py_strip [] = []"
  by (simp add: strip_by_def)

text \<open>
  A first handshake without a correlation identifier fails with HTTP status 500, after its trust
  session was created.
\<close>
theorem handshake_needs_correlation:
  assumes "trust_of rv k = None" and "k \<noteq> []" and "py_strip k \<noteq> []"
    and "payload_class_of (hs_payload_class body) = Inr pc" and "target_intent_of (hs_target_intent body) = Inr ti"
    and "trust_mode_of (hs_trust_mode body) = Inr tm"
  shows "fst (snd (serve env d (TrustHandshake k [] body) rv)) = 500 \<and>
     trust_of (fst (serve env d (TrustHandshake k [] body) rv)) k =
       Some (new_trust_session (dw_key d) (dw_pc_nonce d) k k MobileToPc None None)"
  using assms strip_nothing
  by (simp add: serve_def respond_def do_trust_handshake_def bootstrap_from_handshake_def handshake_config_def
      create_trust_session_def in_core_def handle_connection_config_def in_registry_def bootstrap_def config_validate_def
      endpoint_validate_def new_trust_session_def error_response_def trust_of_def exn_simps Let_def)

section \<open>A whole share\<close>

text \<open>The envelope of a phone that knows the secret, as the desktop reads it.\<close>

lemma honest_envelope:
  assumes "ts_session_key t = Some key" and "short_secret t = Some secret"
    and "ts_mobile_dh_public_key_bytes t = Some (cr_public cr phone)"
    and "cr_exchange cr (ts_private_key t) (cr_public cr phone) = Some shared"
    and "\<And>hk m. cr_hmac cr hk m \<noteq> []" and aead: "aead_ok (cr_aead cr)"
    and auth: "auth = b64url_encode_unpadded (compute_pairing_auth cr shared secret
      (cr_public cr (ts_private_key t)) (cr_public cr phone))"
    and envelope: "encrypt_json_payload cr (Some key) nonce
      [(''action'', JStr ''confirm''), (''pairing_auth'', JStr auth)] cid' = Inr e"
  shows "decrypt_confirm_request cr t e = Inr [(''action'', JStr ''confirm''), (''pairing_auth'', JStr auth)] \<and>
    verify_pairing_auth cr t (py_strip auth) = Inr True \<and> py_strip auth \<noteq> [] \<and> proves_secret cr t e"
proof -
  let ?p = "[(''action'', JStr ''confirm''), (''pairing_auth'', JStr auth)]"
  have ne: "compute_pairing_auth cr shared secret (cr_public cr (ts_private_key t)) (cr_public cr phone) \<noteq> []"
    using assms(5) by (simp add: compute_pairing_auth_def)
  have nonce: "length nonce = TRUST_SESSION_NONCE_BYTES"
    using envelope by (simp add: encrypt_json_payload_def require_session_key_def split: if_splits)
  have sorted: "json_sorted (JObj ?p) = JObj ?p" and ok: "json_ok (JObj ?p)" by code_simp+
  from envelope_decrypts [OF aead ok nonce, of key cid' "ts_correlation_id t"] envelope sorted
  have dec: "decrypt_confirm_request cr t e = Inr ?p"
    using assms(1) by (simp add: decrypt_confirm_request_def)
  have verify: "verify_pairing_auth cr t (py_strip auth) = Inr True"
    using assms(2,3,4) urlsafe_roundtrip [OF ne] by (simp add: verify_pairing_auth_def verify_auth_def auth)
  have "py_strip auth \<noteq> []" unfolding auth by (rule unpadded_ne [OF ne])
  with dec verify show ?thesis by (simp add: proves_secret_def dict_get_def)
qed


text \<open>
  C13. A shared text reaches the clipboard: a signed upload to a trusted session that waits for a text is
  answered 200, the text of its body is on the clipboard, and the session is done.
\<close>
theorem shared_text_reaches_clipboard:
  assumes "authenticate env rv h = Inr u" and "trusted rv (sg_session_id h)"
    and "get_share_session (co_registry (rv_core rv)) (sg_session_id h) = Some s"
    and "se_state s = SsTransferring \<or> SsTransferring \<in> set (allowed_transitions (se_state s))" and "se_image_count s = 0"
    and "sm_payload_class (cc_metadata (se_connection_config s)) \<in> {PayloadText, PayloadLink}"
    and "Option.bind (utf8_decode body) json_loads = Some (JObj p)" and "dict_get p ''text_utf8'' = Some (JStr t)" and "t \<noteq> []"
    and "dv_clipboard_writer (rx_delivery env) = Some writer" and "writer (ClipText t) = None"
    and "serve env d (TransferText h cid body text name) rv = (rv', status, answer)"
  shows "status = 200 \<and> ds_clipboard (rv_delivery rv') = Some (ClipText t) \<and>
     map_option se_state (get_share_session (co_registry (rv_core rv')) (sg_session_id h)) = Some SsDone"
proof -
  let ?k = "sg_session_id h" and ?st = "(rv_delivery rv)\<lparr>ds_clipboard := Some (ClipText t)\<rparr>"
  let ?r = "\<lparr>xr_session_id = ?k, xr_correlation_id = cid, xr_state = ''done'', xr_bytes_received = int (length body),
      xr_output_file_path = []\<rparr>"
  let ?rv = "rv\<lparr>rv_delivery := ?st\<rparr>"
  have admit: "admit_upload d ?k cid PayloadText ClipboardOnly name 0 rv = (rv, Inr False)"
    using assms(2) by (cases "trust_of rv ?k") (simp_all add: admit_upload_def trusted_def)
  have "receive_text (rx_delivery env) (rx_reason env) (rx_shown env) (co_registry (rv_core rv)) ?k cid body (rv_delivery rv)
      = (?st, Inr ?r)"
    using assms(3,6-11)
    by (simp add: receive_text_def require_session_def dict_str_def deliver_text_def write_clipboard_def delivered_def Let_def)
  then have receive: "in_delivery (receive_text (rx_delivery env) (rx_reason env) (rx_shown env) (co_registry (rv_core rv)) ?k cid body) rv
      = (?rv, Inr ?r)"
    by (simp add: in_delivery_def)
  let ?after = "fst (and_then (in_core (handle_transfer_received (peer_name ?rv) (dw_monotonic d) ?k None) ?rv) (\<lambda>_ rv.
      in_core (handle_delivery_complete (peer_name rv) (dw_monotonic d) ?k text []) rv))"
  have "serve env d (TransferText h cid body text name) rv = (?after, 200, JsonBody (delivered_answer ?r))"
    using assms(1) by (simp add: serve_def do_transfer_text_def admit receive respond_def)
  then have "rv' = ?after" "status = 200" using assms(12) by simp_all
  moreover have "map_option se_state (get_share_session (co_registry (rv_core ?after)) ?k) = Some SsDone"
    using assms(3,4,5)
    by (auto simp: in_core_def handle_transfer_received_def handle_delivery_complete_def in_registry_def require_session_def
        increment_received_count_def transition_def batch_complete_def Let_def)
  moreover have "rv_delivery ?after = ?st"
    using un.same by (simp add: in_core_def and_then_def split: prod.split sum.split)
  ultimately show ?thesis by simp
qed

end
