(* ===== verification/ShareScenarios.thy ===== *)
theory ShareScenarios
  imports ShareServerProps
begin

text \<open>
  One small receiver on which the theorems about instant share apply: a session that a trigger on
  the desktop opened, the phone that scanned its code, and primitives that compute.
\<close>

section \<open>The receiver\<close>

definition toy_crypto :: "nat share_crypto" where
  "toy_crypto = \<lparr>cr_public = (\<lambda>k. [word_of_nat k]), cr_exchange = (\<lambda>k p. Some (map (\<lambda>b. word_of_nat k * b) p)),
     cr_hkdf = (\<lambda>salt info key. take 16 (salt @ info @ key @ replicate 16 0)), cr_hmac = (\<lambda>key m. 1 # key @ m),
     cr_aead = plain_aead\<rparr>"

text \<open>A certificate is its text; it signs a message by the message itself.\<close>

definition toy_x509 :: "string x509" where
  "toy_x509 = \<lparr>xc_parse = Some, xc_device_id_value = (\<lambda>_. None), xc_common_name = Some, xc_is_ec = (\<lambda>_. True),
     xc_verify = (\<lambda>_ signature m. signature = m)\<rparr>"

definition toy_files :: pyfs where
  "toy_files = \<lparr>fs_files = [], fs_dirs = [], fs_mtimes = [], fs_faults = []\<rparr>"

definition toy_env :: "(nat, string) receiver_env" where
  "toy_env = \<lparr>rx_crypto = toy_crypto, rx_x509 = toy_x509,
     rx_delivery = \<lparr>dv_clipboard_writer = Some (\<lambda>_. None), dv_image_delivery_mode = ''file'', dv_downloads_dir = (''/'', [''dl''])\<rparr>,
     rx_files = \<lparr>df_is_file = (\<lambda>_. False), df_size = (\<lambda>_. None), df_read = (\<lambda>_. None)\<rparr>,
     rx_pc_certificate = ''pc'', rx_reason = (\<lambda>_. []), rx_shown = (\<lambda>_. [])\<rparr>"

definition toy_draws :: "nat draws" where
  "toy_draws = \<lparr>dw_monotonic = 7, dw_time = 11, dw_uuid = ''u'', dw_key = 3, dw_pc_nonce = [1], dw_kdf = [2], dw_pin = [3],
     dw_nonce = replicate 12 4, dw_temp_path = (''/'', [''tmp''])\<rparr>"

definition toy_session :: "nat trust_session" where
  "toy_session = (new_trust_session 3 [1] ''7f'' ''7f'' PcToMobile (Some ''123456'') (Some ''st''))
     \<lparr>ts_session_key := Some (replicate 16 9), ts_mobile_dh_public_key_bytes := Some [5]\<rparr>"

definition toy_stash :: stash_entry where
  "toy_stash = new_stash \<lparr>sd_stash_id = ''st'', sd_now = 5, sd_random = 123456\<rparr> ''text/plain'' (Some ''hello'')
     [\<lparr>fe_file_path = [], fe_filename = None, fe_content_type = ''text/plain'', fe_size_bytes = 0, fe_content = Some ''hello''\<rparr>]"

definition toy_store :: "stash_entry \<Rightarrow> stash_store" where
  "toy_store e = \<lparr>sh_stashes = [(''st'', e)], sh_session_ids = [(''st'', ''7f'')], sh_timers = [''st''], sh_notices = []\<rparr>"

definition toy_config :: "string \<Rightarrow> connection_config" where
  "toy_config k = \<lparr>cc_session_id = k, cc_mobile_port = 1, cc_mobile_ip_list = [''127.0.0.1''], cc_correlation_id = ''c'',
     cc_metadata = \<lparr>sm_payload_class = PayloadText, sm_target_intent = ClipboardOnly, sm_trust_mode = FirstShare,
       sm_flow_id = FLOW_ID\<rparr>\<rparr>"

definition toy_core :: "session_state \<Rightarrow> share_core" where
  "toy_core state = \<lparr>co_registry = \<lparr>sr_active_sessions = [(''7f'', (new_session 1 (toy_config ''7f''))\<lparr>se_state := state\<rparr>)],
     sr_max_sessions = DEFAULT_MAX_SESSIONS, sr_cleanup_timers = []\<rparr>, co_events = []\<rparr>"

definition toy_receiver :: "nat trust_session \<Rightarrow> nat receiver" where
  "toy_receiver t = \<lparr>rv_world = \<lparr>sw_store = toy_store toy_stash, sw_trust = [(''7f'', t)], sw_counter = 127\<rparr>,
     rv_core = toy_core SsNegotiating, rv_delivery = \<lparr>ds_fs = toy_files, ds_clipboard = None\<rparr>,
     rv_keychain = [(''phone'', ''cert''), (''tablet'', ''cert2'')], rv_pins_shown = []\<rparr>"

text \<open>The phone has the private key 5 and knows the code \<open>123456\<close>.\<close>

definition toy_auth :: string where
  "toy_auth = b64url_encode_unpadded (compute_pairing_auth toy_crypto [15] ''123456'' [3] [5])"

definition toy_envelope :: payload where
  "toy_envelope = (case encrypt_json_payload toy_crypto (Some (replicate 16 9)) (replicate 12 7)
       [(''action'', JStr ''confirm''), (''pairing_auth'', JStr toy_auth)] ''c'' of Inr e \<Rightarrow> e | Inl _ \<Rightarrow> [])"

definition toy_headers :: "string \<Rightarrow> signature_headers" where
  "toy_headers device = \<lparr>sg_session_id = ''7f'', sg_peer_device_id = device,
     sg_signature = b64url_encode_unpadded (utf8_encode ''7f''), sg_algorithm = ''ecdsa-sha256''\<rparr>"

lemma toy_parts [simp]:
  "rx_crypto toy_env = toy_crypto" "rx_x509 toy_env = toy_x509" "rv_keychain (toy_receiver t) = [(''phone'', ''cert''), (''tablet'', ''cert2'')]"
  "trust_of (toy_receiver t) ''7f'' = Some t" "rv_core (toy_receiver t) = toy_core SsNegotiating"
  "sw_store (rv_world (toy_receiver t)) = toy_store toy_stash"
  by (simp_all add: toy_env_def toy_receiver_def trust_of_def dict_get_def)

lemma toy_session_parts:
  "ts_session_key toy_session = Some (replicate 16 9)" "short_secret toy_session = Some ''123456''" "\<not> ts_is_trusted toy_session"
  "ts_mobile_dh_public_key_bytes toy_session = Some [5]" "ts_private_key toy_session = 3" "ts_stash_id toy_session = Some ''st''"
  "ts_session_id toy_session = ''7f''"
  by (simp_all add: toy_session_def new_trust_session_def short_secret_def)

lemma toy_crypto_facts:
  "cr_public toy_crypto k = [word_of_nat k]" "cr_exchange toy_crypto 3 [5] = Some [15]" "cr_exchange toy_crypto 5 [3] = Some [15]"
  "cr_hmac toy_crypto hk m \<noteq> []" "aead_ok (cr_aead toy_crypto)"
  by (simp_all add: toy_crypto_def plain_aead_ok)

lemma toy_envelope: "encrypt_json_payload toy_crypto (Some (replicate 16 9)) (replicate 12 7)
    [(''action'', JStr ''confirm''), (''pairing_auth'', JStr toy_auth)] ''c'' = Inr toy_envelope"
  by (simp add: toy_envelope_def encrypt_json_payload_def require_session_key_def TRUST_SESSION_NONCE_BYTES_def exn_simps)

lemma toy_proves: "proves_secret toy_crypto toy_session toy_envelope"
  using honest_envelope [of toy_session "replicate 16 9" "''123456''" toy_crypto 5 "[15]" toy_auth, OF _ _ _ _ _ _ _ toy_envelope]
  by (simp add: toy_session_parts toy_crypto_facts toy_auth_def)


lemma guesses_are_unlimited_witness:
  "trusted (fst (serve toy_env toy_draws (TrustConfirm ''7f'' ''c'' toy_envelope)
     (confirm_all toy_env ''7f'' ''c'' (replicate 4 (toy_draws, [])) (toy_receiver toy_session)))) ''7f''"
  by (rule guesses_are_unlimited [where t = toy_session]) (simp_all add: toy_proves)

lemma trust_is_earned_witness:
  "\<exists>pre d cid e post t. [Request toy_draws (TrustConfirm ''7f'' ''c'' toy_envelope)] = pre @ Request d (TrustConfirm ''7f'' cid e) # post \<and>
     trust_of (receiver_run toy_env pre (toy_receiver toy_session)) ''7f'' = Some t \<and> proves_secret (rx_crypto toy_env) t e"
proof (rule trust_is_earned)
  show "\<not> trusted (toy_receiver toy_session) ''7f''" by (simp add: trusted_def toy_session_parts)
  show "trusted (receiver_run toy_env [Request toy_draws (TrustConfirm ''7f'' ''c'' toy_envelope)] (toy_receiver toy_session)) ''7f''"
    using confirm_proved [of "toy_receiver toy_session" "''7f''" toy_session toy_env toy_envelope toy_draws "''c''"]
    by (simp add: toy_proves serve_def)
qed

section \<open>The contract\<close>

lemma toy_config_ok: "config_validate (toy_config ''7f'') = Inr ()"
  by (simp add: toy_config_def config_validate_def endpoint_validate_def metadata_validate_def ip_address_loopback FLOW_ID_def
      strip_by_def py_isspace_def exn_simps)

lemma toy_registry_ok: "active_state state \<Longrightarrow> registry_ok (co_registry (toy_core state))"
  by (simp add: registry_ok_def toy_core_def toy_config_ok new_session_def active_sessions_def dict_ok_def DEFAULT_MAX_SESSIONS_def)
    (simp add: toy_config_def)

lemma toy_stash_parts:
  "st_stash_id toy_stash = ''st''" "\<not> st_claimed toy_stash" "\<not> st_expired toy_stash" "st_files toy_stash \<noteq> []"
  "fe_content (st_files toy_stash ! 0) = Some ''hello''" "\<forall>f\<in>set (st_files toy_stash). fe_content f \<noteq> None"
  "fe_content_type (st_files toy_stash ! 0) = ''text/plain''" "fe_filename (st_files toy_stash ! 0) = None"
  by (simp_all add: toy_stash_def new_stash_def)

lemma toy_get_stash: "get_stash (toy_store e) k = (if k = ''st'' then Some e else None)"
  by (simp add: get_stash_def toy_store_def dict_get_def)

lemma toy_store_ok: "st_stash_id e = ''st'' \<Longrightarrow> stash_store_ok (toy_store e)"
  by (simp add: stash_store_ok_def toy_get_stash)

lemma toy_receiver_ok: "receiver_ok (toy_receiver toy_session)"
proof -
  have "trust_of (toy_receiver toy_session) k = (if k = ''7f'' then Some toy_session else None)" for k
    by (simp add: toy_receiver_def trust_of_def dict_get_def)
  then show ?thesis
    by (simp add: receiver_ok_def toy_registry_ok toy_store_ok toy_stash_parts trusts_ok_def trust_session_ok_def toy_session_parts)
qed

lemma receiver_keeps_contract_witness:
  "receiver_ok (receiver_run toy_env [Request toy_draws (TrustConfirm ''7f'' ''c'' toy_envelope), StashTimer ''st'',
     Request toy_draws (TransferManifest (toy_headers ''phone'')), CancelPressed ''st'', SessionTimer ''7f''] (toy_receiver toy_session))"
  by (rule receiver_keeps_contract [OF toy_receiver_ok])

lemma strip_st: "py_strip ''st'' = ''st''"
  by (simp add: strip_by_def py_isspace_def)

lemma expired_stash_is_gone_witness:
  "snd (retrieve_stash_file (rx_files toy_env) (\<lambda>_. []) ''st'' 0 (fold stash_step [StashCancelled ''st'', ExpiryTimer ''st'']
      (toy_store (toy_stash\<lparr>st_expired := True\<rparr>)))) = (410, [], [], []) \<and>
   dict_get (snd (retrieve_stash_content 9 ''st'' (fold stash_step [StashCancelled ''st'', ExpiryTimer ''st'']
      (toy_store (toy_stash\<lparr>st_expired := True\<rparr>))))) ''_status'' = Some (JInt 410)"
  by (rule expired_stash_is_gone [where e = "toy_stash\<lparr>st_expired := True\<rparr>"])
    (simp_all add: toy_store_ok toy_stash_parts toy_get_stash strip_st)

lemma claimed_text_served_forever_witness:
  "snd (retrieve_stash_file (rx_files toy_env) (\<lambda>_. []) ''st'' 0 (fold stash_step [ExpiryTimer ''st'', StashCancelled ''st'', ManifestAsked 999999999999 ''st'']
      (toy_store (toy_stash\<lparr>st_claimed := True\<rparr>)))) = (200, utf8_encode ''hello'', ''text/plain'', [])"
proof -
  let ?e = "toy_stash\<lparr>st_claimed := True\<rparr>"
  have "snd (retrieve_stash_file (rx_files toy_env) (\<lambda>_. []) ''st'' 0 (fold stash_step [ExpiryTimer ''st'', StashCancelled ''st'', ManifestAsked 999999999999 ''st'']
      (toy_store ?e))) = (200, utf8_encode ''hello'', fe_content_type (st_files toy_stash ! 0), or_empty (fe_filename (st_files toy_stash ! 0)))"
    by (rule claimed_text_served_forever [where e = ?e])
      (use toy_stash_parts in \<open>simp_all add: toy_store_ok toy_get_stash strip_st\<close>)
  then show ?thesis by (simp add: toy_stash_parts or_empty_def)
qed

section \<open>Uploads\<close>

lemma toy_signature: "security_b64url_decode (b64url_encode_unpadded (utf8_encode ''7f'')) ''signature'' = Inr (utf8_encode ''7f'')"
  by (rule security_roundtrip) (simp add: utf8_encode_def utf8_char_def)

lemma toy_signature_ne: "b64url_encode_unpadded (utf8_encode ''7f'') \<noteq> []"
  using toy_signature by (auto simp: security_b64url_decode_def strip_nothing)

lemma toy_authentic:
  "authenticate toy_env (toy_receiver t) (toy_headers ''phone'') = Inr ()"
  by (simp add: authenticate_def missing_headers_def toy_headers_def toy_signature_ne verify_session_signature_def
      load_peer_certificate_def dict_get_def toy_x509_def toy_signature)

abbreviation toy_trusted :: "nat receiver" where
  "toy_trusted \<equiv> toy_receiver (mark_trusted toy_session)"

lemma toy_trusted_facts: "trusted toy_trusted ''7f''"
  by (simp add: trusted_def mark_trusted_def)


text \<open>The body is the text of a JSON object, as any phone would write it.\<close>

definition toy_body :: "byte list" where
  "toy_body = utf8_encode (json_dumps False (JObj [(''text_utf8'', JStr ''hi'')]))"

lemma toy_body_parses: "Option.bind (utf8_decode toy_body) json_loads = Some (JObj [(''text_utf8'', JStr ''hi'')])"
proof -
  have ok: "json_ok (JObj [(''text_utf8'', JStr ''hi'')])" by code_simp
  have "json_sorted (JObj [(''text_utf8'', JStr ''hi'')]) = JObj [(''text_utf8'', JStr ''hi'')]" by code_simp
  with json_roundtrip [OF ok, of False] show ?thesis unfolding toy_body_def by (simp add: utf8_roundtrip)
qed

lemma toy_session_waits:
  "get_share_session (co_registry (toy_core state)) ''7f'' = Some ((new_session 1 (toy_config ''7f''))\<lparr>se_state := state\<rparr>)"
  by (simp add: get_share_session_def toy_core_def dict_get_def)

lemma shared_text_reaches_clipboard_witness:
  "ds_clipboard (rv_delivery (fst (serve toy_env toy_draws (TransferText (toy_headers ''phone'') ''c'' toy_body ''hi'' []) toy_trusted)))
   = Some (ClipText ''hi'')"
proof -
  obtain rv' status answer where
    s: "serve toy_env toy_draws (TransferText (toy_headers ''phone'') ''c'' toy_body ''hi'' []) toy_trusted = (rv', status, answer)"
    by (rule prod_cases3)
  have k: "sg_session_id (toy_headers ''phone'') = ''7f''" by (simp add: toy_headers_def)
  have "status = 200 \<and> ds_clipboard (rv_delivery rv') = Some (ClipText ''hi'') \<and>
     map_option se_state (get_share_session (co_registry (rv_core rv')) (sg_session_id (toy_headers ''phone''))) = Some SsDone"
    by (rule shared_text_reaches_clipboard [OF toy_authentic _ _ _ _ _ toy_body_parses _ _ _ _ s, where writer = "\<lambda>_. None"
          and s = "(new_session 1 (toy_config ''7f''))\<lparr>se_state := SsNegotiating\<rparr>"])
      (simp_all add: k toy_trusted_facts toy_session_waits new_session_def toy_config_def dict_get_def toy_env_def)
  with s show ?thesis by simp
qed

section \<open>Sessions and deliveries\<close>

lemma session_follows_table_witness:
  "\<exists>s'. get_share_session (co_registry (orch_run (\<lambda>_. []) [(2, TransferReceived ''7f'' None), (3, DeliveryComplete ''7f'' ''hi'' [])]
      (toy_core SsNegotiating))) ''7f'' = Some s' \<and>
     (\<lambda>a b. b \<in> set (allowed_transitions a))\<^sup>*\<^sup>* SsNegotiating (se_state s') \<and>
     se_connection_config s' = toy_config ''7f'' \<and> 0 \<le> se_received_count s'"
  using session_follows_table [OF toy_session_waits [of SsNegotiating],
      of "[(2, TransferReceived ''7f'' None), (3, DeliveryComplete ''7f'' ''hi'' [])]" "\<lambda>_. []"]
  by (simp add: new_session_def)

lemma delivery_waits_for_batch_witness:
  "map_option se_state (get_share_session (co_registry (fst (handle_delivery_complete (\<lambda>_. []) 9 ''7f'' [] ''a.png''
       ((receive_image_of (\<lambda>_. []) 8 ''7f'' 3 ^^ 2) (toy_core SsNegotiating))))) ''7f'') = Some SsTransferring"
  using delivery_waits_for_batch [OF toy_session_waits [of SsNegotiating], of 3 2 "\<lambda>_. []" 9 "[]" "''a.png''" 8]
  by (simp add: new_session_def)

lemma toy_configs_ok: "k \<in> {''7f'', ''a'', ''b''} \<Longrightarrow> config_validate (toy_config k) = Inr ()"
  by (auto simp: toy_config_def config_validate_def endpoint_validate_def metadata_validate_def ip_address_loopback FLOW_ID_def
      strip_by_def py_isspace_def exn_simps)

lemma abandoned_sessions_fill_registry_witness:
  "snd (handle_connection_config (\<lambda>_. []) 5 (toy_config ''7f'') (queue_all (\<lambda>_. []) 4 [toy_config ''a'', toy_config ''b'']
     \<lparr>co_registry = \<lparr>sr_active_sessions = [], sr_max_sessions = 2, sr_cleanup_timers = []\<rparr>, co_events = []\<rparr>))
   = Inl (ShareError (busy_error (toy_config ''7f'')))"
proof -
  have "cc_session_id (toy_config k) = k" for k by (simp add: toy_config_def)
  then show ?thesis
    using abandoned_sessions_fill_registry [OF _ _ _ _ _ refl, of "[toy_config ''a'', toy_config ''b'']" 2 "toy_config ''7f''" "\<lambda>_. []" 5 4]
    by (simp add: toy_configs_ok)
qed

text \<open>A phone sends the name of a file that exists.\<close>

definition toy_image :: image_payload where
  "toy_image = \<lparr>ip_metadata = \<lparr>sm_payload_class = PayloadImage, sm_target_intent = ClipboardOrFile, sm_trust_mode = FirstShare,
     sm_flow_id = FLOW_ID\<rparr>, ip_image_bytes = [1, 2], ip_filename = Some ''a.png'', ip_content_type = ''image/png'',
     ip_temp_file_path = None\<rparr>"

definition toy_downloads :: delivery_state where
  "toy_downloads = \<lparr>ds_fs = \<lparr>fs_files = [((''/'', [''dl'', ''a.png'']), [9])], fs_dirs = [(''/'', []), (''/'', [''dl''])],
     fs_mtimes = [], fs_faults = []\<rparr>, ds_clipboard = None\<rparr>"

lemma delivered_image_keeps_files_witness:
  "fs_read (ds_fs (fst (deliver_image (rx_delivery toy_env) toy_image toy_downloads))) (''/'', [''dl'', ''a.png'']) = Some [9]"
proof -
  have "fs_read (ds_fs toy_downloads) (''/'', [''dl'', ''a.png'']) = Some [9]"
    by (simp add: toy_downloads_def fs_read_def dict_get_def)
  moreover have "dv_image_delivery_mode (rx_delivery toy_env) \<noteq> ''clipboard''" by (simp add: toy_env_def)
  ultimately show ?thesis
    using delivered_image_keeps_files [of "rx_delivery toy_env" toy_downloads "(''/'', [''dl'', ''a.png''])" toy_image] by simp
qed

lemma session_ids_distinct_witness:
  "snd (next_session_id ((next_counter ^^ 0) (read_persisted (Some 255)))) \<noteq>
   snd (next_session_id ((next_counter ^^ 254) (read_persisted (Some 255))))"
  by (rule session_ids_distinct) simp_all

end
