(* ===== verification/FeatureFlags.thy ===== *)
theory FeatureFlags
  imports PayloadEncryption PyFiles Complex_Main "HOL-Library.Sublist"
begin

text \<open>
  The feature flags (\<^verbatim>\<open>src/pc_common/model/feature_flags.py\<close>) and the configuration that
  holds their defaults (\<^verbatim>\<open>dts_config.py\<close>): the request with its retries, the cache on disk,
  the extraction of each flag from the payload, and the values of a session.

  Floating point numbers are read by a parameter (\<open>float_of\<close>, \<open>None\<close> for a \<^verbatim>\<open>ValueError\<close>);
  those that are numbers are rationals.  Of a whole number only its clamp to the unit interval is
  used, so the rounding of \<^verbatim>\<open>float\<close> does not matter; a number beyond the range of a double
  raises.  The text of the cache on disk is left out: \<^verbatim>\<open>json.load\<close> reads back what
  \<^verbatim>\<open>json.dump\<close> wrote.
\<close>

section \<open>Values\<close>

datatype pyfloat = PyNan | PyNum rat | PyInf | PyNegInf

type_synonym float_reader = "string \<Rightarrow> pyfloat option"

text \<open>\<^verbatim>\<open>max(0.0, min(f, 1.0))\<close>: a comparison with NaN is false.\<close>

definition clamp_rate :: "pyfloat \<Rightarrow> pyfloat" where
  "clamp_rate f =
     (case f of
        PyNan \<Rightarrow> PyNum 0
      | PyInf \<Rightarrow> PyNum 1
      | PyNegInf \<Rightarrow> PyNum 0
      | PyNum q \<Rightarrow> PyNum (max 0 (min q 1)))"

definition float_truth :: "pyfloat \<Rightarrow> bool" where
  "float_truth f \<longleftrightarrow> f \<noteq> PyNum 0"

text \<open>The least whole number that \<^verbatim>\<open>float\<close> refuses: it would round to two to the power of 1024.\<close>

definition FLOAT_LIMIT :: int where "FLOAT_LIMIT = 2 ^ 1024 - 2 ^ 970"

definition float_of_int :: "int \<Rightarrow> pyfloat res" where
  "float_of_int n =
     (if FLOAT_LIMIT \<le> \<bar>n\<bar> then Inl (OverflowError ''int too large to convert to float'') else Inr (PyNum (of_int n)))"

text \<open>A float of a payload is its text, which a JSON parser has read before.\<close>

definition json_float :: "float_reader \<Rightarrow> string \<Rightarrow> pyfloat" where
  "json_float fr t = (case fr t of Some f \<Rightarrow> f | None \<Rightarrow> PyNan)"

definition true_words :: "string list" where "true_words = [''1'', ''true'', ''yes'', ''on'']"
definition false_words :: "string list" where "false_words = [''0'', ''false'', ''no'', ''off'']"

definition to_optional_bool :: "float_reader \<Rightarrow> json \<Rightarrow> bool option" where
  "to_optional_bool fr value =
     (case value of
        JBool b \<Rightarrow> Some b
      | JInt n \<Rightarrow> Some (n \<noteq> 0)
      | JFloat t \<Rightarrow> Some (float_truth (json_float fr t))
      | JStr s \<Rightarrow>
          (let normalized = py_lower (py_strip s)
           in if normalized \<in> set true_words then Some True
              else if normalized \<in> set false_words then Some False else None)
      | _ \<Rightarrow> None)"

definition to_bool :: "float_reader \<Rightarrow> json \<Rightarrow> bool" where
  "to_bool fr value =
     (case value of
        JBool b \<Rightarrow> b
      | JInt n \<Rightarrow> n \<noteq> 0
      | JFloat t \<Rightarrow> float_truth (json_float fr t)
      | JStr s \<Rightarrow> py_lower (py_strip s) \<in> set true_words
      | _ \<Rightarrow> False)"

definition to_sample_rate :: "float_reader \<Rightarrow> json \<Rightarrow> pyfloat option res" where
  "to_sample_rate fr value =
     (case value of
        JBool b \<Rightarrow> Inr (Some (PyNum (if b then 1 else 0)))
      | JInt n \<Rightarrow> bindE (float_of_int n) (\<lambda>f. Inr (Some (clamp_rate f)))
      | JFloat t \<Rightarrow> Inr (Some (clamp_rate (json_float fr t)))
      | JStr s \<Rightarrow> Inr (map_option clamp_rate (fr (py_strip s)))
      | _ \<Rightarrow> Inr None)"

section \<open>Versions\<close>

text \<open>
  \<^verbatim>\<open>str.isdigit\<close> also holds of the three superscript digits of Latin-1, which \<^verbatim>\<open>int\<close>
  does not read; \<^verbatim>\<open>int\<close> refuses more than 4300 digits.
\<close>

definition py_isdigit :: "char \<Rightarrow> bool" where
  "py_isdigit c \<longleftrightarrow> is_ascii_digit c \<or> c \<in> {CHR 0xB2, CHR 0xB3, CHR 0xB9}"

definition INT_MAX_STR_DIGITS :: nat where "INT_MAX_STR_DIGITS = 4300"

definition py_int_digits :: "string \<Rightarrow> nat res" where
  "py_int_digits s =
     (if \<not> list_all is_ascii_digit s then Inl (ValueError (''invalid literal for int() with base 10: '' @ quoted s))
      else if INT_MAX_STR_DIGITS < length s then Inl (ValueError ''Exceeds the limit (4300 digits) for integer string conversion'')
      else Inr (dec_value s))"

text \<open>The parts up to the first without a leading digit (\<open>None\<close>); an earlier part may raise.\<close>

fun parse_parts :: "string list \<Rightarrow> nat list \<Rightarrow> nat list option res" where
  "parse_parts [] parsed_parts = Inr (Some parsed_parts)"
| "parse_parts (part # parts) parsed_parts =
     (let numeric_prefix = takeWhile py_isdigit part
      in if numeric_prefix = [] then Inr None
         else bindE (py_int_digits numeric_prefix) (\<lambda>n. parse_parts parts (parsed_parts @ [n])))"

fun drop_trailing_zeros :: "nat list \<Rightarrow> nat list" where
  "drop_trailing_zeros xs = (if 1 < length xs \<and> last xs = 0 then drop_trailing_zeros (butlast xs) else xs)"

declare drop_trailing_zeros.simps [simp del]

definition parse_semantic_version :: "string \<Rightarrow> nat list option res" where
  "parse_semantic_version version =
     (let normalized_version = py_strip version
      in if normalized_version = [] then Inr None
         else bindE (parse_parts (split_char (CHR ''.'') normalized_version) []) (\<lambda>r.
                Inr (map_option drop_trailing_zeros r)))"

text \<open>Tuples of equal length are compared at the first difference.\<close>

fun tuple_less :: "nat list \<Rightarrow> nat list \<Rightarrow> bool" where
  "tuple_less (x # xs) (y # ys) \<longleftrightarrow> x < y \<or> x = y \<and> tuple_less xs ys"
| "tuple_less _ _ \<longleftrightarrow> False"

definition pad_version :: "nat \<Rightarrow> nat list \<Rightarrow> nat list" where
  "pad_version n xs = xs @ replicate (n - length xs) 0"

definition is_version_older :: "string \<Rightarrow> string \<Rightarrow> bool res" where
  "is_version_older current_version minimum_version =
     bindE (parse_semantic_version current_version) (\<lambda>current.
     bindE (parse_semantic_version minimum_version) (\<lambda>minimum. Inr
       (case (current, minimum) of
          (Some c, Some m) \<Rightarrow>
            (let max_length = max (length c) (length m)
             in tuple_less (pad_version max_length c) (pad_version max_length m))
        | _ \<Rightarrow> False)))"

section \<open>Extraction\<close>

record version_flag =
  vf_min_version :: string
  vf_required :: bool

datatype flag_value = FlagBool bool | FlagRate pyfloat | FlagVersion version_flag

datatype feature = MobileFolder | Encryption | StrictSecurity | InstantShare | SampleRate | VersionFeature

definition remote_features :: "feature list" where
  "remote_features = [MobileFolder, Encryption, StrictSecurity, InstantShare, SampleRate, VersionFeature]"

definition sub_object :: "payload \<Rightarrow> string \<Rightarrow> payload option" where
  "sub_object p key = (case dict_get p key of Some (JObj q) \<Rightarrow> Some q | _ \<Rightarrow> None)"

definition extract_enabled :: "float_reader \<Rightarrow> string \<Rightarrow> payload \<Rightarrow> bool option" where
  "extract_enabled fr section p =
     Option.bind (sub_object p section) (\<lambda>q. map_option (to_bool fr) (dict_get q ''enabled''))"

definition extract_root_trace_sample_rate :: "float_reader \<Rightarrow> payload \<Rightarrow> pyfloat option res" where
  "extract_root_trace_sample_rate fr p =
     (case Option.bind (Option.bind (sub_object p ''desktop'') (\<lambda>q. sub_object q ''telemetry''))
             (\<lambda>q. dict_get q ''root_trace_sample_rate'') of
        None \<Rightarrow> Inr None
      | Some v \<Rightarrow> to_sample_rate fr v)"

definition extract_version_flag :: "float_reader \<Rightarrow> payload \<Rightarrow> version_flag option res" where
  "extract_version_flag fr p =
     (case sub_object p ''version'' of
        None \<Rightarrow> Inr None
      | Some q \<Rightarrow>
          (case dict_get q ''min'' of
             Some (JStr minimum_version) \<Rightarrow>
               (let normalized = py_strip minimum_version
                in if normalized = [] then Inr None
                   else bindE (parse_semantic_version normalized) (\<lambda>parsed.
                     if parsed = None then Inr None
                     else Inr (Option.bind (Option.bind (dict_get q ''required'') (to_optional_bool fr))
                                 (\<lambda>required. Some \<lparr>vf_min_version = normalized, vf_required = required\<rparr>))))
           | _ \<Rightarrow> Inr None))"

fun feature_section :: "feature \<Rightarrow> string" where
  "feature_section MobileFolder = ''mobile_folder''"
| "feature_section Encryption = ''encryption''"
| "feature_section StrictSecurity = ''strict_security''"
| "feature_section InstantShare = ''instant_share''"
| "feature_section SampleRate = ''desktop_root_trace_sample_rate''"
| "feature_section VersionFeature = ''version''"

fun extract_feature :: "float_reader \<Rightarrow> feature \<Rightarrow> payload \<Rightarrow> flag_value option res" where
  "extract_feature fr SampleRate p = bindE (extract_root_trace_sample_rate fr p) (\<lambda>r. Inr (map_option FlagRate r))"
| "extract_feature fr VersionFeature p = bindE (extract_version_flag fr p) (\<lambda>r. Inr (map_option FlagVersion r))"
| "extract_feature fr f p = Inr (map_option FlagBool (extract_enabled fr (feature_section f) p))"

section \<open>Configuration\<close>

text \<open>
  The variables of the build (\<open>None\<close> where the resource is missing or unreadable), and the file of
  the user, which is read anew at every call.
\<close>

record config_sources =
  cf_build_vars :: "json option"
  cf_config_file :: "byte list option"

definition read_build_vars :: "config_sources \<Rightarrow> payload" where
  "read_build_vars cs = (case cf_build_vars cs of Some (JObj p) \<Rightarrow> p | _ \<Rightarrow> [])"

definition dict_update :: "(string, 'v) dict \<Rightarrow> (string, 'v) dict \<Rightarrow> (string, 'v) dict" where
  "dict_update d e = fold (\<lambda>(k, v) d. dict_set d k v) e d"

definition get_dts_config :: "config_sources \<Rightarrow> payload res" where
  "get_dts_config cs =
     (case cf_config_file cs of
        None \<Rightarrow> Inr (read_build_vars cs)
      | Some bs \<Rightarrow>
          (case Option.bind (utf8_decode bs) json_loads of
             None \<Rightarrow> Inl (ValueError ''config.json is not valid JSON'')
           | Some (JObj q) \<Rightarrow> Inr (dict_update (read_build_vars cs) q)
           | Some _ \<Rightarrow> Inr (read_build_vars cs)))"

definition config_as_bool :: "float_reader \<Rightarrow> json \<Rightarrow> bool \<Rightarrow> bool" where
  "config_as_bool fr value dflt = (case to_optional_bool fr value of Some b \<Rightarrow> b | None \<Rightarrow> dflt)"

definition feature_enabled_default :: "float_reader \<Rightarrow> config_sources \<Rightarrow> string \<Rightarrow> bool \<Rightarrow> bool res" where
  "feature_enabled_default fr cs section dflt =
     bindE (get_dts_config cs) (\<lambda>config. Inr
       (case Option.bind (sub_object config section) (\<lambda>q. dict_get q ''enabled'') of
          Some v \<Rightarrow> config_as_bool fr v dflt
        | None \<Rightarrow>
            (case dict_get config (section @ ''.enabled'') of
               Some v \<Rightarrow> config_as_bool fr v dflt
             | None \<Rightarrow> dflt)))"

definition is_mobile_folder_feature_enabled :: "float_reader \<Rightarrow> config_sources \<Rightarrow> bool res" where
  "is_mobile_folder_feature_enabled fr cs = feature_enabled_default fr cs ''mobile_folder'' True"

definition is_encryption_feature_enabled :: "float_reader \<Rightarrow> config_sources \<Rightarrow> bool res" where
  "is_encryption_feature_enabled fr cs = feature_enabled_default fr cs ''encryption'' True"

definition is_strict_security_feature_enabled :: "float_reader \<Rightarrow> config_sources \<Rightarrow> bool res" where
  "is_strict_security_feature_enabled fr cs = feature_enabled_default fr cs ''strict_security'' False"

definition is_instant_share_feature_enabled :: "float_reader \<Rightarrow> config_sources \<Rightarrow> bool res" where
  "is_instant_share_feature_enabled fr cs = feature_enabled_default fr cs ''instant_share'' False"

definition DEFAULT_ROOT_TRACE_SAMPLE_RATE :: pyfloat where
  "DEFAULT_ROOT_TRACE_SAMPLE_RATE = PyNum (1 / 10)"

fun default_value :: "float_reader \<Rightarrow> config_sources \<Rightarrow> feature \<Rightarrow> flag_value option res" where
  "default_value fr cs MobileFolder = bindE (is_mobile_folder_feature_enabled fr cs) (\<lambda>b. Inr (Some (FlagBool b)))"
| "default_value fr cs Encryption = bindE (is_encryption_feature_enabled fr cs) (\<lambda>b. Inr (Some (FlagBool b)))"
| "default_value fr cs StrictSecurity = bindE (is_strict_security_feature_enabled fr cs) (\<lambda>b. Inr (Some (FlagBool b)))"
| "default_value fr cs InstantShare = bindE (is_instant_share_feature_enabled fr cs) (\<lambda>b. Inr (Some (FlagBool b)))"
| "default_value fr cs SampleRate = Inr (Some (FlagRate DEFAULT_ROOT_TRACE_SAMPLE_RATE))"
| "default_value fr cs VersionFeature = Inr None"

section \<open>The request\<close>

text \<open>
  Why an \<^verbatim>\<open>URLError\<close> happened, and what one attempt yields.  The numbers of the errors
  are those of the platform; \<open>ENOENT\<close> is the same everywhere.
\<close>

record errno_numbers =
  en_host_unreachable :: int
  en_net_unreachable :: int
  en_timed_out :: int
  en_connection_reset :: int

record url_os_error =
  uo_type_name :: string
  uo_errno :: "int option"
  uo_filename :: string
  uo_text :: string

datatype url_reason =
    ReasonTimeout url_os_error
  | ReasonGai url_os_error
  | ReasonOs url_os_error
  | ReasonText string
  | ReasonOther string

datatype attempt =
    Answered "int option" "byte list"
  | HttpFailed int
  | UrlFailed url_reason
  | OtherFailure pyexn

definition temporary_markers :: "string list" where
  "temporary_markers = [''temporary failure in name resolution'', ''name or service not known'',
     ''nodename nor servname provided'', ''timed out'', ''network is unreachable'', ''no route to host'',
     ''no such file or directory'']"

definition is_temporary_url_error :: "errno_numbers \<Rightarrow> url_reason \<Rightarrow> bool" where
  "is_temporary_url_error en reason \<longleftrightarrow>
     (case reason of
        ReasonTimeout _ \<Rightarrow> True
      | ReasonGai _ \<Rightarrow> True
      | ReasonOs e \<Rightarrow> uo_errno e \<in> Some ` {en_host_unreachable en, en_net_unreachable en, en_timed_out en,
            en_connection_reset en, ENOENT}
      | ReasonText t \<Rightarrow> list_ex (\<lambda>marker. sublist marker (py_lower t)) temporary_markers
      | ReasonOther _ \<Rightarrow> False)"

definition format_os_reason :: "url_os_error \<Rightarrow> string" where
  "format_os_reason e =
     (let number = (case uo_errno e of None \<Rightarrow> ''None'' | Some n \<Rightarrow> str_int n)
      in if uo_filename e \<noteq> []
         then uo_type_name e @ ''(errno='' @ number @ '', filename='' @ uo_filename e @ ''): '' @ uo_text e
         else uo_type_name e @ ''(errno='' @ number @ ''): '' @ uo_text e)"

definition format_url_error_reason :: "url_reason \<Rightarrow> string" where
  "format_url_error_reason reason =
     (case reason of
        ReasonTimeout e \<Rightarrow> format_os_reason e
      | ReasonGai e \<Rightarrow> format_os_reason e
      | ReasonOs e \<Rightarrow> format_os_reason e
      | ReasonText t \<Rightarrow> t
      | ReasonOther t \<Rightarrow> t)"

definition FEATURE_FLAGS_MAX_RETRIES :: nat where "FEATURE_FLAGS_MAX_RETRIES = 3"

text \<open>In milliseconds.\<close>

definition FEATURE_FLAGS_RETRY_DELAYS :: "nat list" where "FEATURE_FLAGS_RETRY_DELAYS = [500, 1000, 2000]"

definition retry_delay :: "nat \<Rightarrow> nat" where
  "retry_delay retry_attempt =
     FEATURE_FLAGS_RETRY_DELAYS ! min (retry_attempt - 1) (length FEATURE_FLAGS_RETRY_DELAYS - 1)"

text \<open>The loop over the numbers of the attempts, with the delays slept so far; no body ends it early.\<close>

fun fetch_attempts ::
    "errno_numbers \<Rightarrow> (nat \<Rightarrow> attempt) \<Rightarrow> nat list \<Rightarrow> nat list \<Rightarrow> nat list \<times> byte list option res" where
  "fetch_attempts en tries [] delays = (delays, Inr None)"
| "fetch_attempts en tries (n # ns) delays =
     (case tries n of
        Answered status_code body \<Rightarrow>
          if status_code \<noteq> None \<and> status_code \<noteq> Some 200
          then (delays, Inl (RuntimeError (''Feature flag request failed with HTTP '' @ str_int (the status_code) @ ''.'')))
          else (delays, Inr (Some body))
      | HttpFailed code \<Rightarrow> (delays, Inl (RuntimeError (''Feature flag request failed with HTTP '' @ str_int code @ ''.'')))
      | UrlFailed reason \<Rightarrow>
          if is_temporary_url_error en reason \<and> n \<le> FEATURE_FLAGS_MAX_RETRIES
          then fetch_attempts en tries ns (delays @ [retry_delay n])
          else (delays, Inl (RuntimeError (''Feature flag request failed: '' @ format_url_error_reason reason)))
      | OtherFailure e \<Rightarrow> (delays, Inl e))"

definition parse_flags_body :: "byte list option \<Rightarrow> payload res" where
  "parse_flags_body body =
     (case body of
        None \<Rightarrow> Inl (RuntimeError ''Feature flag request exceeded retry limit.'')
      | Some bs \<Rightarrow>
          (case Option.bind (utf8_decode bs) json_loads of
             None \<Rightarrow> Inl (RuntimeError ''Feature flag response is not valid JSON.'')
           | Some (JObj p) \<Rightarrow> Inr p
           | Some _ \<Rightarrow> Inl (RuntimeError ''Feature flag response must be a JSON object.'')))"

definition fetch_feature_flags_payload :: "errno_numbers \<Rightarrow> (nat \<Rightarrow> attempt) \<Rightarrow> nat list \<times> payload res" where
  "fetch_feature_flags_payload en tries =
     (case fetch_attempts en tries [1..<FEATURE_FLAGS_MAX_RETRIES + 2] [] of
        (delays, r) \<Rightarrow> (delays, bindE r parse_flags_body))"

section \<open>The store\<close>

text \<open>The file of the cache: absent, not readable as JSON, or holding a value.\<close>

datatype flag_cache = NoCache | BadCache | CacheHolds json

datatype save_outcome = Saved | OpenFailed | WriteFailed

record flag_store =
  fl_values :: "(feature, flag_value option) dict"
  fl_refreshing :: bool
  fl_cache :: flag_cache

definition load_cached_flags :: "flag_cache \<Rightarrow> payload option" where
  "load_cached_flags c = (case c of CacheHolds (JObj p) \<Rightarrow> Some p | _ \<Rightarrow> None)"

text \<open>Opening the file empties it, so a write that fails leaves no JSON.\<close>

definition save_cached_flags :: "save_outcome \<Rightarrow> payload \<Rightarrow> flag_cache \<Rightarrow> flag_cache" where
  "save_cached_flags outcome p c =
     (case outcome of Saved \<Rightarrow> CacheHolds (JObj p) | OpenFailed \<Rightarrow> c | WriteFailed \<Rightarrow> BadCache)"

definition refresh_async :: "flag_store \<Rightarrow> flag_store \<times> bool" where
  "refresh_async st = (if fl_refreshing st then (st, False) else (st\<lparr>fl_refreshing := True\<rparr>, True))"

text \<open>A remote value replaces no value but \<open>None\<close>.\<close>

definition merge_remote :: "(feature \<times> flag_value option) list \<Rightarrow> flag_store \<Rightarrow> flag_store" where
  "merge_remote remote st =
     st\<lparr>fl_values := fold (\<lambda>(f, r) vs.
         case r of
           None \<Rightarrow> vs
         | Some v \<Rightarrow> if Option.bind (dict_get vs f) id = None then dict_set vs f (Some v) else vs)
       remote (fl_values st)\<rparr>"

definition extract_all :: "float_reader \<Rightarrow> payload \<Rightarrow> (feature \<times> flag_value option) list res" where
  "extract_all fr p = mapE (\<lambda>f. bindE (extract_feature fr f p) (\<lambda>r. Inr (f, r))) remote_features"

text \<open>What leaves the worker is printed by the thread that dies of it; the flag is reset in any case.\<close>

definition refresh_worker ::
    "float_reader \<Rightarrow> errno_numbers \<Rightarrow> (nat \<Rightarrow> attempt) \<Rightarrow> save_outcome \<Rightarrow> flag_store \<Rightarrow> flag_store \<times> unit res" where
  "refresh_worker fr en tries outcome st =
     (let finish = (\<lambda>st r. (st\<lparr>fl_refreshing := False\<rparr>,
              case r of Inl (RuntimeError _) \<Rightarrow> Inr () | Inl e \<Rightarrow> Inl e | Inr _ \<Rightarrow> Inr ()))
      in case snd (fetch_feature_flags_payload en tries) of
           Inl e \<Rightarrow> finish st (Inl e)
         | Inr p \<Rightarrow>
             (let st1 = st\<lparr>fl_cache := save_cached_flags outcome p (fl_cache st)\<rparr>
              in case extract_all fr p of
                   Inl e \<Rightarrow> finish st1 (Inl e)
                 | Inr remote \<Rightarrow> finish (merge_remote remote st1) (Inr ())))"

definition resolve_value ::
    "float_reader \<Rightarrow> config_sources \<Rightarrow> feature \<Rightarrow> flag_store \<Rightarrow> flag_store \<times> flag_value option res" where
  "resolve_value fr cs f st =
     (case dict_get (fl_values st) f of
        Some v \<Rightarrow> (st, Inr v)
      | None \<Rightarrow>
          (case (case load_cached_flags (fl_cache st) of None \<Rightarrow> Inr None | Some p \<Rightarrow> extract_feature fr f p) of
             Inl e \<Rightarrow> (st, Inl e)
           | Inr (Some v) \<Rightarrow> (st\<lparr>fl_values := dict_set (fl_values st) f (Some v)\<rparr>, Inr (Some v))
           | Inr None \<Rightarrow>
               (case default_value fr cs f of
                  Inl e \<Rightarrow> (st, Inl e)
                | Inr d \<Rightarrow> (st\<lparr>fl_values := dict_set (fl_values st) f d\<rparr>, Inr d))))"

text \<open>\<^verbatim>\<open>bool(value)\<close> and \<^verbatim>\<open>float(value)\<close> of a value.\<close>

definition flag_truth :: "flag_value option \<Rightarrow> bool" where
  "flag_truth v =
     (case v of None \<Rightarrow> False | Some (FlagBool b) \<Rightarrow> b | Some (FlagRate f) \<Rightarrow> float_truth f | Some (FlagVersion _) \<Rightarrow> True)"

definition is_feature_enabled ::
    "float_reader \<Rightarrow> config_sources \<Rightarrow> feature \<Rightarrow> flag_store \<Rightarrow> flag_store \<times> bool res" where
  "is_feature_enabled fr cs f st =
     (case resolve_value fr cs f st of (st1, r) \<Rightarrow> (st1, bindE r (\<lambda>v. Inr (flag_truth v))))"

definition get_desktop_root_trace_sample_rate ::
    "float_reader \<Rightarrow> config_sources \<Rightarrow> flag_store \<Rightarrow> flag_store \<times> pyfloat res" where
  "get_desktop_root_trace_sample_rate fr cs st =
     (case resolve_value fr cs SampleRate st of
        (st1, r) \<Rightarrow> (st1, bindE r (\<lambda>v. case v of
            Some (FlagRate f) \<Rightarrow> Inr f
          | Some (FlagBool b) \<Rightarrow> Inr (PyNum (if b then 1 else 0))
          | _ \<Rightarrow> Inl (TypeError ''float() argument must be a string or a real number''))))"

definition get_version_feature_flag ::
    "float_reader \<Rightarrow> config_sources \<Rightarrow> flag_store \<Rightarrow> flag_store \<times> version_flag option res" where
  "get_version_feature_flag fr cs st =
     (case resolve_value fr cs VersionFeature st of
        (st1, r) \<Rightarrow> (st1, bindE r (\<lambda>v. Inr (case v of Some (FlagVersion f) \<Rightarrow> Some f | _ \<Rightarrow> None))))"

definition get_version_update_requirement ::
    "float_reader \<Rightarrow> config_sources \<Rightarrow> string \<Rightarrow> flag_store \<Rightarrow> flag_store \<times> version_flag option res" where
  "get_version_update_requirement fr cs current_version st =
     (case get_version_feature_flag fr cs st of
        (st1, r) \<Rightarrow> (st1, bindE r (\<lambda>v.
           case v of
             None \<Rightarrow> Inr None
           | Some f \<Rightarrow> bindE (is_version_older current_version (vf_min_version f)) (\<lambda>older.
               Inr (if older then Some f else None)))))"

end
