(* ===== verification/FeatureFlagsProps.thy ===== *)
theory FeatureFlagsProps
  imports FeatureFlags
begin

text \<open>
  Versions are compared by a linear order; a flag that was read keeps its value and its type; the
  request ends after at most four attempts; and a version number that \<^verbatim>\<open>int\<close> refuses
  makes the flag of the version raise in this session and in every later one.
\<close>

section \<open>The order of versions\<close>

definition part_at :: "nat list \<Rightarrow> nat \<Rightarrow> nat" where
  "part_at xs i = (if i < length xs then xs ! i else 0)"

lemma part_at_simps [simp]: "part_at [] i = 0" "part_at (x # xs) 0 = x" "part_at (x # xs) (Suc i) = part_at xs i"
  by (simp_all add: part_at_def)

text \<open>The first place where the parts differ decides, a missing part being zero.\<close>

definition version_less :: "nat list \<Rightarrow> nat list \<Rightarrow> bool" where
  "version_less xs ys \<longleftrightarrow> (\<exists>i. (\<forall>j<i. part_at xs j = part_at ys j) \<and> part_at xs i < part_at ys i)"

lemma all_less_Suc_0: "(\<forall>j<Suc i. P j) \<longleftrightarrow> P 0 \<and> (\<forall>j<i. P (Suc j))"
  using less_Suc_eq_0_disj by auto

lemma version_less_Cons: "version_less (x # xs) (y # ys) \<longleftrightarrow> x < y \<or> x = y \<and> version_less xs ys"
proof
  assume "version_less (x # xs) (y # ys)"
  then obtain i where i: "\<forall>j<i. part_at (x # xs) j = part_at (y # ys) j" "part_at (x # xs) i < part_at (y # ys) i"
    unfolding version_less_def by blast
  show "x < y \<or> x = y \<and> version_less xs ys"
  proof (cases i)
    case (Suc k)
    with i show ?thesis by (auto simp: version_less_def all_less_Suc_0)
  qed (use i in simp)
next
  assume "x < y \<or> x = y \<and> version_less xs ys"
  then show "version_less (x # xs) (y # ys)"
  proof
    assume "x < y"
    then show ?thesis unfolding version_less_def by (intro exI [of _ 0]) simp
  next
    assume "x = y \<and> version_less xs ys"
    then obtain i where "x = y" "\<forall>j<i. part_at xs j = part_at ys j" "part_at xs i < part_at ys i"
      unfolding version_less_def by blast
    then show ?thesis unfolding version_less_def by (intro exI [of _ "Suc i"]) (simp add: all_less_Suc_0)
  qed
qed

lemma tuple_less_is_version_less: "length xs = length ys \<Longrightarrow> tuple_less xs ys = version_less xs ys"
proof (induction xs ys rule: list_induct2)
  case Nil
  then show ?case by (simp add: version_less_def)
qed (simp add: version_less_Cons)

lemma part_at_pad [simp]: "part_at (pad_version n xs) i = part_at xs i"
  by (auto simp: part_at_def pad_version_def nth_append)

lemma pad_less: "version_less (pad_version n xs) (pad_version m ys) = version_less xs ys"
  by (simp add: version_less_def)

lemma padded_tuples: "tuple_less (pad_version (max (length xs) (length ys)) xs) (pad_version (max (length xs) (length ys)) ys) = version_less xs ys"
proof -
  have "length (pad_version (max (length xs) (length ys)) xs) = length (pad_version (max (length xs) (length ys)) ys)"
    by (simp add: pad_version_def)
  from tuple_less_is_version_less [OF this] show ?thesis by (simp add: pad_less)
qed

definition normal_version :: "nat list \<Rightarrow> bool" where
  "normal_version xs \<longleftrightarrow> xs \<noteq> [] \<and> (1 < length xs \<longrightarrow> last xs \<noteq> 0)"

lemma drop_trailing_normal: "xs \<noteq> [] \<Longrightarrow> normal_version (drop_trailing_zeros xs)"
proof (induction xs rule: drop_trailing_zeros.induct)
  case (1 xs)
  show ?case
  proof (cases "1 < length xs \<and> last xs = 0")
    case True
    then have "butlast xs \<noteq> []" by (cases xs) auto
    with 1 True show ?thesis by (subst drop_trailing_zeros.simps) simp
  next
    case False
    with 1 show ?thesis by (subst drop_trailing_zeros.simps) (auto simp: normal_version_def)
  qed
qed

lemma same_parts:
  assumes "normal_version xs" "normal_version ys" "\<And>i. part_at xs i = part_at ys i"
  shows "xs = ys"
proof -
  have le: "length b \<le> length a"
    if "normal_version a" "normal_version b" "\<And>i. part_at a i = part_at b i" for a b
  proof (rule ccontr)
    assume "\<not> length b \<le> length a"
    then have long: "length a < length b" by simp
    then have "\<not> length b - 1 < length a" by linarith
    then have "part_at a (length b - 1) = 0" by (simp only: part_at_def if_False)
    then have "last b = 0" using that(3) [of "length b - 1"] that(2) long
      by (simp add: part_at_def normal_version_def last_conv_nth)
    moreover have "0 < length a" using that(1) by (simp add: normal_version_def)
    then have "1 < length b" using long by linarith
    ultimately show False using that(2) by (simp add: normal_version_def)
  qed
  have "length xs = length ys" using le [OF assms] le [OF assms(2,1)] assms(3) by (simp add: le_antisym)
  moreover have "xs ! i = ys ! i" if "i < length xs" for i
    using assms(3) [of i] that \<open>length xs = length ys\<close> by (simp add: part_at_def)
  ultimately show ?thesis by (simp add: list_eq_iff_nth_eq)
qed

lemma version_less_trans: "version_less xs ys \<Longrightarrow> version_less ys zs \<Longrightarrow> version_less xs zs"
proof -
  assume "version_less xs ys" "version_less ys zs"
  then obtain i k where i: "\<forall>j<i. part_at xs j = part_at ys j" "part_at xs i < part_at ys i"
    and k: "\<forall>j<k. part_at ys j = part_at zs j" "part_at ys k < part_at zs k" unfolding version_less_def by blast
  show ?thesis
  proof (cases i k rule: linorder_cases)
    case less
    with i k show ?thesis unfolding version_less_def by (intro exI [of _ i]) auto
  next
    case equal
    with i k show ?thesis unfolding version_less_def by (intro exI [of _ i]) auto
  next
    case greater
    with i k show ?thesis unfolding version_less_def by (intro exI [of _ k]) auto
  qed
qed

lemma version_less_total: "\<not> version_less xs ys \<Longrightarrow> \<not> version_less ys xs \<Longrightarrow> part_at xs i = part_at ys i"
proof (induction i rule: less_induct)
  case (less i)
  then have "\<forall>j<i. part_at xs j = part_at ys j" by blast
  with less.prems show ?case unfolding version_less_def by (metis linorder_neqE_nat)
qed

typedef sem_version = "{xs :: nat list. normal_version xs}"
  by (rule exI [of _ "[0]"]) (simp add: normal_version_def)

setup_lifting type_definition_sem_version

instantiation sem_version :: linorder
begin

lift_definition less_sem_version :: "sem_version \<Rightarrow> sem_version \<Rightarrow> bool" is version_less .

definition less_eq_sem_version :: "sem_version \<Rightarrow> sem_version \<Rightarrow> bool" where
  "less_eq_sem_version v w \<longleftrightarrow> v < w \<or> v = w"

instance
proof
  fix u v w :: sem_version
  have irrefl: "\<not> v < v" for v :: sem_version by transfer (simp add: version_less_def)
  have trans: "u < w" if "u < v" "v < w" for u v w :: sem_version
    using that by transfer (rule version_less_trans)
  show "v < w \<longleftrightarrow> v \<le> w \<and> \<not> w \<le> v"
    using irrefl trans [of v w v] by (auto simp: less_eq_sem_version_def)
  show "v \<le> v" by (simp add: less_eq_sem_version_def)
  show "u \<le> w" if "u \<le> v" "v \<le> w" using that trans by (auto simp: less_eq_sem_version_def)
  show "v = w" if "v \<le> w" "w \<le> v" using that irrefl trans [of v w v] by (auto simp: less_eq_sem_version_def)
  show "v \<le> w \<or> w \<le> v"
    unfolding less_eq_sem_version_def by transfer (metis same_parts version_less_total)
qed

end

lift_definition version_of_parts :: "nat list \<Rightarrow> sem_version" is
  "\<lambda>xs. if normal_version xs then xs else [0]"
  by (simp add: normal_version_def)

lemma parse_parts_nonempty: "parse_parts ps acc = Inr (Some xs) \<Longrightarrow> acc \<noteq> [] \<or> ps \<noteq> [] \<Longrightarrow> xs \<noteq> []"
  by (induction ps acc rule: parse_parts.induct) (auto simp: Let_def exn_simps split: if_splits)

lemma split_nonempty: "split_char c s \<noteq> []"
  by (induction c s rule: split_char.induct) (auto simp: Let_def split: list.splits)

lemma parsed_normal: "parse_semantic_version v = Inr (Some xs) \<Longrightarrow> normal_version xs"
  using parse_parts_nonempty split_nonempty drop_trailing_normal
  by (auto simp: parse_semantic_version_def Let_def exn_simps split: if_splits)

text \<open>
  C38. The comparison of two version texts is that of a linear order on versions without trailing zeros:
  no version is older than itself, of two different ones exactly one is older, and what is older
  than an older one is older.
\<close>
theorem older_is_linear_order:
  assumes "parse_semantic_version v = Inr (Some xs)" and "parse_semantic_version w = Inr (Some ys)"
  shows "is_version_older v w = Inr (version_of_parts xs < version_of_parts ys) \<and>
     (version_of_parts xs = version_of_parts ys \<longleftrightarrow> xs = ys)"
proof -
  note normal = parsed_normal [OF assms(1)] parsed_normal [OF assms(2)]
  from normal have "version_of_parts xs < version_of_parts ys \<longleftrightarrow> version_less xs ys"
    by transfer simp
  moreover from normal have "version_of_parts xs = version_of_parts ys \<longleftrightarrow> xs = ys" by transfer simp
  ultimately show ?thesis by (simp add: is_version_older_def assms padded_tuples Let_def)
qed

section \<open>The request\<close>

lemma fetch_delays:
  assumes "fetch_attempts en tries ns delays = (ds, r)"
  shows "\<exists>k. ds = delays @ map retry_delay (take k ns) \<and> (\<forall>n\<in>set (take k ns). n \<le> FEATURE_FLAGS_MAX_RETRIES) \<and>
     (r = Inr None \<longrightarrow> (\<forall>n\<in>set ns. n \<le> FEATURE_FLAGS_MAX_RETRIES))"
  using assms
proof (induction en tries ns delays rule: fetch_attempts.induct)
  case (2 en tries n ns delays)
  show ?case
  proof (cases "\<exists>reason. tries n = UrlFailed reason \<and> is_temporary_url_error en reason \<and> n \<le> FEATURE_FLAGS_MAX_RETRIES")
    case True
    then obtain reason where t: "tries n = UrlFailed reason" "is_temporary_url_error en reason" "n \<le> FEATURE_FLAGS_MAX_RETRIES"
      by blast
    with "2.IH" [OF t(1)] "2.prems" obtain k where
      "ds = (delays @ [retry_delay n]) @ map retry_delay (take k ns)" "\<forall>n\<in>set (take k ns). n \<le> FEATURE_FLAGS_MAX_RETRIES"
      "r = Inr None \<longrightarrow> (\<forall>n\<in>set ns. n \<le> FEATURE_FLAGS_MAX_RETRIES)" by auto
    with t show ?thesis by (intro exI [of _ "Suc k"]) auto
  next
    case False
    with "2.prems" have "ds = delays \<and> r \<noteq> Inr None"
      by (auto split: attempt.splits if_splits)
    then show ?thesis by (intro exI [of _ 0]) auto
  qed
qed auto

text \<open>
  C39. The request makes at most four attempts and sleeps three and a half seconds at most: the delays
  are a beginning of half a second, one and two.  The loop never ends without an answer, so the
  error for an exceeded limit cannot occur.
\<close>
theorem fetch_is_bounded:
  "(\<exists>k. fst (fetch_feature_flags_payload en tries) = take k [500, 1000, 2000]) \<and>
   snd (fetch_attempts en tries [1..<FEATURE_FLAGS_MAX_RETRIES + 2] []) \<noteq> Inr None"
proof -
  have upt: "[1..<FEATURE_FLAGS_MAX_RETRIES + 2] = [1, 2, 3, 4]" by (simp add: FEATURE_FLAGS_MAX_RETRIES_def upt_rec)
  obtain ds q where q: "fetch_attempts en tries [1, 2, 3, 4] [] = (ds, q)" by (rule prod.exhaust)
  from fetch_delays [OF q] obtain k where k: "ds = map retry_delay (take k [1, 2, 3, 4])"
    "\<forall>n\<in>set (take k [1, 2, 3, 4]). n \<le> FEATURE_FLAGS_MAX_RETRIES" "q \<noteq> Inr None"
    by (auto simp: FEATURE_FLAGS_MAX_RETRIES_def)
  have "k \<le> 3"
  proof (rule ccontr)
    assume "\<not> k \<le> 3"
    then have "take k [1, 2, 3, 4] = [1, 2, 3, 4 :: nat]" by (intro take_all) simp
    with k(2) show False by (simp add: FEATURE_FLAGS_MAX_RETRIES_def)
  qed
  then have "take k [1, 2, 3, 4] = take k [1, 2, 3 :: nat]" by (auto simp: take_Cons')
  then have "ds = take k [500, 1000, 2000]"
    by (simp add: k(1) take_map [symmetric] retry_delay_def FEATURE_FLAGS_RETRY_DELAYS_def)
  moreover have "fetch_feature_flags_payload en tries = (ds, bindE q parse_flags_body)"
    by (simp only: fetch_feature_flags_payload_def upt q prod.case)
  ultimately show ?thesis using k(3) by (simp only: upt q fst_conv snd_conv) blast
qed

section \<open>The values of a session\<close>

datatype flags_op =
    RefreshStarted
  | RefreshEnded "nat \<Rightarrow> attempt" save_outcome
  | FlagRead feature

fun flags_step :: "float_reader \<Rightarrow> config_sources \<Rightarrow> errno_numbers \<Rightarrow> flags_op \<Rightarrow> flag_store \<Rightarrow> flag_store" where
  "flags_step fr cs en RefreshStarted st = fst (refresh_async st)"
| "flags_step fr cs en (RefreshEnded tries outcome) st = fst (refresh_worker fr en tries outcome st)"
| "flags_step fr cs en (FlagRead f) st = fst (resolve_value fr cs f st)"

definition flags_run ::
    "float_reader \<Rightarrow> config_sources \<Rightarrow> errno_numbers \<Rightarrow> flags_op list \<Rightarrow> flag_store \<Rightarrow> flag_store" where
  "flags_run fr cs en ops st = fold (flags_step fr cs en) ops st"

text \<open>The type of the value of a flag; a sample rate lies between zero and one.\<close>

fun flag_typed :: "feature \<Rightarrow> flag_value \<Rightarrow> bool" where
  "flag_typed SampleRate v \<longleftrightarrow> (\<exists>q. v = FlagRate (PyNum q) \<and> 0 \<le> q \<and> q \<le> 1)"
| "flag_typed VersionFeature v \<longleftrightarrow> (\<exists>f xs. v = FlagVersion f \<and> parse_semantic_version (vf_min_version f) = Inr (Some xs))"
| "flag_typed f v \<longleftrightarrow> (\<exists>b. v = FlagBool b)"

definition flags_typed :: "flag_store \<Rightarrow> bool" where
  "flags_typed st \<longleftrightarrow> (\<forall>f v. dict_get (fl_values st) f = Some (Some v) \<longrightarrow> flag_typed f v) \<and>
     (\<forall>f. dict_get (fl_values st) f = Some None \<longrightarrow> f = VersionFeature)"

lemma clamp_range: "\<exists>q. clamp_rate f = PyNum q \<and> 0 \<le> q \<and> q \<le> 1"
  by (cases f) (auto simp: clamp_rate_def)

lemma to_sample_rate_range: "to_sample_rate fr v = Inr (Some f) \<Longrightarrow> \<exists>q. f = PyNum q \<and> 0 \<le> q \<and> q \<le> 1"
  using clamp_range by (auto simp: to_sample_rate_def exn_simps split: json.splits)

lemma extract_typed: "extract_feature fr f p = Inr (Some v) \<Longrightarrow> flag_typed f v"
proof (cases f)
  case SampleRate
  assume "extract_feature fr f p = Inr (Some v)"
  then show ?thesis using to_sample_rate_range
    by (auto simp: SampleRate exn_simps extract_root_trace_sample_rate_def split: option.splits)
next
  case VersionFeature
  assume "extract_feature fr f p = Inr (Some v)"
  then show ?thesis
    by (auto simp: VersionFeature exn_simps extract_version_flag_def Let_def bind_eq_Some_conv split: option.splits json.splits if_splits)
qed (auto simp: exn_simps)

lemma default_typed: "default_value fr cs f = Inr (Some v) \<Longrightarrow> flag_typed f v"
  by (cases f) (auto simp: exn_simps DEFAULT_ROOT_TRACE_SAMPLE_RATE_def)

lemma default_present: "default_value fr cs f = Inr None \<Longrightarrow> f = VersionFeature"
  by (cases f) (auto simp: exn_simps)

lemma merge_one:
  "dict_get (fl_values (merge_remote remote st)) f =
     (case dict_get (fl_values st) f of
        Some (Some v) \<Rightarrow> Some (Some v)
      | old \<Rightarrow> (case find (\<lambda>(g, r). g = f \<and> r \<noteq> None) remote of Some (_, r) \<Rightarrow> Some r | None \<Rightarrow> old))"
proof (induction remote arbitrary: st)
  case Nil
  then show ?case by (auto simp: merge_remote_def split: option.split)
next
  case (Cons gr remote)
  obtain g r where gr: "gr = (g, r)" by (rule prod.exhaust)
  let ?st = "merge_remote [gr] st"
  have "merge_remote (gr # remote) st = merge_remote remote ?st" by (simp add: merge_remote_def)
  with Cons [of ?st] show ?case
    by (auto simp: gr merge_remote_def split: option.splits if_splits)
qed

lemma refresh_values:
  "fl_values (fst (refresh_worker fr en tries outcome st)) = fl_values st \<or>
   (\<exists>p remote. extract_all fr p = Inr remote \<and>
      fl_values (fst (refresh_worker fr en tries outcome st)) = fl_values (merge_remote remote st))"
  by (auto simp: refresh_worker_def merge_remote_def Let_def split: sum.split)

lemma extract_all_sound: "extract_all fr p = Inr remote \<Longrightarrow> (f, r) \<in> set remote \<Longrightarrow> extract_feature fr f p = Inr r"
proof -
  assume all: "extract_all fr p = Inr remote" and member: "(f, r) \<in> set remote"
  from all have "list_all2 (\<lambda>f gr. bindE (extract_feature fr f p) (\<lambda>r. Inr (f, r)) = Inr gr) remote_features remote"
    by (simp add: extract_all_def mapE_Inr_iff)
  with member obtain g where "bindE (extract_feature fr g p) (\<lambda>r. Inr (g, r)) = Inr (f, r)"
    by (auto simp: list_all2_conv_all_nth in_set_conv_nth)
  then show ?thesis by (auto simp: exn_simps)
qed

lemma resolve_get:
  "dict_get (fl_values (fst (resolve_value fr cs f st))) g = dict_get (fl_values st) g \<or>
   (g = f \<and> dict_get (fl_values st) f = None \<and>
     (\<exists>v. dict_get (fl_values (fst (resolve_value fr cs f st))) f = Some v \<and>
        ((\<exists>p. extract_feature fr f p = Inr v \<and> v \<noteq> None) \<or> default_value fr cs f = Inr v)))"
  by (auto simp: resolve_value_def split: option.split sum.split if_splits)

lemma merge_get_cases:
  assumes "dict_get (fl_values (merge_remote remote st)) f = Some v"
  shows "dict_get (fl_values st) f = Some v \<or> (\<exists>w. v = Some w \<and> (f, Some w) \<in> set remote)"
proof (cases "find (\<lambda>(g, r). g = f \<and> r \<noteq> None) remote")
  case (Some gr)
  then have "gr \<in> set remote" "fst gr = f" "snd gr \<noteq> None"
    using nth_mem by (fastforce simp: find_Some_iff)+
  with assms Some show ?thesis by (cases gr) (auto simp: merge_one split: option.splits)
qed (use assms in \<open>auto simp: merge_one split: option.splits\<close>)

lemma flags_step_typed:
  assumes "flags_typed st"
  shows "flags_typed (flags_step fr cs en op st)"
proof (cases op)
  case RefreshStarted
  with assms show ?thesis by (simp add: refresh_async_def flags_typed_def)
next
  case (RefreshEnded tries outcome)
  show ?thesis
    unfolding flags_typed_def RefreshEnded flags_step.simps
  proof (intro conjI allI impI)
    fix f v
    assume "dict_get (fl_values (fst (refresh_worker fr en tries outcome st))) f = Some (Some v)"
    with refresh_values [of fr en tries outcome st] assms show "flag_typed f v"
      by (auto simp: flags_typed_def dest!: merge_get_cases extract_all_sound extract_typed)
  next
    fix f
    assume "dict_get (fl_values (fst (refresh_worker fr en tries outcome st))) f = Some None"
    with refresh_values [of fr en tries outcome st] assms show "f = VersionFeature"
      by (auto simp: flags_typed_def dest!: merge_get_cases)
  qed
next
  case (FlagRead f)
  show ?thesis
    unfolding flags_typed_def FlagRead flags_step.simps
  proof (intro conjI allI impI)
    fix g v
    assume "dict_get (fl_values (fst (resolve_value fr cs f st))) g = Some (Some v)"
    with resolve_get [of fr cs f st g] assms show "flag_typed g v"
      by (auto simp: flags_typed_def dest: extract_typed default_typed)
  next
    fix g
    assume "dict_get (fl_values (fst (resolve_value fr cs f st))) g = Some None"
    with resolve_get [of fr cs f st g] assms show "g = VersionFeature"
      by (auto simp: flags_typed_def dest: default_present)
  qed
qed

text \<open>
  Every flag keeps its type: over any run a truth value stands under the flags of the features, a
  readable version under the version, and under the sample rate a number from zero to one, whatever
  the server, the cache and the configuration contain.
\<close>
theorem flags_keep_types:
  assumes "flags_typed st"
  shows "flags_typed (flags_run fr cs en ops st)"
  using assms unfolding flags_run_def by (induction ops arbitrary: st) (simp_all add: flags_step_typed)

text \<open>The values of a session form a store whose entries no longer move once they are set.\<close>

lemma flags_step_keeps:
  assumes "dict_get (fl_values st) f = Some (Some v)"
  shows "dict_get (fl_values (flags_step fr cs en op st)) f = Some (Some v)"
proof (cases op)
  case (RefreshEnded tries outcome)
  with refresh_values [of fr en tries outcome st] assms show ?thesis by (auto simp: merge_one)
next
  case (FlagRead g)
  with resolve_get [of fr cs g st f] assms show ?thesis by auto
qed (use assms in \<open>simp add: refresh_async_def\<close>)


section \<open>A version that cannot be read\<close>

text \<open>
  C40. A payload whose minimal version starts a part with digits that \<^verbatim>\<open>int\<close> refuses is saved
  before it is looked at.  The refresh dies of the exception, no flag of the payload is taken, and
  from then on every session raises when it asks for the version, until another refresh succeeds.
\<close>
theorem unreadable_version_poisons_cache:
  assumes "snd (fetch_feature_flags_payload en tries) = Inr p" and "extract_version_flag fr p = Inl (ValueError m)"
    and "extract_root_trace_sample_rate fr p = Inr r"
    and "refresh_worker fr en tries Saved st = (st1, result)"
  shows "result = Inl (ValueError m) \<and> fl_values st1 = fl_values st \<and>
     snd (get_version_feature_flag fr cs \<lparr>fl_values = [], fl_refreshing = False, fl_cache = fl_cache st1\<rparr>) = Inl (ValueError m)"
proof -
  have "extract_all fr p = Inl (ValueError m)"
    using assms(2,3) by (simp add: extract_all_def remote_features_def exn_simps)
  then have "st1 = st\<lparr>fl_cache := CacheHolds (JObj p), fl_refreshing := False\<rparr>" "result = Inl (ValueError m)"
    using assms(1,4) by (simp_all add: refresh_worker_def save_cached_flags_def Let_def)
  with assms(2) show ?thesis
    by (simp add: get_version_feature_flag_def resolve_value_def load_cached_flags_def dict_get_def)
qed

section \<open>Examples\<close>

definition no_floats :: float_reader where "no_floats t = None"

definition plain_sources :: config_sources where
  "plain_sources = \<lparr>cf_build_vars = None, cf_config_file = None\<rparr>"

definition plain_numbers :: errno_numbers where
  "plain_numbers = \<lparr>en_host_unreachable = 113, en_net_unreachable = 101, en_timed_out = 110, en_connection_reset = 104\<rparr>"

definition first_session :: flag_store where
  "first_session = \<lparr>fl_values = [], fl_refreshing = False, fl_cache = NoCache\<rparr>"

text \<open>A minimal version whose second part is a superscript two.\<close>

definition odd_payload :: payload where
  "odd_payload = [(''version'', JObj [(''min'', JStr (''1.'' @ [CHR 0xB2])), (''required'', JBool True)])]"

definition odd_tries :: "nat \<Rightarrow> attempt" where
  "odd_tries n = (if n = 1 then UrlFailed (ReasonText ''timed out'') else Answered (Some 200) (utf8_encode (json_dumps False (JObj odd_payload))))"

lemma odd_fetched: "snd (fetch_feature_flags_payload plain_numbers odd_tries) = Inr odd_payload"
proof -
  have ok: "json_ok (JObj odd_payload)" and sorted: "json_sorted (JObj odd_payload) = JObj odd_payload" by code_simp+
  have temporary: "is_temporary_url_error plain_numbers (ReasonText ''timed out'')" by code_simp
  have "fetch_attempts plain_numbers odd_tries [1, 2, 3, 4] [] = ([500], Inr (Some (utf8_encode (json_dumps False (JObj odd_payload)))))"
    using temporary by (simp add: odd_tries_def FEATURE_FLAGS_MAX_RETRIES_def retry_delay_def FEATURE_FLAGS_RETRY_DELAYS_def)
  moreover have "[1..<FEATURE_FLAGS_MAX_RETRIES + 2] = [1, 2, 3, 4]" by (simp add: FEATURE_FLAGS_MAX_RETRIES_def upt_rec)
  moreover have "parse_flags_body (Some (utf8_encode (json_dumps False (JObj odd_payload)))) = Inr odd_payload"
    using json_roundtrip [OF ok, of False] sorted by (simp add: parse_flags_body_def utf8_roundtrip)
  ultimately show ?thesis by (simp only: fetch_feature_flags_payload_def prod.case snd_conv bindE_Inr)
qed

lemma odd_version: "extract_version_flag no_floats odd_payload =
    Inl (ValueError (''invalid literal for int() with base 10: '' @ quoted [CHR 0xB2]))"
  by code_simp

lemma unreadable_version_poisons_cache_witness:
  "snd (refresh_worker no_floats plain_numbers odd_tries Saved first_session) =
     Inl (ValueError (''invalid literal for int() with base 10: '' @ quoted [CHR 0xB2])) \<and>
   snd (get_version_feature_flag no_floats plain_sources \<lparr>fl_values = [], fl_refreshing = False,
     fl_cache = fl_cache (fst (refresh_worker no_floats plain_numbers odd_tries Saved first_session))\<rparr>) =
     Inl (ValueError (''invalid literal for int() with base 10: '' @ quoted [CHR 0xB2]))"
proof -
  have rate: "extract_root_trace_sample_rate no_floats odd_payload = Inr None" by code_simp
  show ?thesis
    using unreadable_version_poisons_cache [OF odd_fetched odd_version rate, where st = first_session and cs = plain_sources, OF prod.collapse [symmetric]]
    by blast
qed

lemma older_is_linear_order_witness:
  "is_version_older ''1.9'' ''1.10.0'' = Inr (version_of_parts [1, 9] < version_of_parts [1, 10]) \<and>
   (version_of_parts [1, 9] = version_of_parts [1, 10] \<longleftrightarrow> [1, 9 :: nat] = [1, 10])"
proof -
  have parts: "parse_parts (split_char (CHR ''.'') ''1.9'') [] = Inr (Some [1, 9])"
    "parse_parts (split_char (CHR ''.'') ''1.10.0'') [] = Inr (Some [1, 10, 0])"
    "py_strip ''1.9'' = ''1.9''" "py_strip ''1.10.0'' = ''1.10.0''" by code_simp+
  have "drop_trailing_zeros [1, 9] = [1, 9]" "drop_trailing_zeros [1, 10, 0] = [1, 10]"
    by (simp_all add: drop_trailing_zeros.simps)
  with parts show ?thesis
    by (intro older_is_linear_order) (simp_all add: parse_semantic_version_def Let_def)
qed

lemma flags_keep_types_witness:
  "flags_typed (flags_run no_floats plain_sources plain_numbers
     [FlagRead SampleRate, RefreshStarted, RefreshEnded odd_tries Saved, FlagRead MobileFolder] first_session)"
  by (rule flags_keep_types) (simp add: flags_typed_def first_session_def dict_get_def)


end
