(* ===== verification/Spec2Isabelle.thy ===== *)
theory Spec2Isabelle
  imports AoaFrameCodec TrustProof BackupStateMachine AppDb PairingStoreProps AssetUploadStream
    TransferServiceProps PairingGatewayProps TransportUploads IndexScenarios ShareScenarios
    FeatureFlagsProps
begin

text \<open>
  A verification development for the photo search application \<^verbatim>\<open>dt_image_search\<close>: the
  backup of phones to the desktop, the image index behind the search, and the instant share of texts
  and images between a phone and the desktop.

  \<^bold>\<open>The program.\<close>  A desktop application keeps folders of photos in an SQLite database
  (\<^verbatim>\<open>model/dts_db.py\<close>), builds a vector index for each folder with a CLIP model
  (\<^verbatim>\<open>index/\<close>) and searches all of them (\<^verbatim>\<open>search/\<close>).  A phone is paired by a QR
  code that carries a session, two tokens and a passcode; it claims the session over one of three
  transports, gets a folder of its own, and sends its photos into it
  (\<^verbatim>\<open>mobile/\<close>, \<^verbatim>\<open>mobile/transport/\<close>).  The two halves meet in the database: the folder
  of a phone is a folder of the index.  A second program (\<^verbatim>\<open>src/instant_sharing/\<close>) receives
  texts and images that a phone shares, and offers its own behind a QR code; a phone proves that it
  knows a short secret once, and signs its requests with a certificate from then on.

  \<^bold>\<open>Reading the model.\<close>  A Python exception is the left side of a sum (\<open>pyexn\<close>, \<open>'a res\<close>); the
  state a function changes is an argument and part of its result, also when it raises.  A table is
  the list of its rows, a dictionary an association list in insertion order, text a list of the
  code points 0 to 255, bytes are \<open>8 word\<close>.  What the sources call and do not contain is a
  parameter: SHA-1, SHA-256, HMAC and AES-GCM, random numbers, the clock, the file system's errors,
  the drivers and sockets of the transports (as the lists of events they yield), PyTorch, Pillow,
  FAISS and the process pool (as the fields of an environment, one per call).  Threads are sequences
  of the operations that run under one lock.

  \<^bold>\<open>The library.\<close>
  \<^item> \<open>Prelude\<close>: the exception monad, bytes, text and number formatting, dictionaries (the locale
    \<open>keyed_store\<close> with its interpretation on them), JSON values.
  \<^item> \<open>PyTime\<close>, \<open>PyFiles\<close>, \<open>Json\<close>: the parts of \<^verbatim>\<open>datetime\<close>, \<^verbatim>\<open>pathlib\<close> and
    \<^verbatim>\<open>os\<close>, and \<^verbatim>\<open>json\<close> that the sources use: ISO texts of times, a file system
    that may fail at any call, printing and parsing of JSON.

  \<^bold>\<open>The database.\<close>
  \<^item> \<open>AppDb\<close> (\<^verbatim>\<open>model/dts_db.py\<close>): the tables, their queries and updates, the invariant
    \<open>files_ok\<close> and its preservation along \<open>file_step\<close>.
  \<^item> \<open>PairingStore\<close>, \<open>PairingStoreProps\<close> (\<^verbatim>\<open>mobile_pairing_store.py\<close>): phones, their
    folders, sessions and asset records, with the invariant \<open>mobile_ok\<close>; the locales
    \<open>folder_store\<close> and \<open>transfer_store\<close> are the contracts that the services rely on.

  \<^bold>\<open>The backup.\<close>
  \<^item> \<open>BackupStateMachine\<close>: states, events and the transition table.
  \<^item> \<open>TrustProof\<close>, \<open>PayloadEncryption\<close>: proofs over canonical JSON, encrypted payloads and chunks,
    with their round trips.
  \<^item> \<open>PairingSession\<close>, \<open>PairingService\<close>, \<open>PairingServiceProps\<close>, \<open>PairingScenarios\<close>: tokens and
    sessions, the claim of a phone, acceptance, the question about a replaced phone, and closing.
    The record of the open session follows the transition table, an accepted claim carried the
    passcode and authorizes the phone, and the tables stay consistent.
  \<^item> \<open>TransferRequests\<close>, \<open>TransferFiles\<close>, \<open>TransferFilesProps\<close>, \<open>TransferService\<close>,
    \<open>TransferServiceProps\<close> (\<^verbatim>\<open>mobile_transfer_service.py\<close>): parsing, the files that are
    written, and the four handlers.  A transfer needs a proof and refines the life cycle of a
    session; an answer that a photo is stored is true; a file that exists is never overwritten.
  \<^item> \<open>AssetUploadStream\<close>: uploads that arrive in chunks, interleaved.
  \<^item> \<open>MobileServices\<close>: capability exchange and update prompt.
  \<^item> \<open>PairingGateway\<close>, \<open>PairingGatewayProps\<close>: the router and the dispatch of every operation with
    encryption; a paired phone can transfer, and encryption does not change what a request does.

  \<^bold>\<open>The transports.\<close>
  \<^item> \<open>AoaFrameCodec\<close>: the frames of the Android accessory stream.
  \<^item> \<open>TransportEnvelope\<close>: envelopes, challenge and uploads that the two USB transports share.
  \<^item> \<open>UsbTransport\<close>, \<open>AoaTransport\<close>, \<open>LanTransport\<close>: the three adapters, from what the tunnel, the
    accessory or the HTTP client yields to what is sent back.
  \<^item> \<open>TransportProps\<close>, \<open>TransportScenarios\<close>, \<open>TransportUploads\<close>: no service without the passcode;
    the locale \<open>upload_channel\<close>, interpreted on all three adapters, shows that an upload has the same
    effect over each.

  \<^bold>\<open>The image index.\<close>
  \<^item> \<open>ImageIndex\<close> (\<^verbatim>\<open>index/dts_index.py\<close>, \<^verbatim>\<open>index/image_processor.py\<close>,
    \<^verbatim>\<open>search/search_service.py\<close>): \<open>add_to_index\<close>, \<open>build_index\<close>, \<open>append_to_index\<close>,
    \<open>delete_folder\<close>, \<open>query_index\<close> and \<open>search_folders\<close> over the database and the index files.
  \<^item> \<open>ImageIndexProps\<close>: a batch settles files (\<open>settles\<close>), so the build ends; and a state in which it
    does not.
  \<^item> \<open>IndexFaithful\<close>: \<open>indexes_faithful\<close>, the invariant that every vector belongs to its file.
  \<^item> \<open>ImageSearch\<close>: results are sound, and complete up to five hundred vectors in a folder.
  \<^item> \<open>IndexWorkers\<close>, \<open>IndexWorkersProps\<close> (\<^verbatim>\<open>index/index_worker.py\<close>): the walk against a
    reference, the queue and its progress.
  \<^item> \<open>IncrementalIndex\<close>, \<open>IncrementalProps\<close> (\<^verbatim>\<open>index/incremental_index_worker.py\<close>): file
    system events.
  \<^item> \<open>ModelLoading\<close>: the state of the model and its preload.
  \<^item> \<open>IndexScenarios\<close>: the theorems on a small library of photos.

  \<^bold>\<open>Instant share\<close> (\<^verbatim>\<open>src/instant_sharing/\<close>).
  \<^item> \<open>ShareContracts\<close> (\<^verbatim>\<open>contracts.py\<close>, \<^verbatim>\<open>errors.py\<close>, \<^verbatim>\<open>mdns.py\<close>):
    enumerations, errors, metadata, headers, and the configuration of a connection.
  \<^item> \<open>ShareSessions\<close>, \<open>ShareSessionsProps\<close> (\<^verbatim>\<open>session.py\<close>,
    \<^verbatim>\<open>orchestrator.py\<close>): the registry \<open>session_registry\<close>, its contract \<open>registry_ok\<close> and
    its steps \<open>registry_step\<close>; the locale \<open>forward_store\<close> (entries of a store only move forward) is
    interpreted on it and on the stashes.
  \<^item> \<open>ShareDelivery\<close>, \<open>ShareDeliveryProps\<close> (\<^verbatim>\<open>delivery.py\<close>,
    \<^verbatim>\<open>transfer_server.py\<close>, \<^verbatim>\<open>session_id_generator.py\<close>): clipboard, downloads
    directory, and the identifiers of links.
  \<^item> \<open>ShareTrust\<close>, \<open>ShareTrustProps\<close> (\<^verbatim>\<open>trust_crypto.py\<close>, \<^verbatim>\<open>security.py\<close>,
    \<^verbatim>\<open>trust_server.py\<close>): envelopes, the proof of the short secret, trust sessions.
  \<^item> \<open>ShareStash\<close> (\<^verbatim>\<open>qr_trigger_handler.py\<close>): stashes, from the trigger to the download.
  \<^item> \<open>ShareServer\<close>, \<open>ShareServerProps\<close> (\<^verbatim>\<open>https_bootstrap.py\<close>,
    \<^verbatim>\<open>https_tls_server.py\<close>): \<open>serve\<close> answers every route over the state \<open>receiver\<close>; the locale
    \<open>request_relation\<close> carries a relation over an upload and is interpreted three times.  Trust is
    earned by the secret only, transfers are signed, and the contract \<open>receiver_ok\<close> holds over every
    run of requests, triggers and timers.
  \<^item> \<open>ShareScenarios\<close>: the theorems on a small receiver.

  \<^bold>\<open>Flags.\<close>
  \<^item> \<open>FeatureFlags\<close>, \<open>FeatureFlagsProps\<close> (\<^verbatim>\<open>src/pc_common/model/feature_flags.py\<close>,
    \<^verbatim>\<open>dts_config.py\<close>): the request with its retries, the cache, the extraction of the flags, and
    the values of a session, which are stable once read; the comparison of versions is that of the
    linear order of the type \<open>sem_version\<close>.

  \<^bold>\<open>Loops and bounds.\<close>  The parser of JSON runs on a fuel of twice the length of the text and two
  more, which is enough for every text (\<open>fuel_enough\<close>).  The search for a free file or folder name
  tries one candidate more than there are names, so one is free (\<open>conflict_free_path_found\<close>,
  \<open>unique_name_found\<close>, \<open>output_path_found\<close>).  The loop of \<open>build_index\<close> is a partial function in the option monad:
  \<open>None\<close> is a loop that never ends, and \<open>build_index_terminates\<close> says when it returns.  All other
  loops are structural or decrease the length of a list.

  \<^bold>\<open>Limits.\<close>  Text beyond Latin-1, floating point numbers (their texts are kept; scores are a
  linear order, so without NaN), and the reading of the request line by \<^verbatim>\<open>http.server\<close> are
  outside the model.  A database statement never fails for want of the file or a lock; keys and
  unique columns are checked.  Concurrency is the order of whole operations: two workers inside one
  build are not interleaved, except in the state from which \<open>reinserted_file_spins\<close> starts.

  \<^bold>\<open>Not modelled.\<close>  The Qt windows, dialogs, models and controllers, and the index server, whose
  behaviour is that of their frameworks; the drivers of USB, usbmux and zeroconf, and the
  installation of Apple's services, which are calls of the operating system; the watchdog
  registration; the HTTP transfer of the model; telemetry and log messages; the creation of the
  device's identity; the windows, sockets and start-up of the instant share agent, and its X.509,
  X25519 and keychain calls, which are parameters; scripts, tests, vendored packages, and the phone
  applications in Swift and Kotlin.
\<close>

end
